(* ===== verification/Bx_Prelude.thy ===== *)
theory Bx_Prelude
  imports Main "HOL-Library.Word" "HOL-Library.Monad_Syntax"
begin

text \<open>
  Shared vocabulary of the development: machine types, pointers that may be NULL,
  checked array accesses (an access out of range is \<open>None\<close>, so that a proof that an
  operation returns \<open>Some\<close> is a proof of memory safety), the error codes of
  \<open>src/src/include/bxill.h\<close>, and the C library functions on strings that the sources
  call (\<open>strtol\<close> and its kin, \<open>printf\<close> of a decimal number, \<open>strcasecmp\<close>).
\<close>

section \<open>Types\<close>

type_synonym u8 = "8 word"
type_synonym u32 = "32 word"
type_synonym u64 = "64 word"

text \<open>A C pointer that the code compares with NULL before it follows it.\<close>

datatype 'a ptr = NULL | Ptr 'a

text \<open>The error codes that every walker and every synchronisation returns.\<close>

datatype BXillError =
    NoError | ErrorGeneric | ErrorSQLGeneric | ErrorSQLInsert | ErrorSQLUpdate
  | ErrorSQLSelect | ErrorSQLReconnect | ErrorNet | ErrorJSON | ErrorDuplicateEntry
  | Error_MAX

named_theorems mem_simps \<open>checked memory accesses that are in range\<close>

section \<open>Checked memory accesses\<close>

definition rd :: "'a list \<Rightarrow> nat \<Rightarrow> 'a option" where
  "rd xs i = (if i < length xs then Some (xs ! i) else None)"

definition wr :: "'a list \<Rightarrow> nat \<Rightarrow> 'a \<Rightarrow> 'a list option" where
  "wr xs i v = (if i < length xs then Some (xs[i := v]) else None)"

definition fill :: "'a list \<Rightarrow> nat \<Rightarrow> nat \<Rightarrow> 'a \<Rightarrow> 'a list option" where
  \<comment> \<open>\<open>memset\<close> of \<open>n\<close> cells from cell \<open>i\<close>\<close>
  "fill xs i n v =
     (if i + n \<le> length xs then Some (take i xs @ replicate n v @ drop (i + n) xs) else None)"

definition move :: "'a list \<Rightarrow> nat \<Rightarrow> nat \<Rightarrow> nat \<Rightarrow> 'a list option" where
  \<comment> \<open>\<open>memmove\<close> of \<open>n\<close> cells from cell \<open>src\<close> to cell \<open>dst\<close>\<close>
  "move xs dst src n =
     (if dst + n \<le> length xs \<and> src + n \<le> length xs
      then Some (take dst xs @ take n (drop src xs) @ drop (dst + n) xs) else None)"

lemma rd_Some [mem_simps]: "i < length xs \<Longrightarrow> rd xs i = Some (xs ! i)"
  by (simp add: rd_def)

lemma wr_Some [mem_simps]: "i < length xs \<Longrightarrow> wr xs i v = Some (xs[i := v])"
  by (simp add: wr_def)

lemma fill_Some [mem_simps]:
  "i + n \<le> length xs \<Longrightarrow> fill xs i n v = Some (take i xs @ replicate n v @ drop (i + n) xs)"
  by (simp add: fill_def)

lemma move_Some [mem_simps]:
  "dst + n \<le> length xs \<Longrightarrow> src + n \<le> length xs \<Longrightarrow>
   move xs dst src n = Some (take dst xs @ take n (drop src xs) @ drop (dst + n) xs)"
  by (simp add: move_def)

lemma rd_eq_Some_iff: "rd xs i = Some x \<longleftrightarrow> i < length xs \<and> x = xs ! i"
  by (auto simp: rd_def)

section \<open>Booleans\<close>

lemma ex_bool [simp]: "\<exists>b. b" "\<exists>b. \<not> b"
  by blast+

section \<open>Words as numbers\<close>

lemma unat_Suc_below:
  fixes a b :: "'a::len word"
  assumes "a < b"
  shows "unat (a + 1) = Suc (unat a)"
proof -
  have "a \<noteq> - 1"
    using assms max_word_max [of b] by (auto simp: not_le)
  then have "1 + a \<noteq> 0"
    by (metis add.commute add_eq_0_iff)
  then show ?thesis by (simp add: unatSuc add.commute)
qed

lemma unat_midpoint:
  fixes l r :: u32
  assumes "l < r"
  shows "unat (l + (r - l) div 2) = unat l + (unat r - unat l) div 2"
proof -
  have le: "l \<le> r" using assms(1) by simp
  have d: "unat ((r - l) div 2) = (unat r - unat l) div 2"
    using le by (simp add: unat_div unat_sub)
  have "unat l + unat ((r - l) div 2) < 2 ^ LENGTH(32)"
    using d assms unsigned_less [of r, where ?'a = nat] by (simp add: word_less_nat_alt)
  then show ?thesis by (simp add: unat_add_lem [THEN iffD1] d)
qed

section \<open>Bytes and C strings\<close>

text \<open>A NUL byte ends a C string; a buffer may hold more bytes after it.\<close>

definition NUL :: char where
  "NUL = CHR 0x00"

definition cstr :: "char list \<Rightarrow> string" where
  "cstr buf = takeWhile (\<lambda>c. c \<noteq> NUL) buf"

definition byte_of :: "char \<Rightarrow> u8" where
  "byte_of c = of_nat (of_char c)"

definition le_bytes :: "nat \<Rightarrow> 'a::len word \<Rightarrow> u8 list" where
  \<comment> \<open>the first \<open>n\<close> bytes of an integer in memory, least significant first\<close>
  "le_bytes n w = map (\<lambda>k. ucast (drop_bit (8 * k) w)) [0..<n]"

lemma length_le_bytes [simp]: "length (le_bytes n w) = n"
  by (simp add: le_bytes_def)

lemma le_bytes_0: "le_bytes 0 w = []"
  by (simp add: le_bytes_def)

lemma le_bytes_Suc: "le_bytes (Suc n) w = ucast w # le_bytes n (drop_bit 8 w)"
  by (simp add: le_bytes_def upt_conv_Cons drop_bit_drop_bit add.commute comp_def
      flip: map_Suc_upt del: upt_Suc)

text \<open>The sign of \<open>strcmp\<close>: bytes compare as unsigned numbers, a prefix is smaller.\<close>

fun strcmp :: "string \<Rightarrow> string \<Rightarrow> int" where
  "strcmp [] [] = 0"
| "strcmp [] (y # ys) = - 1"
| "strcmp (x # xs) [] = 1"
| "strcmp (x # xs) (y # ys) =
     (if (of_char x :: nat) < of_char y then - 1
      else if (of_char y :: nat) < of_char x then 1 else strcmp xs ys)"

lemma strcmp_eq_0_iff: "strcmp xs ys = 0 \<longleftrightarrow> xs = ys"
  by (induction xs ys rule: strcmp.induct) (auto simp: not_less dest: antisym)

lemma strcmp_refl [simp]: "strcmp xs xs = 0"
  by (simp add: strcmp_eq_0_iff)

lemma strcmp_antisym: "strcmp ys xs = - strcmp xs ys"
  by (induction xs ys rule: strcmp.induct) auto

definition is_digit :: "char \<Rightarrow> bool" where
  "is_digit c \<longleftrightarrow> 48 \<le> (of_char c :: nat) \<and> (of_char c :: nat) \<le> 57"

definition digit_val :: "char \<Rightarrow> nat" where
  "digit_val c = of_char c - 48"

definition is_space :: "char \<Rightarrow> bool" where
  "is_space c \<longleftrightarrow> c = CHR '' '' \<or> (9 \<le> (of_char c :: nat) \<and> (of_char c :: nat) \<le> 13)"

definition to_lower :: "char \<Rightarrow> char" where
  "to_lower c = (if 65 \<le> (of_char c :: nat) \<and> (of_char c :: nat) \<le> 90
                 then char_of (of_char c + 32 :: nat) else c)"

definition strcaseeq :: "string \<Rightarrow> string \<Rightarrow> bool" where
  \<comment> \<open>\<open>strcasecmp (a, b) == 0\<close>\<close>
  "strcaseeq a b \<longleftrightarrow> map to_lower a = map to_lower b"

section \<open>Decimal numbers\<close>

fun dec_nat :: "nat \<Rightarrow> string" where
  "dec_nat n = (if n < 10 then [char_of (48 + n)]
                else dec_nat (n div 10) @ [char_of (48 + n mod 10)])"

declare dec_nat.simps [simp del]

definition dec_int :: "int \<Rightarrow> string" where
  "dec_int i = (if i < 0 then CHR ''-'' # dec_nat (nat (- i)) else dec_nat (nat i))"

definition digits_val :: "nat \<Rightarrow> string \<Rightarrow> nat" where
  "digits_val acc ds = foldl (\<lambda>a c. 10 * a + digit_val c) acc ds"

text \<open>
  \<open>strtol\<close> and \<open>strtoll\<close> in base 10 on a 64-bit \<open>long\<close>: leading white space, an
  optional sign, digits. The result is the value, saturated at the ends of the range, and
  what is left of the string; \<open>None\<close> when there is no digit to convert (the functions then
  return 0 and leave the end pointer at the start).
\<close>

definition LONG_MAX :: int where
  "LONG_MAX = 9223372036854775807"

definition LONG_MIN :: int where
  "LONG_MIN = - 9223372036854775808"

definition saturate :: "int \<Rightarrow> int" where
  "saturate v = max LONG_MIN (min LONG_MAX v)"

definition strtol_digits :: "int \<Rightarrow> string \<Rightarrow> (int \<times> string) option" where
  "strtol_digits sign s =
     (let ds = takeWhile is_digit s in
      if ds = [] then None
      else Some (saturate (sign * int (digits_val 0 ds)), dropWhile is_digit s))"

definition strtol :: "string \<Rightarrow> (int \<times> string) option" where
  "strtol s =
     (case dropWhile is_space s of
        [] \<Rightarrow> None
      | c # r \<Rightarrow>
          if c = CHR ''-'' then strtol_digits (- 1) r
          else if c = CHR ''+'' then strtol_digits 1 r
          else strtol_digits 1 (c # r))"

definition strtol_value :: "string \<Rightarrow> int" where
  "strtol_value s = (case strtol s of None \<Rightarrow> 0 | Some (v, _) \<Rightarrow> v)"

lemma of_char_char_of_less: "n < 256 \<Longrightarrow> (of_char (char_of n) :: nat) = n"
  by (simp add: of_char_of)

lemma is_digit_dec: "n < 10 \<Longrightarrow> is_digit (char_of (48 + n :: nat))"
  by (simp add: is_digit_def of_char_char_of_less)

lemma digit_val_dec: "n < 10 \<Longrightarrow> digit_val (char_of (48 + n :: nat)) = n"
  by (simp add: digit_val_def of_char_char_of_less)

lemma dec_nat_not_Nil [simp]: "dec_nat n \<noteq> []"
  by (subst dec_nat.simps) simp

lemma dec_nat_digits: "list_all is_digit (dec_nat n)"
proof (induction n rule: dec_nat.induct)
  case (1 n)
  then show ?case by (subst dec_nat.simps) (simp add: is_digit_dec)
qed

lemma digits_val_dec_nat: "digits_val 0 (dec_nat n) = n"
proof (induction n rule: dec_nat.induct)
  case (1 n)
  then show ?case by (subst dec_nat.simps) (simp add: digits_val_def digit_val_dec)
qed

lemma takeWhile_digits:
  "list_all is_digit ds \<Longrightarrow> (\<forall>c r'. r = c # r' \<longrightarrow> \<not> is_digit c) \<Longrightarrow>
   takeWhile is_digit (ds @ r) = ds \<and> dropWhile is_digit (ds @ r) = r"
  by (induction ds) (auto intro: takeWhile_eq_Nil_iff [THEN iffD2] dropWhile_eq_self_iff [THEN iffD2] list.exhaust [of r])

lemma digit_not_sign: "is_digit c \<Longrightarrow> c \<noteq> CHR ''-'' \<and> c \<noteq> CHR ''+'' \<and> \<not> is_space c"
  by (auto simp: is_digit_def is_space_def)

lemma strtol_dec_nat:
  assumes "\<forall>c r'. r = c # r' \<longrightarrow> \<not> is_digit c"
  shows "strtol (dec_nat n @ r) = Some (saturate (int n), r)"
proof -
  obtain d ds where d: "dec_nat n = d # ds" by (cases "dec_nat n") auto
  have dig: "is_digit d" using dec_nat_digits [of n] d by simp
  have "dropWhile is_space (dec_nat n @ r) = d # (ds @ r)"
    using digit_not_sign [OF dig] by (simp add: d)
  then have "strtol (dec_nat n @ r) = strtol_digits 1 (dec_nat n @ r)"
    using digit_not_sign [OF dig] by (simp add: strtol_def d)
  also have "\<dots> = Some (saturate (int n), r)"
    using takeWhile_digits [OF dec_nat_digits assms, of n]
    by (simp add: strtol_digits_def digits_val_dec_nat Let_def)
  finally show ?thesis .
qed

lemma strtol_minus_dec_nat:
  assumes "\<forall>c r'. r = c # r' \<longrightarrow> \<not> is_digit c"
  shows "strtol (CHR ''-'' # dec_nat n @ r) = Some (saturate (- int n), r)"
  using takeWhile_digits [OF dec_nat_digits assms, of n]
  by (simp add: strtol_def is_space_def strtol_digits_def digits_val_dec_nat Let_def)

text \<open>Printing and reading a 64-bit signed number.\<close>

lemma strtol_dec_int:
  assumes "\<forall>c r'. r = c # r' \<longrightarrow> \<not> is_digit c"
  shows "strtol (dec_int i @ r) = Some (saturate i, r)"
  using strtol_dec_nat [OF assms, of "nat i"] strtol_minus_dec_nat [OF assms, of "nat (- i)"]
  by (auto simp: dec_int_def)

lemma strtol_value_dec_int: "strtol_value (dec_int i) = saturate i"
  using strtol_dec_int [of "[]" i] by (simp add: strtol_value_def)

lemma saturate_id: "LONG_MIN \<le> i \<Longrightarrow> i \<le> LONG_MAX \<Longrightarrow> saturate i = i"
  by (simp add: saturate_def)

lemma strtol_bounds: "strtol s = Some (v, r) \<Longrightarrow> LONG_MIN \<le> v \<and> v \<le> LONG_MAX"
  by (auto simp: strtol_def strtol_digits_def saturate_def LONG_MIN_def LONG_MAX_def Let_def
      split: list.splits if_splits)

end
