(* ===== verification/Bx_Ids_Cache.thy ===== *)
theory Bx_Ids_Cache
  imports Bx_Prelude
begin

text \<open>
  The id cache of \<open>src/src/bx_ids_cache.c\<close>: an array of cells sorted by id, searched by
  bisection, with a version counter that stamps every id seen in the current walk. The
  array is a list whose length is the number of allocated cells; every access goes
  through the checked operations of the prelude, so \<open>None\<close> is an access outside the
  array. The abstract view of a cache is a map from ids to a checksum and the version
  the id was last seen at.
\<close>

section \<open>Data\<close>

record CacheItem =
  ci_id :: u64
  ci_checksum :: u64
  ci_last_seen :: u64

record Cache =
  c_size :: u32
  c_count :: u32
  c_version :: u64
  c_items :: "CacheItem list"

datatype CacheState = CacheOk | CacheNotSet | CacheNotSync

text \<open>
  An iterator. The pointer to the cache it walks is not a field: the cache is changed
  while it is walked, so its current content is an argument of the iterator's operations.
\<close>

record CacheIter =
  it_current :: u32
  it_version :: u64

definition CACHE_CHUNK_SIZE :: u32 where
  "CACHE_CHUNK_SIZE = 1000"

definition zero_item :: CacheItem where
  "zero_item = \<lparr>ci_id = 0, ci_checksum = 0, ci_last_seen = 0\<rparr>"

definition sizeof_item :: nat where
  "sizeof_item = 24"

section \<open>Operations\<close>

text \<open>
  \<open>alloc n\<close> says whether an allocation of \<open>n\<close> bytes succeeds. The cells a larger block
  adds are indeterminate until the \<open>memset\<close> that follows.
\<close>

definition realloc_items :: "CacheItem list \<Rightarrow> nat \<Rightarrow> CacheItem list" where
  "realloc_items xs n = take n xs @ replicate (n - length xs) zero_item"

definition grow_cache :: "(nat \<Rightarrow> bool) \<Rightarrow> Cache \<Rightarrow> (bool \<times> Cache) option" where
  "grow_cache alloc c =
     (let n = c_size c + CACHE_CHUNK_SIZE in
      if \<not> alloc (unat n * sizeof_item) then Some (False, c)
      else do {
        items \<leftarrow> fill (realloc_items (c_items c) (unat n)) (unat (c_size c))
                   (unat CACHE_CHUNK_SIZE) zero_item;
        Some (True, c\<lparr>c_items := items, c_size := n\<rparr>)
      })"

lemma midpoint_between:
  fixes l r :: u32
  assumes "l < r"
  shows "unat l \<le> unat (l + (r - l) div 2)" and "unat (l + (r - l) div 2) < unat r"
    and "l + (r - l) div 2 < r" and "unat (l + (r - l) div 2 + 1) = Suc (unat (l + (r - l) div 2))"
proof -
  show "unat l \<le> unat (l + (r - l) div 2)" "unat (l + (r - l) div 2) < unat r"
    using assms by (simp_all add: unat_midpoint word_less_nat_alt)
  then show lt: "l + (r - l) div 2 < r" by (simp add: word_less_nat_alt)
  show "unat (l + (r - l) div 2 + 1) = Suc (unat (l + (r - l) div 2))"
    by (rule unat_Suc_below [OF lt])
qed

function lower_bound_loop :: "CacheItem list \<Rightarrow> u64 \<Rightarrow> u32 \<Rightarrow> u32 \<Rightarrow> u32 option" where
  "lower_bound_loop items i left right =
     (if left < right then
        (let middle = left + (right - left) div 2 in
         case rd items (unat middle) of
           None \<Rightarrow> None
         | Some item \<Rightarrow>
             if ci_id item < i then lower_bound_loop items i (middle + 1) right
             else lower_bound_loop items i left middle)
      else Some left)"
  by pat_completeness auto

termination
  by (relation "measure (\<lambda>(items, i, l, r). unat r - unat l)")
     (use midpoint_between in \<open>fastforce simp: word_less_nat_alt\<close>)+

declare lower_bound_loop.simps [simp del]

definition lower_bound :: "Cache \<Rightarrow> u64 \<Rightarrow> u32 option" where
  "lower_bound c i = lower_bound_loop (c_items c) i 0 (c_count c)"

text \<open>A found item is its index: the code returns the address of that cell.\<close>

definition find_item :: "Cache ptr \<Rightarrow> u64 \<Rightarrow> nat ptr option" where
  "find_item p i =
     (case p of
        NULL \<Rightarrow> Some NULL
      | Ptr c \<Rightarrow>
          if c_count c = 0 then Some NULL
          else do {
            k \<leftarrow> lower_bound c i;
            if k < c_count c then do {
              item \<leftarrow> rd (c_items c) (unat k);
              Some (if ci_id item = i then Ptr (unat k) else NULL)
            } else Some NULL
          })"

definition cache_get :: "Cache ptr \<Rightarrow> u32 \<Rightarrow> nat ptr" where
  "cache_get p idx =
     (case p of NULL \<Rightarrow> NULL
      | Ptr c \<Rightarrow> if c_count c \<le> idx then NULL else Ptr (unat idx))"

fun reset_loop :: "CacheItem list \<Rightarrow> nat \<Rightarrow> nat \<Rightarrow> CacheItem list option" where
  \<comment> \<open>\<open>n\<close> cells left to visit, from cell \<open>i\<close>\<close>
  "reset_loop items i 0 = Some items"
| "reset_loop items i (Suc n) = do {
     item \<leftarrow> rd items i;
     items' \<leftarrow> wr items i (item\<lparr>ci_last_seen := 1\<rparr>);
     reset_loop items' (Suc i) n
   }"

definition cache_reset_version :: "Cache \<Rightarrow> Cache option" where
  "cache_reset_version c = do {
     items \<leftarrow> reset_loop (c_items c) 0 (unat (c_count c));
     Some (c\<lparr>c_items := items, c_version := 1\<rparr>)
   }"

definition cache_create :: "(nat \<Rightarrow> bool) \<Rightarrow> Cache ptr" where
  "cache_create alloc =
     (if alloc 24 then Ptr \<lparr>c_size = 0, c_count = 0, c_version = 1, c_items = []\<rparr> else NULL)"

definition cache_iter_init :: "Cache ptr \<Rightarrow> CacheIter" where
  "cache_iter_init p =
     \<lparr>it_current = 0, it_version = (case p of NULL \<Rightarrow> 0 | Ptr c \<Rightarrow> c_version c)\<rparr>"

lemma cache_get_below: "cache_get (Ptr c) i = Ptr k \<Longrightarrow> i < c_count c \<and> k = unat i"
  by (auto simp: cache_get_def split: if_splits)

function next_prunable_loop :: "Cache \<Rightarrow> u64 \<Rightarrow> u64 \<Rightarrow> u32 \<Rightarrow> (u64 option \<times> u32) option" where
  "next_prunable_loop c version drift current =
     (case cache_get (Ptr c) current of
        NULL \<Rightarrow> Some (None, current)
      | Ptr k \<Rightarrow>
          (case rd (c_items c) k of
             None \<Rightarrow> None
           | Some item \<Rightarrow>
               if 0 < ci_last_seen item \<and> ci_last_seen item \<le> version - drift
               then Some (Some (ci_id item), current + 1)
               else next_prunable_loop c version drift (current + 1)))"
  by pat_completeness auto

termination
  by (relation "measure (\<lambda>(c, v, d, i). unat (c_count c) - unat i)")
     (auto dest!: cache_get_below simp: unat_Suc_below word_less_nat_alt)

declare next_prunable_loop.simps [simp del]

definition cache_iter_next_prunable_id ::
    "Cache ptr \<Rightarrow> CacheIter \<Rightarrow> u64 \<Rightarrow> (u64 option \<times> CacheIter) option" where
  "cache_iter_next_prunable_id p iter drift =
     (if it_version iter \<le> drift then Some (None, iter)
      else case p of
        NULL \<Rightarrow> Some (None, iter)
      | Ptr c \<Rightarrow> do {
          (r, current) \<leftarrow> next_prunable_loop c (it_version iter) drift (it_current iter);
          Some (r, iter\<lparr>it_current := current\<rparr>)
        })"

definition set_last_seen :: "Cache \<Rightarrow> nat \<Rightarrow> u64 \<Rightarrow> Cache option" where
  "set_last_seen c k v = do {
     item \<leftarrow> rd (c_items c) k;
     items \<leftarrow> wr (c_items c) k (item\<lparr>ci_last_seen := v\<rparr>);
     Some (c\<lparr>c_items := items\<rparr>)
   }"

definition cache_tombstone :: "Cache ptr \<Rightarrow> u64 \<Rightarrow> Cache ptr option" where
  "cache_tombstone p i = do {
     f \<leftarrow> find_item p i;
     (case (p, f) of
        (Ptr c, Ptr k) \<Rightarrow> do { c' \<leftarrow> set_last_seen c k 0; Some (Ptr c') }
      | _ \<Rightarrow> Some p)
   }"

fun prune_loop :: "CacheItem list \<Rightarrow> nat \<Rightarrow> nat \<Rightarrow> nat \<Rightarrow> (CacheItem list \<times> nat) option" where
  \<comment> \<open>\<open>n\<close> cells left to visit, from cell \<open>i\<close>; \<open>j\<close> is the next cell to write\<close>
  "prune_loop items i j 0 = Some (items, j)"
| "prune_loop items i j (Suc n) = do {
     item \<leftarrow> rd items i;
     if ci_last_seen item \<noteq> 0 then do {
       items' \<leftarrow> wr items j item;
       prune_loop items' (Suc i) (Suc j) n
     } else prune_loop items (Suc i) j n
   }"

definition cache_prune :: "Cache ptr \<Rightarrow> Cache ptr option" where
  "cache_prune p =
     (case p of
        NULL \<Rightarrow> None
      | Ptr c \<Rightarrow> do {
          (items, j) \<leftarrow> prune_loop (c_items c) 0 0 (unat (c_count c));
          items' \<leftarrow> (if j < unat (c_count c)
                     then fill items j (unat (c_count c) - j) zero_item else Some items);
          Some (Ptr (c\<lparr>c_items := items', c_count := of_nat j\<rparr>))
        })"

definition cache_set_item ::
    "(nat \<Rightarrow> bool) \<Rightarrow> Cache ptr \<Rightarrow> u64 \<Rightarrow> u64 \<Rightarrow> (bool \<times> Cache ptr) option" where
  "cache_set_item alloc p i checksum =
     (case p of
        NULL \<Rightarrow> Some (False, NULL)
      | Ptr c \<Rightarrow> do {
          k \<leftarrow> lower_bound c i;
          hit \<leftarrow> (if k < c_count c
                  then do { item \<leftarrow> rd (c_items c) (unat k); Some (ci_id item = i) }
                  else Some False);
          if hit then do {
            item \<leftarrow> rd (c_items c) (unat k);
            items \<leftarrow> wr (c_items c) (unat k)
                       (item\<lparr>ci_checksum := checksum, ci_last_seen := c_version c\<rparr>);
            Some (True, Ptr (c\<lparr>c_items := items\<rparr>))
          } else do {
            (ok, c') \<leftarrow> (if c_size c \<le> c_count c then grow_cache alloc c else Some (True, c));
            if \<not> ok then Some (False, Ptr c')
            else do {
              items \<leftarrow> (if k < c_count c'
                        then move (c_items c') (unat k + 1) (unat k) (unat (c_count c' - k))
                        else Some (c_items c'));
              items' \<leftarrow> wr items (unat k)
                          \<lparr>ci_id = i, ci_checksum = checksum, ci_last_seen = c_version c'\<rparr>;
              Some (True, Ptr (c'\<lparr>c_items := items', c_count := c_count c' + 1\<rparr>))
            }
          }
        })"

definition cache_check_item :: "Cache ptr \<Rightarrow> u64 \<Rightarrow> u64 \<Rightarrow> (CacheState \<times> Cache ptr) option" where
  "cache_check_item p i checksum = do {
     f \<leftarrow> find_item p i;
     (case (p, f) of
        (Ptr c, Ptr k) \<Rightarrow> do {
          current \<leftarrow> rd (c_items c) k;
          if ci_last_seen current = 0 then Some (CacheNotSet, p)
          else do {
            c' \<leftarrow> set_last_seen c k (c_version c);
            Some (if ci_checksum current \<noteq> checksum then CacheNotSync else CacheOk, Ptr c')
          }
        }
      | _ \<Rightarrow> Some (CacheNotSet, p))
   }"

definition cache_next_version :: "Cache ptr \<Rightarrow> Cache ptr option" where
  "cache_next_version p =
     (case p of
        NULL \<Rightarrow> Some NULL
      | Ptr c \<Rightarrow>
          (let c' = c\<lparr>c_version := c_version c + 1\<rparr> in
           if c_version c' = - 1 then do { c'' \<leftarrow> cache_reset_version c'; Some (Ptr c'') }
           else Some (Ptr c')))"

section \<open>Well-formed caches and their abstract view\<close>

definition cells :: "Cache \<Rightarrow> CacheItem list" where
  "cells c = take (unat (c_count c)) (c_items c)"

definition entry :: "CacheItem \<Rightarrow> u64 \<times> (u64 \<times> u64)" where
  "entry item = (ci_id item, (ci_checksum item, ci_last_seen item))"

definition items_map :: "CacheItem list \<Rightarrow> u64 \<Rightarrow> (u64 \<times> u64) option" where
  "items_map xs = map_of (map entry xs)"

definition cache_map :: "Cache \<Rightarrow> u64 \<Rightarrow> (u64 \<times> u64) option" where
  "cache_map c = items_map (cells c)"

definition ids_sorted :: "CacheItem list \<Rightarrow> bool" where
  "ids_sorted xs = sorted_wrt (<) (map ci_id xs)"

definition cache_wf :: "Cache \<Rightarrow> bool" where
  "cache_wf c \<longleftrightarrow>
     length (c_items c) = unat (c_size c) \<and> c_count c \<le> c_size c \<and>
     ids_sorted (cells c) \<and>
     1 \<le> c_version c \<and> c_version c < - 1 \<and>
     list_all (\<lambda>item. ci_last_seen item \<le> c_version c) (cells c)"

lemma length_cells: "cache_wf c \<Longrightarrow> length (cells c) = unat (c_count c)"
  by (simp add: cache_wf_def cells_def word_le_nat_alt)

lemma count_in_items: "cache_wf c \<Longrightarrow> unat (c_count c) \<le> length (c_items c)"
  by (simp add: cache_wf_def word_le_nat_alt)

lemma nth_cells: "j < unat (c_count c) \<Longrightarrow> cells c ! j = c_items c ! j"
  by (simp add: cells_def)

lemma items_split: "c_items c = cells c @ drop (unat (c_count c)) (c_items c)"
  by (simp add: cells_def)

lemma ids_sorted_append:
  "ids_sorted (xs @ ys) \<longleftrightarrow>
     ids_sorted xs \<and> ids_sorted ys \<and> (\<forall>x\<in>set xs. \<forall>y\<in>set ys. ci_id x < ci_id y)"
  by (auto simp: ids_sorted_def sorted_wrt_append)

lemma ids_sorted_Cons:
  "ids_sorted (x # ys) \<longleftrightarrow> ids_sorted ys \<and> (\<forall>y\<in>set ys. ci_id x < ci_id y)"
  by (auto simp: ids_sorted_def)

lemma ids_sorted_Nil [simp]: "ids_sorted []"
  by (simp add: ids_sorted_def)

lemma ids_sorted_nth:
  "ids_sorted xs \<Longrightarrow> j < k \<Longrightarrow> k < length xs \<Longrightarrow> ci_id (xs ! j) < ci_id (xs ! k)"
  by (auto simp: ids_sorted_def sorted_wrt_iff_nth_less)

lemma ids_sorted_filter: "ids_sorted xs \<Longrightarrow> ids_sorted (filter P xs)"
  by (induction xs) (auto simp: ids_sorted_Cons)

lemma ids_sorted_same_ids: "map ci_id xs = map ci_id ys \<Longrightarrow> ids_sorted xs = ids_sorted ys"
  by (simp add: ids_sorted_def)

subsection \<open>The map of a sorted list of cells\<close>

lemma items_map_Nil [simp]: "items_map [] = (\<lambda>_. None)"
  by (simp add: items_map_def fun_eq_iff)

lemma items_map_Cons:
  "items_map (x # xs) = (items_map xs)(ci_id x \<mapsto> (ci_checksum x, ci_last_seen x))"
  by (simp add: items_map_def entry_def)

lemma items_map_None: "i \<notin> ci_id ` set xs \<Longrightarrow> items_map xs i = None"
  by (induction xs) (auto simp: items_map_Cons)

lemma items_map_Some_in:
  "items_map xs i = Some v \<Longrightarrow> \<exists>x\<in>set xs. ci_id x = i \<and> v = (ci_checksum x, ci_last_seen x)"
  by (induction xs) (auto simp: items_map_Cons split: if_splits)

lemma items_map_mem:
  "ids_sorted xs \<Longrightarrow> x \<in> set xs \<Longrightarrow> items_map xs (ci_id x) = Some (ci_checksum x, ci_last_seen x)"
  by (induction xs) (force simp: items_map_Cons ids_sorted_Cons)+

lemma items_map_insert:
  "ci_id x \<notin> ci_id ` set xs \<Longrightarrow>
   items_map (xs @ x # ys) = (items_map (xs @ ys))(ci_id x \<mapsto> (ci_checksum x, ci_last_seen x))"
  by (induction xs) (auto simp: items_map_Cons fun_eq_iff)

lemma items_map_replace:
  "ids_sorted (xs @ x # ys) \<Longrightarrow> ci_id y = ci_id x \<Longrightarrow>
   items_map (xs @ y # ys) =
     (items_map (xs @ x # ys))(ci_id x \<mapsto> (ci_checksum y, ci_last_seen y))"
  by (induction xs) (auto simp: items_map_Cons fun_eq_iff ids_sorted_Cons)

lemma items_map_filter:
  assumes "ids_sorted xs"
  shows "items_map (filter (\<lambda>item. P (ci_checksum item, ci_last_seen item)) xs) i =
    (case items_map xs i of None \<Rightarrow> None | Some v \<Rightarrow> if P v then Some v else None)"
  using assms
proof (induction xs)
  case (Cons x xs)
  then have "items_map xs (ci_id x) = None"
    by (auto intro!: items_map_None simp: ids_sorted_Cons)
  with Cons show ?case by (auto simp: items_map_Cons ids_sorted_Cons)
qed simp

section \<open>Bisection\<close>

lemma lower_bound_loop_spec:
  assumes "l \<le> r" and "unat r \<le> length items"
    and "ids_sorted (take (unat r) items)"
  shows "\<exists>k. lower_bound_loop items i l r = Some k \<and> l \<le> k \<and> k \<le> r \<and>
           (\<forall>j. unat l \<le> j \<and> j < unat k \<longrightarrow> ci_id (items ! j) < i) \<and>
           (\<forall>j. unat k \<le> j \<and> j < unat r \<longrightarrow> i \<le> ci_id (items ! j))"
  using assms
proof (induction items i l r rule: lower_bound_loop.induct)
  case (1 items i l r)
  show ?case
  proof (cases "l < r")
    case False
    with "1.prems" have "l = r" by simp
    then show ?thesis by (auto simp: lower_bound_loop.simps)
  next
    case True
    define m where "m = l + (r - l) div 2"
    have m: "unat l \<le> unat m" "unat m < unat r" "m < r" "unat (m + 1) = Suc (unat m)"
      using midpoint_between [OF True] by (simp_all add: m_def)
    have rdm: "rd items (unat m) = Some (items ! unat m)"
      using m "1.prems" by (simp add: mem_simps)
    have sorted: "ci_id (items ! j) < ci_id (items ! k)" if "j < k" "k < unat r" for j k
      using ids_sorted_nth [OF "1.prems"(3), of j k] that "1.prems"(2) by simp
    show ?thesis
    proof (cases "ci_id (items ! unat m) < i")
      case hi: True
      have "\<exists>k. lower_bound_loop items i (m + 1) r = Some k \<and> m + 1 \<le> k \<and> k \<le> r \<and>
           (\<forall>j. unat (m + 1) \<le> j \<and> j < unat k \<longrightarrow> ci_id (items ! j) < i) \<and>
           (\<forall>j. unat k \<le> j \<and> j < unat r \<longrightarrow> i \<le> ci_id (items ! j))"
        using "1.IH"(1) [OF True m_def rdm hi] m "1.prems" by (simp add: word_le_nat_alt)
      then obtain k where k: "lower_bound_loop items i (m + 1) r = Some k" "m + 1 \<le> k" "k \<le> r"
          "\<forall>j. unat (m + 1) \<le> j \<and> j < unat k \<longrightarrow> ci_id (items ! j) < i"
          "\<forall>j. unat k \<le> j \<and> j < unat r \<longrightarrow> i \<le> ci_id (items ! j)"
        by blast
      have low: "ci_id (items ! j) < i" if "j \<le> unat m" for j
        using sorted [of j "unat m"] that m hi by (cases "j = unat m") auto
      have "lower_bound_loop items i l r = Some k"
        using True rdm hi k(1) by (simp add: lower_bound_loop.simps [of items i l r] m_def Let_def)
      moreover have "l \<le> k" using k(2) m by (simp add: word_le_nat_alt)
      moreover have "\<forall>j. unat l \<le> j \<and> j < unat k \<longrightarrow> ci_id (items ! j) < i"
        using k(4) low m(4) by (metis not_less_eq_eq)
      ultimately show ?thesis using k(3,5) by blast
    next
      case lo: False
      have "\<exists>k. lower_bound_loop items i l m = Some k \<and> l \<le> k \<and> k \<le> m \<and>
           (\<forall>j. unat l \<le> j \<and> j < unat k \<longrightarrow> ci_id (items ! j) < i) \<and>
           (\<forall>j. unat k \<le> j \<and> j < unat m \<longrightarrow> i \<le> ci_id (items ! j))"
      proof (rule "1.IH"(2) [OF True m_def rdm lo])
        show "l \<le> m" "unat m \<le> length items" using m "1.prems" by (simp_all add: word_le_nat_alt)
        have "take (unat r) items = take (unat m) items @ take (unat r - unat m) (drop (unat m) items)"
          using m by (metis le_add_diff_inverse less_imp_le_nat take_add)
        then show "ids_sorted (take (unat m) items)"
          using "1.prems"(3) by (simp add: ids_sorted_append)
      qed
      then obtain k where k: "lower_bound_loop items i l m = Some k" "l \<le> k" "k \<le> m"
          "\<forall>j. unat l \<le> j \<and> j < unat k \<longrightarrow> ci_id (items ! j) < i"
          "\<forall>j. unat k \<le> j \<and> j < unat m \<longrightarrow> i \<le> ci_id (items ! j)"
        by blast
      have high: "i \<le> ci_id (items ! j)" if "unat m \<le> j" "j < unat r" for j
        using sorted [of "unat m" j] that lo by (cases "j = unat m") (auto simp: not_less)
      have "lower_bound_loop items i l r = Some k"
        using True rdm lo k(1) by (simp add: lower_bound_loop.simps [of items i l r] m_def Let_def)
      moreover have "k \<le> r" using k(3) m by (simp add: word_le_nat_alt)
      moreover have "\<forall>j. unat k \<le> j \<and> j < unat r \<longrightarrow> i \<le> ci_id (items ! j)"
        using k(5) high by (metis not_le)
      ultimately show ?thesis using k(2,4) by blast
    qed
  qed
qed

text \<open>The bisection splits the cells in use into those below the key and the rest.\<close>

lemma lower_bound_split:
  assumes wf: "cache_wf c"
  obtains k lo hi where "lower_bound c i = Some k" "cells c = lo @ hi" "length lo = unat k"
    "k \<le> c_count c" "\<forall>x\<in>set lo. ci_id x < i" "\<forall>x\<in>set hi. i \<le> ci_id x"
proof -
  have "ids_sorted (take (unat (c_count c)) (c_items c))"
    using wf by (simp add: cache_wf_def cells_def)
  then obtain k where k: "lower_bound c i = Some k" "k \<le> c_count c"
      "\<forall>j. j < unat k \<longrightarrow> ci_id (c_items c ! j) < i"
      "\<forall>j. unat k \<le> j \<and> j < unat (c_count c) \<longrightarrow> i \<le> ci_id (c_items c ! j)"
    using lower_bound_loop_spec [of 0 "c_count c" "c_items c" i] count_in_items [OF wf]
    by (auto simp: lower_bound_def)
  show thesis
  proof (rule that [OF k(1)])
    show "cells c = take (unat k) (cells c) @ drop (unat k) (cells c)" by simp
    show "length (take (unat k) (cells c)) = unat k"
      using k(2) length_cells [OF wf] by (simp add: word_le_nat_alt)
    show "k \<le> c_count c" by (fact k(2))
    show "\<forall>x\<in>set (take (unat k) (cells c)). ci_id x < i"
      using k(2,3) length_cells [OF wf]
      by (auto simp: in_set_conv_nth nth_cells word_le_nat_alt)
    show "\<forall>x\<in>set (drop (unat k) (cells c)). i \<le> ci_id x"
      using k(2,4) length_cells [OF wf]
      by (auto simp: in_set_conv_nth nth_cells word_le_nat_alt)
  qed
qed

lemma cache_map_absent:
  "cells c = lo @ hi \<Longrightarrow> \<forall>x\<in>set lo. ci_id x < i \<Longrightarrow> \<forall>x\<in>set hi. i < ci_id x \<Longrightarrow>
   cache_map c i = None"
  by (force simp: cache_map_def intro: items_map_None)

lemma rd_split:
  assumes "cells c = lo @ x # hi"
  shows "rd (c_items c) (length lo) = Some x"
proof -
  have "length lo < length (cells c)" "cells c ! length lo = x"
    using assms by simp_all
  then show ?thesis by (simp add: cells_def rd_def)
qed

lemma find_item_cases:
  assumes wf: "cache_wf c"
  obtains (found) lo x hi where "find_item (Ptr c) i = Some (Ptr (length lo))"
      "cells c = lo @ x # hi" "ci_id x = i"
      "cache_map c i = Some (ci_checksum x, ci_last_seen x)"
  | (absent) "find_item (Ptr c) i = Some NULL" "cache_map c i = None"
proof -
  have sorted: "ids_sorted (cells c)" using wf by (simp add: cache_wf_def)
  obtain k lo hi where k: "lower_bound c i = Some k" and split: "cells c = lo @ hi"
      and len: "length lo = unat k" and kc: "k \<le> c_count c"
      and lo: "\<forall>x\<in>set lo. ci_id x < i" and hi: "\<forall>x\<in>set hi. i \<le> ci_id x"
    using lower_bound_split [OF wf] .
  have n: "length lo + length hi = unat (c_count c)"
    using length_cells [OF wf] split by simp
  show thesis
  proof (cases hi)
    case Nil
    then have "\<not> k < c_count c" using n len by (simp add: word_less_nat_alt)
    then have "find_item (Ptr c) i = Some NULL" using k by (simp add: find_item_def)
    with cache_map_absent [OF split lo] Nil show thesis by (auto intro: absent)
  next
    case (Cons x ys)
    then have "k < c_count c" using n len by (simp add: word_less_nat_alt)
    moreover from this have "c_count c \<noteq> 0" by auto
    moreover have "rd (c_items c) (unat k) = Some x"
      using rd_split [of c lo x ys] split Cons len by simp
    ultimately have f: "find_item (Ptr c) i = Some (if ci_id x = i then Ptr (unat k) else NULL)"
      using k by (simp add: find_item_def)
    show thesis
    proof (cases "ci_id x = i")
      case True
      have "cache_map c i = Some (ci_checksum x, ci_last_seen x)"
        using items_map_mem [OF sorted, of x] split Cons True by (simp add: cache_map_def)
      moreover have "find_item (Ptr c) i = Some (Ptr (length lo))"
        using f True len by simp
      ultimately show thesis using found [of lo x ys] split Cons True by simp
    next
      case False
      have "\<forall>y\<in>set hi. i < ci_id y"
        using False hi sorted split Cons
        by (auto simp: ids_sorted_append ids_sorted_Cons dest: order.strict_trans1)
      then show thesis using f False cache_map_absent [OF split lo] absent by simp
    qed
  qed
qed

section \<open>What each operation does to the abstract view\<close>

subsection \<open>Replacing a cell\<close>

lemma store_cell:
  assumes wf: "cache_wf c" and split: "cells c = lo @ x # hi"
    and y: "ci_id y = ci_id x" "ci_last_seen y \<le> c_version c"
  shows "length lo < length (c_items c)" and "c_items c ! length lo = x"
    and "cells (c\<lparr>c_items := (c_items c)[length lo := y]\<rparr>) = lo @ y # hi"
    and "cache_wf (c\<lparr>c_items := (c_items c)[length lo := y]\<rparr>)"
    and "cache_map (c\<lparr>c_items := (c_items c)[length lo := y]\<rparr>) =
           (cache_map c)(ci_id x \<mapsto> (ci_checksum y, ci_last_seen y))"
proof -
  let ?c = "c\<lparr>c_items := (c_items c)[length lo := y]\<rparr>"
  have n: "unat (c_count c) = length lo + Suc (length hi)"
    using length_cells [OF wf] split by simp
  have all: "c_items c = lo @ x # hi @ drop (unat (c_count c)) (c_items c)"
    using items_split [of c] split by simp
  show "length lo < length (c_items c)" "c_items c ! length lo = x"
    using rd_split [OF split] by (simp_all add: rd_eq_Some_iff)
  have "(c_items c)[length lo := y] = lo @ y # hi @ drop (unat (c_count c)) (c_items c)"
    by (subst all) simp
  then show cells: "cells ?c = lo @ y # hi"
    by (simp add: cells_def n)
  have sorted: "ids_sorted (lo @ x # hi)" using wf split by (simp add: cache_wf_def)
  then have "ids_sorted (lo @ y # hi)"
    by (rule ids_sorted_same_ids [THEN iffD1, rotated]) (simp add: y)
  then show "cache_wf ?c"
    using wf y(2) cells split by (simp add: cache_wf_def)
  show "cache_map ?c = (cache_map c)(ci_id x \<mapsto> (ci_checksum y, ci_last_seen y))"
    using items_map_replace [OF sorted y(1)] cells split by (simp add: cache_map_def)
qed

lemma set_last_seen_spec:
  assumes "cache_wf c" and "cells c = lo @ x # hi" and "v \<le> c_version c"
  shows "\<exists>c'. set_last_seen c (length lo) v = Some c' \<and> cache_wf c' \<and>
           c_version c' = c_version c \<and> c_size c' = c_size c \<and>
           cells c' = lo @ x\<lparr>ci_last_seen := v\<rparr> # hi \<and>
           cache_map c' = (cache_map c)(ci_id x \<mapsto> (ci_checksum x, v))"
  using store_cell [OF assms(1,2), of "x\<lparr>ci_last_seen := v\<rparr>"] assms(3)
  by (simp add: set_last_seen_def mem_simps)

subsection \<open>Tombstones and checks\<close>

lemma cache_tombstone_spec:
  assumes wf: "cache_wf c"
  shows "\<exists>c'. cache_tombstone (Ptr c) i = Some (Ptr c') \<and> cache_wf c' \<and>
           c_version c' = c_version c \<and> c_size c' = c_size c \<and>
           cache_map c' = (case cache_map c i of None \<Rightarrow> cache_map c
                           | Some (ck, _) \<Rightarrow> (cache_map c)(i \<mapsto> (ck, 0)))"
  using wf
proof (cases rule: find_item_cases [where i = i])
  case (found lo x hi)
  with set_last_seen_spec [OF wf found(2), of 0] show ?thesis
    by (auto simp: cache_tombstone_def)
next
  case absent
  with wf show ?thesis by (simp add: cache_tombstone_def)
qed

lemma cache_check_item_spec:
  assumes wf: "cache_wf c"
  shows "\<exists>c'. cache_check_item (Ptr c) i checksum =
             Some (case cache_map c i of
                     None \<Rightarrow> CacheNotSet
                   | Some (ck, seen) \<Rightarrow>
                       if seen = 0 then CacheNotSet
                       else if ck \<noteq> checksum then CacheNotSync else CacheOk, Ptr c') \<and>
           cache_wf c' \<and> c_version c' = c_version c \<and> c_size c' = c_size c \<and>
           cache_map c' = (case cache_map c i of
                             None \<Rightarrow> cache_map c
                           | Some (ck, seen) \<Rightarrow>
                               if seen = 0 then cache_map c
                               else (cache_map c)(i \<mapsto> (ck, c_version c)))"
  using wf
proof (cases rule: find_item_cases [where i = i])
  case (found lo x hi)
  have x: "rd (c_items c) (length lo) = Some x"
    by (rule rd_split [OF found(2)])
  show ?thesis
    using found x set_last_seen_spec [OF wf found(2), of "c_version c"] wf
    by (auto simp: cache_check_item_def)
next
  case absent
  with wf show ?thesis by (simp add: cache_check_item_def)
qed

subsection \<open>Storing an id\<close>

lemma grow_cache_spec:
  assumes wf: "cache_wf c" and room: "unat (c_size c) + 1000 < 2 ^ 32"
  shows "\<exists>ok c'. grow_cache alloc c = Some (ok, c') \<and> cache_wf c' \<and>
           cells c' = cells c \<and> c_version c' = c_version c \<and> c_count c' = c_count c \<and>
           (if ok then c_size c' = c_size c + 1000 \<and> c_size c < c_size c' else c' = c) \<and>
           ok = alloc (unat (c_size c + 1000) * sizeof_item)"
proof (cases "alloc (unat (c_size c + 1000) * sizeof_item)")
  case False
  with wf show ?thesis
    by (intro exI [of _ False] exI [of _ c]) (simp add: grow_cache_def CACHE_CHUNK_SIZE_def)
next
  case True
  let ?n = "c_size c + 1000"
  have n: "unat ?n = unat (c_size c) + 1000"
    using room by (subst unat_add_lem [THEN iffD1]) simp_all
  have len: "length (c_items c) = unat (c_size c)" using wf by (simp add: cache_wf_def)
  define items where "items = c_items c @ replicate 1000 zero_item"
  define c' where "c' = c\<lparr>c_items := items, c_size := ?n\<rparr>"
  have "fill (realloc_items (c_items c) (unat ?n)) (unat (c_size c)) 1000 zero_item = Some items"
    by (simp add: realloc_items_def n len mem_simps items_def)
  then have g: "grow_cache alloc c = Some (True, c')"
    using True by (simp add: grow_cache_def CACHE_CHUNK_SIZE_def c'_def Let_def)
  have cells: "cells c' = cells c"
    using count_in_items [OF wf] by (simp add: cells_def c'_def items_def)
  moreover have "cache_wf c'"
    using wf cells n len by (auto simp: cache_wf_def c'_def items_def word_le_nat_alt)
  moreover have "c_size c < ?n" by (simp add: word_less_nat_alt n)
  ultimately show ?thesis using g True by (simp add: c'_def)
qed

lemma insert_cell:
  assumes wf: "cache_wf c" and split: "cells c = lo @ hi" and room: "c_count c < c_size c"
    and lo: "\<forall>x\<in>set lo. ci_id x < ci_id y" and hi: "\<forall>x\<in>set hi. ci_id y < ci_id x"
    and y: "ci_last_seen y \<le> c_version c"
  shows "\<exists>items. (if hi \<noteq> [] then move (c_items c) (length lo + 1) (length lo) (length hi)
                   else Some (c_items c)) = Some items \<and>
           wr items (length lo) y = Some (items[length lo := y]) \<and>
           cache_wf (c\<lparr>c_items := items[length lo := y], c_count := c_count c + 1\<rparr>) \<and>
           cache_map (c\<lparr>c_items := items[length lo := y], c_count := c_count c + 1\<rparr>) =
             (cache_map c)(ci_id y \<mapsto> (ci_checksum y, ci_last_seen y))"
proof -
  let ?n = "unat (c_count c)"
  have n: "?n = length lo + length hi" using length_cells [OF wf] split by simp
  have cnt: "unat (c_count c + 1) = Suc ?n" by (rule unat_Suc_below [OF room])
  have len: "length (c_items c) = unat (c_size c)" and sz: "?n < length (c_items c)"
    using wf room by (simp_all add: cache_wf_def word_less_nat_alt)
  obtain z rest where rest: "drop ?n (c_items c) = z # rest"
    using sz by (cases "drop ?n (c_items c)") auto
  have all: "c_items c = lo @ hi @ z # rest"
    using items_split [of c] split rest by simp
  define w where "w = (case hi of [] \<Rightarrow> z | x # _ \<Rightarrow> x)"
  define items where "items = lo @ w # hi @ rest"
  have "(if hi \<noteq> [] then move (c_items c) (length lo + 1) (length lo) (length hi)
         else Some (c_items c)) = Some items"
    unfolding all by (cases hi) (simp_all add: mem_simps items_def w_def)
  moreover have "wr items (length lo) y = Some (items[length lo := y])"
    by (simp add: mem_simps items_def)
  moreover
  let ?c = "c\<lparr>c_items := items[length lo := y], c_count := c_count c + 1\<rparr>"
  have cells: "cells ?c = lo @ y # hi"
    using n by (simp add: cells_def cnt items_def)
  have sorted: "ids_sorted (lo @ hi)" using wf split by (simp add: cache_wf_def)
  have "cache_wf ?c"
    using wf cells sorted lo hi y room len split all
    by (auto simp: cache_wf_def ids_sorted_append ids_sorted_Cons items_def word_le_nat_alt
        word_less_nat_alt cnt)
  moreover have "cache_map ?c = (cache_map c)(ci_id y \<mapsto> (ci_checksum y, ci_last_seen y))"
  proof -
    have "ci_id y \<notin> ci_id ` set lo" using lo by force
    then show ?thesis using items_map_insert [of y lo hi] cells split by (simp add: cache_map_def)
  qed
  ultimately show ?thesis by blast
qed

lemma cache_set_item_spec:
  assumes wf: "cache_wf c" and room: "unat (c_size c) + 1000 < 2 ^ 32"
  shows "\<exists>ok c'. cache_set_item alloc (Ptr c) i checksum = Some (ok, Ptr c') \<and> cache_wf c' \<and>
           c_version c' = c_version c \<and>
           (if ok then cache_map c' = (cache_map c)(i \<mapsto> (checksum, c_version c))
            else c' = c \<and> cache_map c i = None \<and>
                 \<not> alloc (unat (c_size c + 1000) * sizeof_item))"
proof -
  have sorted: "ids_sorted (cells c)" using wf by (simp add: cache_wf_def)
  obtain k lo hi where k: "lower_bound c i = Some k" and split: "cells c = lo @ hi"
      and len: "length lo = unat k" and kc: "k \<le> c_count c"
      and lo: "\<forall>x\<in>set lo. ci_id x < i" and hi: "\<forall>x\<in>set hi. i \<le> ci_id x"
    using lower_bound_split [OF wf] .
  have n: "length lo + length hi = unat (c_count c)"
    using length_cells [OF wf] split by simp
  have kiff: "k < c_count c \<longleftrightarrow> hi \<noteq> []"
    using n len by (cases hi) (auto simp: word_less_nat_alt)
  show ?thesis
  proof (cases "\<exists>x ys. hi = x # ys \<and> ci_id x = i")
    case True
    then obtain x ys where x: "hi = x # ys" "ci_id x = i" by blast
    have rdx: "rd (c_items c) (unat k) = Some x" using rd_split [of c lo x ys] split x len by simp
    note st = store_cell [OF wf, of lo x ys "x\<lparr>ci_checksum := checksum, ci_last_seen := c_version c\<rparr>"]
    show ?thesis
      using st split x k kiff rdx len by (simp add: cache_set_item_def mem_simps)
  next
    case False
    define y where "y = \<lparr>ci_id = i, ci_checksum = checksum, ci_last_seen = c_version c\<rparr>"
    have hi': "\<forall>x\<in>set hi. i < ci_id x"
      using False hi sorted split
      by (cases hi) (auto simp: ids_sorted_append ids_sorted_Cons dest: order.strict_trans1)
    have hit: "(if k < c_count c then do { item \<leftarrow> rd (c_items c) (unat k); Some (ci_id item = i) }
                else Some False) = Some False"
      using rd_split [of c lo] split False len kiff by (cases hi) auto
    have absent: "cache_map c i = None" by (rule cache_map_absent [OF split lo hi'])
    have "\<exists>ok c'. (if c_size c \<le> c_count c then grow_cache alloc c else Some (True, c)) = Some (ok, c') \<and>
           cache_wf c' \<and> cells c' = cells c \<and> c_version c' = c_version c \<and> c_count c' = c_count c \<and>
           (if ok then c_count c' < c_size c'
            else c' = c \<and> \<not> alloc (unat (c_size c + 1000) * sizeof_item))"
    proof (cases "c_size c \<le> c_count c")
      case True
      then have "c_count c = c_size c" using wf by (simp add: cache_wf_def)
      then show ?thesis using grow_cache_spec [OF wf room, of alloc] by (metis order_refl)
    next
      case False
      then show ?thesis using wf by (intro exI [of _ True] exI [of _ c]) simp
    qed
    then obtain ok c' where g:
        "(if c_size c \<le> c_count c then grow_cache alloc c else Some (True, c)) = Some (ok, c')"
        "cache_wf c'" "cells c' = cells c" "c_version c' = c_version c" "c_count c' = c_count c"
        "if ok then c_count c' < c_size c'
         else c' = c \<and> \<not> alloc (unat (c_size c + 1000) * sizeof_item)"
      by blast
    show ?thesis
    proof (cases ok)
      case False
      with g k hit absent wf show ?thesis by (simp add: cache_set_item_def)
    next
      case True
      have map_eq: "cache_map c' = cache_map c" by (simp add: cache_map_def g(3))
      have cnt: "unat (c_count c' - k) = length hi"
        using kc n len g(5) by (simp add: unat_sub)
      obtain items where it:
          "(if hi \<noteq> [] then move (c_items c') (length lo + 1) (length lo) (length hi)
            else Some (c_items c')) = Some items"
          "wr items (length lo) y = Some (items[length lo := y])"
          "cache_wf (c'\<lparr>c_items := items[length lo := y], c_count := c_count c' + 1\<rparr>)"
          "cache_map (c'\<lparr>c_items := items[length lo := y], c_count := c_count c' + 1\<rparr>) =
             (cache_map c')(ci_id y \<mapsto> (ci_checksum y, ci_last_seen y))"
        using insert_cell [OF g(2), of lo hi y] g split True lo hi' by (auto simp: y_def)
      have "cache_set_item alloc (Ptr c) i checksum =
          Some (True, Ptr (c'\<lparr>c_items := items[length lo := y], c_count := c_count c' + 1\<rparr>))"
        using k hit g(1) True it(1,2) kiff cnt g(4,5) len
        by (cases "hi = []") (simp_all add: cache_set_item_def y_def)
      with it(3,4) map_eq g(4) show ?thesis by (simp add: y_def)
    qed
  qed
qed

subsection \<open>Compaction\<close>

abbreviation live :: "CacheItem \<Rightarrow> bool" where
  "live item \<equiv> ci_last_seen item \<noteq> 0"

lemma prune_loop_spec:
  assumes "j \<le> i" and "i + n \<le> length items"
  shows "\<exists>items'. prune_loop items i j n =
             Some (items', j + length (filter live (take n (drop i items)))) \<and>
           length items' = length items \<and>
           take (j + length (filter live (take n (drop i items)))) items' =
             take j items @ filter live (take n (drop i items))"
  using assms
proof (induction n arbitrary: items i j)
  case 0
  then show ?case by simp
next
  case (Suc n)
  have i: "i < length items" using Suc.prems by simp
  then have d: "drop i items = items ! i # drop (Suc i) items" by (rule Cons_nth_drop_Suc [symmetric])
  show ?case
  proof (cases "live (items ! i)")
    case False
    with Suc.IH [of j "Suc i" items] Suc.prems i d show ?thesis by (simp add: mem_simps)
  next
    case True
    let ?items = "items[j := items ! i]"
    have tk: "take n (drop (Suc i) ?items) = take n (drop (Suc i) items)"
      using Suc.prems by simp
    have "take (Suc j) ?items = take j items @ [items ! i]"
      using Suc.prems i by (simp add: take_Suc_conv_app_nth)
    with Suc.IH [of "Suc j" "Suc i" ?items] Suc.prems True i d tk
    show ?thesis by (simp add: mem_simps)
  qed
qed

lemma cache_prune_spec:
  assumes wf: "cache_wf c"
  shows "\<exists>c'. cache_prune (Ptr c) = Some (Ptr c') \<and> cache_wf c' \<and>
           c_version c' = c_version c \<and> c_size c' = c_size c \<and>
           cells c' = filter live (cells c) \<and>
           cache_map c' = (\<lambda>i. case cache_map c i of
                                 None \<Rightarrow> None
                               | Some (ck, seen) \<Rightarrow> if seen = 0 then None else Some (ck, seen))"
proof -
  let ?n = "unat (c_count c)"
  let ?k = "length (filter live (cells c))"
  have le: "?k \<le> ?n" using length_filter_le [of live "cells c"] length_cells [OF wf] by simp
  have nl: "?n \<le> length (c_items c)" by (rule count_in_items [OF wf])
  obtain items where it: "prune_loop (c_items c) 0 0 ?n = Some (items, ?k)"
      "length items = length (c_items c)" "take ?k items = filter live (cells c)"
    using prune_loop_spec [of 0 0 ?n "c_items c"] nl by (auto simp: cells_def)
  define items' where
    "items' = take ?k items @ replicate (?n - ?k) zero_item @ drop ?n items"
  have "(if ?k < ?n then fill items ?k (?n - ?k) zero_item else Some items) = Some items'"
  proof (cases "?k < ?n")
    case True
    then show ?thesis using it nl by (simp add: mem_simps items'_def)
  next
    case False
    then have "items' = items" using le by (simp add: items'_def)
    with False show ?thesis by simp
  qed
  then have r: "cache_prune (Ptr c) = Some (Ptr (c\<lparr>c_items := items', c_count := of_nat ?k\<rparr>))"
    using it by (simp add: cache_prune_def)
  let ?c = "c\<lparr>c_items := items', c_count := of_nat ?k\<rparr>"
  have cnt: "unat (of_nat ?k :: u32) = ?k"
    using le unsigned_less [of "c_count c", where ?'a = nat] by (simp add: unat_of_nat)
  have cells: "cells ?c = filter live (cells c)"
  proof -
    have "cells ?c = take ?k items'" unfolding cells_def [of ?c] using cnt by simp
    also have "\<dots> = filter live (cells c)" using it(3) by (simp add: items'_def)
    finally show ?thesis .
  qed
  have "cache_wf ?c"
    using wf cells le nl it cnt ids_sorted_filter [of "cells c" live]
    by (auto simp: cache_wf_def items'_def word_le_nat_alt list_all_iff)
  moreover have "cache_map ?c i = (case cache_map c i of None \<Rightarrow> None
      | Some (ck, seen) \<Rightarrow> if seen = 0 then None else Some (ck, seen))" for i
    using items_map_filter [of "cells c" "\<lambda>v. snd v \<noteq> 0" i] wf cells
    by (auto simp: cache_map_def cache_wf_def split: option.splits)
  ultimately show ?thesis using r cells by (simp add: fun_eq_iff)
qed

subsection \<open>Versions\<close>

lemma reset_loop_spec:
  "i + n \<le> length items \<Longrightarrow>
   reset_loop items i n = Some (take i items @
     map (\<lambda>item. item\<lparr>ci_last_seen := 1\<rparr>) (take n (drop i items)) @ drop (i + n) items)"
proof (induction n arbitrary: items i)
  case 0
  then show ?case by simp
next
  case (Suc n)
  let ?y = "(items ! i)\<lparr>ci_last_seen := 1\<rparr>"
  have i: "i < length items" using Suc.prems by simp
  then have d: "drop i items = items ! i # drop (Suc i) items" by (rule Cons_nth_drop_Suc [symmetric])
  have "take (Suc i) (items[i := ?y]) = take i items @ [?y]"
    using i by (simp add: take_Suc_conv_app_nth)
  with Suc.IH [of "Suc i" "items[i := ?y]"] Suc.prems i d show ?case by (simp add: mem_simps)
qed

lemma items_map_stamp:
  "items_map (map (\<lambda>item. item\<lparr>ci_last_seen := v\<rparr>) xs) i = map_option (\<lambda>(ck, _). (ck, v)) (items_map xs i)"
  by (induction xs) (auto simp: items_map_Cons)

lemma cache_next_version_spec:
  assumes wf: "cache_wf c"
  shows "\<exists>c'. cache_next_version (Ptr c) = Some (Ptr c') \<and> cache_wf c' \<and> c_size c' = c_size c \<and>
           (if c_version c + 1 = - 1
            then c_version c' = 1 \<and>
                 cache_map c' = (\<lambda>i. map_option (\<lambda>(ck, _). (ck, 1)) (cache_map c i))
            else c_version c' = c_version c + 1 \<and> cache_map c' = cache_map c)"
proof (cases "c_version c + 1 = - 1")
  case False
  let ?c = "c\<lparr>c_version := c_version c + 1\<rparr>"
  have lt: "c_version c < - 1" using wf by (simp add: cache_wf_def)
  have v: "unat (c_version c + 1) = Suc (unat (c_version c))" by (rule unat_Suc_below [OF lt])
  have cells: "cells ?c = cells c" by (simp add: cells_def)
  have "c_version c + 1 < - 1" using False by (metis max_word_max order_less_le)
  then have "cache_wf ?c"
    using wf v cells by (auto simp: cache_wf_def list_all_iff word_le_nat_alt)
  with False cells show ?thesis by (simp add: cache_next_version_def cache_map_def Let_def)
next
  case True
  let ?n = "unat (c_count c)"
  have nl: "?n \<le> length (c_items c)" by (rule count_in_items [OF wf])
  let ?items = "map (\<lambda>item. item\<lparr>ci_last_seen := 1\<rparr>) (cells c) @ drop ?n (c_items c)"
  let ?c = "c\<lparr>c_items := ?items, c_version := 1\<rparr>"
  have "reset_loop (c_items c) 0 ?n = Some ?items"
    using reset_loop_spec [of 0 ?n "c_items c"] nl by (simp add: cells_def)
  then have r: "cache_next_version (Ptr c) = Some (Ptr ?c)"
    using True by (simp add: cache_next_version_def cache_reset_version_def Let_def)
  have cells: "cells ?c = map (\<lambda>item. item\<lparr>ci_last_seen := 1\<rparr>) (cells c)"
    using nl length_cells [OF wf] by (simp add: cells_def)
  have "ids_sorted (cells ?c) = ids_sorted (cells c)"
    by (rule ids_sorted_same_ids) (simp add: cells comp_def)
  then have "cache_wf ?c"
    using wf cells nl by (auto simp: cache_wf_def list_all_iff length_cells)
  moreover have "cache_map ?c i = map_option (\<lambda>(ck, _). (ck, 1)) (cache_map c i)" for i
    by (simp add: cache_map_def cells items_map_stamp)
  ultimately show ?thesis using r True by (simp add: fun_eq_iff)
qed

lemma one_below_max: "(1 :: u64) < - 1"
  by code_simp

lemma cache_create_wf: "cache_create alloc = Ptr c \<Longrightarrow> cache_wf c \<and> cache_map c = (\<lambda>_. None) \<and> c_version c = 1"
  by (auto simp: cache_create_def cache_wf_def cells_def cache_map_def one_below_max split: if_splits)

subsection \<open>The pruning iterator\<close>

definition prunable :: "u64 \<Rightarrow> u64 \<Rightarrow> u64 \<Rightarrow> bool" where
  "prunable version drift seen \<longleftrightarrow> 0 < seen \<and> seen \<le> version - drift"

lemma next_prunable_loop_spec:
  assumes "cache_wf c" and "cur \<le> c_count c"
  shows "next_prunable_loop c v d cur =
     (case dropWhile (\<lambda>item. \<not> prunable v d (ci_last_seen item)) (drop (unat cur) (cells c)) of
        [] \<Rightarrow> Some (None, c_count c)
      | item # rest \<Rightarrow> Some (Some (ci_id item), of_nat (unat (c_count c) - length rest)))"
  using assms
proof (induction c v d cur rule: next_prunable_loop.induct)
  case (1 c v d cur)
  show ?case
  proof (cases "cur < c_count c")
    case False
    with "1.prems" have cur: "cur = c_count c" by simp
    then show ?thesis
      using length_cells [OF "1.prems"(1)]
      by (simp add: next_prunable_loop.simps cache_get_def)
  next
    case True
    have lt: "unat cur < length (cells c)"
      using True length_cells [OF "1.prems"(1)] by (simp add: word_less_nat_alt)
    have d: "drop (unat cur) (cells c) = cells c ! unat cur # drop (Suc (unat cur)) (cells c)"
      using lt by (rule Cons_nth_drop_Suc [symmetric])
    have g: "cache_get (Ptr c) cur = Ptr (unat cur)" using True by (simp add: cache_get_def)
    have r: "rd (c_items c) (unat cur) = Some (cells c ! unat cur)"
      using lt by (simp add: cells_def rd_def)
    have s: "unat (cur + 1) = Suc (unat cur)" by (rule unat_Suc_below [OF True])
    show ?thesis
    proof (cases "prunable v d (ci_last_seen (cells c ! unat cur))")
      case p: True
      have "unat (c_count c) - length (drop (Suc (unat cur)) (cells c)) = Suc (unat cur)"
        using lt length_cells [OF "1.prems"(1)] by simp
      then have "of_nat (unat (c_count c) - length (drop (Suc (unat cur)) (cells c))) = cur + 1"
        by (metis s of_nat_unat word_unat_eq_iff ucast_id)
      with p d g r show ?thesis
        by (simp add: next_prunable_loop.simps [of c v d cur] prunable_def)
    next
      case np: False
      have "cur + 1 \<le> c_count c" using True s by (simp add: word_le_nat_alt word_less_nat_alt)
      with "1.IH" [OF g r] np "1.prems" s d g r show ?thesis
        by (auto simp: next_prunable_loop.simps [of c v d cur] prunable_def)
    qed
  qed
qed

section \<open>The contract its clients rely on\<close>

text \<open>
  The walkers and the pruning pass never look into a cache. They rely on what a check
  reports and stamps, on what a tombstone followed by a compaction removes, and on the
  other ids being left alone.
\<close>

locale id_cache =
  fixes ok :: "'c \<Rightarrow> bool"
    and view :: "'c \<Rightarrow> u64 \<Rightarrow> (u64 \<times> u64) option"
    and stamp :: "'c \<Rightarrow> u64"
    and check :: "'c \<Rightarrow> u64 \<Rightarrow> u64 \<Rightarrow> (CacheState \<times> 'c) option"
    and tomb :: "'c \<Rightarrow> u64 \<Rightarrow> 'c option"
    and compact :: "'c \<Rightarrow> 'c option"
  assumes stamp_pos: "ok c \<Longrightarrow> 0 < stamp c"
    and check_law: "ok c \<Longrightarrow> \<exists>c'. check c i k =
          Some (case view c i of
                  None \<Rightarrow> CacheNotSet
                | Some (ck, seen) \<Rightarrow>
                    if seen = 0 then CacheNotSet
                    else if ck \<noteq> k then CacheNotSync else CacheOk, c') \<and>
        ok c' \<and> stamp c' = stamp c \<and>
        view c' = (case view c i of
                     None \<Rightarrow> view c
                   | Some (ck, seen) \<Rightarrow>
                       if seen = 0 then view c else (view c)(i \<mapsto> (ck, stamp c)))"
    and tomb_law: "ok c \<Longrightarrow> \<exists>c'. tomb c i = Some c' \<and> ok c' \<and> stamp c' = stamp c \<and>
        view c' = (case view c i of None \<Rightarrow> view c | Some (ck, _) \<Rightarrow> (view c)(i \<mapsto> (ck, 0)))"
    and compact_law: "ok c \<Longrightarrow> \<exists>c'. compact c = Some c' \<and> ok c' \<and> stamp c' = stamp c \<and>
        view c' = (\<lambda>i. case view c i of
                         None \<Rightarrow> None
                       | Some (ck, seen) \<Rightarrow> if seen = 0 then None else Some (ck, seen))"
begin

lemma checked_is_stamped:
  assumes "ok c" and "check c i k = Some (st, c')" and "st \<noteq> CacheNotSet"
  shows "\<exists>ck. view c' i = Some (ck, stamp c')"
  using check_law [OF assms(1), of i k] assms(2,3) by (auto split: option.splits if_splits)

lemma check_ok_iff:
  assumes "ok c" and "check c i k = Some (st, c')"
  shows "st = CacheOk \<longleftrightarrow> (\<exists>seen. view c i = Some (k, seen) \<and> seen \<noteq> 0)"
  using check_law [OF assms(1), of i k] assms(2) by (auto split: option.splits if_splits)

lemma check_twice:
  assumes "ok c" and "check c i k = Some (st, c')"
  shows "\<exists>c''. check c' i k = Some (st, c'') \<and> view c'' = view c'"
proof -
  note law = check_law [OF assms(1), of i k]
  have ok': "ok c'" using law assms(2) by auto
  show ?thesis
    using law assms(2) check_law [OF ok', of i k] stamp_pos [OF assms(1)]
    by (fastforce split: option.splits if_splits)
qed

lemma tomb_compact_removes:
  assumes "ok c" and "tomb c i = Some c1" and "compact c1 = Some c2"
  shows "view c2 i = None"
proof -
  have ok1: "ok c1" using tomb_law [OF assms(1), of i] assms(2) by auto
  show ?thesis
    using tomb_law [OF assms(1), of i] compact_law [OF ok1] assms(2,3)
    by (auto split: option.splits)
qed

lemma tomb_compact_keeps_others:
  assumes "ok c" and "tomb c i = Some c1" and "compact c1 = Some c2" and "j \<noteq> i"
    and "view c j = Some (ck, seen)" and "seen \<noteq> 0"
  shows "view c2 j = Some (ck, seen)"
proof -
  have ok1: "ok c1" using tomb_law [OF assms(1), of i] assms(2) by auto
  show ?thesis
    using tomb_law [OF assms(1), of i] compact_law [OF ok1] assms
    by (auto split: option.splits)
qed

end

definition pcache_ok :: "Cache ptr \<Rightarrow> bool" where
  "pcache_ok p = (case p of NULL \<Rightarrow> False | Ptr c \<Rightarrow> cache_wf c)"

definition pcache_view :: "Cache ptr \<Rightarrow> u64 \<Rightarrow> (u64 \<times> u64) option" where
  "pcache_view p = (case p of NULL \<Rightarrow> (\<lambda>_. None) | Ptr c \<Rightarrow> cache_map c)"

definition pcache_version :: "Cache ptr \<Rightarrow> u64" where
  "pcache_version p = (case p of NULL \<Rightarrow> 0 | Ptr c \<Rightarrow> c_version c)"

lemmas pcache_defs = pcache_ok_def pcache_view_def pcache_version_def

lemma pcache_simps [simp]:
  "pcache_ok (Ptr c) = cache_wf c" "pcache_view (Ptr c) = cache_map c"
  "pcache_version (Ptr c) = c_version c" "\<not> pcache_ok NULL"
  by (simp_all add: pcache_defs)

lemma pcache_okE:
  assumes "pcache_ok p"
  obtains c where "p = Ptr c" "cache_wf c"
  using assms by (cases p) (auto simp: pcache_ok_def)

interpretation ids: id_cache pcache_ok pcache_view pcache_version cache_check_item cache_tombstone cache_prune
proof (unfold_locales, goal_cases)
  case (1 c)
  then show ?case
    by (cases c) (auto simp: pcache_defs cache_wf_def word_le_nat_alt word_less_nat_alt)
next
  case (2 p i k)
  then obtain c where c: "p = Ptr c" "cache_wf c" by (rule pcache_okE)
  from cache_check_item_spec [OF c(2), of i k] obtain c' where c':
    "cache_check_item p i k = Some (case cache_map c i of None \<Rightarrow> CacheNotSet
       | Some (ck, seen) \<Rightarrow> if seen = 0 then CacheNotSet
           else if ck \<noteq> k then CacheNotSync else CacheOk, Ptr c')"
    "cache_wf c'" "c_version c' = c_version c"
    "cache_map c' = (case cache_map c i of None \<Rightarrow> cache_map c
       | Some (ck, seen) \<Rightarrow> if seen = 0 then cache_map c
           else (cache_map c)(i \<mapsto> (ck, c_version c)))"
    unfolding c(1) by blast
  show ?case using c' unfolding c(1) pcache_simps by (intro exI [of _ "Ptr c'"]) simp
next
  case (3 p i)
  then obtain c where c: "p = Ptr c" "cache_wf c" by (rule pcache_okE)
  from cache_tombstone_spec [OF c(2), of i] obtain c' where c':
    "cache_tombstone p i = Some (Ptr c')" "cache_wf c'" "c_version c' = c_version c"
    "cache_map c' = (case cache_map c i of None \<Rightarrow> cache_map c
                     | Some (ck, _) \<Rightarrow> (cache_map c)(i \<mapsto> (ck, 0)))"
    unfolding c(1) by blast
  show ?case using c' unfolding c(1) pcache_simps by (intro exI [of _ "Ptr c'"]) simp
next
  case (4 p)
  then obtain c where c: "p = Ptr c" "cache_wf c" by (rule pcache_okE)
  from cache_prune_spec [OF c(2)] obtain c' where c':
    "cache_prune p = Some (Ptr c')" "cache_wf c'" "c_version c' = c_version c"
    "cache_map c' = (\<lambda>i. case cache_map c i of None \<Rightarrow> None
       | Some (ck, seen) \<Rightarrow> if seen = 0 then None else Some (ck, seen))"
    unfolding c(1) by blast
  show ?case using c' unfolding c(1) pcache_simps by (intro exI [of _ "Ptr c'"]) simp
qed

end
