(* ===== verification/Bx_Ids_Cache_Spec.thy ===== *)
theory Bx_Ids_Cache_Spec
  imports Bx_Ids_Cache
begin

text \<open>
  What the id cache promises, stated without its array: a map from ids to a checksum and
  a version, and a version counter. Every sequence of calls on a fresh cache is shown to
  behave as on the map, without an access outside the array.
\<close>

section \<open>The abstract cache\<close>

datatype CacheOp =
    OpSet u64 u64 | OpCheck u64 u64 | OpTombstone u64 | OpPrune | OpNextVersion

datatype CacheOut = Stored bool | State CacheState | Done

type_synonym cache_spec = "u64 \<times> (u64 \<Rightarrow> (u64 \<times> u64) option)"

fun spec_op :: "CacheOp \<Rightarrow> cache_spec \<Rightarrow> CacheOut \<times> cache_spec" where
  "spec_op (OpSet i k) (v, m) = (Stored True, v, m(i \<mapsto> (k, v)))"
| "spec_op (OpCheck i k) (v, m) =
     (case m i of
        None \<Rightarrow> (State CacheNotSet, v, m)
      | Some (ck, seen) \<Rightarrow>
          if seen = 0 then (State CacheNotSet, v, m)
          else (State (if ck = k then CacheOk else CacheNotSync), v, m(i \<mapsto> (ck, v))))"
| "spec_op (OpTombstone i) (v, m) =
     (Done, v, case m i of None \<Rightarrow> m | Some (ck, _) \<Rightarrow> m(i \<mapsto> (ck, 0)))"
| "spec_op OpPrune (v, m) =
     (Done, v, \<lambda>i. case m i of None \<Rightarrow> None | Some (ck, seen) \<Rightarrow> if seen = 0 then None else Some (ck, seen))"
| "spec_op OpNextVersion (v, m) =
     (if v + 1 = - 1 then (Done, 1, \<lambda>i. map_option (\<lambda>(ck, _). (ck, 1)) (m i))
      else (Done, v + 1, m))"

fun spec_run :: "CacheOp list \<Rightarrow> cache_spec \<Rightarrow> CacheOut list \<times> cache_spec" where
  "spec_run [] s = ([], s)"
| "spec_run (op # ops) s =
     (let (out, s') = spec_op op s; (outs, s'') = spec_run ops s' in (out # outs, s''))"

text \<open>The same calls on the array.\<close>

fun cache_op :: "(nat \<Rightarrow> bool) \<Rightarrow> CacheOp \<Rightarrow> Cache ptr \<Rightarrow> (CacheOut \<times> Cache ptr) option" where
  "cache_op alloc (OpSet i k) p = do { (b, p') \<leftarrow> cache_set_item alloc p i k; Some (Stored b, p') }"
| "cache_op alloc (OpCheck i k) p = do { (st, p') \<leftarrow> cache_check_item p i k; Some (State st, p') }"
| "cache_op alloc (OpTombstone i) p = do { p' \<leftarrow> cache_tombstone p i; Some (Done, p') }"
| "cache_op alloc OpPrune p = do { p' \<leftarrow> cache_prune p; Some (Done, p') }"
| "cache_op alloc OpNextVersion p = do { p' \<leftarrow> cache_next_version p; Some (Done, p') }"

fun cache_run :: "(nat \<Rightarrow> bool) \<Rightarrow> CacheOp list \<Rightarrow> Cache ptr \<Rightarrow> (CacheOut list \<times> Cache ptr) option" where
  "cache_run alloc [] p = Some ([], p)"
| "cache_run alloc (op # ops) p = do {
     (out, p') \<leftarrow> cache_op alloc op p;
     (outs, p'') \<leftarrow> cache_run alloc ops p';
     Some (out # outs, p'')
   }"

section \<open>The size of the array\<close>

lemma items_map_dom: "dom (items_map xs) = ci_id ` set xs"
  by (induction xs) (simp_all add: items_map_Cons del: fun_upd_apply)

text \<open>The count of used cells is the number of ids the cache knows.\<close>

lemma count_is_card:
  assumes "cache_wf c"
  shows "unat (c_count c) = card (dom (cache_map c))"
proof -
  have "distinct (map ci_id (cells c))"
    using assms by (simp add: cache_wf_def ids_sorted_def strict_sorted_iff)
  then have "card (ci_id ` set (cells c)) = length (cells c)"
    by (metis distinct_card length_map set_map)
  then show ?thesis
    using assms by (simp add: cache_map_def items_map_dom length_cells)
qed

lemma finite_cache_dom: "finite (dom (cache_map c))"
  by (simp add: cache_map_def items_map_dom)

lemma set_item_size:
  assumes "cache_wf c" and "cache_set_item alloc (Ptr c) i k = Some (b, Ptr c')"
  shows "c_size c' = c_size c \<or> c_count c = c_size c \<and> c_size c' = c_size c + 1000"
  using assms
  by (auto simp: cache_set_item_def grow_cache_def cache_wf_def CACHE_CHUNK_SIZE_def Let_def
      split: bind_splits if_splits)

section \<open>Refinement\<close>

definition abs_cache :: "Cache \<Rightarrow> cache_spec" where
  "abs_cache c = (c_version c, cache_map c)"

text \<open>Every array of a cache with at most \<open>n\<close> ids so far has at most \<open>n + 1000\<close> cells.\<close>

definition within :: "nat \<Rightarrow> Cache \<Rightarrow> bool" where
  "within n c \<longleftrightarrow> cache_wf c \<and> card (dom (cache_map c)) \<le> n \<and> unat (c_size c) \<le> n + 1000"

lemma spec_op_dom:
  "dom (snd (snd (spec_op op (v, m)))) \<subseteq> (case op of OpSet i k \<Rightarrow> insert i (dom m) | _ \<Rightarrow> dom m)"
  by (cases op) (auto split: option.splits if_splits)

lemma spec_op_card:
  assumes "finite (dom m)"
  shows "card (dom (snd (snd (spec_op op (v, m))))) \<le> Suc (card (dom m))"
proof -
  have "dom (snd (snd (spec_op op (v, m)))) \<subseteq>
        (case op of OpSet i k \<Rightarrow> insert i (dom m) | _ \<Rightarrow> dom m)"
    by (rule spec_op_dom)
  moreover have "card (case op of OpSet i k \<Rightarrow> insert i (dom m) | _ \<Rightarrow> dom m) \<le> Suc (card (dom m))"
    using assms by (cases op) (auto simp: card_insert_if)
  moreover have "finite (case op of OpSet i k \<Rightarrow> insert i (dom m) | _ \<Rightarrow> dom m)"
    using assms by (cases op) auto
  ultimately show ?thesis by (meson card_mono order_trans)
qed

lemma cache_op_step:
  assumes wf: "cache_wf c" and room: "unat (c_size c) + 1000 < 2 ^ 32"
  shows "\<exists>c'. cache_op (\<lambda>_. True) op (Ptr c) = Some (fst (spec_op op (abs_cache c)), Ptr c') \<and>
           cache_wf c' \<and> abs_cache c' = snd (spec_op op (abs_cache c)) \<and>
           (c_size c' = c_size c \<or> c_count c = c_size c \<and> c_size c' = c_size c + 1000)"
proof (cases op)
  case (OpSet i k)
  from cache_set_item_spec [OF wf room, of "\<lambda>_. True" i k] obtain c' where
    c': "cache_set_item (\<lambda>_. True) (Ptr c) i k = Some (True, Ptr c')" "cache_wf c'"
      "c_version c' = c_version c" "cache_map c' = (cache_map c)(i \<mapsto> (k, c_version c))"
    by (auto split: if_splits)
  with OpSet set_item_size [OF wf c'(1)] show ?thesis by (simp add: abs_cache_def)
next
  case (OpCheck i k)
  with cache_check_item_spec [OF wf, of i k] show ?thesis
    by (auto simp: abs_cache_def split: option.splits)
next
  case (OpTombstone i)
  with cache_tombstone_spec [OF wf, of i] show ?thesis by (auto simp: abs_cache_def)
next
  case OpPrune
  with cache_prune_spec [OF wf] show ?thesis by (auto simp: abs_cache_def)
next
  case OpNextVersion
  with cache_next_version_spec [OF wf] show ?thesis
    by (auto simp: abs_cache_def split: if_splits)
qed

lemma cache_op_within:
  assumes "within n c" and "n + 2000 < 2 ^ 32"
  shows "\<exists>c'. cache_op (\<lambda>_. True) op (Ptr c) = Some (fst (spec_op op (abs_cache c)), Ptr c') \<and>
           within (Suc n) c' \<and> abs_cache c' = snd (spec_op op (abs_cache c))"
proof -
  have wf: "cache_wf c" and room: "unat (c_size c) + 1000 < 2 ^ 32"
    using assms(1,2) by (auto simp: within_def)
  obtain c' where c': "cache_op (\<lambda>_. True) op (Ptr c) = Some (fst (spec_op op (abs_cache c)), Ptr c')"
      "cache_wf c'" "abs_cache c' = snd (spec_op op (abs_cache c))"
      and size: "c_size c' = c_size c \<or> c_count c = c_size c \<and> c_size c' = c_size c + 1000"
    using cache_op_step [OF wf room] by blast
  have "card (dom (cache_map c')) \<le> Suc n"
    using c'(3) spec_op_card [OF finite_cache_dom, of op "c_version c" c] assms(1)
    by (auto simp: within_def abs_cache_def dest!: sym [of _ "snd _"])
  moreover have "unat (c_size c') \<le> Suc n + 1000"
    using size assms(1) count_is_card [OF wf] room
    by (auto simp: within_def unat_word_ariths)
  ultimately show ?thesis using c' by (auto simp: within_def)
qed

lemma cache_run_within:
  assumes "within n c" and "n + length ops + 2000 < 2 ^ 32"
  shows "\<exists>c'. cache_run (\<lambda>_. True) ops (Ptr c) = Some (fst (spec_run ops (abs_cache c)), Ptr c') \<and>
           cache_wf c' \<and> abs_cache c' = snd (spec_run ops (abs_cache c))"
  using assms(1,2)
proof (induction ops arbitrary: n c)
  case Nil
  then show ?case by (auto simp: within_def)
next
  case (Cons op ops)
  then obtain c' where c': "cache_op (\<lambda>_. True) op (Ptr c) = Some (fst (spec_op op (abs_cache c)), Ptr c')"
      "within (Suc n) c'" "abs_cache c' = snd (spec_op op (abs_cache c))"
    using cache_op_within [of n c op] by auto
  with Cons.IH [of "Suc n" c'] Cons.prems show ?case
    by (auto simp: case_prod_beta Let_def)
qed

section \<open>The bisection against a linear search\<close>

lemma takeWhile_split:
  assumes "\<forall>x\<in>set lo. P x" and "\<forall>x\<in>set hi. \<not> P x"
  shows "takeWhile P (lo @ hi) = lo"
  using assms by (cases hi) (simp_all add: takeWhile_append)

lemma lower_bound_linear:
  assumes "cache_wf c"
  shows "lower_bound c i = Some (of_nat (length (takeWhile (\<lambda>x. ci_id x < i) (cells c))))"
proof -
  obtain k lo hi where k: "lower_bound c i = Some k" "cells c = lo @ hi" "length lo = unat k"
    "\<forall>x\<in>set lo. ci_id x < i" "\<forall>x\<in>set hi. i \<le> ci_id x"
    using lower_bound_split [OF assms] .
  then have "takeWhile (\<lambda>x. ci_id x < i) (cells c) = lo"
    using takeWhile_split [of lo "\<lambda>x. ci_id x < i" hi] by (simp add: not_less)
  then show ?thesis using k by simp
qed

section \<open>Properties\<close>

definition sample_cache :: Cache where
  "sample_cache = \<lparr>c_size = 2, c_count = 2, c_version = 3,
     c_items = [\<lparr>ci_id = 4, ci_checksum = 8, ci_last_seen = 2\<rparr>,
                \<lparr>ci_id = 9, ci_checksum = 1, ci_last_seen = 3\<rparr>]\<rparr>"

lemma sample_cache_wf: "cache_wf sample_cache"
  by (simp add: cache_wf_def sample_cache_def cells_def ids_sorted_def)

text \<open>
  C7: any sequence of calls (store, check, tombstone, compaction, next version) on a fresh
  cache gives the answers of the abstract map, leaves a well-formed cache whose abstract
  view is the final map, and never touches a cell outside the array, as long as memory is
  there and there are fewer calls than the 32-bit size field can follow.
\<close>

theorem cache_run_refines:
  assumes "length ops + 2000 < 2 ^ 32"
  shows "\<exists>c'. cache_run (\<lambda>_. True) ops (cache_create (\<lambda>_. True)) =
             Some (fst (spec_run ops (1, \<lambda>_. None)), Ptr c') \<and> cache_wf c' \<and>
           (c_version c', cache_map c') = snd (spec_run ops (1, \<lambda>_. None))"
proof -
  obtain c where c: "cache_create (\<lambda>_. True) = Ptr c" "c_size c = 0"
    by (simp add: cache_create_def)
  note fresh = cache_create_wf [OF c(1)]
  then have "within 0 c" using c(2) by (simp add: within_def)
  with cache_run_within [of 0 c ops] assms fresh c(1) show ?thesis by (simp add: abs_cache_def)
qed

theorem cache_run_refines_witness:
  "\<exists>c'. cache_run (\<lambda>_. True)
     [OpSet 5 7, OpSet 3 9, OpNextVersion, OpCheck 5 7, OpCheck 3 1, OpTombstone 3, OpCheck 3 9, OpPrune]
     (cache_create (\<lambda>_. True)) =
     Some ([Stored True, Stored True, Done, State CacheOk, State CacheNotSync, Done,
            State CacheNotSet, Done], Ptr c') \<and>
     cache_map c' 5 = Some (7, 2) \<and> cache_map c' 3 = None"
  using cache_run_refines [of "[OpSet 5 7, OpSet 3 9, OpNextVersion, OpCheck 5 7, OpCheck 3 1,
    OpTombstone 3, OpCheck 3 9, OpPrune]"]
  by auto

text \<open>
  C25: storing an id in a well-formed cache never leaves the array; it either stores the
  checksum with the current version and keeps every other id, or fails, and it fails only
  for a new id whose allocation fails, with the cache unchanged.
\<close>

theorem cache_set_item_correct:
  assumes "cache_wf c" and "unat (c_size c) + 1000 < 2 ^ 32"
  shows "\<exists>ok c'. cache_set_item alloc (Ptr c) i checksum = Some (ok, Ptr c') \<and> cache_wf c' \<and>
           c_version c' = c_version c \<and>
           (if ok then cache_map c' = (cache_map c)(i \<mapsto> (checksum, c_version c))
            else c' = c \<and> cache_map c i = None \<and>
                 \<not> alloc (unat (c_size c + 1000) * sizeof_item))"
  using assms by (rule cache_set_item_spec)

theorem cache_set_item_correct_witness:
  "\<exists>ok c'. cache_set_item (\<lambda>_. False) (Ptr sample_cache) 5 6 = Some (ok, Ptr c') \<and> cache_wf c' \<and>
     c_version c' = c_version sample_cache \<and>
     (if ok then cache_map c' = (cache_map sample_cache)(5 \<mapsto> (6, c_version sample_cache))
      else c' = sample_cache \<and> cache_map sample_cache 5 = None \<and> \<not> False)"
  by (rule cache_set_item_correct [OF sample_cache_wf, of "\<lambda>_. False" 5 6, unfolded if_True])
     (simp add: sample_cache_def)

text \<open>
  C26: the bisection returns the position a linear search finds, the number of ids below
  the one looked for, at every fill of the array and with no overflow of its 32-bit bounds.
\<close>

theorem lower_bound_is_linear_search:
  assumes "cache_wf c"
  shows "lower_bound c i = Some (of_nat (length (takeWhile (\<lambda>x. ci_id x < i) (cells c))))"
  using assms by (rule lower_bound_linear)

theorem lower_bound_is_linear_search_witness: "lower_bound sample_cache 5 = Some 1"
  using lower_bound_is_linear_search [OF sample_cache_wf, of 5]
  by (simp add: sample_cache_def cells_def)

text \<open>
  The version counter is never the reserved maximum: one step before it, the counter
  restarts at 1 and every known id, tombstones included, is stamped 1; otherwise only the
  counter moves.
\<close>

theorem cache_next_version_correct:
  assumes "cache_wf c"
  shows "\<exists>c'. cache_next_version (Ptr c) = Some (Ptr c') \<and> cache_wf c' \<and> c_size c' = c_size c \<and>
           (if c_version c + 1 = - 1
            then c_version c' = 1 \<and>
                 cache_map c' = (\<lambda>i. map_option (\<lambda>(ck, _). (ck, 1)) (cache_map c i))
            else c_version c' = c_version c + 1 \<and> cache_map c' = cache_map c)"
  using assms by (rule cache_next_version_spec)

theorem cache_next_version_correct_witness:
  "\<exists>c'. cache_next_version (Ptr sample_cache) = Some (Ptr c') \<and> cache_wf c' \<and> c_version c' = 4"
  using cache_next_version_correct [OF sample_cache_wf] by (auto simp: sample_cache_def)

end
