(* ===== verification/Bx_Html_Table.thy ===== *)
theory Bx_Html_Table
  imports Bx_Prelude
begin

text \<open>
  The entity table of \<open>src/src/include/bx_html_entities.h\<close>, entry by entry and in its
  order, in slices of up to 150 lines. \<open>utf8\<close> is the replacement as UTF-8 bytes; \<open>elen\<close>
  and \<open>ulen\<close> are the lengths the table states. The terminating NULL entry is the end of
  the list.
\<close>

datatype s_BXHtmlEntities = Ent (entity: string) (utf8: string) (elen: nat) (ulen: nat)

definition entities_1 :: "s_BXHtmlEntities list" where
  "entities_1 = [
     Ent ''&Tab;'' [CHR 0x09] 5 1,
     Ent ''&NewLine;'' [CHR 0x0A] 9 1,
     Ent ''&excl;'' ''!'' 6 1,
     Ent ''&quot;'' [CHR 0x22] 6 1,
     Ent ''&num;'' ''#'' 5 1,
     Ent ''&dollar;'' ''$'' 8 1,
     Ent ''&percnt;'' ''%'' 8 1,
     Ent ''&amp;'' ''&'' 5 1,
     Ent ''&apos;'' [CHR 0x27] 6 1,
     Ent ''&lpar;'' ''('' 6 1,
     Ent ''&rpar;'' '')'' 6 1,
     Ent ''&ast;'' ''*'' 5 1,
     Ent ''&plus;'' ''+'' 6 1,
     Ent ''&comma;'' '','' 7 1,
     Ent ''&period;'' ''.'' 8 1,
     Ent ''&sol;'' ''/'' 5 1,
     Ent ''&colon;'' '':'' 7 1,
     Ent ''&semi;'' '';'' 6 1,
     Ent ''&lt;'' ''<'' 4 1,
     Ent ''&nvlt;'' [CHR 0x3C, CHR 0xE2, CHR 0x83, CHR 0x92] 6 4,
     Ent ''&equals;'' ''='' 8 1,
     Ent ''&bne;'' [CHR 0x3D, CHR 0xE2, CHR 0x83, CHR 0xA5] 5 4,
     Ent ''&gt;'' ''>'' 4 1,
     Ent ''&nvgt;'' [CHR 0x3E, CHR 0xE2, CHR 0x83, CHR 0x92] 6 4,
     Ent ''&quest;'' ''?'' 7 1,
     Ent ''&commat;'' ''@'' 8 1,
     Ent ''&lbrack;'' ''['' 8 1,
     Ent ''&bsol;'' [CHR 0x5C] 6 1,
     Ent ''&rsqb;'' '']'' 6 1,
     Ent ''&Hat;'' ''^'' 5 1,
     Ent ''&lowbar;'' ''_'' 8 1,
     Ent ''&grave;'' ''`'' 7 1,
     Ent ''&fjlig;'' ''fj'' 7 2,
     Ent ''&lbrace;'' ''{'' 8 1,
     Ent ''&vert;'' ''|'' 6 1,
     Ent ''&rcub;'' ''}'' 6 1,
     Ent ''&nbsp;'' [CHR 0xC2, CHR 0xA0] 6 2,
     Ent ''&iexcl;'' [CHR 0xC2, CHR 0xA1] 7 2,
     Ent ''&cent;'' [CHR 0xC2, CHR 0xA2] 6 2,
     Ent ''&pound;'' [CHR 0xC2, CHR 0xA3] 7 2,
     Ent ''&curren;'' [CHR 0xC2, CHR 0xA4] 8 2,
     Ent ''&yen;'' [CHR 0xC2, CHR 0xA5] 5 2,
     Ent ''&brvbar;'' [CHR 0xC2, CHR 0xA6] 8 2,
     Ent ''&sect;'' [CHR 0xC2, CHR 0xA7] 6 2,
     Ent ''&DoubleDot;'' [CHR 0xC2, CHR 0xA8] 11 2,
     Ent ''&copy;'' [CHR 0xC2, CHR 0xA9] 6 2,
     Ent ''&ordf;'' [CHR 0xC2, CHR 0xAA] 6 2,
     Ent ''&laquo;'' [CHR 0xC2, CHR 0xAB] 7 2,
     Ent ''&not;'' [CHR 0xC2, CHR 0xAC] 5 2,
     Ent ''&shy;'' [CHR 0xC2, CHR 0xAD] 5 2,
     Ent ''&reg;'' [CHR 0xC2, CHR 0xAE] 5 2,
     Ent ''&macr;'' [CHR 0xC2, CHR 0xAF] 6 2,
     Ent ''&deg;'' [CHR 0xC2, CHR 0xB0] 5 2,
     Ent ''&plusmn;'' [CHR 0xC2, CHR 0xB1] 8 2,
     Ent ''&sup2;'' [CHR 0xC2, CHR 0xB2] 6 2,
     Ent ''&sup3;'' [CHR 0xC2, CHR 0xB3] 6 2,
     Ent ''&DiacriticalAcute;'' [CHR 0xC2, CHR 0xB4] 18 2,
     Ent ''&micro;'' [CHR 0xC2, CHR 0xB5] 7 2,
     Ent ''&para;'' [CHR 0xC2, CHR 0xB6] 6 2,
     Ent ''&CenterDot;'' [CHR 0xC2, CHR 0xB7] 11 2,
     Ent ''&Cedilla;'' [CHR 0xC2, CHR 0xB8] 9 2,
     Ent ''&sup1;'' [CHR 0xC2, CHR 0xB9] 6 2,
     Ent ''&ordm;'' [CHR 0xC2, CHR 0xBA] 6 2,
     Ent ''&raquo;'' [CHR 0xC2, CHR 0xBB] 7 2,
     Ent ''&frac14;'' [CHR 0xC2, CHR 0xBC] 8 2,
     Ent ''&half;'' [CHR 0xC2, CHR 0xBD] 6 2,
     Ent ''&frac34;'' [CHR 0xC2, CHR 0xBE] 8 2,
     Ent ''&iquest;'' [CHR 0xC2, CHR 0xBF] 8 2,
     Ent ''&Agrave;'' [CHR 0xC3, CHR 0x80] 8 2,
     Ent ''&Aacute;'' [CHR 0xC3, CHR 0x81] 8 2,
     Ent ''&Acirc;'' [CHR 0xC3, CHR 0x82] 7 2,
     Ent ''&Atilde;'' [CHR 0xC3, CHR 0x83] 8 2,
     Ent ''&Auml;'' [CHR 0xC3, CHR 0x84] 6 2,
     Ent ''&Aring;'' [CHR 0xC3, CHR 0x85] 7 2,
     Ent ''&AElig;'' [CHR 0xC3, CHR 0x86] 7 2,
     Ent ''&Ccedil;'' [CHR 0xC3, CHR 0x87] 8 2,
     Ent ''&Egrave;'' [CHR 0xC3, CHR 0x88] 8 2,
     Ent ''&Eacute;'' [CHR 0xC3, CHR 0x89] 8 2,
     Ent ''&Ecirc;'' [CHR 0xC3, CHR 0x8A] 7 2,
     Ent ''&Euml;'' [CHR 0xC3, CHR 0x8B] 6 2,
     Ent ''&Igrave;'' [CHR 0xC3, CHR 0x8C] 8 2,
     Ent ''&Iacute;'' [CHR 0xC3, CHR 0x8D] 8 2,
     Ent ''&Icirc;'' [CHR 0xC3, CHR 0x8E] 7 2,
     Ent ''&Iuml;'' [CHR 0xC3, CHR 0x8F] 6 2,
     Ent ''&ETH;'' [CHR 0xC3, CHR 0x90] 5 2,
     Ent ''&Ntilde;'' [CHR 0xC3, CHR 0x91] 8 2,
     Ent ''&Ograve;'' [CHR 0xC3, CHR 0x92] 8 2,
     Ent ''&Oacute;'' [CHR 0xC3, CHR 0x93] 8 2,
     Ent ''&Ocirc;'' [CHR 0xC3, CHR 0x94] 7 2,
     Ent ''&Otilde;'' [CHR 0xC3, CHR 0x95] 8 2,
     Ent ''&Ouml;'' [CHR 0xC3, CHR 0x96] 6 2,
     Ent ''&times;'' [CHR 0xC3, CHR 0x97] 7 2,
     Ent ''&Oslash;'' [CHR 0xC3, CHR 0x98] 8 2,
     Ent ''&Ugrave;'' [CHR 0xC3, CHR 0x99] 8 2,
     Ent ''&Uacute;'' [CHR 0xC3, CHR 0x9A] 8 2,
     Ent ''&Ucirc;'' [CHR 0xC3, CHR 0x9B] 7 2,
     Ent ''&Uuml;'' [CHR 0xC3, CHR 0x9C] 6 2,
     Ent ''&Yacute;'' [CHR 0xC3, CHR 0x9D] 8 2,
     Ent ''&THORN;'' [CHR 0xC3, CHR 0x9E] 7 2,
     Ent ''&szlig;'' [CHR 0xC3, CHR 0x9F] 7 2,
     Ent ''&agrave;'' [CHR 0xC3, CHR 0xA0] 8 2,
     Ent ''&aacute;'' [CHR 0xC3, CHR 0xA1] 8 2,
     Ent ''&acirc;'' [CHR 0xC3, CHR 0xA2] 7 2,
     Ent ''&atilde;'' [CHR 0xC3, CHR 0xA3] 8 2,
     Ent ''&auml;'' [CHR 0xC3, CHR 0xA4] 6 2,
     Ent ''&aring;'' [CHR 0xC3, CHR 0xA5] 7 2,
     Ent ''&aelig;'' [CHR 0xC3, CHR 0xA6] 7 2,
     Ent ''&ccedil;'' [CHR 0xC3, CHR 0xA7] 8 2,
     Ent ''&egrave;'' [CHR 0xC3, CHR 0xA8] 8 2,
     Ent ''&eacute;'' [CHR 0xC3, CHR 0xA9] 8 2,
     Ent ''&ecirc;'' [CHR 0xC3, CHR 0xAA] 7 2,
     Ent ''&euml;'' [CHR 0xC3, CHR 0xAB] 6 2,
     Ent ''&igrave;'' [CHR 0xC3, CHR 0xAC] 8 2,
     Ent ''&iacute;'' [CHR 0xC3, CHR 0xAD] 8 2,
     Ent ''&icirc;'' [CHR 0xC3, CHR 0xAE] 7 2,
     Ent ''&iuml;'' [CHR 0xC3, CHR 0xAF] 6 2,
     Ent ''&eth;'' [CHR 0xC3, CHR 0xB0] 5 2,
     Ent ''&ntilde;'' [CHR 0xC3, CHR 0xB1] 8 2,
     Ent ''&ograve;'' [CHR 0xC3, CHR 0xB2] 8 2,
     Ent ''&oacute;'' [CHR 0xC3, CHR 0xB3] 8 2,
     Ent ''&ocirc;'' [CHR 0xC3, CHR 0xB4] 7 2,
     Ent ''&otilde;'' [CHR 0xC3, CHR 0xB5] 8 2,
     Ent ''&ouml;'' [CHR 0xC3, CHR 0xB6] 6 2,
     Ent ''&divide;'' [CHR 0xC3, CHR 0xB7] 8 2,
     Ent ''&oslash;'' [CHR 0xC3, CHR 0xB8] 8 2,
     Ent ''&ugrave;'' [CHR 0xC3, CHR 0xB9] 8 2,
     Ent ''&uacute;'' [CHR 0xC3, CHR 0xBA] 8 2,
     Ent ''&ucirc;'' [CHR 0xC3, CHR 0xBB] 7 2,
     Ent ''&uuml;'' [CHR 0xC3, CHR 0xBC] 6 2,
     Ent ''&yacute;'' [CHR 0xC3, CHR 0xBD] 8 2,
     Ent ''&thorn;'' [CHR 0xC3, CHR 0xBE] 7 2,
     Ent ''&yuml;'' [CHR 0xC3, CHR 0xBF] 6 2,
     Ent ''&Amacr;'' [CHR 0xC4, CHR 0x80] 7 2,
     Ent ''&amacr;'' [CHR 0xC4, CHR 0x81] 7 2,
     Ent ''&Abreve;'' [CHR 0xC4, CHR 0x82] 8 2,
     Ent ''&abreve;'' [CHR 0xC4, CHR 0x83] 8 2,
     Ent ''&Aogon;'' [CHR 0xC4, CHR 0x84] 7 2,
     Ent ''&aogon;'' [CHR 0xC4, CHR 0x85] 7 2,
     Ent ''&Cacute;'' [CHR 0xC4, CHR 0x86] 8 2,
     Ent ''&cacute;'' [CHR 0xC4, CHR 0x87] 8 2,
     Ent ''&Ccirc;'' [CHR 0xC4, CHR 0x88] 7 2,
     Ent ''&ccirc;'' [CHR 0xC4, CHR 0x89] 7 2,
     Ent ''&Cdot;'' [CHR 0xC4, CHR 0x8A] 6 2,
     Ent ''&cdot;'' [CHR 0xC4, CHR 0x8B] 6 2,
     Ent ''&Ccaron;'' [CHR 0xC4, CHR 0x8C] 8 2,
     Ent ''&ccaron;'' [CHR 0xC4, CHR 0x8D] 8 2,
     Ent ''&Dcaron;'' [CHR 0xC4, CHR 0x8E] 8 2,
     Ent ''&dcaron;'' [CHR 0xC4, CHR 0x8F] 8 2,
     Ent ''&Dstrok;'' [CHR 0xC4, CHR 0x90] 8 2,
     Ent ''&dstrok;'' [CHR 0xC4, CHR 0x91] 8 2]"

definition entities_2 :: "s_BXHtmlEntities list" where
  "entities_2 = [
     Ent ''&Emacr;'' [CHR 0xC4, CHR 0x92] 7 2,
     Ent ''&emacr;'' [CHR 0xC4, CHR 0x93] 7 2,
     Ent ''&Edot;'' [CHR 0xC4, CHR 0x96] 6 2,
     Ent ''&edot;'' [CHR 0xC4, CHR 0x97] 6 2,
     Ent ''&Eogon;'' [CHR 0xC4, CHR 0x98] 7 2,
     Ent ''&eogon;'' [CHR 0xC4, CHR 0x99] 7 2,
     Ent ''&Ecaron;'' [CHR 0xC4, CHR 0x9A] 8 2,
     Ent ''&ecaron;'' [CHR 0xC4, CHR 0x9B] 8 2,
     Ent ''&Gcirc;'' [CHR 0xC4, CHR 0x9C] 7 2,
     Ent ''&gcirc;'' [CHR 0xC4, CHR 0x9D] 7 2,
     Ent ''&Gbreve;'' [CHR 0xC4, CHR 0x9E] 8 2,
     Ent ''&gbreve;'' [CHR 0xC4, CHR 0x9F] 8 2,
     Ent ''&Gdot;'' [CHR 0xC4, CHR 0xA0] 6 2,
     Ent ''&gdot;'' [CHR 0xC4, CHR 0xA1] 6 2,
     Ent ''&Gcedil;'' [CHR 0xC4, CHR 0xA2] 8 2,
     Ent ''&Hcirc;'' [CHR 0xC4, CHR 0xA4] 7 2,
     Ent ''&hcirc;'' [CHR 0xC4, CHR 0xA5] 7 2,
     Ent ''&Hstrok;'' [CHR 0xC4, CHR 0xA6] 8 2,
     Ent ''&hstrok;'' [CHR 0xC4, CHR 0xA7] 8 2,
     Ent ''&Itilde;'' [CHR 0xC4, CHR 0xA8] 8 2,
     Ent ''&itilde;'' [CHR 0xC4, CHR 0xA9] 8 2,
     Ent ''&Imacr;'' [CHR 0xC4, CHR 0xAA] 7 2,
     Ent ''&imacr;'' [CHR 0xC4, CHR 0xAB] 7 2,
     Ent ''&Iogon;'' [CHR 0xC4, CHR 0xAE] 7 2,
     Ent ''&iogon;'' [CHR 0xC4, CHR 0xAF] 7 2,
     Ent ''&Idot;'' [CHR 0xC4, CHR 0xB0] 6 2,
     Ent ''&inodot;'' [CHR 0xC4, CHR 0xB1] 8 2,
     Ent ''&IJlig;'' [CHR 0xC4, CHR 0xB2] 7 2,
     Ent ''&ijlig;'' [CHR 0xC4, CHR 0xB3] 7 2,
     Ent ''&Jcirc;'' [CHR 0xC4, CHR 0xB4] 7 2,
     Ent ''&jcirc;'' [CHR 0xC4, CHR 0xB5] 7 2,
     Ent ''&Kcedil;'' [CHR 0xC4, CHR 0xB6] 8 2,
     Ent ''&kcedil;'' [CHR 0xC4, CHR 0xB7] 8 2,
     Ent ''&kgreen;'' [CHR 0xC4, CHR 0xB8] 8 2,
     Ent ''&Lacute;'' [CHR 0xC4, CHR 0xB9] 8 2,
     Ent ''&lacute;'' [CHR 0xC4, CHR 0xBA] 8 2,
     Ent ''&Lcedil;'' [CHR 0xC4, CHR 0xBB] 8 2,
     Ent ''&lcedil;'' [CHR 0xC4, CHR 0xBC] 8 2,
     Ent ''&Lcaron;'' [CHR 0xC4, CHR 0xBD] 8 2,
     Ent ''&lcaron;'' [CHR 0xC4, CHR 0xBE] 8 2,
     Ent ''&Lmidot;'' [CHR 0xC4, CHR 0xBF] 8 2,
     Ent ''&lmidot;'' [CHR 0xC5, CHR 0x80] 8 2,
     Ent ''&Lstrok;'' [CHR 0xC5, CHR 0x81] 8 2,
     Ent ''&lstrok;'' [CHR 0xC5, CHR 0x82] 8 2,
     Ent ''&Nacute;'' [CHR 0xC5, CHR 0x83] 8 2,
     Ent ''&nacute;'' [CHR 0xC5, CHR 0x84] 8 2,
     Ent ''&Ncedil;'' [CHR 0xC5, CHR 0x85] 8 2,
     Ent ''&ncedil;'' [CHR 0xC5, CHR 0x86] 8 2,
     Ent ''&Ncaron;'' [CHR 0xC5, CHR 0x87] 8 2,
     Ent ''&ncaron;'' [CHR 0xC5, CHR 0x88] 8 2,
     Ent ''&napos;'' [CHR 0xC5, CHR 0x89] 7 2,
     Ent ''&ENG;'' [CHR 0xC5, CHR 0x8A] 5 2,
     Ent ''&eng;'' [CHR 0xC5, CHR 0x8B] 5 2,
     Ent ''&Omacr;'' [CHR 0xC5, CHR 0x8C] 7 2,
     Ent ''&omacr;'' [CHR 0xC5, CHR 0x8D] 7 2,
     Ent ''&Odblac;'' [CHR 0xC5, CHR 0x90] 8 2,
     Ent ''&odblac;'' [CHR 0xC5, CHR 0x91] 8 2,
     Ent ''&OElig;'' [CHR 0xC5, CHR 0x92] 7 2,
     Ent ''&oelig;'' [CHR 0xC5, CHR 0x93] 7 2,
     Ent ''&Racute;'' [CHR 0xC5, CHR 0x94] 8 2,
     Ent ''&racute;'' [CHR 0xC5, CHR 0x95] 8 2,
     Ent ''&Rcedil;'' [CHR 0xC5, CHR 0x96] 8 2,
     Ent ''&rcedil;'' [CHR 0xC5, CHR 0x97] 8 2,
     Ent ''&Rcaron;'' [CHR 0xC5, CHR 0x98] 8 2,
     Ent ''&rcaron;'' [CHR 0xC5, CHR 0x99] 8 2,
     Ent ''&Sacute;'' [CHR 0xC5, CHR 0x9A] 8 2,
     Ent ''&sacute;'' [CHR 0xC5, CHR 0x9B] 8 2,
     Ent ''&Scirc;'' [CHR 0xC5, CHR 0x9C] 7 2,
     Ent ''&scirc;'' [CHR 0xC5, CHR 0x9D] 7 2,
     Ent ''&Scedil;'' [CHR 0xC5, CHR 0x9E] 8 2,
     Ent ''&scedil;'' [CHR 0xC5, CHR 0x9F] 8 2,
     Ent ''&Scaron;'' [CHR 0xC5, CHR 0xA0] 8 2,
     Ent ''&scaron;'' [CHR 0xC5, CHR 0xA1] 8 2,
     Ent ''&Tcedil;'' [CHR 0xC5, CHR 0xA2] 8 2,
     Ent ''&tcedil;'' [CHR 0xC5, CHR 0xA3] 8 2,
     Ent ''&Tcaron;'' [CHR 0xC5, CHR 0xA4] 8 2,
     Ent ''&tcaron;'' [CHR 0xC5, CHR 0xA5] 8 2,
     Ent ''&Tstrok;'' [CHR 0xC5, CHR 0xA6] 8 2,
     Ent ''&tstrok;'' [CHR 0xC5, CHR 0xA7] 8 2,
     Ent ''&Utilde;'' [CHR 0xC5, CHR 0xA8] 8 2,
     Ent ''&utilde;'' [CHR 0xC5, CHR 0xA9] 8 2,
     Ent ''&Umacr;'' [CHR 0xC5, CHR 0xAA] 7 2,
     Ent ''&umacr;'' [CHR 0xC5, CHR 0xAB] 7 2,
     Ent ''&Ubreve;'' [CHR 0xC5, CHR 0xAC] 8 2,
     Ent ''&ubreve;'' [CHR 0xC5, CHR 0xAD] 8 2,
     Ent ''&Uring;'' [CHR 0xC5, CHR 0xAE] 7 2,
     Ent ''&uring;'' [CHR 0xC5, CHR 0xAF] 7 2,
     Ent ''&Udblac;'' [CHR 0xC5, CHR 0xB0] 8 2,
     Ent ''&udblac;'' [CHR 0xC5, CHR 0xB1] 8 2,
     Ent ''&Uogon;'' [CHR 0xC5, CHR 0xB2] 7 2,
     Ent ''&uogon;'' [CHR 0xC5, CHR 0xB3] 7 2,
     Ent ''&Wcirc;'' [CHR 0xC5, CHR 0xB4] 7 2,
     Ent ''&wcirc;'' [CHR 0xC5, CHR 0xB5] 7 2,
     Ent ''&Ycirc;'' [CHR 0xC5, CHR 0xB6] 7 2,
     Ent ''&ycirc;'' [CHR 0xC5, CHR 0xB7] 7 2,
     Ent ''&Yuml;'' [CHR 0xC5, CHR 0xB8] 6 2,
     Ent ''&Zacute;'' [CHR 0xC5, CHR 0xB9] 8 2,
     Ent ''&zacute;'' [CHR 0xC5, CHR 0xBA] 8 2,
     Ent ''&Zdot;'' [CHR 0xC5, CHR 0xBB] 6 2,
     Ent ''&zdot;'' [CHR 0xC5, CHR 0xBC] 6 2,
     Ent ''&Zcaron;'' [CHR 0xC5, CHR 0xBD] 8 2,
     Ent ''&zcaron;'' [CHR 0xC5, CHR 0xBE] 8 2,
     Ent ''&fnof;'' [CHR 0xC6, CHR 0x92] 6 2,
     Ent ''&imped;'' [CHR 0xC6, CHR 0xB5] 7 2,
     Ent ''&gacute;'' [CHR 0xC7, CHR 0xB5] 8 2,
     Ent ''&jmath;'' [CHR 0xC8, CHR 0xB7] 7 2,
     Ent ''&circ;'' [CHR 0xCB, CHR 0x86] 6 2,
     Ent ''&Hacek;'' [CHR 0xCB, CHR 0x87] 7 2,
     Ent ''&Breve;'' [CHR 0xCB, CHR 0x98] 7 2,
     Ent ''&dot;'' [CHR 0xCB, CHR 0x99] 5 2,
     Ent ''&ring;'' [CHR 0xCB, CHR 0x9A] 6 2,
     Ent ''&ogon;'' [CHR 0xCB, CHR 0x9B] 6 2,
     Ent ''&DiacriticalTilde;'' [CHR 0xCB, CHR 0x9C] 18 2,
     Ent ''&DiacriticalDoubleAcute;'' [CHR 0xCB, CHR 0x9D] 24 2,
     Ent ''&DownBreve;'' [CHR 0xCC, CHR 0x91] 11 2,
     Ent ''&Alpha;'' [CHR 0xCE, CHR 0x91] 7 2,
     Ent ''&Beta;'' [CHR 0xCE, CHR 0x92] 6 2,
     Ent ''&Gamma;'' [CHR 0xCE, CHR 0x93] 7 2,
     Ent ''&Delta;'' [CHR 0xCE, CHR 0x94] 7 2,
     Ent ''&Epsilon;'' [CHR 0xCE, CHR 0x95] 9 2,
     Ent ''&Zeta;'' [CHR 0xCE, CHR 0x96] 6 2,
     Ent ''&Eta;'' [CHR 0xCE, CHR 0x97] 5 2,
     Ent ''&Theta;'' [CHR 0xCE, CHR 0x98] 7 2,
     Ent ''&Iota;'' [CHR 0xCE, CHR 0x99] 6 2,
     Ent ''&Kappa;'' [CHR 0xCE, CHR 0x9A] 7 2,
     Ent ''&Lambda;'' [CHR 0xCE, CHR 0x9B] 8 2,
     Ent ''&Mu;'' [CHR 0xCE, CHR 0x9C] 4 2,
     Ent ''&Nu;'' [CHR 0xCE, CHR 0x9D] 4 2,
     Ent ''&Xi;'' [CHR 0xCE, CHR 0x9E] 4 2,
     Ent ''&Omicron;'' [CHR 0xCE, CHR 0x9F] 9 2,
     Ent ''&Pi;'' [CHR 0xCE, CHR 0xA0] 4 2,
     Ent ''&Rho;'' [CHR 0xCE, CHR 0xA1] 5 2,
     Ent ''&Sigma;'' [CHR 0xCE, CHR 0xA3] 7 2,
     Ent ''&Tau;'' [CHR 0xCE, CHR 0xA4] 5 2,
     Ent ''&Upsilon;'' [CHR 0xCE, CHR 0xA5] 9 2,
     Ent ''&Phi;'' [CHR 0xCE, CHR 0xA6] 5 2,
     Ent ''&Chi;'' [CHR 0xCE, CHR 0xA7] 5 2,
     Ent ''&Psi;'' [CHR 0xCE, CHR 0xA8] 5 2,
     Ent ''&Omega;'' [CHR 0xCE, CHR 0xA9] 7 2,
     Ent ''&alpha;'' [CHR 0xCE, CHR 0xB1] 7 2,
     Ent ''&beta;'' [CHR 0xCE, CHR 0xB2] 6 2,
     Ent ''&gamma;'' [CHR 0xCE, CHR 0xB3] 7 2,
     Ent ''&delta;'' [CHR 0xCE, CHR 0xB4] 7 2,
     Ent ''&epsi;'' [CHR 0xCE, CHR 0xB5] 6 2,
     Ent ''&zeta;'' [CHR 0xCE, CHR 0xB6] 6 2,
     Ent ''&eta;'' [CHR 0xCE, CHR 0xB7] 5 2,
     Ent ''&theta;'' [CHR 0xCE, CHR 0xB8] 7 2,
     Ent ''&iota;'' [CHR 0xCE, CHR 0xB9] 6 2,
     Ent ''&kappa;'' [CHR 0xCE, CHR 0xBA] 7 2,
     Ent ''&lambda;'' [CHR 0xCE, CHR 0xBB] 8 2]"

definition entities_3 :: "s_BXHtmlEntities list" where
  "entities_3 = [
     Ent ''&mu;'' [CHR 0xCE, CHR 0xBC] 4 2,
     Ent ''&nu;'' [CHR 0xCE, CHR 0xBD] 4 2,
     Ent ''&xi;'' [CHR 0xCE, CHR 0xBE] 4 2,
     Ent ''&omicron;'' [CHR 0xCE, CHR 0xBF] 9 2,
     Ent ''&pi;'' [CHR 0xCF, CHR 0x80] 4 2,
     Ent ''&rho;'' [CHR 0xCF, CHR 0x81] 5 2,
     Ent ''&sigmav;'' [CHR 0xCF, CHR 0x82] 8 2,
     Ent ''&sigma;'' [CHR 0xCF, CHR 0x83] 7 2,
     Ent ''&tau;'' [CHR 0xCF, CHR 0x84] 5 2,
     Ent ''&upsi;'' [CHR 0xCF, CHR 0x85] 6 2,
     Ent ''&phi;'' [CHR 0xCF, CHR 0x86] 5 2,
     Ent ''&chi;'' [CHR 0xCF, CHR 0x87] 5 2,
     Ent ''&psi;'' [CHR 0xCF, CHR 0x88] 5 2,
     Ent ''&omega;'' [CHR 0xCF, CHR 0x89] 7 2,
     Ent ''&thetasym;'' [CHR 0xCF, CHR 0x91] 10 2,
     Ent ''&upsih;'' [CHR 0xCF, CHR 0x92] 7 2,
     Ent ''&straightphi;'' [CHR 0xCF, CHR 0x95] 13 2,
     Ent ''&piv;'' [CHR 0xCF, CHR 0x96] 5 2,
     Ent ''&Gammad;'' [CHR 0xCF, CHR 0x9C] 8 2,
     Ent ''&gammad;'' [CHR 0xCF, CHR 0x9D] 8 2,
     Ent ''&varkappa;'' [CHR 0xCF, CHR 0xB0] 10 2,
     Ent ''&rhov;'' [CHR 0xCF, CHR 0xB1] 6 2,
     Ent ''&straightepsilon;'' [CHR 0xCF, CHR 0xB5] 17 2,
     Ent ''&backepsilon;'' [CHR 0xCF, CHR 0xB6] 13 2,
     Ent ''&IOcy;'' [CHR 0xD0, CHR 0x81] 6 2,
     Ent ''&DJcy;'' [CHR 0xD0, CHR 0x82] 6 2,
     Ent ''&GJcy;'' [CHR 0xD0, CHR 0x83] 6 2,
     Ent ''&Jukcy;'' [CHR 0xD0, CHR 0x84] 7 2,
     Ent ''&DScy;'' [CHR 0xD0, CHR 0x85] 6 2,
     Ent ''&Iukcy;'' [CHR 0xD0, CHR 0x86] 7 2,
     Ent ''&YIcy;'' [CHR 0xD0, CHR 0x87] 6 2,
     Ent ''&Jsercy;'' [CHR 0xD0, CHR 0x88] 8 2,
     Ent ''&LJcy;'' [CHR 0xD0, CHR 0x89] 6 2,
     Ent ''&NJcy;'' [CHR 0xD0, CHR 0x8A] 6 2,
     Ent ''&TSHcy;'' [CHR 0xD0, CHR 0x8B] 7 2,
     Ent ''&KJcy;'' [CHR 0xD0, CHR 0x8C] 6 2,
     Ent ''&Ubrcy;'' [CHR 0xD0, CHR 0x8E] 7 2,
     Ent ''&DZcy;'' [CHR 0xD0, CHR 0x8F] 6 2,
     Ent ''&Acy;'' [CHR 0xD0, CHR 0x90] 5 2,
     Ent ''&Bcy;'' [CHR 0xD0, CHR 0x91] 5 2,
     Ent ''&Vcy;'' [CHR 0xD0, CHR 0x92] 5 2,
     Ent ''&Gcy;'' [CHR 0xD0, CHR 0x93] 5 2,
     Ent ''&Dcy;'' [CHR 0xD0, CHR 0x94] 5 2,
     Ent ''&IEcy;'' [CHR 0xD0, CHR 0x95] 6 2,
     Ent ''&ZHcy;'' [CHR 0xD0, CHR 0x96] 6 2,
     Ent ''&Zcy;'' [CHR 0xD0, CHR 0x97] 5 2,
     Ent ''&Icy;'' [CHR 0xD0, CHR 0x98] 5 2,
     Ent ''&Jcy;'' [CHR 0xD0, CHR 0x99] 5 2,
     Ent ''&Kcy;'' [CHR 0xD0, CHR 0x9A] 5 2,
     Ent ''&Lcy;'' [CHR 0xD0, CHR 0x9B] 5 2,
     Ent ''&Mcy;'' [CHR 0xD0, CHR 0x9C] 5 2,
     Ent ''&Ncy;'' [CHR 0xD0, CHR 0x9D] 5 2,
     Ent ''&Ocy;'' [CHR 0xD0, CHR 0x9E] 5 2,
     Ent ''&Pcy;'' [CHR 0xD0, CHR 0x9F] 5 2,
     Ent ''&Rcy;'' [CHR 0xD0, CHR 0xA0] 5 2,
     Ent ''&Scy;'' [CHR 0xD0, CHR 0xA1] 5 2,
     Ent ''&Tcy;'' [CHR 0xD0, CHR 0xA2] 5 2,
     Ent ''&Ucy;'' [CHR 0xD0, CHR 0xA3] 5 2,
     Ent ''&Fcy;'' [CHR 0xD0, CHR 0xA4] 5 2,
     Ent ''&KHcy;'' [CHR 0xD0, CHR 0xA5] 6 2,
     Ent ''&TScy;'' [CHR 0xD0, CHR 0xA6] 6 2,
     Ent ''&CHcy;'' [CHR 0xD0, CHR 0xA7] 6 2,
     Ent ''&SHcy;'' [CHR 0xD0, CHR 0xA8] 6 2,
     Ent ''&SHCHcy;'' [CHR 0xD0, CHR 0xA9] 8 2,
     Ent ''&HARDcy;'' [CHR 0xD0, CHR 0xAA] 8 2,
     Ent ''&Ycy;'' [CHR 0xD0, CHR 0xAB] 5 2,
     Ent ''&SOFTcy;'' [CHR 0xD0, CHR 0xAC] 8 2,
     Ent ''&Ecy;'' [CHR 0xD0, CHR 0xAD] 5 2,
     Ent ''&YUcy;'' [CHR 0xD0, CHR 0xAE] 6 2,
     Ent ''&YAcy;'' [CHR 0xD0, CHR 0xAF] 6 2,
     Ent ''&acy;'' [CHR 0xD0, CHR 0xB0] 5 2,
     Ent ''&bcy;'' [CHR 0xD0, CHR 0xB1] 5 2,
     Ent ''&vcy;'' [CHR 0xD0, CHR 0xB2] 5 2,
     Ent ''&gcy;'' [CHR 0xD0, CHR 0xB3] 5 2,
     Ent ''&dcy;'' [CHR 0xD0, CHR 0xB4] 5 2,
     Ent ''&iecy;'' [CHR 0xD0, CHR 0xB5] 6 2,
     Ent ''&zhcy;'' [CHR 0xD0, CHR 0xB6] 6 2,
     Ent ''&zcy;'' [CHR 0xD0, CHR 0xB7] 5 2,
     Ent ''&icy;'' [CHR 0xD0, CHR 0xB8] 5 2,
     Ent ''&jcy;'' [CHR 0xD0, CHR 0xB9] 5 2,
     Ent ''&kcy;'' [CHR 0xD0, CHR 0xBA] 5 2,
     Ent ''&lcy;'' [CHR 0xD0, CHR 0xBB] 5 2,
     Ent ''&mcy;'' [CHR 0xD0, CHR 0xBC] 5 2,
     Ent ''&ncy;'' [CHR 0xD0, CHR 0xBD] 5 2,
     Ent ''&ocy;'' [CHR 0xD0, CHR 0xBE] 5 2,
     Ent ''&pcy;'' [CHR 0xD0, CHR 0xBF] 5 2,
     Ent ''&rcy;'' [CHR 0xD1, CHR 0x80] 5 2,
     Ent ''&scy;'' [CHR 0xD1, CHR 0x81] 5 2,
     Ent ''&tcy;'' [CHR 0xD1, CHR 0x82] 5 2,
     Ent ''&ucy;'' [CHR 0xD1, CHR 0x83] 5 2,
     Ent ''&fcy;'' [CHR 0xD1, CHR 0x84] 5 2,
     Ent ''&khcy;'' [CHR 0xD1, CHR 0x85] 6 2,
     Ent ''&tscy;'' [CHR 0xD1, CHR 0x86] 6 2,
     Ent ''&chcy;'' [CHR 0xD1, CHR 0x87] 6 2,
     Ent ''&shcy;'' [CHR 0xD1, CHR 0x88] 6 2,
     Ent ''&shchcy;'' [CHR 0xD1, CHR 0x89] 8 2,
     Ent ''&hardcy;'' [CHR 0xD1, CHR 0x8A] 8 2,
     Ent ''&ycy;'' [CHR 0xD1, CHR 0x8B] 5 2,
     Ent ''&softcy;'' [CHR 0xD1, CHR 0x8C] 8 2,
     Ent ''&ecy;'' [CHR 0xD1, CHR 0x8D] 5 2,
     Ent ''&yucy;'' [CHR 0xD1, CHR 0x8E] 6 2,
     Ent ''&yacy;'' [CHR 0xD1, CHR 0x8F] 6 2,
     Ent ''&iocy;'' [CHR 0xD1, CHR 0x91] 6 2,
     Ent ''&djcy;'' [CHR 0xD1, CHR 0x92] 6 2,
     Ent ''&gjcy;'' [CHR 0xD1, CHR 0x93] 6 2,
     Ent ''&jukcy;'' [CHR 0xD1, CHR 0x94] 7 2,
     Ent ''&dscy;'' [CHR 0xD1, CHR 0x95] 6 2,
     Ent ''&iukcy;'' [CHR 0xD1, CHR 0x96] 7 2,
     Ent ''&yicy;'' [CHR 0xD1, CHR 0x97] 6 2,
     Ent ''&jsercy;'' [CHR 0xD1, CHR 0x98] 8 2,
     Ent ''&ljcy;'' [CHR 0xD1, CHR 0x99] 6 2,
     Ent ''&njcy;'' [CHR 0xD1, CHR 0x9A] 6 2,
     Ent ''&tshcy;'' [CHR 0xD1, CHR 0x9B] 7 2,
     Ent ''&kjcy;'' [CHR 0xD1, CHR 0x9C] 6 2,
     Ent ''&ubrcy;'' [CHR 0xD1, CHR 0x9E] 7 2,
     Ent ''&dzcy;'' [CHR 0xD1, CHR 0x9F] 6 2,
     Ent ''&ensp;'' [CHR 0xE2, CHR 0x80, CHR 0x82] 6 3,
     Ent ''&emsp;'' [CHR 0xE2, CHR 0x80, CHR 0x83] 6 3,
     Ent ''&emsp13;'' [CHR 0xE2, CHR 0x80, CHR 0x84] 8 3,
     Ent ''&emsp14;'' [CHR 0xE2, CHR 0x80, CHR 0x85] 8 3,
     Ent ''&numsp;'' [CHR 0xE2, CHR 0x80, CHR 0x87] 7 3,
     Ent ''&puncsp;'' [CHR 0xE2, CHR 0x80, CHR 0x88] 8 3,
     Ent ''&ThinSpace;'' [CHR 0xE2, CHR 0x80, CHR 0x89] 11 3,
     Ent ''&hairsp;'' [CHR 0xE2, CHR 0x80, CHR 0x8A] 8 3,
     Ent ''&ZeroWidthSpace;'' [CHR 0xE2, CHR 0x80, CHR 0x8B] 16 3,
     Ent ''&zwnj;'' [CHR 0xE2, CHR 0x80, CHR 0x8C] 6 3,
     Ent ''&zwj;'' [CHR 0xE2, CHR 0x80, CHR 0x8D] 5 3,
     Ent ''&lrm;'' [CHR 0xE2, CHR 0x80, CHR 0x8E] 5 3,
     Ent ''&rlm;'' [CHR 0xE2, CHR 0x80, CHR 0x8F] 5 3,
     Ent ''&hyphen;'' [CHR 0xE2, CHR 0x80, CHR 0x90] 8 3,
     Ent ''&ndash;'' [CHR 0xE2, CHR 0x80, CHR 0x93] 7 3,
     Ent ''&mdash;'' [CHR 0xE2, CHR 0x80, CHR 0x94] 7 3,
     Ent ''&horbar;'' [CHR 0xE2, CHR 0x80, CHR 0x95] 8 3,
     Ent ''&Verbar;'' [CHR 0xE2, CHR 0x80, CHR 0x96] 8 3,
     Ent ''&OpenCurlyQuote;'' [CHR 0xE2, CHR 0x80, CHR 0x98] 16 3,
     Ent ''&rsquo;'' [CHR 0xE2, CHR 0x80, CHR 0x99] 7 3,
     Ent ''&sbquo;'' [CHR 0xE2, CHR 0x80, CHR 0x9A] 7 3,
     Ent ''&OpenCurlyDoubleQuote;'' [CHR 0xE2, CHR 0x80, CHR 0x9C] 22 3,
     Ent ''&rdquo;'' [CHR 0xE2, CHR 0x80, CHR 0x9D] 7 3,
     Ent ''&bdquo;'' [CHR 0xE2, CHR 0x80, CHR 0x9E] 7 3,
     Ent ''&dagger;'' [CHR 0xE2, CHR 0x80, CHR 0xA0] 8 3,
     Ent ''&Dagger;'' [CHR 0xE2, CHR 0x80, CHR 0xA1] 8 3,
     Ent ''&bull;'' [CHR 0xE2, CHR 0x80, CHR 0xA2] 6 3,
     Ent ''&nldr;'' [CHR 0xE2, CHR 0x80, CHR 0xA5] 6 3,
     Ent ''&hellip;'' [CHR 0xE2, CHR 0x80, CHR 0xA6] 8 3,
     Ent ''&permil;'' [CHR 0xE2, CHR 0x80, CHR 0xB0] 8 3,
     Ent ''&pertenk;'' [CHR 0xE2, CHR 0x80, CHR 0xB1] 9 3,
     Ent ''&prime;'' [CHR 0xE2, CHR 0x80, CHR 0xB2] 7 3,
     Ent ''&Prime;'' [CHR 0xE2, CHR 0x80, CHR 0xB3] 7 3,
     Ent ''&tprime;'' [CHR 0xE2, CHR 0x80, CHR 0xB4] 8 3]"

definition entities_4 :: "s_BXHtmlEntities list" where
  "entities_4 = [
     Ent ''&backprime;'' [CHR 0xE2, CHR 0x80, CHR 0xB5] 11 3,
     Ent ''&lsaquo;'' [CHR 0xE2, CHR 0x80, CHR 0xB9] 8 3,
     Ent ''&rsaquo;'' [CHR 0xE2, CHR 0x80, CHR 0xBA] 8 3,
     Ent ''&oline;'' [CHR 0xE2, CHR 0x80, CHR 0xBE] 7 3,
     Ent ''&caret;'' [CHR 0xE2, CHR 0x81, CHR 0x81] 7 3,
     Ent ''&hybull;'' [CHR 0xE2, CHR 0x81, CHR 0x83] 8 3,
     Ent ''&frasl;'' [CHR 0xE2, CHR 0x81, CHR 0x84] 7 3,
     Ent ''&bsemi;'' [CHR 0xE2, CHR 0x81, CHR 0x8F] 7 3,
     Ent ''&qprime;'' [CHR 0xE2, CHR 0x81, CHR 0x97] 8 3,
     Ent ''&MediumSpace;'' [CHR 0xE2, CHR 0x81, CHR 0x9F] 13 3,
     Ent ''&ThickSpace;'' [CHR 0xE2, CHR 0x81, CHR 0x9F, CHR 0xE2, CHR 0x80, CHR 0x8A] 12 6,
     Ent ''&NoBreak;'' [CHR 0xE2, CHR 0x81, CHR 0xA0] 9 3,
     Ent ''&af;'' [CHR 0xE2, CHR 0x81, CHR 0xA1] 4 3,
     Ent ''&InvisibleTimes;'' [CHR 0xE2, CHR 0x81, CHR 0xA2] 16 3,
     Ent ''&ic;'' [CHR 0xE2, CHR 0x81, CHR 0xA3] 4 3,
     Ent ''&euro;'' [CHR 0xE2, CHR 0x82, CHR 0xAC] 6 3,
     Ent ''&TripleDot;'' [CHR 0xE2, CHR 0x83, CHR 0x9B] 11 3,
     Ent ''&DotDot;'' [CHR 0xE2, CHR 0x83, CHR 0x9C] 8 3,
     Ent ''&complexes;'' [CHR 0xE2, CHR 0x84, CHR 0x82] 11 3,
     Ent ''&incare;'' [CHR 0xE2, CHR 0x84, CHR 0x85] 8 3,
     Ent ''&gscr;'' [CHR 0xE2, CHR 0x84, CHR 0x8A] 6 3,
     Ent ''&HilbertSpace;'' [CHR 0xE2, CHR 0x84, CHR 0x8B] 14 3,
     Ent ''&Hfr;'' [CHR 0xE2, CHR 0x84, CHR 0x8C] 5 3,
     Ent ''&Hopf;'' [CHR 0xE2, CHR 0x84, CHR 0x8D] 6 3,
     Ent ''&planckh;'' [CHR 0xE2, CHR 0x84, CHR 0x8E] 9 3,
     Ent ''&planck;'' [CHR 0xE2, CHR 0x84, CHR 0x8F] 8 3,
     Ent ''&imagline;'' [CHR 0xE2, CHR 0x84, CHR 0x90] 10 3,
     Ent ''&Ifr;'' [CHR 0xE2, CHR 0x84, CHR 0x91] 5 3,
     Ent ''&lagran;'' [CHR 0xE2, CHR 0x84, CHR 0x92] 8 3,
     Ent ''&ell;'' [CHR 0xE2, CHR 0x84, CHR 0x93] 5 3,
     Ent ''&naturals;'' [CHR 0xE2, CHR 0x84, CHR 0x95] 10 3,
     Ent ''&numero;'' [CHR 0xE2, CHR 0x84, CHR 0x96] 8 3,
     Ent ''&copysr;'' [CHR 0xE2, CHR 0x84, CHR 0x97] 8 3,
     Ent ''&wp;'' [CHR 0xE2, CHR 0x84, CHR 0x98] 4 3,
     Ent ''&primes;'' [CHR 0xE2, CHR 0x84, CHR 0x99] 8 3,
     Ent ''&rationals;'' [CHR 0xE2, CHR 0x84, CHR 0x9A] 11 3,
     Ent ''&realine;'' [CHR 0xE2, CHR 0x84, CHR 0x9B] 9 3,
     Ent ''&Rfr;'' [CHR 0xE2, CHR 0x84, CHR 0x9C] 5 3,
     Ent ''&Ropf;'' [CHR 0xE2, CHR 0x84, CHR 0x9D] 6 3,
     Ent ''&rx;'' [CHR 0xE2, CHR 0x84, CHR 0x9E] 4 3,
     Ent ''&trade;'' [CHR 0xE2, CHR 0x84, CHR 0xA2] 7 3,
     Ent ''&Zopf;'' [CHR 0xE2, CHR 0x84, CHR 0xA4] 6 3,
     Ent ''&mho;'' [CHR 0xE2, CHR 0x84, CHR 0xA7] 5 3,
     Ent ''&Zfr;'' [CHR 0xE2, CHR 0x84, CHR 0xA8] 5 3,
     Ent ''&iiota;'' [CHR 0xE2, CHR 0x84, CHR 0xA9] 7 3,
     Ent ''&Bscr;'' [CHR 0xE2, CHR 0x84, CHR 0xAC] 6 3,
     Ent ''&Cfr;'' [CHR 0xE2, CHR 0x84, CHR 0xAD] 5 3,
     Ent ''&escr;'' [CHR 0xE2, CHR 0x84, CHR 0xAF] 6 3,
     Ent ''&expectation;'' [CHR 0xE2, CHR 0x84, CHR 0xB0] 13 3,
     Ent ''&Fouriertrf;'' [CHR 0xE2, CHR 0x84, CHR 0xB1] 12 3,
     Ent ''&Mellintrf;'' [CHR 0xE2, CHR 0x84, CHR 0xB3] 11 3,
     Ent ''&orderof;'' [CHR 0xE2, CHR 0x84, CHR 0xB4] 9 3,
     Ent ''&aleph;'' [CHR 0xE2, CHR 0x84, CHR 0xB5] 7 3,
     Ent ''&beth;'' [CHR 0xE2, CHR 0x84, CHR 0xB6] 6 3,
     Ent ''&gimel;'' [CHR 0xE2, CHR 0x84, CHR 0xB7] 7 3,
     Ent ''&daleth;'' [CHR 0xE2, CHR 0x84, CHR 0xB8] 8 3,
     Ent ''&CapitalDifferentialD;'' [CHR 0xE2, CHR 0x85, CHR 0x85] 22 3,
     Ent ''&DifferentialD;'' [CHR 0xE2, CHR 0x85, CHR 0x86] 15 3,
     Ent ''&exponentiale;'' [CHR 0xE2, CHR 0x85, CHR 0x87] 14 3,
     Ent ''&ImaginaryI;'' [CHR 0xE2, CHR 0x85, CHR 0x88] 12 3,
     Ent ''&frac13;'' [CHR 0xE2, CHR 0x85, CHR 0x93] 8 3,
     Ent ''&frac23;'' [CHR 0xE2, CHR 0x85, CHR 0x94] 8 3,
     Ent ''&frac15;'' [CHR 0xE2, CHR 0x85, CHR 0x95] 8 3,
     Ent ''&frac25;'' [CHR 0xE2, CHR 0x85, CHR 0x96] 8 3,
     Ent ''&frac35;'' [CHR 0xE2, CHR 0x85, CHR 0x97] 8 3,
     Ent ''&frac45;'' [CHR 0xE2, CHR 0x85, CHR 0x98] 8 3,
     Ent ''&frac16;'' [CHR 0xE2, CHR 0x85, CHR 0x99] 8 3,
     Ent ''&frac56;'' [CHR 0xE2, CHR 0x85, CHR 0x9A] 8 3,
     Ent ''&frac18;'' [CHR 0xE2, CHR 0x85, CHR 0x9B] 8 3,
     Ent ''&frac38;'' [CHR 0xE2, CHR 0x85, CHR 0x9C] 8 3,
     Ent ''&frac58;'' [CHR 0xE2, CHR 0x85, CHR 0x9D] 8 3,
     Ent ''&frac78;'' [CHR 0xE2, CHR 0x85, CHR 0x9E] 8 3,
     Ent ''&larr;'' [CHR 0xE2, CHR 0x86, CHR 0x90] 6 3,
     Ent ''&uarr;'' [CHR 0xE2, CHR 0x86, CHR 0x91] 6 3,
     Ent ''&srarr;'' [CHR 0xE2, CHR 0x86, CHR 0x92] 7 3,
     Ent ''&darr;'' [CHR 0xE2, CHR 0x86, CHR 0x93] 6 3,
     Ent ''&harr;'' [CHR 0xE2, CHR 0x86, CHR 0x94] 6 3,
     Ent ''&UpDownArrow;'' [CHR 0xE2, CHR 0x86, CHR 0x95] 13 3,
     Ent ''&nwarrow;'' [CHR 0xE2, CHR 0x86, CHR 0x96] 9 3,
     Ent ''&UpperRightArrow;'' [CHR 0xE2, CHR 0x86, CHR 0x97] 17 3,
     Ent ''&LowerRightArrow;'' [CHR 0xE2, CHR 0x86, CHR 0x98] 17 3,
     Ent ''&swarr;'' [CHR 0xE2, CHR 0x86, CHR 0x99] 7 3,
     Ent ''&nleftarrow;'' [CHR 0xE2, CHR 0x86, CHR 0x9A] 12 3,
     Ent ''&nrarr;'' [CHR 0xE2, CHR 0x86, CHR 0x9B] 7 3,
     Ent ''&rarrw;'' [CHR 0xE2, CHR 0x86, CHR 0x9D] 7 3,
     Ent ''&nrarrw;'' [CHR 0xE2, CHR 0x86, CHR 0x9D, CHR 0xCC, CHR 0xB8] 8 5,
     Ent ''&Larr;'' [CHR 0xE2, CHR 0x86, CHR 0x9E] 6 3,
     Ent ''&Uarr;'' [CHR 0xE2, CHR 0x86, CHR 0x9F] 6 3,
     Ent ''&twoheadrightarrow;'' [CHR 0xE2, CHR 0x86, CHR 0xA0] 19 3,
     Ent ''&Darr;'' [CHR 0xE2, CHR 0x86, CHR 0xA1] 6 3,
     Ent ''&larrtl;'' [CHR 0xE2, CHR 0x86, CHR 0xA2] 8 3,
     Ent ''&rarrtl;'' [CHR 0xE2, CHR 0x86, CHR 0xA3] 8 3,
     Ent ''&LeftTeeArrow;'' [CHR 0xE2, CHR 0x86, CHR 0xA4] 14 3,
     Ent ''&UpTeeArrow;'' [CHR 0xE2, CHR 0x86, CHR 0xA5] 12 3,
     Ent ''&map;'' [CHR 0xE2, CHR 0x86, CHR 0xA6] 5 3,
     Ent ''&DownTeeArrow;'' [CHR 0xE2, CHR 0x86, CHR 0xA7] 14 3,
     Ent ''&larrhk;'' [CHR 0xE2, CHR 0x86, CHR 0xA9] 8 3,
     Ent ''&rarrhk;'' [CHR 0xE2, CHR 0x86, CHR 0xAA] 8 3,
     Ent ''&larrlp;'' [CHR 0xE2, CHR 0x86, CHR 0xAB] 8 3,
     Ent ''&looparrowright;'' [CHR 0xE2, CHR 0x86, CHR 0xAC] 16 3,
     Ent ''&harrw;'' [CHR 0xE2, CHR 0x86, CHR 0xAD] 7 3,
     Ent ''&nleftrightarrow;'' [CHR 0xE2, CHR 0x86, CHR 0xAE] 17 3,
     Ent ''&Lsh;'' [CHR 0xE2, CHR 0x86, CHR 0xB0] 5 3,
     Ent ''&rsh;'' [CHR 0xE2, CHR 0x86, CHR 0xB1] 5 3,
     Ent ''&ldsh;'' [CHR 0xE2, CHR 0x86, CHR 0xB2] 6 3,
     Ent ''&rdsh;'' [CHR 0xE2, CHR 0x86, CHR 0xB3] 6 3,
     Ent ''&crarr;'' [CHR 0xE2, CHR 0x86, CHR 0xB5] 7 3,
     Ent ''&curvearrowleft;'' [CHR 0xE2, CHR 0x86, CHR 0xB6] 16 3,
     Ent ''&curarr;'' [CHR 0xE2, CHR 0x86, CHR 0xB7] 8 3,
     Ent ''&olarr;'' [CHR 0xE2, CHR 0x86, CHR 0xBA] 7 3,
     Ent ''&orarr;'' [CHR 0xE2, CHR 0x86, CHR 0xBB] 7 3,
     Ent ''&leftharpoonup;'' [CHR 0xE2, CHR 0x86, CHR 0xBC] 15 3,
     Ent ''&leftharpoondown;'' [CHR 0xE2, CHR 0x86, CHR 0xBD] 17 3,
     Ent ''&RightUpVector;'' [CHR 0xE2, CHR 0x86, CHR 0xBE] 15 3,
     Ent ''&uharl;'' [CHR 0xE2, CHR 0x86, CHR 0xBF] 7 3,
     Ent ''&rharu;'' [CHR 0xE2, CHR 0x87, CHR 0x80] 7 3,
     Ent ''&rhard;'' [CHR 0xE2, CHR 0x87, CHR 0x81] 7 3,
     Ent ''&RightDownVector;'' [CHR 0xE2, CHR 0x87, CHR 0x82] 17 3,
     Ent ''&dharl;'' [CHR 0xE2, CHR 0x87, CHR 0x83] 7 3,
     Ent ''&rightleftarrows;'' [CHR 0xE2, CHR 0x87, CHR 0x84] 17 3,
     Ent ''&udarr;'' [CHR 0xE2, CHR 0x87, CHR 0x85] 7 3,
     Ent ''&lrarr;'' [CHR 0xE2, CHR 0x87, CHR 0x86] 7 3,
     Ent ''&llarr;'' [CHR 0xE2, CHR 0x87, CHR 0x87] 7 3,
     Ent ''&upuparrows;'' [CHR 0xE2, CHR 0x87, CHR 0x88] 12 3,
     Ent ''&rrarr;'' [CHR 0xE2, CHR 0x87, CHR 0x89] 7 3,
     Ent ''&downdownarrows;'' [CHR 0xE2, CHR 0x87, CHR 0x8A] 16 3,
     Ent ''&leftrightharpoons;'' [CHR 0xE2, CHR 0x87, CHR 0x8B] 19 3,
     Ent ''&rightleftharpoons;'' [CHR 0xE2, CHR 0x87, CHR 0x8C] 19 3,
     Ent ''&nLeftarrow;'' [CHR 0xE2, CHR 0x87, CHR 0x8D] 12 3,
     Ent ''&nhArr;'' [CHR 0xE2, CHR 0x87, CHR 0x8E] 7 3,
     Ent ''&nrArr;'' [CHR 0xE2, CHR 0x87, CHR 0x8F] 7 3,
     Ent ''&DoubleLeftArrow;'' [CHR 0xE2, CHR 0x87, CHR 0x90] 17 3,
     Ent ''&DoubleUpArrow;'' [CHR 0xE2, CHR 0x87, CHR 0x91] 15 3,
     Ent ''&Implies;'' [CHR 0xE2, CHR 0x87, CHR 0x92] 9 3,
     Ent ''&Downarrow;'' [CHR 0xE2, CHR 0x87, CHR 0x93] 11 3,
     Ent ''&hArr;'' [CHR 0xE2, CHR 0x87, CHR 0x94] 6 3,
     Ent ''&Updownarrow;'' [CHR 0xE2, CHR 0x87, CHR 0x95] 13 3,
     Ent ''&nwArr;'' [CHR 0xE2, CHR 0x87, CHR 0x96] 7 3,
     Ent ''&neArr;'' [CHR 0xE2, CHR 0x87, CHR 0x97] 7 3,
     Ent ''&seArr;'' [CHR 0xE2, CHR 0x87, CHR 0x98] 7 3,
     Ent ''&swArr;'' [CHR 0xE2, CHR 0x87, CHR 0x99] 7 3,
     Ent ''&lAarr;'' [CHR 0xE2, CHR 0x87, CHR 0x9A] 7 3,
     Ent ''&rAarr;'' [CHR 0xE2, CHR 0x87, CHR 0x9B] 7 3,
     Ent ''&zigrarr;'' [CHR 0xE2, CHR 0x87, CHR 0x9D] 9 3,
     Ent ''&LeftArrowBar;'' [CHR 0xE2, CHR 0x87, CHR 0xA4] 14 3,
     Ent ''&RightArrowBar;'' [CHR 0xE2, CHR 0x87, CHR 0xA5] 15 3,
     Ent ''&DownArrowUpArrow;'' [CHR 0xE2, CHR 0x87, CHR 0xB5] 18 3,
     Ent ''&loarr;'' [CHR 0xE2, CHR 0x87, CHR 0xBD] 7 3,
     Ent ''&roarr;'' [CHR 0xE2, CHR 0x87, CHR 0xBE] 7 3,
     Ent ''&hoarr;'' [CHR 0xE2, CHR 0x87, CHR 0xBF] 7 3]"

definition entities_5 :: "s_BXHtmlEntities list" where
  "entities_5 = [
     Ent ''&forall;'' [CHR 0xE2, CHR 0x88, CHR 0x80] 8 3,
     Ent ''&comp;'' [CHR 0xE2, CHR 0x88, CHR 0x81] 6 3,
     Ent ''&part;'' [CHR 0xE2, CHR 0x88, CHR 0x82] 6 3,
     Ent ''&npart;'' [CHR 0xE2, CHR 0x88, CHR 0x82, CHR 0xCC, CHR 0xB8] 7 5,
     Ent ''&Exists;'' [CHR 0xE2, CHR 0x88, CHR 0x83] 8 3,
     Ent ''&nexist;'' [CHR 0xE2, CHR 0x88, CHR 0x84] 8 3,
     Ent ''&empty;'' [CHR 0xE2, CHR 0x88, CHR 0x85] 7 3,
     Ent ''&nabla;'' [CHR 0xE2, CHR 0x88, CHR 0x87] 7 3,
     Ent ''&isinv;'' [CHR 0xE2, CHR 0x88, CHR 0x88] 7 3,
     Ent ''&notin;'' [CHR 0xE2, CHR 0x88, CHR 0x89] 7 3,
     Ent ''&ReverseElement;'' [CHR 0xE2, CHR 0x88, CHR 0x8B] 16 3,
     Ent ''&notniva;'' [CHR 0xE2, CHR 0x88, CHR 0x8C] 9 3,
     Ent ''&prod;'' [CHR 0xE2, CHR 0x88, CHR 0x8F] 6 3,
     Ent ''&Coproduct;'' [CHR 0xE2, CHR 0x88, CHR 0x90] 11 3,
     Ent ''&sum;'' [CHR 0xE2, CHR 0x88, CHR 0x91] 5 3,
     Ent ''&minus;'' [CHR 0xE2, CHR 0x88, CHR 0x92] 7 3,
     Ent ''&MinusPlus;'' [CHR 0xE2, CHR 0x88, CHR 0x93] 11 3,
     Ent ''&plusdo;'' [CHR 0xE2, CHR 0x88, CHR 0x94] 8 3,
     Ent ''&ssetmn;'' [CHR 0xE2, CHR 0x88, CHR 0x96] 8 3,
     Ent ''&lowast;'' [CHR 0xE2, CHR 0x88, CHR 0x97] 8 3,
     Ent ''&compfn;'' [CHR 0xE2, CHR 0x88, CHR 0x98] 8 3,
     Ent ''&Sqrt;'' [CHR 0xE2, CHR 0x88, CHR 0x9A] 6 3,
     Ent ''&prop;'' [CHR 0xE2, CHR 0x88, CHR 0x9D] 6 3,
     Ent ''&infin;'' [CHR 0xE2, CHR 0x88, CHR 0x9E] 7 3,
     Ent ''&angrt;'' [CHR 0xE2, CHR 0x88, CHR 0x9F] 7 3,
     Ent ''&angle;'' [CHR 0xE2, CHR 0x88, CHR 0xA0] 7 3,
     Ent ''&nang;'' [CHR 0xE2, CHR 0x88, CHR 0xA0, CHR 0xE2, CHR 0x83, CHR 0x92] 6 6,
     Ent ''&angmsd;'' [CHR 0xE2, CHR 0x88, CHR 0xA1] 8 3,
     Ent ''&angsph;'' [CHR 0xE2, CHR 0x88, CHR 0xA2] 8 3,
     Ent ''&mid;'' [CHR 0xE2, CHR 0x88, CHR 0xA3] 5 3,
     Ent ''&nshortmid;'' [CHR 0xE2, CHR 0x88, CHR 0xA4] 11 3,
     Ent ''&shortparallel;'' [CHR 0xE2, CHR 0x88, CHR 0xA5] 15 3,
     Ent ''&nparallel;'' [CHR 0xE2, CHR 0x88, CHR 0xA6] 11 3,
     Ent ''&and;'' [CHR 0xE2, CHR 0x88, CHR 0xA7] 5 3,
     Ent ''&or;'' [CHR 0xE2, CHR 0x88, CHR 0xA8] 4 3,
     Ent ''&cap;'' [CHR 0xE2, CHR 0x88, CHR 0xA9] 5 3,
     Ent ''&caps;'' [CHR 0xE2, CHR 0x88, CHR 0xA9, CHR 0xEF, CHR 0xB8, CHR 0x80] 6 6,
     Ent ''&cup;'' [CHR 0xE2, CHR 0x88, CHR 0xAA] 5 3,
     Ent ''&cups;'' [CHR 0xE2, CHR 0x88, CHR 0xAA, CHR 0xEF, CHR 0xB8, CHR 0x80] 6 6,
     Ent ''&Integral;'' [CHR 0xE2, CHR 0x88, CHR 0xAB] 10 3,
     Ent ''&Int;'' [CHR 0xE2, CHR 0x88, CHR 0xAC] 5 3,
     Ent ''&tint;'' [CHR 0xE2, CHR 0x88, CHR 0xAD] 6 3,
     Ent ''&ContourIntegral;'' [CHR 0xE2, CHR 0x88, CHR 0xAE] 17 3,
     Ent ''&DoubleContourIntegral;'' [CHR 0xE2, CHR 0x88, CHR 0xAF] 23 3,
     Ent ''&Cconint;'' [CHR 0xE2, CHR 0x88, CHR 0xB0] 9 3,
     Ent ''&cwint;'' [CHR 0xE2, CHR 0x88, CHR 0xB1] 7 3,
     Ent ''&cwconint;'' [CHR 0xE2, CHR 0x88, CHR 0xB2] 10 3,
     Ent ''&awconint;'' [CHR 0xE2, CHR 0x88, CHR 0xB3] 10 3,
     Ent ''&there4;'' [CHR 0xE2, CHR 0x88, CHR 0xB4] 8 3,
     Ent ''&Because;'' [CHR 0xE2, CHR 0x88, CHR 0xB5] 9 3,
     Ent ''&ratio;'' [CHR 0xE2, CHR 0x88, CHR 0xB6] 7 3,
     Ent ''&Colon;'' [CHR 0xE2, CHR 0x88, CHR 0xB7] 7 3,
     Ent ''&minusd;'' [CHR 0xE2, CHR 0x88, CHR 0xB8] 8 3,
     Ent ''&mDDot;'' [CHR 0xE2, CHR 0x88, CHR 0xBA] 7 3,
     Ent ''&homtht;'' [CHR 0xE2, CHR 0x88, CHR 0xBB] 8 3,
     Ent ''&sim;'' [CHR 0xE2, CHR 0x88, CHR 0xBC] 5 3,
     Ent ''&nvsim;'' [CHR 0xE2, CHR 0x88, CHR 0xBC, CHR 0xE2, CHR 0x83, CHR 0x92] 7 6,
     Ent ''&bsim;'' [CHR 0xE2, CHR 0x88, CHR 0xBD] 6 3,
     Ent ''&race;'' [CHR 0xE2, CHR 0x88, CHR 0xBD, CHR 0xCC, CHR 0xB1] 6 5,
     Ent ''&ac;'' [CHR 0xE2, CHR 0x88, CHR 0xBE] 4 3,
     Ent ''&acE;'' [CHR 0xE2, CHR 0x88, CHR 0xBE, CHR 0xCC, CHR 0xB3] 5 5,
     Ent ''&acd;'' [CHR 0xE2, CHR 0x88, CHR 0xBF] 5 3,
     Ent ''&wr;'' [CHR 0xE2, CHR 0x89, CHR 0x80] 4 3,
     Ent ''&NotTilde;'' [CHR 0xE2, CHR 0x89, CHR 0x81] 10 3,
     Ent ''&esim;'' [CHR 0xE2, CHR 0x89, CHR 0x82] 6 3,
     Ent ''&nesim;'' [CHR 0xE2, CHR 0x89, CHR 0x82, CHR 0xCC, CHR 0xB8] 7 5,
     Ent ''&simeq;'' [CHR 0xE2, CHR 0x89, CHR 0x83] 7 3,
     Ent ''&nsime;'' [CHR 0xE2, CHR 0x89, CHR 0x84] 7 3,
     Ent ''&TildeFullEqual;'' [CHR 0xE2, CHR 0x89, CHR 0x85] 16 3,
     Ent ''&simne;'' [CHR 0xE2, CHR 0x89, CHR 0x86] 7 3,
     Ent ''&ncong;'' [CHR 0xE2, CHR 0x89, CHR 0x87] 7 3,
     Ent ''&approx;'' [CHR 0xE2, CHR 0x89, CHR 0x88] 8 3,
     Ent ''&napprox;'' [CHR 0xE2, CHR 0x89, CHR 0x89] 9 3,
     Ent ''&ape;'' [CHR 0xE2, CHR 0x89, CHR 0x8A] 5 3,
     Ent ''&apid;'' [CHR 0xE2, CHR 0x89, CHR 0x8B] 6 3,
     Ent ''&napid;'' [CHR 0xE2, CHR 0x89, CHR 0x8B, CHR 0xCC, CHR 0xB8] 7 5,
     Ent ''&bcong;'' [CHR 0xE2, CHR 0x89, CHR 0x8C] 7 3,
     Ent ''&CupCap;'' [CHR 0xE2, CHR 0x89, CHR 0x8D] 8 3,
     Ent ''&nvap;'' [CHR 0xE2, CHR 0x89, CHR 0x8D, CHR 0xE2, CHR 0x83, CHR 0x92] 6 6,
     Ent ''&bump;'' [CHR 0xE2, CHR 0x89, CHR 0x8E] 6 3,
     Ent ''&nbump;'' [CHR 0xE2, CHR 0x89, CHR 0x8E, CHR 0xCC, CHR 0xB8] 7 5,
     Ent ''&HumpEqual;'' [CHR 0xE2, CHR 0x89, CHR 0x8F] 11 3,
     Ent ''&nbumpe;'' [CHR 0xE2, CHR 0x89, CHR 0x8F, CHR 0xCC, CHR 0xB8] 8 5,
     Ent ''&esdot;'' [CHR 0xE2, CHR 0x89, CHR 0x90] 7 3,
     Ent ''&nedot;'' [CHR 0xE2, CHR 0x89, CHR 0x90, CHR 0xCC, CHR 0xB8] 7 5,
     Ent ''&doteqdot;'' [CHR 0xE2, CHR 0x89, CHR 0x91] 10 3,
     Ent ''&fallingdotseq;'' [CHR 0xE2, CHR 0x89, CHR 0x92] 15 3,
     Ent ''&risingdotseq;'' [CHR 0xE2, CHR 0x89, CHR 0x93] 14 3,
     Ent ''&coloneq;'' [CHR 0xE2, CHR 0x89, CHR 0x94] 9 3,
     Ent ''&eqcolon;'' [CHR 0xE2, CHR 0x89, CHR 0x95] 9 3,
     Ent ''&ecir;'' [CHR 0xE2, CHR 0x89, CHR 0x96] 6 3,
     Ent ''&circeq;'' [CHR 0xE2, CHR 0x89, CHR 0x97] 8 3,
     Ent ''&wedgeq;'' [CHR 0xE2, CHR 0x89, CHR 0x99] 8 3,
     Ent ''&veeeq;'' [CHR 0xE2, CHR 0x89, CHR 0x9A] 7 3,
     Ent ''&triangleq;'' [CHR 0xE2, CHR 0x89, CHR 0x9C] 11 3,
     Ent ''&equest;'' [CHR 0xE2, CHR 0x89, CHR 0x9F] 8 3,
     Ent ''&NotEqual;'' [CHR 0xE2, CHR 0x89, CHR 0xA0] 10 3,
     Ent ''&Congruent;'' [CHR 0xE2, CHR 0x89, CHR 0xA1] 11 3,
     Ent ''&bnequiv;'' [CHR 0xE2, CHR 0x89, CHR 0xA1, CHR 0xE2, CHR 0x83, CHR 0xA5] 9 6,
     Ent ''&NotCongruent;'' [CHR 0xE2, CHR 0x89, CHR 0xA2] 14 3,
     Ent ''&leq;'' [CHR 0xE2, CHR 0x89, CHR 0xA4] 5 3,
     Ent ''&nvle;'' [CHR 0xE2, CHR 0x89, CHR 0xA4, CHR 0xE2, CHR 0x83, CHR 0x92] 6 6,
     Ent ''&ge;'' [CHR 0xE2, CHR 0x89, CHR 0xA5] 4 3,
     Ent ''&nvge;'' [CHR 0xE2, CHR 0x89, CHR 0xA5, CHR 0xE2, CHR 0x83, CHR 0x92] 6 6,
     Ent ''&lE;'' [CHR 0xE2, CHR 0x89, CHR 0xA6] 4 3,
     Ent ''&nlE;'' [CHR 0xE2, CHR 0x89, CHR 0xA6, CHR 0xCC, CHR 0xB8] 5 5,
     Ent ''&geqq;'' [CHR 0xE2, CHR 0x89, CHR 0xA7] 6 3,
     Ent ''&NotGreaterFullEqual;'' [CHR 0xE2, CHR 0x89, CHR 0xA7, CHR 0xCC, CHR 0xB8] 21 5,
     Ent ''&lneqq;'' [CHR 0xE2, CHR 0x89, CHR 0xA8] 7 3,
     Ent ''&lvertneqq;'' [CHR 0xE2, CHR 0x89, CHR 0xA8, CHR 0xEF, CHR 0xB8, CHR 0x80] 11 6,
     Ent ''&gneqq;'' [CHR 0xE2, CHR 0x89, CHR 0xA9] 7 3,
     Ent ''&gvertneqq;'' [CHR 0xE2, CHR 0x89, CHR 0xA9, CHR 0xEF, CHR 0xB8, CHR 0x80] 11 6,
     Ent ''&ll;'' [CHR 0xE2, CHR 0x89, CHR 0xAA] 4 3,
     Ent ''&nLtv;'' [CHR 0xE2, CHR 0x89, CHR 0xAA, CHR 0xCC, CHR 0xB8] 6 5,
     Ent ''&nLt;'' [CHR 0xE2, CHR 0x89, CHR 0xAA, CHR 0xE2, CHR 0x83, CHR 0x92] 5 6,
     Ent ''&gg;'' [CHR 0xE2, CHR 0x89, CHR 0xAB] 4 3,
     Ent ''&NotGreaterGreater;'' [CHR 0xE2, CHR 0x89, CHR 0xAB, CHR 0xCC, CHR 0xB8] 19 5,
     Ent ''&nGt;'' [CHR 0xE2, CHR 0x89, CHR 0xAB, CHR 0xE2, CHR 0x83, CHR 0x92] 5 6,
     Ent ''&between;'' [CHR 0xE2, CHR 0x89, CHR 0xAC] 9 3,
     Ent ''&NotCupCap;'' [CHR 0xE2, CHR 0x89, CHR 0xAD] 11 3,
     Ent ''&NotLess;'' [CHR 0xE2, CHR 0x89, CHR 0xAE] 9 3,
     Ent ''&ngtr;'' [CHR 0xE2, CHR 0x89, CHR 0xAF] 6 3,
     Ent ''&NotLessEqual;'' [CHR 0xE2, CHR 0x89, CHR 0xB0] 14 3,
     Ent ''&ngeq;'' [CHR 0xE2, CHR 0x89, CHR 0xB1] 6 3,
     Ent ''&LessTilde;'' [CHR 0xE2, CHR 0x89, CHR 0xB2] 11 3,
     Ent ''&GreaterTilde;'' [CHR 0xE2, CHR 0x89, CHR 0xB3] 14 3,
     Ent ''&nlsim;'' [CHR 0xE2, CHR 0x89, CHR 0xB4] 7 3,
     Ent ''&ngsim;'' [CHR 0xE2, CHR 0x89, CHR 0xB5] 7 3,
     Ent ''&lessgtr;'' [CHR 0xE2, CHR 0x89, CHR 0xB6] 9 3,
     Ent ''&gl;'' [CHR 0xE2, CHR 0x89, CHR 0xB7] 4 3,
     Ent ''&ntlg;'' [CHR 0xE2, CHR 0x89, CHR 0xB8] 6 3,
     Ent ''&NotGreaterLess;'' [CHR 0xE2, CHR 0x89, CHR 0xB9] 16 3,
     Ent ''&prec;'' [CHR 0xE2, CHR 0x89, CHR 0xBA] 6 3,
     Ent ''&succ;'' [CHR 0xE2, CHR 0x89, CHR 0xBB] 6 3,
     Ent ''&PrecedesSlantEqual;'' [CHR 0xE2, CHR 0x89, CHR 0xBC] 20 3,
     Ent ''&succcurlyeq;'' [CHR 0xE2, CHR 0x89, CHR 0xBD] 13 3,
     Ent ''&precsim;'' [CHR 0xE2, CHR 0x89, CHR 0xBE] 9 3,
     Ent ''&SucceedsTilde;'' [CHR 0xE2, CHR 0x89, CHR 0xBF] 15 3,
     Ent ''&NotSucceedsTilde;'' [CHR 0xE2, CHR 0x89, CHR 0xBF, CHR 0xCC, CHR 0xB8] 18 5,
     Ent ''&npr;'' [CHR 0xE2, CHR 0x8A, CHR 0x80] 5 3,
     Ent ''&NotSucceeds;'' [CHR 0xE2, CHR 0x8A, CHR 0x81] 13 3,
     Ent ''&sub;'' [CHR 0xE2, CHR 0x8A, CHR 0x82] 5 3,
     Ent ''&vnsub;'' [CHR 0xE2, CHR 0x8A, CHR 0x82, CHR 0xE2, CHR 0x83, CHR 0x92] 7 6,
     Ent ''&sup;'' [CHR 0xE2, CHR 0x8A, CHR 0x83] 5 3,
     Ent ''&nsupset;'' [CHR 0xE2, CHR 0x8A, CHR 0x83, CHR 0xE2, CHR 0x83, CHR 0x92] 9 6,
     Ent ''&nsub;'' [CHR 0xE2, CHR 0x8A, CHR 0x84] 6 3,
     Ent ''&nsup;'' [CHR 0xE2, CHR 0x8A, CHR 0x85] 6 3,
     Ent ''&SubsetEqual;'' [CHR 0xE2, CHR 0x8A, CHR 0x86] 13 3,
     Ent ''&supe;'' [CHR 0xE2, CHR 0x8A, CHR 0x87] 6 3,
     Ent ''&NotSubsetEqual;'' [CHR 0xE2, CHR 0x8A, CHR 0x88] 16 3]"

definition entities_6 :: "s_BXHtmlEntities list" where
  "entities_6 = [
     Ent ''&NotSupersetEqual;'' [CHR 0xE2, CHR 0x8A, CHR 0x89] 18 3,
     Ent ''&subsetneq;'' [CHR 0xE2, CHR 0x8A, CHR 0x8A] 11 3,
     Ent ''&vsubne;'' [CHR 0xE2, CHR 0x8A, CHR 0x8A, CHR 0xEF, CHR 0xB8, CHR 0x80] 8 6,
     Ent ''&supsetneq;'' [CHR 0xE2, CHR 0x8A, CHR 0x8B] 11 3,
     Ent ''&vsupne;'' [CHR 0xE2, CHR 0x8A, CHR 0x8B, CHR 0xEF, CHR 0xB8, CHR 0x80] 8 6,
     Ent ''&cupdot;'' [CHR 0xE2, CHR 0x8A, CHR 0x8D] 8 3,
     Ent ''&UnionPlus;'' [CHR 0xE2, CHR 0x8A, CHR 0x8E] 11 3,
     Ent ''&sqsub;'' [CHR 0xE2, CHR 0x8A, CHR 0x8F] 7 3,
     Ent ''&NotSquareSubset;'' [CHR 0xE2, CHR 0x8A, CHR 0x8F, CHR 0xCC, CHR 0xB8] 17 5,
     Ent ''&sqsupset;'' [CHR 0xE2, CHR 0x8A, CHR 0x90] 10 3,
     Ent ''&NotSquareSuperset;'' [CHR 0xE2, CHR 0x8A, CHR 0x90, CHR 0xCC, CHR 0xB8] 19 5,
     Ent ''&SquareSubsetEqual;'' [CHR 0xE2, CHR 0x8A, CHR 0x91] 19 3,
     Ent ''&SquareSupersetEqual;'' [CHR 0xE2, CHR 0x8A, CHR 0x92] 21 3,
     Ent ''&sqcap;'' [CHR 0xE2, CHR 0x8A, CHR 0x93] 7 3,
     Ent ''&sqcaps;'' [CHR 0xE2, CHR 0x8A, CHR 0x93, CHR 0xEF, CHR 0xB8, CHR 0x80] 8 6,
     Ent ''&sqcup;'' [CHR 0xE2, CHR 0x8A, CHR 0x94] 7 3,
     Ent ''&sqcups;'' [CHR 0xE2, CHR 0x8A, CHR 0x94, CHR 0xEF, CHR 0xB8, CHR 0x80] 8 6,
     Ent ''&CirclePlus;'' [CHR 0xE2, CHR 0x8A, CHR 0x95] 12 3,
     Ent ''&ominus;'' [CHR 0xE2, CHR 0x8A, CHR 0x96] 8 3,
     Ent ''&CircleTimes;'' [CHR 0xE2, CHR 0x8A, CHR 0x97] 13 3,
     Ent ''&osol;'' [CHR 0xE2, CHR 0x8A, CHR 0x98] 6 3,
     Ent ''&CircleDot;'' [CHR 0xE2, CHR 0x8A, CHR 0x99] 11 3,
     Ent ''&ocir;'' [CHR 0xE2, CHR 0x8A, CHR 0x9A] 6 3,
     Ent ''&oast;'' [CHR 0xE2, CHR 0x8A, CHR 0x9B] 6 3,
     Ent ''&odash;'' [CHR 0xE2, CHR 0x8A, CHR 0x9D] 7 3,
     Ent ''&boxplus;'' [CHR 0xE2, CHR 0x8A, CHR 0x9E] 9 3,
     Ent ''&boxminus;'' [CHR 0xE2, CHR 0x8A, CHR 0x9F] 10 3,
     Ent ''&timesb;'' [CHR 0xE2, CHR 0x8A, CHR 0xA0] 8 3,
     Ent ''&sdotb;'' [CHR 0xE2, CHR 0x8A, CHR 0xA1] 7 3,
     Ent ''&vdash;'' [CHR 0xE2, CHR 0x8A, CHR 0xA2] 7 3,
     Ent ''&dashv;'' [CHR 0xE2, CHR 0x8A, CHR 0xA3] 7 3,
     Ent ''&DownTee;'' [CHR 0xE2, CHR 0x8A, CHR 0xA4] 9 3,
     Ent ''&perp;'' [CHR 0xE2, CHR 0x8A, CHR 0xA5] 6 3,
     Ent ''&models;'' [CHR 0xE2, CHR 0x8A, CHR 0xA7] 8 3,
     Ent ''&DoubleRightTee;'' [CHR 0xE2, CHR 0x8A, CHR 0xA8] 16 3,
     Ent ''&Vdash;'' [CHR 0xE2, CHR 0x8A, CHR 0xA9] 7 3,
     Ent ''&Vvdash;'' [CHR 0xE2, CHR 0x8A, CHR 0xAA] 8 3,
     Ent ''&VDash;'' [CHR 0xE2, CHR 0x8A, CHR 0xAB] 7 3,
     Ent ''&nvdash;'' [CHR 0xE2, CHR 0x8A, CHR 0xAC] 8 3,
     Ent ''&nvDash;'' [CHR 0xE2, CHR 0x8A, CHR 0xAD] 8 3,
     Ent ''&nVdash;'' [CHR 0xE2, CHR 0x8A, CHR 0xAE] 8 3,
     Ent ''&nVDash;'' [CHR 0xE2, CHR 0x8A, CHR 0xAF] 8 3,
     Ent ''&prurel;'' [CHR 0xE2, CHR 0x8A, CHR 0xB0] 8 3,
     Ent ''&vartriangleleft;'' [CHR 0xE2, CHR 0x8A, CHR 0xB2] 17 3,
     Ent ''&vrtri;'' [CHR 0xE2, CHR 0x8A, CHR 0xB3] 7 3,
     Ent ''&LeftTriangleEqual;'' [CHR 0xE2, CHR 0x8A, CHR 0xB4] 19 3,
     Ent ''&nvltrie;'' [CHR 0xE2, CHR 0x8A, CHR 0xB4, CHR 0xE2, CHR 0x83, CHR 0x92] 9 6,
     Ent ''&RightTriangleEqual;'' [CHR 0xE2, CHR 0x8A, CHR 0xB5] 20 3,
     Ent ''&nvrtrie;'' [CHR 0xE2, CHR 0x8A, CHR 0xB5, CHR 0xE2, CHR 0x83, CHR 0x92] 9 6,
     Ent ''&origof;'' [CHR 0xE2, CHR 0x8A, CHR 0xB6] 8 3,
     Ent ''&imof;'' [CHR 0xE2, CHR 0x8A, CHR 0xB7] 6 3,
     Ent ''&mumap;'' [CHR 0xE2, CHR 0x8A, CHR 0xB8] 7 3,
     Ent ''&hercon;'' [CHR 0xE2, CHR 0x8A, CHR 0xB9] 8 3,
     Ent ''&intcal;'' [CHR 0xE2, CHR 0x8A, CHR 0xBA] 8 3,
     Ent ''&veebar;'' [CHR 0xE2, CHR 0x8A, CHR 0xBB] 8 3,
     Ent ''&barvee;'' [CHR 0xE2, CHR 0x8A, CHR 0xBD] 8 3,
     Ent ''&angrtvb;'' [CHR 0xE2, CHR 0x8A, CHR 0xBE] 9 3,
     Ent ''&lrtri;'' [CHR 0xE2, CHR 0x8A, CHR 0xBF] 7 3,
     Ent ''&xwedge;'' [CHR 0xE2, CHR 0x8B, CHR 0x80] 8 3,
     Ent ''&xvee;'' [CHR 0xE2, CHR 0x8B, CHR 0x81] 6 3,
     Ent ''&bigcap;'' [CHR 0xE2, CHR 0x8B, CHR 0x82] 8 3,
     Ent ''&bigcup;'' [CHR 0xE2, CHR 0x8B, CHR 0x83] 8 3,
     Ent ''&diamond;'' [CHR 0xE2, CHR 0x8B, CHR 0x84] 9 3,
     Ent ''&sdot;'' [CHR 0xE2, CHR 0x8B, CHR 0x85] 6 3,
     Ent ''&Star;'' [CHR 0xE2, CHR 0x8B, CHR 0x86] 6 3,
     Ent ''&divonx;'' [CHR 0xE2, CHR 0x8B, CHR 0x87] 8 3,
     Ent ''&bowtie;'' [CHR 0xE2, CHR 0x8B, CHR 0x88] 8 3,
     Ent ''&ltimes;'' [CHR 0xE2, CHR 0x8B, CHR 0x89] 8 3,
     Ent ''&rtimes;'' [CHR 0xE2, CHR 0x8B, CHR 0x8A] 8 3,
     Ent ''&lthree;'' [CHR 0xE2, CHR 0x8B, CHR 0x8B] 8 3,
     Ent ''&rthree;'' [CHR 0xE2, CHR 0x8B, CHR 0x8C] 8 3,
     Ent ''&backsimeq;'' [CHR 0xE2, CHR 0x8B, CHR 0x8D] 11 3,
     Ent ''&curlyvee;'' [CHR 0xE2, CHR 0x8B, CHR 0x8E] 10 3,
     Ent ''&curlywedge;'' [CHR 0xE2, CHR 0x8B, CHR 0x8F] 12 3,
     Ent ''&Sub;'' [CHR 0xE2, CHR 0x8B, CHR 0x90] 5 3,
     Ent ''&Supset;'' [CHR 0xE2, CHR 0x8B, CHR 0x91] 8 3,
     Ent ''&Cap;'' [CHR 0xE2, CHR 0x8B, CHR 0x92] 5 3,
     Ent ''&Cup;'' [CHR 0xE2, CHR 0x8B, CHR 0x93] 5 3,
     Ent ''&pitchfork;'' [CHR 0xE2, CHR 0x8B, CHR 0x94] 11 3,
     Ent ''&epar;'' [CHR 0xE2, CHR 0x8B, CHR 0x95] 6 3,
     Ent ''&lessdot;'' [CHR 0xE2, CHR 0x8B, CHR 0x96] 9 3,
     Ent ''&gtrdot;'' [CHR 0xE2, CHR 0x8B, CHR 0x97] 8 3,
     Ent ''&Ll;'' [CHR 0xE2, CHR 0x8B, CHR 0x98] 4 3,
     Ent ''&nLl;'' [CHR 0xE2, CHR 0x8B, CHR 0x98, CHR 0xCC, CHR 0xB8] 5 5,
     Ent ''&Gg;'' [CHR 0xE2, CHR 0x8B, CHR 0x99] 4 3,
     Ent ''&nGg;'' [CHR 0xE2, CHR 0x8B, CHR 0x99, CHR 0xCC, CHR 0xB8] 5 5,
     Ent ''&lesseqgtr;'' [CHR 0xE2, CHR 0x8B, CHR 0x9A] 11 3,
     Ent ''&lesg;'' [CHR 0xE2, CHR 0x8B, CHR 0x9A, CHR 0xEF, CHR 0xB8, CHR 0x80] 6 6,
     Ent ''&gtreqless;'' [CHR 0xE2, CHR 0x8B, CHR 0x9B] 11 3,
     Ent ''&gesl;'' [CHR 0xE2, CHR 0x8B, CHR 0x9B, CHR 0xEF, CHR 0xB8, CHR 0x80] 6 6,
     Ent ''&curlyeqprec;'' [CHR 0xE2, CHR 0x8B, CHR 0x9E] 13 3,
     Ent ''&cuesc;'' [CHR 0xE2, CHR 0x8B, CHR 0x9F] 7 3,
     Ent ''&NotPrecedesSlantEqual;'' [CHR 0xE2, CHR 0x8B, CHR 0xA0] 23 3,
     Ent ''&NotSucceedsSlantEqual;'' [CHR 0xE2, CHR 0x8B, CHR 0xA1] 23 3,
     Ent ''&NotSquareSubsetEqual;'' [CHR 0xE2, CHR 0x8B, CHR 0xA2] 22 3,
     Ent ''&NotSquareSupersetEqual;'' [CHR 0xE2, CHR 0x8B, CHR 0xA3] 24 3,
     Ent ''&lnsim;'' [CHR 0xE2, CHR 0x8B, CHR 0xA6] 7 3,
     Ent ''&gnsim;'' [CHR 0xE2, CHR 0x8B, CHR 0xA7] 7 3,
     Ent ''&precnsim;'' [CHR 0xE2, CHR 0x8B, CHR 0xA8] 10 3,
     Ent ''&scnsim;'' [CHR 0xE2, CHR 0x8B, CHR 0xA9] 8 3,
     Ent ''&nltri;'' [CHR 0xE2, CHR 0x8B, CHR 0xAA] 7 3,
     Ent ''&ntriangleright;'' [CHR 0xE2, CHR 0x8B, CHR 0xAB] 16 3,
     Ent ''&nltrie;'' [CHR 0xE2, CHR 0x8B, CHR 0xAC] 8 3,
     Ent ''&NotRightTriangleEqual;'' [CHR 0xE2, CHR 0x8B, CHR 0xAD] 23 3,
     Ent ''&vellip;'' [CHR 0xE2, CHR 0x8B, CHR 0xAE] 8 3,
     Ent ''&ctdot;'' [CHR 0xE2, CHR 0x8B, CHR 0xAF] 7 3,
     Ent ''&utdot;'' [CHR 0xE2, CHR 0x8B, CHR 0xB0] 7 3,
     Ent ''&dtdot;'' [CHR 0xE2, CHR 0x8B, CHR 0xB1] 7 3,
     Ent ''&disin;'' [CHR 0xE2, CHR 0x8B, CHR 0xB2] 7 3,
     Ent ''&isinsv;'' [CHR 0xE2, CHR 0x8B, CHR 0xB3] 8 3,
     Ent ''&isins;'' [CHR 0xE2, CHR 0x8B, CHR 0xB4] 7 3,
     Ent ''&isindot;'' [CHR 0xE2, CHR 0x8B, CHR 0xB5] 9 3,
     Ent ''&notindot;'' [CHR 0xE2, CHR 0x8B, CHR 0xB5, CHR 0xCC, CHR 0xB8] 10 5,
     Ent ''&notinvc;'' [CHR 0xE2, CHR 0x8B, CHR 0xB6] 9 3,
     Ent ''&notinvb;'' [CHR 0xE2, CHR 0x8B, CHR 0xB7] 9 3,
     Ent ''&isinE;'' [CHR 0xE2, CHR 0x8B, CHR 0xB9] 7 3,
     Ent ''&notinE;'' [CHR 0xE2, CHR 0x8B, CHR 0xB9, CHR 0xCC, CHR 0xB8] 8 5,
     Ent ''&nisd;'' [CHR 0xE2, CHR 0x8B, CHR 0xBA] 6 3,
     Ent ''&xnis;'' [CHR 0xE2, CHR 0x8B, CHR 0xBB] 6 3,
     Ent ''&nis;'' [CHR 0xE2, CHR 0x8B, CHR 0xBC] 5 3,
     Ent ''&notnivc;'' [CHR 0xE2, CHR 0x8B, CHR 0xBD] 9 3,
     Ent ''&notnivb;'' [CHR 0xE2, CHR 0x8B, CHR 0xBE] 9 3,
     Ent ''&barwed;'' [CHR 0xE2, CHR 0x8C, CHR 0x85] 8 3,
     Ent ''&doublebarwedge;'' [CHR 0xE2, CHR 0x8C, CHR 0x86] 16 3,
     Ent ''&lceil;'' [CHR 0xE2, CHR 0x8C, CHR 0x88] 7 3,
     Ent ''&RightCeiling;'' [CHR 0xE2, CHR 0x8C, CHR 0x89] 14 3,
     Ent ''&LeftFloor;'' [CHR 0xE2, CHR 0x8C, CHR 0x8A] 11 3,
     Ent ''&RightFloor;'' [CHR 0xE2, CHR 0x8C, CHR 0x8B] 12 3,
     Ent ''&drcrop;'' [CHR 0xE2, CHR 0x8C, CHR 0x8C] 8 3,
     Ent ''&dlcrop;'' [CHR 0xE2, CHR 0x8C, CHR 0x8D] 8 3,
     Ent ''&urcrop;'' [CHR 0xE2, CHR 0x8C, CHR 0x8E] 8 3,
     Ent ''&ulcrop;'' [CHR 0xE2, CHR 0x8C, CHR 0x8F] 8 3,
     Ent ''&bnot;'' [CHR 0xE2, CHR 0x8C, CHR 0x90] 6 3,
     Ent ''&profline;'' [CHR 0xE2, CHR 0x8C, CHR 0x92] 10 3,
     Ent ''&profsurf;'' [CHR 0xE2, CHR 0x8C, CHR 0x93] 10 3,
     Ent ''&telrec;'' [CHR 0xE2, CHR 0x8C, CHR 0x95] 8 3,
     Ent ''&target;'' [CHR 0xE2, CHR 0x8C, CHR 0x96] 8 3,
     Ent ''&ulcorner;'' [CHR 0xE2, CHR 0x8C, CHR 0x9C] 10 3,
     Ent ''&urcorner;'' [CHR 0xE2, CHR 0x8C, CHR 0x9D] 10 3,
     Ent ''&llcorner;'' [CHR 0xE2, CHR 0x8C, CHR 0x9E] 10 3,
     Ent ''&drcorn;'' [CHR 0xE2, CHR 0x8C, CHR 0x9F] 8 3,
     Ent ''&frown;'' [CHR 0xE2, CHR 0x8C, CHR 0xA2] 7 3,
     Ent ''&smile;'' [CHR 0xE2, CHR 0x8C, CHR 0xA3] 7 3,
     Ent ''&cylcty;'' [CHR 0xE2, CHR 0x8C, CHR 0xAD] 8 3,
     Ent ''&profalar;'' [CHR 0xE2, CHR 0x8C, CHR 0xAE] 10 3,
     Ent ''&topbot;'' [CHR 0xE2, CHR 0x8C, CHR 0xB6] 8 3,
     Ent ''&ovbar;'' [CHR 0xE2, CHR 0x8C, CHR 0xBD] 7 3,
     Ent ''&solbar;'' [CHR 0xE2, CHR 0x8C, CHR 0xBF] 8 3,
     Ent ''&angzarr;'' [CHR 0xE2, CHR 0x8D, CHR 0xBC] 9 3,
     Ent ''&lmoust;'' [CHR 0xE2, CHR 0x8E, CHR 0xB0] 8 3]"

definition entities_7 :: "s_BXHtmlEntities list" where
  "entities_7 = [
     Ent ''&rmoust;'' [CHR 0xE2, CHR 0x8E, CHR 0xB1] 8 3,
     Ent ''&OverBracket;'' [CHR 0xE2, CHR 0x8E, CHR 0xB4] 13 3,
     Ent ''&bbrk;'' [CHR 0xE2, CHR 0x8E, CHR 0xB5] 6 3,
     Ent ''&bbrktbrk;'' [CHR 0xE2, CHR 0x8E, CHR 0xB6] 10 3,
     Ent ''&OverParenthesis;'' [CHR 0xE2, CHR 0x8F, CHR 0x9C] 17 3,
     Ent ''&UnderParenthesis;'' [CHR 0xE2, CHR 0x8F, CHR 0x9D] 18 3,
     Ent ''&OverBrace;'' [CHR 0xE2, CHR 0x8F, CHR 0x9E] 11 3,
     Ent ''&UnderBrace;'' [CHR 0xE2, CHR 0x8F, CHR 0x9F] 12 3,
     Ent ''&trpezium;'' [CHR 0xE2, CHR 0x8F, CHR 0xA2] 10 3,
     Ent ''&elinters;'' [CHR 0xE2, CHR 0x8F, CHR 0xA7] 10 3,
     Ent ''&blank;'' [CHR 0xE2, CHR 0x90, CHR 0xA3] 7 3,
     Ent ''&oS;'' [CHR 0xE2, CHR 0x93, CHR 0x88] 4 3,
     Ent ''&HorizontalLine;'' [CHR 0xE2, CHR 0x94, CHR 0x80] 16 3,
     Ent ''&boxv;'' [CHR 0xE2, CHR 0x94, CHR 0x82] 6 3,
     Ent ''&boxdr;'' [CHR 0xE2, CHR 0x94, CHR 0x8C] 7 3,
     Ent ''&boxdl;'' [CHR 0xE2, CHR 0x94, CHR 0x90] 7 3,
     Ent ''&boxur;'' [CHR 0xE2, CHR 0x94, CHR 0x94] 7 3,
     Ent ''&boxul;'' [CHR 0xE2, CHR 0x94, CHR 0x98] 7 3,
     Ent ''&boxvr;'' [CHR 0xE2, CHR 0x94, CHR 0x9C] 7 3,
     Ent ''&boxvl;'' [CHR 0xE2, CHR 0x94, CHR 0xA4] 7 3,
     Ent ''&boxhd;'' [CHR 0xE2, CHR 0x94, CHR 0xAC] 7 3,
     Ent ''&boxhu;'' [CHR 0xE2, CHR 0x94, CHR 0xB4] 7 3,
     Ent ''&boxvh;'' [CHR 0xE2, CHR 0x94, CHR 0xBC] 7 3,
     Ent ''&boxH;'' [CHR 0xE2, CHR 0x95, CHR 0x90] 6 3,
     Ent ''&boxV;'' [CHR 0xE2, CHR 0x95, CHR 0x91] 6 3,
     Ent ''&boxdR;'' [CHR 0xE2, CHR 0x95, CHR 0x92] 7 3,
     Ent ''&boxDr;'' [CHR 0xE2, CHR 0x95, CHR 0x93] 7 3,
     Ent ''&boxDR;'' [CHR 0xE2, CHR 0x95, CHR 0x94] 7 3,
     Ent ''&boxdL;'' [CHR 0xE2, CHR 0x95, CHR 0x95] 7 3,
     Ent ''&boxDl;'' [CHR 0xE2, CHR 0x95, CHR 0x96] 7 3,
     Ent ''&boxDL;'' [CHR 0xE2, CHR 0x95, CHR 0x97] 7 3,
     Ent ''&boxuR;'' [CHR 0xE2, CHR 0x95, CHR 0x98] 7 3,
     Ent ''&boxUr;'' [CHR 0xE2, CHR 0x95, CHR 0x99] 7 3,
     Ent ''&boxUR;'' [CHR 0xE2, CHR 0x95, CHR 0x9A] 7 3,
     Ent ''&boxuL;'' [CHR 0xE2, CHR 0x95, CHR 0x9B] 7 3,
     Ent ''&boxUl;'' [CHR 0xE2, CHR 0x95, CHR 0x9C] 7 3,
     Ent ''&boxUL;'' [CHR 0xE2, CHR 0x95, CHR 0x9D] 7 3,
     Ent ''&boxvR;'' [CHR 0xE2, CHR 0x95, CHR 0x9E] 7 3,
     Ent ''&boxVr;'' [CHR 0xE2, CHR 0x95, CHR 0x9F] 7 3,
     Ent ''&boxVR;'' [CHR 0xE2, CHR 0x95, CHR 0xA0] 7 3,
     Ent ''&boxvL;'' [CHR 0xE2, CHR 0x95, CHR 0xA1] 7 3,
     Ent ''&boxVl;'' [CHR 0xE2, CHR 0x95, CHR 0xA2] 7 3,
     Ent ''&boxVL;'' [CHR 0xE2, CHR 0x95, CHR 0xA3] 7 3,
     Ent ''&boxHd;'' [CHR 0xE2, CHR 0x95, CHR 0xA4] 7 3,
     Ent ''&boxhD;'' [CHR 0xE2, CHR 0x95, CHR 0xA5] 7 3,
     Ent ''&boxHD;'' [CHR 0xE2, CHR 0x95, CHR 0xA6] 7 3,
     Ent ''&boxHu;'' [CHR 0xE2, CHR 0x95, CHR 0xA7] 7 3,
     Ent ''&boxhU;'' [CHR 0xE2, CHR 0x95, CHR 0xA8] 7 3,
     Ent ''&boxHU;'' [CHR 0xE2, CHR 0x95, CHR 0xA9] 7 3,
     Ent ''&boxvH;'' [CHR 0xE2, CHR 0x95, CHR 0xAA] 7 3,
     Ent ''&boxVh;'' [CHR 0xE2, CHR 0x95, CHR 0xAB] 7 3,
     Ent ''&boxVH;'' [CHR 0xE2, CHR 0x95, CHR 0xAC] 7 3,
     Ent ''&uhblk;'' [CHR 0xE2, CHR 0x96, CHR 0x80] 7 3,
     Ent ''&lhblk;'' [CHR 0xE2, CHR 0x96, CHR 0x84] 7 3,
     Ent ''&block;'' [CHR 0xE2, CHR 0x96, CHR 0x88] 7 3,
     Ent ''&blk14;'' [CHR 0xE2, CHR 0x96, CHR 0x91] 7 3,
     Ent ''&blk12;'' [CHR 0xE2, CHR 0x96, CHR 0x92] 7 3,
     Ent ''&blk34;'' [CHR 0xE2, CHR 0x96, CHR 0x93] 7 3,
     Ent ''&Square;'' [CHR 0xE2, CHR 0x96, CHR 0xA1] 8 3,
     Ent ''&squarf;'' [CHR 0xE2, CHR 0x96, CHR 0xAA] 8 3,
     Ent ''&EmptyVerySmallSquare;'' [CHR 0xE2, CHR 0x96, CHR 0xAB] 22 3,
     Ent ''&rect;'' [CHR 0xE2, CHR 0x96, CHR 0xAD] 6 3,
     Ent ''&marker;'' [CHR 0xE2, CHR 0x96, CHR 0xAE] 8 3,
     Ent ''&fltns;'' [CHR 0xE2, CHR 0x96, CHR 0xB1] 7 3,
     Ent ''&bigtriangleup;'' [CHR 0xE2, CHR 0x96, CHR 0xB3] 15 3,
     Ent ''&blacktriangle;'' [CHR 0xE2, CHR 0x96, CHR 0xB4] 15 3,
     Ent ''&triangle;'' [CHR 0xE2, CHR 0x96, CHR 0xB5] 10 3,
     Ent ''&blacktriangleright;'' [CHR 0xE2, CHR 0x96, CHR 0xB8] 20 3,
     Ent ''&rtri;'' [CHR 0xE2, CHR 0x96, CHR 0xB9] 6 3,
     Ent ''&bigtriangledown;'' [CHR 0xE2, CHR 0x96, CHR 0xBD] 17 3,
     Ent ''&blacktriangledown;'' [CHR 0xE2, CHR 0x96, CHR 0xBE] 19 3,
     Ent ''&triangledown;'' [CHR 0xE2, CHR 0x96, CHR 0xBF] 14 3,
     Ent ''&blacktriangleleft;'' [CHR 0xE2, CHR 0x97, CHR 0x82] 19 3,
     Ent ''&ltri;'' [CHR 0xE2, CHR 0x97, CHR 0x83] 6 3,
     Ent ''&lozenge;'' [CHR 0xE2, CHR 0x97, CHR 0x8A] 9 3,
     Ent ''&cir;'' [CHR 0xE2, CHR 0x97, CHR 0x8B] 5 3,
     Ent ''&tridot;'' [CHR 0xE2, CHR 0x97, CHR 0xAC] 8 3,
     Ent ''&bigcirc;'' [CHR 0xE2, CHR 0x97, CHR 0xAF] 9 3,
     Ent ''&ultri;'' [CHR 0xE2, CHR 0x97, CHR 0xB8] 7 3,
     Ent ''&urtri;'' [CHR 0xE2, CHR 0x97, CHR 0xB9] 7 3,
     Ent ''&lltri;'' [CHR 0xE2, CHR 0x97, CHR 0xBA] 7 3,
     Ent ''&EmptySmallSquare;'' [CHR 0xE2, CHR 0x97, CHR 0xBB] 18 3,
     Ent ''&FilledSmallSquare;'' [CHR 0xE2, CHR 0x97, CHR 0xBC] 19 3,
     Ent ''&starf;'' [CHR 0xE2, CHR 0x98, CHR 0x85] 7 3,
     Ent ''&star;'' [CHR 0xE2, CHR 0x98, CHR 0x86] 6 3,
     Ent ''&phone;'' [CHR 0xE2, CHR 0x98, CHR 0x8E] 7 3,
     Ent ''&female;'' [CHR 0xE2, CHR 0x99, CHR 0x80] 8 3,
     Ent ''&male;'' [CHR 0xE2, CHR 0x99, CHR 0x82] 6 3,
     Ent ''&spadesuit;'' [CHR 0xE2, CHR 0x99, CHR 0xA0] 11 3,
     Ent ''&clubs;'' [CHR 0xE2, CHR 0x99, CHR 0xA3] 7 3,
     Ent ''&hearts;'' [CHR 0xE2, CHR 0x99, CHR 0xA5] 8 3,
     Ent ''&diamondsuit;'' [CHR 0xE2, CHR 0x99, CHR 0xA6] 13 3,
     Ent ''&sung;'' [CHR 0xE2, CHR 0x99, CHR 0xAA] 6 3,
     Ent ''&flat;'' [CHR 0xE2, CHR 0x99, CHR 0xAD] 6 3,
     Ent ''&natur;'' [CHR 0xE2, CHR 0x99, CHR 0xAE] 7 3,
     Ent ''&sharp;'' [CHR 0xE2, CHR 0x99, CHR 0xAF] 7 3,
     Ent ''&check;'' [CHR 0xE2, CHR 0x9C, CHR 0x93] 7 3,
     Ent ''&cross;'' [CHR 0xE2, CHR 0x9C, CHR 0x97] 7 3,
     Ent ''&maltese;'' [CHR 0xE2, CHR 0x9C, CHR 0xA0] 9 3,
     Ent ''&sext;'' [CHR 0xE2, CHR 0x9C, CHR 0xB6] 6 3,
     Ent ''&VerticalSeparator;'' [CHR 0xE2, CHR 0x9D, CHR 0x98] 19 3,
     Ent ''&lbbrk;'' [CHR 0xE2, CHR 0x9D, CHR 0xB2] 7 3,
     Ent ''&rbbrk;'' [CHR 0xE2, CHR 0x9D, CHR 0xB3] 7 3,
     Ent ''&bsolhsub;'' [CHR 0xE2, CHR 0x9F, CHR 0x88] 10 3,
     Ent ''&suphsol;'' [CHR 0xE2, CHR 0x9F, CHR 0x89] 9 3,
     Ent ''&LeftDoubleBracket;'' [CHR 0xE2, CHR 0x9F, CHR 0xA6] 19 3,
     Ent ''&RightDoubleBracket;'' [CHR 0xE2, CHR 0x9F, CHR 0xA7] 20 3,
     Ent ''&langle;'' [CHR 0xE2, CHR 0x9F, CHR 0xA8] 8 3,
     Ent ''&RightAngleBracket;'' [CHR 0xE2, CHR 0x9F, CHR 0xA9] 19 3,
     Ent ''&Lang;'' [CHR 0xE2, CHR 0x9F, CHR 0xAA] 6 3,
     Ent ''&Rang;'' [CHR 0xE2, CHR 0x9F, CHR 0xAB] 6 3,
     Ent ''&loang;'' [CHR 0xE2, CHR 0x9F, CHR 0xAC] 7 3,
     Ent ''&roang;'' [CHR 0xE2, CHR 0x9F, CHR 0xAD] 7 3,
     Ent ''&longleftarrow;'' [CHR 0xE2, CHR 0x9F, CHR 0xB5] 15 3,
     Ent ''&LongRightArrow;'' [CHR 0xE2, CHR 0x9F, CHR 0xB6] 16 3,
     Ent ''&LongLeftRightArrow;'' [CHR 0xE2, CHR 0x9F, CHR 0xB7] 20 3,
     Ent ''&xlArr;'' [CHR 0xE2, CHR 0x9F, CHR 0xB8] 7 3,
     Ent ''&DoubleLongRightArrow;'' [CHR 0xE2, CHR 0x9F, CHR 0xB9] 22 3,
     Ent ''&xhArr;'' [CHR 0xE2, CHR 0x9F, CHR 0xBA] 7 3,
     Ent ''&xmap;'' [CHR 0xE2, CHR 0x9F, CHR 0xBC] 6 3,
     Ent ''&dzigrarr;'' [CHR 0xE2, CHR 0x9F, CHR 0xBF] 10 3,
     Ent ''&nvlArr;'' [CHR 0xE2, CHR 0xA4, CHR 0x82] 8 3,
     Ent ''&nvrArr;'' [CHR 0xE2, CHR 0xA4, CHR 0x83] 8 3,
     Ent ''&nvHarr;'' [CHR 0xE2, CHR 0xA4, CHR 0x84] 8 3,
     Ent ''&Map;'' [CHR 0xE2, CHR 0xA4, CHR 0x85] 5 3,
     Ent ''&lbarr;'' [CHR 0xE2, CHR 0xA4, CHR 0x8C] 7 3,
     Ent ''&bkarow;'' [CHR 0xE2, CHR 0xA4, CHR 0x8D] 8 3,
     Ent ''&lBarr;'' [CHR 0xE2, CHR 0xA4, CHR 0x8E] 7 3,
     Ent ''&dbkarow;'' [CHR 0xE2, CHR 0xA4, CHR 0x8F] 9 3,
     Ent ''&drbkarow;'' [CHR 0xE2, CHR 0xA4, CHR 0x90] 10 3,
     Ent ''&DDotrahd;'' [CHR 0xE2, CHR 0xA4, CHR 0x91] 10 3,
     Ent ''&UpArrowBar;'' [CHR 0xE2, CHR 0xA4, CHR 0x92] 12 3,
     Ent ''&DownArrowBar;'' [CHR 0xE2, CHR 0xA4, CHR 0x93] 14 3,
     Ent ''&Rarrtl;'' [CHR 0xE2, CHR 0xA4, CHR 0x96] 8 3,
     Ent ''&latail;'' [CHR 0xE2, CHR 0xA4, CHR 0x99] 8 3,
     Ent ''&ratail;'' [CHR 0xE2, CHR 0xA4, CHR 0x9A] 8 3,
     Ent ''&lAtail;'' [CHR 0xE2, CHR 0xA4, CHR 0x9B] 8 3,
     Ent ''&rAtail;'' [CHR 0xE2, CHR 0xA4, CHR 0x9C] 8 3,
     Ent ''&larrfs;'' [CHR 0xE2, CHR 0xA4, CHR 0x9D] 8 3,
     Ent ''&rarrfs;'' [CHR 0xE2, CHR 0xA4, CHR 0x9E] 8 3,
     Ent ''&larrbfs;'' [CHR 0xE2, CHR 0xA4, CHR 0x9F] 9 3,
     Ent ''&rarrbfs;'' [CHR 0xE2, CHR 0xA4, CHR 0xA0] 9 3,
     Ent ''&nwarhk;'' [CHR 0xE2, CHR 0xA4, CHR 0xA3] 8 3,
     Ent ''&nearhk;'' [CHR 0xE2, CHR 0xA4, CHR 0xA4] 8 3,
     Ent ''&searhk;'' [CHR 0xE2, CHR 0xA4, CHR 0xA5] 8 3,
     Ent ''&swarhk;'' [CHR 0xE2, CHR 0xA4, CHR 0xA6] 8 3,
     Ent ''&nwnear;'' [CHR 0xE2, CHR 0xA4, CHR 0xA7] 8 3,
     Ent ''&toea;'' [CHR 0xE2, CHR 0xA4, CHR 0xA8] 6 3,
     Ent ''&seswar;'' [CHR 0xE2, CHR 0xA4, CHR 0xA9] 8 3,
     Ent ''&swnwar;'' [CHR 0xE2, CHR 0xA4, CHR 0xAA] 8 3]"

definition entities_8 :: "s_BXHtmlEntities list" where
  "entities_8 = [
     Ent ''&rarrc;'' [CHR 0xE2, CHR 0xA4, CHR 0xB3] 7 3,
     Ent ''&nrarrc;'' [CHR 0xE2, CHR 0xA4, CHR 0xB3, CHR 0xCC, CHR 0xB8] 8 5,
     Ent ''&cudarrr;'' [CHR 0xE2, CHR 0xA4, CHR 0xB5] 9 3,
     Ent ''&ldca;'' [CHR 0xE2, CHR 0xA4, CHR 0xB6] 6 3,
     Ent ''&rdca;'' [CHR 0xE2, CHR 0xA4, CHR 0xB7] 6 3,
     Ent ''&cudarrl;'' [CHR 0xE2, CHR 0xA4, CHR 0xB8] 9 3,
     Ent ''&larrpl;'' [CHR 0xE2, CHR 0xA4, CHR 0xB9] 8 3,
     Ent ''&curarrm;'' [CHR 0xE2, CHR 0xA4, CHR 0xBC] 9 3,
     Ent ''&cularrp;'' [CHR 0xE2, CHR 0xA4, CHR 0xBD] 9 3,
     Ent ''&rarrpl;'' [CHR 0xE2, CHR 0xA5, CHR 0x85] 8 3,
     Ent ''&harrcir;'' [CHR 0xE2, CHR 0xA5, CHR 0x88] 9 3,
     Ent ''&Uarrocir;'' [CHR 0xE2, CHR 0xA5, CHR 0x89] 10 3,
     Ent ''&lurdshar;'' [CHR 0xE2, CHR 0xA5, CHR 0x8A] 10 3,
     Ent ''&ldrushar;'' [CHR 0xE2, CHR 0xA5, CHR 0x8B] 10 3,
     Ent ''&LeftRightVector;'' [CHR 0xE2, CHR 0xA5, CHR 0x8E] 17 3,
     Ent ''&RightUpDownVector;'' [CHR 0xE2, CHR 0xA5, CHR 0x8F] 19 3,
     Ent ''&DownLeftRightVector;'' [CHR 0xE2, CHR 0xA5, CHR 0x90] 21 3,
     Ent ''&LeftUpDownVector;'' [CHR 0xE2, CHR 0xA5, CHR 0x91] 18 3,
     Ent ''&LeftVectorBar;'' [CHR 0xE2, CHR 0xA5, CHR 0x92] 15 3,
     Ent ''&RightVectorBar;'' [CHR 0xE2, CHR 0xA5, CHR 0x93] 16 3,
     Ent ''&RightUpVectorBar;'' [CHR 0xE2, CHR 0xA5, CHR 0x94] 18 3,
     Ent ''&RightDownVectorBar;'' [CHR 0xE2, CHR 0xA5, CHR 0x95] 20 3,
     Ent ''&DownLeftVectorBar;'' [CHR 0xE2, CHR 0xA5, CHR 0x96] 19 3,
     Ent ''&DownRightVectorBar;'' [CHR 0xE2, CHR 0xA5, CHR 0x97] 20 3,
     Ent ''&LeftUpVectorBar;'' [CHR 0xE2, CHR 0xA5, CHR 0x98] 17 3,
     Ent ''&LeftDownVectorBar;'' [CHR 0xE2, CHR 0xA5, CHR 0x99] 19 3,
     Ent ''&LeftTeeVector;'' [CHR 0xE2, CHR 0xA5, CHR 0x9A] 15 3,
     Ent ''&RightTeeVector;'' [CHR 0xE2, CHR 0xA5, CHR 0x9B] 16 3,
     Ent ''&RightUpTeeVector;'' [CHR 0xE2, CHR 0xA5, CHR 0x9C] 18 3,
     Ent ''&RightDownTeeVector;'' [CHR 0xE2, CHR 0xA5, CHR 0x9D] 20 3,
     Ent ''&DownLeftTeeVector;'' [CHR 0xE2, CHR 0xA5, CHR 0x9E] 19 3,
     Ent ''&DownRightTeeVector;'' [CHR 0xE2, CHR 0xA5, CHR 0x9F] 20 3,
     Ent ''&LeftUpTeeVector;'' [CHR 0xE2, CHR 0xA5, CHR 0xA0] 17 3,
     Ent ''&LeftDownTeeVector;'' [CHR 0xE2, CHR 0xA5, CHR 0xA1] 19 3,
     Ent ''&lHar;'' [CHR 0xE2, CHR 0xA5, CHR 0xA2] 6 3,
     Ent ''&uHar;'' [CHR 0xE2, CHR 0xA5, CHR 0xA3] 6 3,
     Ent ''&rHar;'' [CHR 0xE2, CHR 0xA5, CHR 0xA4] 6 3,
     Ent ''&dHar;'' [CHR 0xE2, CHR 0xA5, CHR 0xA5] 6 3,
     Ent ''&luruhar;'' [CHR 0xE2, CHR 0xA5, CHR 0xA6] 9 3,
     Ent ''&ldrdhar;'' [CHR 0xE2, CHR 0xA5, CHR 0xA7] 9 3,
     Ent ''&ruluhar;'' [CHR 0xE2, CHR 0xA5, CHR 0xA8] 9 3,
     Ent ''&rdldhar;'' [CHR 0xE2, CHR 0xA5, CHR 0xA9] 9 3,
     Ent ''&lharul;'' [CHR 0xE2, CHR 0xA5, CHR 0xAA] 8 3,
     Ent ''&llhard;'' [CHR 0xE2, CHR 0xA5, CHR 0xAB] 8 3,
     Ent ''&rharul;'' [CHR 0xE2, CHR 0xA5, CHR 0xAC] 8 3,
     Ent ''&lrhard;'' [CHR 0xE2, CHR 0xA5, CHR 0xAD] 8 3,
     Ent ''&udhar;'' [CHR 0xE2, CHR 0xA5, CHR 0xAE] 7 3,
     Ent ''&ReverseUpEquilibrium;'' [CHR 0xE2, CHR 0xA5, CHR 0xAF] 22 3,
     Ent ''&RoundImplies;'' [CHR 0xE2, CHR 0xA5, CHR 0xB0] 14 3,
     Ent ''&erarr;'' [CHR 0xE2, CHR 0xA5, CHR 0xB1] 7 3,
     Ent ''&simrarr;'' [CHR 0xE2, CHR 0xA5, CHR 0xB2] 9 3,
     Ent ''&larrsim;'' [CHR 0xE2, CHR 0xA5, CHR 0xB3] 9 3,
     Ent ''&rarrsim;'' [CHR 0xE2, CHR 0xA5, CHR 0xB4] 9 3,
     Ent ''&rarrap;'' [CHR 0xE2, CHR 0xA5, CHR 0xB5] 8 3,
     Ent ''&ltlarr;'' [CHR 0xE2, CHR 0xA5, CHR 0xB6] 8 3,
     Ent ''&gtrarr;'' [CHR 0xE2, CHR 0xA5, CHR 0xB8] 8 3,
     Ent ''&subrarr;'' [CHR 0xE2, CHR 0xA5, CHR 0xB9] 9 3,
     Ent ''&suplarr;'' [CHR 0xE2, CHR 0xA5, CHR 0xBB] 9 3,
     Ent ''&lfisht;'' [CHR 0xE2, CHR 0xA5, CHR 0xBC] 8 3,
     Ent ''&rfisht;'' [CHR 0xE2, CHR 0xA5, CHR 0xBD] 8 3,
     Ent ''&ufisht;'' [CHR 0xE2, CHR 0xA5, CHR 0xBE] 8 3,
     Ent ''&dfisht;'' [CHR 0xE2, CHR 0xA5, CHR 0xBF] 8 3,
     Ent ''&lopar;'' [CHR 0xE2, CHR 0xA6, CHR 0x85] 7 3,
     Ent ''&ropar;'' [CHR 0xE2, CHR 0xA6, CHR 0x86] 7 3,
     Ent ''&lbrke;'' [CHR 0xE2, CHR 0xA6, CHR 0x8B] 7 3,
     Ent ''&rbrke;'' [CHR 0xE2, CHR 0xA6, CHR 0x8C] 7 3,
     Ent ''&lbrkslu;'' [CHR 0xE2, CHR 0xA6, CHR 0x8D] 9 3,
     Ent ''&rbrksld;'' [CHR 0xE2, CHR 0xA6, CHR 0x8E] 9 3,
     Ent ''&lbrksld;'' [CHR 0xE2, CHR 0xA6, CHR 0x8F] 9 3,
     Ent ''&rbrkslu;'' [CHR 0xE2, CHR 0xA6, CHR 0x90] 9 3,
     Ent ''&langd;'' [CHR 0xE2, CHR 0xA6, CHR 0x91] 7 3,
     Ent ''&rangd;'' [CHR 0xE2, CHR 0xA6, CHR 0x92] 7 3,
     Ent ''&lparlt;'' [CHR 0xE2, CHR 0xA6, CHR 0x93] 8 3,
     Ent ''&rpargt;'' [CHR 0xE2, CHR 0xA6, CHR 0x94] 8 3,
     Ent ''&gtlPar;'' [CHR 0xE2, CHR 0xA6, CHR 0x95] 8 3,
     Ent ''&ltrPar;'' [CHR 0xE2, CHR 0xA6, CHR 0x96] 8 3,
     Ent ''&vzigzag;'' [CHR 0xE2, CHR 0xA6, CHR 0x9A] 9 3,
     Ent ''&vangrt;'' [CHR 0xE2, CHR 0xA6, CHR 0x9C] 8 3,
     Ent ''&angrtvbd;'' [CHR 0xE2, CHR 0xA6, CHR 0x9D] 10 3,
     Ent ''&ange;'' [CHR 0xE2, CHR 0xA6, CHR 0xA4] 6 3,
     Ent ''&range;'' [CHR 0xE2, CHR 0xA6, CHR 0xA5] 7 3,
     Ent ''&dwangle;'' [CHR 0xE2, CHR 0xA6, CHR 0xA6] 9 3,
     Ent ''&uwangle;'' [CHR 0xE2, CHR 0xA6, CHR 0xA7] 9 3,
     Ent ''&angmsdaa;'' [CHR 0xE2, CHR 0xA6, CHR 0xA8] 10 3,
     Ent ''&angmsdab;'' [CHR 0xE2, CHR 0xA6, CHR 0xA9] 10 3,
     Ent ''&angmsdac;'' [CHR 0xE2, CHR 0xA6, CHR 0xAA] 10 3,
     Ent ''&angmsdad;'' [CHR 0xE2, CHR 0xA6, CHR 0xAB] 10 3,
     Ent ''&angmsdae;'' [CHR 0xE2, CHR 0xA6, CHR 0xAC] 10 3,
     Ent ''&angmsdaf;'' [CHR 0xE2, CHR 0xA6, CHR 0xAD] 10 3,
     Ent ''&angmsdag;'' [CHR 0xE2, CHR 0xA6, CHR 0xAE] 10 3,
     Ent ''&angmsdah;'' [CHR 0xE2, CHR 0xA6, CHR 0xAF] 10 3,
     Ent ''&bemptyv;'' [CHR 0xE2, CHR 0xA6, CHR 0xB0] 9 3,
     Ent ''&demptyv;'' [CHR 0xE2, CHR 0xA6, CHR 0xB1] 9 3,
     Ent ''&cemptyv;'' [CHR 0xE2, CHR 0xA6, CHR 0xB2] 9 3,
     Ent ''&raemptyv;'' [CHR 0xE2, CHR 0xA6, CHR 0xB3] 10 3,
     Ent ''&laemptyv;'' [CHR 0xE2, CHR 0xA6, CHR 0xB4] 10 3,
     Ent ''&ohbar;'' [CHR 0xE2, CHR 0xA6, CHR 0xB5] 7 3,
     Ent ''&omid;'' [CHR 0xE2, CHR 0xA6, CHR 0xB6] 6 3,
     Ent ''&opar;'' [CHR 0xE2, CHR 0xA6, CHR 0xB7] 6 3,
     Ent ''&operp;'' [CHR 0xE2, CHR 0xA6, CHR 0xB9] 7 3,
     Ent ''&olcross;'' [CHR 0xE2, CHR 0xA6, CHR 0xBB] 9 3,
     Ent ''&odsold;'' [CHR 0xE2, CHR 0xA6, CHR 0xBC] 8 3,
     Ent ''&olcir;'' [CHR 0xE2, CHR 0xA6, CHR 0xBE] 7 3,
     Ent ''&ofcir;'' [CHR 0xE2, CHR 0xA6, CHR 0xBF] 7 3,
     Ent ''&olt;'' [CHR 0xE2, CHR 0xA7, CHR 0x80] 5 3,
     Ent ''&ogt;'' [CHR 0xE2, CHR 0xA7, CHR 0x81] 5 3,
     Ent ''&cirscir;'' [CHR 0xE2, CHR 0xA7, CHR 0x82] 9 3,
     Ent ''&cirE;'' [CHR 0xE2, CHR 0xA7, CHR 0x83] 6 3,
     Ent ''&solb;'' [CHR 0xE2, CHR 0xA7, CHR 0x84] 6 3,
     Ent ''&bsolb;'' [CHR 0xE2, CHR 0xA7, CHR 0x85] 7 3,
     Ent ''&boxbox;'' [CHR 0xE2, CHR 0xA7, CHR 0x89] 8 3,
     Ent ''&trisb;'' [CHR 0xE2, CHR 0xA7, CHR 0x8D] 7 3,
     Ent ''&rtriltri;'' [CHR 0xE2, CHR 0xA7, CHR 0x8E] 10 3,
     Ent ''&LeftTriangleBar;'' [CHR 0xE2, CHR 0xA7, CHR 0x8F] 17 3,
     Ent ''&NotLeftTriangleBar;'' [CHR 0xE2, CHR 0xA7, CHR 0x8F, CHR 0xCC, CHR 0xB8] 20 5,
     Ent ''&RightTriangleBar;'' [CHR 0xE2, CHR 0xA7, CHR 0x90] 18 3,
     Ent ''&NotRightTriangleBar;'' [CHR 0xE2, CHR 0xA7, CHR 0x90, CHR 0xCC, CHR 0xB8] 21 5,
     Ent ''&iinfin;'' [CHR 0xE2, CHR 0xA7, CHR 0x9C] 8 3,
     Ent ''&infintie;'' [CHR 0xE2, CHR 0xA7, CHR 0x9D] 10 3,
     Ent ''&nvinfin;'' [CHR 0xE2, CHR 0xA7, CHR 0x9E] 9 3,
     Ent ''&eparsl;'' [CHR 0xE2, CHR 0xA7, CHR 0xA3] 8 3,
     Ent ''&smeparsl;'' [CHR 0xE2, CHR 0xA7, CHR 0xA4] 10 3,
     Ent ''&eqvparsl;'' [CHR 0xE2, CHR 0xA7, CHR 0xA5] 10 3,
     Ent ''&lozf;'' [CHR 0xE2, CHR 0xA7, CHR 0xAB] 6 3,
     Ent ''&RuleDelayed;'' [CHR 0xE2, CHR 0xA7, CHR 0xB4] 13 3,
     Ent ''&dsol;'' [CHR 0xE2, CHR 0xA7, CHR 0xB6] 6 3,
     Ent ''&xodot;'' [CHR 0xE2, CHR 0xA8, CHR 0x80] 7 3,
     Ent ''&bigoplus;'' [CHR 0xE2, CHR 0xA8, CHR 0x81] 10 3,
     Ent ''&bigotimes;'' [CHR 0xE2, CHR 0xA8, CHR 0x82] 11 3,
     Ent ''&biguplus;'' [CHR 0xE2, CHR 0xA8, CHR 0x84] 10 3,
     Ent ''&bigsqcup;'' [CHR 0xE2, CHR 0xA8, CHR 0x86] 10 3,
     Ent ''&iiiint;'' [CHR 0xE2, CHR 0xA8, CHR 0x8C] 8 3,
     Ent ''&fpartint;'' [CHR 0xE2, CHR 0xA8, CHR 0x8D] 10 3,
     Ent ''&cirfnint;'' [CHR 0xE2, CHR 0xA8, CHR 0x90] 10 3,
     Ent ''&awint;'' [CHR 0xE2, CHR 0xA8, CHR 0x91] 7 3,
     Ent ''&rppolint;'' [CHR 0xE2, CHR 0xA8, CHR 0x92] 10 3,
     Ent ''&scpolint;'' [CHR 0xE2, CHR 0xA8, CHR 0x93] 10 3,
     Ent ''&npolint;'' [CHR 0xE2, CHR 0xA8, CHR 0x94] 9 3,
     Ent ''&pointint;'' [CHR 0xE2, CHR 0xA8, CHR 0x95] 10 3,
     Ent ''&quatint;'' [CHR 0xE2, CHR 0xA8, CHR 0x96] 9 3,
     Ent ''&intlarhk;'' [CHR 0xE2, CHR 0xA8, CHR 0x97] 10 3,
     Ent ''&pluscir;'' [CHR 0xE2, CHR 0xA8, CHR 0xA2] 9 3,
     Ent ''&plusacir;'' [CHR 0xE2, CHR 0xA8, CHR 0xA3] 10 3,
     Ent ''&simplus;'' [CHR 0xE2, CHR 0xA8, CHR 0xA4] 9 3,
     Ent ''&plusdu;'' [CHR 0xE2, CHR 0xA8, CHR 0xA5] 8 3,
     Ent ''&plussim;'' [CHR 0xE2, CHR 0xA8, CHR 0xA6] 9 3,
     Ent ''&plustwo;'' [CHR 0xE2, CHR 0xA8, CHR 0xA7] 9 3,
     Ent ''&mcomma;'' [CHR 0xE2, CHR 0xA8, CHR 0xA9] 8 3,
     Ent ''&minusdu;'' [CHR 0xE2, CHR 0xA8, CHR 0xAA] 9 3,
     Ent ''&loplus;'' [CHR 0xE2, CHR 0xA8, CHR 0xAD] 8 3]"

definition entities_9 :: "s_BXHtmlEntities list" where
  "entities_9 = [
     Ent ''&roplus;'' [CHR 0xE2, CHR 0xA8, CHR 0xAE] 8 3,
     Ent ''&Cross;'' [CHR 0xE2, CHR 0xA8, CHR 0xAF] 7 3,
     Ent ''&timesd;'' [CHR 0xE2, CHR 0xA8, CHR 0xB0] 8 3,
     Ent ''&timesbar;'' [CHR 0xE2, CHR 0xA8, CHR 0xB1] 10 3,
     Ent ''&smashp;'' [CHR 0xE2, CHR 0xA8, CHR 0xB3] 8 3,
     Ent ''&lotimes;'' [CHR 0xE2, CHR 0xA8, CHR 0xB4] 9 3,
     Ent ''&rotimes;'' [CHR 0xE2, CHR 0xA8, CHR 0xB5] 9 3,
     Ent ''&otimesas;'' [CHR 0xE2, CHR 0xA8, CHR 0xB6] 10 3,
     Ent ''&Otimes;'' [CHR 0xE2, CHR 0xA8, CHR 0xB7] 8 3,
     Ent ''&odiv;'' [CHR 0xE2, CHR 0xA8, CHR 0xB8] 6 3,
     Ent ''&triplus;'' [CHR 0xE2, CHR 0xA8, CHR 0xB9] 9 3,
     Ent ''&triminus;'' [CHR 0xE2, CHR 0xA8, CHR 0xBA] 10 3,
     Ent ''&tritime;'' [CHR 0xE2, CHR 0xA8, CHR 0xBB] 9 3,
     Ent ''&iprod;'' [CHR 0xE2, CHR 0xA8, CHR 0xBC] 7 3,
     Ent ''&amalg;'' [CHR 0xE2, CHR 0xA8, CHR 0xBF] 7 3,
     Ent ''&capdot;'' [CHR 0xE2, CHR 0xA9, CHR 0x80] 8 3,
     Ent ''&ncup;'' [CHR 0xE2, CHR 0xA9, CHR 0x82] 6 3,
     Ent ''&ncap;'' [CHR 0xE2, CHR 0xA9, CHR 0x83] 6 3,
     Ent ''&capand;'' [CHR 0xE2, CHR 0xA9, CHR 0x84] 8 3,
     Ent ''&cupor;'' [CHR 0xE2, CHR 0xA9, CHR 0x85] 7 3,
     Ent ''&cupcap;'' [CHR 0xE2, CHR 0xA9, CHR 0x86] 8 3,
     Ent ''&capcup;'' [CHR 0xE2, CHR 0xA9, CHR 0x87] 8 3,
     Ent ''&cupbrcap;'' [CHR 0xE2, CHR 0xA9, CHR 0x88] 10 3,
     Ent ''&capbrcup;'' [CHR 0xE2, CHR 0xA9, CHR 0x89] 10 3,
     Ent ''&cupcup;'' [CHR 0xE2, CHR 0xA9, CHR 0x8A] 8 3,
     Ent ''&capcap;'' [CHR 0xE2, CHR 0xA9, CHR 0x8B] 8 3,
     Ent ''&ccups;'' [CHR 0xE2, CHR 0xA9, CHR 0x8C] 7 3,
     Ent ''&ccaps;'' [CHR 0xE2, CHR 0xA9, CHR 0x8D] 7 3,
     Ent ''&ccupssm;'' [CHR 0xE2, CHR 0xA9, CHR 0x90] 9 3,
     Ent ''&And;'' [CHR 0xE2, CHR 0xA9, CHR 0x93] 5 3,
     Ent ''&Or;'' [CHR 0xE2, CHR 0xA9, CHR 0x94] 4 3,
     Ent ''&andand;'' [CHR 0xE2, CHR 0xA9, CHR 0x95] 8 3,
     Ent ''&oror;'' [CHR 0xE2, CHR 0xA9, CHR 0x96] 6 3,
     Ent ''&orslope;'' [CHR 0xE2, CHR 0xA9, CHR 0x97] 9 3,
     Ent ''&andslope;'' [CHR 0xE2, CHR 0xA9, CHR 0x98] 10 3,
     Ent ''&andv;'' [CHR 0xE2, CHR 0xA9, CHR 0x9A] 6 3,
     Ent ''&orv;'' [CHR 0xE2, CHR 0xA9, CHR 0x9B] 5 3,
     Ent ''&andd;'' [CHR 0xE2, CHR 0xA9, CHR 0x9C] 6 3,
     Ent ''&ord;'' [CHR 0xE2, CHR 0xA9, CHR 0x9D] 5 3,
     Ent ''&wedbar;'' [CHR 0xE2, CHR 0xA9, CHR 0x9F] 8 3,
     Ent ''&sdote;'' [CHR 0xE2, CHR 0xA9, CHR 0xA6] 7 3,
     Ent ''&simdot;'' [CHR 0xE2, CHR 0xA9, CHR 0xAA] 8 3,
     Ent ''&congdot;'' [CHR 0xE2, CHR 0xA9, CHR 0xAD] 9 3,
     Ent ''&ncongdot;'' [CHR 0xE2, CHR 0xA9, CHR 0xAD, CHR 0xCC, CHR 0xB8] 10 5,
     Ent ''&easter;'' [CHR 0xE2, CHR 0xA9, CHR 0xAE] 8 3,
     Ent ''&apacir;'' [CHR 0xE2, CHR 0xA9, CHR 0xAF] 8 3,
     Ent ''&apE;'' [CHR 0xE2, CHR 0xA9, CHR 0xB0] 5 3,
     Ent ''&napE;'' [CHR 0xE2, CHR 0xA9, CHR 0xB0, CHR 0xCC, CHR 0xB8] 6 5,
     Ent ''&eplus;'' [CHR 0xE2, CHR 0xA9, CHR 0xB1] 7 3,
     Ent ''&pluse;'' [CHR 0xE2, CHR 0xA9, CHR 0xB2] 7 3,
     Ent ''&Esim;'' [CHR 0xE2, CHR 0xA9, CHR 0xB3] 6 3,
     Ent ''&Colone;'' [CHR 0xE2, CHR 0xA9, CHR 0xB4] 8 3,
     Ent ''&Equal;'' [CHR 0xE2, CHR 0xA9, CHR 0xB5] 7 3,
     Ent ''&ddotseq;'' [CHR 0xE2, CHR 0xA9, CHR 0xB7] 9 3,
     Ent ''&equivDD;'' [CHR 0xE2, CHR 0xA9, CHR 0xB8] 9 3,
     Ent ''&ltcir;'' [CHR 0xE2, CHR 0xA9, CHR 0xB9] 7 3,
     Ent ''&gtcir;'' [CHR 0xE2, CHR 0xA9, CHR 0xBA] 7 3,
     Ent ''&ltquest;'' [CHR 0xE2, CHR 0xA9, CHR 0xBB] 9 3,
     Ent ''&gtquest;'' [CHR 0xE2, CHR 0xA9, CHR 0xBC] 9 3,
     Ent ''&les;'' [CHR 0xE2, CHR 0xA9, CHR 0xBD] 5 3,
     Ent ''&nles;'' [CHR 0xE2, CHR 0xA9, CHR 0xBD, CHR 0xCC, CHR 0xB8] 6 5,
     Ent ''&ges;'' [CHR 0xE2, CHR 0xA9, CHR 0xBE] 5 3,
     Ent ''&nges;'' [CHR 0xE2, CHR 0xA9, CHR 0xBE, CHR 0xCC, CHR 0xB8] 6 5,
     Ent ''&lesdot;'' [CHR 0xE2, CHR 0xA9, CHR 0xBF] 8 3,
     Ent ''&gesdot;'' [CHR 0xE2, CHR 0xAA, CHR 0x80] 8 3,
     Ent ''&lesdoto;'' [CHR 0xE2, CHR 0xAA, CHR 0x81] 9 3,
     Ent ''&gesdoto;'' [CHR 0xE2, CHR 0xAA, CHR 0x82] 9 3,
     Ent ''&lesdotor;'' [CHR 0xE2, CHR 0xAA, CHR 0x83] 10 3,
     Ent ''&gesdotol;'' [CHR 0xE2, CHR 0xAA, CHR 0x84] 10 3,
     Ent ''&lap;'' [CHR 0xE2, CHR 0xAA, CHR 0x85] 5 3,
     Ent ''&gap;'' [CHR 0xE2, CHR 0xAA, CHR 0x86] 5 3,
     Ent ''&lne;'' [CHR 0xE2, CHR 0xAA, CHR 0x87] 5 3,
     Ent ''&gne;'' [CHR 0xE2, CHR 0xAA, CHR 0x88] 5 3,
     Ent ''&lnap;'' [CHR 0xE2, CHR 0xAA, CHR 0x89] 6 3,
     Ent ''&gnap;'' [CHR 0xE2, CHR 0xAA, CHR 0x8A] 6 3,
     Ent ''&lesseqqgtr;'' [CHR 0xE2, CHR 0xAA, CHR 0x8B] 12 3,
     Ent ''&gEl;'' [CHR 0xE2, CHR 0xAA, CHR 0x8C] 5 3,
     Ent ''&lsime;'' [CHR 0xE2, CHR 0xAA, CHR 0x8D] 7 3,
     Ent ''&gsime;'' [CHR 0xE2, CHR 0xAA, CHR 0x8E] 7 3,
     Ent ''&lsimg;'' [CHR 0xE2, CHR 0xAA, CHR 0x8F] 7 3,
     Ent ''&gsiml;'' [CHR 0xE2, CHR 0xAA, CHR 0x90] 7 3,
     Ent ''&lgE;'' [CHR 0xE2, CHR 0xAA, CHR 0x91] 5 3,
     Ent ''&glE;'' [CHR 0xE2, CHR 0xAA, CHR 0x92] 5 3,
     Ent ''&lesges;'' [CHR 0xE2, CHR 0xAA, CHR 0x93] 8 3,
     Ent ''&gesles;'' [CHR 0xE2, CHR 0xAA, CHR 0x94] 8 3,
     Ent ''&els;'' [CHR 0xE2, CHR 0xAA, CHR 0x95] 5 3,
     Ent ''&egs;'' [CHR 0xE2, CHR 0xAA, CHR 0x96] 5 3,
     Ent ''&elsdot;'' [CHR 0xE2, CHR 0xAA, CHR 0x97] 8 3,
     Ent ''&egsdot;'' [CHR 0xE2, CHR 0xAA, CHR 0x98] 8 3,
     Ent ''&el;'' [CHR 0xE2, CHR 0xAA, CHR 0x99] 4 3,
     Ent ''&eg;'' [CHR 0xE2, CHR 0xAA, CHR 0x9A] 4 3,
     Ent ''&siml;'' [CHR 0xE2, CHR 0xAA, CHR 0x9D] 6 3,
     Ent ''&simg;'' [CHR 0xE2, CHR 0xAA, CHR 0x9E] 6 3,
     Ent ''&simlE;'' [CHR 0xE2, CHR 0xAA, CHR 0x9F] 7 3,
     Ent ''&simgE;'' [CHR 0xE2, CHR 0xAA, CHR 0xA0] 7 3,
     Ent ''&LessLess;'' [CHR 0xE2, CHR 0xAA, CHR 0xA1] 10 3,
     Ent ''&NotNestedLessLess;'' [CHR 0xE2, CHR 0xAA, CHR 0xA1, CHR 0xCC, CHR 0xB8] 19 5,
     Ent ''&GreaterGreater;'' [CHR 0xE2, CHR 0xAA, CHR 0xA2] 16 3,
     Ent ''&NotNestedGreaterGreater;'' [CHR 0xE2, CHR 0xAA, CHR 0xA2, CHR 0xCC, CHR 0xB8] 25 5,
     Ent ''&glj;'' [CHR 0xE2, CHR 0xAA, CHR 0xA4] 5 3,
     Ent ''&gla;'' [CHR 0xE2, CHR 0xAA, CHR 0xA5] 5 3,
     Ent ''&ltcc;'' [CHR 0xE2, CHR 0xAA, CHR 0xA6] 6 3,
     Ent ''&gtcc;'' [CHR 0xE2, CHR 0xAA, CHR 0xA7] 6 3,
     Ent ''&lescc;'' [CHR 0xE2, CHR 0xAA, CHR 0xA8] 7 3,
     Ent ''&gescc;'' [CHR 0xE2, CHR 0xAA, CHR 0xA9] 7 3,
     Ent ''&smt;'' [CHR 0xE2, CHR 0xAA, CHR 0xAA] 5 3,
     Ent ''&lat;'' [CHR 0xE2, CHR 0xAA, CHR 0xAB] 5 3,
     Ent ''&smte;'' [CHR 0xE2, CHR 0xAA, CHR 0xAC] 6 3,
     Ent ''&smtes;'' [CHR 0xE2, CHR 0xAA, CHR 0xAC, CHR 0xEF, CHR 0xB8, CHR 0x80] 7 6,
     Ent ''&late;'' [CHR 0xE2, CHR 0xAA, CHR 0xAD] 6 3,
     Ent ''&lates;'' [CHR 0xE2, CHR 0xAA, CHR 0xAD, CHR 0xEF, CHR 0xB8, CHR 0x80] 7 6,
     Ent ''&bumpE;'' [CHR 0xE2, CHR 0xAA, CHR 0xAE] 7 3,
     Ent ''&preceq;'' [CHR 0xE2, CHR 0xAA, CHR 0xAF] 8 3,
     Ent ''&NotPrecedesEqual;'' [CHR 0xE2, CHR 0xAA, CHR 0xAF, CHR 0xCC, CHR 0xB8] 18 5,
     Ent ''&SucceedsEqual;'' [CHR 0xE2, CHR 0xAA, CHR 0xB0] 15 3,
     Ent ''&NotSucceedsEqual;'' [CHR 0xE2, CHR 0xAA, CHR 0xB0, CHR 0xCC, CHR 0xB8] 18 5,
     Ent ''&prE;'' [CHR 0xE2, CHR 0xAA, CHR 0xB3] 5 3,
     Ent ''&scE;'' [CHR 0xE2, CHR 0xAA, CHR 0xB4] 5 3,
     Ent ''&precneqq;'' [CHR 0xE2, CHR 0xAA, CHR 0xB5] 10 3,
     Ent ''&scnE;'' [CHR 0xE2, CHR 0xAA, CHR 0xB6] 6 3,
     Ent ''&precapprox;'' [CHR 0xE2, CHR 0xAA, CHR 0xB7] 12 3,
     Ent ''&succapprox;'' [CHR 0xE2, CHR 0xAA, CHR 0xB8] 12 3,
     Ent ''&precnapprox;'' [CHR 0xE2, CHR 0xAA, CHR 0xB9] 13 3,
     Ent ''&succnapprox;'' [CHR 0xE2, CHR 0xAA, CHR 0xBA] 13 3,
     Ent ''&Pr;'' [CHR 0xE2, CHR 0xAA, CHR 0xBB] 4 3,
     Ent ''&Sc;'' [CHR 0xE2, CHR 0xAA, CHR 0xBC] 4 3,
     Ent ''&subdot;'' [CHR 0xE2, CHR 0xAA, CHR 0xBD] 8 3,
     Ent ''&supdot;'' [CHR 0xE2, CHR 0xAA, CHR 0xBE] 8 3,
     Ent ''&subplus;'' [CHR 0xE2, CHR 0xAA, CHR 0xBF] 9 3,
     Ent ''&supplus;'' [CHR 0xE2, CHR 0xAB, CHR 0x80] 9 3,
     Ent ''&submult;'' [CHR 0xE2, CHR 0xAB, CHR 0x81] 9 3,
     Ent ''&supmult;'' [CHR 0xE2, CHR 0xAB, CHR 0x82] 9 3,
     Ent ''&subedot;'' [CHR 0xE2, CHR 0xAB, CHR 0x83] 9 3,
     Ent ''&supedot;'' [CHR 0xE2, CHR 0xAB, CHR 0x84] 9 3,
     Ent ''&subE;'' [CHR 0xE2, CHR 0xAB, CHR 0x85] 6 3,
     Ent ''&nsubE;'' [CHR 0xE2, CHR 0xAB, CHR 0x85, CHR 0xCC, CHR 0xB8] 7 5,
     Ent ''&supseteqq;'' [CHR 0xE2, CHR 0xAB, CHR 0x86] 11 3,
     Ent ''&nsupseteqq;'' [CHR 0xE2, CHR 0xAB, CHR 0x86, CHR 0xCC, CHR 0xB8] 12 5,
     Ent ''&subsim;'' [CHR 0xE2, CHR 0xAB, CHR 0x87] 8 3,
     Ent ''&supsim;'' [CHR 0xE2, CHR 0xAB, CHR 0x88] 8 3,
     Ent ''&subsetneqq;'' [CHR 0xE2, CHR 0xAB, CHR 0x8B] 12 3,
     Ent ''&vsubnE;'' [CHR 0xE2, CHR 0xAB, CHR 0x8B, CHR 0xEF, CHR 0xB8, CHR 0x80] 8 6,
     Ent ''&supnE;'' [CHR 0xE2, CHR 0xAB, CHR 0x8C] 7 3,
     Ent ''&varsupsetneqq;'' [CHR 0xE2, CHR 0xAB, CHR 0x8C, CHR 0xEF, CHR 0xB8, CHR 0x80] 15 6,
     Ent ''&csub;'' [CHR 0xE2, CHR 0xAB, CHR 0x8F] 6 3,
     Ent ''&csup;'' [CHR 0xE2, CHR 0xAB, CHR 0x90] 6 3,
     Ent ''&csube;'' [CHR 0xE2, CHR 0xAB, CHR 0x91] 7 3,
     Ent ''&csupe;'' [CHR 0xE2, CHR 0xAB, CHR 0x92] 7 3,
     Ent ''&subsup;'' [CHR 0xE2, CHR 0xAB, CHR 0x93] 8 3,
     Ent ''&supsub;'' [CHR 0xE2, CHR 0xAB, CHR 0x94] 8 3]"

definition entities_10 :: "s_BXHtmlEntities list" where
  "entities_10 = [
     Ent ''&subsub;'' [CHR 0xE2, CHR 0xAB, CHR 0x95] 8 3,
     Ent ''&supsup;'' [CHR 0xE2, CHR 0xAB, CHR 0x96] 8 3,
     Ent ''&suphsub;'' [CHR 0xE2, CHR 0xAB, CHR 0x97] 9 3,
     Ent ''&supdsub;'' [CHR 0xE2, CHR 0xAB, CHR 0x98] 9 3,
     Ent ''&forkv;'' [CHR 0xE2, CHR 0xAB, CHR 0x99] 7 3,
     Ent ''&topfork;'' [CHR 0xE2, CHR 0xAB, CHR 0x9A] 9 3,
     Ent ''&mlcp;'' [CHR 0xE2, CHR 0xAB, CHR 0x9B] 6 3,
     Ent ''&Dashv;'' [CHR 0xE2, CHR 0xAB, CHR 0xA4] 7 3,
     Ent ''&Vdashl;'' [CHR 0xE2, CHR 0xAB, CHR 0xA6] 8 3,
     Ent ''&Barv;'' [CHR 0xE2, CHR 0xAB, CHR 0xA7] 6 3,
     Ent ''&vBar;'' [CHR 0xE2, CHR 0xAB, CHR 0xA8] 6 3,
     Ent ''&vBarv;'' [CHR 0xE2, CHR 0xAB, CHR 0xA9] 7 3,
     Ent ''&Vbar;'' [CHR 0xE2, CHR 0xAB, CHR 0xAB] 6 3,
     Ent ''&Not;'' [CHR 0xE2, CHR 0xAB, CHR 0xAC] 5 3,
     Ent ''&bNot;'' [CHR 0xE2, CHR 0xAB, CHR 0xAD] 6 3,
     Ent ''&rnmid;'' [CHR 0xE2, CHR 0xAB, CHR 0xAE] 7 3,
     Ent ''&cirmid;'' [CHR 0xE2, CHR 0xAB, CHR 0xAF] 8 3,
     Ent ''&midcir;'' [CHR 0xE2, CHR 0xAB, CHR 0xB0] 8 3,
     Ent ''&topcir;'' [CHR 0xE2, CHR 0xAB, CHR 0xB1] 8 3,
     Ent ''&nhpar;'' [CHR 0xE2, CHR 0xAB, CHR 0xB2] 7 3,
     Ent ''&parsim;'' [CHR 0xE2, CHR 0xAB, CHR 0xB3] 8 3,
     Ent ''&parsl;'' [CHR 0xE2, CHR 0xAB, CHR 0xBD] 7 3,
     Ent ''&nparsl;'' [CHR 0xE2, CHR 0xAB, CHR 0xBD, CHR 0xE2, CHR 0x83, CHR 0xA5] 8 6,
     Ent ''&fflig;'' [CHR 0xEF, CHR 0xAC, CHR 0x80] 7 3,
     Ent ''&filig;'' [CHR 0xEF, CHR 0xAC, CHR 0x81] 7 3,
     Ent ''&fllig;'' [CHR 0xEF, CHR 0xAC, CHR 0x82] 7 3,
     Ent ''&ffilig;'' [CHR 0xEF, CHR 0xAC, CHR 0x83] 8 3,
     Ent ''&ffllig;'' [CHR 0xEF, CHR 0xAC, CHR 0x84] 8 3,
     Ent ''&Ascr;'' [CHR 0xF0, CHR 0x9D, CHR 0x92, CHR 0x9C] 6 4,
     Ent ''&Cscr;'' [CHR 0xF0, CHR 0x9D, CHR 0x92, CHR 0x9E] 6 4,
     Ent ''&Dscr;'' [CHR 0xF0, CHR 0x9D, CHR 0x92, CHR 0x9F] 6 4,
     Ent ''&Gscr;'' [CHR 0xF0, CHR 0x9D, CHR 0x92, CHR 0xA2] 6 4,
     Ent ''&Jscr;'' [CHR 0xF0, CHR 0x9D, CHR 0x92, CHR 0xA5] 6 4,
     Ent ''&Kscr;'' [CHR 0xF0, CHR 0x9D, CHR 0x92, CHR 0xA6] 6 4,
     Ent ''&Nscr;'' [CHR 0xF0, CHR 0x9D, CHR 0x92, CHR 0xA9] 6 4,
     Ent ''&Oscr;'' [CHR 0xF0, CHR 0x9D, CHR 0x92, CHR 0xAA] 6 4,
     Ent ''&Pscr;'' [CHR 0xF0, CHR 0x9D, CHR 0x92, CHR 0xAB] 6 4,
     Ent ''&Qscr;'' [CHR 0xF0, CHR 0x9D, CHR 0x92, CHR 0xAC] 6 4,
     Ent ''&Sscr;'' [CHR 0xF0, CHR 0x9D, CHR 0x92, CHR 0xAE] 6 4,
     Ent ''&Tscr;'' [CHR 0xF0, CHR 0x9D, CHR 0x92, CHR 0xAF] 6 4,
     Ent ''&Uscr;'' [CHR 0xF0, CHR 0x9D, CHR 0x92, CHR 0xB0] 6 4,
     Ent ''&Vscr;'' [CHR 0xF0, CHR 0x9D, CHR 0x92, CHR 0xB1] 6 4,
     Ent ''&Wscr;'' [CHR 0xF0, CHR 0x9D, CHR 0x92, CHR 0xB2] 6 4,
     Ent ''&Xscr;'' [CHR 0xF0, CHR 0x9D, CHR 0x92, CHR 0xB3] 6 4,
     Ent ''&Yscr;'' [CHR 0xF0, CHR 0x9D, CHR 0x92, CHR 0xB4] 6 4,
     Ent ''&Zscr;'' [CHR 0xF0, CHR 0x9D, CHR 0x92, CHR 0xB5] 6 4,
     Ent ''&ascr;'' [CHR 0xF0, CHR 0x9D, CHR 0x92, CHR 0xB6] 6 4,
     Ent ''&bscr;'' [CHR 0xF0, CHR 0x9D, CHR 0x92, CHR 0xB7] 6 4,
     Ent ''&cscr;'' [CHR 0xF0, CHR 0x9D, CHR 0x92, CHR 0xB8] 6 4,
     Ent ''&dscr;'' [CHR 0xF0, CHR 0x9D, CHR 0x92, CHR 0xB9] 6 4,
     Ent ''&fscr;'' [CHR 0xF0, CHR 0x9D, CHR 0x92, CHR 0xBB] 6 4,
     Ent ''&hscr;'' [CHR 0xF0, CHR 0x9D, CHR 0x92, CHR 0xBD] 6 4,
     Ent ''&iscr;'' [CHR 0xF0, CHR 0x9D, CHR 0x92, CHR 0xBE] 6 4,
     Ent ''&jscr;'' [CHR 0xF0, CHR 0x9D, CHR 0x92, CHR 0xBF] 6 4,
     Ent ''&kscr;'' [CHR 0xF0, CHR 0x9D, CHR 0x93, CHR 0x80] 6 4,
     Ent ''&lscr;'' [CHR 0xF0, CHR 0x9D, CHR 0x93, CHR 0x81] 6 4,
     Ent ''&mscr;'' [CHR 0xF0, CHR 0x9D, CHR 0x93, CHR 0x82] 6 4,
     Ent ''&nscr;'' [CHR 0xF0, CHR 0x9D, CHR 0x93, CHR 0x83] 6 4,
     Ent ''&pscr;'' [CHR 0xF0, CHR 0x9D, CHR 0x93, CHR 0x85] 6 4,
     Ent ''&qscr;'' [CHR 0xF0, CHR 0x9D, CHR 0x93, CHR 0x86] 6 4,
     Ent ''&rscr;'' [CHR 0xF0, CHR 0x9D, CHR 0x93, CHR 0x87] 6 4,
     Ent ''&sscr;'' [CHR 0xF0, CHR 0x9D, CHR 0x93, CHR 0x88] 6 4,
     Ent ''&tscr;'' [CHR 0xF0, CHR 0x9D, CHR 0x93, CHR 0x89] 6 4,
     Ent ''&uscr;'' [CHR 0xF0, CHR 0x9D, CHR 0x93, CHR 0x8A] 6 4,
     Ent ''&vscr;'' [CHR 0xF0, CHR 0x9D, CHR 0x93, CHR 0x8B] 6 4,
     Ent ''&wscr;'' [CHR 0xF0, CHR 0x9D, CHR 0x93, CHR 0x8C] 6 4,
     Ent ''&xscr;'' [CHR 0xF0, CHR 0x9D, CHR 0x93, CHR 0x8D] 6 4,
     Ent ''&yscr;'' [CHR 0xF0, CHR 0x9D, CHR 0x93, CHR 0x8E] 6 4,
     Ent ''&zscr;'' [CHR 0xF0, CHR 0x9D, CHR 0x93, CHR 0x8F] 6 4,
     Ent ''&Afr;'' [CHR 0xF0, CHR 0x9D, CHR 0x94, CHR 0x84] 5 4,
     Ent ''&Bfr;'' [CHR 0xF0, CHR 0x9D, CHR 0x94, CHR 0x85] 5 4,
     Ent ''&Dfr;'' [CHR 0xF0, CHR 0x9D, CHR 0x94, CHR 0x87] 5 4,
     Ent ''&Efr;'' [CHR 0xF0, CHR 0x9D, CHR 0x94, CHR 0x88] 5 4,
     Ent ''&Ffr;'' [CHR 0xF0, CHR 0x9D, CHR 0x94, CHR 0x89] 5 4,
     Ent ''&Gfr;'' [CHR 0xF0, CHR 0x9D, CHR 0x94, CHR 0x8A] 5 4,
     Ent ''&Jfr;'' [CHR 0xF0, CHR 0x9D, CHR 0x94, CHR 0x8D] 5 4,
     Ent ''&Kfr;'' [CHR 0xF0, CHR 0x9D, CHR 0x94, CHR 0x8E] 5 4,
     Ent ''&Lfr;'' [CHR 0xF0, CHR 0x9D, CHR 0x94, CHR 0x8F] 5 4,
     Ent ''&Mfr;'' [CHR 0xF0, CHR 0x9D, CHR 0x94, CHR 0x90] 5 4,
     Ent ''&Nfr;'' [CHR 0xF0, CHR 0x9D, CHR 0x94, CHR 0x91] 5 4,
     Ent ''&Ofr;'' [CHR 0xF0, CHR 0x9D, CHR 0x94, CHR 0x92] 5 4,
     Ent ''&Pfr;'' [CHR 0xF0, CHR 0x9D, CHR 0x94, CHR 0x93] 5 4,
     Ent ''&Qfr;'' [CHR 0xF0, CHR 0x9D, CHR 0x94, CHR 0x94] 5 4,
     Ent ''&Sfr;'' [CHR 0xF0, CHR 0x9D, CHR 0x94, CHR 0x96] 5 4,
     Ent ''&Tfr;'' [CHR 0xF0, CHR 0x9D, CHR 0x94, CHR 0x97] 5 4,
     Ent ''&Ufr;'' [CHR 0xF0, CHR 0x9D, CHR 0x94, CHR 0x98] 5 4,
     Ent ''&Vfr;'' [CHR 0xF0, CHR 0x9D, CHR 0x94, CHR 0x99] 5 4,
     Ent ''&Wfr;'' [CHR 0xF0, CHR 0x9D, CHR 0x94, CHR 0x9A] 5 4,
     Ent ''&Xfr;'' [CHR 0xF0, CHR 0x9D, CHR 0x94, CHR 0x9B] 5 4,
     Ent ''&Yfr;'' [CHR 0xF0, CHR 0x9D, CHR 0x94, CHR 0x9C] 5 4,
     Ent ''&afr;'' [CHR 0xF0, CHR 0x9D, CHR 0x94, CHR 0x9E] 5 4,
     Ent ''&bfr;'' [CHR 0xF0, CHR 0x9D, CHR 0x94, CHR 0x9F] 5 4,
     Ent ''&cfr;'' [CHR 0xF0, CHR 0x9D, CHR 0x94, CHR 0xA0] 5 4,
     Ent ''&dfr;'' [CHR 0xF0, CHR 0x9D, CHR 0x94, CHR 0xA1] 5 4,
     Ent ''&efr;'' [CHR 0xF0, CHR 0x9D, CHR 0x94, CHR 0xA2] 5 4,
     Ent ''&ffr;'' [CHR 0xF0, CHR 0x9D, CHR 0x94, CHR 0xA3] 5 4,
     Ent ''&gfr;'' [CHR 0xF0, CHR 0x9D, CHR 0x94, CHR 0xA4] 5 4,
     Ent ''&hfr;'' [CHR 0xF0, CHR 0x9D, CHR 0x94, CHR 0xA5] 5 4,
     Ent ''&ifr;'' [CHR 0xF0, CHR 0x9D, CHR 0x94, CHR 0xA6] 5 4,
     Ent ''&jfr;'' [CHR 0xF0, CHR 0x9D, CHR 0x94, CHR 0xA7] 5 4,
     Ent ''&kfr;'' [CHR 0xF0, CHR 0x9D, CHR 0x94, CHR 0xA8] 5 4,
     Ent ''&lfr;'' [CHR 0xF0, CHR 0x9D, CHR 0x94, CHR 0xA9] 5 4,
     Ent ''&mfr;'' [CHR 0xF0, CHR 0x9D, CHR 0x94, CHR 0xAA] 5 4,
     Ent ''&nfr;'' [CHR 0xF0, CHR 0x9D, CHR 0x94, CHR 0xAB] 5 4,
     Ent ''&ofr;'' [CHR 0xF0, CHR 0x9D, CHR 0x94, CHR 0xAC] 5 4,
     Ent ''&pfr;'' [CHR 0xF0, CHR 0x9D, CHR 0x94, CHR 0xAD] 5 4,
     Ent ''&qfr;'' [CHR 0xF0, CHR 0x9D, CHR 0x94, CHR 0xAE] 5 4,
     Ent ''&rfr;'' [CHR 0xF0, CHR 0x9D, CHR 0x94, CHR 0xAF] 5 4,
     Ent ''&sfr;'' [CHR 0xF0, CHR 0x9D, CHR 0x94, CHR 0xB0] 5 4,
     Ent ''&tfr;'' [CHR 0xF0, CHR 0x9D, CHR 0x94, CHR 0xB1] 5 4,
     Ent ''&ufr;'' [CHR 0xF0, CHR 0x9D, CHR 0x94, CHR 0xB2] 5 4,
     Ent ''&vfr;'' [CHR 0xF0, CHR 0x9D, CHR 0x94, CHR 0xB3] 5 4,
     Ent ''&wfr;'' [CHR 0xF0, CHR 0x9D, CHR 0x94, CHR 0xB4] 5 4,
     Ent ''&xfr;'' [CHR 0xF0, CHR 0x9D, CHR 0x94, CHR 0xB5] 5 4,
     Ent ''&yfr;'' [CHR 0xF0, CHR 0x9D, CHR 0x94, CHR 0xB6] 5 4,
     Ent ''&zfr;'' [CHR 0xF0, CHR 0x9D, CHR 0x94, CHR 0xB7] 5 4,
     Ent ''&Aopf;'' [CHR 0xF0, CHR 0x9D, CHR 0x94, CHR 0xB8] 6 4,
     Ent ''&Bopf;'' [CHR 0xF0, CHR 0x9D, CHR 0x94, CHR 0xB9] 6 4,
     Ent ''&Dopf;'' [CHR 0xF0, CHR 0x9D, CHR 0x94, CHR 0xBB] 6 4,
     Ent ''&Eopf;'' [CHR 0xF0, CHR 0x9D, CHR 0x94, CHR 0xBC] 6 4,
     Ent ''&Fopf;'' [CHR 0xF0, CHR 0x9D, CHR 0x94, CHR 0xBD] 6 4,
     Ent ''&Gopf;'' [CHR 0xF0, CHR 0x9D, CHR 0x94, CHR 0xBE] 6 4,
     Ent ''&Iopf;'' [CHR 0xF0, CHR 0x9D, CHR 0x95, CHR 0x80] 6 4,
     Ent ''&Jopf;'' [CHR 0xF0, CHR 0x9D, CHR 0x95, CHR 0x81] 6 4,
     Ent ''&Kopf;'' [CHR 0xF0, CHR 0x9D, CHR 0x95, CHR 0x82] 6 4,
     Ent ''&Lopf;'' [CHR 0xF0, CHR 0x9D, CHR 0x95, CHR 0x83] 6 4,
     Ent ''&Mopf;'' [CHR 0xF0, CHR 0x9D, CHR 0x95, CHR 0x84] 6 4,
     Ent ''&Oopf;'' [CHR 0xF0, CHR 0x9D, CHR 0x95, CHR 0x86] 6 4,
     Ent ''&Sopf;'' [CHR 0xF0, CHR 0x9D, CHR 0x95, CHR 0x8A] 6 4,
     Ent ''&Topf;'' [CHR 0xF0, CHR 0x9D, CHR 0x95, CHR 0x8B] 6 4,
     Ent ''&Uopf;'' [CHR 0xF0, CHR 0x9D, CHR 0x95, CHR 0x8C] 6 4,
     Ent ''&Vopf;'' [CHR 0xF0, CHR 0x9D, CHR 0x95, CHR 0x8D] 6 4,
     Ent ''&Wopf;'' [CHR 0xF0, CHR 0x9D, CHR 0x95, CHR 0x8E] 6 4,
     Ent ''&Xopf;'' [CHR 0xF0, CHR 0x9D, CHR 0x95, CHR 0x8F] 6 4,
     Ent ''&Yopf;'' [CHR 0xF0, CHR 0x9D, CHR 0x95, CHR 0x90] 6 4,
     Ent ''&aopf;'' [CHR 0xF0, CHR 0x9D, CHR 0x95, CHR 0x92] 6 4,
     Ent ''&bopf;'' [CHR 0xF0, CHR 0x9D, CHR 0x95, CHR 0x93] 6 4,
     Ent ''&copf;'' [CHR 0xF0, CHR 0x9D, CHR 0x95, CHR 0x94] 6 4,
     Ent ''&dopf;'' [CHR 0xF0, CHR 0x9D, CHR 0x95, CHR 0x95] 6 4,
     Ent ''&eopf;'' [CHR 0xF0, CHR 0x9D, CHR 0x95, CHR 0x96] 6 4,
     Ent ''&fopf;'' [CHR 0xF0, CHR 0x9D, CHR 0x95, CHR 0x97] 6 4,
     Ent ''&gopf;'' [CHR 0xF0, CHR 0x9D, CHR 0x95, CHR 0x98] 6 4,
     Ent ''&hopf;'' [CHR 0xF0, CHR 0x9D, CHR 0x95, CHR 0x99] 6 4,
     Ent ''&iopf;'' [CHR 0xF0, CHR 0x9D, CHR 0x95, CHR 0x9A] 6 4,
     Ent ''&jopf;'' [CHR 0xF0, CHR 0x9D, CHR 0x95, CHR 0x9B] 6 4,
     Ent ''&kopf;'' [CHR 0xF0, CHR 0x9D, CHR 0x95, CHR 0x9C] 6 4,
     Ent ''&lopf;'' [CHR 0xF0, CHR 0x9D, CHR 0x95, CHR 0x9D] 6 4,
     Ent ''&mopf;'' [CHR 0xF0, CHR 0x9D, CHR 0x95, CHR 0x9E] 6 4,
     Ent ''&nopf;'' [CHR 0xF0, CHR 0x9D, CHR 0x95, CHR 0x9F] 6 4,
     Ent ''&oopf;'' [CHR 0xF0, CHR 0x9D, CHR 0x95, CHR 0xA0] 6 4]"

definition entities_11 :: "s_BXHtmlEntities list" where
  "entities_11 = [
     Ent ''&popf;'' [CHR 0xF0, CHR 0x9D, CHR 0x95, CHR 0xA1] 6 4,
     Ent ''&qopf;'' [CHR 0xF0, CHR 0x9D, CHR 0x95, CHR 0xA2] 6 4,
     Ent ''&ropf;'' [CHR 0xF0, CHR 0x9D, CHR 0x95, CHR 0xA3] 6 4,
     Ent ''&sopf;'' [CHR 0xF0, CHR 0x9D, CHR 0x95, CHR 0xA4] 6 4,
     Ent ''&topf;'' [CHR 0xF0, CHR 0x9D, CHR 0x95, CHR 0xA5] 6 4,
     Ent ''&uopf;'' [CHR 0xF0, CHR 0x9D, CHR 0x95, CHR 0xA6] 6 4,
     Ent ''&vopf;'' [CHR 0xF0, CHR 0x9D, CHR 0x95, CHR 0xA7] 6 4,
     Ent ''&wopf;'' [CHR 0xF0, CHR 0x9D, CHR 0x95, CHR 0xA8] 6 4,
     Ent ''&xopf;'' [CHR 0xF0, CHR 0x9D, CHR 0x95, CHR 0xA9] 6 4,
     Ent ''&yopf;'' [CHR 0xF0, CHR 0x9D, CHR 0x95, CHR 0xAA] 6 4,
     Ent ''&zopf;'' [CHR 0xF0, CHR 0x9D, CHR 0x95, CHR 0xAB] 6 4]"

definition BXHTMLEntities :: "s_BXHtmlEntities list" where
  "BXHTMLEntities = entities_1 @ entities_2 @ entities_3 @ entities_4 @ entities_5 @ entities_6 @
      entities_7 @ entities_8 @ entities_9 @ entities_10 @ entities_11"

text \<open>Every slice states the true lengths, and every entity starts with an ampersand.\<close>

definition ent_ok :: "s_BXHtmlEntities \<Rightarrow> bool" where
  "ent_ok e \<longleftrightarrow> length (entity e) = elen e \<and> length (utf8 e) = ulen e \<and>
     entity e \<noteq> [] \<and> hd (entity e) = CHR ''&'' \<and> list_all (\<lambda>c. c \<noteq> NUL) (entity e)"

lemma entities_1_ok: "list_all ent_ok entities_1"
  by code_simp

lemma entities_2_ok: "list_all ent_ok entities_2"
  by code_simp

lemma entities_3_ok: "list_all ent_ok entities_3"
  by code_simp

lemma entities_4_ok: "list_all ent_ok entities_4"
  by code_simp

lemma entities_5_ok: "list_all ent_ok entities_5"
  by code_simp

lemma entities_6_ok: "list_all ent_ok entities_6"
  by code_simp

lemma entities_7_ok: "list_all ent_ok entities_7"
  by code_simp

lemma entities_8_ok: "list_all ent_ok entities_8"
  by code_simp

lemma entities_9_ok: "list_all ent_ok entities_9"
  by code_simp

lemma entities_10_ok: "list_all ent_ok entities_10"
  by code_simp

lemma entities_11_ok: "list_all ent_ok entities_11"
  by code_simp

lemma BXHTMLEntities_ok: "list_all ent_ok BXHTMLEntities"
  unfolding BXHTMLEntities_def list_all_append
  by (intro conjI entities_1_ok entities_2_ok entities_3_ok entities_4_ok entities_5_ok entities_6_ok entities_7_ok entities_8_ok entities_9_ok entities_10_ok entities_11_ok)

end
