(* ===== verification/Bx_Object_Value.thy ===== *)
theory Bx_Object_Value
  imports Bx_Prelude
begin

text \<open>
  The tagged values of \<open>src/src/include/bx_object_value.h\<close> and the operations of
  \<open>src/src/bx_object_value.c\<close>: printing, the index of a value, comparison and copy.
  A double is its 64-bit IEEE pattern. A string or byte value is its buffer (every
  allocated byte) and its length; reading past the buffer is \<open>None\<close>. Allocation is
  taken to succeed. \<open>xxh\<close> stands for the XXH3 hash of the xxHash library.
\<close>

section \<open>Data\<close>

record BXInteger =
  bi_isset :: bool
  bi_value :: int \<comment> \<open>an \<open>int64_t\<close>\<close>

record BXUInteger =
  bu_isset :: bool
  bu_value :: u64

record BXFloat =
  bf_isset :: bool
  bf_value :: u64

record BXString =
  bs_isset :: bool
  bs_value :: "string ptr"
  bs_len :: nat

record BXBool =
  bb_isset :: bool
  bb_value :: bool

record BXBytes =
  by_isset :: bool
  by_value :: "u8 list ptr"
  by_len :: nat

record BXUuid =
  bq_isset :: bool
  bq_value :: "u64 \<times> u64"

text \<open>
  A value seen through its leading type byte (\<open>BXGeneric *\<close> and the union \<open>BXAny\<close>).
  \<open>Other\<close> is any other type byte, \<open>BX_OBJECT_TYPE_INTID\<close> included: no operation here has
  a case for it.
\<close>

datatype BXAny =
    AInteger BXInteger | AUInteger BXUInteger | AFloat BXFloat | AString BXString
  | ABool BXBool | ABytes BXBytes | AUuid BXUuid | Other u8

fun type_tag :: "BXAny \<Rightarrow> u8" where
  "type_tag (AInteger _) = 1"
| "type_tag (AUInteger _) = 2"
| "type_tag (AFloat _) = 3"
| "type_tag (AString _) = 4"
| "type_tag (ABool _) = 5"
| "type_tag (ABytes _) = 6"
| "type_tag (AUuid _) = 7"
| "type_tag (Other t) = t"

section \<open>Printing\<close>

definition uint2str :: "BXUInteger \<Rightarrow> string" where
  "uint2str v = (if bu_isset v then dec_nat (unat (bu_value v)) else ''0'')"

definition int2str :: "BXInteger \<Rightarrow> string" where
  "int2str v = (if bi_isset v then dec_int (bi_value v) else ''0'')"

definition read_buf :: "'a list ptr \<Rightarrow> nat \<Rightarrow> 'a list option" where
  \<comment> \<open>\<open>memcpy\<close> of \<open>n\<close> elements out of a buffer\<close>
  "read_buf p n =
     (case p of NULL \<Rightarrow> if n = 0 then Some [] else None
      | Ptr b \<Rightarrow> if n \<le> length b then Some (take n b) else None)"

definition str2str :: "BXString \<Rightarrow> string option" where
  "str2str v = (if \<not> bs_isset v then Some []
                else map_option cstr (read_buf (bs_value v) (bs_len v)))"

definition hex_digit :: "nat \<Rightarrow> char" where
  "hex_digit n = (if n < 10 then char_of (48 + n) else char_of (87 + n))"

definition hex2 :: "u8 \<Rightarrow> string" where
  \<comment> \<open>\<open>%2x\<close>: at least two columns, padded with a space\<close>
  "hex2 b = (let n = unat b in
     if n < 16 then [CHR '' '', hex_digit n] else [hex_digit (n div 16), hex_digit (n mod 16)])"

definition bytes2str :: "BXBytes \<Rightarrow> string option" where
  "bytes2str v = (if \<not> by_isset v then Some []
                  else map_option (\<lambda>bs. concat (map hex2 bs)) (read_buf (by_value v) (by_len v)))"

definition bool2str :: "BXBool \<Rightarrow> string" where
  "bool2str v = (if \<not> bb_isset v then [] else if bb_value v then ''true'' else ''false'')"

text \<open>\<open>Some NULL\<close>: the function returns NULL, the value has no printed form.\<close>

fun bx_object_value_to_string :: "BXAny \<Rightarrow> string ptr option" where
  "bx_object_value_to_string (AUInteger v) = Some (Ptr (uint2str v))"
| "bx_object_value_to_string (AInteger v) = Some (Ptr (int2str v))"
| "bx_object_value_to_string (AFloat v) = Some NULL"
| "bx_object_value_to_string (AString v) = map_option Ptr (str2str v)"
| "bx_object_value_to_string (ABool v) = Some (Ptr (bool2str v))"
| "bx_object_value_to_string (ABytes v) = map_option Ptr (bytes2str v)"
| "bx_object_value_to_string (AUuid v) = Some NULL"
| "bx_object_value_to_string (Other t) = Some NULL"

definition bx_any_to_generic :: "BXAny ptr \<Rightarrow> BXAny ptr" where
  "bx_any_to_generic p =
     (case p of NULL \<Rightarrow> NULL | Ptr a \<Rightarrow> (case a of Other t \<Rightarrow> NULL | _ \<Rightarrow> Ptr a))"

definition bx_any_to_str :: "BXAny ptr \<Rightarrow> string ptr option" where
  "bx_any_to_str p =
     (case p of NULL \<Rightarrow> Some NULL
      | Ptr a \<Rightarrow> (case a of Other t \<Rightarrow> Some NULL | _ \<Rightarrow> bx_object_value_to_string a))"

section \<open>Index\<close>

fun bx_object_value_to_index :: "(u8 list \<Rightarrow> u64) \<Rightarrow> BXAny \<Rightarrow> u64 option" where
  "bx_object_value_to_index xxh (AInteger v) =
     Some (if \<not> bi_isset v then 0 else word_of_int (bi_value v))"
| "bx_object_value_to_index xxh (AUInteger v) = Some (if \<not> bu_isset v then 0 else bu_value v)"
| "bx_object_value_to_index xxh (ABool v) =
     Some (if \<not> bb_isset v then 0 else if bb_value v then 1 else 0)"
| "bx_object_value_to_index xxh (AFloat v) =
     Some (if \<not> bf_isset v then 0 else xxh (le_bytes 8 (bf_value v)))"
| "bx_object_value_to_index xxh (AString v) =
     (if \<not> bs_isset v then Some 0
      else map_option (\<lambda>s. xxh (map byte_of s)) (read_buf (bs_value v) (bs_len v)))"
| "bx_object_value_to_index xxh (ABytes v) =
     (if \<not> by_isset v then Some 0 else map_option xxh (read_buf (by_value v) (by_len v)))"
| "bx_object_value_to_index xxh (AUuid v) =
     Some (if \<not> bq_isset v then 0
           else xxh (le_bytes 8 (fst (bq_value v)) @ le_bytes 8 (snd (bq_value v))))"
| "bx_object_value_to_index xxh (Other t) = Some 0"

section \<open>Comparison\<close>

text \<open>IEEE comparison on bit patterns: sign and magnitude, a NaN is unordered.\<close>

definition f64_nan :: "u64 \<Rightarrow> bool" where
  "f64_nan w \<longleftrightarrow> 0x7FF0000000000000 < unat w mod 2 ^ 63"

definition f64_key :: "u64 \<Rightarrow> int" where
  "f64_key w = (if unat w < 2 ^ 63 then int (unat w) else - int (unat w - 2 ^ 63))"

definition f64_less :: "u64 \<Rightarrow> u64 \<Rightarrow> bool" where
  "f64_less a b \<longleftrightarrow> \<not> f64_nan a \<and> \<not> f64_nan b \<and> f64_key a < f64_key b"

definition cmp3 :: "('a \<Rightarrow> 'a \<Rightarrow> bool) \<Rightarrow> 'a \<Rightarrow> 'a \<Rightarrow> int" where
  "cmp3 lt a b = (if lt a b then - 1 else if lt b a then 1 else 0)"

fun bytes_cmp :: "u8 list \<Rightarrow> u8 list \<Rightarrow> int" where
  \<comment> \<open>the byte loop, on two runs of the same length\<close>
  "bytes_cmp (x # xs) (y # ys) =
     (if x < y then - 1 else if y < x then 1 else bytes_cmp xs ys)"
| "bytes_cmp _ _ = 0"

text \<open>
  The sign of the result (\<open>strcmp\<close> and \<open>strncmp\<close> promise no more). \<open>strncmp\<close> of \<open>n\<close>
  characters reads up to \<open>n\<close> bytes and stops at a NUL.
\<close>

definition bx_object_value_compare :: "BXAny \<Rightarrow> BXAny \<Rightarrow> int option" where
  "bx_object_value_compare a b =
     (if type_tag a \<noteq> type_tag b then do {
        a_str \<leftarrow> bx_any_to_str (Ptr a);
        b_str \<leftarrow> bx_object_value_to_string b;
        Some (case (a_str, b_str) of (Ptr s, Ptr t) \<Rightarrow> strcmp s t | _ \<Rightarrow> 0)
      } else
      case (a, b) of
        (ABool x, ABool y) \<Rightarrow> Some (cmp3 (<) (bb_value x) (bb_value y))
      | (AInteger x, AInteger y) \<Rightarrow> Some (cmp3 (<) (bi_value x) (bi_value y))
      | (AUInteger x, AUInteger y) \<Rightarrow> Some (cmp3 (<) (bu_value x) (bu_value y))
      | (AFloat x, AFloat y) \<Rightarrow> Some (cmp3 f64_less (bf_value x) (bf_value y))
      | (AUuid x, AUuid y) \<Rightarrow>
          Some (if fst (bq_value x) < fst (bq_value y) then - 1
                else if fst (bq_value y) < fst (bq_value x) then 1
                else cmp3 (<) (snd (bq_value x)) (snd (bq_value y)))
      | (AString x, AString y) \<Rightarrow>
          if bs_len x = bs_len y then do {
            s \<leftarrow> read_buf (bs_value x) (bs_len x);
            t \<leftarrow> read_buf (bs_value y) (bs_len y);
            Some (strcmp (cstr s) (cstr t))
          } else Some (cmp3 (<) (bs_len x) (bs_len y))
      | (ABytes x, ABytes y) \<Rightarrow>
          if by_len x = by_len y then do {
            s \<leftarrow> read_buf (by_value x) (by_len x);
            t \<leftarrow> read_buf (by_value y) (by_len y);
            Some (bytes_cmp s t)
          } else Some (cmp3 (<) (by_len x) (by_len y))
      | _ \<Rightarrow> Some 0)"

section \<open>Copy\<close>

text \<open>
  The copy of a buffer allocates \<open>value_len\<close> times the size of a pointer, zeroed. The
  destination's type byte is overwritten first, so a value with no case changes the type
  of the destination and reports failure.
\<close>

definition copy_buf :: "'a::zero list ptr \<Rightarrow> nat \<Rightarrow> 'a list ptr option" where
  "copy_buf p n = map_option (\<lambda>xs. Ptr (xs @ replicate (7 * n) 0)) (read_buf p n)"

definition copy_str :: "string ptr \<Rightarrow> nat \<Rightarrow> string ptr option" where
  "copy_str p n = map_option (\<lambda>xs. Ptr (xs @ replicate (7 * n) NUL)) (read_buf p n)"

fun retag :: "BXAny \<Rightarrow> u8 \<Rightarrow> BXAny" where
  "retag dest t = (if type_tag dest = t then dest else Other t)"

fun bx_object_value_copy :: "BXAny \<Rightarrow> BXAny \<Rightarrow> (bool \<times> BXAny) option" where
  "bx_object_value_copy dest (AInteger v) = Some (True, AInteger v)"
| "bx_object_value_copy dest (AUInteger v) = Some (True, AUInteger v)"
| "bx_object_value_copy dest (AUuid v) = Some (True, AUuid v)"
| "bx_object_value_copy dest (AFloat v) = Some (True, AFloat v)"
| "bx_object_value_copy dest (ABool v) = Some (True, ABool v)"
| "bx_object_value_copy dest (ABytes v) =
     map_option (\<lambda>b. (True, ABytes (v\<lparr>by_value := b\<rparr>))) (copy_buf (by_value v) (by_len v))"
| "bx_object_value_copy dest (AString v) =
     map_option (\<lambda>b. (True, AString (v\<lparr>bs_value := b\<rparr>))) (copy_str (bs_value v) (bs_len v))"
| "bx_object_value_copy dest (Other t) = Some (False, retag dest t)"

section \<open>Well-formed values\<close>

fun buf_ok :: "'a list ptr \<Rightarrow> nat \<Rightarrow> bool" where
  "buf_ok NULL n = (n = 0)"
| "buf_ok (Ptr b) n = (n \<le> length b)"

fun value_ok :: "BXAny \<Rightarrow> bool" where
  "value_ok (AInteger v) = (- (2 ^ 63) \<le> bi_value v \<and> bi_value v < 2 ^ 63)"
| "value_ok (AString v) = buf_ok (bs_value v) (bs_len v)"
| "value_ok (ABytes v) = buf_ok (by_value v) (by_len v)"
| "value_ok (Other t) = (t \<notin> {1, 2, 3, 4, 5, 6, 7})"
| "value_ok _ = True"

lemma read_buf_ok: "buf_ok p n \<Longrightarrow> \<exists>xs. read_buf p n = Some xs \<and> length xs = n"
  by (cases p) (auto simp: read_buf_def)

lemma read_buf_defined_iff: "(\<exists>xs. read_buf p n = Some xs) \<longleftrightarrow> buf_ok p n"
  by (cases p) (auto simp: read_buf_def)

lemma cmp3_antisym:
  "(\<And>a b. lt a b \<Longrightarrow> \<not> lt b a) \<Longrightarrow> cmp3 lt b a = - cmp3 lt a b"
  by (auto simp: cmp3_def)

lemma f64_less_asym: "f64_less a b \<Longrightarrow> \<not> f64_less b a"
  by (auto simp: f64_less_def)

lemma bytes_cmp_antisym: "bytes_cmp ys xs = - bytes_cmp xs ys"
  by (induction xs ys rule: bytes_cmp.induct) auto

lemma bytes_cmp_eq_0_iff: "length xs = length ys \<Longrightarrow> bytes_cmp xs ys = 0 \<longleftrightarrow> xs = ys"
  by (induction xs ys rule: list_induct2) auto

lemma to_string_defined:
  assumes "value_ok a"
  shows "\<exists>s. bx_object_value_to_string a = Some s"
proof (cases a)
  case (AString v)
  then obtain xs where "read_buf (bs_value v) (bs_len v) = Some xs"
    using assms read_buf_ok [of "bs_value v" "bs_len v"] by auto
  then show ?thesis using AString by (simp add: str2str_def)
next
  case (ABytes v)
  then obtain xs where "read_buf (by_value v) (by_len v) = Some xs"
    using assms read_buf_ok [of "by_value v" "by_len v"] by auto
  then show ?thesis using ABytes by (simp add: bytes2str_def)
qed simp_all

text \<open>
  Comparison is defined on well-formed values, says 0 for a value and itself, and changes
  sign when its arguments are swapped, also across types (where the printed forms are
  compared).
\<close>

lemma any_to_str_Ptr: "bx_any_to_str (Ptr a) = bx_object_value_to_string a"
  by (cases a) (simp_all add: bx_any_to_str_def)

lemma compare_other_type:
  assumes "type_tag a \<noteq> type_tag b" and "value_ok a" and "value_ok b"
  shows "\<exists>r. bx_object_value_compare a b = Some r \<and> bx_object_value_compare b a = Some (- r)"
proof -
  obtain s t where "bx_object_value_to_string a = Some s" "bx_object_value_to_string b = Some t"
    using to_string_defined assms by metis
  then show ?thesis using assms(1)
    by (cases s; cases t) (auto simp: bx_object_value_compare_def any_to_str_Ptr intro: strcmp_antisym)
qed

lemma type_tag_same:
  assumes "type_tag a = type_tag b"
  shows "(\<exists>x y. a = AInteger x \<and> b = AInteger y) \<or> (\<exists>x y. a = AUInteger x \<and> b = AUInteger y) \<or>
         (\<exists>x y. a = AFloat x \<and> b = AFloat y) \<or> (\<exists>x y. a = AString x \<and> b = AString y) \<or>
         (\<exists>x y. a = ABool x \<and> b = ABool y) \<or> (\<exists>x y. a = ABytes x \<and> b = ABytes y) \<or>
         (\<exists>x y. a = AUuid x \<and> b = AUuid y) \<or> (\<exists>t. a = Other t) \<or> (\<exists>t. b = Other t)"
  using assms by (cases a; cases b) auto

lemma compare_same_type:
  assumes "type_tag a = type_tag b" and "value_ok a" and "value_ok b"
  shows "\<exists>r. bx_object_value_compare a b = Some r \<and> bx_object_value_compare b a = Some (- r)"
  using type_tag_same [OF assms(1)]
proof (elim disjE exE conjE)
  fix x y
  assume ab: "a = AString x" "b = AString y"
  then obtain s t where "read_buf (bs_value x) (bs_len x) = Some s" "read_buf (bs_value y) (bs_len y) = Some t"
    using assms read_buf_ok by (metis value_ok.simps(2))
  then show ?thesis
    using ab by (auto simp: bx_object_value_compare_def strcmp_antisym [of "cstr t" "cstr s"] cmp3_def)
next
  fix x y
  assume ab: "a = ABytes x" "b = ABytes y"
  then obtain s t where "read_buf (by_value x) (by_len x) = Some s" "read_buf (by_value y) (by_len y) = Some t"
    using assms read_buf_ok by (metis value_ok.simps(3))
  then show ?thesis
    using ab by (auto simp: bx_object_value_compare_def bytes_cmp_antisym [of t s] cmp3_def)
qed (use assms f64_less_asym in \<open>auto simp: bx_object_value_compare_def cmp3_def split: BXAny.splits\<close>)

end
