(* ===== verification/Bx_Html_Entities.thy ===== *)
theory Bx_Html_Entities
  imports Bx_Html_Table Bx_Object_Value
begin

text \<open>
  The in-place decoding of HTML entities, \<open>bx_html_entities_replaces\<close> of
  \<open>src/src/include/bx_html_entities.h\<close>. The buffer is every allocated byte of the string;
  an access outside it is \<open>None\<close>. The reference definition \<open>html_decode\<close> says what the
  decoding means, without a buffer.
\<close>

section \<open>The program\<close>

text \<open>
  \<open>strncmp\<close> of an entity with the text at a position is 0. The comparison stops at the
  first difference, so it reads no further than the terminator.
\<close>

fun match_at :: "string \<Rightarrow> char list \<Rightarrow> bool option" where
  "match_at [] text = Some True"
| "match_at (c # cs) [] = None"
| "match_at (c # cs) (d # ds) = (if c \<noteq> d then Some False else match_at cs ds)"

fun find_entity :: "s_BXHtmlEntities list \<Rightarrow> char list \<Rightarrow> s_BXHtmlEntities option option" where
  "find_entity [] text = Some None"
| "find_entity (e # es) text =
     (case match_at (take (elen e) (entity e)) text of
        None \<Rightarrow> None
      | Some m \<Rightarrow> if m then Some (Some e) else find_entity es text)"

definition copy_in :: "'a list \<Rightarrow> nat \<Rightarrow> 'a list \<Rightarrow> 'a list option" where
  \<comment> \<open>\<open>memcpy\<close> into a buffer\<close>
  "copy_in buf j ys =
     (if j + length ys \<le> length buf then Some (take j buf @ ys @ drop (j + length ys) buf) else None)"

partial_function (option) replaces_loop ::
    "s_BXHtmlEntities list \<Rightarrow> nat \<Rightarrow> char list \<Rightarrow> nat \<Rightarrow> nat \<Rightarrow> (char list \<times> nat) option" where
  "replaces_loop tab n buf i j =
     (if \<not> i < n then Some (buf, j)
      else do {
        c \<leftarrow> rd buf i;
        if c = NUL then Some (buf, j)
        else if c \<noteq> CHR ''&'' then do {
          buf' \<leftarrow> wr buf j c;
          replaces_loop tab n buf' (i + 1) (j + 1)
        } else do {
          m \<leftarrow> find_entity tab (drop i buf);
          (case m of
             None \<Rightarrow> do {
               buf' \<leftarrow> wr buf j c;
               replaces_loop tab n buf' (i + 1) (j + 1)
             }
           | Some e \<Rightarrow> do {
               buf1 \<leftarrow> fill buf j (elen e) NUL;
               buf2 \<leftarrow> copy_in buf1 j (take (ulen e) (utf8 e));
               replaces_loop tab n buf2 (i + elen e) (j + ulen e)
             })
        }
      })"

text \<open>
  The last \<open>memset\<close> takes the length \<open>value_len - j\<close> as a \<open>size_t\<close>: when more bytes were
  written than the value had, it wraps to almost the whole address space.
\<close>

definition bx_html_entities_replaces ::
    "s_BXHtmlEntities list \<Rightarrow> BXString \<Rightarrow> BXString option" where
  "bx_html_entities_replaces tab str =
     (case bs_value str of
        NULL \<Rightarrow> Some str
      | Ptr buf \<Rightarrow>
          if bs_len str = 0 then Some str
          else do {
            (buf', j) \<leftarrow> replaces_loop tab (bs_len str) buf 0 0;
            buf'' \<leftarrow> (if j \<le> bs_len str then fill buf' j (bs_len str - j) NUL else None);
            Some (str\<lparr>bs_value := Ptr buf'', bs_len := j\<rparr>)
          })"

section \<open>What it computes\<close>

definition is_prefix :: "string \<Rightarrow> string \<Rightarrow> bool" where
  "is_prefix p s \<longleftrightarrow> take (length p) s = p"

fun html_decode :: "s_BXHtmlEntities list \<Rightarrow> string \<Rightarrow> string" where
  "html_decode tab [] = []"
| "html_decode tab (c # s) =
     (case (if c = CHR ''&'' then find (\<lambda>e. is_prefix (entity e) (c # s)) tab else None) of
        None \<Rightarrow> c # html_decode tab s
      | Some e \<Rightarrow> utf8 e @ html_decode tab (drop (elen e - 1) s))"

lemma match_at_terminated:
  "list_all (\<lambda>c. c \<noteq> NUL) p \<Longrightarrow> match_at p (s @ NUL # rest) = Some (is_prefix p s)"
proof (induction p arbitrary: s)
  case Nil
  then show ?case by (simp add: is_prefix_def)
next
  case (Cons c p)
  then show ?case by (cases s) (auto simp: is_prefix_def)
qed

lemma find_entity_terminated:
  "list_all ent_ok tab \<Longrightarrow>
   find_entity tab (s @ NUL # rest) = Some (find (\<lambda>e. is_prefix (entity e) s) tab)"
  by (induction tab) (auto simp: ent_ok_def match_at_terminated)

definition shrinking :: "s_BXHtmlEntities \<Rightarrow> bool" where
  "shrinking e \<longleftrightarrow> ulen e \<le> elen e"

lemma found_entity:
  assumes "list_all ent_ok tab" and "find (\<lambda>e. is_prefix (entity e) s) tab = Some e"
  shows "e \<in> set tab" and "length (entity e) = elen e" and "length (utf8 e) = ulen e"
    and "0 < elen e" and "elen e \<le> length s"
proof -
  from assms(2) have e: "e \<in> set tab" "is_prefix (entity e) s"
    by (auto simp: find_Some_iff)
  from this(1) assms(1) have "ent_ok e" by (auto simp: list_all_iff)
  with e show "e \<in> set tab" "length (entity e) = elen e" "length (utf8 e) = ulen e" "0 < elen e"
    by (auto simp: ent_ok_def length_greater_0_conv [symmetric] simp del: length_greater_0_conv)
  then show "elen e \<le> length s"
    using e(2) by (metis is_prefix_def length_take min.cobounded1)
qed

text \<open>No entity whose replacement is longer than itself occurs in the text.\<close>

definition no_growth :: "s_BXHtmlEntities list \<Rightarrow> string \<Rightarrow> bool" where
  "no_growth tab s \<longleftrightarrow>
     list_all (\<lambda>e. shrinking e \<or> list_all (\<lambda>k. \<not> is_prefix (entity e) (drop k s)) [0..<length s]) tab"

lemma no_growth_drop: "no_growth tab s \<Longrightarrow> no_growth tab (drop k s)"
  by (fastforce simp: no_growth_def list_all_iff)

lemma no_growth_found:
  assumes "list_all ent_ok tab" and "no_growth tab s"
    and "find (\<lambda>e. is_prefix (entity e) s) tab = Some e"
  shows "ulen e \<le> elen e"
proof -
  have e: "e \<in> set tab" "is_prefix (entity e) s" using assms(3) by (auto simp: find_Some_iff)
  have "s \<noteq> []" using found_entity(4,5) [OF assms(1,3)] by auto
  then have "0 \<in> set [0..<length s]" by simp
  then have "shrinking e" using e assms(2) unfolding no_growth_def list_all_iff by (metis drop_0)
  then show ?thesis by (simp add: shrinking_def)
qed

lemma html_decode_length:
  assumes "list_all ent_ok tab" and "no_growth tab s"
  shows "length (html_decode tab s) \<le> length s"
  using assms
proof (induction tab s rule: html_decode.induct)
  case (2 tab c s)
  show ?case
  proof (cases "if c = CHR ''&'' then find (\<lambda>e. is_prefix (entity e) (c # s)) tab else None")
    case None
    with "2.IH"(1) "2.prems" no_growth_drop [of tab "c # s" 1] show ?thesis by simp
  next
    case (Some e)
    then have f: "find (\<lambda>e. is_prefix (entity e) (c # s)) tab = Some e" by (simp split: if_splits)
    note e = found_entity [OF "2.prems"(1) f]
    have "ulen e \<le> elen e" by (rule no_growth_found [OF "2.prems" f])
    moreover have "no_growth tab (drop (elen e - 1) s)"
      using no_growth_drop [OF "2.prems"(2), of "elen e"] e(4) by (cases "elen e") simp_all
    ultimately show ?thesis using Some e "2.IH"(2) [OF Some] "2.prems"(1) by simp
  qed
qed simp

lemma drop_write:
  assumes "j \<le> i" and "drop i buf = c # r"
  shows "drop (Suc i) (buf[j := x]) = r" and "wr buf j x = Some (buf[j := x])"
    and "take (Suc j) (buf[j := x]) = take j buf @ [x]"
proof -
  have i: "i < length buf" using assms(2) by (metis drop_all list.discI not_less)
  then show "wr buf j x = Some (buf[j := x])" using assms(1) by (simp add: wr_def)
  have "drop (Suc i) buf = r" using assms(2) by (metis drop_Suc list.sel(3) tl_drop)
  then show "drop (Suc i) (buf[j := x]) = r" using assms(1) by simp
  show "take (Suc j) (buf[j := x]) = take j buf @ [x]"
    using i assms(1) by (simp add: take_Suc_conv_app_nth)
qed

text \<open>
  Loop invariant: the unread text is still where it was, because the write position never
  passes the read position while every replacement is at most as long as its entity.
\<close>

lemma replaces_loop_spec:
  assumes tab: "list_all ent_ok tab"
    and "no_growth tab s" and "drop i buf = s @ NUL # rest" and "list_all (\<lambda>c. c \<noteq> NUL) s"
    and "n = i + length s" and "j \<le> i"
  shows "\<exists>buf'. replaces_loop tab n buf i j = Some (buf', j + length (html_decode tab s)) \<and>
           length buf' = length buf \<and>
           take (j + length (html_decode tab s)) buf' = take j buf @ html_decode tab s \<and>
           drop n buf' = drop n buf"
  using assms(2-)
proof (induction s arbitrary: i j buf rule: length_induct)
  case (1 s)
  show ?case
  proof (cases s)
    case Nil
    with "1.prems" show ?thesis by (subst replaces_loop.simps) auto
  next
    case (Cons c r)
    have d: "drop i buf = c # (r @ NUL # rest)" using "1.prems" Cons by simp
    have i: "i < length buf" using d by (metis drop_all list.discI not_less)
    have rdc: "rd buf i = Some c" using i d by (simp add: rd_def hd_drop_conv_nth [symmetric])
    have c: "c \<noteq> NUL" and r: "list_all (\<lambda>c. c \<noteq> NUL) r" using "1.prems"(3) Cons by simp_all
    have n: "i < n" "n = Suc i + length r" using "1.prems"(4) Cons by simp_all
    note w = drop_write [OF "1.prems"(5) d, of c]
    define m where "m = (if c = CHR ''&'' then find (\<lambda>e. is_prefix (entity e) s) tab else None)"
    have fe: "find_entity tab (drop i buf) = Some (find (\<lambda>e. is_prefix (entity e) s) tab)"
      using find_entity_terminated [OF tab] "1.prems"(2) by simp
    show ?thesis
    proof (cases m)
      case None
      have step: "replaces_loop tab n buf i j = replaces_loop tab n (buf[j := c]) (Suc i) (Suc j)"
        using None n(1) rdc c fe w(2)
        by (subst replaces_loop.simps) (auto simp: m_def split: if_splits)
      have dec: "html_decode tab s = c # html_decode tab r" using None Cons by (auto simp: m_def split: if_splits)
      have "\<exists>buf'. replaces_loop tab n (buf[j := c]) (Suc i) (Suc j) =
               Some (buf', Suc j + length (html_decode tab r)) \<and>
             length buf' = length (buf[j := c]) \<and>
             take (Suc j + length (html_decode tab r)) buf' =
               take (Suc j) (buf[j := c]) @ html_decode tab r \<and>
             drop n buf' = drop n (buf[j := c])"
        using "1.IH" [rule_format, of r "Suc i" "buf[j := c]" "Suc j"] w(1) r n(2) "1.prems"(5) Cons
          no_growth_drop [OF "1.prems"(1), of 1]
        by simp
      then show ?thesis
        using step dec w(3) n(1) "1.prems"(5) by simp
    next
      case (Some e)
      then have f: "find (\<lambda>e. is_prefix (entity e) s) tab = Some e" and amp: "c = CHR ''&''"
        by (simp_all add: m_def split: if_splits)
      note e = found_entity [OF tab f]
      have ue: "ulen e \<le> elen e" by (rule no_growth_found [OF tab "1.prems"(1) f])
      define buf2 where "buf2 = take j buf @ utf8 e @ replicate (elen e - ulen e) NUL @ drop (j + elen e) buf"
      have len: "j + elen e \<le> length buf"
        using "1.prems"(2,4,5) e(5) by (metis add_le_mono le_trans length_drop le_diff_conv2 length_append less_imp_le_nat i add.commute le_add1)
      have "fill buf j (elen e) NUL = Some (take j buf @ replicate (elen e) NUL @ drop (j + elen e) buf)"
        using len by (simp add: fill_def)
      moreover have "copy_in (take j buf @ replicate (elen e) NUL @ drop (j + elen e) buf) j (take (ulen e) (utf8 e)) = Some buf2"
        using len ue e(3) by (simp add: copy_in_def buf2_def)
      ultimately have step: "replaces_loop tab n buf i j = replaces_loop tab n buf2 (i + elen e) (j + ulen e)"
        using Some n(1) rdc c fe f amp NUL_def by (subst replaces_loop.simps) simp
      have l2: "length buf2 = length buf" using len ue e(3) by (simp add: buf2_def)
      have d2: "drop (i + elen e) buf2 = drop (elen e) s @ NUL # rest"
      proof -
        have "drop (i + elen e) buf2 = drop (i + elen e) buf"
          using len ue e(3) "1.prems"(5) by (simp add: buf2_def)
        also have "\<dots> = drop (elen e) (drop i buf)" by (simp add: add.commute)
        finally show ?thesis using "1.prems"(2) e(5) by simp
      qed
      have t2: "take (j + ulen e) buf2 = take j buf @ utf8 e"
        using len e(3) by (simp add: buf2_def)
      have dec: "html_decode tab s = utf8 e @ html_decode tab (drop (elen e) s)"
        using f amp Cons e(4) by (cases "elen e") auto
      have nn: "drop n buf2 = drop n buf"
        using len ue e(3,5) "1.prems"(4,5) by (simp add: buf2_def)
      have "\<exists>buf'. replaces_loop tab n buf2 (i + elen e) (j + ulen e) =
               Some (buf', j + ulen e + length (html_decode tab (drop (elen e) s))) \<and>
             length buf' = length buf2 \<and>
             take (j + ulen e + length (html_decode tab (drop (elen e) s))) buf' =
               take (j + ulen e) buf2 @ html_decode tab (drop (elen e) s) \<and>
             drop n buf' = drop n buf2"
        using "1.IH" [rule_format, of "drop (elen e) s" "i + elen e" buf2 "j + ulen e"] d2 ue
          no_growth_drop [OF "1.prems"(1), of "elen e"] "1.prems"(3,4,5) e(4,5) by (simp add: list_all_iff in_set_dropD)
      then show ?thesis using step dec l2 t2 nn e(3) by (simp add: add.assoc)
    qed
  qed
qed

section \<open>Safety and meaning of the whole function\<close>

text \<open>A value as the JSON layer builds it: \<open>value_len\<close> bytes without NUL and a terminator.\<close>

definition built_string :: "string \<Rightarrow> BXString" where
  "built_string s = \<lparr>bs_isset = True, bs_value = Ptr (s @ [NUL]), bs_len = length s\<rparr>"

lemma replaces_correct:
  assumes tab: "list_all ent_ok tab" "no_growth tab s"
    and s: "list_all (\<lambda>c. c \<noteq> NUL) s"
  shows "bx_html_entities_replaces tab (built_string s) =
     Some \<lparr>bs_isset = True,
           bs_value = Ptr (html_decode tab s @ replicate (length s - length (html_decode tab s)) NUL @ [NUL]),
           bs_len = length (html_decode tab s)\<rparr>"
proof (cases "s = []")
  case True
  then show ?thesis by (simp add: bx_html_entities_replaces_def built_string_def)
next
  case False
  let ?d = "html_decode tab s"
  have le: "length ?d \<le> length s" by (rule html_decode_length [OF tab])
  obtain buf where b: "replaces_loop tab (length s) (s @ [NUL]) 0 0 = Some (buf, length ?d)"
      "length buf = Suc (length s)" "take (length ?d) buf = ?d" "drop (length s) buf = [NUL]"
    using replaces_loop_spec [OF tab, of 0 "s @ [NUL]" "[]" "length s" 0] s by auto
  have "fill buf (length ?d) (length s - length ?d) NUL =
      Some (?d @ replicate (length s - length ?d) NUL @ [NUL])"
    using b le by (simp add: fill_def)
  with b False le show ?thesis
    by (simp add: bx_html_entities_replaces_def built_string_def)
qed

text \<open>
  An entity whose replacement is longer than itself writes over text that is still to be
  read, and the length of the final \<open>memset\<close> wraps.
\<close>

lemma replaces_overflow:
  assumes tab: "list_all ent_ok tab"
    and f: "find (\<lambda>e'. is_prefix (entity e') (entity e)) tab = Some e"
    and grow: "elen e < ulen e"
  shows "bx_html_entities_replaces tab (built_string (entity e)) = None"
proof -
  let ?s = "entity e"
  note e = found_entity [OF tab f]
  have ok: "ent_ok e" using e(1) tab by (auto simp: list_all_iff)
  then obtain r where r: "?s = CHR ''&'' # r" by (cases ?s) (auto simp: ent_ok_def)
  have fe: "find_entity tab (?s @ [NUL]) = Some (Some e)"
    using find_entity_terminated [OF tab, of ?s "[]"] f by simp
  have fl: "fill (?s @ [NUL]) 0 (elen e) NUL = Some (replicate (elen e) NUL @ [NUL])"
    using e(2) by (simp add: fill_def)
  have "replaces_loop tab (elen e) (?s @ [NUL]) 0 0 =
      (case copy_in (replicate (elen e) NUL @ [NUL]) 0 (utf8 e) of
         None \<Rightarrow> None | Some buf \<Rightarrow> replaces_loop tab (elen e) buf (elen e) (ulen e))"
    using r fe fl e(3,4)
    by (subst replaces_loop.simps) (auto simp: rd_def NUL_def split: option.splits)
  moreover have "replaces_loop tab (elen e) buf (elen e) (ulen e) = Some (buf, ulen e)" for buf
    by (subst replaces_loop.simps) simp
  ultimately show ?thesis
    using grow e(2,4) by (auto simp: bx_html_entities_replaces_def built_string_def split: option.splits)
qed

end
