(* ===== verification/Bx_Html_Properties.thy ===== *)
theory Bx_Html_Properties
  imports Bx_Html_Entities
begin

text \<open>
  What the entity decoder does with the table the program ships: two entries of the table
  are longer when decoded than when written, every text without them is decoded safely
  and as \<open>html_decode\<close> says, and each of the two alone makes the decoder leave its buffer.
\<close>

section \<open>The growing entries of the table\<close>

definition growing :: "s_BXHtmlEntities list \<Rightarrow> s_BXHtmlEntities list" where
  "growing tab = filter (\<lambda>e. elen e < ulen e) tab"

definition nLt :: s_BXHtmlEntities where
  "nLt = Ent ''&nLt;'' [CHR 0xE2, CHR 0x89, CHR 0xAA, CHR 0xE2, CHR 0x83, CHR 0x92] 5 6"

definition nGt :: s_BXHtmlEntities where
  "nGt = Ent ''&nGt;'' [CHR 0xE2, CHR 0x89, CHR 0xAB, CHR 0xE2, CHR 0x83, CHR 0x92] 5 6"

lemma growing_append: "growing (xs @ ys) = growing xs @ growing ys"
  by (simp add: growing_def)

lemma growing_1: "growing entities_1 = []"
  by code_simp

lemma growing_2: "growing entities_2 = []"
  by code_simp

lemma growing_3: "growing entities_3 = []"
  by code_simp

lemma growing_4: "growing entities_4 = []"
  by code_simp

lemma growing_5: "growing entities_5 = [nLt, nGt]"
  by code_simp

lemma growing_6: "growing entities_6 = []"
  by code_simp

lemma growing_7: "growing entities_7 = []"
  by code_simp

lemma growing_8: "growing entities_8 = []"
  by code_simp

lemma growing_9: "growing entities_9 = []"
  by code_simp

lemma growing_10: "growing entities_10 = []"
  by code_simp

lemma growing_11: "growing entities_11 = []"
  by code_simp

lemmas growing_slices =
  growing_1 growing_2 growing_3 growing_4 growing_5 growing_6 growing_7 growing_8 growing_9 growing_10 growing_11

lemma growing_table: "growing BXHTMLEntities = [nLt, nGt]"
  unfolding BXHTMLEntities_def growing_append growing_slices by simp

lemma find_append: "find P (xs @ ys) = (case find P xs of None \<Rightarrow> find P ys | Some x \<Rightarrow> Some x)"
  by (induction xs) auto

lemma nLt_not_in_1: "find (\<lambda>e. is_prefix (entity e) (entity nLt)) entities_1 = None"
  by code_simp

lemma nLt_not_in_2: "find (\<lambda>e. is_prefix (entity e) (entity nLt)) entities_2 = None"
  by code_simp

lemma nLt_not_in_3: "find (\<lambda>e. is_prefix (entity e) (entity nLt)) entities_3 = None"
  by code_simp

lemma nLt_not_in_4: "find (\<lambda>e. is_prefix (entity e) (entity nLt)) entities_4 = None"
  by code_simp

lemma nLt_in_5: "find (\<lambda>e. is_prefix (entity e) (entity nLt)) entities_5 = Some nLt"
  by code_simp

lemma nLt_found: "find (\<lambda>e. is_prefix (entity e) (entity nLt)) BXHTMLEntities = Some nLt"
  unfolding BXHTMLEntities_def find_append nLt_not_in_1 nLt_not_in_2 nLt_not_in_3 nLt_not_in_4 nLt_in_5 by simp

lemma nGt_not_in_1: "find (\<lambda>e. is_prefix (entity e) (entity nGt)) entities_1 = None"
  by code_simp

lemma nGt_not_in_2: "find (\<lambda>e. is_prefix (entity e) (entity nGt)) entities_2 = None"
  by code_simp

lemma nGt_not_in_3: "find (\<lambda>e. is_prefix (entity e) (entity nGt)) entities_3 = None"
  by code_simp

lemma nGt_not_in_4: "find (\<lambda>e. is_prefix (entity e) (entity nGt)) entities_4 = None"
  by code_simp

lemma nGt_in_5: "find (\<lambda>e. is_prefix (entity e) (entity nGt)) entities_5 = Some nGt"
  by code_simp

lemma nGt_found: "find (\<lambda>e. is_prefix (entity e) (entity nGt)) BXHTMLEntities = Some nGt"
  unfolding BXHTMLEntities_def find_append nGt_not_in_1 nGt_not_in_2 nGt_not_in_3 nGt_not_in_4 nGt_in_5 by simp

text \<open>A text occurs at no position of another.\<close>

definition absent :: "string \<Rightarrow> string \<Rightarrow> bool" where
  "absent p s \<longleftrightarrow> list_all (\<lambda>k. \<not> is_prefix p (drop k s)) [0..<length s]"

lemma no_growth_table:
  assumes "absent ''&nLt;'' s" and "absent ''&nGt;'' s"
  shows "no_growth BXHTMLEntities s"
proof -
  have "absent (entity e) s" if "e \<in> set BXHTMLEntities" "\<not> shrinking e" for e
  proof -
    have "e \<in> set (growing BXHTMLEntities)"
      using that by (simp add: growing_def shrinking_def)
    then show ?thesis using assms by (auto simp: growing_table nLt_def nGt_def)
  qed
  then show ?thesis by (auto simp: no_growth_def absent_def list_all_iff)
qed

section \<open>Properties\<close>

text \<open>
  C19: with the table the program ships, a text without NUL in which neither \<open>&nLt;\<close> nor
  \<open>&nGt;\<close> occurs is decoded in place without leaving its buffer; the result is the decoded
  text followed by zeros, its length is the length of the decoded text, and it never grows.
\<close>

theorem html_replaces_correct:
  assumes "absent ''&nLt;'' s" and "absent ''&nGt;'' s" and "list_all (\<lambda>c. c \<noteq> NUL) s"
  shows "bx_html_entities_replaces BXHTMLEntities (built_string s) =
     Some \<lparr>bs_isset = True,
           bs_value = Ptr (html_decode BXHTMLEntities s @
             replicate (length s - length (html_decode BXHTMLEntities s)) NUL @ [NUL]),
           bs_len = length (html_decode BXHTMLEntities s)\<rparr> \<and>
     length (html_decode BXHTMLEntities s) \<le> length s"
  using replaces_correct [OF BXHTMLEntities_ok no_growth_table [OF assms(1,2)] assms(3)]
    html_decode_length [OF BXHTMLEntities_ok no_growth_table [OF assms(1,2)]]
  by simp

theorem html_replaces_correct_witness:
  "length (html_decode BXHTMLEntities ''a&lt;b'') \<le> length ''a&lt;b''"
  using html_replaces_correct [of "''a&lt;b''"]
  by (simp add: absent_def is_prefix_def NUL_def upt_rec)

text \<open>
  A string that is one of the two growing entities of the table makes the decoder
  leave its buffer: six bytes are written where five were read, and the length of the last
  \<open>memset\<close>, five minus six as an unsigned number, wraps.
\<close>

theorem html_replaces_overflow:
  "list_all (\<lambda>e. bx_html_entities_replaces BXHTMLEntities (built_string (entity e)) = None)
     (growing BXHTMLEntities) \<and> growing BXHTMLEntities = [nLt, nGt]"
proof -
  have "elen nLt < ulen nLt" "elen nGt < ulen nGt" by (simp_all add: nLt_def nGt_def)
  then show ?thesis
    using replaces_overflow [OF BXHTMLEntities_ok nLt_found] replaces_overflow [OF BXHTMLEntities_ok nGt_found]
    by (simp add: growing_table)
qed

end
