(* ===== verification/Bx_Object.thy ===== *)
theory Bx_Object
  imports Bx_Html_Entities
begin

unbundle bit_operations_syntax

text \<open>
  Reading typed values out of a JSON object, \<open>src/src/bx_object.c\<close>. A JSON value is a
  tree as jansson documents it; \<open>json_object_get\<close> is NULL for a missing key and for a
  value that is not an object. The XXH3 state that a decoder feeds is the list of bytes
  fed so far (a streaming hash is a function of these), NULL when the caller passes no
  state. The decimal conversions of a double (\<open>strtod\<close> and \<open>printf\<close> with \<open>%e\<close>) are the
  argument \<open>lc\<close>.
\<close>

section \<open>JSON values and the hash state\<close>

datatype json =
    JNull | JTrue | JFalse | JInt int | JReal u64 | JString string
  | JArray "json list" | JObject "(string \<times> json) list"

fun json_object_get :: "json \<Rightarrow> string \<Rightarrow> json ptr" where
  "json_object_get (JObject kvs) k = (case map_of kvs k of None \<Rightarrow> NULL | Some v \<Rightarrow> Ptr v)"
| "json_object_get _ k = NULL"

type_synonym hstate = "u8 list ptr"

fun hash_update :: "hstate \<Rightarrow> u8 list \<Rightarrow> hstate" where
  "hash_update NULL bs = NULL"
| "hash_update (Ptr st) bs = Ptr (st @ bs)"

record libc_double =
  lc_strtod :: "string \<Rightarrow> u64"
  lc_fmt_e :: "u64 \<Rightarrow> string"

text \<open>A missing key and a JSON null read the same.\<close>

definition json_field :: "json \<Rightarrow> string \<Rightarrow> json option" where
  "json_field obj k =
     (case json_object_get obj k of NULL \<Rightarrow> None | Ptr v \<Rightarrow> if v = JNull then None else Some v)"

section \<open>Typed reads\<close>

definition bx_object_get_json_bool :: "json \<Rightarrow> string \<Rightarrow> hstate \<Rightarrow> BXBool \<times> hstate" where
  "bx_object_get_json_bool obj k st =
     (case json_field obj k of
        None \<Rightarrow> (\<lparr>bb_isset = False, bb_value = False\<rparr>, st)
      | Some v \<Rightarrow>
          (let b = (case v of
                      JString s \<Rightarrow> strcaseeq ''true'' s \<or> strcaseeq ''yes'' s \<or> strcaseeq ''on'' s
                    | JTrue \<Rightarrow> True
                    | JInt i \<Rightarrow> i \<noteq> 0
                    | _ \<Rightarrow> False)
           in (\<lparr>bb_isset = True, bb_value = b\<rparr>, hash_update st [if b then 0xFF else 0])))"

definition bx_object_get_json_int :: "json \<Rightarrow> string \<Rightarrow> hstate \<Rightarrow> BXInteger \<times> hstate" where
  "bx_object_get_json_int obj k st =
     (case json_field obj k of
        None \<Rightarrow> (\<lparr>bi_isset = False, bi_value = 0\<rparr>, st)
      | Some v \<Rightarrow>
          (let i = (case v of JString s \<Rightarrow> strtol_value s | JInt i \<Rightarrow> i | _ \<Rightarrow> 0)
           in (\<lparr>bi_isset = True, bi_value = i\<rparr>, hash_update st (le_bytes 8 (word_of_int i :: u64)))))"

definition bx_object_get_json_uint :: "json \<Rightarrow> string \<Rightarrow> hstate \<Rightarrow> BXUInteger \<times> hstate" where
  "bx_object_get_json_uint obj k st =
     (case json_field obj k of
        None \<Rightarrow> (\<lparr>bu_isset = False, bu_value = 0\<rparr>, st)
      | Some v \<Rightarrow>
          (let i = (case v of
                      JString s \<Rightarrow> word_of_int (strtol_value s)
                    | JInt i \<Rightarrow> word_of_int i
                    | JTrue \<Rightarrow> 1
                    | _ \<Rightarrow> 0)
           in (\<lparr>bu_isset = True, bu_value = i\<rparr>, hash_update st (le_bytes 8 i))))"

definition bx_object_get_json_double ::
    "libc_double \<Rightarrow> json \<Rightarrow> string \<Rightarrow> hstate \<Rightarrow> BXFloat \<times> hstate" where
  "bx_object_get_json_double lc obj k st =
     (case json_field obj k of
        None \<Rightarrow> (\<lparr>bf_isset = False, bf_value = 0\<rparr>, st)
      | Some v \<Rightarrow>
          (let d = (case v of JString s \<Rightarrow> lc_strtod lc s | JReal r \<Rightarrow> r | _ \<Rightarrow> 0)
           in (\<lparr>bf_isset = True, bf_value = d\<rparr>, hash_update st (le_bytes 8 d))))"

text \<open>
  A real number is printed with one byte less than it needs: the length is the length of
  the text minus one, and \<open>snprintf\<close> keeps one byte of the block for the terminator.
\<close>

definition bx_object_get_json_string ::
    "libc_double \<Rightarrow> s_BXHtmlEntities list \<Rightarrow> json \<Rightarrow> string \<Rightarrow> hstate \<Rightarrow> (BXString \<times> hstate) option" where
  "bx_object_get_json_string lc tab obj k st =
     (let text = (case json_field obj k of
                    None \<Rightarrow> None
                  | Some v \<Rightarrow>
                      (case v of
                         JString s \<Rightarrow> Some s
                       | JInt i \<Rightarrow> Some (dec_int i)
                       | JReal r \<Rightarrow> Some (butlast (lc_fmt_e lc r))
                       | _ \<Rightarrow> None))
      in case text of
           None \<Rightarrow> Some (\<lparr>bs_isset = False, bs_value = NULL, bs_len = 0\<rparr>, st)
         | Some s \<Rightarrow> do {
             str \<leftarrow> bx_html_entities_replaces tab (built_string s);
             bytes \<leftarrow> read_buf (bs_value str) (bs_len str);
             Some (str, hash_update st (map byte_of bytes))
           })"

section \<open>UUIDs\<close>

definition segment_lengths :: "nat list" where
  "segment_lengths = [8, 4, 4, 4, 12]"

definition is_hex_lower :: "char \<Rightarrow> bool" where
  "is_hex_lower c \<longleftrightarrow> is_digit c \<or> 97 \<le> (of_char c :: nat) \<and> (of_char c :: nat) \<le> 102"

definition nibble_of :: "char \<Rightarrow> u8" where
  "nibble_of c = (if is_digit c then of_nat (of_char c - 48) else of_nat (of_char c - 97 + 10))"

text \<open>\<open>None\<close>: a byte outside the 16 is touched. \<open>Some NULL\<close>: the text is rejected.\<close>

fun uuid_loop :: "string \<Rightarrow> nat \<Rightarrow> nat \<Rightarrow> nat \<Rightarrow> u8 list \<Rightarrow> (nat \<times> nat \<times> nat \<times> u8 list) ptr option" where
  "uuid_loop [] segment pos hex_count bytes = Some (Ptr (segment, pos, hex_count, bytes))"
| "uuid_loop (ch # s) segment pos hex_count bytes =
     (if segment < 5 \<and> pos = segment_lengths ! segment then
        (if ch \<noteq> CHR ''-'' then Some NULL else uuid_loop s (segment + 1) 0 hex_count bytes)
      else
        (let c = to_lower ch in
         if \<not> is_hex_lower c then Some NULL
         else do {
           b \<leftarrow> rd bytes (hex_count div 2);
           bytes' \<leftarrow> wr bytes (hex_count div 2)
                       (b OR push_bit ((1 - hex_count mod 2) * 4) (nibble_of c));
           uuid_loop s segment (pos + 1) (hex_count + 1) bytes'
         }))"

definition be_u64 :: "u8 list \<Rightarrow> u64" where
  "be_u64 bs = foldl (\<lambda>v b. push_bit 8 v OR ucast b) 0 bs"

definition bx_object_get_json_uuid :: "json \<Rightarrow> string \<Rightarrow> hstate \<Rightarrow> (BXUuid \<times> hstate) option" where
  "bx_object_get_json_uuid obj k st =
     (let unset = \<lparr>bq_isset = False, bq_value = (0, 0)\<rparr> in
      case json_field obj k of
        Some (JString s) \<Rightarrow>
          if length s \<noteq> 36 then Some (unset, st)
          else do {
            r \<leftarrow> uuid_loop s 0 0 0 (replicate 16 0);
            (case r of
               NULL \<Rightarrow> Some (unset, st)
             | Ptr (segment, pos, hex_count, bytes) \<Rightarrow>
                 if hex_count \<noteq> 32 \<or> segment \<noteq> 4 \<or> pos \<noteq> 12 then Some (unset, st)
                 else
                   (let hi = be_u64 (take 8 bytes); lo = be_u64 (take 8 (drop 8 bytes))
                    in Some (\<lparr>bq_isset = True, bq_value = (hi, lo)\<rparr>,
                             hash_update st (le_bytes 8 hi @ le_bytes 8 lo))))
          }
      | _ \<Rightarrow> Some (unset, st))"

section \<open>Release\<close>

text \<open>
  \<open>bx_object_free_value\<close> clears the flag of the caller's value. The buffer of a string or
  of bytes is freed through a copy of the structure: the caller's pointer and length stay.
\<close>

fun bx_object_free_value :: "BXAny ptr \<Rightarrow> BXAny ptr" where
  "bx_object_free_value NULL = NULL"
| "bx_object_free_value (Ptr (AString v)) = Ptr (AString (v\<lparr>bs_isset := False\<rparr>))"
| "bx_object_free_value (Ptr (ABytes v)) = Ptr (ABytes (v\<lparr>by_isset := False\<rparr>))"
| "bx_object_free_value (Ptr (AInteger v)) = Ptr (AInteger (v\<lparr>bi_isset := False\<rparr>))"
| "bx_object_free_value (Ptr (AUInteger v)) = Ptr (AUInteger (v\<lparr>bu_isset := False\<rparr>))"
| "bx_object_free_value (Ptr (AFloat v)) = Ptr (AFloat (v\<lparr>bf_isset := False\<rparr>))"
| "bx_object_free_value (Ptr (ABool v)) = Ptr (ABool (v\<lparr>bb_isset := False\<rparr>))"
| "bx_object_free_value (Ptr (AUuid v)) = Ptr (AUuid (v\<lparr>bq_isset := False, bq_value := (0, 0)\<rparr>))"
| "bx_object_free_value (Ptr (Other t)) = Ptr (Other t)"

section \<open>Facts\<close>

text \<open>
  The UUID reader keeps \<open>hex_count\<close> in step with its place in the text, so no text of 36
  characters makes it leave its 16 bytes.
\<close>

definition seg_start :: "nat \<Rightarrow> nat" where
  "seg_start segment = sum_list (take segment segment_lengths)"

lemma segment_cases:
  assumes "segment < (5::nat)"
  obtains "segment = 0" | "segment = 1" | "segment = 2" | "segment = 3" | "segment = 4"
  using assms by linarith

lemma seg_start_step:
  assumes "segment < 4"
  shows "seg_start (segment + 1) = seg_start segment + segment_lengths ! segment"
proof -
  have "segment < 5" using assms by simp
  then show ?thesis
    using assms by (elim segment_cases) (simp_all add: seg_start_def segment_lengths_def)
qed

lemma seg_start_last: "segment < 5 \<Longrightarrow> seg_start segment + segment_lengths ! segment \<le> 32"
  by (erule segment_cases) (simp_all add: seg_start_def segment_lengths_def)

lemma seg_full_4: "seg_start 4 + segment_lengths ! 4 = 32"
  by (simp add: seg_start_def segment_lengths_def)

lemma uuid_loop_safe:
  assumes "length bytes = 16" and "segment < 5"
    and "hex_count = seg_start segment + pos" and "pos \<le> segment_lengths ! segment"
    and "length s + hex_count + segment \<le> 36"
  shows "uuid_loop s segment pos hex_count bytes \<noteq> None"
  using assms
proof (induction s segment pos hex_count bytes rule: uuid_loop.induct)
  case (2 ch s segment pos hex_count bytes)
  show ?case
  proof (cases "pos = segment_lengths ! segment")
    case True
    have "segment \<noteq> 4"
    proof
      assume "segment = 4"
      then show False using 2(7) 2(5) True seg_full_4 by simp
    qed
    then have "segment < 4" using 2(4) by simp
    then show ?thesis
      using 2(1) 2(3-7) True seg_start_step[of segment] by simp
  next
    case False
    then have "hex_count div 2 < 16"
      using 2(4-6) seg_start_last[of segment] by linarith
    then show ?thesis
      using 2(2) 2(3-7) False by (auto simp: rd_def wr_def Let_def)
  qed
qed simp

text \<open>The text form of a UUID: two lower-case hexadecimal digits a byte, in groups 4-2-2-2-6.\<close>

definition hex_byte :: "u8 \<Rightarrow> string" where
  "hex_byte b = [hex_digit (unat b div 16), hex_digit (unat b mod 16)]"

definition uuid_text :: "u8 list \<Rightarrow> string" where
  "uuid_text bs =
     concat (map hex_byte (take 4 bs)) @ ''-'' @
     concat (map hex_byte (take 2 (drop 4 bs))) @ ''-'' @
     concat (map hex_byte (take 2 (drop 6 bs))) @ ''-'' @
     concat (map hex_byte (take 2 (drop 8 bs))) @ ''-'' @
     concat (map hex_byte (take 6 (drop 10 bs)))"

lemma hex_digit_reads:
  assumes "n < 16"
  shows "to_lower (hex_digit n) = hex_digit n \<and> is_hex_lower (hex_digit n)
         \<and> nibble_of (hex_digit n) = of_nat n"
  using assms
  by (auto simp: hex_digit_def to_lower_def is_hex_lower_def nibble_of_def is_digit_def
      of_char_char_of_less simp flip: of_nat_add)

lemma nibbles_join: "push_bit 4 (of_nat (unat b div 16)) OR of_nat (unat b mod 16) = (b :: u8)"
proof -
  have "of_nat (unat b div 16) = drop_bit 4 b"
    by (simp add: drop_bit_eq_div word_arith_nat_div)
  moreover have "of_nat (unat b mod 16) = take_bit 4 b"
    by (simp add: take_bit_eq_mod word_arith_nat_mod)
  ultimately show ?thesis
    by (auto intro!: bit_eqI simp: bit_simps)
qed

lemma uuid_loop_byte:
  assumes "segment < 5" and "pos + 1 < segment_lengths ! segment"
    and "hex_count = 2 * k" and "k < length bytes" and "bytes ! k = 0"
  shows "uuid_loop (hex_byte b @ s) segment pos hex_count bytes
         = uuid_loop s segment (pos + 2) (hex_count + 2) (bytes[k := b])"
proof -
  have "unat b < 256" using unsigned_less[of b] by simp
  then have "unat b div 16 < 16" by (simp add: less_mult_imp_div_less)
  moreover have "unat b mod 16 < 16" by simp
  ultimately show ?thesis
    using assms hex_digit_reads[of "unat b div 16"] hex_digit_reads[of "unat b mod 16"]
      nibbles_join[of b]
    by (simp add: hex_byte_def rd_def wr_def Let_def)
qed

lemma uuid_loop_hyphen:
  assumes "segment < 5" and "pos = segment_lengths ! segment"
  shows "uuid_loop (CHR ''-'' # s) segment pos hex_count bytes
         = uuid_loop s (segment + 1) 0 hex_count bytes"
  using assms by simp

lemma uuid_loop_bytes:
  assumes "segment < 5" and "pos + 2 * length bs \<le> segment_lengths ! segment"
    and "k + length bs \<le> length bytes" and "\<forall>i<length bytes. k \<le> i \<longrightarrow> bytes ! i = 0"
  shows "uuid_loop (concat (map hex_byte bs) @ s) segment pos (2 * k) bytes
         = uuid_loop s segment (pos + 2 * length bs) (2 * (k + length bs))
             (take k bytes @ bs @ drop (k + length bs) bytes)"
  using assms
proof (induction bs arbitrary: pos k bytes)
  case (Cons b bs)
  have "uuid_loop (hex_byte b @ concat (map hex_byte bs) @ s) segment pos (2 * k) bytes
        = uuid_loop (concat (map hex_byte bs) @ s) segment (pos + 2) (2 * (k + 1)) (bytes[k := b])"
    using Cons.prems by (subst uuid_loop_byte[where k = k]) auto
  also have "\<dots> = uuid_loop s segment (pos + 2 + 2 * length bs) (2 * (k + 1 + length bs))
             (take (k + 1) (bytes[k := b]) @ bs @ drop (k + 1 + length bs) (bytes[k := b]))"
    using Cons.prems by (intro Cons.IH) auto
  also have "take (k + 1) (bytes[k := b]) = take k bytes @ [b]"
    using Cons.prems by (simp add: take_Suc_conv_app_nth)
  finally show ?case by (simp add: ac_simps)
qed simp

lemma uuid_loop_segment:
  assumes "segment < 5" and "2 * length bs = segment_lengths ! segment" and "length bs \<le> n"
  shows "uuid_loop (concat (map hex_byte bs) @ s) segment 0 (2 * length pre) (pre @ replicate n 0)
         = uuid_loop s segment (segment_lengths ! segment) (2 * length (pre @ bs))
             ((pre @ bs) @ replicate (n - length bs) 0)"
  using uuid_loop_bytes[of segment 0 bs "length pre" "pre @ replicate n 0" s] assms
  by (auto simp: nth_append)

lemma uuid_loop_segment_hyphen:
  assumes "segment < 5" and "2 * length bs = segment_lengths ! segment" and "length bs \<le> n"
  shows "uuid_loop (concat (map hex_byte bs) @ ''-'' @ s) segment 0 (2 * length pre)
           (pre @ replicate n 0)
         = uuid_loop s (segment + 1) 0 (2 * length (pre @ bs))
             ((pre @ bs) @ replicate (n - length bs) 0)"
  using assms uuid_loop_segment[OF assms] by simp

lemma uuid_loop_groups:
  assumes "length p1 = 4" "length p2 = 2" "length p3 = 2" "length p4 = 2" "length p5 = 6"
  shows "uuid_loop (concat (map hex_byte p1) @ ''-'' @ concat (map hex_byte p2) @ ''-'' @
            concat (map hex_byte p3) @ ''-'' @ concat (map hex_byte p4) @ ''-'' @
            concat (map hex_byte p5)) 0 0 0 (replicate 16 0)
         = Some (Ptr (4, 12, 32, p1 @ p2 @ p3 @ p4 @ p5))"
proof -
  note sl [simp] = segment_lengths_def and l [simp] = assms
  show ?thesis
    using uuid_loop_segment_hyphen[of 0 p1 16 _ "[]"] uuid_loop_segment_hyphen[of 1 p2 12 _ p1]
      uuid_loop_segment_hyphen[of 2 p3 10 _ "p1 @ p2"]
      uuid_loop_segment_hyphen[of 3 p4 8 _ "p1 @ p2 @ p3"]
      uuid_loop_segment[of 4 p5 6 "[]" "p1 @ p2 @ p3 @ p4"]
    by (simp add: Suc_1 del: uuid_loop.simps(2) append_Cons One_nat_def)
qed

lemma uuid_loop_text:
  assumes "length bs = 16"
  shows "uuid_loop (uuid_text bs) 0 0 0 (replicate 16 0) = Some (Ptr (4, 12, 32, bs))"
proof -
  have "take 4 bs @ take 2 (drop 4 bs) @ take 2 (drop 6 bs) @ take 2 (drop 8 bs)
          @ take 6 (drop 10 bs) = take (4 + (2 + (2 + (2 + 6)))) bs"
    unfolding take_add by (simp add: add.commute)
  then show ?thesis
    using assms uuid_loop_groups[of "take 4 bs" "take 2 (drop 4 bs)" "take 2 (drop 6 bs)"
        "take 2 (drop 8 bs)" "take 6 (drop 10 bs)"]
    by (simp add: uuid_text_def del: uuid_loop.simps)
qed

lemma uuid_text_length: "length bs = 16 \<Longrightarrow> length (uuid_text bs) = 36"
  by (simp add: uuid_text_def hex_byte_def comp_def length_concat sum_list_triv)

lemma uuid_defined: "bx_object_get_json_uuid obj k st \<noteq> None"
proof -
  have "uuid_loop s 0 0 0 (replicate 16 0) \<noteq> None" if "length s = 36" for s
    using that by (intro uuid_loop_safe) (simp_all add: seg_start_def segment_lengths_def)
  then show ?thesis
    by (fastforce simp: bx_object_get_json_uuid_def Let_def
        split: json.splits option.splits ptr.splits bind_splits)
qed

text \<open>The 16 bytes of a UUID value, most significant first.\<close>

definition uuid_bytes :: "u64 \<times> u64 \<Rightarrow> u8 list" where
  "uuid_bytes v = rev (le_bytes 8 (fst v)) @ rev (le_bytes 8 (snd v))"

lemma be_u64_snoc: "be_u64 (bs @ [b]) = push_bit 8 (be_u64 bs) OR ucast b"
  by (simp add: be_u64_def)

lemma be_u64_rev_le: "8 * n \<le> 64 \<Longrightarrow> be_u64 (rev (le_bytes n v)) = take_bit (8 * n) v"
proof (induction n arbitrary: v)
  case 0
  then show ?case by (simp add: be_u64_def le_bytes_0)
next
  case (Suc n)
  have "be_u64 (rev (le_bytes (Suc n) v))
        = push_bit 8 (take_bit (8 * n) (drop_bit 8 v)) OR ucast (ucast v :: u8)"
    using Suc by (simp add: be_u64_snoc le_bytes_Suc)
  also have "\<dots> = take_bit (8 * Suc n) v"
    by (rule bit_eqI) (auto simp: bit_simps)
  finally show ?case .
qed

lemma uuid_bytes_length: "length (uuid_bytes v) = 16"
  by (simp add: uuid_bytes_def)

end
