(* ===== verification/Bx_Object_Properties.thy ===== *)
theory Bx_Object_Properties
  imports Bx_Object Bx_Html_Properties
begin

text \<open>
  Properties of values and of the typed reads of a JSON object: the comparison is total and
  antisymmetric, a copy is indistinguishable from its source, a UUID and an integer read
  back from their text are the ones printed, and a decoded string is what is hashed.
\<close>

section \<open>Copies\<close>

lemma read_buf_extend:
  "read_buf p n = Some xs \<Longrightarrow> read_buf (Ptr (xs @ ys)) n = Some xs"
  by (cases p) (auto simp: read_buf_def split: if_splits)

lemma copy_buf_reads:
  assumes "buf_ok p n"
  shows "\<exists>q. copy_buf p n = Some q \<and> read_buf q n = read_buf p n \<and> buf_ok q n"
  using read_buf_ok [OF assms] read_buf_extend by (fastforce simp: copy_buf_def)

lemma copy_str_reads:
  assumes "buf_ok p n"
  shows "\<exists>q. copy_str p n = Some q \<and> read_buf q n = read_buf p n \<and> buf_ok q n"
  using read_buf_ok [OF assms] read_buf_extend by (fastforce simp: copy_str_def)

lemma strcmp_self: "strcmp s s = 0"
  by (rule strcmp_refl)

lemma bytes_cmp_self: "bytes_cmp s s = 0"
  by (simp add: bytes_cmp_eq_0_iff)

lemma cmp3_self: "(\<And>x. \<not> lt x x) \<Longrightarrow> cmp3 lt a a = 0"
  by (simp add: cmp3_def)

lemma f64_less_irrefl: "\<not> f64_less a a"
  by (simp add: f64_less_def)

text \<open>Two values no reader of the code can tell apart.\<close>

definition same_reads :: "(u8 list \<Rightarrow> u64) \<Rightarrow> BXAny \<Rightarrow> BXAny \<Rightarrow> bool" where
  "same_reads xxh a b \<longleftrightarrow>
     bx_object_value_compare a b = Some 0 \<and>
     bx_object_value_to_string a = bx_object_value_to_string b \<and>
     bx_object_value_to_index xxh a = bx_object_value_to_index xxh b"

lemma same_reads_scalar:
  assumes "\<And>v. a \<noteq> AString v" and "\<And>v. a \<noteq> ABytes v"
  shows "same_reads xxh a a"
  using assms
  by (cases a) (auto simp: same_reads_def bx_object_value_compare_def cmp3_def f64_less_irrefl)

lemma copy_same_reads:
  assumes "value_ok a" and "\<And>t. a \<noteq> Other t"
  shows "\<exists>b. bx_object_value_copy dest a = Some (True, b) \<and> value_ok b \<and> same_reads xxh a b"
proof (cases a)
  case (AString v)
  then obtain q where q: "copy_str (bs_value v) (bs_len v) = Some q"
      "read_buf q (bs_len v) = read_buf (bs_value v) (bs_len v)" "buf_ok q (bs_len v)"
    using assms copy_str_reads by fastforce
  obtain s where "read_buf (bs_value v) (bs_len v) = Some s"
    using AString assms read_buf_ok by fastforce
  with q AString show ?thesis
    by (simp add: same_reads_def bx_object_value_compare_def str2str_def strcmp_self)
next
  case (ABytes v)
  then obtain q where q: "copy_buf (by_value v) (by_len v) = Some q"
      "read_buf q (by_len v) = read_buf (by_value v) (by_len v)" "buf_ok q (by_len v)"
    using assms copy_buf_reads by fastforce
  obtain s where "read_buf (by_value v) (by_len v) = Some s"
    using ABytes assms read_buf_ok by fastforce
  with q ABytes show ?thesis
    by (simp add: same_reads_def bx_object_value_compare_def bytes2str_def bytes_cmp_self)
qed (use assms same_reads_scalar in auto)

section \<open>Properties\<close>

text \<open>
  The comparison of two well-formed values reads inside their buffers, always has a
  result, and is antisymmetric, across types as well as within one.
\<close>

theorem compare_antisymmetric:
  assumes "value_ok a" and "value_ok b"
  shows "\<exists>r. bx_object_value_compare a b = Some r \<and> bx_object_value_compare b a = Some (- r)"
  using compare_same_type [of a b] compare_other_type [of a b] assms by blast

theorem compare_antisymmetric_witness:
  "\<exists>r. bx_object_value_compare (AString \<lparr>bs_isset = True, bs_value = Ptr ''abc'', bs_len = 3\<rparr>)
         (AInteger \<lparr>bi_isset = True, bi_value = - 7\<rparr>) = Some r \<and>
       bx_object_value_compare (AInteger \<lparr>bi_isset = True, bi_value = - 7\<rparr>)
         (AString \<lparr>bs_isset = True, bs_value = Ptr ''abc'', bs_len = 3\<rparr>) = Some (- r)"
  by (rule compare_antisymmetric) simp_all

text \<open>
  Copying a well-formed value of a known type succeeds whatever the destination held,
  and the copy is well-formed, compares equal to the source, prints the same and has the
  same index.
\<close>

theorem copy_faithful:
  assumes "value_ok a" and "\<And>t. a \<noteq> Other t"
  shows "\<exists>b. bx_object_value_copy dest a = Some (True, b) \<and> value_ok b \<and>
           bx_object_value_compare a b = Some 0 \<and>
           bx_object_value_to_string a = bx_object_value_to_string b \<and>
           bx_object_value_to_index xxh a = bx_object_value_to_index xxh b"
  using copy_same_reads [OF assms] by (simp add: same_reads_def)

theorem copy_faithful_witness:
  "\<exists>b. bx_object_value_copy (Other 0) (AString \<lparr>bs_isset = True, bs_value = Ptr ''hi'', bs_len = 2\<rparr>)
         = Some (True, b) \<and> bx_object_value_to_string b = Some (Ptr ''hi'')"
  using copy_faithful [of "AString \<lparr>bs_isset = True, bs_value = Ptr ''hi'', bs_len = 2\<rparr>" "Other 0" "\<lambda>_. 0"]
  by (auto simp: str2str_def read_buf_def cstr_def NUL_def)

text \<open>
  C27: a UUID printed in its text form (8-4-4-4-12 hexadecimal digits) and read from a JSON
  object is the same 128-bit value, set, and its 16 bytes are what the checksum is fed.
\<close>

theorem json_uuid_round_trip:
  assumes "json_object_get obj k = Ptr (JString (uuid_text (uuid_bytes v)))"
  shows "bx_object_get_json_uuid obj k st =
     Some (\<lparr>bq_isset = True, bq_value = v\<rparr>, hash_update st (le_bytes 8 (fst v) @ le_bytes 8 (snd v)))"
proof -
  have "take 8 (uuid_bytes v) = rev (le_bytes 8 (fst v))"
    "take 8 (drop 8 (uuid_bytes v)) = rev (le_bytes 8 (snd v))"
    by (simp_all add: uuid_bytes_def)
  moreover have "be_u64 (rev (le_bytes 8 w)) = w" for w
    using be_u64_rev_le [of 8 w] by (simp add: take_bit_word_eq_self)
  ultimately show ?thesis
    using assms uuid_loop_text [OF uuid_bytes_length, of v] uuid_text_length [OF uuid_bytes_length, of v]
    by (simp add: bx_object_get_json_uuid_def json_field_def Let_def)
qed

theorem json_uuid_round_trip_witness:
  "bx_object_get_json_uuid (JObject [(''id'', JString (uuid_text (uuid_bytes (1, 2))))]) ''id'' NULL
     = Some (\<lparr>bq_isset = True, bq_value = (1, 2)\<rparr>, NULL)"
  using json_uuid_round_trip
    [of "JObject [(''id'', JString (uuid_text (uuid_bytes (1, 2))))]" "''id''" "(1, 2)" NULL]
  by simp

text \<open>Whatever the JSON holds, the UUID reader stays inside its 16 bytes and returns.\<close>

theorem json_uuid_safe: "\<exists>r. bx_object_get_json_uuid obj k st = Some r"
  using uuid_defined by blast

text \<open>
  An integer of the API is read the same, value and checksum bytes, whether the JSON
  holds it as a number or as its decimal text; a text outside 64 bits saturates.
\<close>

theorem json_int_text_agrees:
  assumes "json_object_get obj k = Ptr (JInt i)" and "json_object_get obj' k' = Ptr (JString (dec_int i))"
    and "LONG_MIN \<le> i" and "i \<le> LONG_MAX"
  shows "bx_object_get_json_int obj k st = bx_object_get_json_int obj' k' st \<and>
         bi_value (fst (bx_object_get_json_int obj k st)) = i \<and>
         bx_object_get_json_uint obj k st = bx_object_get_json_uint obj' k' st"
  using assms
  by (simp add: bx_object_get_json_int_def bx_object_get_json_uint_def json_field_def
      strtol_value_dec_int saturate_id Let_def)

theorem json_int_text_agrees_witness:
  "bx_object_get_json_int (JObject [(''n'', JInt (- 42))]) ''n'' (Ptr [])
   = bx_object_get_json_int (JObject [(''n'', JString (dec_int (- 42)))]) ''n'' (Ptr [])"
  using json_int_text_agrees [of "JObject [(''n'', JInt (- 42))]" "''n''" "- 42"
      "JObject [(''n'', JString (dec_int (- 42)))]" "''n''" "Ptr []"]
  by (simp add: LONG_MIN_def LONG_MAX_def)

text \<open>
  C28: a JSON string without NUL in which neither \<open>&nLt;\<close> nor \<open>&nGt;\<close> occurs is read as its entity-decoded
  text, and the checksum is fed with the decoded bytes, none more: two spellings of a text give the
  same checksum.
\<close>

theorem json_string_decoded:
  assumes "json_object_get obj k = Ptr (JString s)"
    and "absent ''&nLt;'' s" and "absent ''&nGt;'' s" and "list_all (\<lambda>c. c \<noteq> NUL) s"
  shows "\<exists>str. bx_object_get_json_string lc BXHTMLEntities obj k st =
           Some (str, hash_update st (map byte_of (html_decode BXHTMLEntities s))) \<and>
         bs_isset str \<and> read_buf (bs_value str) (bs_len str) = Some (html_decode BXHTMLEntities s)"
  using assms(1) replaces_correct [OF BXHTMLEntities_ok no_growth_table [OF assms(2,3)] assms(4)]
  by (simp add: bx_object_get_json_string_def json_field_def read_buf_def)

theorem json_string_decoded_witness:
  "\<exists>str. bx_object_get_json_string \<lparr>lc_strtod = \<lambda>_. 0, lc_fmt_e = \<lambda>_. []\<rparr> BXHTMLEntities
       (JObject [(''name'', JString ''Muller'')]) ''name'' NULL = Some (str, NULL) \<and> bs_isset str"
  using json_string_decoded [of "JObject [(''name'', JString ''Muller'')]" "''name''" "''Muller''"
      "\<lparr>lc_strtod = \<lambda>_. 0, lc_fmt_e = \<lambda>_. []\<rparr>" NULL]
  by (auto simp: absent_def is_prefix_def NUL_def upt_rec)

end
