(* ===== verification/Bx_Utils.thy ===== *)
theory Bx_Utils
  imports Bx_Object
begin

text \<open>
  The helpers of \<open>src/src/bx_utils.c\<close>: the list of numbers in a text, the path of a request
  built from a format, a request and its answer, the log queue, and the mark of a walker's
  cycle. A buffer is the list of its allocated cells and every access is checked, as in
  the cache. The round trip of a request through the worker's queue and the JSON parser
  are arguments of the operations that use them.
\<close>

section \<open>Numbers in a text\<close>

text \<open>
  \<open>strtoll\<close> on a buffer of digits reads up to a byte that is not a digit; \<open>None\<close> when the
  buffer has none.
\<close>

definition strtoll_buf :: "char list \<Rightarrow> int option" where
  "strtoll_buf buf = (if NUL \<in> set buf then Some (strtol_value (cstr buf)) else None)"

definition realloc_ints :: "int list \<Rightarrow> nat \<Rightarrow> int list" where
  "realloc_ints xs n = take n xs @ replicate (n - length xs) 0"

definition buffer_into_array :: "int list ptr \<Rightarrow> char list \<Rightarrow> int list ptr option" where
  "buffer_into_array array buf = do {
     n \<leftarrow> strtoll_buf buf;
     tmp \<leftarrow> (case array of
               NULL \<Rightarrow> Some [0, 0]
             | Ptr a \<Rightarrow> do { k \<leftarrow> rd a 0; Some (realloc_ints a (nat (k + 2))) });
     k \<leftarrow> rd tmp 0;
     tmp1 \<leftarrow> wr tmp 0 (k + 1);
     tmp2 \<leftarrow> wr tmp1 (nat (k + 1)) n;
     Some (Ptr tmp2)
   }"

fun int_array_loop :: "string \<Rightarrow> char list \<Rightarrow> nat \<Rightarrow> int list ptr \<Rightarrow> int list ptr option" where
  "int_array_loop [] buf j array = (if 0 < j then buffer_into_array array buf else Some array)"
| "int_array_loop (c # s) buf j array =
     (if is_digit c then
        (if 20 < j then int_array_loop s buf j array
         else do { buf' \<leftarrow> wr buf j c; int_array_loop s buf' (j + 1) array })
      else if j = 0 then int_array_loop s buf j array
      else do {
        array' \<leftarrow> buffer_into_array array buf;
        int_array_loop s (replicate 21 NUL) 0 array'
      })"

definition bx_int_string_array_to_int_array :: "string ptr \<Rightarrow> int list ptr option" where
  "bx_int_string_array_to_int_array str =
     (case str of NULL \<Rightarrow> Some NULL | Ptr s \<Rightarrow> int_array_loop s (replicate 21 NUL) 0 NULL)"

section \<open>Paths\<close>

definition realloc_chars :: "char list ptr \<Rightarrow> nat \<Rightarrow> char list" where
  "realloc_chars p n = (case p of NULL \<Rightarrow> replicate n NUL | Ptr b \<Rightarrow> take n b @ replicate (n - length b) NUL)"

text \<open>
  The loop over the format: \<open>rest\<close> is the format from \<open>i\<close> on, \<open>path\<close> the block built so far
  and \<open>path_len\<close> its length without the terminator. \<open>Some NULL\<close>: the function gives up and
  returns NULL. Reading one argument more than was passed is \<open>None\<close>.
\<close>

fun item_to_path_loop :: "string \<Rightarrow> string \<Rightarrow> nat \<Rightarrow> nat \<Rightarrow> char list ptr \<Rightarrow> nat \<Rightarrow> BXAny ptr list
    \<Rightarrow> (nat \<times> char list ptr \<times> nat) ptr option" where
  "item_to_path_loop fmt [] i origin path path_len args = Some (Ptr (origin, path, path_len))"
| "item_to_path_loop fmt (c # rest) i origin path path_len args =
     (if c \<noteq> CHR ''$'' then item_to_path_loop fmt rest (i + 1) origin path path_len args
      else case args of
        [] \<Rightarrow> None
      | item # args' \<Rightarrow>
          (case item of
             NULL \<Rightarrow> Some NULL
           | Ptr a \<Rightarrow> do {
               printed \<leftarrow> bx_object_value_to_string a;
               (case printed of
                  NULL \<Rightarrow> Some NULL
                | Ptr str \<Rightarrow>
                    if str = [] then Some NULL
                    else do {
                      let tmp = realloc_chars path (path_len + (i - origin) + length str + 1);
                      tmp1 \<leftarrow> (if origin < i
                               then copy_in tmp path_len (take (i - origin) (drop origin fmt))
                               else Some tmp);
                      tmp2 \<leftarrow> copy_in tmp1 (path_len + (i - origin)) str;
                      tmp3 \<leftarrow> wr tmp2 (path_len + (i - origin) + length str) NUL;
                      item_to_path_loop fmt rest (i + 1) (i + 1) (Ptr tmp3)
                        (path_len + (i - origin) + length str) args'
                    })
             }))"

definition bx_item_to_path :: "string \<Rightarrow> BXAny ptr list \<Rightarrow> char list ptr option" where
  "bx_item_to_path fmt args = do {
     r \<leftarrow> item_to_path_loop fmt fmt 0 0 NULL 0 args;
     (case r of
        NULL \<Rightarrow> Some NULL
      | Ptr (origin, path, path_len) \<Rightarrow>
          if origin < length fmt then do {
            let seg = drop origin fmt;
            let tmp = realloc_chars path (path_len + length seg + 1);
            tmp1 \<leftarrow> copy_in tmp path_len seg;
            tmp2 \<leftarrow> wr tmp1 (path_len + length seg) NUL;
            Some (Ptr tmp2)
          } else Some path)
   }"

section \<open>Requests\<close>

record BXNetRData =
  rd_data :: "string ptr"
  rd_data_len :: nat
  rd_http_code :: int

record BXNetRequest =
  rq_done :: bool
  rq_cancel :: bool
  rq_id :: u64
  rq_path :: string
  rq_decoded :: "json ptr"
  rq_params :: "(string \<times> string) list"
  rq_response :: "BXNetRData ptr"

definition bx_net_request_new :: "string \<Rightarrow> BXNetRequest" where
  "bx_net_request_new path =
     \<lparr>rq_done = False, rq_cancel = False, rq_id = 0, rq_path = path, rq_decoded = NULL,
      rq_params = [], rq_response = NULL\<rparr>"

text \<open>
  \<open>round_trip\<close> hands a request to the queue and waits for it: NULL when it cannot be queued
  or the queue stops. A failed assertion of the decoder, which aborts, is \<open>None\<close>.
\<close>

definition bx_do_request_wait ::
    "(BXNetRequest \<Rightarrow> 's \<Rightarrow> BXNetRequest ptr \<times> 's) \<Rightarrow> string \<Rightarrow> BXAny ptr list \<Rightarrow> 's
     \<Rightarrow> (BXNetRequest ptr \<times> 's) option" where
  "bx_do_request_wait round_trip path_fmt args s = do {
     path \<leftarrow> bx_item_to_path path_fmt args;
     (case path of
        NULL \<Rightarrow> Some (NULL, s)
      | Ptr p \<Rightarrow>
          (case round_trip (bx_net_request_new (cstr p)) s of
             (NULL, s') \<Rightarrow> Some (NULL, s')
           | (Ptr r, s') \<Rightarrow>
               Some (if rq_cancel r \<or> rq_response r = NULL then NULL else Ptr r, s')))
   }"

definition bx_decode_net :: "(string \<Rightarrow> json ptr) \<Rightarrow> BXNetRequest \<Rightarrow> json ptr option" where
  "bx_decode_net json_loadb r =
     (case rq_response r of
        NULL \<Rightarrow> None
      | Ptr resp \<Rightarrow>
          if rd_data_len resp = 0 then None
          else map_option json_loadb (case rd_data resp of NULL \<Rightarrow> None | Ptr d \<Rightarrow> read_buf (Ptr d) (rd_data_len resp)))"

definition bx_do_request ::
    "(BXNetRequest \<Rightarrow> 's \<Rightarrow> BXNetRequest ptr \<times> 's) \<Rightarrow> (string \<Rightarrow> json ptr) \<Rightarrow> string
     \<Rightarrow> BXAny ptr list \<Rightarrow> 's \<Rightarrow> (BXNetRequest ptr \<times> 's) option" where
  "bx_do_request round_trip json_loadb path_fmt args s = do {
     (request, s') \<leftarrow> bx_do_request_wait round_trip path_fmt args s;
     (case request of
        NULL \<Rightarrow> Some (NULL, s')
      | Ptr r \<Rightarrow> do {
          json \<leftarrow> bx_decode_net json_loadb r;
          Some (if json = NULL then NULL else Ptr (r\<lparr>rq_decoded := json\<rparr>), s')
        })
   }"

definition bx_do_request_raw ::
    "(BXNetRequest \<Rightarrow> 's \<Rightarrow> BXNetRequest ptr \<times> 's) \<Rightarrow> string \<Rightarrow> BXAny ptr list \<Rightarrow> 's
     \<Rightarrow> (BXNetRequest ptr \<times> 's) option" where
  "bx_do_request_raw round_trip path_fmt args s = bx_do_request_wait round_trip path_fmt args s"

section \<open>The log\<close>

text \<open>
  The queue is a list of messages linked from the newest. \<open>lg_out\<close> is what was written to
  the file, oldest first; \<open>lg_fp\<close> says whether the file is open. \<open>now\<close> is the clock.
\<close>

record s_BXLog =
  lg_level :: u8
  lg_head :: "string list"
  lg_fp :: bool
  lg_out :: "string list"

definition LOG_MSG_BUFFER_MAX :: nat where
  "LOG_MSG_BUFFER_MAX = 500"

definition LOG_LEVEL_DEBUG :: u8 where
  "LOG_LEVEL_DEBUG = 0x80"

definition LOG_LEVEL_INFO :: u8 where
  "LOG_LEVEL_INFO = 0x08"

definition LOG_LEVEL_ERROR :: u8 where
  "LOG_LEVEL_ERROR = 0x01"

fun hex_upper :: "nat \<Rightarrow> string" where
  "hex_upper n =
     (let d = (\<lambda>k. if k < 10 then char_of (48 + k :: nat) else char_of (55 + k)) in
      if n < 16 then [d n] else hex_upper (n div 16) @ [d (n mod 16)])"

declare hex_upper.simps [simp del]

definition snprintf :: "nat \<Rightarrow> string \<Rightarrow> string" where
  \<comment> \<open>what a block of \<open>n\<close> bytes keeps of a formatted text\<close>
  "snprintf n text = take (n - 1) text"

definition bx_log_queue :: "int \<Rightarrow> string ptr \<Rightarrow> string \<Rightarrow> int \<Rightarrow> nat \<Rightarrow> string \<Rightarrow> s_BXLog \<Rightarrow> s_BXLog" where
  "bx_log_queue now err file line thid msg lg =
     (let text = (case err of
                    NULL \<Rightarrow> ''['' @ dec_int now @ ''] '' @ msg
                  | Ptr e \<Rightarrow> ''['' @ dec_int now @ ''] '' @ e @ '' ('' @ hex_upper thid @ '') ['' @
                             file @ '':'' @ dec_int line @ ''] '' @ msg)
      in lg\<lparr>lg_head := snprintf LOG_MSG_BUFFER_MAX text # lg_head lg\<rparr>)"

definition bx_log_debug :: "int \<Rightarrow> string \<Rightarrow> int \<Rightarrow> nat \<Rightarrow> string \<Rightarrow> s_BXLog \<Rightarrow> s_BXLog" where
  "bx_log_debug now file line thid msg lg =
     (if lg_level lg < LOG_LEVEL_DEBUG then lg
      else bx_log_queue now (Ptr ''DEBUG'') file line thid (snprintf LOG_MSG_BUFFER_MAX msg) lg)"

definition bx_log_info :: "int \<Rightarrow> string \<Rightarrow> int \<Rightarrow> nat \<Rightarrow> string \<Rightarrow> s_BXLog \<Rightarrow> s_BXLog" where
  "bx_log_info now file line thid msg lg =
     (if lg_level lg < LOG_LEVEL_INFO then lg
      else bx_log_queue now (Ptr ''INFO'') file line thid (snprintf LOG_MSG_BUFFER_MAX msg) lg)"

definition bx_log_error :: "int \<Rightarrow> string \<Rightarrow> int \<Rightarrow> nat \<Rightarrow> string \<Rightarrow> s_BXLog \<Rightarrow> s_BXLog" where
  "bx_log_error now file line thid msg lg =
     (if lg_level lg < LOG_LEVEL_ERROR then lg
      else bx_log_queue now (Ptr ''ERROR'') file line thid (snprintf LOG_MSG_BUFFER_MAX msg) lg)"

fun relink :: "string list \<Rightarrow> string list \<Rightarrow> string list" where
  "relink [] reversed = reversed"
| "relink (m # current) reversed = relink current (m # reversed)"

fun write_all :: "string list \<Rightarrow> s_BXLog \<Rightarrow> s_BXLog" where
  "write_all [] lg = lg"
| "write_all (m # current) lg =
     write_all current (if lg_fp lg then lg\<lparr>lg_out := lg_out lg @ [m]\<rparr> else lg)"

text \<open>One turn of the thread's loop, and what it does when it is told to stop.\<close>

definition log_thread_turn :: "s_BXLog \<Rightarrow> s_BXLog" where
  "log_thread_turn lg = write_all (relink (lg_head lg) []) (lg\<lparr>lg_head := []\<rparr>)"

definition log_thread_stop :: "s_BXLog \<Rightarrow> s_BXLog" where
  "log_thread_stop lg =
     (let lg' = write_all (lg_head lg) lg
      in lg'\<lparr>lg_out := lg_out lg' @ [''--- END OF LOG THREAD ---'']\<rparr>)"

section \<open>Small helpers\<close>

fun bx_string_compare :: "string \<Rightarrow> string \<Rightarrow> nat \<Rightarrow> bool" where
  "bx_string_compare (a # s) (b # t) (Suc n) = (if a \<noteq> b then False else bx_string_compare s t n)"
| "bx_string_compare s t n = True"

text \<open>The mark of a walker's cycle: the new mark, and the seconds logged, if any.\<close>

definition bx_walker_cycle_mark :: "int \<Rightarrow> int \<Rightarrow> int \<times> int option" where
  "bx_walker_cycle_mark now ts =
     (if now = - 1 then (ts, None)
      else (now, if ts \<noteq> 0 \<and> ts \<le> now then Some (now - ts) else None))"

section \<open>Facts\<close>

text \<open>The maximal runs of digits of a text.\<close>

function digit_runs :: "string \<Rightarrow> string list" where
  "digit_runs [] = []"
| "digit_runs (c # s) =
     (if is_digit c then (c # takeWhile is_digit s) # digit_runs (dropWhile is_digit s)
      else digit_runs s)"
  by pat_completeness auto
termination
  by (relation "measure length") (auto simp: le_imp_less_Suc length_dropWhile_le)

definition run_value :: "string \<Rightarrow> int" where
  "run_value ds = saturate (int (digits_val 0 ds))"

lemma digit_runs_append:
  assumes "list_all is_digit ds" and "ds \<noteq> []"
  shows "digit_runs (ds @ s) = (ds @ takeWhile is_digit s) # digit_runs (dropWhile is_digit s)"
  using assms by (cases ds) (auto simp: list_all_iff takeWhile_append dropWhile_append)

lemma digit_runs_dropWhile:
  "\<not> is_digit c \<Longrightarrow> digit_runs (c # s) = digit_runs s"
  by simp

definition int_array :: "int list \<Rightarrow> int list ptr" where
  "int_array xs = (if xs = [] then NULL else Ptr (int (length xs) # xs))"

lemma digit_not_NUL: "is_digit c \<Longrightarrow> c \<noteq> NUL"
  by (auto simp: is_digit_def NUL_def)

lemma strtol_run:
  assumes "list_all is_digit ds" and "ds \<noteq> []"
  shows "strtol_value ds = run_value ds"
proof -
  obtain d r where d: "ds = d # r" using assms(2) by (cases ds) auto
  then have dig: "is_digit d" using assms(1) by simp
  have "takeWhile is_digit ds = ds"
    using assms(1) by (simp add: takeWhile_eq_all_conv list_all_iff)
  then show ?thesis
    using digit_not_sign [OF dig] d
    by (simp add: strtol_value_def strtol_def strtol_digits_def run_value_def Let_def)
qed

lemma cstr_run:
  assumes "list_all is_digit ds" and "0 < n"
  shows "cstr (ds @ replicate n NUL) = ds"
  using assms by (cases n) (auto simp: cstr_def takeWhile_append list_all_iff digit_not_NUL)

lemma buffer_into_array_run:
  assumes "list_all is_digit ds" and "ds \<noteq> []" and "length ds \<le> 20"
  shows "buffer_into_array (int_array xs) (ds @ replicate (21 - length ds) NUL)
         = Some (int_array (xs @ [run_value ds]))"
proof -
  have "NUL \<in> set (ds @ replicate (21 - length ds) NUL)" using assms(3) by simp
  then have s: "strtoll_buf (ds @ replicate (21 - length ds) NUL) = Some (run_value ds)"
    using cstr_run [OF assms(1), of "21 - length ds"] strtol_run [OF assms(1,2)] assms(3)
    by (simp add: strtoll_buf_def)
  show ?thesis
  proof (cases "xs = []")
    case True
    with s show ?thesis
      by (simp add: buffer_into_array_def int_array_def rd_def wr_def)
  next
    case False
    have "nat (int (length xs) + 2) = length xs + 2" by simp
    with False s show ?thesis
      by (simp add: buffer_into_array_def int_array_def rd_def wr_def realloc_ints_def
          nth_append list_update_append nat_add_distrib)
  qed
qed

end
