(* ===== verification/Bx_Utils_Properties.thy ===== *)
theory Bx_Utils_Properties
  imports Bx_Utils
begin

text \<open>
  The helpers against their reference definitions: the numbers of a text are its maximal
  runs of digits, a path is its format with every placeholder replaced by a printed value,
  and the log keeps the order in which messages were queued, but for those still waiting at its end.
\<close>

section \<open>Numbers in a text\<close>

lemma int_array_loop_runs:
  assumes "list_all is_digit cur" and "length cur \<le> 20"
    and "list_all (\<lambda>ds. length ds \<le> 20) (digit_runs (cur @ s))"
  shows "int_array_loop s (cur @ replicate (21 - length cur) NUL) (length cur) (int_array xs)
         = Some (int_array (xs @ map run_value (digit_runs (cur @ s))))"
  using assms
proof (induction s arbitrary: cur xs)
  case Nil
  then show ?case
    using buffer_into_array_run [of cur xs] digit_runs_append [of cur "[]"]
    by (cases "cur = []") auto
next
  case (Cons c s)
  show ?case
  proof (cases "is_digit c")
    case True
    have all: "list_all is_digit (cur @ [c])" using Cons.prems(1) True by simp
    have len: "length (cur @ [c]) \<le> 20"
      using Cons.prems(3) digit_runs_append [OF all, of s] by simp
    have "wr (cur @ replicate (21 - length cur) NUL) (length cur) c
          = Some ((cur @ [c]) @ replicate (21 - length (cur @ [c])) NUL)"
    proof -
      have "21 - length cur = Suc (20 - length cur)" using len by simp
      then show ?thesis using len by (simp add: wr_def list_update_append)
    qed
    then show ?thesis
      using Cons.IH [OF all len, of xs] Cons.prems(2,3) True by simp
  next
    case False
    show ?thesis
    proof (cases "cur = []")
      case True
      then show ?thesis using Cons.IH [of "[]" xs] Cons.prems False by simp
    next
      case ne: False
      have runs: "digit_runs (cur @ c # s) = cur # digit_runs s"
        using digit_runs_append [OF Cons.prems(1) ne, of "c # s"] False by simp
      have "int_array_loop s (replicate 21 NUL) 0 (int_array (xs @ [run_value cur]))
            = Some (int_array ((xs @ [run_value cur]) @ map run_value (digit_runs s)))"
        using Cons.IH [of "[]" "xs @ [run_value cur]"] Cons.prems(3) runs by simp
      then show ?thesis
        using buffer_into_array_run [OF Cons.prems(1) ne Cons.prems(2), of xs] False ne runs
        by simp
    qed
  qed
qed

text \<open>A run of 21 digits fills the block and leaves no terminator.\<close>

lemma int_array_loop_full:
  assumes "list_all is_digit ds" and "j = length cur" and "j + length ds \<ge> 21" and "j \<le> 21"
    and "list_all is_digit cur"
  shows "int_array_loop ds (cur @ replicate (21 - j) NUL) j array = None"
  using assms
proof (induction ds arbitrary: cur j)
  case Nil
  then have "j = 21" by simp
  moreover have "NUL \<notin> set cur" using Nil by (auto simp: list_all_iff dest: digit_not_NUL)
  ultimately show ?case by (simp add: buffer_into_array_def strtoll_buf_def)
next
  case (Cons d ds)
  show ?case
  proof (cases "j = 21")
    case True
    have "NUL \<notin> set cur" using Cons.prems(5) by (auto simp: list_all_iff dest: digit_not_NUL)
    then have "int_array_loop ds cur 21 array = None" if "list_all is_digit ds" for ds
      using that by (induction ds) (auto simp: buffer_into_array_def strtoll_buf_def)
    then show ?thesis using True Cons.prems by simp
  next
    case False
    then have r: "21 - j = Suc (21 - Suc j)" using Cons.prems(4) by simp
    then have "wr (cur @ replicate (21 - j) NUL) j d = Some ((cur @ [d]) @ replicate (21 - Suc j) NUL)"
      using Cons.prems(2) by (simp add: wr_def list_update_append)
    then show ?thesis
      using Cons.IH [of "Suc j" "cur @ [d]"] Cons.prems False by simp
  qed
qed

section \<open>Paths\<close>

fun subst_args :: "string \<Rightarrow> string list \<Rightarrow> string" where
  "subst_args [] strs = []"
| "subst_args (c # f) [] = c # subst_args f []"
| "subst_args (c # f) (s # strs) =
     (if c = CHR ''$'' then s @ subst_args f strs else c # subst_args f (s # strs))"

definition holes :: "string \<Rightarrow> nat" where
  "holes fmt = length (filter (\<lambda>c. c = CHR ''$'') fmt)"

lemma subst_args_plain: "holes f = 0 \<Longrightarrow> subst_args f strs = f"
  by (induction f strs rule: subst_args.induct) (auto simp: holes_def split: if_splits)

lemma subst_args_split:
  "holes p = 0 \<Longrightarrow> subst_args (p @ CHR ''$'' # f) (s # strs) = p @ s @ subst_args f strs"
  by (induction p) (auto simp: holes_def split: if_splits)

text \<open>A block that holds a text and its terminator; no block for the empty text.\<close>

definition holds :: "char list ptr \<Rightarrow> string \<Rightarrow> bool" where
  "holds p t \<longleftrightarrow> p = Ptr (t @ [NUL]) \<or> p = NULL \<and> t = []"

lemma append_block:
  assumes "holds path t"
  shows "\<exists>b. copy_in (realloc_chars path (length t + length seg + extra)) (length t) seg
             = Some (t @ seg @ b) \<and> length b = extra"
proof -
  have "\<exists>b. realloc_chars path (length t + length seg + extra) = t @ b
          \<and> length b = length seg + extra"
    using assms by (auto simp: holds_def realloc_chars_def)
  then obtain b where b: "realloc_chars path (length t + length seg + extra) = t @ b"
    "length b = length seg + extra" by blast
  then show ?thesis by (simp add: copy_in_def)
qed

definition prints :: "BXAny ptr \<Rightarrow> string \<Rightarrow> bool" where
  "prints a s \<longleftrightarrow> (\<exists>v. a = Ptr v \<and> bx_object_value_to_string v = Some (Ptr s)) \<and> s \<noteq> []"

lemma item_to_path_hole:
  assumes "holds path t" and "prints a s" and "fmt = pre @ seg @ CHR ''$'' # rest"
  shows "\<exists>b. item_to_path_loop fmt (CHR ''$'' # rest) (length pre + length seg) (length pre) path
             (length t) (a # args)
         = item_to_path_loop fmt rest (length pre + length seg + 1) (length pre + length seg + 1)
             (Ptr b) (length (t @ seg @ s)) args \<and> b = (t @ seg @ s) @ [NUL]"
proof -
  obtain v where v: "a = Ptr v" "bx_object_value_to_string v = Some (Ptr s)" "s \<noteq> []"
    using assms(2) by (auto simp: prints_def)
  have seg: "take (length seg) (drop (length pre) fmt) = seg" using assms(3) by simp
  obtain b where b: "copy_in (realloc_chars path (length t + length seg + (length s + 1))) (length t) seg
      = Some (t @ seg @ b)" "length b = length s + 1"
    using append_block [OF assms(1)] by blast
  have c1: "(if length pre < length pre + length seg
             then copy_in (realloc_chars path (length t + length seg + length s + 1)) (length t) seg
             else Some (realloc_chars path (length t + length seg + length s + 1)))
            = Some (t @ seg @ b)"
    using b by (cases "seg = []") (auto simp: copy_in_def ac_simps split: if_splits)
  have c2: "copy_in (t @ seg @ b) (length t + length seg) s
            = Some ((t @ seg) @ s @ drop (length s) b)"
    using b(2) by (simp add: copy_in_def)
  obtain z where z: "drop (length s) b = [z]"
    using b(2) by (cases "drop (length s) b") (auto simp: length_drop dest: arg_cong [where f = length])
  have c3: "wr ((t @ seg) @ s @ drop (length s) b) (length t + length seg + length s) NUL
            = Some ((t @ seg @ s) @ [NUL])"
    by (simp add: z wr_def list_update_append)
  show ?thesis
    using v c1 c2 c3 seg by (cases "seg = []") (simp_all add: Let_def add.assoc)
qed

lemma item_to_path_loop_spec:
  assumes "fmt = pre @ seg @ rest" and "holes seg = 0" and "holds path t"
    and "list_all2 prints args strs" and "holes rest \<le> length args"
  shows "\<exists>origin path' t'. item_to_path_loop fmt rest (length pre + length seg) (length pre) path (length t) args
           = Some (Ptr (origin, path', length t')) \<and> holds path' t' \<and> origin \<le> length fmt \<and>
           t' @ drop origin fmt = t @ subst_args (seg @ rest) strs"
  using assms
proof (induction rest arbitrary: pre seg path t args strs)
  case Nil
  then show ?case by (auto simp: subst_args_plain)
next
  case (Cons c rest)
  show ?case
  proof (cases "c = CHR ''$''")
    case False
    then have "holes (seg @ [c]) = 0" using Cons.prems(2) by (simp add: holes_def)
    with Cons.IH [of pre "seg @ [c]" path t args strs] Cons.prems False show ?thesis
      by (auto simp: holes_def)
  next
    case True
    then obtain a args' s strs' where as: "args = a # args'" "strs = s # strs'"
        "prints a s" "list_all2 prints args' strs'"
      using Cons.prems(4,5) by (cases args; cases strs) (auto simp: holes_def)
    obtain b where b: "item_to_path_loop fmt (c # rest) (length pre + length seg) (length pre) path (length t) args
         = item_to_path_loop fmt rest (length pre + length seg + 1) (length pre + length seg + 1)
             (Ptr b) (length (t @ seg @ s)) args'" "b = (t @ seg @ s) @ [NUL]"
      using item_to_path_hole [OF Cons.prems(3) as(3), of fmt pre seg rest args'] Cons.prems(1) True as(1)
      by blast
    have "holds (Ptr b) (t @ seg @ s)" using b(2) by (simp add: holds_def)
    with Cons.IH [of "pre @ seg @ [c]" "[]" "Ptr b" "t @ seg @ s" args' strs'] Cons.prems as True b(1)
    show ?thesis
      by (auto simp: holes_def subst_args_split)
  qed
qed

lemma subst_args_not_Nil:
  "fmt \<noteq> [] \<Longrightarrow> list_all2 prints args strs \<Longrightarrow> subst_args fmt strs \<noteq> []"
  by (cases fmt; cases strs) (auto simp: prints_def list_all2_Cons2)

lemma item_to_path_spec:
  assumes "fmt \<noteq> []" and "list_all2 prints args strs" and "holes fmt \<le> length args"
  shows "bx_item_to_path fmt args = Some (Ptr (subst_args fmt strs @ [NUL]))"
proof -
  obtain origin path t where r: "item_to_path_loop fmt fmt 0 0 NULL 0 args = Some (Ptr (origin, path, length t))"
      "holds path t" "origin \<le> length fmt" "t @ drop origin fmt = subst_args fmt strs"
    using item_to_path_loop_spec [of fmt "[]" "[]" fmt NULL "[]" args strs] assms
    by (auto simp: holds_def holes_def)
  show ?thesis
  proof (cases "origin < length fmt")
    case True
    obtain b where b: "copy_in (realloc_chars path (length t + length (drop origin fmt) + 1)) (length t)
        (drop origin fmt) = Some (t @ drop origin fmt @ b)" "length b = 1"
      using append_block [OF r(2)] by blast
    then obtain z where "b = [z]" by (cases b) auto
    moreover have "length (subst_args fmt strs) = length t + (length fmt - origin)"
      using arg_cong [OF r(4), of length] by simp
    ultimately show ?thesis
      using b True r(1,4) by (simp add: bx_item_to_path_def Let_def wr_def list_update_append flip: append_assoc)
  next
    case False
    then have "t = subst_args fmt strs" using r(3,4) by simp
    with r(1,2) False subst_args_not_Nil [OF assms(1,2)] show ?thesis
      by (simp add: bx_item_to_path_def holds_def)
  qed
qed

section \<open>The log\<close>

lemma relink_rev: "relink xs ys = rev xs @ ys"
  by (induction xs arbitrary: ys) simp_all

lemma write_all_open: "lg_fp lg \<Longrightarrow> write_all ms lg = lg\<lparr>lg_out := lg_out lg @ ms\<rparr>"
  by (induction ms arbitrary: lg) simp_all

text \<open>Any thread logs at one of the three levels, the log thread takes a turn, in any order.\<close>

datatype log_event =
    Log_Debug int string int nat string | Log_Info int string int nat string | Log_Error int string int nat string
  | Log_Turn

fun log_step :: "log_event \<Rightarrow> s_BXLog \<Rightarrow> s_BXLog" where
  "log_step (Log_Debug now file line thid msg) lg = bx_log_debug now file line thid msg lg"
| "log_step (Log_Info now file line thid msg) lg = bx_log_info now file line thid msg lg"
| "log_step (Log_Error now file line thid msg) lg = bx_log_error now file line thid msg lg"
| "log_step Log_Turn lg = log_thread_turn lg"

text \<open>
  The line an event is meant to leave in the file of a log of level \<open>v\<close>: none below its level, else the
  time, the level, the thread and the place before the message, cut to 499 characters.
\<close>

definition log_line :: "string \<Rightarrow> int \<Rightarrow> string \<Rightarrow> int \<Rightarrow> nat \<Rightarrow> string \<Rightarrow> string" where
  "log_line name now file line thid msg =
     take 499 (''['' @ dec_int now @ ''] '' @ name @ '' ('' @ hex_upper thid @ '') ['' @ file @ '':'' @ dec_int line @ ''] '' @
       take 499 msg)"

fun log_lines :: "u8 \<Rightarrow> log_event \<Rightarrow> string list" where
  "log_lines v (Log_Debug now file line thid msg) = (if v < 128 then [] else [log_line ''DEBUG'' now file line thid msg])"
| "log_lines v (Log_Info now file line thid msg) = (if v < 8 then [] else [log_line ''INFO'' now file line thid msg])"
| "log_lines v (Log_Error now file line thid msg) = (if v < 1 then [] else [log_line ''ERROR'' now file line thid msg])"
| "log_lines v Log_Turn = []"

lemma log_step_queues:
  assumes "e \<noteq> Log_Turn"
  shows "log_step e lg = lg\<lparr>lg_head := rev (log_lines (lg_level lg) e) @ lg_head lg\<rparr>"
  using assms
  by (cases e)
     (auto simp: bx_log_debug_def bx_log_info_def bx_log_error_def bx_log_queue_def log_line_def snprintf_def LOG_MSG_BUFFER_MAX_def
       LOG_LEVEL_DEBUG_def LOG_LEVEL_INFO_def LOG_LEVEL_ERROR_def)

lemma log_turn_open:
  "lg_fp lg \<Longrightarrow> log_step Log_Turn lg = lg\<lparr>lg_head := [], lg_out := lg_out lg @ rev (lg_head lg)\<rparr>"
  by (simp add: log_thread_turn_def write_all_open relink_rev)

lemma log_order:
  "lg_fp lg \<Longrightarrow>
   lg_fp (fold log_step es lg) \<and> lg_level (fold log_step es lg) = lg_level lg \<and>
   lg_out (fold log_step es lg) @ rev (lg_head (fold log_step es lg))
     = lg_out lg @ rev (lg_head lg) @ concat (map (log_lines (lg_level lg)) es)"
proof (induction es arbitrary: lg)
  case (Cons e es)
  have "lg_fp (log_step e lg) \<and> lg_level (log_step e lg) = lg_level lg \<and>
      lg_out (log_step e lg) @ rev (lg_head (log_step e lg)) = lg_out lg @ rev (lg_head lg) @ log_lines (lg_level lg) e"
    using Cons.prems log_step_queues [of e lg] log_turn_open [of lg] by (cases "e = Log_Turn") (simp_all del: log_step.simps)
  then show ?case using Cons.IH [of "log_step e lg"] by simp
qed simp

lemma log_waiting:
  "Log_Turn \<notin> set es \<Longrightarrow>
   fold log_step es lg = lg\<lparr>lg_head := rev (concat (map (log_lines (lg_level lg)) es)) @ lg_head lg\<rparr>"
proof (induction es arbitrary: lg)
  case (Cons e es)
  have "fold log_step es (log_step e lg) = (log_step e lg)\<lparr>lg_head :=
      rev (concat (map (log_lines (lg_level (log_step e lg))) es)) @ lg_head (log_step e lg)\<rparr>"
    using Cons by simp
  moreover have "e \<noteq> Log_Turn" using Cons.prems by auto
  ultimately show ?case using log_step_queues [of e lg] by (simp del: log_step.simps)
qed simp

lemma log_stop_open:
  "lg_fp lg \<Longrightarrow> lg_out (log_thread_stop lg) = lg_out lg @ lg_head lg @ [''--- END OF LOG THREAD ---'']"
  by (simp add: log_thread_stop_def write_all_open Let_def)

section \<open>Properties\<close>

text \<open>
  C29: the list of numbers of a text whose runs of digits have at most 20 digits is read
  without leaving the 21-byte buffer: the result holds the number of runs and the value of
  each in order, saturated at 64 bits, and is NULL when there is no digit.
\<close>

theorem int_array_correct:
  assumes "list_all (\<lambda>ds. length ds \<le> 20) (digit_runs s)"
  shows "bx_int_string_array_to_int_array (Ptr s) = Some (int_array (map run_value (digit_runs s)))"
  using int_array_loop_runs [of "[]" s "[]"] assms
  by (simp add: bx_int_string_array_to_int_array_def int_array_def)

theorem int_array_correct_witness:
  "bx_int_string_array_to_int_array (Ptr ''7, 42'') = Some (Ptr [2, 7, 42])"
  using int_array_correct [of "''7, 42''"]
  by (simp add: is_digit_def int_array_def run_value_def saturate_def digits_val_def
      digit_val_def LONG_MAX_def LONG_MIN_def)

text \<open>
  A text of 21 or more digits fills the 21-byte buffer without a terminator, and the
  conversion reads past its end.
\<close>

theorem int_array_overflow:
  assumes "list_all is_digit s" and "21 \<le> length s"
  shows "bx_int_string_array_to_int_array (Ptr s) = None"
  using int_array_loop_full [of s 0 "[]" NULL] assms
  by (simp add: bx_int_string_array_to_int_array_def)

theorem int_array_overflow_witness:
  "bx_int_string_array_to_int_array (Ptr ''123456789012345678901'') = None"
  using int_array_overflow [of "''123456789012345678901''"] by (simp add: is_digit_def)

text \<open>
  A path built from a format with at least one argument per placeholder, each with a
  non-empty printed form, is the format with every placeholder replaced in order, written
  with its terminator inside the block allocated for it.
\<close>

theorem item_to_path_correct:
  assumes "fmt \<noteq> []" and "list_all2 prints args strs" and "holes fmt \<le> length args"
  shows "bx_item_to_path fmt args = Some (Ptr (subst_args fmt strs @ [NUL]))"
  using assms by (rule item_to_path_spec)

theorem item_to_path_correct_witness:
  "bx_item_to_path ''a/$?x=$'' [Ptr (AInteger \<lparr>bi_isset = True, bi_value = 7\<rparr>),
      Ptr (ABool \<lparr>bb_isset = True, bb_value = True\<rparr>)] = Some (Ptr (''a/7?x=true'' @ [NUL]))"
proof -
  have "dec_int 7 = ''7''" by code_simp
  then show ?thesis
    using item_to_path_correct [of "''a/$?x=$''"
        "[Ptr (AInteger \<lparr>bi_isset = True, bi_value = 7\<rparr>), Ptr (ABool \<lparr>bb_isset = True, bb_value = True\<rparr>)]"
        "[''7'', ''true'']"]
    by (simp add: prints_def int2str_def bool2str_def holes_def)
qed

text \<open>
  C30: what the log file holds when the log thread has ended, its file open all along: whatever the
  order in which threads log and the log thread takes its turns, first every line logged before the last
  turn, once, in the order it was logged; then the lines that were waiting at the stop, the newest
  first; then the end mark. A line is the one of its level, time, thread and place, and is there when
  the level of the log asks for it.
\<close>

theorem log_keeps_order:
  assumes "lg_fp lg" and "lg_head lg = []" and "Log_Turn \<notin> set late"
  shows "lg_out (log_thread_stop (fold log_step (early @ Log_Turn # late) lg)) =
    lg_out lg @ concat (map (log_lines (lg_level lg)) early) @ rev (concat (map (log_lines (lg_level lg)) late)) @
    [''--- END OF LOG THREAD ---'']"
proof -
  define lg1 where "lg1 = fold log_step early lg"
  have lg1: "lg_fp lg1" "lg_level lg1 = lg_level lg"
      "lg_out lg1 @ rev (lg_head lg1) = lg_out lg @ concat (map (log_lines (lg_level lg)) early)"
    using log_order [OF assms(1), of early] assms(2) by (simp_all add: lg1_def)
  have "fold log_step (early @ Log_Turn # late) lg = fold log_step late (log_step Log_Turn lg1)" by (simp add: lg1_def)
  then show ?thesis
    using log_waiting [OF assms(3), of "log_step Log_Turn lg1"] log_turn_open [OF lg1(1)] lg1
    by (simp add: log_stop_open del: log_step.simps)
qed

theorem log_keeps_order_witness:
  "lg_out (log_thread_stop (fold log_step ([Log_Info 5 ''a.c'' 1 10 ''x'', Log_Debug 5 ''a.c'' 2 10 ''y'', Log_Error 6 ''a.c'' 3 11 ''z''] @
       Log_Turn # [Log_Info 7 ''a.c'' 1 10 ''u'', Log_Info 8 ''a.c'' 1 10 ''v''])
     \<lparr>lg_level = 8, lg_head = [], lg_fp = True, lg_out = []\<rparr>))
   = [''[5] INFO (A) [a.c:1] x'', ''[6] ERROR (B) [a.c:3] z'', ''[8] INFO (A) [a.c:1] v'', ''[7] INFO (A) [a.c:1] u'',
      ''--- END OF LOG THREAD ---'']"
  using log_keeps_order [of "\<lparr>lg_level = 8, lg_head = [], lg_fp = True, lg_out = []\<rparr>"
      "[Log_Info 7 ''a.c'' 1 10 ''u'', Log_Info 8 ''a.c'' 1 10 ''v'']"
      "[Log_Info 5 ''a.c'' 1 10 ''x'', Log_Debug 5 ''a.c'' 2 10 ''y'', Log_Error 6 ''a.c'' 3 11 ''z'']"]
  by (simp add: log_line_def dec_int_def dec_nat.simps hex_upper.simps char_of_eq_iff Let_def)

end
