(* ===== verification/Bx_Walk.thy ===== *)
theory Bx_Walk
  imports Bx_Utils
begin

text \<open>
  The paged walk over a list of the API, \<open>src/src/bx_walk.c\<close>. The walk is a loop on an
  arbitrary state \<open>'s\<close>: the request, the handler of one row, the handler of a page and the
  sleep are its arguments, as they are in the code (\<open>app->queue\<close> and two function pointers).
  A walk of a list that never ends does not return, so the loop is a partial function:
  \<open>None\<close> is a walk that does not return or that touches memory it does not own.
\<close>

section \<open>The program\<close>

type_synonym 's handler = "'s \<Rightarrow> (BXillError \<times> 's) option"

record 's walk_env =
  we_request :: "string \<Rightarrow> BXAny ptr list \<Rightarrow> 's \<Rightarrow> (BXNetRequest ptr \<times> 's) option"
  we_sleep :: "'s \<Rightarrow> 's"

definition BXILL_LIST_LIMIT :: int where
  "BXILL_LIST_LIMIT = 500"

definition as_array :: "json ptr \<Rightarrow> json list ptr" where
  "as_array root =
     (case root of
        Ptr (JArray xs) \<Rightarrow> Ptr xs
      | Ptr (JObject kvs) \<Rightarrow>
          (case json_object_get (JObject kvs) ''data'' of Ptr (JArray xs) \<Rightarrow> Ptr xs | _ \<Rightarrow> NULL)
      | _ \<Rightarrow> NULL)"

text \<open>\<open>strstr (h, n) != NULL\<close>.\<close>

fun contains :: "string \<Rightarrow> string \<Rightarrow> bool" where
  "contains n [] = (n = [])"
| "contains n (c # h) = (is_prefix n (c # h) \<or> contains n h)"

definition int_arg :: "int \<Rightarrow> BXAny ptr" where
  "int_arg v = Ptr (AInteger \<lparr>bi_isset = True, bi_value = v\<rparr>)"

text \<open>The rows of one page, up to the first error.\<close>

fun sync_rows :: "(json \<Rightarrow> 's handler) \<Rightarrow> json list \<Rightarrow> 's handler" where
  "sync_rows sync [] s = Some (NoError, s)"
| "sync_rows sync (item # items) s = do {
     (e, s') \<leftarrow> sync item s;
     if e \<noteq> NoError then Some (e, s') else sync_rows sync items s'
   }"

text \<open>
  One turn of the loop at an offset: \<open>Inl\<close> is a return, \<open>Inr\<close> the offset of the next turn.
\<close>

definition walk_page ::
    "'s walk_env \<Rightarrow> string \<Rightarrow> BXAny ptr \<Rightarrow> bool \<Rightarrow> (json \<Rightarrow> 's handler) \<Rightarrow> (int \<Rightarrow> 's handler) ptr
     \<Rightarrow> int \<Rightarrow> 's \<Rightarrow> ((BXillError + int) \<times> 's) option" where
  "walk_page env path_fmt extra page_sleep sync on_page offset s =
     (let use_page = contains ''page=$'' path_fmt;
          paged = contains ''$'' path_fmt
      in do {
        (request, s1) \<leftarrow>
          (if \<not> paged then we_request env path_fmt [] s
           else if extra \<noteq> NULL
                then we_request env path_fmt [int_arg BXILL_LIST_LIMIT, int_arg offset, extra] s
                else we_request env path_fmt [int_arg BXILL_LIST_LIMIT, int_arg offset] s);
        (case request of
           NULL \<Rightarrow> Some (Inl ErrorNet, s1)
         | Ptr r \<Rightarrow>
             (case as_array (rq_decoded r) of
                NULL \<Rightarrow> Some (Inl ErrorJSON, s1)
              | Ptr arr \<Rightarrow> do {
                  (e, s2) \<leftarrow> sync_rows sync arr s1;
                  if e \<noteq> NoError then Some (Inl e, s2)
                  else do {
                    let next = (if paged then if use_page then offset + 1 else offset + BXILL_LIST_LIMIT
                                else offset);
                    (pe, s3) \<leftarrow> (case on_page of
                                   NULL \<Rightarrow> Some (NoError, s2)
                                 | Ptr f \<Rightarrow> if arr \<noteq> [] then f next s2 else Some (NoError, s2));
                    if pe \<noteq> NoError then Some (Inl pe, s3)
                    else if \<not> paged then Some (Inl NoError, s3)
                    else Some (if arr = [] then Inl NoError else Inr next,
                               if page_sleep then we_sleep env s3 else s3)
                  }
                }))
      })"

partial_function (option) walk_loop ::
    "'s walk_env \<Rightarrow> string \<Rightarrow> BXAny ptr \<Rightarrow> bool \<Rightarrow> (json \<Rightarrow> 's handler) \<Rightarrow> (int \<Rightarrow> 's handler) ptr
     \<Rightarrow> int \<Rightarrow> 's handler" where
  "walk_loop env path_fmt extra page_sleep sync on_page offset s = do {
     (r, s') \<leftarrow> walk_page env path_fmt extra page_sleep sync on_page offset s;
     (case r of
        Inl e \<Rightarrow> Some (e, s')
      | Inr next \<Rightarrow> walk_loop env path_fmt extra page_sleep sync on_page next s')
   }"

definition first_offset :: "string \<Rightarrow> int \<Rightarrow> int" where
  "first_offset path_fmt start_offset =
     (let start = (if start_offset < 0 then 0 else start_offset)
      in if contains ''page=$'' path_fmt then if 0 < start then start else 1 else start)"

definition bx_walk_pages_from ::
    "'s walk_env \<Rightarrow> string \<Rightarrow> BXAny ptr \<Rightarrow> bool \<Rightarrow> (json \<Rightarrow> 's handler) \<Rightarrow> int
     \<Rightarrow> (int \<Rightarrow> 's handler) ptr \<Rightarrow> 's handler" where
  "bx_walk_pages_from env path_fmt extra page_sleep sync start_offset on_page s =
     walk_loop env path_fmt extra page_sleep sync on_page (first_offset path_fmt start_offset) s"

definition bx_walk_pages ::
    "'s walk_env \<Rightarrow> string \<Rightarrow> BXAny ptr \<Rightarrow> bool \<Rightarrow> (json \<Rightarrow> 's handler) \<Rightarrow> 's handler" where
  "bx_walk_pages env path_fmt extra page_sleep sync s =
     bx_walk_pages_from env path_fmt extra page_sleep sync 0 NULL s"

section \<open>Rows\<close>

lemma sync_rows_append:
  "sync_rows sync (xs @ ys) s = do {
     (e, s') \<leftarrow> sync_rows sync xs s;
     if e \<noteq> NoError then Some (e, s') else sync_rows sync ys s'
   }"
  by (induction xs arbitrary: s) (auto split: bind_splits)

lemma sync_rows_returns:
  assumes "\<And>item s. \<exists>r. sync item s = Some r"
  shows "\<exists>r. sync_rows sync items s = Some r"
proof (induction items arbitrary: s)
  case (Cons item items)
  obtain e s' where "sync item s = Some (e, s')" using assms by (metis surj_pair)
  with Cons.IH [of s'] show ?case by simp
qed simp

section \<open>A rule for walks\<close>

text \<open>
  What holds of the state at every offset a turn starts from, and of what a turn returns,
  holds of the result of the walk.
\<close>

lemma walk_loop_rule:
  assumes "walk_loop env path_fmt extra page_sleep sync on_page offset s = Some (e, s')"
    and "I offset s"
    and stop: "\<And>o1 s1 e1 s2. I o1 s1 \<Longrightarrow>
          walk_page env path_fmt extra page_sleep sync on_page o1 s1 = Some (Inl e1, s2) \<Longrightarrow> Q e1 s2"
    and next_page: "\<And>o1 s1 o2 s2. I o1 s1 \<Longrightarrow>
          walk_page env path_fmt extra page_sleep sync on_page o1 s1 = Some (Inr o2, s2) \<Longrightarrow> I o2 s2"
  shows "Q e s'"
proof -
  have "I offset s \<longrightarrow> Q (fst (e, s')) (snd (e, s'))"
  proof (rule walk_loop.raw_induct [OF _ assms(1),
        where P = "\<lambda>env' path' extra' sleep' sync' page' o1 s1 r.
          env' = env \<and> path' = path_fmt \<and> extra' = extra \<and> sleep' = page_sleep \<and> sync' = sync \<and>
          page' = on_page \<longrightarrow> I o1 s1 \<longrightarrow> Q (fst r) (snd r)", THEN mp])
    fix walk env' path' extra' sleep' sync' page' o1 s1 r
    assume IH: "\<And>env' path' extra' sleep' sync' page' o1 s1 r.
        walk env' path' extra' sleep' sync' page' o1 s1 = Some r \<Longrightarrow>
        env' = env \<and> path' = path_fmt \<and> extra' = extra \<and> sleep' = page_sleep \<and> sync' = sync \<and>
        page' = on_page \<longrightarrow> I o1 s1 \<longrightarrow> Q (fst r) (snd r)"
      and body: "walk_page env' path' extra' sleep' sync' page' o1 s1 \<bind>
        (\<lambda>(x, y). case x of Inl e \<Rightarrow> Some (e, y) | Inr n \<Rightarrow> walk env' path' extra' sleep' sync' page' n y) = Some r"
    show "env' = env \<and> path' = path_fmt \<and> extra' = extra \<and> sleep' = page_sleep \<and> sync' = sync \<and>
        page' = on_page \<longrightarrow> I o1 s1 \<longrightarrow> Q (fst r) (snd r)"
    proof (intro impI, elim conjE)
      assume eq: "env' = env" "path' = path_fmt" "extra' = extra" "sleep' = page_sleep"
        "sync' = sync" "page' = on_page" and inv: "I o1 s1"
      from body eq obtain x y where xy: "walk_page env path_fmt extra page_sleep sync on_page o1 s1 = Some (x, y)"
        and r: "(case x of Inl e \<Rightarrow> Some (e, y) | Inr n \<Rightarrow> walk env' path' extra' sleep' sync' page' n y) = Some r"
        by (auto split: bind_splits)
      show "Q (fst r) (snd r)"
      proof (cases x)
        case (Inl e1)
        with r stop [OF inv] xy show ?thesis by auto
      next
        case (Inr n)
        with next_page [OF inv] xy have "I n y" by simp
        with IH r Inr eq show ?thesis by auto
      qed
    qed
  qed auto
  with assms(2) show ?thesis by simp
qed

section \<open>A list that does not move\<close>

definition page_args :: "BXAny ptr \<Rightarrow> int \<Rightarrow> BXAny ptr list" where
  "page_args extra offset =
     [int_arg BXILL_LIST_LIMIT, int_arg offset] @ (if extra = NULL then [] else [extra])"

definition by_offset :: "string \<Rightarrow> bool" where
  "by_offset path_fmt \<longleftrightarrow> contains ''$'' path_fmt \<and> \<not> contains ''page=$'' path_fmt"

text \<open>
  The documented behaviour of the API: a page is the next rows from its offset, at most as
  many as the limit, and asking for it changes nothing the walk can see.
\<close>

definition serves :: "'s walk_env \<Rightarrow> string \<Rightarrow> BXAny ptr \<Rightarrow> json list \<Rightarrow> bool" where
  "serves env path_fmt extra rows \<longleftrightarrow>
     (\<forall>s k. \<exists>r. we_request env path_fmt (page_args extra (int k)) s = Some (Ptr r, s) \<and>
        as_array (rq_decoded r) = Ptr (take 500 (drop k rows)))"

text \<open>The same walk on the list itself: rows in order, the page handler after every 500.\<close>

function walk_rows :: "(json \<Rightarrow> 's handler) \<Rightarrow> (int \<Rightarrow> 's handler) ptr \<Rightarrow> int \<Rightarrow> json list \<Rightarrow> 's handler" where
  "walk_rows sync on_page offset rows s =
     (if rows = [] then Some (NoError, s)
      else do {
        (e, s1) \<leftarrow> sync_rows sync (take 500 rows) s;
        if e \<noteq> NoError then Some (e, s1)
        else do {
          (pe, s2) \<leftarrow> (case on_page of NULL \<Rightarrow> Some (NoError, s1) | Ptr f \<Rightarrow> f (offset + 500) s1);
          if pe \<noteq> NoError then Some (pe, s2)
          else walk_rows sync on_page (offset + 500) (drop 500 rows) s2
        }
      })"
  by pat_completeness auto
termination
  by (relation "measure (\<lambda>(sync, on_page, offset, rows, s). length rows)") auto

declare walk_rows.simps [simp del]

lemma walk_page_by_offset:
  assumes "by_offset path_fmt"
  shows "walk_page env path_fmt extra False sync (Ptr f) n s = do {
     (request, s1) \<leftarrow> we_request env path_fmt (page_args extra n) s;
     (case request of
        NULL \<Rightarrow> Some (Inl ErrorNet, s1)
      | Ptr r \<Rightarrow>
          (case as_array (rq_decoded r) of
             NULL \<Rightarrow> Some (Inl ErrorJSON, s1)
           | Ptr arr \<Rightarrow> do {
               (e, s2) \<leftarrow> sync_rows sync arr s1;
               if e \<noteq> NoError then Some (Inl e, s2)
               else do {
                 (pe, s3) \<leftarrow> (if arr \<noteq> [] then f (n + 500) s2 else Some (NoError, s2));
                 if pe \<noteq> NoError then Some (Inl pe, s3)
                 else Some (if arr = [] then Inl NoError else Inr (n + 500), s3)
               }
             }))
   }"
proof -
  have paged: "contains ''$'' path_fmt = True" "contains ''page=$'' path_fmt = False"
    using assms by (simp_all add: by_offset_def)
  have req: "(if extra \<noteq> NULL then we_request env path_fmt [int_arg 500, int_arg n, extra] s
      else we_request env path_fmt [int_arg 500, int_arg n] s) = we_request env path_fmt (page_args extra n) s"
    by (simp add: page_args_def BXILL_LIST_LIMIT_def)
  show ?thesis
    unfolding walk_page_def Let_def paged BXILL_LIST_LIMIT_def ptr.case not_True_eq_False if_True if_False req
    by (rule refl)
qed

lemma walk_page_served:
  assumes "serves env path_fmt extra rows" and "by_offset path_fmt"
  shows "walk_page env path_fmt extra False sync on_page (int k) s =
     (let page = take 500 (drop k rows) in do {
        (e, s2) \<leftarrow> sync_rows sync page s;
        if e \<noteq> NoError then Some (Inl e, s2)
        else do {
          (pe, s3) \<leftarrow> (case on_page of
                         NULL \<Rightarrow> Some (NoError, s2)
                       | Ptr f \<Rightarrow> if page \<noteq> [] then f (int k + 500) s2 else Some (NoError, s2));
          if pe \<noteq> NoError then Some (Inl pe, s3)
          else Some (if page = [] then Inl NoError else Inr (int k + 500), s3)
        }
      })"
proof -
  obtain r where r: "we_request env path_fmt (page_args extra (int k)) s = Some (Ptr r, s)"
      "as_array (rq_decoded r) = Ptr (take 500 (drop k rows))"
    using assms(1) unfolding serves_def by blast
  have req: "(if extra \<noteq> NULL
      then we_request env path_fmt [int_arg BXILL_LIST_LIMIT, int_arg (int k), extra] s
      else we_request env path_fmt [int_arg BXILL_LIST_LIMIT, int_arg (int k)] s) = Some (Ptr r, s)"
    using r(1) by (auto simp: page_args_def)
  have paged: "contains ''$'' path_fmt = True" "contains ''page=$'' path_fmt = False"
    using assms(2) by (simp_all add: by_offset_def)
  show ?thesis
    unfolding walk_page_def Let_def paged req
    by (cases on_page) (simp_all add: r(2) BXILL_LIST_LIMIT_def cong: if_cong)
qed

lemma walk_loop_served:
  assumes "serves env path_fmt extra rows" and "by_offset path_fmt"
  shows "walk_loop env path_fmt extra False sync on_page (int k) s
         = walk_rows sync on_page (int k) (drop k rows) s"
proof (induction "length rows - k" arbitrary: k s rule: less_induct)
  case less
  show ?case
  proof (cases "drop k rows = []")
    case True
    then show ?thesis
      by (subst walk_loop.simps)
         (auto simp: walk_page_served [OF assms] walk_rows.simps split: ptr.splits)
  next
    case False
    then have "length rows - (k + 500) < length rows - k" by simp
    then have IH: "walk_loop env path_fmt extra False sync on_page (int k + 500) s'
        = walk_rows sync on_page (int k + 500) (drop 500 (drop k rows)) s'" for s'
      using less [of "k + 500" s'] by (simp add: add.commute)
    show ?thesis
      unfolding walk_loop.simps [of _ _ _ _ _ _ "int k"] walk_page_served [OF assms]
        walk_rows.simps [of _ _ "int k"] Let_def
      using False IH by (cases on_page) (auto split: bind_splits)
  qed
qed

text \<open>Without a page handler, the pages leave no trace: the walk is one pass over the rows.\<close>

lemma walk_rows_flat: "on_page = NULL \<Longrightarrow> walk_rows sync on_page offset rows s = sync_rows sync rows s"
proof (induction sync on_page offset rows s rule: walk_rows.induct)
  case (1 sync on_page offset rows s)
  show ?case
  proof (cases "rows = []")
    case False
    have "sync_rows sync rows s = sync_rows sync (take 500 rows @ drop 500 rows) s" by simp
    also have "\<dots> = do {
        (e, s') \<leftarrow> sync_rows sync (take 500 rows) s;
        if e \<noteq> NoError then Some (e, s') else sync_rows sync (drop 500 rows) s'
      }" by (rule sync_rows_append)
    finally show ?thesis
      using 1 False by (subst walk_rows.simps) (auto split: bind_splits)
  qed (simp add: walk_rows.simps)
qed

lemma walk_rows_returns:
  assumes "\<And>item s. \<exists>r. sync item s = Some r" and "\<And>f n s. on_page = Ptr f \<Longrightarrow> \<exists>r. f n s = Some r"
  shows "\<exists>r. walk_rows sync on_page offset rows s = Some r"
  using assms
proof (induction sync on_page offset rows s rule: walk_rows.induct)
  case (1 sync on_page offset rows s)
  show ?case
  proof (cases "rows = []")
    case False
    obtain e s1 where r: "sync_rows sync (take 500 rows) s = Some (e, s1)"
      using sync_rows_returns [of sync "take 500 rows" s] 1(2) by auto
    obtain pe s2 where p: "(case on_page of NULL \<Rightarrow> Some (NoError, s1) | Ptr f \<Rightarrow> f (offset + 500) s1) = Some (pe, s2)"
    proof (cases on_page)
      case (Ptr f)
      with 1(3) [OF Ptr, of "offset + 500" s1] that show ?thesis by auto
    qed (use that in simp)
    show ?thesis
    proof (cases "e = NoError \<and> pe = NoError")
      case True
      have "\<exists>r. walk_rows sync on_page (offset + 500) (drop 500 rows) s2 = Some r"
        using 1(1) [OF False r refl _ p refl] True 1(2,3) by simp
      with True r p False show ?thesis by (subst walk_rows.simps) simp
    next
      case nok: False
      with r p False show ?thesis by (subst walk_rows.simps) auto
    qed
  qed (simp add: walk_rows.simps)
qed

section \<open>Properties\<close>

definition list_env :: "json list \<Rightarrow> 's walk_env" where
  "list_env rows =
     \<lparr>we_request = \<lambda>path args s.
        (case args of
           _ # Ptr (AInteger i) # _ \<Rightarrow>
             Some (Ptr ((bx_net_request_new path)\<lparr>rq_decoded := Ptr (JArray (take 500 (drop (nat (bi_value i)) rows)))\<rparr>), s)
         | _ \<Rightarrow> Some (NULL, s)),
      we_sleep = \<lambda>s. s\<rparr>"

lemma list_env_serves: "serves (list_env rows) path_fmt extra rows"
  by (simp add: serves_def list_env_def page_args_def int_arg_def as_array_def)

text \<open>
  C12: when the API serves one list, a walk from an offset is one pass over the rest of the
  list: every row from the offset on is handled once and in order, up to the first error,
  and the page handler runs after every 500 rows (and after the last ones) with the offset
  of the next page, never after a row that failed.
\<close>

theorem walk_visits_rows:
  assumes "serves env path_fmt extra rows" and "by_offset path_fmt"
  shows "bx_walk_pages_from env path_fmt extra False sync (int k) on_page s
           = walk_rows sync on_page (int k) (drop k rows) s \<and>
         bx_walk_pages env path_fmt extra False sync s = sync_rows sync rows s"
proof -
  have "first_offset path_fmt (int n) = int n" for n
    using assms(2) by (simp add: first_offset_def by_offset_def)
  then show ?thesis
    using walk_loop_served [OF assms, of sync on_page k s] walk_loop_served [OF assms, of sync NULL 0 s]
      walk_rows_flat [of NULL sync 0 rows s] first_offset_def [of path_fmt 0] assms(2)
    by (simp add: bx_walk_pages_def bx_walk_pages_from_def by_offset_def)
qed

theorem walk_visits_rows_witness:
  "bx_walk_pages (list_env [JInt 1, JInt 2]) ''x?limit=$&offset=$'' NULL False (\<lambda>item s. Some (NoError, s @ [item])) []
   = Some (NoError, [JInt 1, JInt 2])"
  using walk_visits_rows [OF list_env_serves, of "''x?limit=$&offset=$''" "[JInt 1, JInt 2]" NULL
      "\<lambda>item s. Some (NoError, s @ [item])" 0 NULL "[]"]
  by (simp add: by_offset_def is_prefix_def)

text \<open>
  C33: a walk over a list the API serves always returns, whatever the handlers report, as long
  as each call of a handler returns.
\<close>

theorem walk_returns:
  assumes "serves env path_fmt extra rows" and "by_offset path_fmt"
    and "\<And>item s. \<exists>r. sync item s = Some r" and "\<And>f n s. on_page = Ptr f \<Longrightarrow> \<exists>r. f n s = Some r"
  shows "\<exists>e s'. bx_walk_pages_from env path_fmt extra False sync start on_page s = Some (e, s')"
proof -
  have "first_offset path_fmt start = int (nat (max 0 start))"
    using assms(2) by (simp add: first_offset_def by_offset_def max_def)
  moreover have "\<exists>r. walk_rows sync on_page offset rows' s = Some r" for offset rows'
    by (rule walk_rows_returns) (use assms(3,4) in auto)
  ultimately show ?thesis
    using walk_loop_served [OF assms(1,2), of sync on_page "nat (max 0 start)" s]
    by (simp add: bx_walk_pages_from_def)
qed

theorem walk_returns_witness:
  "\<exists>e s'. bx_walk_pages_from (list_env (replicate 1200 JNull)) ''x?limit=$&offset=$'' NULL False
     (\<lambda>item s. Some (NoError, s)) (- 7) (Ptr (\<lambda>n s. Some (NoError, n))) 0 = Some (e, s')"
  by (rule walk_returns [OF list_env_serves]) (auto simp: by_offset_def is_prefix_def)

end
