(* ===== verification/Bx_Conf.thy ===== *)
theory Bx_Conf
  imports Bx_Object
begin

text \<open>
  The configuration of \<open>src/src/bx_conf.c\<close>: a list of values keyed by the XXH3 hash of their
  name, read from a JSON file, then overlaid by the rows of the table \<open>_configuration\<close>, and
  written back one row at a time. The hash, the conversion of a double and the MySQL client
  are arguments; the state of the server is an arbitrary type \<open>'w\<close>.
\<close>

section \<open>Data\<close>

datatype BXConfValueType = StringType | ByteType | IntegerType | FloatType | BoolType | BlobType

record BXConfValue =
  cv_key :: u64
  cv_type :: BXConfValueType
  cv_s_value :: "string ptr"
  cv_i_value :: int
  cv_f_value :: u64
  cv_b_value :: "string ptr"
  cv_b_len :: nat

type_synonym BXConf = "BXConfValue list"

text \<open>What the untyped \<open>value\<close> pointer of a call points to, for each type.\<close>

datatype conf_arg =
    CString string | CByte u8 | CInteger int | CFloat u64 | CBool bool | CBlob "string ptr" nat

fun arg_type :: "conf_arg \<Rightarrow> BXConfValueType" where
  "arg_type (CString s) = StringType"
| "arg_type (CByte b) = ByteType"
| "arg_type (CInteger i) = IntegerType"
| "arg_type (CFloat f) = FloatType"
| "arg_type (CBool b) = BoolType"
| "arg_type (CBlob d n) = BlobType"

definition to_int32 :: "int \<Rightarrow> int" where
  \<comment> \<open>the conversion of a wider integer to \<open>int\<close>\<close>
  "to_int32 v = sint (word_of_int v :: u32)"

datatype sql_value = SqlNull | SqlInt int | SqlText string

record 'w mysql =
  my_connect :: "string \<Rightarrow> string \<Rightarrow> string ptr \<Rightarrow> string \<Rightarrow> 'w \<Rightarrow> bool \<times> 'w"
  my_query :: "string \<Rightarrow> 'w \<Rightarrow> bool \<times> 'w"
  my_select :: "string \<Rightarrow> 'w \<Rightarrow> string ptr list list ptr \<times> 'w"
  my_execute :: "string \<Rightarrow> sql_value list \<Rightarrow> 'w \<Rightarrow> bool \<times> 'w"

section \<open>Values in memory\<close>

fun bx_conf_get :: "(string \<Rightarrow> u64) \<Rightarrow> BXConf \<Rightarrow> string \<Rightarrow> BXConfValue ptr" where
  "bx_conf_get xxh [] k = NULL"
| "bx_conf_get xxh (v # vs) k = (if cv_key v = xxh k then Ptr v else bx_conf_get xxh vs k)"

definition clear_value :: "BXConfValue \<Rightarrow> BXConfValue" where
  "clear_value v = v\<lparr>cv_s_value := NULL, cv_b_value := NULL, cv_b_len := 0, cv_i_value := 0, cv_f_value := 0\<rparr>"

definition fill_value :: "BXConfValue \<Rightarrow> conf_arg \<Rightarrow> BXConfValue" where
  "fill_value v arg =
     (let v' = (clear_value v)\<lparr>cv_type := arg_type arg\<rparr> in
      case arg of
        CBool b \<Rightarrow> v'\<lparr>cv_i_value := (if b then 1 else 0)\<rparr>
      | CInteger i \<Rightarrow> v'\<lparr>cv_i_value := i\<rparr>
      | CString s \<Rightarrow> v'\<lparr>cv_s_value := Ptr s\<rparr>
      | CFloat f \<Rightarrow> v'\<lparr>cv_f_value := f\<rparr>
      | CByte b \<Rightarrow> v'\<lparr>cv_i_value := int (unat b)\<rparr>
      | CBlob d n \<Rightarrow>
          (case d of
             NULL \<Rightarrow> v'
           | Ptr bytes \<Rightarrow> if n = 0 then v' else v'\<lparr>cv_b_value := Ptr (take n bytes), cv_b_len := n\<rparr>))"

text \<open>A value fresh from \<open>calloc\<close>: its type, 0, is no type of the enumeration until it is filled.\<close>

definition new_value :: "u64 \<Rightarrow> BXConfValue" where
  "new_value k = \<lparr>cv_key = k, cv_type = StringType, cv_s_value = NULL, cv_i_value = 0,
     cv_f_value = 0, cv_b_value = NULL, cv_b_len = 0\<rparr>"

fun bx_conf_set :: "(string \<Rightarrow> u64) \<Rightarrow> BXConf \<Rightarrow> string \<Rightarrow> conf_arg \<Rightarrow> BXConf" where
  "bx_conf_set xxh [] k arg = [fill_value (new_value (xxh k)) arg]"
| "bx_conf_set xxh (v # vs) k arg =
     (if cv_key v = xxh k then fill_value v arg # vs else v # bx_conf_set xxh vs k arg)"

definition bx_conf_get_string :: "(string \<Rightarrow> u64) \<Rightarrow> BXConf \<Rightarrow> string \<Rightarrow> string ptr" where
  "bx_conf_get_string xxh conf k =
     (case bx_conf_get xxh conf k of
        NULL \<Rightarrow> NULL
      | Ptr v \<Rightarrow> if cv_type v \<noteq> StringType then NULL else cv_s_value v)"

definition bx_conf_get_int :: "(string \<Rightarrow> u64) \<Rightarrow> BXConf \<Rightarrow> string \<Rightarrow> int" where
  "bx_conf_get_int xxh conf k =
     (case bx_conf_get xxh conf k of
        NULL \<Rightarrow> 0
      | Ptr v \<Rightarrow> if cv_type v \<noteq> IntegerType \<and> cv_type v \<noteq> BoolType then 0 else cv_i_value v)"

section \<open>The file\<close>

text \<open>\<open>jroot\<close> is what \<open>json_loadf\<close> makes of the file, NULL when it cannot be opened or parsed.\<close>

definition loadfile_value :: "json \<Rightarrow> conf_arg option" where
  "loadfile_value v =
     (case v of
        JString s \<Rightarrow> Some (CString (cstr s))
      | JInt i \<Rightarrow> Some (CInteger (to_int32 i))
      | JReal r \<Rightarrow> Some (CFloat r)
      | JTrue \<Rightarrow> Some (CBool True)
      | JFalse \<Rightarrow> Some (CBool False)
      | _ \<Rightarrow> None)"

fun loadfile_loop :: "(string \<Rightarrow> u64) \<Rightarrow> (string \<times> json) list \<Rightarrow> BXConf \<Rightarrow> BXConf" where
  "loadfile_loop xxh [] conf = conf"
| "loadfile_loop xxh ((k, v) # kvs) conf =
     loadfile_loop xxh kvs
       (case loadfile_value v of None \<Rightarrow> conf | Some arg \<Rightarrow> bx_conf_set xxh conf k arg)"

definition bx_conf_loadfile :: "(string \<Rightarrow> u64) \<Rightarrow> json ptr \<Rightarrow> BXConf \<Rightarrow> bool \<times> BXConf" where
  "bx_conf_loadfile xxh jroot conf =
     (case jroot of Ptr (JObject kvs) \<Rightarrow> (True, loadfile_loop xxh kvs conf) | _ \<Rightarrow> (False, conf))"

section \<open>The table\<close>

fun type_is :: "string ptr \<Rightarrow> string \<Rightarrow> string ptr \<Rightarrow> bool" where
  "type_is NULL a b = False"
| "type_is (Ptr t) a b = (strcaseeq t a \<or> (case b of NULL \<Rightarrow> False | Ptr b' \<Rightarrow> strcaseeq t b'))"

definition is_mysql_name :: "string \<Rightarrow> bool" where
  "is_mysql_name name \<longleftrightarrow> is_prefix ''mysql-'' name"

text \<open>
  \<open>strtod_end\<close> is \<open>strtod\<close> with the test of its end pointer: \<open>None\<close> when nothing was converted.
\<close>

definition apply_database_row ::
    "(string \<Rightarrow> u64) \<Rightarrow> (string \<Rightarrow> u64 option) \<Rightarrow> string ptr \<Rightarrow> string ptr \<Rightarrow> string ptr \<Rightarrow> string ptr
     \<Rightarrow> string ptr \<Rightarrow> nat \<Rightarrow> string ptr \<Rightarrow> BXConf \<Rightarrow> bool \<times> BXConf" where
  "apply_database_row xxh strtod_end name type ival cval bval bval_len fval conf =
     (case name of
        NULL \<Rightarrow> (True, conf)
      | Ptr n \<Rightarrow>
          if n = [] \<or> is_mysql_name n then (True, conf)
          else if type_is type ''string'' (Ptr ''text'') \<or> type_is type ''char'' (Ptr ''varchar'') then
            (case cval of NULL \<Rightarrow> (False, conf) | Ptr s \<Rightarrow> (True, bx_conf_set xxh conf n (CString s)))
          else if type_is type ''integer'' (Ptr ''int'') then
            (case ival of
               NULL \<Rightarrow> (False, conf)
             | Ptr s \<Rightarrow>
                 (case strtol s of
                    None \<Rightarrow> (False, conf)
                  | Some (parsed, _) \<Rightarrow> (True, bx_conf_set xxh conf n (CInteger (to_int32 parsed)))))
          else if type_is type ''bool'' (Ptr ''boolean'') then
            (case ival of
               NULL \<Rightarrow> (False, conf)
             | Ptr s \<Rightarrow> (True, bx_conf_set xxh conf n (CBool (strtol_value s \<noteq> 0))))
          else if type_is type ''float'' (Ptr ''double'') \<or> type_is type ''real'' NULL then
            (case fval of
               NULL \<Rightarrow> (False, conf)
             | Ptr s \<Rightarrow>
                 (case strtod_end s of
                    None \<Rightarrow> (False, conf)
                  | Some f \<Rightarrow> (True, bx_conf_set xxh conf n (CFloat f))))
          else if type_is type ''blob'' (Ptr ''byte'') \<or> type_is type ''bytes'' (Ptr ''binary'') then
            (True, bx_conf_set xxh conf n (CBlob bval (if bval = NULL then 0 else bval_len)))
          else (False, conf))"

definition BX_CONF_TABLE_SQL :: string where
  "BX_CONF_TABLE_SQL = ''CREATE TABLE IF NOT EXISTS _configuration ('' @
     '' id BIGINT UNSIGNED NOT NULL AUTO_INCREMENT,'' @ '' name VARCHAR(191) NOT NULL,'' @
     '' type VARCHAR(32) NOT NULL,'' @ '' ival INTEGER NULL,'' @ '' cval TEXT NULL,'' @
     '' bval BLOB NULL,'' @ '' fval DOUBLE NULL,'' @ '' PRIMARY KEY (id),'' @
     '' UNIQUE KEY configuration_name (name)'' @ '')''"

definition CONF_SELECT_SQL :: string where
  "CONF_SELECT_SQL = ''SELECT name, type, ival, cval, bval, fval '' @ ''FROM _configuration ORDER BY id''"

definition CONF_PUT_SQL :: string where
  "CONF_PUT_SQL = ''INSERT INTO _configuration (name, type, ival, cval) '' @
     ''VALUES (?, ?, ?, ?) '' @
     ''ON DUPLICATE KEY UPDATE type = VALUES(type), ival = VALUES(ival), '' @
     ''cval = VALUES(cval), bval = NULL, fval = NULL''"

definition conf_connect :: "(string \<Rightarrow> u64) \<Rightarrow> 'w mysql \<Rightarrow> BXConf \<Rightarrow> 'w \<Rightarrow> bool \<times> 'w" where
  "conf_connect xxh my conf w =
     (case (bx_conf_get_string xxh conf ''mysql-host'', bx_conf_get_string xxh conf ''mysql-user'',
            bx_conf_get_string xxh conf ''mysql-database'') of
        (Ptr host, Ptr user, Ptr database) \<Rightarrow>
          (case my_connect my host user (bx_conf_get_string xxh conf ''mysql-password'') database w of
             (False, w1) \<Rightarrow> (False, w1)
           | (True, w1) \<Rightarrow> my_query my BX_CONF_TABLE_SQL w1)
      | _ \<Rightarrow> (False, w))"

fun load_rows :: "(string \<Rightarrow> u64) \<Rightarrow> (string \<Rightarrow> u64 option) \<Rightarrow> string ptr list list \<Rightarrow> BXConf \<Rightarrow> BXConf" where
  "load_rows xxh strtod_end [] conf = conf"
| "load_rows xxh strtod_end ([name, type, ival, cval, bval, fval] # rows) conf =
     load_rows xxh strtod_end rows
       (snd (apply_database_row xxh strtod_end name type ival cval bval
          (case bval of NULL \<Rightarrow> 0 | Ptr b \<Rightarrow> length b) fval conf))"
| "load_rows xxh strtod_end (_ # rows) conf = conf"

definition bx_conf_load_database ::
    "(string \<Rightarrow> u64) \<Rightarrow> (string \<Rightarrow> u64 option) \<Rightarrow> 'w mysql \<Rightarrow> BXConf \<Rightarrow> 'w \<Rightarrow> bool \<times> BXConf \<times> 'w" where
  "bx_conf_load_database xxh strtod_end my conf w =
     (case conf_connect xxh my conf w of
        (False, w1) \<Rightarrow> (False, conf, w1)
      | (True, w1) \<Rightarrow>
          (case my_select my CONF_SELECT_SQL w1 of
             (NULL, w2) \<Rightarrow> (False, conf, w2)
           | (Ptr rows, w2) \<Rightarrow> (True, load_rows xxh strtod_end rows conf, w2)))"

definition bx_conf_put_database_conn ::
    "(string \<Rightarrow> u64) \<Rightarrow> 'w mysql \<Rightarrow> BXConf \<Rightarrow> string \<Rightarrow> conf_arg \<Rightarrow> 'w \<Rightarrow> bool \<times> BXConf \<times> 'w" where
  "bx_conf_put_database_conn xxh my conf name arg w =
     (if is_mysql_name name then (False, conf, w)
      else case (case arg of
                   CString s \<Rightarrow> Some [SqlText ''string'', SqlNull, SqlText s]
                 | CInteger i \<Rightarrow> Some [SqlText ''integer'', SqlInt i, SqlNull]
                 | CBool b \<Rightarrow> Some [SqlText ''bool'', SqlInt (if b then 1 else 0), SqlNull]
                 | _ \<Rightarrow> None) of
             None \<Rightarrow> (False, conf, w)
           | Some params \<Rightarrow>
               (case my_execute my CONF_PUT_SQL (SqlText name # params) w of
                  (False, w1) \<Rightarrow> (False, conf, w1)
                | (True, w1) \<Rightarrow> (True, bx_conf_set xxh conf name arg, w1)))"

definition bx_conf_put_database ::
    "(string \<Rightarrow> u64) \<Rightarrow> 'w mysql \<Rightarrow> BXConf \<Rightarrow> string \<Rightarrow> conf_arg \<Rightarrow> 'w \<Rightarrow> bool \<times> BXConf \<times> 'w" where
  "bx_conf_put_database xxh my conf name arg w =
     (case conf_connect xxh my conf w of
        (False, w1) \<Rightarrow> (False, conf, w1)
      | (True, w1) \<Rightarrow> bx_conf_put_database_conn xxh my conf name arg w1)"

section \<open>The contract of the settings\<close>

text \<open>
  Clients see a store of cells addressed by the hash of a name: a write replaces the cell of
  its name and no other.
\<close>

locale settings =
  fixes hash :: "string \<Rightarrow> u64"
    and lookup :: "'c \<Rightarrow> string \<Rightarrow> 'v ptr"
    and store :: "'c \<Rightarrow> string \<Rightarrow> 'a \<Rightarrow> 'c"
    and cell :: "u64 \<Rightarrow> 'a \<Rightarrow> 'v"
  assumes lookup_store: "lookup (store c k a) k' = (if hash k' = hash k then Ptr (cell (hash k) a) else lookup c k')"
begin

lemma store_twice: "lookup (store (store c k a) k b) k' = lookup (store c k b) k'"
  by (simp add: lookup_store)

lemma store_commutes:
  "hash k1 \<noteq> hash k2 \<Longrightarrow> lookup (store (store c k1 a) k2 b) k' = lookup (store (store c k2 b) k1 a) k'"
  by (simp add: lookup_store)

lemma store_list_untouched:
  "list_all (\<lambda>(k, a). hash k \<noteq> hash k') kas \<Longrightarrow> lookup (fold (\<lambda>(k, a) c. store c k a) kas c) k' = lookup c k'"
  by (induction kas arbitrary: c) (auto simp: lookup_store)

text \<open>The last write to a name wins.\<close>

lemma store_list_last:
  assumes "list_all (\<lambda>(k', a). hash k' \<noteq> hash k) post"
  shows "lookup (fold (\<lambda>(k, a) c. store c k a) (pre @ (k, a) # post) c) k = Ptr (cell (hash k) a)"
  using store_list_untouched [OF assms] by (simp add: lookup_store)

end

definition conf_cell :: "u64 \<Rightarrow> conf_arg \<Rightarrow> BXConfValue" where
  "conf_cell k arg = fill_value (new_value k) arg"

lemma fill_value_key [simp]: "cv_key (fill_value v arg) = cv_key v"
  by (cases arg) (auto simp: fill_value_def clear_value_def Let_def split: ptr.splits)

text \<open>A value that is filled again keeps nothing of what it held.\<close>

lemma fill_value_fresh: "fill_value v arg = conf_cell (cv_key v) arg"
  by (cases v; cases arg) (auto simp: conf_cell_def fill_value_def clear_value_def new_value_def Let_def split: ptr.splits)

lemma conf_cell_key [simp]: "cv_key (conf_cell k arg) = k"
  by (simp add: conf_cell_def new_value_def)

lemma conf_get_set:
  "bx_conf_get xxh (bx_conf_set xxh conf k arg) k' =
     (if xxh k' = xxh k then Ptr (conf_cell (xxh k) arg) else bx_conf_get xxh conf k')"
  by (induction conf) (auto simp: fill_value_fresh new_value_def)

interpretation conf: settings xxh "bx_conf_get xxh" "bx_conf_set xxh" conf_cell for xxh
  by unfold_locales (rule conf_get_set)

lemma conf_cell_read:
  "cv_type (conf_cell h (CString s)) = StringType" "cv_s_value (conf_cell h (CString s)) = Ptr s"
  "cv_type (conf_cell h (CInteger i)) = IntegerType" "cv_i_value (conf_cell h (CInteger i)) = i"
  "cv_type (conf_cell h (CBool b)) = BoolType" "cv_i_value (conf_cell h (CBool b)) = (if b then 1 else 0)"
  by (simp_all add: conf_cell_def fill_value_def clear_value_def new_value_def Let_def)

lemmas conf_read_simps = bx_conf_get_string_def bx_conf_get_int_def conf_get_set conf_cell_read

section \<open>Rows of the table\<close>

text \<open>The write a row stands for, if any.\<close>

definition row_write :: "(string \<Rightarrow> u64 option) \<Rightarrow> string ptr list \<Rightarrow> (string \<times> conf_arg) option" where
  "row_write strtod_end row =
     (case row of
        [Ptr n, type, ival, cval, bval, fval] \<Rightarrow>
          if n = [] \<or> is_mysql_name n then None
          else if type_is type ''string'' (Ptr ''text'') \<or> type_is type ''char'' (Ptr ''varchar'') then
            (case cval of NULL \<Rightarrow> None | Ptr s \<Rightarrow> Some (n, CString s))
          else if type_is type ''integer'' (Ptr ''int'') then
            (case ival of NULL \<Rightarrow> None
             | Ptr s \<Rightarrow> (case strtol s of None \<Rightarrow> None | Some (v, _) \<Rightarrow> Some (n, CInteger (to_int32 v))))
          else if type_is type ''bool'' (Ptr ''boolean'') then
            (case ival of NULL \<Rightarrow> None | Ptr s \<Rightarrow> Some (n, CBool (strtol_value s \<noteq> 0)))
          else if type_is type ''float'' (Ptr ''double'') \<or> type_is type ''real'' NULL then
            (case fval of NULL \<Rightarrow> None
             | Ptr s \<Rightarrow> (case strtod_end s of None \<Rightarrow> None | Some f \<Rightarrow> Some (n, CFloat f)))
          else if type_is type ''blob'' (Ptr ''byte'') \<or> type_is type ''bytes'' (Ptr ''binary'') then
            Some (n, CBlob bval (case bval of NULL \<Rightarrow> 0 | Ptr b \<Rightarrow> length b))
          else None
      | _ \<Rightarrow> None)"

definition row_writes :: "(string \<Rightarrow> u64 option) \<Rightarrow> string ptr list list \<Rightarrow> (string \<times> conf_arg) list" where
  "row_writes strtod_end rows = List.map_filter (row_write strtod_end) rows"

definition six_columns :: "string ptr list list \<Rightarrow> bool" where
  "six_columns rows \<longleftrightarrow> list_all (\<lambda>row. length row = 6) rows"

lemma apply_row_write:
  "snd (apply_database_row xxh strtod_end name type ival cval bval
      (case bval of NULL \<Rightarrow> 0 | Ptr b \<Rightarrow> length b) fval conf)
   = (case row_write strtod_end [name, type, ival, cval, bval, fval] of
        None \<Rightarrow> conf | Some (k, a) \<Rightarrow> bx_conf_set xxh conf k a)"
  by (cases name) (simp_all add: apply_database_row_def row_write_def split: ptr.split option.split)

lemma load_rows_writes:
  "six_columns rows \<Longrightarrow>
   load_rows xxh strtod_end rows conf
   = fold (\<lambda>(k, a) c. bx_conf_set xxh c k a) (row_writes strtod_end rows) conf"
proof (induction rows arbitrary: conf)
  case (Cons row rows)
  then obtain name type ival cval bval fval where row: "row = [name, type, ival, cval, bval, fval]"
    by (auto simp: six_columns_def length_Suc_conv numeral_eq_Suc)
  with Cons show ?case
    by (auto simp: six_columns_def row_writes_def map_filter_simps apply_row_write split: option.splits)
qed (simp add: row_writes_def map_filter_simps)

lemma row_write_name:
  "row_write strtod_end row = Some (k, a) \<Longrightarrow> row ! 0 = Ptr k \<and> k \<noteq> [] \<and> \<not> is_mysql_name k"
  by (auto simp: row_write_def split: list.splits ptr.splits if_splits option.splits)

lemma row_writes_names:
  "(\<And>row n. row \<in> set rows \<Longrightarrow> row ! 0 = Ptr n \<Longrightarrow> \<not> is_mysql_name n \<Longrightarrow> P n) \<Longrightarrow>
   list_all (\<lambda>(n, a). P n) (row_writes strtod_end rows)"
proof (induction rows)
  case (Cons row rows)
  have "P n" if "row_write strtod_end row = Some (n, a)" for n a
    using row_write_name [OF that] Cons.prems [of row n] by simp
  with Cons show ?case
    by (auto simp: row_writes_def map_filter_simps split: option.splits)
qed (simp add: row_writes_def map_filter_simps)

text \<open>
  The documented behaviour of the server for the statements of this file: the selection
  returns the table, one row of six columns per name; connecting and creating the table if
  it does not exist leave its rows; the insertion with \<open>ON DUPLICATE KEY UPDATE\<close> leaves the
  row it was given.
\<close>

fun sql_cell :: "sql_value \<Rightarrow> string ptr" where
  "sql_cell SqlNull = NULL"
| "sql_cell (SqlInt i) = Ptr (dec_int i)"
| "sql_cell (SqlText s) = Ptr s"

definition conf_table_law :: "'w mysql \<Rightarrow> ('w \<Rightarrow> string ptr list list) \<Rightarrow> bool" where
  "conf_table_law my table \<longleftrightarrow>
     (\<forall>w. fst (my_select my CONF_SELECT_SQL w) = Ptr (table w)) \<and>
     (\<forall>w. six_columns (table w) \<and> distinct (map (\<lambda>row. row ! 0) (table w))) \<and>
     (\<forall>h u p d w. table (snd (my_connect my h u p d w)) = table w) \<and>
     (\<forall>w. table (snd (my_query my BX_CONF_TABLE_SQL w)) = table w) \<and>
     (\<forall>name type ival cval w w'.
        my_execute my CONF_PUT_SQL [SqlText name, SqlText type, ival, cval] w = (True, w') \<longrightarrow>
        [Ptr name, Ptr type, sql_cell ival, sql_cell cval, NULL, NULL] \<in> set (table w'))"

lemma connect_keeps_table:
  assumes "conf_table_law my table" and "conf_connect xxh my conf w = (ok, w')"
  shows "table w' = table w"
proof -
  have "table (snd (my_connect my h u p d w1)) = table w1" "table (snd (my_query my BX_CONF_TABLE_SQL w1)) = table w1"
    for h u p d w1 using assms(1) by (simp_all add: conf_table_law_def)
  then show ?thesis
    using assms(2) by (auto simp: conf_connect_def split: ptr.splits prod.splits bool.splits) (metis snd_conv)+
qed

text \<open>No other name of the table has the hash of this one.\<close>

definition own_hash :: "(string \<Rightarrow> u64) \<Rightarrow> string ptr list list \<Rightarrow> string \<Rightarrow> bool" where
  "own_hash xxh rows name \<longleftrightarrow>
     list_all (\<lambda>row. case row ! 0 of NULL \<Rightarrow> True | Ptr n \<Rightarrow> n = name \<or> xxh n \<noteq> xxh name) rows"

text \<open>A row of the table is what the overlay gives for its name.\<close>

lemma load_rows_reads:
  assumes cols: "six_columns rows" and dist: "distinct (map (\<lambda>row. row ! 0) rows)"
    and row: "[Ptr name, type, ival, cval, bval, fval] \<in> set rows"
    and hash: "own_hash xxh rows name"
    and w: "row_write strtod_end [Ptr name, type, ival, cval, bval, fval] = Some (name, arg)"
  shows "bx_conf_get xxh (load_rows xxh strtod_end rows conf) name = Ptr (conf_cell (xxh name) arg)"
proof -
  obtain pre post where rows: "rows = pre @ [Ptr name, type, ival, cval, bval, fval] # post"
    using split_list [OF row] by blast
  have "xxh n \<noteq> xxh name" if "r \<in> set post" "r ! 0 = Ptr n" for r n
  proof -
    have "Ptr n \<in> (\<lambda>row. row ! 0) ` set post" using that by force
    then have "n \<noteq> name" using dist by (auto simp: rows)
    then show ?thesis using hash that by (auto simp: rows own_hash_def list_all_iff split: ptr.splits)
  qed
  then have "list_all (\<lambda>(n, a). xxh n \<noteq> xxh name) (row_writes strtod_end post)"
    by (rule row_writes_names)
  moreover have "row_writes strtod_end rows = row_writes strtod_end pre @ (name, arg) # row_writes strtod_end post"
    using w by (simp add: row_writes_def rows map_filter_def)
  ultimately show ?thesis
    unfolding load_rows_writes [OF cols] by (simp only: conf.store_list_last)
qed

lemma put_then_load:
  assumes law: "conf_table_law my table"
    and put: "bx_conf_put_database_conn xxh my conf name (CString s) w = (True, conf1, w1)"
    and start: "conf_connect xxh my conf2 w1 = (True, w2)" and name: "name \<noteq> []"
    and hash: "own_hash xxh (table w1) name"
  shows "\<exists>conf3 w3. bx_conf_load_database xxh strtod_end my conf2 w1 = (True, conf3, w3) \<and>
           bx_conf_get_string xxh conf3 name = Ptr s \<and> bx_conf_get_string xxh conf1 name = Ptr s"
proof -
  have nm: "\<not> is_mysql_name name" and ex: "my_execute my CONF_PUT_SQL
      [SqlText name, SqlText ''string'', SqlNull, SqlText s] w = (True, w1)"
    and c1: "conf1 = bx_conf_set xxh conf name (CString s)"
    using put by (auto simp: bx_conf_put_database_conn_def split: if_splits prod.splits bool.splits)
  have row: "[Ptr name, Ptr ''string'', NULL, Ptr s, NULL, NULL] \<in> set (table w1)"
    using law ex unfolding conf_table_law_def by fastforce
  have "row_write strtod_end [Ptr name, Ptr ''string'', NULL, Ptr s, NULL, NULL] = Some (name, CString s)"
    using nm name by (simp add: row_write_def strcaseeq_def)
  then have "bx_conf_get xxh (load_rows xxh strtod_end (table w1) conf2) name = Ptr (conf_cell (xxh name) (CString s))"
    using law hash row by (intro load_rows_reads) (auto simp: conf_table_law_def)
  moreover have "table w2 = table w1" by (rule connect_keeps_table [OF law start])
  moreover have "fst (my_select my CONF_SELECT_SQL w2) = Ptr (table w2)"
    using law by (simp add: conf_table_law_def)
  ultimately show ?thesis
    using start c1
    by (cases "my_select my CONF_SELECT_SQL w2") (simp add: bx_conf_load_database_def conf_read_simps)
qed

section \<open>Properties\<close>

text \<open>
  A value kept in memory reads back as it was set, and setting one name changes no name
  with another hash; a list with several values under one name cannot arise from setting.
\<close>

theorem conf_set_get:
  "bx_conf_get_string xxh (bx_conf_set xxh conf k (CString s)) k = Ptr s \<and>
   bx_conf_get_int xxh (bx_conf_set xxh conf k (CInteger i)) k = i \<and>
   bx_conf_get_int xxh (bx_conf_set xxh conf k (CBool b)) k = (if b then 1 else 0) \<and>
   (xxh k' \<noteq> xxh k \<longrightarrow>
      bx_conf_get_string xxh (bx_conf_set xxh conf k arg) k' = bx_conf_get_string xxh conf k' \<and>
      bx_conf_get_int xxh (bx_conf_set xxh conf k arg) k' = bx_conf_get_int xxh conf k') \<and>
   (distinct (map cv_key conf) \<longrightarrow> distinct (map cv_key (bx_conf_set xxh conf k arg)))"
proof -
  have keys: "cv_key ` set (bx_conf_set xxh conf k arg) \<subseteq> insert (xxh k) (cv_key ` set conf)"
    for conf by (induction conf) (auto simp: fill_value_fresh new_value_def)
  have "distinct (map cv_key conf) \<longrightarrow> distinct (map cv_key (bx_conf_set xxh conf k arg))"
  proof (induction conf)
    case (Cons v conf)
    then show ?case using keys [of conf] by auto
  qed simp
  then show ?thesis by (simp add: conf_read_simps)
qed

theorem conf_set_get_witness:
  "bx_conf_get_int (\<lambda>k. if k = ''a'' then 1 else 2) (bx_conf_set (\<lambda>k. if k = ''a'' then 1 else 2)
     [conf_cell 2 (CInteger 9)] ''a'' (CBool True)) ''b'' = 9"
  using conf_set_get [of "\<lambda>k. if k = ''a'' then 1 else 2" "[conf_cell 2 (CInteger 9)]" "''a''" "[]" 0 True "''b''" "CBool True"]
  by (simp add: bx_conf_get_int_def conf_cell_read)

text \<open>
  C31: the overlay by the table never changes a connection setting: a name that starts with
  \<open>mysql-\<close> reads as the file gave it, whatever the rows hold, unless a row's name has the
  same hash.
\<close>

theorem conf_overlay_keeps_connection:
  assumes "bx_conf_load_database xxh strtod_end my conf w = (ok, conf', w')"
    and "\<And>rows w1 w2. my_select my CONF_SELECT_SQL w1 = (Ptr rows, w2) \<Longrightarrow> six_columns rows \<and>
           (\<forall>row\<in>set rows. \<forall>n. row ! 0 = Ptr n \<and> \<not> is_mysql_name n \<longrightarrow> xxh n \<noteq> xxh k)"
    and "is_mysql_name k"
  shows "bx_conf_get_string xxh conf' k = bx_conf_get_string xxh conf k"
proof -
  have "bx_conf_get xxh (load_rows xxh strtod_end rows conf) k = bx_conf_get xxh conf k"
    if "my_select my CONF_SELECT_SQL w1 = (Ptr rows, w2)" for rows w1 w2
  proof -
    have rows: "six_columns rows" "\<forall>row\<in>set rows. \<forall>n. row ! 0 = Ptr n \<and> \<not> is_mysql_name n \<longrightarrow> xxh n \<noteq> xxh k"
      using assms(2) [OF that] by auto
    then have "list_all (\<lambda>(n, a). xxh n \<noteq> xxh k) (row_writes strtod_end rows)"
      by (intro row_writes_names) blast
    then show ?thesis
      unfolding load_rows_writes [OF rows(1)] by (rule conf.store_list_untouched)
  qed
  then show ?thesis
    using assms(1)
    by (auto simp: bx_conf_load_database_def bx_conf_get_string_def split: prod.splits bool.splits ptr.splits)
qed

definition one_row_mysql :: "string ptr list \<Rightarrow> unit mysql" where
  "one_row_mysql row = \<lparr>my_connect = \<lambda>_ _ _ _ w. (True, w), my_query = \<lambda>_ w. (True, w),
     my_select = \<lambda>_ w. (Ptr [row], w), my_execute = \<lambda>_ _ w. (True, w)\<rparr>"

theorem conf_overlay_keeps_connection_witness:
  "bx_conf_get_string (\<lambda>k. of_nat (length k))
     (fst (snd (bx_conf_load_database (\<lambda>k. of_nat (length k)) (\<lambda>_. None)
        (one_row_mysql [Ptr ''uid'', Ptr ''int'', Ptr ''3'', NULL, NULL, NULL])
        [conf_cell 10 (CString ''db'')] ()))) ''mysql-host'' = Ptr ''db''"
  using conf_overlay_keeps_connection [of "\<lambda>k. of_nat (length k)" "\<lambda>_. None"
      "one_row_mysql [Ptr ''uid'', Ptr ''int'', Ptr ''3'', NULL, NULL, NULL]"
      "[conf_cell 10 (CString ''db'')]" "()"
      "fst (bx_conf_load_database (\<lambda>k. of_nat (length k)) (\<lambda>_. None)
        (one_row_mysql [Ptr ''uid'', Ptr ''int'', Ptr ''3'', NULL, NULL, NULL])
        [conf_cell 10 (CString ''db'')] ())"
      "fst (snd (bx_conf_load_database (\<lambda>k. of_nat (length k)) (\<lambda>_. None)
        (one_row_mysql [Ptr ''uid'', Ptr ''int'', Ptr ''3'', NULL, NULL, NULL])
        [conf_cell 10 (CString ''db'')] ()))" "()" "''mysql-host''"]
  by (simp add: one_row_mysql_def six_columns_def is_mysql_name_def is_prefix_def
      bx_conf_get_string_def conf_cell_read prod_eq_iff)

text \<open>
  C32: a string written to the table is what a later start reads for its name: the write
  succeeds only with the row in the table, and the overlay of any configuration that can
  connect gives that string, and the configuration that wrote it holds it as well.
\<close>

theorem conf_put_then_load:
  assumes law: "conf_table_law my table"
    and put: "bx_conf_put_database_conn xxh my conf name (CString s) w = (True, conf1, w1)"
    and start: "conf_connect xxh my conf2 w1 = (True, w2)" and name: "name \<noteq> []"
    and hash: "own_hash xxh (table w1) name"
  shows "\<exists>conf3 w3. bx_conf_load_database xxh strtod_end my conf2 w1 = (True, conf3, w3) \<and>
           bx_conf_get_string xxh conf3 name = Ptr s \<and> bx_conf_get_string xxh conf1 name = Ptr s"
  using put_then_load [OF law put start name hash] by blast

text \<open>A server whose table has room for one row.\<close>

definition last_row :: "(string \<times> string \<times> sql_value \<times> sql_value) option \<Rightarrow> string ptr list list" where
  "last_row w = (case w of None \<Rightarrow> []
     | Some (n, t, i, c) \<Rightarrow> [[Ptr n, Ptr t, sql_cell i, sql_cell c, NULL, NULL]])"

definition last_row_mysql :: "(string \<times> string \<times> sql_value \<times> sql_value) option mysql" where
  "last_row_mysql = \<lparr>my_connect = \<lambda>_ _ _ _ w. (True, w), my_query = \<lambda>_ w. (True, w),
     my_select = \<lambda>_ w. (Ptr (last_row w), w),
     my_execute = \<lambda>_ ps w. (case ps of [SqlText n, SqlText t, i, c] \<Rightarrow> (True, Some (n, t, i, c)) | _ \<Rightarrow> (False, w))\<rparr>"

lemma last_row_law: "conf_table_law last_row_mysql last_row"
  by (auto simp: conf_table_law_def last_row_mysql_def last_row_def six_columns_def split: option.splits)

theorem conf_put_then_load_witness:
  "\<exists>conf3 w3. bx_conf_load_database (\<lambda>k. of_nat (length k)) (\<lambda>_. None) last_row_mysql
       [conf_cell 10 (CString ''db''), conf_cell 14 (CString ''x'')]
       (Some (''sync-chain'', ''string'', SqlNull, SqlText ''project:500'')) = (True, conf3, w3) \<and>
     bx_conf_get_string (\<lambda>k. of_nat (length k)) conf3 ''sync-chain'' = Ptr ''project:500''"
  using conf_put_then_load [OF last_row_law, of "\<lambda>k. of_nat (length k)" "[]" "''sync-chain''" "''project:500''" None
      "[conf_cell 10 (CString ''project:500'')]" "Some (''sync-chain'', ''string'', SqlNull, SqlText ''project:500'')"
      "[conf_cell 10 (CString ''db''), conf_cell 14 (CString ''x'')]"
      "Some (''sync-chain'', ''string'', SqlNull, SqlText ''project:500'')" "\<lambda>_. None"]
  by (auto simp: last_row_mysql_def last_row_def bx_conf_put_database_conn_def conf_connect_def
      bx_conf_get_string_def is_mysql_name_def is_prefix_def conf_cell_read fill_value_fresh new_value_def own_hash_def)

end
