(* ===== verification/Bx_Chain.thy ===== *)
theory Bx_Chain
  imports Bx_Walk Bx_Conf Bx_Ids_Cache
begin

text \<open>
  The synchronisation chain, \<open>src/src/bx_chain.c\<close> and \<open>src/src/bx_chain_db.c\<close>: one cursor over
  five phases, checkpointed in the configuration table after every page, and the walks of
  contacts, projects and invoices it drives (the walks at the end of
  \<open>src/src/bxobjects/contact.c\<close>, \<open>project.c\<close> and \<open>invoice.c\<close>). The state has the static variables
  of the file, the configuration, the three id caches of the thread and the outside world.
  The handlers of one row are arguments, as the walks take them by function pointer.
\<close>

section \<open>Data\<close>

text \<open>\<open>BX_CHAIN_UNKNOWN\<close> stands for the integers the C enumeration can hold besides its names.\<close>

datatype BXChainPhase =
    BX_CHAIN_CONTACT_ACTIVE | BX_CHAIN_CONTACT_ARCHIVED | BX_CHAIN_PROJECT
  | BX_CHAIN_INVOICE_LIST | BX_CHAIN_INVOICE_MISSED | BX_CHAIN_UNKNOWN int

record BXChainCursor =
  cc_phase :: BXChainPhase
  cc_offset :: int

record BXChainResult =
  cr_error :: BXillError
  cr_prune_contact :: bool
  cr_prune_project :: bool
  cr_prune_invoice :: bool
  cr_bump_contact :: bool
  cr_bump_project :: bool
  cr_bump_invoice :: bool
  cr_pause :: bool

record 'w chain_state =
  ch_cursor :: BXChainCursor
  ch_contact_from_zero :: bool
  ch_invoice_from_zero :: bool
  ch_conf :: BXConf
  ch_contacts :: "Cache ptr"
  ch_projects :: "Cache ptr"
  ch_invoices :: "Cache ptr"
  ch_world :: 'w

type_synonym 'w item_handler = "json \<Rightarrow> Cache ptr \<times> 'w \<Rightarrow> (BXillError \<times> Cache ptr \<times> 'w) option"

record 'w chain_env =
  ce_xxh :: "string \<Rightarrow> u64"
  ce_mysql :: "'w mysql"
  ce_request :: "string \<Rightarrow> BXAny ptr list \<Rightarrow> 'w \<Rightarrow> (BXNetRequest ptr \<times> 'w) option"
  ce_contact_item :: "BXBool \<Rightarrow> 'w item_handler"
  ce_project_item :: "'w item_handler"
  ce_invoice_item :: "'w item_handler"

definition INT_MAX :: int where
  "INT_MAX = 2147483647"

section \<open>The stored cursor\<close>

definition bx_chain_phase_name :: "BXChainPhase \<Rightarrow> string" where
  "bx_chain_phase_name phase =
     (case phase of
        BX_CHAIN_CONTACT_ARCHIVED \<Rightarrow> ''contact-archived''
      | BX_CHAIN_PROJECT \<Rightarrow> ''project''
      | BX_CHAIN_INVOICE_LIST \<Rightarrow> ''invoice-list''
      | BX_CHAIN_INVOICE_MISSED \<Rightarrow> ''invoice-missed''
      | _ \<Rightarrow> ''contact-active'')"

definition phases :: "BXChainPhase list" where
  "phases = [BX_CHAIN_CONTACT_ACTIVE, BX_CHAIN_CONTACT_ARCHIVED, BX_CHAIN_PROJECT,
     BX_CHAIN_INVOICE_LIST, BX_CHAIN_INVOICE_MISSED]"

definition parse_phase :: "string \<Rightarrow> BXChainPhase option" where
  "parse_phase name = find (\<lambda>p. bx_chain_phase_name p = name) phases"

definition normalize_cursor :: "BXChainCursor \<Rightarrow> BXChainCursor" where
  "normalize_cursor c =
     (let c1 = (if cc_phase c \<notin> set phases then c\<lparr>cc_phase := BX_CHAIN_CONTACT_ACTIVE\<rparr> else c);
          c2 = (if cc_offset c1 < 0 then c1\<lparr>cc_offset := 0\<rparr> else c1)
      in if cc_phase c2 = BX_CHAIN_INVOICE_MISSED then c2\<lparr>cc_offset := 0\<rparr> else c2)"

text \<open>\<open>None\<close>: the text is not a stored cursor, and \<open>out\<close> is left as it was.\<close>

definition parse_stored :: "string ptr \<Rightarrow> BXChainCursor option" where
  "parse_stored stored =
     (case stored of
        NULL \<Rightarrow> None
      | Ptr text \<Rightarrow>
          (case dropWhile (\<lambda>c. c \<noteq> CHR '':'') text of
             [] \<Rightarrow> None
           | _ # after \<Rightarrow>
               if takeWhile (\<lambda>c. c \<noteq> CHR '':'') text = [] then None
               else
                 (case parse_phase (takeWhile (\<lambda>c. c \<noteq> CHR '':'') text) of
                    None \<Rightarrow> None
                  | Some phase \<Rightarrow>
                      (case strtol after of
                         None \<Rightarrow> None
                       | Some (offset, end) \<Rightarrow>
                           if end \<noteq> [] \<or> offset < 0 \<or> INT_MAX < offset then None
                           else Some (normalize_cursor \<lparr>cc_phase = phase, cc_offset = offset\<rparr>)))))"

definition parse_legacy :: "string ptr \<Rightarrow> int \<Rightarrow> int \<Rightarrow> BXChainCursor option" where
  "parse_legacy step offset pass =
     (let offset = (if offset < 0 then 0 else offset) in
      case step of
        NULL \<Rightarrow> None
      | Ptr s \<Rightarrow>
          if s = ''contact'' then
            Some \<lparr>cc_phase = (if pass = 1 then BX_CHAIN_CONTACT_ARCHIVED else BX_CHAIN_CONTACT_ACTIVE),
                  cc_offset = offset\<rparr>
          else if s = ''project'' then Some \<lparr>cc_phase = BX_CHAIN_PROJECT, cc_offset = offset\<rparr>
          else if s = ''invoice'' then
            Some (if pass = 1 then \<lparr>cc_phase = BX_CHAIN_INVOICE_MISSED, cc_offset = 0\<rparr>
                  else \<lparr>cc_phase = BX_CHAIN_INVOICE_LIST, cc_offset = offset\<rparr>)
          else None)"

definition bx_chain_decode :: "string ptr \<Rightarrow> string ptr \<Rightarrow> int \<Rightarrow> int \<Rightarrow> BXChainCursor" where
  "bx_chain_decode sync_chain legacy_step legacy_offset legacy_pass =
     (case parse_stored sync_chain of
        Some c \<Rightarrow> c
      | None \<Rightarrow>
          normalize_cursor (case parse_legacy legacy_step legacy_offset legacy_pass of
                       Some c \<Rightarrow> c
                     | None \<Rightarrow> \<lparr>cc_phase = BX_CHAIN_CONTACT_ACTIVE, cc_offset = 0\<rparr>))"

definition BX_CHAIN_KEY :: string where
  "BX_CHAIN_KEY = ''sync-chain''"

definition bx_chain_load :: "(string \<Rightarrow> u64) \<Rightarrow> BXConf ptr \<Rightarrow> BXChainCursor" where
  "bx_chain_load xxh conf =
     (case conf of
        NULL \<Rightarrow> bx_chain_decode NULL NULL 0 0
      | Ptr c \<Rightarrow>
          bx_chain_decode (bx_conf_get_string xxh c BX_CHAIN_KEY)
            (bx_conf_get_string xxh c ''sync-chain-step'')
            (bx_conf_get_int xxh c ''sync-chain-offset'') (bx_conf_get_int xxh c ''sync-chain-cycle''))"

definition bx_chain_save ::
    "(string \<Rightarrow> u64) \<Rightarrow> 'w mysql \<Rightarrow> unit ptr \<Rightarrow> BXChainCursor \<Rightarrow> BXConf \<Rightarrow> 'w \<Rightarrow> bool \<times> BXConf \<times> 'w" where
  "bx_chain_save xxh my conn c conf w =
     (let value = bx_chain_phase_name (cc_phase c) @ '':'' @ dec_int (cc_offset c) in
      if conn = NULL then (False, conf, w)
      else if 64 \<le> length value then (False, conf, w)
      else bx_conf_put_database_conn xxh my conf BX_CHAIN_KEY (CString value) w)"

section \<open>Steps of the cursor\<close>

definition bx_chain_init :: "'w chain_env \<Rightarrow> 'w chain_state \<Rightarrow> 'w chain_state" where
  "bx_chain_init env st =
     st\<lparr>ch_cursor := normalize_cursor (bx_chain_load (ce_xxh env) (Ptr (ch_conf st))),
        ch_contact_from_zero := False, ch_invoice_from_zero := False\<rparr>"

definition bx_chain_read :: "'w chain_state \<Rightarrow> BXChainCursor" where
  "bx_chain_read st = ch_cursor st"

definition save_cursor :: "'w chain_env \<Rightarrow> unit ptr \<Rightarrow> BXChainCursor \<Rightarrow> 'w chain_state \<Rightarrow> bool \<times> 'w chain_state" where
  "save_cursor env conn c st =
     (case bx_chain_save (ce_xxh env) (ce_mysql env) conn c (ch_conf st) (ch_world st) of
        (ok, conf, w) \<Rightarrow> (ok, st\<lparr>ch_conf := conf, ch_world := w\<rparr>))"

definition checkpoint :: "'w chain_env \<Rightarrow> unit ptr \<Rightarrow> BXChainPhase \<Rightarrow> int \<Rightarrow> 'w chain_state \<Rightarrow> BXillError \<times> 'w chain_state" where
  "checkpoint env conn phase offset st =
     (let c = normalize_cursor \<lparr>cc_phase = phase, cc_offset = offset\<rparr> in
      case save_cursor env conn c st of
        (False, st') \<Rightarrow> (ErrorGeneric, st')
      | (True, st') \<Rightarrow> (NoError, st'\<lparr>ch_cursor := c\<rparr>))"

definition advance_phase :: "'w chain_env \<Rightarrow> unit ptr \<Rightarrow> BXChainPhase \<Rightarrow> 'w chain_state \<Rightarrow> BXillError \<times> 'w chain_state" where
  "advance_phase env conn phase st =
     (let c = normalize_cursor \<lparr>cc_phase = phase, cc_offset = 0\<rparr> in
      case save_cursor env conn c (st\<lparr>ch_cursor := c\<rparr>) of
        (ok, st') \<Rightarrow> (if ok then NoError else ErrorGeneric, st'))"

definition on_validated_page :: "'w chain_env \<Rightarrow> unit ptr \<Rightarrow> BXChainPhase \<Rightarrow> int \<Rightarrow> 'w chain_state handler" where
  "on_validated_page env conn phase next_offset st =
     Some (if next_offset < 0 \<or> INT_MAX < next_offset then (ErrorGeneric, st)
           else checkpoint env conn phase next_offset st)"

definition fail_resource :: "BXillError \<Rightarrow> bool \<Rightarrow> bool \<Rightarrow> bool \<Rightarrow> BXChainResult" where
  "fail_resource e contact project invoice =
     \<lparr>cr_error = e, cr_prune_contact = False, cr_prune_project = False, cr_prune_invoice = False,
      cr_bump_contact = contact, cr_bump_project = project, cr_bump_invoice = invoice, cr_pause = False\<rparr>"

definition finish_resource ::
    "'w chain_env \<Rightarrow> unit ptr \<Rightarrow> BXChainPhase \<Rightarrow> bool \<Rightarrow> bool \<Rightarrow> bool \<Rightarrow> 'w chain_state
     \<Rightarrow> BXChainResult \<times> 'w chain_state" where
  "finish_resource env conn next contact project invoice st =
     (case advance_phase env conn next st of
        (e, st') \<Rightarrow>
          (\<lparr>cr_error = e, cr_prune_contact = False, cr_prune_project = False, cr_prune_invoice = False,
            cr_bump_contact = contact, cr_bump_project = project, cr_bump_invoice = invoice,
            cr_pause = (e = NoError)\<rparr>, st'))"

section \<open>The walks of the resources\<close>

definition on_world :: "('w \<Rightarrow> ('r \<times> 'w) option) \<Rightarrow> 'w chain_state \<Rightarrow> ('r \<times> 'w chain_state) option" where
  "on_world f st = do { (r, w) \<leftarrow> f (ch_world st); Some (r, st\<lparr>ch_world := w\<rparr>) }"

definition chain_walk :: "'w chain_env \<Rightarrow> 'w chain_state walk_env" where
  "chain_walk env =
     \<lparr>we_request = \<lambda>path args. on_world (ce_request env path args), we_sleep = \<lambda>st. st\<rparr>"

definition WALK_CONTACT_PATH :: string where
  "WALK_CONTACT_PATH = ''2.0/contact?limit=$&offset=$&show_archived=$''"

definition WALK_PROJECT_PATH :: string where
  "WALK_PROJECT_PATH = ''2.0/pr_project?limit=$&offset=$''"

definition WALK_INVOICE_PATH :: string where
  "WALK_INVOICE_PATH = ''2.0/kb_invoice?limit=$&offset=$&order_by=id''"

definition GET_INVOICE_PATH :: string where
  "GET_INVOICE_PATH = ''2.0/kb_invoice/$''"

text \<open>A contact that cannot be synchronised is skipped, unless the connection is lost.\<close>

definition contact_page_item :: "'w chain_env \<Rightarrow> BXBool \<Rightarrow> json \<Rightarrow> 'w chain_state handler" where
  "contact_page_item env archived item st = do {
     (e, c, w) \<leftarrow> ce_contact_item env archived item (ch_contacts st, ch_world st);
     Some (if e = ErrorSQLReconnect then e else NoError, st\<lparr>ch_contacts := c, ch_world := w\<rparr>)
   }"

definition bx_contact_walk_pass ::
    "'w chain_env \<Rightarrow> bool \<Rightarrow> int \<Rightarrow> (int \<Rightarrow> 'w chain_state handler) ptr \<Rightarrow> 'w chain_state handler" where
  "bx_contact_walk_pass env archived start_offset on_page st =
     (let a = \<lparr>bb_isset = True, bb_value = archived\<rparr>
      in bx_walk_pages_from (chain_walk env) WALK_CONTACT_PATH (Ptr (ABool a)) False
           (contact_page_item env a) start_offset on_page st)"

definition bx_contact_walk_items :: "'w chain_env \<Rightarrow> 'w chain_state handler" where
  "bx_contact_walk_items env st = do {
     (e, st') \<leftarrow> bx_contact_walk_pass env False 0 NULL st;
     if e \<noteq> NoError then Some (e, st') else bx_contact_walk_pass env True 0 NULL st'
   }"

definition project_page_item :: "'w chain_env \<Rightarrow> json \<Rightarrow> 'w chain_state handler" where
  "project_page_item env item st = do {
     (e, c, w) \<leftarrow> ce_project_item env item (ch_projects st, ch_world st);
     Some (e, st\<lparr>ch_projects := c, ch_world := w\<rparr>)
   }"

definition bx_project_walk_item_from ::
    "'w chain_env \<Rightarrow> int \<Rightarrow> (int \<Rightarrow> 'w chain_state handler) ptr \<Rightarrow> 'w chain_state handler" where
  "bx_project_walk_item_from env start_offset on_page st =
     bx_walk_pages_from (chain_walk env) WALK_PROJECT_PATH NULL False
       (project_page_item env) start_offset on_page st"

definition invoice_page_item :: "'w chain_env \<Rightarrow> json \<Rightarrow> 'w chain_state handler" where
  "invoice_page_item env item st = do {
     (e, c, w) \<leftarrow> ce_invoice_item env item (ch_invoices st, ch_world st);
     Some (e, st\<lparr>ch_invoices := c, ch_world := w\<rparr>)
   }"

definition bx_invoice_walk_list ::
    "'w chain_env \<Rightarrow> int \<Rightarrow> (int \<Rightarrow> 'w chain_state handler) ptr \<Rightarrow> 'w chain_state handler" where
  "bx_invoice_walk_list env start_offset on_page st =
     bx_walk_pages_from (chain_walk env) WALK_INVOICE_PATH NULL False
       (invoice_page_item env) start_offset on_page st"

partial_function (option) fetch_missed_loop :: "'w chain_env \<Rightarrow> CacheIter \<Rightarrow> 'w chain_state handler" where
  "fetch_missed_loop env iter st = do {
     (next, iter') \<leftarrow> cache_iter_next_prunable_id (ch_invoices st) iter 1;
     (case next of
        None \<Rightarrow> Some (NoError, st)
      | Some i \<Rightarrow> do {
          (request, st1) \<leftarrow> on_world (ce_request env GET_INVOICE_PATH
             [Ptr (AUInteger \<lparr>bu_isset = True, bu_value = i\<rparr>)]) st;
          (case request of
             NULL \<Rightarrow> Some (ErrorNet, st1)
           | Ptr r \<Rightarrow>
               (case rq_response r of
                  NULL \<Rightarrow> Some (ErrorNet, st1)
                | Ptr resp \<Rightarrow>
                    if rd_http_code resp = 404 then fetch_missed_loop env iter' st1
                    else if rd_http_code resp \<noteq> 200 then Some (ErrorNet, st1)
                    else
                      (case rq_decoded r of
                         NULL \<Rightarrow> Some (ErrorNet, st1)
                       | Ptr item \<Rightarrow> do {
                           (e, st2) \<leftarrow> invoice_page_item env item st1;
                           if e \<noteq> NoError then Some (e, st2) else fetch_missed_loop env iter' st2
                         })))
        })
   }"

definition bx_invoice_fetch_missed :: "'w chain_env \<Rightarrow> 'w chain_state handler" where
  "bx_invoice_fetch_missed env st = fetch_missed_loop env (cache_iter_init (ch_invoices st)) st"

definition bx_invoice_walk_items :: "'w chain_env \<Rightarrow> 'w chain_state handler" where
  "bx_invoice_walk_items env st = do {
     (e, st') \<leftarrow> bx_invoice_walk_list env 0 NULL st;
     if e \<noteq> NoError then Some (e, st') else bx_invoice_fetch_missed env st'
   }"

section \<open>One call of the chain\<close>

definition chain_contact_active ::
    "'w chain_env \<Rightarrow> unit ptr \<Rightarrow> int \<Rightarrow> 'w chain_state \<Rightarrow> (BXChainResult \<times> 'w chain_state) option" where
  "chain_contact_active env conn offset st = do {
     (e, st1) \<leftarrow> bx_contact_walk_pass env False offset
        (Ptr (on_validated_page env conn BX_CHAIN_CONTACT_ACTIVE)) (st\<lparr>ch_contact_from_zero := False\<rparr>);
     if e \<noteq> NoError then Some (fail_resource e True False False, st1)
     else do {
       let st2 = (if offset = 0 then st1\<lparr>ch_contact_from_zero := True\<rparr> else st1);
       let (r, st3) = finish_resource env conn BX_CHAIN_CONTACT_ARCHIVED False False False st2;
       Some (r\<lparr>cr_bump_contact := (cr_error r \<noteq> NoError), cr_pause := False\<rparr>, st3)
     }
   }"

definition chain_contact_archived ::
    "'w chain_env \<Rightarrow> unit ptr \<Rightarrow> int \<Rightarrow> 'w chain_state \<Rightarrow> (BXChainResult \<times> 'w chain_state) option" where
  "chain_contact_archived env conn offset st = do {
     (e, st1) \<leftarrow> bx_contact_walk_pass env True offset
        (Ptr (on_validated_page env conn BX_CHAIN_CONTACT_ARCHIVED)) st;
     if e \<noteq> NoError then Some (fail_resource e True False False, st1)
     else do {
       let (r, st2) = finish_resource env conn BX_CHAIN_PROJECT True False False st1;
       Some (if cr_error r = NoError then r\<lparr>cr_prune_contact := ch_contact_from_zero st2\<rparr> else r,
             st2\<lparr>ch_contact_from_zero := False\<rparr>)
     }
   }"

definition chain_project ::
    "'w chain_env \<Rightarrow> unit ptr \<Rightarrow> int \<Rightarrow> 'w chain_state \<Rightarrow> (BXChainResult \<times> 'w chain_state) option" where
  "chain_project env conn offset st = do {
     (e, st1) \<leftarrow> bx_project_walk_item_from env offset
        (Ptr (on_validated_page env conn BX_CHAIN_PROJECT)) st;
     if e \<noteq> NoError then Some (fail_resource e False True False, st1)
     else do {
       let (r, st2) = finish_resource env conn BX_CHAIN_INVOICE_LIST False True False st1;
       Some (if cr_error r = NoError then r\<lparr>cr_prune_project := (offset = 0)\<rparr> else r, st2)
     }
   }"

definition chain_invoice_list ::
    "'w chain_env \<Rightarrow> unit ptr \<Rightarrow> int \<Rightarrow> 'w chain_state \<Rightarrow> (BXChainResult \<times> 'w chain_state) option" where
  "chain_invoice_list env conn offset st = do {
     (e, st1) \<leftarrow> bx_invoice_walk_list env offset
        (Ptr (on_validated_page env conn BX_CHAIN_INVOICE_LIST)) (st\<lparr>ch_invoice_from_zero := False\<rparr>);
     if e \<noteq> NoError then Some (fail_resource e False False True, st1)
     else if offset \<noteq> 0 then Some (finish_resource env conn BX_CHAIN_CONTACT_ACTIVE False False True st1)
     else do {
       let (r, st2) = finish_resource env conn BX_CHAIN_INVOICE_MISSED False False False
                        (st1\<lparr>ch_invoice_from_zero := True\<rparr>);
       Some (r\<lparr>cr_bump_invoice := (cr_error r \<noteq> NoError), cr_pause := False\<rparr>, st2)
     }
   }"

definition chain_invoice_missed ::
    "'w chain_env \<Rightarrow> unit ptr \<Rightarrow> 'w chain_state \<Rightarrow> (BXChainResult \<times> 'w chain_state) option" where
  "chain_invoice_missed env conn st = do {
     (e, st1) \<leftarrow> bx_invoice_fetch_missed env st;
     if e \<noteq> NoError then Some (fail_resource e False False True, st1)
     else do {
       let (r, st2) = finish_resource env conn BX_CHAIN_CONTACT_ACTIVE False False True
                        (st1\<lparr>ch_invoice_from_zero := False\<rparr>);
       Some (if cr_error r = NoError then r\<lparr>cr_prune_invoice := ch_invoice_from_zero st1\<rparr> else r, st2)
     }
   }"

definition bx_chain_sync ::
    "'w chain_env \<Rightarrow> unit ptr \<Rightarrow> 'w chain_state \<Rightarrow> (BXChainResult \<times> 'w chain_state) option" where
  "bx_chain_sync env conn st =
     (let offset = cc_offset (ch_cursor st) in
      if conn = NULL then Some (fail_resource ErrorGeneric False False False, st)
      else case cc_phase (ch_cursor st) of
        BX_CHAIN_CONTACT_ACTIVE \<Rightarrow> chain_contact_active env conn offset st
      | BX_CHAIN_CONTACT_ARCHIVED \<Rightarrow> chain_contact_archived env conn offset st
      | BX_CHAIN_PROJECT \<Rightarrow> chain_project env conn offset st
      | BX_CHAIN_INVOICE_LIST \<Rightarrow> chain_invoice_list env conn offset st
      | BX_CHAIN_INVOICE_MISSED \<Rightarrow> chain_invoice_missed env conn st
      | BX_CHAIN_UNKNOWN n \<Rightarrow> Some (fail_resource ErrorGeneric False False False, st))"

end
