(* ===== verification/Bx_Chain_Properties.thy ===== *)
theory Bx_Chain_Properties
  imports Bx_Chain
begin

text \<open>
  Properties of the synchronisation chain: the stored cursor reads back, the cursor is
  always a legal one and moves only past pages whose rows were all handled, the phases
  follow each other in order, and a resource is declared complete (ready to be pruned)
  only after a walk of its whole list from the first page in this process.
\<close>

section \<open>The text of a cursor\<close>

definition cursor_text :: "BXChainCursor \<Rightarrow> string" where
  "cursor_text c = bx_chain_phase_name (cc_phase c) @ '':'' @ dec_int (cc_offset c)"

definition cursor_ok :: "BXChainCursor \<Rightarrow> bool" where
  "cursor_ok c \<longleftrightarrow> cc_phase c \<in> set phases \<and> 0 \<le> cc_offset c \<and> cc_offset c \<le> INT_MAX \<and>
     (cc_phase c = BX_CHAIN_INVOICE_MISSED \<longrightarrow> cc_offset c = 0)"

lemma phases_set: "set phases = {BX_CHAIN_CONTACT_ACTIVE, BX_CHAIN_CONTACT_ARCHIVED, BX_CHAIN_PROJECT,
    BX_CHAIN_INVOICE_LIST, BX_CHAIN_INVOICE_MISSED}"
  by (simp add: phases_def)

lemma normalize_ok: "cc_offset c \<le> INT_MAX \<Longrightarrow> cursor_ok (normalize_cursor c)"
  by (auto simp: cursor_ok_def normalize_cursor_def Let_def phases_set INT_MAX_def)

lemma normalize_id: "cursor_ok c \<Longrightarrow> normalize_cursor c = c"
  by (auto simp: cursor_ok_def normalize_cursor_def Let_def)

lemma phase_name_no_colon: "CHR '':'' \<notin> set (bx_chain_phase_name p)"
  by (cases p) (simp_all add: bx_chain_phase_name_def)

lemma phase_name_not_Nil: "bx_chain_phase_name p \<noteq> []"
  by (cases p) (simp_all add: bx_chain_phase_name_def)

lemma parse_phase_name: "p \<in> set phases \<Longrightarrow> parse_phase (bx_chain_phase_name p) = Some p"
  by (auto simp: phases_set parse_phase_def phases_def bx_chain_phase_name_def)

lemma takeWhile_until: "c \<notin> set xs \<Longrightarrow> takeWhile (\<lambda>x. x \<noteq> c) (xs @ c # ys) = xs \<and> dropWhile (\<lambda>x. x \<noteq> c) (xs @ c # ys) = c # ys"
  by (induction xs) auto

lemma parse_stored_text:
  assumes "cursor_ok c"
  shows "parse_stored (Ptr (cursor_text c)) = Some c"
proof -
  have "strtol (dec_int (cc_offset c)) = Some (cc_offset c, [])"
    using strtol_dec_int [of "[]" "cc_offset c"] assms
    by (simp add: saturate_id cursor_ok_def INT_MAX_def LONG_MIN_def LONG_MAX_def)
  moreover have "takeWhile (\<lambda>x. x \<noteq> CHR '':'') (cursor_text c) = bx_chain_phase_name (cc_phase c)"
    "dropWhile (\<lambda>x. x \<noteq> CHR '':'') (cursor_text c) = CHR '':'' # dec_int (cc_offset c)"
    using takeWhile_until [OF phase_name_no_colon] by (simp_all add: cursor_text_def)
  moreover have "normalize_cursor \<lparr>cc_phase = cc_phase c, cc_offset = cc_offset c\<rparr> = c"
    using normalize_id [OF assms] by (cases c) simp
  ultimately show ?thesis
    using assms by (simp add: parse_stored_def parse_phase_name phase_name_not_Nil cursor_ok_def)
qed

lemma parse_stored_ok: "parse_stored p = Some c \<Longrightarrow> cursor_ok c"
  by (auto simp: parse_stored_def normalize_ok split: ptr.splits list.splits if_splits option.splits)

lemma parse_legacy_bound: "parse_legacy step offset pass = Some c \<Longrightarrow> offset \<le> INT_MAX \<Longrightarrow> cc_offset c \<le> INT_MAX"
  by (auto simp: parse_legacy_def INT_MAX_def Let_def split: ptr.splits if_splits)

lemma decode_ok:
  assumes "legacy_offset \<le> INT_MAX"
  shows "cursor_ok (bx_chain_decode stored step legacy_offset pass)"
  using parse_stored_ok parse_legacy_bound [OF _ assms]
  by (auto simp: bx_chain_decode_def INT_MAX_def intro!: normalize_ok split: option.splits)

section \<open>What a step touches\<close>

definition statics :: "'w chain_state \<Rightarrow> BXChainCursor \<times> bool \<times> bool" where
  "statics st = (ch_cursor st, ch_contact_from_zero st, ch_invoice_from_zero st)"

definition keeps_statics :: "'w chain_state handler \<Rightarrow> bool" where
  "keeps_statics f \<longleftrightarrow> (\<forall>st e st'. f st = Some (e, st') \<longrightarrow> statics st' = statics st)"

lemma contact_item_keeps: "keeps_statics (contact_page_item env a item)"
  by (auto simp: keeps_statics_def contact_page_item_def statics_def split: bind_splits)

lemma project_item_keeps: "keeps_statics (project_page_item env item)"
  by (auto simp: keeps_statics_def project_page_item_def statics_def split: bind_splits)

lemma invoice_item_keeps: "keeps_statics (invoice_page_item env item)"
  by (auto simp: keeps_statics_def invoice_page_item_def statics_def split: bind_splits)

lemma on_world_keeps: "on_world f st = Some (r, st') \<Longrightarrow> statics st' = statics st"
  by (auto simp: on_world_def statics_def split: bind_splits)

lemma save_cursor_keeps: "save_cursor env conn c st = (ok, st') \<Longrightarrow> statics st' = statics st"
  by (auto simp: save_cursor_def statics_def split: prod.splits)

lemma sync_rows_keeps:
  "\<forall>item. keeps_statics (sync item) \<Longrightarrow> sync_rows sync items st = Some (e, st') \<Longrightarrow> statics st' = statics st"
proof (induction items arbitrary: st)
  case (Cons item items)
  then obtain e1 st1 where one: "sync item st = Some (e1, st1)"
    "(if e1 \<noteq> NoError then Some (e1, st1) else sync_rows sync items st1) = Some (e, st')"
    by (auto split: bind_splits)
  have "statics st1 = statics st" using Cons.prems(1) one(1) by (simp add: keeps_statics_def)
  with Cons one(2) show ?case by (auto split: if_splits)
qed (simp add: keeps_statics_def)

text \<open>A page handler that succeeds has moved the cursor, one that fails has moved nothing.\<close>

lemma on_validated_page_cases:
  assumes "on_validated_page env conn phase n st = Some (e, st')"
    and "phase \<in> set phases" and "phase \<noteq> BX_CHAIN_INVOICE_MISSED"
  shows "(e \<noteq> NoError \<and> statics st' = statics st) \<or>
         (e = NoError \<and> 0 \<le> n \<and> n \<le> INT_MAX \<and>
          statics st' = (\<lparr>cc_phase = phase, cc_offset = n\<rparr>, snd (statics st)))"
proof (cases "n < 0 \<or> INT_MAX < n")
  case True
  with assms(1) show ?thesis by (auto simp: on_validated_page_def)
next
  case False
  have "normalize_cursor \<lparr>cc_phase = phase, cc_offset = n\<rparr> = \<lparr>cc_phase = phase, cc_offset = n\<rparr>"
    using assms(2,3) False by (intro normalize_id) (simp add: cursor_ok_def)
  with False assms(1) show ?thesis
    by (auto simp: on_validated_page_def checkpoint_def Let_def statics_def
        dest!: save_cursor_keeps split: prod.splits bool.splits)
qed

section \<open>A walk with its checkpoints\<close>

lemma walk_page_keeps:
  assumes page: "walk_page (chain_walk env) path_fmt extra False sync
        (Ptr (on_validated_page env conn phase)) n st = Some (r, st')"
    and "by_offset path_fmt" and "\<forall>item. keeps_statics (sync item)"
    and "phase \<in> set phases" and "phase \<noteq> BX_CHAIN_INVOICE_MISSED"
  shows "(\<exists>e. r = Inl e \<and> statics st' = statics st) \<or>
         (r = Inr (n + 500) \<and> 0 \<le> n + 500 \<and> n + 500 \<le> INT_MAX \<and>
          statics st' = (\<lparr>cc_phase = phase, cc_offset = n + 500\<rparr>, snd (statics st)))"
proof -
  obtain request st1 where req: "on_world (ce_request env path_fmt (page_args extra n)) st = Some (request, st1)"
      and rest: "(case request of NULL \<Rightarrow> Some (Inl ErrorNet, st1)
         | Ptr r' \<Rightarrow> (case as_array (rq_decoded r') of NULL \<Rightarrow> Some (Inl ErrorJSON, st1)
              | Ptr arr \<Rightarrow> do {
                  (e, s2) \<leftarrow> sync_rows sync arr st1;
                  if e \<noteq> NoError then Some (Inl e, s2)
                  else do {
                    (pe, s3) \<leftarrow> (if arr \<noteq> [] then on_validated_page env conn phase (n + 500) s2 else Some (NoError, s2));
                    if pe \<noteq> NoError then Some (Inl pe, s3)
                    else Some (if arr = [] then Inl NoError else Inr (n + 500), s3)
                  }
                })) = Some (r, st')"
    using page unfolding walk_page_by_offset [OF assms(2)] chain_walk_def walk_env.select_convs
    by (rule bind_eq_Some_conv [THEN iffD1, THEN exE]) auto
  have same: "statics st1 = statics st" by (rule on_world_keeps [OF req])
  show ?thesis
  proof (cases "\<exists>r' arr. request = Ptr r' \<and> as_array (rq_decoded r') = Ptr arr")
    case False
    with rest same show ?thesis by (auto split: ptr.splits)
  next
    case True
    then obtain r' arr where arr: "request = Ptr r'" "as_array (rq_decoded r') = Ptr arr" by blast
    with rest obtain e s2 where rows: "sync_rows sync arr st1 = Some (e, s2)" by (auto split: bind_splits)
    have same2: "statics s2 = statics st" using sync_rows_keeps [OF assms(3) rows] same by simp
    show ?thesis
    proof (cases "e = NoError \<and> arr \<noteq> []")
      case True
      with rest arr rows obtain pe s3 where pg: "on_validated_page env conn phase (n + 500) s2 = Some (pe, s3)"
        by (auto split: bind_splits)
      show ?thesis
        using on_validated_page_cases [OF pg assms(4,5)] rest arr rows True pg same2 by auto
    next
      case nok: False
      with rest arr rows same2 show ?thesis by (auto split: if_splits)
    qed
  qed
qed

text \<open>
  The cursor after a walk is the one before it, or the phase at the offset of the page that
  ended the walk, a whole number of pages after the start.
\<close>

lemma walk_moves_cursor:
  fixes st st' :: "'w chain_state"
  assumes walk: "bx_walk_pages_from (chain_walk env) path_fmt extra False sync start
        (Ptr (on_validated_page env conn phase)) st = Some (e, st')"
    and path: "by_offset path_fmt" and keeps: "\<forall>item. keeps_statics (sync item)"
    and phase: "phase \<in> set phases" "phase \<noteq> BX_CHAIN_INVOICE_MISSED" and start: "0 \<le> start"
  shows "snd (statics st') = snd (statics st) \<and>
         (ch_cursor st' = ch_cursor st \<or>
          (\<exists>k>0. ch_cursor st' = \<lparr>cc_phase = phase, cc_offset = start + 500 * k\<rparr> \<and> start + 500 * k \<le> INT_MAX))"
proof -
  define I where "I = (\<lambda>n (s :: 'w chain_state). snd (statics s) = snd (statics st) \<and>
     ((n = start \<and> ch_cursor s = ch_cursor st) \<or>
      (\<exists>k>0. n = start + 500 * k \<and> ch_cursor s = \<lparr>cc_phase = phase, cc_offset = n\<rparr> \<and> n \<le> INT_MAX)))"
  have first: "first_offset path_fmt start = start"
    using path start by (simp add: first_offset_def by_offset_def)
  show ?thesis
  proof (rule walk_loop_rule [where I = I and Q = "\<lambda>e (s :: 'w chain_state). snd (statics s) = snd (statics st) \<and>
         (ch_cursor s = ch_cursor st \<or> (\<exists>k>0. ch_cursor s = \<lparr>cc_phase = phase, cc_offset = start + 500 * k\<rparr> \<and> start + 500 * k \<le> INT_MAX))"])
    show "walk_loop (chain_walk env) path_fmt extra False sync (Ptr (on_validated_page env conn phase)) start st = Some (e, st')"
      using walk by (simp add: bx_walk_pages_from_def first)
    show "I start st" by (simp add: I_def)
  next
    fix n s e1 s2
    assume "I n s" and "walk_page (chain_walk env) path_fmt extra False sync (Ptr (on_validated_page env conn phase)) n s = Some (Inl e1, s2)"
    then show "snd (statics s2) = snd (statics st) \<and> (ch_cursor s2 = ch_cursor st \<or>
         (\<exists>k>0. ch_cursor s2 = \<lparr>cc_phase = phase, cc_offset = start + 500 * k\<rparr> \<and> start + 500 * k \<le> INT_MAX))"
      using walk_page_keeps [OF _ path keeps phase, of env extra conn n s "Inl e1" s2]
      by (auto simp: I_def statics_def)
  next
    fix n s n2 s2
    assume inv: "I n s" and pg: "walk_page (chain_walk env) path_fmt extra False sync (Ptr (on_validated_page env conn phase)) n s = Some (Inr n2, s2)"
    from inv obtain k where k: "0 \<le> k" "n = start + 500 * k" by (fastforce simp: I_def)
    have "n2 = n + 500" "n2 \<le> INT_MAX" "statics s2 = (\<lparr>cc_phase = phase, cc_offset = n2\<rparr>, snd (statics s))"
      using walk_page_keeps [OF pg path keeps phase] by auto
    then show "I n2 s2"
      using inv k unfolding I_def by (intro conjI disjI2 exI [of _ "k + 1"]) (auto simp: statics_def)
  qed
qed

section \<open>One call of the chain\<close>

lemma paths_by_offset: "by_offset WALK_CONTACT_PATH" "by_offset WALK_PROJECT_PATH" "by_offset WALK_INVOICE_PATH"
  by (simp_all add: by_offset_def WALK_CONTACT_PATH_def WALK_PROJECT_PATH_def WALK_INVOICE_PATH_def is_prefix_def)

text \<open>The four walks, with what they leave of the static variables.\<close>

definition stays :: "BXChainPhase \<Rightarrow> int \<Rightarrow> 'w chain_state \<Rightarrow> 'w chain_state \<Rightarrow> bool" where
  "stays phase start st st' \<longleftrightarrow> snd (statics st') = snd (statics st) \<and>
     (ch_cursor st' = ch_cursor st \<or>
      (\<exists>k>0. ch_cursor st' = \<lparr>cc_phase = phase, cc_offset = start + 500 * k\<rparr> \<and> start + 500 * k \<le> INT_MAX))"

lemma contact_walk_stays:
  assumes "bx_contact_walk_pass env archived start (Ptr (on_validated_page env conn phase)) st = Some (e, st')"
    and "phase \<in> set phases" and "phase \<noteq> BX_CHAIN_INVOICE_MISSED" and "0 \<le> start"
  shows "stays phase start st st'"
  using assms walk_moves_cursor [OF _ paths_by_offset(1)] contact_item_keeps
  unfolding stays_def bx_contact_walk_pass_def Let_def by blast

lemma project_walk_stays:
  assumes "bx_project_walk_item_from env start (Ptr (on_validated_page env conn phase)) st = Some (e, st')"
    and "phase \<in> set phases" and "phase \<noteq> BX_CHAIN_INVOICE_MISSED" and "0 \<le> start"
  shows "stays phase start st st'"
  using assms walk_moves_cursor [OF _ paths_by_offset(2)] project_item_keeps
  unfolding stays_def bx_project_walk_item_from_def by blast

lemma invoice_walk_stays:
  assumes "bx_invoice_walk_list env start (Ptr (on_validated_page env conn phase)) st = Some (e, st')"
    and "phase \<in> set phases" and "phase \<noteq> BX_CHAIN_INVOICE_MISSED" and "0 \<le> start"
  shows "stays phase start st st'"
  using assms walk_moves_cursor [OF _ paths_by_offset(3)] invoice_item_keeps
  unfolding stays_def bx_invoice_walk_list_def by blast

lemma fetch_missed_keeps:
  "fetch_missed_loop env iter st = Some (e, st') \<Longrightarrow> statics st' = statics st"
proof -
  assume "fetch_missed_loop env iter st = Some (e, st')"
  then have "statics (snd (e, st')) = statics st"
  proof (rule fetch_missed_loop.raw_induct [rotated])
    fix loop env iter st r
    assume IH: "\<And>env iter st r. loop env iter st = Some r \<Longrightarrow> statics (snd r) = statics st"
      and body: "cache_iter_next_prunable_id (ch_invoices st) iter 1 \<bind>
        (\<lambda>(next, iter'). case next of None \<Rightarrow> Some (NoError, st)
          | Some i \<Rightarrow> on_world (ce_request env GET_INVOICE_PATH [Ptr (AUInteger \<lparr>bu_isset = True, bu_value = i\<rparr>)]) st \<bind>
             (\<lambda>(request, st1). case request of NULL \<Rightarrow> Some (ErrorNet, st1)
               | Ptr r \<Rightarrow> (case rq_response r of NULL \<Rightarrow> Some (ErrorNet, st1)
                   | Ptr resp \<Rightarrow> if rd_http_code resp = 404 then loop env iter' st1
                       else if rd_http_code resp \<noteq> 200 then Some (ErrorNet, st1)
                       else (case rq_decoded r of NULL \<Rightarrow> Some (ErrorNet, st1)
                          | Ptr item \<Rightarrow> invoice_page_item env item st1 \<bind>
                              (\<lambda>(e, st2). if e \<noteq> NoError then Some (e, st2) else loop env iter' st2))))) = Some r"
    have item: "statics st2 = statics st1" if "invoice_page_item env item st1 = Some (e, st2)" for env item st1 e st2
      using invoice_item_keeps that unfolding keeps_statics_def by blast
    show "statics (snd r) = statics st"
      using body
      by (auto dest!: on_world_keeps item IH split: bind_splits option.splits ptr.splits if_splits)
  qed
  then show ?thesis by simp
qed

lemma advance_phase_cases:
  assumes "advance_phase env conn phase st = (e, st')" and "phase \<in> set phases"
  shows "statics st' = (\<lparr>cc_phase = phase, cc_offset = 0\<rparr>, snd (statics st))"
proof -
  have "normalize_cursor \<lparr>cc_phase = phase, cc_offset = 0\<rparr> = \<lparr>cc_phase = phase, cc_offset = 0\<rparr>"
    using assms(2) by (intro normalize_id) (simp add: cursor_ok_def INT_MAX_def)
  with assms(1) show ?thesis
    by (auto simp: advance_phase_def Let_def statics_def dest!: save_cursor_keeps split: prod.splits)
qed

lemma finish_resource_cases:
  assumes "finish_resource env conn next contact project invoice st = (r, st')" and "next \<in> set phases"
  shows "statics st' = (\<lparr>cc_phase = next, cc_offset = 0\<rparr>, snd (statics st)) \<and>
         \<not> cr_prune_contact r \<and> \<not> cr_prune_project r \<and> \<not> cr_prune_invoice r"
  using assms advance_phase_cases [of env conn "next" st] by (auto simp: finish_resource_def split: prod.splits)

text \<open>
  The phase that follows when a walk ends: a list of invoices that was resumed in the middle
  is not followed by the search for missed ones.
\<close>

definition next_phase :: "BXChainPhase \<Rightarrow> int \<Rightarrow> BXChainPhase" where
  "next_phase phase offset =
     (case phase of
        BX_CHAIN_CONTACT_ACTIVE \<Rightarrow> BX_CHAIN_CONTACT_ARCHIVED
      | BX_CHAIN_CONTACT_ARCHIVED \<Rightarrow> BX_CHAIN_PROJECT
      | BX_CHAIN_PROJECT \<Rightarrow> BX_CHAIN_INVOICE_LIST
      | BX_CHAIN_INVOICE_LIST \<Rightarrow> if offset = 0 then BX_CHAIN_INVOICE_MISSED else BX_CHAIN_CONTACT_ACTIVE
      | _ \<Rightarrow> BX_CHAIN_CONTACT_ACTIVE)"

text \<open>
  What one call does to the cursor and to the two flags: \<open>fin\<close> says whether the walk of the
  phase came to its end.
\<close>

definition chain_moves :: "bool \<Rightarrow> 'w chain_state \<Rightarrow> BXChainResult \<Rightarrow> 'w chain_state \<Rightarrow> bool" where
  "chain_moves fin st r st' \<longleftrightarrow>
     (let phase = cc_phase (ch_cursor st); offset = cc_offset (ch_cursor st) in
      if fin then
        ch_cursor st' = \<lparr>cc_phase = next_phase phase offset, cc_offset = 0\<rparr> \<and>
        ch_contact_from_zero st' =
          (if phase = BX_CHAIN_CONTACT_ACTIVE then offset = 0
           else phase \<noteq> BX_CHAIN_CONTACT_ARCHIVED \<and> ch_contact_from_zero st) \<and>
        ch_invoice_from_zero st' =
          (if phase = BX_CHAIN_INVOICE_LIST then offset = 0
           else phase \<noteq> BX_CHAIN_INVOICE_MISSED \<and> ch_invoice_from_zero st) \<and>
        (cr_prune_contact r \<longleftrightarrow> cr_error r = NoError \<and> phase = BX_CHAIN_CONTACT_ARCHIVED \<and> ch_contact_from_zero st) \<and>
        (cr_prune_project r \<longleftrightarrow> cr_error r = NoError \<and> phase = BX_CHAIN_PROJECT \<and> offset = 0) \<and>
        (cr_prune_invoice r \<longleftrightarrow> cr_error r = NoError \<and> phase = BX_CHAIN_INVOICE_MISSED \<and> ch_invoice_from_zero st)
      else
        cr_error r \<noteq> NoError \<and> \<not> cr_prune_contact r \<and> \<not> cr_prune_project r \<and> \<not> cr_prune_invoice r \<and>
        (ch_cursor st' = ch_cursor st \<or>
         phase \<noteq> BX_CHAIN_INVOICE_MISSED \<and>
         (\<exists>k>0. ch_cursor st' = \<lparr>cc_phase = phase, cc_offset = offset + 500 * k\<rparr> \<and> offset + 500 * k \<le> INT_MAX)) \<and>
        ch_contact_from_zero st' = (phase \<noteq> BX_CHAIN_CONTACT_ACTIVE \<and> ch_contact_from_zero st) \<and>
        ch_invoice_from_zero st' = (phase \<noteq> BX_CHAIN_INVOICE_LIST \<and> ch_invoice_from_zero st))"

text \<open>The walk of a call: the page loop of the cursor's phase, before the chain looks at its result.\<close>

definition phase_walk :: "'w chain_env \<Rightarrow> unit ptr \<Rightarrow> 'w chain_state handler" where
  "phase_walk env conn st =
     (let offset = cc_offset (ch_cursor st); on_page = \<lambda>phase. Ptr (on_validated_page env conn phase) in
      case cc_phase (ch_cursor st) of
        BX_CHAIN_CONTACT_ACTIVE \<Rightarrow>
          bx_contact_walk_pass env False offset (on_page BX_CHAIN_CONTACT_ACTIVE) (st\<lparr>ch_contact_from_zero := False\<rparr>)
      | BX_CHAIN_CONTACT_ARCHIVED \<Rightarrow>
          bx_contact_walk_pass env True offset (on_page BX_CHAIN_CONTACT_ARCHIVED) st
      | BX_CHAIN_PROJECT \<Rightarrow> bx_project_walk_item_from env offset (on_page BX_CHAIN_PROJECT) st
      | BX_CHAIN_INVOICE_LIST \<Rightarrow>
          bx_invoice_walk_list env offset (on_page BX_CHAIN_INVOICE_LIST) (st\<lparr>ch_invoice_from_zero := False\<rparr>)
      | BX_CHAIN_INVOICE_MISSED \<Rightarrow> bx_invoice_fetch_missed env st
      | BX_CHAIN_UNKNOWN n \<Rightarrow> None)"

text \<open>A call does what its walk allows: it ends the phase exactly when the walk reported no error.\<close>

definition call_follows_walk ::
    "'w chain_env \<Rightarrow> unit ptr \<Rightarrow> 'w chain_state \<Rightarrow> BXillError \<Rightarrow> BXChainResult \<Rightarrow> 'w chain_state \<Rightarrow> bool" where
  "call_follows_walk env conn st e r st' \<longleftrightarrow>
     (\<exists>st1. phase_walk env conn st = Some (e, st1)) \<and> chain_moves (e = NoError) st r st' \<and>
     (e \<noteq> NoError \<longrightarrow> cr_error r = e)"

lemma call_follows_walkI:
  "phase_walk env conn st = Some (e, st1) \<Longrightarrow> chain_moves (e = NoError) st r st' \<Longrightarrow>
   (e \<noteq> NoError \<Longrightarrow> cr_error r = e) \<Longrightarrow> \<exists>e. call_follows_walk env conn st e r st'"
  unfolding call_follows_walk_def by blast

lemmas chain_case_simps = chain_moves_def Let_def fail_resource_def next_phase_def statics_def phases_set stays_def

lemma contact_active_moves:
  assumes "chain_contact_active env conn (cc_offset (ch_cursor st)) st = Some (r, st')"
    and "cc_phase (ch_cursor st) = BX_CHAIN_CONTACT_ACTIVE" and "0 \<le> cc_offset (ch_cursor st)"
  shows "\<exists>e. call_follows_walk env conn st e r st'"
proof -
  obtain e st1 where walk: "bx_contact_walk_pass env False (cc_offset (ch_cursor st))
      (Ptr (on_validated_page env conn BX_CHAIN_CONTACT_ACTIVE)) (st\<lparr>ch_contact_from_zero := False\<rparr>) = Some (e, st1)"
    using assms(1) by (auto simp: chain_contact_active_def split: bind_splits)
  have st1: "stays BX_CHAIN_CONTACT_ACTIVE (cc_offset (ch_cursor st)) (st\<lparr>ch_contact_from_zero := False\<rparr>) st1"
    by (rule contact_walk_stays [OF walk _ _ assms(3)]) (simp_all add: phases_set)
  obtain r1 st3 where fin: "finish_resource env conn BX_CHAIN_CONTACT_ARCHIVED False False False
      (if cc_offset (ch_cursor st) = 0 then st1\<lparr>ch_contact_from_zero := True\<rparr> else st1) = (r1, st3)"
    by (rule prod.exhaust)
  show ?thesis
  proof (rule call_follows_walkI)
    show "phase_walk env conn st = Some (e, st1)" using walk assms(2) by (simp add: phase_walk_def Let_def)
    show "chain_moves (e = NoError) st r st'"
      using assms walk fin st1 finish_resource_cases [OF fin]
      by (cases "e = NoError") (auto simp: chain_contact_active_def chain_case_simps split: if_splits)
    show "cr_error r = e" if "e \<noteq> NoError"
      using assms(1) walk that by (auto simp: chain_contact_active_def fail_resource_def)
  qed
qed

lemma contact_archived_moves:
  assumes "chain_contact_archived env conn (cc_offset (ch_cursor st)) st = Some (r, st')"
    and "cc_phase (ch_cursor st) = BX_CHAIN_CONTACT_ARCHIVED" and "0 \<le> cc_offset (ch_cursor st)"
  shows "\<exists>e. call_follows_walk env conn st e r st'"
proof -
  obtain e st1 where walk: "bx_contact_walk_pass env True (cc_offset (ch_cursor st))
      (Ptr (on_validated_page env conn BX_CHAIN_CONTACT_ARCHIVED)) st = Some (e, st1)"
    using assms(1) by (auto simp: chain_contact_archived_def split: bind_splits)
  have st1: "stays BX_CHAIN_CONTACT_ARCHIVED (cc_offset (ch_cursor st)) st st1"
    by (rule contact_walk_stays [OF walk _ _ assms(3)]) (simp_all add: phases_set)
  obtain r1 st2 where fin: "finish_resource env conn BX_CHAIN_PROJECT True False False st1 = (r1, st2)"
    by (rule prod.exhaust)
  show ?thesis
  proof (rule call_follows_walkI)
    show "phase_walk env conn st = Some (e, st1)" using walk assms(2) by (simp add: phase_walk_def Let_def)
    show "chain_moves (e = NoError) st r st'"
      using assms walk fin st1 finish_resource_cases [OF fin]
      by (auto simp: chain_contact_archived_def chain_case_simps split: if_splits)
    show "cr_error r = e" if "e \<noteq> NoError"
      using assms(1) walk that by (auto simp: chain_contact_archived_def fail_resource_def)
  qed
qed

lemma project_moves:
  assumes "chain_project env conn (cc_offset (ch_cursor st)) st = Some (r, st')"
    and "cc_phase (ch_cursor st) = BX_CHAIN_PROJECT" and "0 \<le> cc_offset (ch_cursor st)"
  shows "\<exists>e. call_follows_walk env conn st e r st'"
proof -
  obtain e st1 where walk: "bx_project_walk_item_from env (cc_offset (ch_cursor st))
      (Ptr (on_validated_page env conn BX_CHAIN_PROJECT)) st = Some (e, st1)"
    using assms(1) by (auto simp: chain_project_def split: bind_splits)
  have st1: "stays BX_CHAIN_PROJECT (cc_offset (ch_cursor st)) st st1"
    by (rule project_walk_stays [OF walk _ _ assms(3)]) (simp_all add: phases_set)
  obtain r1 st2 where fin: "finish_resource env conn BX_CHAIN_INVOICE_LIST False True False st1 = (r1, st2)"
    by (rule prod.exhaust)
  show ?thesis
  proof (rule call_follows_walkI)
    show "phase_walk env conn st = Some (e, st1)" using walk assms(2) by (simp add: phase_walk_def Let_def)
    show "chain_moves (e = NoError) st r st'"
      using assms walk fin st1 finish_resource_cases [OF fin]
      by (auto simp: chain_project_def chain_case_simps split: if_splits)
    show "cr_error r = e" if "e \<noteq> NoError"
      using assms(1) walk that by (auto simp: chain_project_def fail_resource_def)
  qed
qed

lemma invoice_list_moves:
  assumes "chain_invoice_list env conn (cc_offset (ch_cursor st)) st = Some (r, st')"
    and "cc_phase (ch_cursor st) = BX_CHAIN_INVOICE_LIST" and "0 \<le> cc_offset (ch_cursor st)"
  shows "\<exists>e. call_follows_walk env conn st e r st'"
proof -
  obtain e st1 where walk: "bx_invoice_walk_list env (cc_offset (ch_cursor st))
      (Ptr (on_validated_page env conn BX_CHAIN_INVOICE_LIST)) (st\<lparr>ch_invoice_from_zero := False\<rparr>) = Some (e, st1)"
    using assms(1) by (auto simp: chain_invoice_list_def split: bind_splits)
  have st1: "stays BX_CHAIN_INVOICE_LIST (cc_offset (ch_cursor st)) (st\<lparr>ch_invoice_from_zero := False\<rparr>) st1"
    by (rule invoice_walk_stays [OF walk _ _ assms(3)]) (simp_all add: phases_set)
  obtain r1 st2 where fin0: "finish_resource env conn BX_CHAIN_INVOICE_MISSED False False False
      (st1\<lparr>ch_invoice_from_zero := True\<rparr>) = (r1, st2)"
    by (rule prod.exhaust)
  obtain r2 st3 where fin1: "finish_resource env conn BX_CHAIN_CONTACT_ACTIVE False False True st1 = (r2, st3)"
    by (rule prod.exhaust)
  show ?thesis
  proof (rule call_follows_walkI)
    show "phase_walk env conn st = Some (e, st1)" using walk assms(2) by (simp add: phase_walk_def Let_def)
    show "chain_moves (e = NoError) st r st'"
      using assms walk fin0 fin1 st1 finish_resource_cases [OF fin0] finish_resource_cases [OF fin1]
      by (cases "cc_offset (ch_cursor st) = 0")
         (auto simp: chain_invoice_list_def chain_case_simps split: if_splits)
    show "cr_error r = e" if "e \<noteq> NoError"
      using assms(1) walk that by (auto simp: chain_invoice_list_def fail_resource_def)
  qed
qed

lemma invoice_missed_moves:
  assumes "chain_invoice_missed env conn st = Some (r, st')"
    and "cc_phase (ch_cursor st) = BX_CHAIN_INVOICE_MISSED"
  shows "\<exists>e. call_follows_walk env conn st e r st'"
proof -
  obtain e st1 where walk: "bx_invoice_fetch_missed env st = Some (e, st1)"
    using assms(1) by (auto simp: chain_invoice_missed_def split: bind_splits)
  have st1: "statics st1 = statics st"
    using walk fetch_missed_keeps unfolding bx_invoice_fetch_missed_def by blast
  obtain r1 st2 where fin: "finish_resource env conn BX_CHAIN_CONTACT_ACTIVE False False True
      (st1\<lparr>ch_invoice_from_zero := False\<rparr>) = (r1, st2)"
    by (rule prod.exhaust)
  show ?thesis
  proof (rule call_follows_walkI)
    show "phase_walk env conn st = Some (e, st1)" using walk assms(2) by (simp add: phase_walk_def Let_def)
    show "chain_moves (e = NoError) st r st'"
      using assms walk fin st1 finish_resource_cases [OF fin]
      by (auto simp: chain_invoice_missed_def chain_case_simps split: if_splits)
    show "cr_error r = e" if "e \<noteq> NoError"
      using assms(1) walk that by (auto simp: chain_invoice_missed_def fail_resource_def)
  qed
qed

lemma chain_sync_moves:
  assumes "bx_chain_sync env conn st = Some (r, st')" and "conn \<noteq> NULL" and "cursor_ok (ch_cursor st)"
  shows "\<exists>e. call_follows_walk env conn st e r st'"
proof -
  have "cc_phase (ch_cursor st) \<in> set phases" "0 \<le> cc_offset (ch_cursor st)"
    using assms(3) by (simp_all add: cursor_ok_def)
  then show ?thesis
    using assms(1,2) contact_active_moves contact_archived_moves project_moves invoice_list_moves invoice_missed_moves
    unfolding phases_set bx_chain_sync_def Let_def
    by (elim insertE) (simp_all split: if_splits)
qed

lemma chain_moves_cursor_ok:
  assumes "chain_moves fin st r st'" and "cursor_ok (ch_cursor st)"
  shows "cursor_ok (ch_cursor st')"
proof (cases fin)
  case True
  then show ?thesis
    using assms by (auto simp: chain_case_simps cursor_ok_def INT_MAX_def split: BXChainPhase.splits)
next
  case False
  with assms consider "ch_cursor st' = ch_cursor st"
    | k where "0 < k" "cc_phase (ch_cursor st) \<noteq> BX_CHAIN_INVOICE_MISSED"
        "ch_cursor st' = \<lparr>cc_phase = cc_phase (ch_cursor st), cc_offset = cc_offset (ch_cursor st) + 500 * k\<rparr>"
        "cc_offset (ch_cursor st) + 500 * k \<le> INT_MAX"
    by (auto simp: chain_moves_def Let_def)
  then show ?thesis using assms(2) by cases (auto simp: cursor_ok_def)
qed

lemma chain_moves_next:
  "chain_moves True st r st' \<Longrightarrow>
   ch_cursor st' = \<lparr>cc_phase = next_phase (cc_phase (ch_cursor st)) (cc_offset (ch_cursor st)), cc_offset = 0\<rparr>"
  unfolding chain_moves_def Let_def by simp

lemma chain_moves_kept:
  assumes "chain_moves False st r st'"
  shows "\<not> cr_prune_contact r \<and> \<not> cr_prune_project r \<and> \<not> cr_prune_invoice r \<and>
         cc_phase (ch_cursor st') = cc_phase (ch_cursor st) \<and>
         (\<exists>k\<ge>0. cc_offset (ch_cursor st') = cc_offset (ch_cursor st) + 500 * k)"
proof (cases "ch_cursor st' = ch_cursor st")
  case True
  then show ?thesis using assms by (auto simp: chain_moves_def Let_def intro: exI [of _ 0])
next
  case False
  then show ?thesis using assms unfolding chain_moves_def Let_def by fastforce
qed

section \<open>Runs of the chain\<close>

text \<open>
  A process initialises the chain and calls it again and again; between two calls the thread
  prunes caches, reconnects and sleeps, which leaves the static variables of the chain. The
  trace has, for every call, the cursor before, what the walk of the call returned, the result
  of the call and the cursor after.
\<close>

type_synonym chain_event = "BXChainCursor \<times> BXillError \<times> BXChainResult \<times> BXChainCursor"

inductive chain_run :: "'w chain_env \<Rightarrow> chain_event list \<Rightarrow> 'w chain_state \<Rightarrow> bool" for env where
  init: "list_all (\<lambda>v. cv_i_value v \<le> INT_MAX) (ch_conf st) \<Longrightarrow> chain_run env [] (bx_chain_init env st)"
| other: "chain_run env tr st \<Longrightarrow> statics st' = statics st \<Longrightarrow> chain_run env tr st'"
| call: "chain_run env tr st \<Longrightarrow> conn \<noteq> NULL \<Longrightarrow> phase_walk env conn st = Some (e, st1) \<Longrightarrow>
         bx_chain_sync env conn st = Some (r, st') \<Longrightarrow>
         chain_run env (tr @ [(ch_cursor st, e, r, ch_cursor st')]) st'"

inductive_cases chain_runE: "chain_run env tr st"

text \<open>
  A walk of the list of phase \<open>p\<close> that started at its first page ended without an error, and
  since that call every call was in the phase \<open>q\<close> that follows.
\<close>

definition walked_from_zero :: "BXChainPhase \<Rightarrow> BXChainPhase \<Rightarrow> chain_event list \<Rightarrow> bool" where
  "walked_from_zero p q tr \<longleftrightarrow>
     (\<exists>pre r post. tr = pre @ (\<lparr>cc_phase = p, cc_offset = 0\<rparr>, NoError, r, \<lparr>cc_phase = q, cc_offset = 0\<rparr>) # post \<and>
        (\<forall>(c, e, r', c')\<in>set post. cc_phase c = q \<and> cc_phase c' = q))"

lemma walked_now:
  "walked_from_zero p q (tr @ [(\<lparr>cc_phase = p, cc_offset = 0\<rparr>, NoError, r, \<lparr>cc_phase = q, cc_offset = 0\<rparr>)])"
  unfolding walked_from_zero_def by (rule exI [of _ tr], rule exI [of _ r], rule exI [of _ "[]"]) simp

lemma walked_later:
  "walked_from_zero p q tr \<Longrightarrow> cc_phase c = q \<Longrightarrow> cc_phase c' = q \<Longrightarrow> walked_from_zero p q (tr @ [(c, e, r, c')])"
  unfolding walked_from_zero_def
  by (elim exE conjE, rule exI, rule exI, rule_tac x = "post @ [(c, e, r, c')]" in exI) auto

definition run_inv :: "chain_event list \<Rightarrow> 'w chain_state \<Rightarrow> bool" where
  "run_inv tr st \<longleftrightarrow> cursor_ok (ch_cursor st) \<and>
     (ch_contact_from_zero st \<longrightarrow> cc_phase (ch_cursor st) = BX_CHAIN_CONTACT_ARCHIVED \<and>
        walked_from_zero BX_CHAIN_CONTACT_ACTIVE BX_CHAIN_CONTACT_ARCHIVED tr) \<and>
     (ch_invoice_from_zero st \<longrightarrow> cc_phase (ch_cursor st) = BX_CHAIN_INVOICE_MISSED \<and>
        walked_from_zero BX_CHAIN_INVOICE_LIST BX_CHAIN_INVOICE_MISSED tr)"

lemma cursor_eq_iff: "c = \<lparr>cc_phase = p, cc_offset = n\<rparr> \<longleftrightarrow> cc_phase c = p \<and> cc_offset c = n"
  by (cases c) auto

lemma run_inv_step:
  assumes "run_inv tr st" and "chain_moves (e = NoError) st r st'"
  shows "run_inv (tr @ [(ch_cursor st, e, r, ch_cursor st')]) st'"
proof -
  have ok: "cursor_ok (ch_cursor st')"
    using assms by (auto simp: run_inv_def intro: chain_moves_cursor_ok)
  let ?tr = "tr @ [(ch_cursor st, e, r, ch_cursor st')]"
  have contact: "cc_phase (ch_cursor st') = BX_CHAIN_CONTACT_ARCHIVED \<and>
      walked_from_zero BX_CHAIN_CONTACT_ACTIVE BX_CHAIN_CONTACT_ARCHIVED ?tr" if "ch_contact_from_zero st'"
  proof (cases "e = NoError")
    case True
    then have "ch_cursor st = \<lparr>cc_phase = BX_CHAIN_CONTACT_ACTIVE, cc_offset = 0\<rparr>"
      "ch_cursor st' = \<lparr>cc_phase = BX_CHAIN_CONTACT_ARCHIVED, cc_offset = 0\<rparr>"
      using assms that by (auto simp: chain_moves_def Let_def run_inv_def next_phase_def cursor_eq_iff split: if_splits)
    then show ?thesis using walked_now True by simp
  next
    case False
    then have "cc_phase (ch_cursor st) = BX_CHAIN_CONTACT_ARCHIVED" "cc_phase (ch_cursor st') = BX_CHAIN_CONTACT_ARCHIVED"
      "walked_from_zero BX_CHAIN_CONTACT_ACTIVE BX_CHAIN_CONTACT_ARCHIVED tr"
      using assms that by (auto simp: chain_moves_def Let_def run_inv_def)
    then show ?thesis using walked_later by simp
  qed
  have invoice: "cc_phase (ch_cursor st') = BX_CHAIN_INVOICE_MISSED \<and>
      walked_from_zero BX_CHAIN_INVOICE_LIST BX_CHAIN_INVOICE_MISSED ?tr" if "ch_invoice_from_zero st'"
  proof (cases "e = NoError")
    case True
    then have "ch_cursor st = \<lparr>cc_phase = BX_CHAIN_INVOICE_LIST, cc_offset = 0\<rparr>"
      "ch_cursor st' = \<lparr>cc_phase = BX_CHAIN_INVOICE_MISSED, cc_offset = 0\<rparr>"
      using assms that by (auto simp: chain_moves_def Let_def run_inv_def next_phase_def cursor_eq_iff split: if_splits)
    then show ?thesis using walked_now True by simp
  next
    case False
    then have "cc_phase (ch_cursor st) = BX_CHAIN_INVOICE_MISSED" "cc_phase (ch_cursor st') = BX_CHAIN_INVOICE_MISSED"
      "walked_from_zero BX_CHAIN_INVOICE_LIST BX_CHAIN_INVOICE_MISSED tr"
      using assms that by (auto simp: chain_moves_def Let_def run_inv_def)
    then show ?thesis using walked_later by simp
  qed
  show ?thesis unfolding run_inv_def using ok contact invoice by blast
qed

lemma conf_int_bound:
  assumes "list_all (\<lambda>v. cv_i_value v \<le> INT_MAX) conf"
  shows "bx_conf_get_int xxh conf k \<le> INT_MAX"
proof -
  have "bx_conf_get xxh conf k = Ptr v \<Longrightarrow> cv_i_value v \<le> INT_MAX" for v
    using assms by (induction conf) (auto split: if_splits)
  then show ?thesis by (auto simp: bx_conf_get_int_def INT_MAX_def split: ptr.splits)
qed

lemma init_cursor_ok:
  assumes "list_all (\<lambda>v. cv_i_value v \<le> INT_MAX) (ch_conf st)"
  shows "cursor_ok (ch_cursor (bx_chain_init env st))"
proof -
  have "cursor_ok (bx_chain_load (ce_xxh env) (Ptr (ch_conf st)))"
    unfolding bx_chain_load_def ptr.case by (intro decode_ok conf_int_bound assms)
  then show ?thesis using normalize_id by (simp add: bx_chain_init_def)
qed

lemma chain_run_inv: "chain_run env tr st \<Longrightarrow> run_inv tr st"
proof (induction rule: chain_run.induct)
  case (init st)
  then show ?case using init_cursor_ok [of st env] by (simp add: run_inv_def bx_chain_init_def)
next
  case (other tr st st')
  then show ?case by (simp add: run_inv_def statics_def)
next
  case (call tr st conn e st1 r st')
  then obtain e1 where "call_follows_walk env conn st e1 r st'"
    using chain_sync_moves [OF call.hyps(4,2)] by (auto simp: run_inv_def)
  then have "chain_moves (e = NoError) st r st'"
    using call.hyps(3) by (simp add: call_follows_walk_def)
  then show ?case using run_inv_step call.IH by blast
qed

section \<open>Properties\<close>

text \<open>An API with empty lists, a server that accepts every statement, handlers never called.\<close>

definition quiet_env :: "unit chain_env" where
  "quiet_env = \<lparr>ce_xxh = \<lambda>k. of_nat (length k), ce_mysql = one_row_mysql [],
     ce_request = \<lambda>path args w. Some (Ptr ((bx_net_request_new path)\<lparr>rq_decoded := Ptr (JArray [])\<rparr>), w),
     ce_contact_item = \<lambda>a item s. None, ce_project_item = \<lambda>item s. None, ce_invoice_item = \<lambda>item s. None\<rparr>"

definition quiet_state :: "BXChainCursor \<Rightarrow> unit chain_state" where
  "quiet_state c = \<lparr>ch_cursor = c, ch_contact_from_zero = False, ch_invoice_from_zero = False, ch_conf = [],
     ch_contacts = NULL, ch_projects = NULL, ch_invoices = NULL, ch_world = ()\<rparr>"

lemma quiet_serves: "serves (chain_walk quiet_env) path_fmt extra []"
  by (simp add: serves_def chain_walk_def quiet_env_def on_world_def as_array_def)

lemma quiet_walk:
  assumes "by_offset path_fmt"
  shows "bx_walk_pages_from (chain_walk quiet_env) path_fmt extra False sync 0 on_page st = Some (NoError, st)"
  using walk_loop_served [OF quiet_serves assms, of extra sync on_page 0 st] first_offset_def [of path_fmt 0] assms
  by (simp add: bx_walk_pages_from_def by_offset_def walk_rows.simps)

lemma quiet_save: "save_cursor quiet_env conn c st = (conn \<noteq> NULL \<and> length (cursor_text c) < 64,
    if conn \<noteq> NULL \<and> length (cursor_text c) < 64
    then st\<lparr>ch_conf := bx_conf_set (ce_xxh quiet_env) (ch_conf st) BX_CHAIN_KEY (CString (cursor_text c))\<rparr> else st)"
  by (auto simp: save_cursor_def bx_chain_save_def bx_conf_put_database_conn_def quiet_env_def one_row_mysql_def
      BX_CHAIN_KEY_def is_mysql_name_def is_prefix_def cursor_text_def Let_def)

text \<open>
  A cursor read back from its stored text is the cursor that was stored, whatever the
  rows of the previous layout hold.
\<close>

theorem cursor_round_trip:
  assumes "cursor_ok c"
  shows "bx_chain_decode (Ptr (bx_chain_phase_name (cc_phase c) @ '':'' @ dec_int (cc_offset c))) step offset pass = c"
  using parse_stored_text [OF assms] by (simp add: bx_chain_decode_def cursor_text_def)

theorem cursor_round_trip_witness:
  "bx_chain_decode (Ptr (bx_chain_phase_name BX_CHAIN_PROJECT @ '':'' @ dec_int 1500)) (Ptr ''contact'') 7 1
   = \<lparr>cc_phase = BX_CHAIN_PROJECT, cc_offset = 1500\<rparr>"
  using cursor_round_trip [of "\<lparr>cc_phase = BX_CHAIN_PROJECT, cc_offset = 1500\<rparr>" "Ptr ''contact''" 7 1]
  by (simp add: cursor_ok_def phases_set INT_MAX_def)

text \<open>
  C34: whatever the two layouts of the stored progress hold, the decoded cursor is a legal
  one: a phase of the chain, an offset between 0 and the largest \<open>int\<close>, and 0 for the search
  for missed invoices.
\<close>

theorem decode_legal:
  assumes "legacy_offset \<le> INT_MAX"
  shows "cursor_ok (bx_chain_decode stored step legacy_offset pass)"
  using assms by (rule decode_ok)

theorem decode_legal_witness:
  "cursor_ok (bx_chain_decode (Ptr ''project:-3'') (Ptr ''invoice'') (- 5) 0)"
  using decode_legal [of "- 5" "Ptr ''project:-3''" "Ptr ''invoice''" 0] by (simp add: INT_MAX_def)

text \<open>
  C9: one call of the chain runs the walk of its phase, and the walk decides. A walk that ends
  without an error leaves the cursor at the start of the next phase (with no search for missed
  invoices after a list that did not start at 0). A walk that fails gives the call its error:
  the phase is kept, the cursor is where it was or past a whole number of pages, and no pruning
  is asked for.
\<close>

theorem chain_sync_cursor:
  assumes "bx_chain_sync env conn st = Some (r, st')" and "conn \<noteq> NULL" and "cursor_ok (ch_cursor st)"
  shows "cursor_ok (ch_cursor st') \<and>
     (\<exists>e st1. phase_walk env conn st = Some (e, st1) \<and>
        (if e = NoError
         then ch_cursor st' = \<lparr>cc_phase = next_phase (cc_phase (ch_cursor st)) (cc_offset (ch_cursor st)), cc_offset = 0\<rparr>
         else cr_error r = e \<and> \<not> cr_prune_contact r \<and> \<not> cr_prune_project r \<and> \<not> cr_prune_invoice r \<and>
              cc_phase (ch_cursor st') = cc_phase (ch_cursor st) \<and>
              (\<exists>k\<ge>0. cc_offset (ch_cursor st') = cc_offset (ch_cursor st) + 500 * k)))"
proof -
  obtain e st1 where walk: "phase_walk env conn st = Some (e, st1)"
      and moves: "chain_moves (e = NoError) st r st'" and err: "e \<noteq> NoError \<longrightarrow> cr_error r = e"
    using chain_sync_moves [OF assms] by (auto simp: call_follows_walk_def)
  have "cursor_ok (ch_cursor st')" by (rule chain_moves_cursor_ok [OF moves assms(3)])
  then show ?thesis
    using walk err moves chain_moves_next [of st r st'] chain_moves_kept [of st r st']
    by (cases "e = NoError") simp_all
qed

theorem chain_sync_cursor_witness:
  "\<exists>r st'. bx_chain_sync quiet_env (Ptr ()) (quiet_state \<lparr>cc_phase = BX_CHAIN_PROJECT, cc_offset = 0\<rparr>) = Some (r, st') \<and>
     ch_cursor st' = \<lparr>cc_phase = BX_CHAIN_INVOICE_LIST, cc_offset = 0\<rparr>"
proof -
  let ?st = "quiet_state \<lparr>cc_phase = BX_CHAIN_PROJECT, cc_offset = 0\<rparr>"
  have "\<exists>r st'. bx_chain_sync quiet_env (Ptr ()) ?st = Some (r, st')"
    by (simp add: bx_chain_sync_def quiet_state_def chain_project_def bx_project_walk_item_from_def
        quiet_walk paths_by_offset Let_def split: prod.split)
  moreover have "phase_walk quiet_env (Ptr ()) ?st = Some (NoError, ?st)"
    by (simp add: phase_walk_def quiet_state_def bx_project_walk_item_from_def quiet_walk paths_by_offset Let_def)
  ultimately show ?thesis
    using chain_sync_cursor [of quiet_env "Ptr ()" ?st]
    by (fastforce simp: quiet_state_def cursor_ok_def phases_set INT_MAX_def next_phase_def)
qed

text \<open>
  C1: the chain asks for a pruning only after a whole list was walked without an error in this
  process: the walk of the call itself came to its end, and it was, for contacts, the walk of
  the archived ones after a walk of the active ones that ended from their first page, with
  nothing but archived pages in between; for projects, a walk from 0; for invoices, the fetch of
  the missed ones after a walk of the list that ended from 0.
\<close>

theorem prune_only_after_full_walk:
  assumes "chain_run env tr st" and "bx_chain_sync env conn st = Some (r, st')" and "conn \<noteq> NULL"
  shows "(cr_prune_contact r \<or> cr_prune_project r \<or> cr_prune_invoice r \<longrightarrow>
            (\<exists>st1. phase_walk env conn st = Some (NoError, st1))) \<and>
         (cr_prune_contact r \<longrightarrow> cc_phase (ch_cursor st) = BX_CHAIN_CONTACT_ARCHIVED \<and>
            walked_from_zero BX_CHAIN_CONTACT_ACTIVE BX_CHAIN_CONTACT_ARCHIVED tr) \<and>
         (cr_prune_project r \<longrightarrow> ch_cursor st = \<lparr>cc_phase = BX_CHAIN_PROJECT, cc_offset = 0\<rparr> \<and>
            ch_cursor st' = \<lparr>cc_phase = BX_CHAIN_INVOICE_LIST, cc_offset = 0\<rparr>) \<and>
         (cr_prune_invoice r \<longrightarrow> cc_phase (ch_cursor st) = BX_CHAIN_INVOICE_MISSED \<and>
            walked_from_zero BX_CHAIN_INVOICE_LIST BX_CHAIN_INVOICE_MISSED tr)"
proof -
  have inv: "run_inv tr st" by (rule chain_run_inv [OF assms(1)])
  then obtain e where "call_follows_walk env conn st e r st'"
    using chain_sync_moves [OF assms(2,3)] by (auto simp: run_inv_def)
  with inv show ?thesis
    by (cases "e = NoError") (auto simp: call_follows_walk_def run_inv_def chain_moves_def Let_def next_phase_def cursor_eq_iff)
qed

lemma quiet_advance:
  assumes "p \<in> set phases"
  shows "\<exists>st'. advance_phase quiet_env (Ptr ()) p st = (NoError, st') \<and>
           statics st' = (\<lparr>cc_phase = p, cc_offset = 0\<rparr>, snd (statics st))"
proof -
  have "length (bx_chain_phase_name p @ '':'' @ dec_int 0) < 64"
    by (cases p) (simp_all add: bx_chain_phase_name_def dec_int_def dec_nat.simps)
  moreover have "normalize_cursor \<lparr>cc_phase = p, cc_offset = 0\<rparr> = \<lparr>cc_phase = p, cc_offset = 0\<rparr>"
    using assms by (intro normalize_id) (simp add: cursor_ok_def INT_MAX_def)
  ultimately show ?thesis
    by (simp add: advance_phase_def quiet_save cursor_text_def statics_def Let_def)
qed

theorem prune_only_after_full_walk_witness:
  "\<exists>tr st r st'. chain_run quiet_env tr st \<and> bx_chain_sync quiet_env (Ptr ()) st = Some (r, st') \<and>
     cr_prune_contact r \<and> walked_from_zero BX_CHAIN_CONTACT_ACTIVE BX_CHAIN_CONTACT_ARCHIVED tr"
proof -
  define s0 where "s0 = bx_chain_init quiet_env (quiet_state \<lparr>cc_phase = BX_CHAIN_PROJECT, cc_offset = 3\<rparr>)"
  have c0: "ch_cursor s0 = \<lparr>cc_phase = BX_CHAIN_CONTACT_ACTIVE, cc_offset = 0\<rparr>"
    by (simp add: s0_def bx_chain_init_def quiet_state_def bx_chain_load_def bx_conf_get_string_def
        bx_conf_get_int_def bx_chain_decode_def parse_stored_def parse_legacy_def normalize_cursor_def phases_set)
  have r0: "chain_run quiet_env [] s0" unfolding s0_def by (rule chain_run.init) (simp add: quiet_state_def)
  obtain s1 where s1: "advance_phase quiet_env (Ptr ()) BX_CHAIN_CONTACT_ARCHIVED
        (s0\<lparr>ch_contact_from_zero := True\<rparr>) = (NoError, s1)"
      "statics s1 = (\<lparr>cc_phase = BX_CHAIN_CONTACT_ARCHIVED, cc_offset = 0\<rparr>, snd (statics (s0\<lparr>ch_contact_from_zero := True\<rparr>)))"
    using quiet_advance by (metis insertCI phases_set)
  have walk: "phase_walk quiet_env (Ptr ()) s0 = Some (NoError, s0\<lparr>ch_contact_from_zero := False\<rparr>)"
    using c0 quiet_walk [OF paths_by_offset(1)] by (simp add: phase_walk_def bx_contact_walk_pass_def Let_def)
  have one: "\<exists>r. bx_chain_sync quiet_env (Ptr ()) s0 = Some (r, s1)"
    using s1(1) c0 quiet_walk [OF paths_by_offset(1)]
    by (simp add: bx_chain_sync_def chain_contact_active_def bx_contact_walk_pass_def finish_resource_def Let_def)
  then obtain r1 where r1: "chain_run quiet_env ([] @ [(ch_cursor s0, NoError, r1, ch_cursor s1)]) s1"
    using chain_run.call [OF r0 _ walk] by blast
  obtain s2 where s2: "advance_phase quiet_env (Ptr ()) BX_CHAIN_PROJECT s1 = (NoError, s2)"
      "statics s2 = (\<lparr>cc_phase = BX_CHAIN_PROJECT, cc_offset = 0\<rparr>, snd (statics s1))"
    using quiet_advance by (metis insertCI phases_set)
  have "\<exists>r st'. bx_chain_sync quiet_env (Ptr ()) s1 = Some (r, st') \<and> cr_prune_contact r"
    using s1(2) s2 quiet_walk [OF paths_by_offset(1)]
    by (simp add: bx_chain_sync_def chain_contact_archived_def bx_contact_walk_pass_def finish_resource_def
        statics_def Let_def)
  then show ?thesis using prune_only_after_full_walk [OF r1, of "Ptr ()"] r1 by blast
qed

text \<open>
  C18: progress survives a restart: once a cursor was saved, a new process that reads the file
  and then the table starts from that cursor, when the server keeps the rows it accepted and
  no two names in the table share a hash with the key of the chain.
\<close>

theorem chain_restart:
  assumes law: "conf_table_law my table" and ok: "cursor_ok c"
    and save: "bx_chain_save xxh my conn c conf w = (True, conf1, w1)"
    and load: "bx_conf_load_database xxh strtod_end my conf2 w1 = (True, conf3, w3)"
    and hash: "own_hash xxh (table w1) BX_CHAIN_KEY"
  shows "bx_chain_load xxh (Ptr conf3) = c"
proof -
  have put: "bx_conf_put_database_conn xxh my conf BX_CHAIN_KEY (CString (cursor_text c)) w = (True, conf1, w1)"
    using save by (auto simp: bx_chain_save_def cursor_text_def Let_def split: if_splits)
  obtain w2 where start: "conf_connect xxh my conf2 w1 = (True, w2)"
    using load by (auto simp: bx_conf_load_database_def split: prod.splits bool.splits)
  have "bx_conf_get_string xxh conf3 BX_CHAIN_KEY = Ptr (cursor_text c)"
    using put_then_load [OF law put start _ hash, of strtod_end] load by (simp add: BX_CHAIN_KEY_def)
  then show ?thesis
    using parse_stored_text [OF ok] by (simp add: bx_chain_load_def bx_chain_decode_def)
qed

theorem chain_restart_witness:
  "bx_chain_load (\<lambda>k. of_nat (length k)) (Ptr (fst (snd (bx_conf_load_database (\<lambda>k. of_nat (length k)) (\<lambda>_. None)
     last_row_mysql [conf_cell 10 (CString ''db''), conf_cell 14 (CString ''x'')]
     (Some (''sync-chain'', ''string'', SqlNull, SqlText (cursor_text \<lparr>cc_phase = BX_CHAIN_PROJECT, cc_offset = 500\<rparr>)))))))
   = \<lparr>cc_phase = BX_CHAIN_PROJECT, cc_offset = 500\<rparr>"
  (is "bx_chain_load ?h (Ptr (fst (snd (bx_conf_load_database ?h ?d ?my ?conf ?w)))) = ?c")
proof (rule chain_restart [OF last_row_law])
  show "cursor_ok ?c" by (simp add: cursor_ok_def phases_set INT_MAX_def)
  have "dec_int 500 = ''500''" by code_simp
  then show "bx_chain_save ?h ?my (Ptr ()) ?c [] None = (True, bx_conf_set ?h [] BX_CHAIN_KEY (CString (cursor_text ?c)), ?w)"
    by (simp add: bx_chain_save_def bx_conf_put_database_conn_def last_row_mysql_def cursor_text_def
        bx_chain_phase_name_def BX_CHAIN_KEY_def is_mysql_name_def is_prefix_def Let_def)
  show "own_hash ?h (last_row ?w) BX_CHAIN_KEY" by (simp add: own_hash_def last_row_def BX_CHAIN_KEY_def)
  show "bx_conf_load_database ?h ?d ?my ?conf ?w = (True, fst (snd (bx_conf_load_database ?h ?d ?my ?conf ?w)), ?w)"
    by (simp add: bx_conf_load_database_def conf_connect_def last_row_mysql_def bx_conf_get_string_def conf_cell_read)
qed

end
