(* ===== verification/Bx_Database.thy ===== *)
theory Bx_Database
  imports Bx_Object
begin

text \<open>
  The queries of \<open>src/src/bx_database.c\<close>: the rewriting of named parameters into the question
  marks of a prepared statement, in place and with checked accesses, the binding of typed
  values, the execution with its error flags, and the reading of a result set. The
  statement interface of the MySQL client is an argument: every call gives an error number,
  0 for success, and a new state of the server.
\<close>

section \<open>Data\<close>

text \<open>The field types the code names; any other one is \<open>MYSQL_TYPE_OTHER\<close>.\<close>

datatype field_type =
    MYSQL_TYPE_DECIMAL | MYSQL_TYPE_TINY | MYSQL_TYPE_SHORT | MYSQL_TYPE_LONG | MYSQL_TYPE_FLOAT
  | MYSQL_TYPE_DOUBLE | MYSQL_TYPE_NULL | MYSQL_TYPE_LONGLONG | MYSQL_TYPE_INT24 | MYSQL_TYPE_BIT
  | MYSQL_TYPE_BLOB | MYSQL_TYPE_VAR_STRING | MYSQL_TYPE_STRING | MYSQL_TYPE_OTHER nat

text \<open>A bound value is the bytes its pointer points to.\<close>

record BXDatabaseParameter =
  pa_name :: "char list"
  pa_name_length :: nat
  pa_value :: "u8 list ptr"
  pa_value_length :: nat
  pa_type :: field_type
  pa_is_null :: bool
  pa_is_unsigned :: bool

record BXDatabaseColumn =
  co_column :: nat
  co_i_value :: int
  co_f_value :: u64
  co_c_value :: "string ptr"
  co_type :: field_type
  co_is_null :: bool

type_synonym BXDatabaseRow = "BXDatabaseColumn list"

record BXDatabaseQuery =
  dq_query :: "char list"
  dq_has_dataset :: bool
  dq_has_failed :: bool
  dq_need_reconnect :: bool
  dq_had_fk_error :: bool
  dq_affected_rows :: nat
  dq_warning_rows :: nat
  dq_result_metadata :: "(string \<times> field_type) list ptr"
  dq_parameters :: "BXDatabaseParameter list"
  dq_fields :: "string list ptr"
  dq_results :: "BXDatabaseRow list"
  dq_row_count :: int
  dq_executed :: bool

datatype db_cell = CellNull | CellInt int | CellFloat u64 | CellText string

record MYSQL_BIND =
  bd_type :: field_type
  bd_buffer :: "u8 list ptr"
  bd_is_null :: bool
  bd_is_unsigned :: bool
  bd_length :: nat

record 'w stmt_api =
  sa_prepare :: "string \<Rightarrow> 'w \<Rightarrow> nat \<times> 'w"
  sa_bind :: "MYSQL_BIND list \<Rightarrow> 'w \<Rightarrow> nat \<times> 'w"
  sa_execute :: "string \<Rightarrow> MYSQL_BIND list \<Rightarrow> 'w \<Rightarrow> nat \<times> 'w"
  sa_affected_rows :: "'w \<Rightarrow> nat"
  sa_result_metadata :: "'w \<Rightarrow> (string \<times> field_type) list ptr"
  sa_metadata_errno :: "'w \<Rightarrow> nat"
  sa_warning_count :: "'w \<Rightarrow> nat"
  sa_show_warnings :: "'w \<Rightarrow> (string ptr list + nat) \<times> 'w"
  sa_fetch :: "'w \<Rightarrow> db_cell list list \<times> nat \<times> 'w"

section \<open>Named parameters\<close>

definition BX_DATABASE_PARAMETER_MAX_NAME_LENGTH :: nat where
  "BX_DATABASE_PARAMETER_MAX_NAME_LENGTH = 30"

definition is_variable_char :: "char \<Rightarrow> bool" where
  "is_variable_char c \<longleftrightarrow> (let n = of_char c :: nat in
     48 \<le> n \<and> n \<le> 57 \<or> 97 \<le> n \<and> n \<le> 122 \<or> 65 \<le> n \<and> n \<le> 90 \<or> c = CHR ''_'')"

text \<open>The first pass: \<open>colon\<close> and \<open>varname\<close> are the two bits of its state.\<close>

fun count_params :: "char list \<Rightarrow> bool \<Rightarrow> bool \<Rightarrow> nat \<Rightarrow> nat" where
  "count_params [] colon varname n = n"
| "count_params (c # q) colon varname n =
     (let varname1 = (varname \<or> colon \<and> is_variable_char c);
          hit = (varname1 \<and> is_variable_char c);
          colon1 = (colon \<and> \<not> hit);
          varname2 = (varname1 \<and> \<not> hit);
          reset = (colon1 \<and> \<not> is_variable_char c)
      in count_params q (colon1 \<and> \<not> reset \<or> c = CHR '':'') (varname2 \<and> \<not> reset) (if hit then n + 1 else n))"

definition zero_parameter :: BXDatabaseParameter where
  "zero_parameter = \<lparr>pa_name = replicate 30 NUL, pa_name_length = 0, pa_value = NULL, pa_value_length = 0,
     pa_type = MYSQL_TYPE_DECIMAL, pa_is_null = False, pa_is_unsigned = False\<rparr>"

text \<open>
  The second pass, in place: \<open>i\<close> reads and \<open>j\<close> writes. A name is copied with its colon, and a
  terminator is written one cell after the one that follows it.
\<close>

definition name_length :: "char list \<Rightarrow> nat \<Rightarrow> nat" where
  "name_length buf i = 1 + length (takeWhile is_variable_char (drop (i + 1) buf))"

definition name_param :: "char list \<Rightarrow> nat \<Rightarrow> BXDatabaseParameter list \<Rightarrow> nat \<Rightarrow> BXDatabaseParameter list option" where
  "name_param buf i params p = do {
     param \<leftarrow> rd params p;
     name1 \<leftarrow> copy_in (pa_name param) 0 (take (name_length buf i) (drop i buf));
     name2 \<leftarrow> wr name1 (name_length buf i + 1) NUL;
     wr params p (param\<lparr>pa_name := name2, pa_name_length := name_length buf i\<rparr>)
   }"

function rewrite_params :: "char list \<Rightarrow> nat \<Rightarrow> nat \<Rightarrow> BXDatabaseParameter list \<Rightarrow> nat
    \<Rightarrow> (char list \<times> nat \<times> BXDatabaseParameter list) option" where
  "rewrite_params buf i j params p =
     (if \<not> i < length buf then Some (buf, j, params)
      else case wr buf j (buf ! i) of
        None \<Rightarrow> None
      | Some buf1 \<Rightarrow>
          if buf1 ! i = CHR '':'' \<and> i + 1 < length buf1 \<and> is_variable_char (buf1 ! (i + 1)) then
            (case name_param buf1 i params p of
               None \<Rightarrow> None
             | Some params1 \<Rightarrow>
                 (case wr buf1 j (CHR ''?'') of
                    None \<Rightarrow> None
                  | Some buf2 \<Rightarrow> rewrite_params buf2 (i + name_length buf1 i) (j + 1) params1 (p + 1)))
          else rewrite_params buf1 (i + 1) (j + 1) params p)"
  by pat_completeness auto
termination
  by (relation "measure (\<lambda>(buf, i, j, params, p). length buf - i)")
     (auto simp: wr_def name_length_def split: if_splits)

declare rewrite_params.simps [simp del]

definition bx_database_new_query :: "string \<Rightarrow> BXDatabaseQuery ptr option" where
  "bx_database_new_query query =
     (if query = [] then Some NULL
      else do {
        let buf = query @ [NUL];
        (buf1, j, params) \<leftarrow> rewrite_params buf 0 0 (replicate (count_params buf False False 0) zero_parameter) 0;
        buf2 \<leftarrow> (if j < length buf1 then wr buf1 j NUL else Some buf1);
        Some (Ptr \<lparr>dq_query = buf2, dq_has_dataset = False, dq_has_failed = False, dq_need_reconnect = False,
          dq_had_fk_error = False, dq_affected_rows = 0, dq_warning_rows = 0, dq_result_metadata = NULL,
          dq_parameters = params, dq_fields = NULL, dq_results = [], dq_row_count = 0, dq_executed = False\<rparr>)
      })"

text \<open>\<open>strncmp\<close> of a name with the 30 bytes of the field: both stop at a NUL.\<close>

fun find_param :: "BXDatabaseParameter list \<Rightarrow> string \<Rightarrow> nat option" where
  "find_param [] name = None"
| "find_param (p # ps) name =
     (if take 30 name = take 30 (cstr (pa_name p)) then Some 0 else map_option Suc (find_param ps name))"

definition with_param ::
    "BXDatabaseQuery \<Rightarrow> string \<Rightarrow> (BXDatabaseParameter \<Rightarrow> BXDatabaseParameter) \<Rightarrow> bool \<times> BXDatabaseQuery" where
  "with_param q name f =
     (case find_param (dq_parameters q) name of
        None \<Rightarrow> (False, q)
      | Some k \<Rightarrow> (True, q\<lparr>dq_parameters := (dq_parameters q)[k := f (dq_parameters q ! k)]\<rparr>))"

section \<open>Values of parameters\<close>

definition bx_database_replace_param :: "BXDatabaseQuery \<Rightarrow> string \<Rightarrow> u8 list \<Rightarrow> nat \<Rightarrow> bool \<times> BXDatabaseQuery" where
  "bx_database_replace_param q name v n = with_param q name (\<lambda>p. p\<lparr>pa_value := Ptr v, pa_value_length := n\<rparr>)"

definition bx_database_add_param_str ::
    "BXDatabaseQuery \<Rightarrow> string \<Rightarrow> u8 list ptr \<Rightarrow> nat \<Rightarrow> field_type \<Rightarrow> bool \<times> BXDatabaseQuery" where
  "bx_database_add_param_str q name v n t =
     with_param q name (\<lambda>p. p\<lparr>pa_value := v, pa_value_length := n, pa_type := t,
       pa_is_null := (v = NULL), pa_is_unsigned := False\<rparr>)"

definition bx_database_add_param_int ::
    "BXDatabaseQuery \<Rightarrow> string \<Rightarrow> u8 list ptr \<Rightarrow> nat \<Rightarrow> field_type \<Rightarrow> bool \<Rightarrow> bool \<times> BXDatabaseQuery" where
  "bx_database_add_param_int q name v n t is_unsigned =
     with_param q name (\<lambda>p. p\<lparr>pa_value := v, pa_value_length := n, pa_type := t,
       pa_is_null := (v = NULL), pa_is_unsigned := is_unsigned\<rparr>)"

definition bx_database_add_param_uint64 :: "BXDatabaseQuery \<Rightarrow> string \<Rightarrow> u64 \<Rightarrow> bool \<times> BXDatabaseQuery" where
  "bx_database_add_param_uint64 q name v =
     bx_database_add_param_int q name (Ptr (le_bytes 8 v)) 8 MYSQL_TYPE_LONGLONG True"

definition set_null :: "BXDatabaseParameter \<Rightarrow> BXDatabaseParameter" where
  "set_null p = p\<lparr>pa_is_null := True, pa_value := NULL, pa_type := MYSQL_TYPE_NULL, pa_value_length := 0\<rparr>"

definition set_value :: "u8 list ptr \<Rightarrow> nat \<Rightarrow> field_type \<Rightarrow> BXDatabaseParameter \<Rightarrow> BXDatabaseParameter" where
  "set_value v n t p = p\<lparr>pa_value := v, pa_value_length := n, pa_type := t, pa_is_null := False, pa_is_unsigned := False\<rparr>"

definition bytes_ptr :: "string ptr \<Rightarrow> u8 list ptr" where
  "bytes_ptr s = (case s of NULL \<Rightarrow> NULL | Ptr b \<Rightarrow> Ptr (map byte_of b))"

fun bx_database_add_bxtype :: "BXDatabaseQuery \<Rightarrow> string \<Rightarrow> BXAny \<Rightarrow> bool \<times> BXDatabaseQuery" where
  "bx_database_add_bxtype q name (AInteger v) = with_param q name
     (if \<not> bi_isset v then set_null else set_value (Ptr (le_bytes 8 (word_of_int (bi_value v) :: u64))) 8 MYSQL_TYPE_LONGLONG)"
| "bx_database_add_bxtype q name (AUInteger v) = with_param q name
     (if \<not> bu_isset v then set_null else set_value (Ptr (le_bytes 8 (bu_value v))) 8 MYSQL_TYPE_LONGLONG)"
| "bx_database_add_bxtype q name (AString v) = with_param q name
     (if \<not> bs_isset v \<or> bs_value v = NULL then set_null
      else set_value (bytes_ptr (bs_value v)) (bs_len v) MYSQL_TYPE_STRING)"
| "bx_database_add_bxtype q name (AFloat v) = with_param q name
     (if \<not> bf_isset v then set_null else set_value (Ptr (le_bytes 8 (bf_value v))) 8 MYSQL_TYPE_DOUBLE)"
| "bx_database_add_bxtype q name (ABool v) = with_param q name
     (if \<not> bb_isset v then set_null else set_value (Ptr [if bb_value v then 1 else 0]) 1 MYSQL_TYPE_TINY)"
| "bx_database_add_bxtype q name (ABytes v) = with_param q name
     (if \<not> by_isset v \<or> by_value v = NULL then set_null else set_value (by_value v) (by_len v) MYSQL_TYPE_BLOB)"
| "bx_database_add_bxtype q name (AUuid v) = with_param q name
     (if \<not> bq_isset v then set_null
      else set_value (Ptr (le_bytes 8 (fst (bq_value v)) @ le_bytes 8 (snd (bq_value v)))) 16 MYSQL_TYPE_BLOB)"
| "bx_database_add_bxtype q name (Other t) = with_param q name set_null"

section \<open>Execution\<close>

text \<open>The errors of the client library after which a connection is not usable.\<close>

definition lost_connection :: "nat \<Rightarrow> bool" where
  "lost_connection errno \<longleftrightarrow> errno = 2006 \<or> errno = 2013 \<or> errno = 2003"

definition mark_reconnect :: "nat \<Rightarrow> BXDatabaseQuery \<Rightarrow> BXDatabaseQuery" where
  "mark_reconnect errno q = (if lost_connection errno then q\<lparr>dq_need_reconnect := True\<rparr> else q)"

text \<open>The binding of one parameter; the parameter itself changes when it binds a NULL.\<close>

definition param_to_bind :: "BXDatabaseParameter \<Rightarrow> MYSQL_BIND \<times> BXDatabaseParameter" where
  "param_to_bind p =
     (if pa_is_null p then
        (\<lparr>bd_type = MYSQL_TYPE_NULL, bd_buffer = NULL, bd_is_null = True, bd_is_unsigned = False, bd_length = 0\<rparr>,
         p\<lparr>pa_value_length := 0\<rparr>)
      else
        (let b = \<lparr>bd_type = pa_type p, bd_buffer = pa_value p, bd_is_null = False, bd_is_unsigned = False, bd_length = 0\<rparr> in
         if pa_type p \<in> {MYSQL_TYPE_TINY, MYSQL_TYPE_SHORT, MYSQL_TYPE_LONG, MYSQL_TYPE_LONGLONG} then
           (b\<lparr>bd_is_unsigned := pa_is_unsigned p\<rparr>, p)
         else if pa_type p \<in> {MYSQL_TYPE_VAR_STRING, MYSQL_TYPE_STRING, MYSQL_TYPE_BLOB} then
           if pa_value p = NULL then
             (b\<lparr>bd_is_null := True, bd_type := MYSQL_TYPE_NULL, bd_length := 0\<rparr>,
              p\<lparr>pa_is_null := True, pa_value_length := 0\<rparr>)
           else (b\<lparr>bd_length := pa_value_length p\<rparr>, p)
         else (b, p)))"

definition bx_database_free_result :: "BXDatabaseQuery \<Rightarrow> BXDatabaseQuery" where
  "bx_database_free_result q = q\<lparr>dq_results := [], dq_fields := NULL\<rparr>"

definition free_query_metadata :: "BXDatabaseQuery \<Rightarrow> BXDatabaseQuery" where
  "free_query_metadata q =
     (if dq_result_metadata q = NULL then q else q\<lparr>dq_result_metadata := NULL, dq_has_dataset := False\<rparr>)"

definition fk_warning :: "string ptr \<Rightarrow> bool" where
  "fk_warning code = (case code of NULL \<Rightarrow> False | Ptr c \<Rightarrow> c = ''1452'' \<or> c = ''1216'' \<or> c = ''1451'')"

definition bx_database_print_warnings :: "'w stmt_api \<Rightarrow> BXDatabaseQuery \<Rightarrow> 'w \<Rightarrow> BXDatabaseQuery \<times> 'w" where
  "bx_database_print_warnings api q w =
     (case sa_show_warnings api w of
        (Inr errno, w1) \<Rightarrow> (mark_reconnect errno q, w1)
      | (Inl codes, w1) \<Rightarrow> (if list_ex fk_warning codes then q\<lparr>dq_had_fk_error := True\<rparr> else q, w1))"

text \<open>The part of the execution that follows the preparation of the statement.\<close>

definition execute_prepared :: "'w stmt_api \<Rightarrow> BXDatabaseQuery \<Rightarrow> 'w \<Rightarrow> bool \<times> BXDatabaseQuery \<times> 'w" where
  "execute_prepared api q w =
     (let bound = map param_to_bind (dq_parameters q);
          q1 = q\<lparr>dq_parameters := map snd bound\<rparr>
      in case sa_bind api (map fst bound) w of
        (errno, w1) \<Rightarrow>
          if errno \<noteq> 0 then (False, mark_reconnect errno q1, w1)
          else
            (let q2 = q1\<lparr>dq_has_failed := False\<rparr> in
             case sa_execute api (cstr (dq_query q)) (map fst bound) w1 of
               (errno, w2) \<Rightarrow>
                 if errno \<noteq> 0 then (False, mark_reconnect errno (q2\<lparr>dq_has_failed := True\<rparr>), w2)
                 else
                   (let q3 = q2\<lparr>dq_affected_rows := sa_affected_rows api w2, dq_has_dataset := True,
                               dq_result_metadata := sa_result_metadata api w2\<rparr> in
                    if dq_result_metadata q3 = NULL \<and> sa_metadata_errno api w2 \<noteq> 0 then
                      (False, mark_reconnect (sa_metadata_errno api w2) (q3\<lparr>dq_has_failed := True\<rparr>), w2)
                    else
                      (let q4 = q3\<lparr>dq_has_dataset := (dq_result_metadata q3 \<noteq> NULL), dq_executed := True,
                                  dq_warning_rows := sa_warning_count api w2, dq_had_fk_error := False\<rparr> in
                       if 0 < dq_warning_rows q4 then
                         (case bx_database_print_warnings api q4 w2 of
                            (q5, w3) \<Rightarrow> (\<not> dq_need_reconnect q5, q5, w3))
                       else (True, q4, w2)))))"

definition bx_database_execute :: "'w stmt_api \<Rightarrow> BXDatabaseQuery \<Rightarrow> 'w \<Rightarrow> bool \<times> BXDatabaseQuery \<times> 'w" where
  "bx_database_execute api q w =
     (if dq_executed q then execute_prepared api (bx_database_free_result q) w
      else case sa_prepare api (cstr (dq_query q)) w of
        (errno, w1) \<Rightarrow>
          if errno \<noteq> 0 then (False, mark_reconnect errno q, w1)
          else execute_prepared api q w1)"

definition bx_database_persist_ok :: "BXDatabaseQuery ptr \<Rightarrow> bool" where
  "bx_database_persist_ok q =
     (case q of NULL \<Rightarrow> False | Ptr q \<Rightarrow> \<not> dq_has_failed q \<and> \<not> dq_had_fk_error q \<and> dq_warning_rows q = 0)"

definition bx_database_query_error :: "BXDatabaseQuery ptr \<Rightarrow> BXillError" where
  "bx_database_query_error q =
     (case q of NULL \<Rightarrow> ErrorGeneric | Ptr q \<Rightarrow> if dq_need_reconnect q then ErrorSQLReconnect else ErrorGeneric)"

section \<open>Result sets\<close>

text \<open>
  A column as it is after the fetch: an integer is written by the client into the first bytes
  of the zeroed \<open>i_value\<close>, as many as the type of the field has, a floating number into
  \<open>f_value\<close>, a text is fetched into a block of its own, and no other type is read. The cell of a
  BIT field is the bytes the server sends. \<open>sa_fetch\<close> gives the rows the cursor delivers and the
  error that ends them, 0 at the end of the data.
\<close>

definition int_column :: "field_type \<Rightarrow> int \<Rightarrow> int" where
  "int_column t v =
     (if t = MYSQL_TYPE_TINY then v mod 2 ^ 8
      else if t = MYSQL_TYPE_SHORT then v mod 2 ^ 16
      else if t = MYSQL_TYPE_LONG \<or> t = MYSQL_TYPE_INT24 then v mod 2 ^ 32
      else sint (word_of_int v :: u64))"

definition fetch_column :: "nat \<Rightarrow> field_type \<Rightarrow> db_cell \<Rightarrow> BXDatabaseColumn" where
  "fetch_column i t cell =
     (let c = \<lparr>co_column = i, co_i_value = 0, co_f_value = 0, co_c_value = NULL, co_type = t,
               co_is_null = (cell = CellNull)\<rparr> in
      if t \<in> {MYSQL_TYPE_TINY, MYSQL_TYPE_SHORT, MYSQL_TYPE_LONG, MYSQL_TYPE_LONGLONG, MYSQL_TYPE_INT24}
      then (case cell of CellInt v \<Rightarrow> c\<lparr>co_i_value := int_column t v\<rparr> | _ \<Rightarrow> c)
      else if t = MYSQL_TYPE_BIT
      then (case cell of
              CellText s \<Rightarrow> c\<lparr>co_i_value := int_column t (horner_sum (\<lambda>b. of_char b) 256 (take 8 s))\<rparr>
            | _ \<Rightarrow> c)
      else if t \<in> {MYSQL_TYPE_FLOAT, MYSQL_TYPE_DOUBLE}
      then (case cell of CellFloat v \<Rightarrow> c\<lparr>co_f_value := v\<rparr> | _ \<Rightarrow> c)
      else if t \<in> {MYSQL_TYPE_BLOB, MYSQL_TYPE_STRING, MYSQL_TYPE_VAR_STRING}
      then (case cell of CellText s \<Rightarrow> c\<lparr>co_c_value := Ptr (s @ [NUL])\<rparr> | _ \<Rightarrow> c\<lparr>co_c_value := Ptr [NUL]\<rparr>)
      else c)"

definition fetch_row :: "(string \<times> field_type) list \<Rightarrow> db_cell list \<Rightarrow> BXDatabaseRow" where
  "fetch_row cols cells =
     map (\<lambda>i. fetch_column i (snd (cols ! i)) (if i < length cells then cells ! i else CellNull)) [0..<length cols]"

definition bx_database_results :: "'w stmt_api \<Rightarrow> BXDatabaseQuery \<Rightarrow> 'w \<Rightarrow> bool \<times> BXDatabaseQuery \<times> 'w" where
  "bx_database_results api q w =
     (if \<not> dq_has_dataset q then (\<not> dq_has_failed q, q, w)
      else case dq_result_metadata q of
        NULL \<Rightarrow> (False, q, w)
      | Ptr cols \<Rightarrow>
          if dq_has_failed q then (False, q, w)
          else if cols = [] then (False, free_query_metadata q, w)
          else
            (let q1 = (if dq_fields q = NULL then q\<lparr>dq_fields := Ptr (map fst cols)\<rparr> else q) in
             case sa_fetch api w of
               (rows, errno, w1) \<Rightarrow>
                 (let q2 = q1\<lparr>dq_results := dq_results q1 @ map (fetch_row cols) rows\<rparr> in
                  if errno \<noteq> 0 then (False, free_query_metadata (mark_reconnect errno q2), w1)
                  else (True, free_query_metadata (q2\<lparr>dq_row_count := int (length rows)\<rparr>), w1))))"

section \<open>The rewriting of parameters\<close>

text \<open>What the rewriting means: the text with question marks, and the names in order.\<close>

function sql_params :: "string \<Rightarrow> string \<times> string list" where
  "sql_params [] = ([], [])"
| "sql_params (c # q) =
     (if c = CHR '':'' \<and> q \<noteq> [] \<and> is_variable_char (hd q) then
        (case sql_params (dropWhile is_variable_char q) of
           (t, ns) \<Rightarrow> (CHR ''?'' # t, (c # takeWhile is_variable_char q) # ns))
      else case sql_params q of (t, ns) \<Rightarrow> (c # t, ns))"
  by pat_completeness auto
termination
  by (relation "measure length") (auto simp: le_imp_less_Suc length_dropWhile_le)

lemma sql_params_Cons [simp]:
  "sql_params (c # q) =
     (if c = CHR '':'' \<and> q \<noteq> [] \<and> is_variable_char (hd q) then
        (CHR ''?'' # fst (sql_params (dropWhile is_variable_char q)),
         (c # takeWhile is_variable_char q) # snd (sql_params (dropWhile is_variable_char q)))
      else (c # fst (sql_params q), snd (sql_params q)))"
  by (simp split: prod.split)

declare sql_params.simps(2) [simp del]

lemma colon_not_variable: "\<not> is_variable_char (CHR '':'')"
  by (simp add: is_variable_char_def)

lemma NUL_not_variable: "\<not> is_variable_char NUL"
  by (simp add: is_variable_char_def NUL_def)

lemma count_params_step:
  "count_params (c # q) colon False n =
     count_params q (c = CHR '':'') False (if colon \<and> is_variable_char c then n + 1 else n)"
  using colon_not_variable by (cases colon; cases "is_variable_char c") (auto simp: Let_def)

lemma count_params_name:
  "list_all is_variable_char v \<Longrightarrow> count_params (v @ q) False False n = count_params q False False n"
proof (induction v arbitrary: n)
  case (Cons c v)
  then have "c \<noteq> CHR '':''" using colon_not_variable by auto
  with Cons show ?case by (simp add: count_params_step del: count_params.simps)
qed simp

lemma count_params_names: "count_params q False False n = n + length (snd (sql_params q))"
proof (induction q arbitrary: n rule: sql_params.induct)
  case (2 c q)
  show ?case
  proof (cases "c = CHR '':'' \<and> q \<noteq> [] \<and> is_variable_char (hd q)")
    case True
    then obtain d r where q: "q = d # r" "is_variable_char d" by (cases q) auto
    let ?v = "takeWhile is_variable_char r" and ?q = "dropWhile is_variable_char r"
    have "d \<noteq> CHR '':''" using q colon_not_variable by auto
    then have "count_params (c # q) False False n = count_params (?v @ ?q) False False (n + 1)"
      using True q by (simp add: count_params_step del: count_params.simps)
    also have "\<dots> = count_params ?q False False (n + 1)"
      by (rule count_params_name) (auto simp: list_all_iff dest: set_takeWhileD)
    also have "\<dots> = n + 1 + length (snd (sql_params ?q))"
      using "2.IH"(1) [OF True, of "n + 1"] q by simp
    finally show ?thesis using True q by simp
  next
    case False
    have "count_params (c # q) False False n = count_params q (c = CHR '':'') False n"
      by (simp add: count_params_step del: count_params.simps)
    also have "\<dots> = count_params q False False n"
      using False by (cases q) (auto simp: count_params_step simp del: count_params.simps(2))
    finally show ?thesis using False "2.IH"(2) [OF False] by auto
  qed
qed simp

definition named :: "string \<Rightarrow> BXDatabaseParameter" where
  "named name = zero_parameter\<lparr>pa_name := name @ replicate (30 - length name) NUL, pa_name_length := length name\<rparr>"

lemma write_over:
  "\<exists>junk'. wr (out @ junk @ c # q) (length out) x = Some ((out @ [x]) @ junk' @ q) \<and> length junk' = length junk \<and>
     (x = c \<or> junk \<noteq> [] \<longrightarrow> (((out @ [x]) @ junk' @ q) ! (length out + length junk) = c))"
proof (cases junk)
  case Nil
  then show ?thesis by (intro exI [of _ "[]"]) (auto simp: wr_def list_update_append)
next
  case (Cons y ys)
  then show ?thesis
    by (intro exI [of _ "ys @ [c]"]) (auto simp: wr_def list_update_append nth_append)
qed

lemma name_param_fresh:
  assumes "drop i buf = name @ rest" and "name_length buf i = length name" and "length name \<le> 28"
  shows "name_param buf i (dn @ zero_parameter # ps) (length dn) = Some (dn @ named name # ps)"
proof -
  have "copy_in (replicate 30 NUL) 0 name = Some (name @ replicate (30 - length name) NUL)"
    using assms(3) by (simp add: copy_in_def)
  moreover have "wr (name @ replicate (30 - length name) NUL) (length name + 1) NUL
      = Some (name @ replicate (30 - length name) NUL)"
    using assms(3) by (auto simp: wr_def list_update_append intro!: list_update_same_conv [THEN iffD2])
  ultimately show ?thesis
    using assms by (simp add: name_param_def zero_parameter_def named_def rd_def wr_def list_update_append)
qed

lemma rewrite_params_spec:
  assumes "list_all (\<lambda>n. length n \<le> 28) (snd (sql_params rest))"
  shows "\<exists>junk'. rewrite_params (out @ junk @ rest) (length out + length junk) (length out)
           (dn @ replicate (length (snd (sql_params rest))) zero_parameter) (length dn)
         = Some (out @ fst (sql_params rest) @ junk', length out + length (fst (sql_params rest)),
                 dn @ map named (snd (sql_params rest)))"
  using assms
proof (induction rest arbitrary: out junk dn rule: sql_params.induct)
  case 1
  then show ?case by (subst rewrite_params.simps) simp
next
  case (2 c q)
  obtain junk1 where w1: "wr (out @ junk @ c # q) (length out) c = Some ((out @ [c]) @ junk1 @ q)"
      "length junk1 = length junk" "((out @ [c]) @ junk1 @ q) ! (length out + length junk) = c"
    using write_over [of out junk c q c] by blast
  let ?i = "length out + length junk" and ?b = "(out @ [c]) @ junk1 @ q"
  have at: "(out @ junk @ c # q) ! ?i = c" by (simp add: nth_append)
  have next_char: "?i + 1 < length ?b \<longleftrightarrow> q \<noteq> []" "q \<noteq> [] \<Longrightarrow> ?b ! (?i + 1) = hd q"
    using w1(2) by (auto simp: nth_append hd_conv_nth)
  have dropb: "drop (?i + 1) ?b = q" using w1(2) by simp
  show ?case
  proof (cases "c = CHR '':'' \<and> q \<noteq> [] \<and> is_variable_char (hd q)")
    case False
    then have "\<not> (?b ! ?i = CHR '':'' \<and> ?i + 1 < length ?b \<and> is_variable_char (?b ! (?i + 1)))"
      using w1(3) next_char by auto
    then have "rewrite_params (out @ junk @ c # q) ?i (length out) ps p
        = rewrite_params ((out @ [c]) @ junk1 @ q) (length (out @ [c]) + length junk1) (length (out @ [c])) ps p" for ps p
      using at w1(1,2) by (subst rewrite_params.simps) auto
    with "2.IH"(2) [OF False, of "out @ [c]" junk1 dn] "2.prems" False show ?thesis by auto
  next
    case True
    let ?v = "takeWhile is_variable_char q" and ?r = "dropWhile is_variable_char q"
    have cond: "?b ! ?i = CHR '':'' \<and> ?i + 1 < length ?b \<and> is_variable_char (?b ! (?i + 1))"
      using True w1(3) next_char by simp
    have nl: "name_length ?b ?i = length (c # ?v)" unfolding name_length_def dropb by simp
    have lt: "?i < length ?b" using cond by linarith
    have "drop ?i ?b = ?b ! ?i # drop (?i + 1) ?b"
      using Cons_nth_drop_Suc [OF lt, symmetric] unfolding Suc_eq_plus1 .
    then have drp: "drop ?i ?b = (c # ?v) @ ?r" unfolding dropb w1(3) by simp
    have short: "length (c # ?v) \<le> 28" and rest_ok: "list_all (\<lambda>n. length n \<le> 28) (snd (sql_params ?r))"
      using "2.prems" True by simp_all
    have np: "name_param ?b ?i (dn @ zero_parameter # ps) (length dn) = Some (dn @ named (c # ?v) # ps)" for ps
      by (rule name_param_fresh [OF drp nl short])
    have "wr ?b (length out) (CHR ''?'') = Some ((out @ ''?'') @ (junk1 @ ?v) @ ?r)"
      by (simp add: wr_def list_update_append)
    then have "rewrite_params (out @ junk @ c # q) ?i (length out) (dn @ zero_parameter # ps) (length dn)
        = rewrite_params ((out @ ''?'') @ (junk1 @ ?v) @ ?r) (length (out @ ''?'') + length (junk1 @ ?v))
            (length (out @ ''?'')) ((dn @ [named (c # ?v)]) @ ps) (length (dn @ [named (c # ?v)]))" for ps
      using at w1(1,2) cond np nl by (subst rewrite_params.simps) (simp add: add.assoc)
    with "2.IH"(1) [OF True rest_ok, of "out @ ''?''" "junk1 @ ?v" "dn @ [named (c # ?v)]"] True
    show ?thesis by simp
  qed
qed

lemma sql_params_snoc_NUL:
  "sql_params (q @ [NUL]) = (fst (sql_params q) @ [NUL], snd (sql_params q))"
proof (induction q rule: sql_params.induct)
  case 1
  then show ?case by (simp add: NUL_def)
next
  case (2 c q)
  have keep: "dropWhile is_variable_char (q @ [NUL]) = dropWhile is_variable_char q @ [NUL]"
    "takeWhile is_variable_char (q @ [NUL]) = takeWhile is_variable_char q"
    using NUL_not_variable by (induction q) auto
  show ?case
  proof (cases "c = CHR '':'' \<and> q \<noteq> [] \<and> is_variable_char (hd q)")
    case True
    then show ?thesis using "2.IH"(1) [OF True] keep by simp
  next
    case False
    then have "\<not> (c = CHR '':'' \<and> q @ [NUL] \<noteq> [] \<and> is_variable_char (hd (q @ [NUL])))"
      using NUL_not_variable by (cases q) auto
    then show ?thesis using "2.IH"(2) [OF False] False by auto
  qed
qed

lemma cstr_text: "list_all (\<lambda>c. c \<noteq> NUL) t \<Longrightarrow> cstr (t @ NUL # r) = t"
  by (auto simp: cstr_def takeWhile_append list_all_iff)

lemma sql_params_no_NUL: "list_all (\<lambda>c. c \<noteq> NUL) q \<Longrightarrow> list_all (\<lambda>c. c \<noteq> NUL) (fst (sql_params q))"
proof (induction q rule: sql_params.induct)
  case (2 c q)
  have "list_all (\<lambda>c. c \<noteq> NUL) (dropWhile is_variable_char q)"
    using "2.prems" by (auto simp: list_all_iff dest: set_dropWhileD)
  with 2 show ?case by (auto simp: NUL_def)
qed simp

lemma new_query_spec:
  assumes "q \<noteq> []" and "list_all (\<lambda>n. length n \<le> 28) (snd (sql_params q))" and "list_all (\<lambda>c. c \<noteq> NUL) q"
  shows "\<exists>dq. bx_database_new_query q = Some (Ptr dq) \<and> cstr (dq_query dq) = fst (sql_params q) \<and>
           dq_parameters dq = map named (snd (sql_params q)) \<and> \<not> dq_executed dq \<and> \<not> dq_has_failed dq \<and>
           \<not> dq_need_reconnect dq"
proof -
  have n: "count_params (q @ [NUL]) False False 0 = length (snd (sql_params q))"
    by (simp add: count_params_names sql_params_snoc_NUL)
  obtain junk where rw: "rewrite_params (q @ [NUL]) 0 0 (replicate (length (snd (sql_params q))) zero_parameter) 0
      = Some ((fst (sql_params q) @ [NUL]) @ junk, length (fst (sql_params q) @ [NUL]), map named (snd (sql_params q)))"
    using rewrite_params_spec [of "q @ [NUL]" "[]" "[]" "[]"] assms(2) by (auto simp: sql_params_snoc_NUL)
  let ?t = "fst (sql_params q) @ [NUL]"
  have "\<exists>junk'. (if length ?t < length (?t @ junk) then wr (?t @ junk) (length ?t) NUL else Some (?t @ junk)) = Some (?t @ junk')"
    by (cases junk) (auto simp: wr_def list_update_append)
  then obtain junk' where last: "(if length ?t < length (?t @ junk) then wr (?t @ junk) (length ?t) NUL
      else Some (?t @ junk)) = Some (?t @ junk')" by blast
  show ?thesis
    using assms(1) rw last cstr_text [OF sql_params_no_NUL [OF assms(3)], of junk']
    by (auto simp: bx_database_new_query_def n Let_def)
qed

section \<open>Parameters by name\<close>

lemma cstr_named:
  assumes "length n \<le> 28" and "list_all (\<lambda>c. c \<noteq> NUL) n"
  shows "cstr (pa_name (named n)) = n"
proof -
  have "replicate (30 - length n) NUL = NUL # replicate (29 - length n) NUL"
    using assms(1) by (simp flip: replicate_Suc add: Suc_diff_le)
  then show ?thesis using cstr_text [OF assms(2)] by (simp add: named_def)
qed

lemma find_param_named:
  assumes "list_all (\<lambda>n. length n \<le> 28 \<and> list_all (\<lambda>c. c \<noteq> NUL) n) ns" and "length name \<le> 30"
    and "map (\<lambda>p. cstr (pa_name p)) ps = ns"
  shows "find_param ps name = (if name \<in> set ns then Some (length (takeWhile (\<lambda>n. n \<noteq> name) ns)) else None)"
  using assms
proof (induction ps arbitrary: ns)
  case (Cons p ps)
  then obtain n ns' where ns: "ns = n # ns'" "cstr (pa_name p) = n" "map (\<lambda>p. cstr (pa_name p)) ps = ns'" by auto
  have "take 30 n = n" "take 30 name = name" using Cons.prems(1,2) ns by simp_all
  with Cons ns show ?case by auto
qed simp

text \<open>What a query made of a text gives its parameters: the names, and which one a name means.\<close>

lemma sql_params_names_ok:
  assumes "list_all (\<lambda>c. c \<noteq> NUL) q"
  shows "list_all (\<lambda>n. list_all (\<lambda>c. c \<noteq> NUL) n) (snd (sql_params q))"
  using assms
proof (induction q rule: sql_params.induct)
  case (2 c q)
  have "list_all (\<lambda>c. c \<noteq> NUL) (dropWhile is_variable_char q)" "list_all (\<lambda>c. c \<noteq> NUL) (takeWhile is_variable_char q)"
    using "2.prems" by (auto simp: list_all_iff dest: set_dropWhileD set_takeWhileD)
  with 2 show ?case by auto
qed simp

lemma with_param_names:
  assumes "\<And>p. pa_name (f p) = pa_name p" and "with_param q name f = (b, q')"
  shows "map pa_name (dq_parameters q') = map pa_name (dq_parameters q)"
proof -
  have "map pa_name (ps[k := f (ps ! k)]) = map pa_name ps" for ps k
    using assms(1) by (cases "k < length ps") (simp_all add: map_update list_update_same_conv list_update_beyond)
  then show ?thesis
    using assms(2) by (auto simp: with_param_def split: option.splits)
qed

section \<open>Properties\<close>

text \<open>
  C35: a query text with named parameters of at most 28 characters, colon included, becomes a
  statement with a question mark for every parameter and the names of the parameters in
  order; the two passes agree on their number, and neither leaves its array.
\<close>

theorem new_query_correct:
  assumes "q \<noteq> []" and "list_all (\<lambda>n. length n \<le> 28) (snd (sql_params q))" and "list_all (\<lambda>c. c \<noteq> NUL) q"
  shows "\<exists>dq. bx_database_new_query q = Some (Ptr dq) \<and> cstr (dq_query dq) = fst (sql_params q) \<and>
           map (\<lambda>p. cstr (pa_name p)) (dq_parameters dq) = snd (sql_params q)"
proof -
  have "cstr (pa_name (named n)) = n" if "n \<in> set (snd (sql_params q))" for n
    using that assms(2) sql_params_names_ok [OF assms(3)] by (intro cstr_named) (auto simp: list_all_iff)
  then have "map (\<lambda>p. cstr (pa_name p)) (map named (snd (sql_params q))) = snd (sql_params q)"
    by (auto intro: map_idI)
  with new_query_spec [OF assms] show ?thesis by fastforce
qed

theorem new_query_correct_witness:
  "\<exists>dq. bx_database_new_query ''x=:id;'' = Some (Ptr dq) \<and> cstr (dq_query dq) = ''x=?;'' \<and>
     map (\<lambda>p. cstr (pa_name p)) (dq_parameters dq) = ['':id'']"
  using new_query_correct [of "''x=:id;''"] by (simp add: is_variable_char_def NUL_def)

text \<open>
  A name of 29 characters or more, colon included, makes the second pass write outside
  the 30 bytes the parameter has for its name.
\<close>

theorem new_query_name_overflow:
  assumes "list_all is_variable_char v" and "28 \<le> length v"
  shows "bx_database_new_query (CHR '':'' # v) = None"
proof -
  have v: "v \<noteq> []" "is_variable_char (hd v)" using assms by (cases v; simp)+
  have tw: "takeWhile is_variable_char (v @ [NUL]) = v" "dropWhile is_variable_char (v @ [NUL]) = [NUL]"
    using assms(1) NUL_not_variable by (auto simp: list_all_iff takeWhile_append dropWhile_append)
  have n: "count_params (CHR '':'' # v @ [NUL]) False False 0 = 1"
    using v colon_not_variable by (simp add: count_params_names tw del: count_params.simps)
  have nl: "name_length (CHR '':'' # v @ [NUL]) 0 = Suc (length v)" by (simp add: name_length_def tw)
  have "name_param (CHR '':'' # v @ [NUL]) 0 [zero_parameter] 0 = None"
    using assms(2) nl
    by (auto simp: name_param_def rd_def wr_def copy_in_def zero_parameter_def split: bind_splits if_splits)
  moreover have "(CHR '':'' # v @ [NUL]) ! 1 = hd v" using v by (simp add: nth_append hd_conv_nth)
  ultimately have "rewrite_params (CHR '':'' # v @ [NUL]) 0 0 [zero_parameter] 0 = None"
    using v by (subst rewrite_params.simps) (simp add: wr_def)
  then show ?thesis by (simp add: bx_database_new_query_def n Let_def del: count_params.simps)
qed

theorem new_query_name_overflow_witness:
  "bx_database_new_query '':abcdefghijklmnopqrstuvwxyz_0'' = None"
  using new_query_name_overflow [of "''abcdefghijklmnopqrstuvwxyz_0''"] by (simp add: is_variable_char_def)

end
