(* ===== verification/Bx_Prune.thy ===== *)
theory Bx_Prune
  imports Bx_Ids_Cache_Spec Bx_Conf Bx_Database
begin

text \<open>
  The pruning pass and the first filling of a cache, \<open>src/src/bx_prune.c\<close>: the rows whose id was
  not seen for a number of walks are deleted one by one and leave the cache, and a cache
  starts from the ids and checksums of its table. What the pass needs of the server is a
  hypothesis, \<open>deletes_by_id\<close>: a row is deleted when the statement succeeds and kept otherwise.
\<close>

section \<open>Operations\<close>

definition BXILL_DEFAULT_DRIFT :: int where
  "BXILL_DEFAULT_DRIFT = 10"

lemma tombstone_count:
  assumes "cache_tombstone (Ptr c) i = Some p"
  shows "\<exists>c'. p = Ptr c' \<and> c_count c' = c_count c"
  using assms by (auto simp: cache_tombstone_def set_last_seen_def split: bind_splits ptr.splits)

lemma next_prunable_advances:
  assumes "next_prunable_loop c v d cur = Some (Some i, cur')"
  shows "unat cur < unat cur' \<and> unat cur' \<le> unat (c_count c)"
  using assms
proof (induction c v d cur rule: next_prunable_loop.induct)
  case (1 c v d cur)
  show ?case
  proof (cases "cur < c_count c")
    case True
    have s: "unat (cur + 1) = Suc (unat cur)" by (rule unat_Suc_below [OF True])
    have g: "cache_get (Ptr c) cur = Ptr (unat cur)" using True by (simp add: cache_get_def)
    obtain item where r: "rd (c_items c) (unat cur) = Some item"
      using "1.prems" g by (auto simp: next_prunable_loop.simps [of c v d cur] split: option.splits)
    have lt: "unat cur < unat (c_count c)" using True by (simp add: word_less_nat_alt)
    show ?thesis
    proof (cases "0 < ci_last_seen item \<and> ci_last_seen item \<le> v - d")
      case True
      then show ?thesis using "1.prems" g r s lt by (auto simp: next_prunable_loop.simps [of c v d cur])
    next
      case False
      then have "next_prunable_loop c v d (cur + 1) = Some (Some i, cur')"
        using "1.prems" g r by (subst (asm) next_prunable_loop.simps) (auto split: if_splits)
      from "1.IH" [OF g r False this] s show ?thesis by simp
    qed
  next
    case False
    then show ?thesis using "1.prems"
      by (simp add: next_prunable_loop.simps [of c v d cur] cache_get_def word_less_nat_alt word_le_nat_alt)
  qed
qed

lemma next_prunable_id_advances:
  assumes "cache_iter_next_prunable_id p iter d = Some (Some i, iter')"
  shows "\<exists>c. p = Ptr c \<and> unat (it_current iter) < unat (it_current iter') \<and>
    unat (it_current iter') \<le> unat (c_count c)"
  using assms next_prunable_advances
  by (fastforce simp: cache_iter_next_prunable_id_def split: if_splits ptr.splits bind_splits)

definition iter_left :: "Cache ptr \<Rightarrow> CacheIter \<Rightarrow> nat" where
  "iter_left p iter = (case p of NULL \<Rightarrow> 0 | Ptr c \<Rightarrow> unat (c_count c) - unat (it_current iter))"

lemma iter_left_decreases:
  assumes "cache_iter_next_prunable_id p iter d = Some (Some i, iter')" and "cache_tombstone p i = Some p'"
  shows "iter_left p' iter' < iter_left p iter"
  using next_prunable_id_advances [OF assms(1)] assms(2) tombstone_count
  by (fastforce simp: iter_left_def)

text \<open>
  The loop of the pass. The result is the error it returns, NULL when the loop runs to its
  end, with the cache, the query and the state of the server.
\<close>

function prune_items_loop :: "'w stmt_api \<Rightarrow> u64 \<Rightarrow> Cache ptr \<Rightarrow> CacheIter \<Rightarrow> BXDatabaseQuery \<Rightarrow> 'w
    \<Rightarrow> (BXillError ptr \<times> Cache ptr \<times> BXDatabaseQuery \<times> 'w) option" where
  "prune_items_loop api drift cache iter q w =
     (case cache_iter_next_prunable_id cache iter drift of
        None \<Rightarrow> None
      | Some (None, iter1) \<Rightarrow> Some (NULL, cache, q, w)
      | Some (Some i, iter1) \<Rightarrow>
          (case bx_database_add_param_uint64 q '':id'' i of
             (added, q1) \<Rightarrow>
               (case (if added then bx_database_execute api q1 w else (False, q1, w)) of
                  (executed, q2, w1) \<Rightarrow>
                    if \<not> executed then
                      Some (Ptr (if dq_need_reconnect q2 then ErrorSQLReconnect else ErrorGeneric), cache,
                        bx_database_free_result q2, w1)
                    else
                      (case cache_tombstone cache i of
                         None \<Rightarrow> None
                       | Some cache1 \<Rightarrow> prune_items_loop api drift cache1 iter1 q2 w1))))"
  by pat_completeness auto
termination
  by (relation "measure (\<lambda>(api, drift, cache, iter, q, w). iter_left cache iter)")
     (auto intro: iter_left_decreases)

declare prune_items_loop.simps [simp del]

definition prune_drift :: "(string \<Rightarrow> u64) \<Rightarrow> BXConf \<Rightarrow> u64" where
  "prune_drift xxh conf =
     (let drift = bx_conf_get_int xxh conf ''prune-drift'' in
      word_of_int (if drift = 0 then BXILL_DEFAULT_DRIFT else drift))"

definition bx_prune_items :: "(string \<Rightarrow> u64) \<Rightarrow> BXConf \<Rightarrow> 'w stmt_api \<Rightarrow> Cache ptr \<Rightarrow> BXDatabaseQuery ptr \<Rightarrow> 'w
    \<Rightarrow> (BXillError \<times> Cache ptr \<times> BXDatabaseQuery ptr \<times> 'w) option" where
  "bx_prune_items xxh conf api cache query w =
     (case query of
        NULL \<Rightarrow> Some (ErrorGeneric, cache, NULL, w)
      | Ptr q \<Rightarrow>
          (case prune_items_loop api (prune_drift xxh conf) cache (cache_iter_init cache) q w of
             None \<Rightarrow> None
           | Some (Ptr e, cache1, q1, w1) \<Rightarrow> Some (e, cache1, Ptr q1, w1)
           | Some (NULL, cache1, q1, w1) \<Rightarrow>
               map_option (\<lambda>cache2. (NoError, cache2, Ptr (bx_database_free_result q1), w1)) (cache_prune cache1)))"

fun hydrate_loop :: "(nat \<Rightarrow> bool) \<Rightarrow> Cache ptr \<Rightarrow> BXDatabaseRow list \<Rightarrow> Cache ptr option" where
  "hydrate_loop alloc cache [] = Some cache"
| "hydrate_loop alloc cache (row # rows) =
     (case row of
        [id_column, checksum_column] \<Rightarrow> do {
          (ok, cache1) \<leftarrow> cache_set_item alloc cache (word_of_int (co_i_value id_column))
                           (word_of_int (co_i_value checksum_column));
          hydrate_loop alloc cache1 rows
        }
      | _ \<Rightarrow> hydrate_loop alloc cache rows)"

definition bx_cache_hydrate :: "(nat \<Rightarrow> bool) \<Rightarrow> 'w stmt_api \<Rightarrow> Cache ptr \<Rightarrow> BXDatabaseQuery ptr \<Rightarrow> 'w
    \<Rightarrow> (BXillError \<times> Cache ptr \<times> BXDatabaseQuery ptr \<times> 'w) option" where
  "bx_cache_hydrate alloc api cache query w =
     (case query of
        NULL \<Rightarrow> Some (ErrorGeneric, cache, NULL, w)
      | Ptr q \<Rightarrow>
          (case bx_database_execute api q w of
             (executed, q1, w1) \<Rightarrow>
               (case (if executed then bx_database_results api q1 w1 else (False, q1, w1)) of
                  (fetched, q2, w2) \<Rightarrow>
                    if fetched then
                      map_option (\<lambda>cache1. (NoError, cache1, Ptr (bx_database_free_result q2), w2))
                        (hydrate_loop alloc cache (dq_results q2))
                    else
                      Some (if dq_need_reconnect q2 then ErrorSQLReconnect else ErrorGeneric, cache,
                        Ptr (bx_database_free_result q2), w2))))"

section \<open>One deletion\<close>

text \<open>The value a 64-bit id is bound to.\<close>

definition id_bind :: "u64 \<Rightarrow> MYSQL_BIND" where
  "id_bind i = \<lparr>bd_type = MYSQL_TYPE_LONGLONG, bd_buffer = Ptr (le_bytes 8 i), bd_is_null = False,
     bd_is_unsigned = True, bd_length = 0\<rparr>"

text \<open>
  A server on which the statement \<open>t\<close> deletes the row of the bound id when it succeeds, and on
  which nothing else a client does with that statement changes the rows.
\<close>

definition deletes_by_id :: "'w stmt_api \<Rightarrow> string \<Rightarrow> ('w \<Rightarrow> u64 set) \<Rightarrow> bool" where
  "deletes_by_id api t rows \<longleftrightarrow>
     (\<forall>w. rows (snd (sa_prepare api t w)) = rows w) \<and>
     (\<forall>bs w. rows (snd (sa_bind api bs w)) = rows w) \<and>
     (\<forall>w. rows (snd (sa_show_warnings api w)) = rows w) \<and>
     (\<forall>i w. rows (snd (sa_execute api t [id_bind i] w)) =
        (if fst (sa_execute api t [id_bind i] w) = 0 then rows w - {i} else rows w))"

lemma deletes_by_id_laws:
  assumes "deletes_by_id api t rows"
  shows "sa_prepare api t w = (e, w') \<Longrightarrow> rows w' = rows w"
    and "sa_bind api bs w = (e, w') \<Longrightarrow> rows w' = rows w"
    and "sa_show_warnings api w = (r, w') \<Longrightarrow> rows w' = rows w"
    and "sa_execute api t [id_bind i] w = (e, w') \<Longrightarrow> rows w' = (if e = 0 then rows w - {i} else rows w)"
  using assms unfolding deletes_by_id_def by (metis fst_conv snd_conv)+

definition id_query :: "string \<Rightarrow> BXDatabaseQuery \<Rightarrow> bool" where
  "id_query t q \<longleftrightarrow> cstr (dq_query q) = t \<and> map (\<lambda>p. cstr (pa_name p)) (dq_parameters q) = ['':id'']"

lemma new_id_query:
  assumes "sql_params sql = (t, ['':id''])" and "list_all (\<lambda>c. c \<noteq> NUL) sql"
  shows "\<exists>q. bx_database_new_query sql = Some (Ptr q) \<and> id_query t q"
proof -
  have "sql \<noteq> []" using assms(1) by auto
  then obtain q where "bx_database_new_query sql = Some (Ptr q)" "cstr (dq_query q) = t"
      "dq_parameters q = [named '':id'']"
    using new_query_spec [of sql] assms by auto
  moreover have "cstr (pa_name (named '':id'')) = '':id''" by (rule cstr_named) (simp_all add: NUL_def)
  ultimately show ?thesis by (simp add: id_query_def)
qed

lemma add_id:
  assumes "id_query t q"
  shows "\<exists>q'. bx_database_add_param_uint64 q '':id'' i = (True, q') \<and> id_query t q' \<and>
    map (fst \<circ> param_to_bind) (dq_parameters q') = [id_bind i]"
proof -
  obtain p where p: "dq_parameters q = [p]" "cstr (pa_name p) = '':id''"
    using assms by (auto simp: id_query_def map_eq_Cons_conv)
  then show ?thesis
    using assms
    by (simp add: bx_database_add_param_uint64_def bx_database_add_param_int_def with_param_def id_query_def
        param_to_bind_def id_bind_def Let_def)
qed

lemma bound_name [simp]: "pa_name (snd (param_to_bind p)) = pa_name p"
  by (simp add: param_to_bind_def Let_def)

lemma id_query_flags [simp]:
  "id_query t (mark_reconnect e q) = id_query t q"
  "id_query t (bx_database_free_result q) = id_query t q"
  "id_query t (q\<lparr>dq_has_failed := b\<rparr>) = id_query t q"
  "id_query t (q\<lparr>dq_had_fk_error := b\<rparr>) = id_query t q"
  "id_query t (q\<lparr>dq_has_dataset := b\<rparr>) = id_query t q"
  "id_query t (q\<lparr>dq_executed := b\<rparr>) = id_query t q"
  "id_query t (q\<lparr>dq_warning_rows := n\<rparr>) = id_query t q"
  "id_query t (q\<lparr>dq_affected_rows := n\<rparr>) = id_query t q"
  "id_query t (q\<lparr>dq_result_metadata := m\<rparr>) = id_query t q"
  "id_query t (q\<lparr>dq_parameters := map (\<lambda>p. snd (param_to_bind p)) (dq_parameters q)\<rparr>) = id_query t q"
  by (simp_all add: id_query_def mark_reconnect_def bx_database_free_result_def comp_def)

lemma warnings_keep_id_query:
  assumes "deletes_by_id api t rows" and "id_query t q" and "bx_database_print_warnings api q w = (q', w')"
  shows "id_query t q' \<and> rows w' = rows w"
proof -
  obtain r w1 where "sa_show_warnings api w = (r, w1)" by fastforce
  with deletes_by_id_laws(3) [OF assms(1) this] show ?thesis
    using assms(2,3) by (auto simp: bx_database_print_warnings_def split: sum.splits if_splits)
qed

lemma execute_prepared_id:
  assumes server: "deletes_by_id api t rows" and q: "id_query t q"
    and bound: "map (fst \<circ> param_to_bind) (dq_parameters q) = [id_bind i]"
    and ex: "execute_prepared api q w = (ok, q', w')"
  shows "id_query t q' \<and> rows w - {i} \<subseteq> rows w' \<and> rows w' \<subseteq> rows w \<and> (ok \<longrightarrow> i \<notin> rows w')"
proof -
  obtain e1 w1 where b: "sa_bind api [id_bind i] w = (e1, w1)" by fastforce
  obtain e2 w2 where x: "sa_execute api t [id_bind i] w1 = (e2, w2)" by fastforce
  have r1: "rows w1 = rows w" by (rule deletes_by_id_laws(2) [OF server b])
  have r2: "rows w2 = (if e2 = 0 then rows w - {i} else rows w)"
    using deletes_by_id_laws(4) [OF server x] r1 by simp
  have t: "cstr (dq_query q) = t" using q by (simp add: id_query_def)
  have fst_bound: "map fst (map param_to_bind (dq_parameters q)) = [id_bind i]" using bound by simp
  let ?q1 = "q\<lparr>dq_parameters := map snd (map param_to_bind (dq_parameters q))\<rparr>"
  have q1: "id_query t ?q1" using q by (simp add: id_query_def comp_def)
  note ex1 = ex [unfolded execute_prepared_def Let_def fst_bound b t, simplified prod.case x]
  consider (bind) "e1 \<noteq> 0" | (exec) "e1 = 0" "e2 \<noteq> 0"
    | (meta) "e1 = 0" "e2 = 0" "sa_result_metadata api w2 = NULL \<and> sa_metadata_errno api w2 \<noteq> 0"
    | (ran) "e1 = 0" "e2 = 0" "\<not> (sa_result_metadata api w2 = NULL \<and> sa_metadata_errno api w2 \<noteq> 0)"
    by blast
  then show ?thesis
  proof cases
    case bind
    then have "q' = mark_reconnect e1 ?q1" "w' = w1" "\<not> ok" using ex1 by auto
    then show ?thesis using q1 r1 by simp
  next
    case exec
    then have "q' = mark_reconnect e2 (?q1\<lparr>dq_has_failed := True\<rparr>)" "w' = w2" "\<not> ok" using ex1 x by auto
    then show ?thesis using q1 r2 by (auto split: if_splits)
  next
    case meta
    then have "w' = w2" "\<not> ok" "id_query t q'" using ex1 x q1 by auto
    then show ?thesis using r2 by (auto split: if_splits)
  next
    case ran
    define q4 where "q4 = ?q1\<lparr>dq_has_failed := False, dq_affected_rows := sa_affected_rows api w2,
      dq_result_metadata := sa_result_metadata api w2, dq_has_dataset := (sa_result_metadata api w2 \<noteq> NULL),
      dq_executed := True, dq_warning_rows := sa_warning_count api w2, dq_had_fk_error := False\<rparr>"
    have q4: "id_query t q4" using q1 by (simp add: q4_def id_query_def)
    show ?thesis
    proof (cases "0 < sa_warning_count api w2")
      case False
      then have "q' = q4" "w' = w2" using ex1 x ran by (auto simp: q4_def)
      then show ?thesis using q4 r2 ran by auto
    next
      case True
      then have "bx_database_print_warnings api q4 w2 = (q', w')"
        using ex1 x ran by (auto simp: q4_def split: prod.splits)
      from warnings_keep_id_query [OF server q4 this] show ?thesis using r2 ran by auto
    qed
  qed
qed

lemma execute_id:
  assumes server: "deletes_by_id api t rows" and q: "id_query t q"
    and bound: "map (fst \<circ> param_to_bind) (dq_parameters q) = [id_bind i]"
    and ex: "bx_database_execute api q w = (ok, q', w')"
  shows "id_query t q' \<and> rows w - {i} \<subseteq> rows w' \<and> rows w' \<subseteq> rows w \<and> (ok \<longrightarrow> i \<notin> rows w')"
proof (cases "dq_executed q")
  case True
  have "map (fst \<circ> param_to_bind) (dq_parameters (bx_database_free_result q)) = [id_bind i]"
    using bound by (simp add: bx_database_free_result_def)
  moreover have "execute_prepared api (bx_database_free_result q) w = (ok, q', w')"
    using True ex by (simp add: bx_database_execute_def)
  ultimately show ?thesis using q by (intro execute_prepared_id [OF server]) simp_all
next
  case False
  obtain e w1 where p: "sa_prepare api t w = (e, w1)" by fastforce
  then have "rows w1 = rows w" by (rule deletes_by_id_laws(1) [OF server])
  moreover have "cstr (dq_query q) = t" using q by (simp add: id_query_def)
  ultimately show ?thesis
    using False ex q p execute_prepared_id [OF server q bound, of w1]
    by (auto simp: bx_database_execute_def split: if_splits)
qed

text \<open>A server that reports no error and no warning for the statement.\<close>

definition never_fails :: "'w stmt_api \<Rightarrow> string \<Rightarrow> bool" where
  "never_fails api t \<longleftrightarrow>
     (\<forall>bs w. fst (sa_prepare api t w) = 0 \<and> fst (sa_bind api bs w) = 0 \<and> fst (sa_execute api t bs w) = 0 \<and>
        sa_metadata_errno api w = 0 \<and> sa_warning_count api w = 0)"

lemma execute_never_fails:
  assumes "never_fails api t" and "id_query t q" and "bx_database_execute api q w = (ok, q', w')"
  shows ok
proof -
  have prepared: "fst (execute_prepared api q w)" if "id_query t q" for q w
    using assms(1) that
    by (simp add: never_fails_def id_query_def execute_prepared_def Let_def split_beta)
  then show ?thesis
    using assms prepared [of "bx_database_free_result q" w] prepared [of q]
    by (auto simp: bx_database_execute_def never_fails_def id_query_def bx_database_free_result_def split_beta
        split: if_splits dest: arg_cong [where f = fst])
qed

section \<open>The pass\<close>

definition bury :: "u64 set \<Rightarrow> CacheItem \<Rightarrow> CacheItem" where
  "bury D x = (if ci_id x \<in> D then x\<lparr>ci_last_seen := 0\<rparr> else x)"

lemma bury_id [simp]: "ci_id (bury D x) = ci_id x"
  by (simp add: bury_def)

lemma bury_none [simp]: "bury {} = (\<lambda>x. x)"
  by (simp add: bury_def fun_eq_iff)

lemma tombstone_cells:
  assumes wf: "cache_wf c" and "x \<in> set (cells c)"
  shows "\<exists>c'. cache_tombstone (Ptr c) (ci_id x) = Some (Ptr c') \<and> cache_wf c' \<and> c_version c' = c_version c \<and>
    c_count c' = c_count c \<and> cells c' = map (bury {ci_id x}) (cells c)"
  using wf
proof (cases rule: find_item_cases [where i = "ci_id x"])
  case (found lo y hi)
  have "map (bury {ci_id x}) zs = zs" if "\<forall>z\<in>set zs. ci_id z \<noteq> ci_id x" for zs
    using that by (intro map_idI) (auto simp: bury_def)
  moreover have "\<forall>z\<in>set lo. ci_id z \<noteq> ci_id x" "\<forall>z\<in>set hi. ci_id z \<noteq> ci_id x"
    using wf found by (auto simp: cache_wf_def ids_sorted_append ids_sorted_Cons)
  ultimately have "map (bury {ci_id x}) (cells c) = lo @ y\<lparr>ci_last_seen := 0\<rparr> # hi"
    using found by (simp add: bury_def)
  with set_last_seen_spec [OF wf found(2), of 0] found tombstone_count [of c "ci_id x"] show ?thesis
    by (auto simp: cache_tombstone_def)
next
  case absent
  then have "ci_id x \<notin> ci_id ` set (cells c)"
    using wf assms(2) items_map_mem [of "cells c" x] by (auto simp: cache_map_def cache_wf_def)
  with assms(2) show ?thesis by simp
qed

text \<open>The ids the iterator still has to give.\<close>

definition due :: "u64 \<Rightarrow> u64 \<Rightarrow> CacheItem list \<Rightarrow> u64 set" where
  "due version drift xs = ci_id ` {x \<in> set xs. prunable version drift (ci_last_seen x)}"

lemma next_due:
  assumes wf: "cache_wf c" and "cur \<le> c_count c"
  shows "next_prunable_loop c v d cur = Some (None, c_count c) \<and> due v d (drop (unat cur) (cells c)) = {} \<or>
    (\<exists>x cur'. next_prunable_loop c v d cur = Some (Some (ci_id x), cur') \<and> cur' \<le> c_count c \<and>
       x \<in> set (cells c) \<and> prunable v d (ci_last_seen x) \<and>
       due v d (drop (unat cur) (cells c)) = insert (ci_id x) (due v d (drop (unat cur') (cells c))) \<and>
       x \<notin> set (drop (unat cur') (cells c)))"
proof (cases "dropWhile (\<lambda>x. \<not> prunable v d (ci_last_seen x)) (drop (unat cur) (cells c))")
  case Nil
  then have "due v d (drop (unat cur) (cells c)) = {}" by (auto simp: due_def dropWhile_eq_Nil_conv)
  moreover have "next_prunable_loop c v d cur = Some (None, c_count c)"
    using next_prunable_loop_spec [OF assms, of v d] unfolding Nil by simp
  ultimately show ?thesis by blast
next
  case (Cons x rest)
  let ?skip = "takeWhile (\<lambda>x. \<not> prunable v d (ci_last_seen x)) (drop (unat cur) (cells c))"
  have split: "drop (unat cur) (cells c) = ?skip @ x # rest"
    using takeWhile_dropWhile_id [of "\<lambda>x. \<not> prunable v d (ci_last_seen x)" "drop (unat cur) (cells c)"] Cons by simp
  obtain pre where all: "cells c = (pre @ [x]) @ rest"
    using append_take_drop_id [of "unat cur" "cells c"] split by (metis append.assoc append_Cons append_Nil)
  define n where "n = unat (c_count c) - length rest"
  have lr: "length rest \<le> unat (c_count c)" using length_cells [OF wf] all by simp
  have nu: "unat (of_nat n :: u32) = n"
    using unsigned_less [of "c_count c", where ?'a = nat]
    by (simp add: unsigned_of_nat take_bit_nat_eq_self_iff n_def)
  have "n = length (pre @ [x])" using length_cells [OF wf] all by (simp add: n_def)
  then have dr: "drop n (cells c) = rest" by (metis all append_eq_conv_conj)
  have px: "prunable v d (ci_last_seen x)" using Cons by (simp add: dropWhile_eq_Cons_conv)
  have "due v d (drop (unat cur) (cells c)) = insert (ci_id x) (due v d rest)"
    using px by (subst split) (auto simp: due_def dest: set_takeWhileD)
  moreover have "x \<notin> set rest"
    using wf all by (auto simp: cache_wf_def ids_sorted_append ids_sorted_Cons)
  moreover have "x \<in> set (cells c)" by (subst all) simp
  moreover have "next_prunable_loop c v d cur = Some (Some (ci_id x), of_nat n)"
    using next_prunable_loop_spec [OF assms, of v d] Cons by (simp add: n_def)
  moreover have "(of_nat n :: u32) \<le> c_count c" by (simp add: word_le_nat_alt nu) (simp add: n_def)
  ultimately show ?thesis using px nu dr by (intro disjI2 exI [of _ x] exI [of _ "of_nat n"]) simp
qed

lemma due_bury: "x \<notin> set xs \<Longrightarrow> x \<in> set ys \<Longrightarrow> ids_sorted ys \<Longrightarrow> set xs \<subseteq> set ys \<Longrightarrow>
    map (bury {ci_id x}) xs = xs"
proof -
  assume x: "x \<notin> set xs" "x \<in> set ys" "ids_sorted ys" "set xs \<subseteq> set ys"
  have "inj_on ci_id (set ys)" using x(3) by (auto simp: ids_sorted_def distinct_map strict_sorted_iff)
  then have "ci_id z \<noteq> ci_id x" if "z \<in> set xs" for z using that x by (metis inj_onD subsetD)
  then show ?thesis by (intro map_idI) (auto simp: bury_def)
qed

lemma bury_bury: "map (bury E) (map (bury D) xs) = map (bury (D \<union> E)) xs"
  by (auto simp: bury_def)

lemma prune_loop_run:
  assumes server: "deletes_by_id api t rows" and "id_query t q" and "cache_wf c" and "d < c_version c"
    and "it_version iter = c_version c" and "it_current iter \<le> c_count c"
  shows "\<exists>e c' q' w' D. prune_items_loop api d (Ptr c) iter q w = Some (e, Ptr c', q', w') \<and> cache_wf c' \<and>
    c_version c' = c_version c \<and> cells c' = map (bury D) (cells c) \<and> id_query t q' \<and>
    D \<subseteq> due (c_version c) d (drop (unat (it_current iter)) (cells c)) \<and>
    rows w - due (c_version c) d (drop (unat (it_current iter)) (cells c)) \<subseteq> rows w' \<and> rows w' \<subseteq> rows w - D \<and>
    (e = NULL \<longrightarrow> D = due (c_version c) d (drop (unat (it_current iter)) (cells c))) \<and> e \<noteq> Ptr NoError \<and>
    (never_fails api t \<longrightarrow> e = NULL)"
  using assms(2-)
proof (induction "iter_left (Ptr c) iter" arbitrary: c iter q w rule: less_induct)
  case less
  note wf = less.prems(2)
  let ?cur = "it_current iter" and ?v = "c_version c"
  have it: "cache_iter_next_prunable_id (Ptr c) iter d =
      map_option (\<lambda>(r, cur). (r, iter\<lparr>it_current := cur\<rparr>)) (next_prunable_loop c ?v d ?cur)"
    using less.prems(3,4) by (auto simp: cache_iter_next_prunable_id_def map_option_case split: option.split)
  from next_due [OF wf less.prems(5), of ?v d] show ?case
  proof (elim disjE exE conjE)
    assume "next_prunable_loop c ?v d ?cur = Some (None, c_count c)" "due ?v d (drop (unat ?cur) (cells c)) = {}"
    then show ?thesis
      using less.prems it by (subst prune_items_loop.simps) (auto intro!: exI [of _ "{}"] simp: bury_def)
  next
    fix x cur'
    assume x: "next_prunable_loop c ?v d ?cur = Some (Some (ci_id x), cur')" "cur' \<le> c_count c" "x \<in> set (cells c)"
      "due ?v d (drop (unat ?cur) (cells c)) = insert (ci_id x) (due ?v d (drop (unat cur') (cells c)))"
      "x \<notin> set (drop (unat cur') (cells c))"
    let ?iter = "iter\<lparr>it_current := cur'\<rparr>" and ?due = "due ?v d (drop (unat cur') (cells c))"
    have it1: "cache_iter_next_prunable_id (Ptr c) iter d = Some (Some (ci_id x), ?iter)" using it x(1) by simp
    obtain q1 where q1: "bx_database_add_param_uint64 q '':id'' (ci_id x) = (True, q1)" "id_query t q1"
        "map (fst \<circ> param_to_bind) (dq_parameters q1) = [id_bind (ci_id x)]"
      using add_id [OF less.prems(1), of "ci_id x"] by (elim exE conjE) (rule that)
    obtain ok q2 w1 where ex: "bx_database_execute api q1 w = (ok, q2, w1)" by (rule prod_cases3)
    note res = execute_id [OF server q1(2,3) ex]
    show ?thesis
    proof (cases ok)
      case False
      then have "prune_items_loop api d (Ptr c) iter q w = Some (Ptr (if dq_need_reconnect q2 then ErrorSQLReconnect
          else ErrorGeneric), Ptr c, bx_database_free_result q2, w1)"
        using it1 q1(1) ex by (subst prune_items_loop.simps) simp
      moreover have "cells c = map (bury {}) (cells c)" by (simp add: bury_def)
      moreover have "\<not> never_fails api t" using execute_never_fails [OF _ q1(2) ex] False by blast
      ultimately show ?thesis using res wf x(4) by (intro exI [of _ "{}"] exI conjI) (assumption | auto)+
    next
      case True
      obtain c1 where c1: "cache_tombstone (Ptr c) (ci_id x) = Some (Ptr c1)" "cache_wf c1" "c_version c1 = ?v"
          "c_count c1 = c_count c" "cells c1 = map (bury {ci_id x}) (cells c)"
        using tombstone_cells [OF wf x(3)] by blast
      have step: "prune_items_loop api d (Ptr c) iter q w = prune_items_loop api d (Ptr c1) ?iter q2 w1"
        using it1 q1(1) ex True c1(1) by (subst prune_items_loop.simps) simp
      have same: "drop (unat cur') (cells c1) = drop (unat cur') (cells c)"
        using x(3,5) wf by (simp add: c1(5) drop_map due_bury [of x _ "cells c"] cache_wf_def set_drop_subset)
      have "\<exists>e c' q' w' D. prune_items_loop api d (Ptr c1) ?iter q2 w1 = Some (e, Ptr c', q', w') \<and> cache_wf c' \<and>
          c_version c' = ?v \<and> cells c' = map (bury D) (cells c1) \<and> id_query t q' \<and> D \<subseteq> ?due \<and>
          rows w1 - ?due \<subseteq> rows w' \<and> rows w' \<subseteq> rows w1 - D \<and> (e = NULL \<longrightarrow> D = ?due) \<and> e \<noteq> Ptr NoError \<and>
          (never_fails api t \<longrightarrow> e = NULL)"
        using less.hyps [OF iter_left_decreases [OF it1 c1(1)], of q2 w1] res c1 less.prems x(2) same by simp
      then obtain e c' q' w' D where ih: "prune_items_loop api d (Ptr c1) ?iter q2 w1 = Some (e, Ptr c', q', w')"
          "cache_wf c'" "c_version c' = ?v" "cells c' = map (bury D) (cells c1)" "id_query t q'" "D \<subseteq> ?due"
          "rows w1 - ?due \<subseteq> rows w'" "rows w' \<subseteq> rows w1 - D" "e = NULL \<longrightarrow> D = ?due" "e \<noteq> Ptr NoError"
          "never_fails api t \<longrightarrow> e = NULL"
        by blast
      have "cells c' = map (bury (insert (ci_id x) D)) (cells c)"
        using ih(4) c1(5) bury_bury [of D "{ci_id x}" "cells c"] by simp
      with ih step res True x(4) show ?thesis
        by (intro exI [of _ e] exI [of _ c'] exI [of _ q'] exI [of _ w'] exI [of _ "insert (ci_id x) D"]) auto
    qed
  qed
qed

text \<open>The ids that were not seen for \<open>d\<close> walks, in plain numbers.\<close>

definition stale :: "Cache \<Rightarrow> u64 \<Rightarrow> u64 set" where
  "stale c d = {i. \<exists>ck seen. cache_map c i = Some (ck, seen) \<and> 0 < seen \<and> unat seen + unat d \<le> unat (c_version c)}"

lemma due_stale:
  assumes "cache_wf c" and "d < c_version c"
  shows "due (c_version c) d (cells c) = stale c d"
proof -
  have "seen \<le> c_version c - d \<longleftrightarrow> unat seen + unat d \<le> unat (c_version c)" for seen
    using assms(2) by (auto simp: word_le_nat_alt unat_sub word_less_nat_alt)
  moreover have "ids_sorted (cells c)" using assms(1) by (simp add: cache_wf_def)
  ultimately show ?thesis
    using items_map_mem [of "cells c"] items_map_Some_in [of "cells c"]
    by (fastforce simp: due_def stale_def prunable_def cache_map_def)
qed

lemma stale_none:
  assumes "\<not> d < c_version c"
  shows "stale c d = {}"
  using assms by (auto simp: stale_def word_less_nat_alt)

lemma buried_map:
  assumes "cells c' = map (bury D) (cells c)"
  shows "cache_map c' i = map_option (\<lambda>(ck, seen). (ck, if i \<in> D then 0 else seen)) (cache_map c i)"
proof -
  have "items_map (map (bury D) xs) i = map_option (\<lambda>(ck, seen). (ck, if i \<in> D then 0 else seen)) (items_map xs i)" for xs
    by (induction xs) (auto simp: items_map_def entry_def bury_def)
  with assms show ?thesis by (simp add: cache_map_def)
qed

lemma prune_loop_all:
  assumes "deletes_by_id api t rows" and "id_query t q" and "cache_wf c"
  shows "\<exists>e c' q' w' D. prune_items_loop api d (Ptr c) (cache_iter_init (Ptr c)) q w = Some (e, Ptr c', q', w') \<and>
    cache_wf c' \<and> c_version c' = c_version c \<and> cells c' = map (bury D) (cells c) \<and> id_query t q' \<and>
    D \<subseteq> stale c d \<and> rows w - stale c d \<subseteq> rows w' \<and> rows w' \<subseteq> rows w - D \<and>
    (e = NULL \<longrightarrow> D = stale c d) \<and> e \<noteq> Ptr NoError \<and> (never_fails api t \<longrightarrow> e = NULL)"
proof (cases "d < c_version c")
  case True
  with prune_loop_run [OF assms, of d "cache_iter_init (Ptr c)" w] due_stale [OF assms(3) True] show ?thesis
    by (simp add: cache_iter_init_def)
next
  case False
  then have "c_version c \<le> d" by simp
  then have "prune_items_loop api d (Ptr c) (cache_iter_init (Ptr c)) q w = Some (NULL, Ptr c, q, w)"
    by (subst prune_items_loop.simps) (simp add: cache_iter_next_prunable_id_def cache_iter_init_def)
  with stale_none [OF False] assms show ?thesis by (intro exI [of _ NULL] exI [of _ c] exI [of _ q] exI [of _ w] exI [of _ "{}"]) simp
qed

section \<open>The first filling\<close>

text \<open>A 64-bit number survives the signed column it is read through.\<close>

lemma int_column_u64: "word_of_int (int_column MYSQL_TYPE_LONGLONG v) = (word_of_int v :: u64)"
  by (simp add: int_column_def)

definition id_row :: "u64 \<times> u64 \<Rightarrow> db_cell list" where
  "id_row r = [CellInt (uint (fst r)), CellInt (uint (snd r))]"

lemma hydrate_id_row:
  "hydrate_loop alloc p (fetch_row [(n1, MYSQL_TYPE_LONGLONG), (n2, MYSQL_TYPE_LONGLONG)] (id_row (i, ck)) # rows) =
     do { (ok, p1) \<leftarrow> cache_set_item alloc p i ck; hydrate_loop alloc p1 rows }"
  by (simp add: fetch_row_def id_row_def upt_rec fetch_column_def Let_def int_column_u64)

lemma hydrate_rows:
  assumes "within n c" and "n + length rs + 2000 < 2 ^ 32"
  shows "\<exists>c'. hydrate_loop (\<lambda>_. True) (Ptr c)
      (map (fetch_row [(n1, MYSQL_TYPE_LONGLONG), (n2, MYSQL_TYPE_LONGLONG)] \<circ> id_row) rs) = Some (Ptr c') \<and>
    within (n + length rs) c' \<and> c_version c' = c_version c \<and>
    cache_map c' = cache_map c ++ map_of (map (\<lambda>(i, ck). (i, (ck, c_version c))) (rev rs))"
  using assms
proof (induction rs arbitrary: n c)
  case (Cons r rs)
  obtain i ck where r: "r = (i, ck)" by fastforce
  obtain c1 where c1: "cache_op (\<lambda>_. True) (OpSet i ck) (Ptr c) = Some (fst (spec_op (OpSet i ck) (abs_cache c)), Ptr c1)"
      "within (Suc n) c1" "abs_cache c1 = snd (spec_op (OpSet i ck) (abs_cache c))"
    using cache_op_within [of n c "OpSet i ck"] Cons.prems by auto
  then have set: "\<exists>b. cache_set_item (\<lambda>_. True) (Ptr c) i ck = Some (b, Ptr c1)" and v: "c_version c1 = c_version c"
    and m: "cache_map c1 = (cache_map c)(i \<mapsto> (ck, c_version c))"
    by (auto simp: abs_cache_def split: bind_splits)
  have "Suc n + length rs + 2000 < 2 ^ 32" using Cons.prems(2) by simp
  from Cons.IH [OF c1(2) this] obtain c' where c': "hydrate_loop (\<lambda>_. True) (Ptr c1)
      (map (fetch_row [(n1, MYSQL_TYPE_LONGLONG), (n2, MYSQL_TYPE_LONGLONG)] \<circ> id_row) rs) = Some (Ptr c')"
      "within (Suc n + length rs) c'" "c_version c' = c_version c1"
      "cache_map c' = cache_map c1 ++ map_of (map (\<lambda>(i, ck). (i, (ck, c_version c1))) (rev rs))"
    by blast
  then show ?case
    using set v m r by (auto simp: hydrate_id_row map_add_upd comp_def simp del: hydrate_loop.simps)
qed simp

text \<open>A server whose statement \<open>t\<close> gives the ids and checksums of a table.\<close>

definition serves_ids :: "'w stmt_api \<Rightarrow> string \<Rightarrow> (u64 \<times> u64) list \<Rightarrow> bool" where
  "serves_ids api t rs \<longleftrightarrow>
     (\<forall>w. fst (sa_prepare api t w) = 0 \<and> fst (sa_bind api [] w) = 0 \<and> fst (sa_execute api t [] w) = 0 \<and>
        (\<exists>n1 n2. sa_result_metadata api w = Ptr [(n1, MYSQL_TYPE_LONGLONG), (n2, MYSQL_TYPE_LONGLONG)]) \<and>
        sa_warning_count api w = 0 \<and> (\<exists>w'. sa_fetch api w = (map id_row rs, 0, w')))"

definition fresh_query :: "string \<Rightarrow> BXDatabaseQuery \<Rightarrow> bool" where
  "fresh_query t q \<longleftrightarrow> cstr (dq_query q) = t \<and> dq_parameters q = [] \<and> \<not> dq_executed q \<and>
     dq_results q = [] \<and> dq_fields q = NULL"

lemma new_fresh_query:
  assumes "sql_params sql = (t, [])" and "list_all (\<lambda>c. c \<noteq> NUL) sql" and "sql \<noteq> []"
  shows "\<exists>q. bx_database_new_query sql = Some (Ptr q) \<and> fresh_query t q"
proof -
  obtain q where q: "bx_database_new_query sql = Some (Ptr q)" "cstr (dq_query q) = t"
      "dq_parameters q = []" "\<not> dq_executed q"
    using new_query_spec [of sql] assms by auto
  then have "dq_results q = [] \<and> dq_fields q = NULL"
    by (auto simp: bx_database_new_query_def Let_def split: bind_splits if_splits)
  with q show ?thesis by (simp add: fresh_query_def)
qed

lemma hydrate_execute:
  assumes "serves_ids api t rs" and "fresh_query t q"
  shows "\<exists>q1 w1 q2 w2 n1 n2. bx_database_execute api q w = (True, q1, w1) \<and>
    bx_database_results api q1 w1 = (True, q2, w2) \<and>
    dq_results q2 = map (fetch_row [(n1, MYSQL_TYPE_LONGLONG), (n2, MYSQL_TYPE_LONGLONG)] \<circ> id_row) rs"
proof -
  note sv = assms(1) [unfolded serves_ids_def, rule_format]
  note fq = assms(2) [unfolded fresh_query_def]
  obtain w1 where p: "sa_prepare api t w = (0, w1)" using sv [of w] by (metis surjective_pairing)
  obtain w2 where b: "sa_bind api [] w1 = (0, w2)" using sv [of w1] by (metis surjective_pairing)
  obtain w3 where x: "sa_execute api t [] w2 = (0, w3)" using sv [of w2] by (metis surjective_pairing)
  obtain n1 n2 w4 where m: "sa_result_metadata api w3 = Ptr [(n1, MYSQL_TYPE_LONGLONG), (n2, MYSQL_TYPE_LONGLONG)]"
      "sa_warning_count api w3 = 0" "sa_fetch api w3 = (map id_row rs, 0, w4)"
    using sv [of w3] by blast
  define q1 where "q1 = q\<lparr>dq_parameters := [], dq_has_failed := False, dq_affected_rows := sa_affected_rows api w3,
    dq_result_metadata := sa_result_metadata api w3, dq_has_dataset := True, dq_executed := True,
    dq_warning_rows := 0, dq_had_fk_error := False\<rparr>"
  have "bx_database_execute api q w = (True, q1, w3)"
    using p b x m fq by (simp add: bx_database_execute_def execute_prepared_def Let_def q1_def)
  moreover have "\<exists>q2. bx_database_results api q1 w3 = (True, q2, w4) \<and>
      dq_results q2 = map (fetch_row [(n1, MYSQL_TYPE_LONGLONG), (n2, MYSQL_TYPE_LONGLONG)] \<circ> id_row) rs"
    using m fq by (simp add: bx_database_results_def q1_def Let_def free_query_metadata_def)
  ultimately show ?thesis by blast
qed

section \<open>Properties\<close>

text \<open>
  C8: a pruning pass deletes exactly the rows of the ids that were not seen for as many walks as
  the drift says, counted without wrap-around, and forgets them; an id seen later keeps its
  row and its cell. Only when a statement fails does the pass stop with an error: it deleted
  no other row then, and an id it marked has lost its row.
\<close>

theorem prune_items_correct:
  assumes "deletes_by_id api t rows" and "id_query t q" and "cache_wf c"
  shows "\<exists>e c' q' w' D. bx_prune_items xxh conf api (Ptr c) (Ptr q) w = Some (e, Ptr c', Ptr q', w') \<and>
    cache_wf c' \<and> c_version c' = c_version c \<and> id_query t q' \<and>
    D \<subseteq> stale c (prune_drift xxh conf) \<and> rows w - stale c (prune_drift xxh conf) \<subseteq> rows w' \<and> rows w' \<subseteq> rows w - D \<and>
    (e = NoError \<longrightarrow> D = stale c (prune_drift xxh conf) \<and>
       (\<forall>i. cache_map c' i = (case cache_map c i of None \<Rightarrow> None
          | Some (ck, seen) \<Rightarrow> if seen = 0 \<or> i \<in> D then None else Some (ck, seen)))) \<and>
    (e \<noteq> NoError \<longrightarrow> \<not> never_fails api t \<and>
       (\<forall>i. cache_map c' i = map_option (\<lambda>(ck, seen). (ck, if i \<in> D then 0 else seen)) (cache_map c i)))"
proof -
  let ?d = "prune_drift xxh conf"
  obtain e c1 q1 w1 D where run: "prune_items_loop api ?d (Ptr c) (cache_iter_init (Ptr c)) q w = Some (e, Ptr c1, q1, w1)"
      "cache_wf c1" "c_version c1 = c_version c" "cells c1 = map (bury D) (cells c)" "id_query t q1"
      "D \<subseteq> stale c ?d" "rows w - stale c ?d \<subseteq> rows w1" "rows w1 \<subseteq> rows w - D"
      "e = NULL \<longrightarrow> D = stale c ?d" "e \<noteq> Ptr NoError" "never_fails api t \<longrightarrow> e = NULL"
    using prune_loop_all [OF assms, of ?d w] by blast
  show ?thesis
  proof (cases e)
    case NULL
    obtain c2 where c2: "cache_prune (Ptr c1) = Some (Ptr c2)" "cache_wf c2" "c_version c2 = c_version c1"
        "cache_map c2 = (\<lambda>i. case cache_map c1 i of None \<Rightarrow> None
           | Some (ck, seen) \<Rightarrow> if seen = 0 then None else Some (ck, seen))"
      using cache_prune_spec [OF run(2)] by blast
    have "cache_map c2 i = (case cache_map c i of None \<Rightarrow> None
        | Some (ck, seen) \<Rightarrow> if seen = 0 \<or> i \<in> D then None else Some (ck, seen))" for i
      using c2(4) buried_map [OF run(4), of i] by (auto split: option.split)
    then show ?thesis
      using run c2 NULL by (intro exI [of _ NoError] exI [of _ c2] exI [of _ "bx_database_free_result q1"]
        exI [of _ w1] exI [of _ D]) (auto simp: bx_prune_items_def)
  next
    case (Ptr e')
    then show ?thesis
      using run buried_map [OF run(4)] by (intro exI [of _ e'] exI [of _ c1] exI [of _ q1] exI [of _ w1] exI [of _ D])
        (auto simp: bx_prune_items_def)
  qed
qed

text \<open>A server that is the set of the rows it has.\<close>

definition rows_server :: "u64 set stmt_api" where
  "rows_server = \<lparr>sa_prepare = (\<lambda>t w. (0, w)), sa_bind = (\<lambda>bs w. (0, w)),
     sa_execute = (\<lambda>t bs w. (0, {i \<in> w. bs \<noteq> [id_bind i]})), sa_affected_rows = (\<lambda>w. 1),
     sa_result_metadata = (\<lambda>w. NULL), sa_metadata_errno = (\<lambda>w. 0), sa_warning_count = (\<lambda>w. 0),
     sa_show_warnings = (\<lambda>w. (Inl [], w)), sa_fetch = (\<lambda>w. ([], 0, w))\<rparr>"

lemma le_bytes_inject:
  assumes "le_bytes 8 (i :: u64) = le_bytes 8 j"
  shows "i = j"
proof -
  have "be_u64 (rev (le_bytes 8 v)) = v" for v
    using be_u64_rev_le [of 8 v] by (simp add: take_bit_word_eq_self)
  then show ?thesis using assms by metis
qed

lemma rows_server_deletes: "deletes_by_id rows_server t (\<lambda>w. w)"
  by (auto simp: deletes_by_id_def rows_server_def id_bind_def dest: le_bytes_inject)

definition sample_query :: BXDatabaseQuery where
  "sample_query = \<lparr>dq_query = ''D?'' @ [NUL], dq_has_dataset = False, dq_has_failed = False, dq_need_reconnect = False,
     dq_had_fk_error = False, dq_affected_rows = 0, dq_warning_rows = 0, dq_result_metadata = NULL,
     dq_parameters = [named '':id''], dq_fields = NULL, dq_results = [], dq_row_count = 0, dq_executed = False\<rparr>"

lemma sample_query_id: "id_query ''D?'' sample_query"
  by (simp add: id_query_def sample_query_def cstr_def NUL_def named_def)

lemma rows_server_never_fails: "never_fails rows_server t"
  by (simp add: never_fails_def rows_server_def)

lemma sample_stale: "stale sample_cache 1 = {4}"
proof (rule set_eqI)
  fix i :: u64
  have "cache_map sample_cache = [4 \<mapsto> (8, 2), 9 \<mapsto> (1, 3)]"
    by (simp add: sample_cache_def cache_map_def items_map_def cells_def entry_def fun_upd_twist)
  then show "i \<in> stale sample_cache 1 \<longleftrightarrow> i \<in> {4}"
    by (cases "i = 4"; cases "i = 9") (simp_all add: stale_def sample_cache_def)
qed

theorem prune_items_correct_witness:
  "\<exists>c' q' w'. bx_prune_items (\<lambda>_. 0) [conf_cell 0 (CInteger 1)] rows_server (Ptr sample_cache) (Ptr sample_query) {4, 9}
     = Some (NoError, Ptr c', Ptr q', w') \<and> w' = {9} \<and> cache_map c' 4 = None"
proof -
  have drift: "prune_drift (\<lambda>_. 0) [conf_cell 0 (CInteger 1)] = 1"
    by (simp add: prune_drift_def bx_conf_get_int_def conf_cell_read)
  from prune_items_correct [OF rows_server_deletes sample_query_id sample_cache_wf,
      of "\<lambda>_. 0" "[conf_cell 0 (CInteger 1)]" "{4, 9}", unfolded drift sample_stale]
  obtain e c' q' w' D where r: "bx_prune_items (\<lambda>_. 0) [conf_cell 0 (CInteger 1)] rows_server (Ptr sample_cache)
        (Ptr sample_query) {4, 9} = Some (e, Ptr c', Ptr q', w')" "{4, 9} - {4} \<subseteq> w'" "w' \<subseteq> {4, 9} - D"
      "e = NoError \<longrightarrow> D = {4} \<and> (\<forall>i. cache_map c' i = (case cache_map sample_cache i of None \<Rightarrow> None
          | Some (ck, seen) \<Rightarrow> if seen = 0 \<or> i \<in> D then None else Some (ck, seen)))"
      "e \<noteq> NoError \<longrightarrow> \<not> never_fails rows_server ''D?'' \<and>
         (\<forall>i. cache_map c' i = map_option (\<lambda>(ck, seen). (ck, if i \<in> D then 0 else seen)) (cache_map sample_cache i))"
    by (elim exE conjE) (rule that; assumption)
  have e: "e = NoError" using r(5) rows_server_never_fails by blast
  then have D: "D = {4}" and "cache_map c' 4 = None" using r(4) by (auto split: option.split)
  moreover have "{4, 9} - {4} = {9 :: u64}" by auto
  ultimately show ?thesis using r(1-3) e D by (intro exI [of _ c'] exI [of _ q'] exI [of _ w']) auto
qed

text \<open>
  C20: a cache filled from its table knows every row of it: checking a record against the
  cache finds it up to date exactly when its checksum is the one of the table, and reports an
  id the table does not have as new. A checksum of 64 bits survives the signed column it is
  read through.
\<close>

theorem hydrate_then_check:
  assumes "serves_ids api t rs" and "fresh_query t q" and "distinct (map fst rs)" and "length rs + 2000 < 2 ^ 32"
    and "cache_create (\<lambda>_. True) = Ptr c"
  shows "\<exists>c' q' w'. bx_cache_hydrate (\<lambda>_. True) api (Ptr c) (Ptr q) w = Some (NoError, Ptr c', Ptr q', w') \<and>
    cache_wf c' \<and> (\<forall>i. cache_map c' i = map_option (\<lambda>ck. (ck, 1)) (map_of rs i)) \<and>
    (\<forall>i k. \<exists>c''. cache_check_item (Ptr c') i k =
       Some (case map_of rs i of None \<Rightarrow> CacheNotSet | Some ck \<Rightarrow> if ck = k then CacheOk else CacheNotSync, Ptr c''))"
proof -
  obtain q1 w1 q2 w2 n1 n2 where ex: "bx_database_execute api q w = (True, q1, w1)"
      "bx_database_results api q1 w1 = (True, q2, w2)"
      "dq_results q2 = map (fetch_row [(n1, MYSQL_TYPE_LONGLONG), (n2, MYSQL_TYPE_LONGLONG)] \<circ> id_row) rs"
    using hydrate_execute [OF assms(1,2)] by blast
  have c: "cache_wf c" "cache_map c = (\<lambda>_. None)" "c_version c = 1" "within 0 c"
    using cache_create_wf [OF assms(5)] assms(5) by (auto simp: within_def cache_create_def)
  obtain c' where c': "hydrate_loop (\<lambda>_. True) (Ptr c) (dq_results q2) = Some (Ptr c')" "within (length rs) c'"
      "c_version c' = 1" "cache_map c' = map_of (map (\<lambda>(i, ck). (i, (ck, 1))) (rev rs))"
    using hydrate_rows [OF c(4), of rs n1 n2] assms(4) c ex(3) by (auto simp: map_add_def fun_eq_iff split: option.splits)
  have wf: "cache_wf c'" using c'(2) by (simp add: within_def)
  have "map_of (rev rs) = map_of rs"
    using assms(3) by (intro map_of_inject_set [THEN iffD2]) (simp_all add: rev_map [symmetric])
  then have m: "cache_map c' i = map_option (\<lambda>ck. (ck, 1)) (map_of rs i)" for i
    using c'(4) by (simp add: map_of_map)
  have "\<exists>c''. cache_check_item (Ptr c') i k =
      Some (case map_of rs i of None \<Rightarrow> CacheNotSet | Some ck \<Rightarrow> if ck = k then CacheOk else CacheNotSync, Ptr c'')" for i k
    using cache_check_item_spec [OF wf, of i k] m [of i] by (auto split: option.splits)
  then show ?thesis
    using ex c' wf m by (simp add: bx_cache_hydrate_def)
qed

text \<open>A server with the table of one list of rows.\<close>

definition ids_server :: "(u64 \<times> u64) list \<Rightarrow> unit stmt_api" where
  "ids_server rs = \<lparr>sa_prepare = (\<lambda>t w. (0, w)), sa_bind = (\<lambda>bs w. (0, w)), sa_execute = (\<lambda>t bs w. (0, w)),
     sa_affected_rows = (\<lambda>w. 0),
     sa_result_metadata = (\<lambda>w. Ptr [(''id'', MYSQL_TYPE_LONGLONG), (''_checksum'', MYSQL_TYPE_LONGLONG)]),
     sa_metadata_errno = (\<lambda>w. 0), sa_warning_count = (\<lambda>w. 0), sa_show_warnings = (\<lambda>w. (Inl [], w)),
     sa_fetch = (\<lambda>w. (map id_row rs, 0, w))\<rparr>"

lemma ids_server_serves: "serves_ids (ids_server rs) t rs"
  by (simp add: serves_ids_def ids_server_def)

theorem hydrate_then_check_witness:
  "\<exists>c q' w'. bx_cache_hydrate (\<lambda>_. True) (ids_server [(7, - 1), (3, 5)]) (cache_create (\<lambda>_. True))
      (Ptr (sample_query\<lparr>dq_parameters := []\<rparr>)) () = Some (NoError, Ptr c, Ptr q', w') \<and>
    cache_map c 7 = Some (- 1, 1) \<and> (\<exists>c'. cache_check_item (Ptr c) 7 (- 1) = Some (CacheOk, Ptr c'))"
proof -
  have "fresh_query ''D?'' (sample_query\<lparr>dq_parameters := []\<rparr>)"
    by (simp add: fresh_query_def sample_query_def cstr_def NUL_def)
  moreover obtain c where c: "cache_create (\<lambda>_. True) = Ptr c" by (simp add: cache_create_def)
  ultimately obtain c' q' w' where r: "bx_cache_hydrate (\<lambda>_. True) (ids_server [(7, - 1), (3, 5)]) (Ptr c)
        (Ptr (sample_query\<lparr>dq_parameters := []\<rparr>)) () = Some (NoError, Ptr c', Ptr q', w')"
      "\<forall>i. cache_map c' i = map_option (\<lambda>ck. (ck, 1)) (map_of [(7, - 1), (3, 5)] i)"
      "\<forall>i k. \<exists>c''. cache_check_item (Ptr c') i k = Some (case map_of [(7, - 1), (3, 5)] i of None \<Rightarrow> CacheNotSet
         | Some ck \<Rightarrow> if ck = k then CacheOk else CacheNotSync, Ptr c'')"
    using hydrate_then_check [OF ids_server_serves, of "''D?''" "sample_query\<lparr>dq_parameters := []\<rparr>"
        "[(7, - 1), (3, 5)]" c "()"] by auto
  have "\<exists>c''. cache_check_item (Ptr c') 7 (- 1) = Some (CacheOk, Ptr c'')" using r(3) [rule_format, of 7 "- 1"] by simp
  moreover have "cache_map c' 7 = Some (- 1, 1)" using r(2) by simp
  ultimately show ?thesis using r(1) c by auto
qed

end
