(* ===== verification/Bx_OAuth.thy ===== *)
theory Bx_OAuth
  imports Bx_Conf
begin

text \<open>
  The tokens of the remote service, \<open>src/src/bx_oauth.c\<close>: when an access token may be used, the
  refresh under a lock that all processes of one database share, the storage of the tokens
  in the table \<open>_configuration\<close> inside a transaction, and the interactive login. The MySQL
  client, the clock, the token endpoint and the OAuth library are arguments. A result
  \<open>None\<close> is a failed assertion.
\<close>

section \<open>Data\<close>

datatype BXOauthStatus = BX_OAUTH_OK | BX_OAUTH_NEED_LOGIN | BX_OAUTH_FAILED

datatype BXOauthAction = BX_OAUTH_ACT_USE | BX_OAUTH_ACT_REFRESH | BX_OAUTH_ACT_NEED_LOGIN

datatype PostResult = POST_OK | POST_FAILED | POST_UNSAVED

text \<open>
  The state of the client. \<open>oa_lock_conn\<close> says whether the connection of the lock is open; the
  handles of the OAuth library are not part of the state.
\<close>

record BXOAuth =
  oa_client_id :: "string ptr"
  oa_redirect_uri :: string
  oa_scope :: string
  oa_conf :: BXConf
  oa_access_token :: "string ptr"
  oa_refresh_token :: "string ptr"
  oa_expires_at :: int
  oa_refreshing :: bool
  oa_lock_conn :: bool
  oa_lock_held :: bool
  oa_tokens_dirty :: bool

text \<open>What the library reads in an answer of the token endpoint; a number that is not there is 0.\<close>

record token_answer =
  ta_error :: "string ptr"
  ta_access_token :: "string ptr"
  ta_refresh_token :: "string ptr"
  ta_expires_in :: int

text \<open>
  The surroundings. \<open>oe_post\<close> sends a form to the token endpoint and gives the text of the
  answer, NULL when the request could not be prepared or sent; \<open>oe_decode\<close> is NULL for a text that is not a
  JSON object.
\<close>

record 'w oauth_env =
  oe_mysql :: "'w mysql"
  oe_prepare :: "string \<Rightarrow> 'w \<Rightarrow> bool \<times> 'w"
  oe_close :: "'w \<Rightarrow> 'w"
  oe_time :: "'w \<Rightarrow> int \<times> 'w"
  oe_post :: "(string \<times> string ptr) list \<Rightarrow> 'w \<Rightarrow> string ptr \<times> 'w"
  oe_decode :: "string \<Rightarrow> token_answer ptr"

definition BX_OAUTH_SKEW_SEC :: int where
  "BX_OAUTH_SKEW_SEC = 60"

definition BX_OAUTH_DEFAULT_TTL_SEC :: int where
  "BX_OAUTH_DEFAULT_TTL_SEC = 300"

definition BX_OAUTH_WRITE_ATTEMPTS :: nat where
  "BX_OAUTH_WRITE_ATTEMPTS = 3"

definition BX_OAUTH_REDIRECT_DEFAULT :: string where
  "BX_OAUTH_REDIRECT_DEFAULT = ''http://127.0.0.1:8765/callback''"

definition BX_OAUTH_DEFAULT_SCOPE :: string where
  "BX_OAUTH_DEFAULT_SCOPE = ''openid offline_access company_profile contact_show kb_invoice_show '' @
     ''kb_offer_show kb_order_show kb_delivery_show kb_bill_show '' @
     ''kb_expense_show kb_article_order_show accounting project_show '' @
     ''article_show note_show task_show file bank_account_show''"

definition GET_LOCK_SQL :: string where
  "GET_LOCK_SQL = ''SELECT GET_LOCK('bx-oauth-refresh', 20)''"

definition RELEASE_LOCK_SQL :: string where
  "RELEASE_LOCK_SQL = ''SELECT RELEASE_LOCK('bx-oauth-refresh')''"

section \<open>Tokens\<close>

definition token_present :: "string ptr \<Rightarrow> bool" where
  "token_present s = (case s of NULL \<Rightarrow> False | Ptr t \<Rightarrow> t \<noteq> [])"

definition conf_string :: "(string \<Rightarrow> u64) \<Rightarrow> BXConf \<Rightarrow> string \<Rightarrow> string ptr" where
  "conf_string xxh conf key =
     (case bx_conf_get_string xxh conf key of NULL \<Rightarrow> NULL | Ptr s \<Rightarrow> if s = [] then NULL else Ptr s)"

definition access_usable :: "string ptr \<Rightarrow> int \<Rightarrow> int \<Rightarrow> bool" where
  "access_usable access expires_at now \<longleftrightarrow> token_present access \<and> now + BX_OAUTH_SKEW_SEC < expires_at"

definition bx_oauth_decide :: "bool \<Rightarrow> string ptr \<Rightarrow> string ptr \<Rightarrow> string ptr \<Rightarrow> int \<Rightarrow> int \<Rightarrow> BXOauthAction" where
  "bx_oauth_decide force rejected access refresh expires_at now =
     (let access_ok = (token_present access \<and> now + BX_OAUTH_SKEW_SEC < expires_at);
          refresh_ok = token_present refresh
      in if \<not> force \<and> access_ok then BX_OAUTH_ACT_USE
         else if force \<and> access_ok \<and> (\<not> token_present rejected \<or> rejected \<noteq> access) then BX_OAUTH_ACT_USE
         else if \<not> refresh_ok then BX_OAUTH_ACT_NEED_LOGIN
         else BX_OAUTH_ACT_REFRESH)"

definition replace_token :: "string ptr \<Rightarrow> string ptr" where
  "replace_token v = (if token_present v then v else NULL)"

section \<open>The lock\<close>

definition oauth_connect :: "(string \<Rightarrow> u64) \<Rightarrow> 'w oauth_env \<Rightarrow> BXOAuth \<Rightarrow> 'w \<Rightarrow> bool \<times> 'w" where
  "oauth_connect xxh env oa w =
     (case (bx_conf_get_string xxh (oa_conf oa) ''mysql-host'', bx_conf_get_string xxh (oa_conf oa) ''mysql-user'',
            bx_conf_get_string xxh (oa_conf oa) ''mysql-database'') of
        (Ptr host, Ptr user, Ptr database) \<Rightarrow>
          my_connect (oe_mysql env) host user (bx_conf_get_string xxh (oa_conf oa) ''mysql-password'') database w
      | _ \<Rightarrow> (False, w))"

definition oauth_unlock :: "'w oauth_env \<Rightarrow> BXOAuth \<Rightarrow> 'w \<Rightarrow> BXOAuth \<times> 'w" where
  "oauth_unlock env oa w =
     (let (oa1, w1) = (if oa_lock_conn oa \<and> oa_lock_held oa
                       then (oa\<lparr>oa_lock_held := False\<rparr>, snd (my_query (oe_mysql env) RELEASE_LOCK_SQL w))
                       else (oa, w))
      in if oa_lock_conn oa1 then (oa1\<lparr>oa_lock_conn := False\<rparr>, oe_close env w1) else (oa1, w1))"

definition got_lock :: "string ptr list list \<Rightarrow> bool" where
  "got_lock rows = (case rows of (Ptr v # _) # _ \<Rightarrow> v = ''1'' | _ \<Rightarrow> False)"

definition oauth_lock :: "(string \<Rightarrow> u64) \<Rightarrow> 'w oauth_env \<Rightarrow> BXOAuth \<Rightarrow> 'w \<Rightarrow> bool \<times> BXOAuth \<times> 'w" where
  "oauth_lock xxh env oa w =
     (let (oa1, w1) = (if oa_lock_conn oa then oauth_unlock env oa w else (oa, w)) in
      case oauth_connect xxh env oa1 w1 of
        (False, w2) \<Rightarrow> (False, oa1\<lparr>oa_lock_conn := False\<rparr>, w2)
      | (True, w2) \<Rightarrow>
          (let oa2 = oa1\<lparr>oa_lock_conn := True\<rparr> in
           case my_select (oe_mysql env) GET_LOCK_SQL w2 of
             (NULL, w3) \<Rightarrow> (False, oauth_unlock env oa2 w3)
           | (Ptr rows, w3) \<Rightarrow>
               if \<not> got_lock rows then (False, oauth_unlock env oa2 w3)
               else (True, oa2\<lparr>oa_lock_held := True\<rparr>, w3)))"

section \<open>The table\<close>

definition OAUTH_PUT_SQL :: string where
  "OAUTH_PUT_SQL = ''INSERT INTO _configuration (name, type, ival, cval) '' @ ''VALUES (?, ?, ?, ?) '' @
     ''ON DUPLICATE KEY UPDATE type = VALUES(type), ival = VALUES(ival), '' @
     ''cval = VALUES(cval), bval = NULL, fval = NULL''"

definition OAUTH_SELECT_SQL :: string where
  "OAUTH_SELECT_SQL = ''SELECT name, ival, cval FROM _configuration WHERE name IN '' @
     ''('oauth-access-token', 'oauth-refresh-token', 'oauth-expires-at')''"

definition INT_MAX :: int where
  "INT_MAX = 2147483647"

definition oauth_upsert :: "'w oauth_env \<Rightarrow> string \<Rightarrow> string \<Rightarrow> int \<Rightarrow> bool \<Rightarrow> string ptr \<Rightarrow> bool \<Rightarrow> 'w \<Rightarrow> bool \<times> 'w" where
  "oauth_upsert env name type_name ival ival_null cval cval_null w =
     my_execute (oe_mysql env) OAUTH_PUT_SQL
       [SqlText name, SqlText type_name, if ival_null then SqlNull else SqlInt ival,
        if cval_null then SqlNull else SqlText (case cval of NULL \<Rightarrow> [] | Ptr s \<Rightarrow> s)] w"

text \<open>The statements of one transaction, up to the first that fails.\<close>

definition write_rows :: "'w oauth_env \<Rightarrow> string \<Rightarrow> string \<Rightarrow> int \<Rightarrow> 'w \<Rightarrow> bool \<times> 'w" where
  "write_rows env refresh access exp w =
     (case oauth_upsert env ''oauth-refresh-token'' ''string'' 0 True (Ptr refresh) False w of
        (False, w1) \<Rightarrow> (False, w1)
      | (True, w1) \<Rightarrow>
          (case oauth_upsert env ''oauth-access-token'' ''string'' 0 True (Ptr access) False w1 of
             (False, w2) \<Rightarrow> (False, w2)
           | (True, w2) \<Rightarrow>
               (case oauth_upsert env ''oauth-expires-at'' ''integer'' exp False NULL True w2 of
                  (False, w3) \<Rightarrow> (False, w3)
                | (True, w3) \<Rightarrow> my_query (oe_mysql env) ''COMMIT'' w3)))"

definition keep_tokens :: "(string \<Rightarrow> u64) \<Rightarrow> BXConf \<Rightarrow> string \<Rightarrow> string \<Rightarrow> int \<Rightarrow> BXConf" where
  "keep_tokens xxh conf refresh access exp =
     bx_conf_set xxh (bx_conf_set xxh (bx_conf_set xxh conf ''oauth-refresh-token'' (CString refresh))
       ''oauth-access-token'' (CString access)) ''oauth-expires-at'' (CInteger exp)"

definition oauth_write_once :: "(string \<Rightarrow> u64) \<Rightarrow> 'w oauth_env \<Rightarrow> BXOAuth \<Rightarrow> 'w \<Rightarrow> (bool \<times> BXOAuth \<times> 'w) option" where
  "oauth_write_once xxh env oa w =
     (if \<not> oa_lock_conn oa \<or> \<not> oa_lock_held oa then None
      else case (oa_access_token oa, oa_refresh_token oa) of
        (Ptr access, Ptr refresh) \<Rightarrow>
          if oa_expires_at oa < 0 \<or> INT_MAX < oa_expires_at oa then Some (False, oa, w)
          else
            (let exp = oa_expires_at oa in
             case my_query (oe_mysql env) ''START TRANSACTION'' w of
               (False, w1) \<Rightarrow> Some (False, oa, w1)
             | (True, w1) \<Rightarrow>
                 (case oe_prepare env OAUTH_PUT_SQL w1 of
                    (False, w2) \<Rightarrow> Some (False, oa, snd (my_query (oe_mysql env) ''ROLLBACK'' w2))
                  | (True, w2) \<Rightarrow>
                      (case write_rows env refresh access exp w2 of
                         (False, w3) \<Rightarrow> Some (False, oa, snd (my_query (oe_mysql env) ''ROLLBACK'' w3))
                       | (True, w3) \<Rightarrow>
                           Some (True, oa\<lparr>oa_conf := keep_tokens xxh (oa_conf oa) refresh access exp\<rparr>, w3))))
      | _ \<Rightarrow> Some (False, oa, w))"

fun write_attempts :: "(string \<Rightarrow> u64) \<Rightarrow> 'w oauth_env \<Rightarrow> nat \<Rightarrow> BXOAuth \<Rightarrow> 'w \<Rightarrow> (bool \<times> BXOAuth \<times> 'w) option" where
  "write_attempts xxh env 0 oa w = Some (False, oa\<lparr>oa_tokens_dirty := True\<rparr>, w)"
| "write_attempts xxh env (Suc n) oa w =
     (case oauth_write_once xxh env oa w of
        None \<Rightarrow> None
      | Some (True, oa1, w1) \<Rightarrow> Some (True, oa1\<lparr>oa_tokens_dirty := False\<rparr>, w1)
      | Some (False, oa1, w1) \<Rightarrow> write_attempts xxh env n oa1 w1)"

definition oauth_write_tokens :: "(string \<Rightarrow> u64) \<Rightarrow> 'w oauth_env \<Rightarrow> BXOAuth \<Rightarrow> 'w \<Rightarrow> (bool \<times> BXOAuth \<times> 'w) option" where
  "oauth_write_tokens xxh env = write_attempts xxh env BX_OAUTH_WRITE_ATTEMPTS"

text \<open>The tokens the rows hold: access token, refresh token and expiry.\<close>

fun read_rows :: "string ptr list list \<Rightarrow> string ptr \<times> string ptr \<times> int option \<Rightarrow> string ptr \<times> string ptr \<times> int option" where
  "read_rows [] acc = acc"
| "read_rows ([name, ival, cval] # rows) (access, refresh, expiry) =
     read_rows rows
       (case name of
          NULL \<Rightarrow> (access, refresh, expiry)
        | Ptr n \<Rightarrow>
            if n = ''oauth-access-token'' then (cval, refresh, expiry)
            else if n = ''oauth-refresh-token'' then (access, cval, expiry)
            else if n = ''oauth-expires-at'' \<and> ival \<noteq> NULL then
              (access, refresh, map_option (\<lambda>v. to_int32 (strtol_value v)) (case ival of NULL \<Rightarrow> None | Ptr v \<Rightarrow> Some v))
            else (access, refresh, expiry))"
| "read_rows (_ # rows) acc = acc"

text \<open>\<open>bx_conf_release\<close> does nothing, so a token that is gone from the table stays in the configuration.\<close>

definition oauth_read_tokens :: "(string \<Rightarrow> u64) \<Rightarrow> 'w oauth_env \<Rightarrow> BXOAuth \<Rightarrow> 'w \<Rightarrow> (bool \<times> BXOAuth \<times> 'w) option" where
  "oauth_read_tokens xxh env oa w =
     (if \<not> oa_lock_conn oa \<or> \<not> oa_lock_held oa then None
      else case my_select (oe_mysql env) OAUTH_SELECT_SQL w of
        (NULL, w1) \<Rightarrow> Some (False, oa, w1)
      | (Ptr rows, w1) \<Rightarrow>
          (case read_rows rows (NULL, NULL, None) of
             (access, refresh, expiry) \<Rightarrow>
               (let conf1 = (case replace_token access of NULL \<Rightarrow> oa_conf oa
                             | Ptr a \<Rightarrow> bx_conf_set xxh (oa_conf oa) ''oauth-access-token'' (CString a));
                    conf2 = (case replace_token refresh of NULL \<Rightarrow> conf1
                             | Ptr r \<Rightarrow> bx_conf_set xxh conf1 ''oauth-refresh-token'' (CString r));
                    conf3 = (case expiry of None \<Rightarrow> conf2
                             | Some e \<Rightarrow> bx_conf_set xxh conf2 ''oauth-expires-at'' (CInteger e))
                in Some (True, oa\<lparr>oa_conf := conf3, oa_access_token := replace_token access,
                     oa_refresh_token := replace_token refresh,
                     oa_expires_at := (case expiry of None \<Rightarrow> 0 | Some e \<Rightarrow> e)\<rparr>, w1))))"

definition load_tokens :: "(string \<Rightarrow> u64) \<Rightarrow> BXOAuth \<Rightarrow> BXOauthStatus \<times> BXOAuth" where
  "load_tokens xxh oa =
     (let access = bx_conf_get_string xxh (oa_conf oa) ''oauth-access-token'';
          refresh = bx_conf_get_string xxh (oa_conf oa) ''oauth-refresh-token'';
          oa1 = oa\<lparr>oa_expires_at := bx_conf_get_int xxh (oa_conf oa) ''oauth-expires-at''\<rparr>;
          oa2 = (if token_present access then oa1\<lparr>oa_access_token := access\<rparr> else oa1);
          oa3 = (if token_present refresh then oa2\<lparr>oa_refresh_token := refresh\<rparr> else oa2)
      in (if token_present (oa_refresh_token oa3) then BX_OAUTH_OK else BX_OAUTH_NEED_LOGIN, oa3))"

section \<open>The token endpoint\<close>

definition post_token :: "(string \<Rightarrow> u64) \<Rightarrow> 'w oauth_env \<Rightarrow> (string \<times> string ptr) list \<Rightarrow> BXOAuth \<Rightarrow> 'w
    \<Rightarrow> (PostResult \<times> BXOAuth \<times> 'w) option" where
  "post_token xxh env form oa w =
     (case oe_post env form w of
        (NULL, w1) \<Rightarrow> Some (POST_FAILED, oa, w1)
      | (Ptr response, w1) \<Rightarrow>
          (case oe_decode env response of
             NULL \<Rightarrow> Some (POST_FAILED, oa, w1)
           | Ptr answer \<Rightarrow>
               (case ta_error answer of
                  Ptr err \<Rightarrow>
                    Some (POST_FAILED,
                      if err = ''invalid_grant'' \<and> oa_refreshing oa then oa\<lparr>oa_tokens_dirty := False\<rparr> else oa, w1)
                | NULL \<Rightarrow>
                    (case ta_access_token answer of
                       NULL \<Rightarrow> Some (POST_FAILED, oa, w1)
                     | Ptr access \<Rightarrow>
                         (let oa1 = oa\<lparr>oa_access_token := Ptr access\<rparr>;
                              oa2 = (case ta_refresh_token answer of NULL \<Rightarrow> oa1
                                     | Ptr refresh \<Rightarrow> oa1\<lparr>oa_refresh_token := Ptr refresh\<rparr>)
                          in if oa_refresh_token oa2 = NULL then Some (POST_FAILED, oa2, w1)
                             else
                               (case oe_time env w1 of
                                  (now, w2) \<Rightarrow>
                                    (let ttl = (if ta_expires_in answer \<le> 0 then BX_OAUTH_DEFAULT_TTL_SEC
                                                else ta_expires_in answer)
                                     in case oauth_write_tokens xxh env (oa2\<lparr>oa_expires_at := now + ttl\<rparr>) w2 of
                                          None \<Rightarrow> None
                                        | Some (saved, oa3, w3) \<Rightarrow>
                                            Some (if saved then POST_OK else POST_UNSAVED, oa3, w3))))))))"

definition refresh_tokens :: "(string \<Rightarrow> u64) \<Rightarrow> 'w oauth_env \<Rightarrow> BXOAuth \<Rightarrow> 'w \<Rightarrow> (PostResult \<times> BXOAuth \<times> 'w) option" where
  "refresh_tokens xxh env oa w =
     (if oa_refresh_token oa = NULL then Some (POST_FAILED, oa, w)
      else
        map_option (\<lambda>(posted, oa1, w1). (posted, oa1\<lparr>oa_refreshing := False\<rparr>, w1))
          (post_token xxh env
             [(''grant_type'', Ptr ''refresh_token''), (''refresh_token'', oa_refresh_token oa),
              (''client_id'', oa_client_id oa), (''scope'', Ptr (oa_scope oa))]
             (oa\<lparr>oa_refreshing := True\<rparr>) w))"

section \<open>A usable token\<close>

text \<open>What the two refreshing branches of \<open>bx_oauth_ensure\<close> share: the refresh, and the release of the lock.\<close>

definition ensure_refresh :: "(string \<Rightarrow> u64) \<Rightarrow> 'w oauth_env \<Rightarrow> BXOAuth \<Rightarrow> 'w \<Rightarrow> (bool \<times> BXOAuth \<times> 'w) option" where
  "ensure_refresh xxh env oa w =
     (case refresh_tokens xxh env oa w of
        None \<Rightarrow> None
      | Some (posted, oa1, w1) \<Rightarrow>
          (case posted of
             POST_OK \<Rightarrow> Some (True, oauth_unlock env oa1 w1)
           | POST_FAILED \<Rightarrow> Some (False, oauth_unlock env oa1 w1)
           | POST_UNSAVED \<Rightarrow>
               (case oe_time env w1 of
                  (now, w2) \<Rightarrow>
                    Some (access_usable (oa_access_token oa1) (oa_expires_at oa1) now, oauth_unlock env oa1 w2))))"

text \<open>The part under the lock; \<open>rejected\<close> is the token the caller had.\<close>

definition ensure_locked :: "(string \<Rightarrow> u64) \<Rightarrow> 'w oauth_env \<Rightarrow> bool \<Rightarrow> string ptr \<Rightarrow> BXOAuth \<Rightarrow> 'w
    \<Rightarrow> (bool \<times> BXOAuth \<times> 'w) option" where
  "ensure_locked xxh env force rejected oa w =
     (let (usable, w1) = (if oa_tokens_dirty oa \<and> \<not> force
                          then (case oe_time env w of
                                  (now, w1) \<Rightarrow> (access_usable (oa_access_token oa) (oa_expires_at oa) now, w1))
                          else (False, w))
      in if usable then
           (case oauth_write_tokens xxh env oa w1 of
              None \<Rightarrow> None
            | Some (saved, oa1, w2) \<Rightarrow> Some (True, oauth_unlock env oa1 w2))
         else if oa_tokens_dirty oa then
           (if \<not> token_present (oa_refresh_token oa) then Some (False, oauth_unlock env oa w1)
            else ensure_refresh xxh env oa w1)
         else
           (case oauth_read_tokens xxh env oa w1 of
              None \<Rightarrow> None
            | Some (False, oa1, w2) \<Rightarrow> Some (False, oauth_unlock env oa1 w2)
            | Some (True, oa1, w2) \<Rightarrow>
                (case oe_time env w2 of
                   (now, w3) \<Rightarrow>
                     (case bx_oauth_decide force rejected (oa_access_token oa1) (oa_refresh_token oa1)
                             (oa_expires_at oa1) now of
                        BX_OAUTH_ACT_USE \<Rightarrow> Some (True, oauth_unlock env oa1 w3)
                      | BX_OAUTH_ACT_NEED_LOGIN \<Rightarrow> Some (False, oauth_unlock env oa1 w3)
                      | BX_OAUTH_ACT_REFRESH \<Rightarrow> ensure_refresh xxh env oa1 w3))))"

definition bx_oauth_ensure :: "(string \<Rightarrow> u64) \<Rightarrow> 'w oauth_env \<Rightarrow> BXOAuth \<Rightarrow> bool \<Rightarrow> 'w \<Rightarrow> (bool \<times> BXOAuth \<times> 'w) option" where
  "bx_oauth_ensure xxh env oa force w =
     (case oe_time env w of
        (now, w1) \<Rightarrow>
          if \<not> oa_tokens_dirty oa \<and> \<not> force \<and> access_usable (oa_access_token oa) (oa_expires_at oa) now
          then Some (True, oa, w1)
          else
            (let rejected = (if token_present (oa_access_token oa) then oa_access_token oa else NULL) in
             case oauth_lock xxh env oa w1 of
               (False, oa1, w2) \<Rightarrow> Some (False, oa1, w2)
             | (True, oa1, w2) \<Rightarrow> ensure_locked xxh env force rejected oa1 w2))"

definition bx_oauth_reload :: "(string \<Rightarrow> u64) \<Rightarrow> (string \<Rightarrow> u64 option) \<Rightarrow> 'w oauth_env \<Rightarrow> BXOAuth \<Rightarrow> 'w \<Rightarrow> bool \<times> BXOAuth \<times> 'w" where
  "bx_oauth_reload xxh strtod_end env oa w =
     (if oa_tokens_dirty oa then (True, oa, w)
      else case bx_conf_load_database xxh strtod_end (oe_mysql env) (oa_conf oa) w of
        (False, conf, w1) \<Rightarrow> (False, oa\<lparr>oa_conf := conf\<rparr>, w1)
      | (True, conf, w1) \<Rightarrow>
          (case load_tokens xxh (oa\<lparr>oa_conf := conf\<rparr>) of (st, oa1) \<Rightarrow> (st = BX_OAUTH_OK, oa1, w1)))"

definition bx_oauth_startup :: "(string \<Rightarrow> u64) \<Rightarrow> 'w oauth_env \<Rightarrow> BXOAuth ptr \<Rightarrow> 'w \<Rightarrow> (BXOauthStatus \<times> BXOAuth ptr \<times> 'w) option" where
  "bx_oauth_startup xxh env oauth w =
     (case oauth of
        NULL \<Rightarrow> Some (BX_OAUTH_FAILED, NULL, w)
      | Ptr oa \<Rightarrow>
          (case load_tokens xxh oa of
             (st, oa1) \<Rightarrow>
               if st \<noteq> BX_OAUTH_OK then Some (st, Ptr oa1, w)
               else map_option (\<lambda>(ensured, oa2, w1). (BX_OAUTH_OK, Ptr oa2, w1)) (bx_oauth_ensure xxh env oa1 False w)))"

definition bx_oauth_access_token :: "BXOAuth ptr \<Rightarrow> string ptr" where
  "bx_oauth_access_token oauth = (case oauth of NULL \<Rightarrow> NULL | Ptr oa \<Rightarrow> oa_access_token oa)"

text \<open>\<open>set_up\<close> says whether the OAuth library could be set up with the client id and the secret.\<close>

definition bx_oauth_init :: "(string \<Rightarrow> u64) \<Rightarrow> (string \<Rightarrow> string \<Rightarrow> bool) \<Rightarrow> BXConf \<Rightarrow> BXOAuth ptr" where
  "bx_oauth_init xxh set_up conf =
     (case (conf_string xxh conf ''oauth-client-id'', conf_string xxh conf ''oauth-client-secret'') of
        (Ptr client_id, Ptr secret) \<Rightarrow>
          if \<not> set_up client_id secret then NULL
          else Ptr \<lparr>oa_client_id = Ptr client_id,
                    oa_redirect_uri = (case conf_string xxh conf ''oauth-redirect-uri'' of
                                         NULL \<Rightarrow> BX_OAUTH_REDIRECT_DEFAULT | Ptr u \<Rightarrow> u),
                    oa_scope = (case conf_string xxh conf ''oauth-scope'' of NULL \<Rightarrow> BX_OAUTH_DEFAULT_SCOPE | Ptr u \<Rightarrow> u),
                    oa_conf = conf, oa_access_token = NULL, oa_refresh_token = NULL, oa_expires_at = 0,
                    oa_refreshing = False, oa_lock_conn = False, oa_lock_held = False, oa_tokens_dirty = False\<rparr>
      | _ \<Rightarrow> NULL)"

section \<open>The login\<close>

definition redirect_port :: "string \<Rightarrow> int option" where
  "redirect_port uri =
     (if is_prefix ''http://127.0.0.1:'' uri \<or> is_prefix ''http://localhost:'' uri then
        (case strtol (drop 17 uri) of
           None \<Rightarrow> None
         | Some (v, end_text) \<Rightarrow>
             if v < 1 \<or> 65535 < v then None
             else if end_text \<noteq> [] \<and> hd end_text \<noteq> CHR ''/'' then None
             else Some v)
      else None)"

text \<open>The value of a query parameter; \<open>before\<close> is the character before the current one, if any.\<close>

definition value_end :: "char \<Rightarrow> bool" where
  "value_end c \<longleftrightarrow> c = CHR ''&'' \<or> c = CHR '' '' \<or> of_char c = (13 :: nat) \<or> of_char c = (10 :: nat) \<or> c = CHR ''#''"

fun query_scan :: "(string \<Rightarrow> string ptr) \<Rightarrow> string \<Rightarrow> char option \<Rightarrow> string \<Rightarrow> string ptr" where
  "query_scan url_decode name before [] = NULL"
| "query_scan url_decode name before (c # p) =
     (if (before = None \<or> before = Some (CHR ''&'') \<or> before = Some (CHR ''?'')) \<and> is_prefix (name @ ''='') (c # p)
      then url_decode (takeWhile (\<lambda>c. \<not> value_end c) (drop (length name + 1) (c # p)))
      else query_scan url_decode name (Some c) p)"

definition query_value :: "(string \<Rightarrow> string ptr) \<Rightarrow> string \<Rightarrow> string \<Rightarrow> string ptr" where
  "query_value url_decode src name =
     query_scan url_decode name None
       (case dropWhile (\<lambda>c. c \<noteq> CHR ''?'') src of [] \<Rightarrow> src | _ # q \<Rightarrow> q)"

text \<open>The first line of a request, at most 4095 bytes of it, as the text the C functions see.\<close>

fun request_line :: "nat \<Rightarrow> char list \<Rightarrow> char list" where
  "request_line 0 cs = []"
| "request_line (Suc n) [] = []"
| "request_line (Suc n) (c # cs) = (if of_char c = (10 :: nat) then [c] else c # request_line n cs)"

definition matching_code :: "(string \<Rightarrow> string ptr) \<Rightarrow> string \<Rightarrow> string \<Rightarrow> string option" where
  "matching_code url_decode src expect =
     (case (query_value url_decode src ''code'', query_value url_decode src ''state'') of
        (Ptr code, Ptr st) \<Rightarrow> if st = expect then Some code else None
      | _ \<Rightarrow> None)"

definition accept_code :: "(string \<Rightarrow> string ptr) \<Rightarrow> char list \<Rightarrow> string \<Rightarrow> string option" where
  "accept_code url_decode received expect = matching_code url_decode (cstr (request_line 4095 received)) expect"

definition code_from_line :: "(string \<Rightarrow> string ptr) \<Rightarrow> string \<Rightarrow> string \<Rightarrow> string option" where
  "code_from_line url_decode line expect = matching_code url_decode (dropWhile is_space line) expect"

text \<open>
  One turn of the waiting loop: the milliseconds since its start and what \<open>poll\<close> reports. A
  callback that cannot be accepted is \<open>None\<close>; the end of the standard input is \<open>Some None\<close>. The
  turns end with the five minutes the loop waits.
\<close>

datatype poll_event =
    PollInterrupted | PollError | PollTimeout | PollReady "char list option" "string option option"

fun login_wait :: "(string \<Rightarrow> string ptr) \<Rightarrow> string \<Rightarrow> (int \<times> poll_event) list \<Rightarrow> string option" where
  "login_wait url_decode st [] = None"
| "login_wait url_decode st ((elapsed, event) # events) =
     (if 300000 - elapsed \<le> 0 then None
      else case event of
        PollInterrupted \<Rightarrow> login_wait url_decode st events
      | PollError \<Rightarrow> None
      | PollTimeout \<Rightarrow> None
      | PollReady callback line \<Rightarrow>
          (case (case callback of None \<Rightarrow> None | Some received \<Rightarrow> accept_code url_decode received st) of
             Some code \<Rightarrow> Some code
           | None \<Rightarrow>
               (case (case line of Some (Some text_line) \<Rightarrow> code_from_line url_decode text_line st | _ \<Rightarrow> None) of
                  Some code \<Rightarrow> Some code
                | None \<Rightarrow> login_wait url_decode st events)))"

definition exchange_code :: "(string \<Rightarrow> u64) \<Rightarrow> 'w oauth_env \<Rightarrow> BXOAuth \<Rightarrow> string \<Rightarrow> string \<Rightarrow> 'w
    \<Rightarrow> (bool \<times> BXOAuth \<times> 'w) option" where
  "exchange_code xxh env oa code verifier w =
     (case oauth_lock xxh env oa w of
        (False, oa1, w1) \<Rightarrow> Some (False, oa1, w1)
      | (True, oa1, w1) \<Rightarrow>
          (case post_token xxh env
                  [(''grant_type'', Ptr ''authorization_code''), (''code'', Ptr code),
                   (''redirect_uri'', Ptr (oa_redirect_uri oa1)), (''client_id'', oa_client_id oa1),
                   (''code_verifier'', Ptr verifier)] oa1 w1 of
             None \<Rightarrow> None
           | Some (posted, oa2, w2) \<Rightarrow>
               (case oauth_unlock env oa2 w2 of
                  (oa3, w3) \<Rightarrow>
                    Some (posted = POST_OK, if posted = POST_OK then oa3 else oa3\<lparr>oa_tokens_dirty := False\<rparr>, w3))))"

text \<open>
  \<open>rand\<close> gives the verifier and the state of this login, \<open>challenge\<close> and \<open>url\<close> say whether the PKCE
  challenge and the URL could be made.
\<close>

definition bx_oauth_login :: "(string \<Rightarrow> u64) \<Rightarrow> 'w oauth_env \<Rightarrow> (string \<Rightarrow> string ptr) \<Rightarrow> string ptr \<times> string ptr
    \<Rightarrow> (string \<Rightarrow> string ptr) \<Rightarrow> ((string \<times> string ptr) list \<Rightarrow> string ptr) \<Rightarrow> (int \<times> poll_event) list
    \<Rightarrow> BXOAuth \<Rightarrow> 'w \<Rightarrow> (BXOauthStatus \<times> BXOAuth \<times> 'w) option" where
  "bx_oauth_login xxh env url_decode rand challenge url events oa w =
     (case redirect_port (oa_redirect_uri oa) of
        None \<Rightarrow> Some (BX_OAUTH_FAILED, oa, w)
      | Some port \<Rightarrow>
          (case rand of
             (Ptr verifier, Ptr st) \<Rightarrow>
               (case challenge verifier of
                  NULL \<Rightarrow> Some (BX_OAUTH_FAILED, oa, w)
                | Ptr ch \<Rightarrow>
                    (case url [(''response_type'', Ptr ''code''), (''client_id'', oa_client_id oa),
                               (''redirect_uri'', Ptr (oa_redirect_uri oa)), (''scope'', Ptr (oa_scope oa)),
                               (''state'', Ptr st), (''code_challenge'', Ptr ch),
                               (''code_challenge_method'', Ptr ''S256'')] of
                       NULL \<Rightarrow> Some (BX_OAUTH_FAILED, oa, w)
                     | Ptr u \<Rightarrow>
                         (case login_wait url_decode st events of
                            None \<Rightarrow> Some (BX_OAUTH_FAILED, oa, w)
                          | Some code \<Rightarrow>
                              map_option (\<lambda>(ok, oa1, w1). (if ok then BX_OAUTH_OK else BX_OAUTH_FAILED, oa1, w1))
                                (exchange_code xxh env oa code verifier w))))
           | _ \<Rightarrow> Some (BX_OAUTH_FAILED, oa, w)))"

text \<open>The PKCE challenge: the encoded hash up to its padding.\<close>

definition pkce_challenge :: "(string \<Rightarrow> u8 list ptr) \<Rightarrow> (u8 list \<Rightarrow> string ptr) \<Rightarrow> string \<Rightarrow> string ptr" where
  "pkce_challenge sha256 base64url verifier =
     (case sha256 verifier of
        NULL \<Rightarrow> NULL
      | Ptr hash \<Rightarrow>
          (case base64url hash of
             NULL \<Rightarrow> NULL
           | Ptr b64 \<Rightarrow> if b64 = [] then NULL else Ptr (takeWhile (\<lambda>c. c \<noteq> CHR ''='') b64)))"

end
