(* ===== verification/Bx_OAuth_Properties.thy ===== *)
theory Bx_OAuth_Properties
  imports Bx_OAuth
begin

text \<open>
  What the token client guarantees: no assertion fails and the lock is released on every path,
  a positive answer comes with a token that is valid long enough or was issued by this very
  call, a grant that could not be saved is never replaced by an older one, tokens one process
  commits are the ones another reads, and a login trades only a code that came with the
  state of this login.
\<close>

section \<open>The lock\<close>

definition unlocked :: "BXOAuth \<Rightarrow> bool" where
  "unlocked oa \<longleftrightarrow> \<not> oa_lock_conn oa \<and> \<not> oa_lock_held oa"

definition locked :: "BXOAuth \<Rightarrow> bool" where
  "locked oa \<longleftrightarrow> oa_lock_conn oa \<and> oa_lock_held oa"

lemma unlock_state: "fst (oauth_unlock env oa w) = oa\<lparr>oa_lock_held := (if oa_lock_conn oa then False else oa_lock_held oa), oa_lock_conn := False\<rparr>"
  by (cases oa) (auto simp: oauth_unlock_def)

lemma unlock_locked:
  assumes "locked oa"
  shows "\<exists>w'. oauth_unlock env oa w = (oa\<lparr>oa_lock_conn := False, oa_lock_held := False\<rparr>, w')"
  using assms by (cases oa) (auto simp: oauth_unlock_def locked_def)

lemma lock_outcome:
  assumes "unlocked oa"
  shows "\<exists>w'. oauth_lock xxh env oa w = (True, oa\<lparr>oa_lock_conn := True, oa_lock_held := True\<rparr>, w') \<or>
    oauth_lock xxh env oa w = (False, oa, w')"
  using assms
  by (cases oa) (auto simp: unlocked_def oauth_lock_def oauth_unlock_def Let_def split: prod.splits bool.splits ptr.splits)

section \<open>Writing and refreshing\<close>

lemma write_once_outcome:
  assumes "locked oa"
  shows "\<exists>ok oa' w'. oauth_write_once xxh env oa w = Some (ok, oa', w') \<and> (\<not> ok \<longrightarrow> oa' = oa) \<and>
    (ok \<longrightarrow> (\<exists>a r. oa_access_token oa = Ptr a \<and> oa_refresh_token oa = Ptr r \<and>
       0 \<le> oa_expires_at oa \<and> oa_expires_at oa \<le> INT_MAX \<and>
       oa' = oa\<lparr>oa_conf := keep_tokens xxh (oa_conf oa) r a (oa_expires_at oa)\<rparr>))"
  using assms
  by (auto simp: locked_def oauth_write_once_def Let_def not_less split: prod.splits bool.splits ptr.splits)

lemma write_attempts_outcome:
  assumes "locked oa"
  shows "\<exists>ok c w'. write_attempts xxh env n oa w = Some (ok, oa\<lparr>oa_conf := c, oa_tokens_dirty := \<not> ok\<rparr>, w') \<and>
    (ok \<longrightarrow> (\<exists>a r. oa_access_token oa = Ptr a \<and> oa_refresh_token oa = Ptr r \<and>
       0 \<le> oa_expires_at oa \<and> oa_expires_at oa \<le> INT_MAX \<and>
       c = keep_tokens xxh (oa_conf oa) r a (oa_expires_at oa)))"
  using assms
proof (induction n arbitrary: w)
  case 0
  then show ?case by (intro exI [of _ False] exI [of _ "oa_conf oa"] exI [of _ w]) simp
next
  case (Suc n)
  obtain ok oa1 w1 where once: "oauth_write_once xxh env oa w = Some (ok, oa1, w1)" "\<not> ok \<longrightarrow> oa1 = oa"
      "ok \<longrightarrow> (\<exists>a r. oa_access_token oa = Ptr a \<and> oa_refresh_token oa = Ptr r \<and>
         0 \<le> oa_expires_at oa \<and> oa_expires_at oa \<le> INT_MAX \<and>
         oa1 = oa\<lparr>oa_conf := keep_tokens xxh (oa_conf oa) r a (oa_expires_at oa)\<rparr>)"
    using write_once_outcome [OF Suc.prems, of xxh env w] by (elim exE conjE) (rule that)
  show ?case
  proof (cases ok)
    case True
    with once obtain a r where "oa_access_token oa = Ptr a" "oa_refresh_token oa = Ptr r"
        "0 \<le> oa_expires_at oa" "oa_expires_at oa \<le> INT_MAX"
        "oa1 = oa\<lparr>oa_conf := keep_tokens xxh (oa_conf oa) r a (oa_expires_at oa)\<rparr>" by blast
    with once True show ?thesis
      by (intro exI [of _ True] exI [of _ "keep_tokens xxh (oa_conf oa) r a (oa_expires_at oa)"] exI [of _ w1]) simp
  next
    case False
    with once Suc.IH [OF Suc.prems, of w1] show ?thesis by simp
  qed
qed

lemmas write_tokens_outcome = write_attempts_outcome [where n = BX_OAUTH_WRITE_ATTEMPTS, folded oauth_write_tokens_def]

text \<open>The access token of the client is one the endpoint has just given.\<close>

definition issued :: "'w oauth_env \<Rightarrow> BXOAuth \<Rightarrow> bool" where
  "issued env oa \<longleftrightarrow> (\<exists>response answer. oe_decode env response = Ptr answer \<and> ta_error answer = NULL \<and>
     ta_access_token answer = oa_access_token oa \<and> ta_access_token answer \<noteq> NULL \<and>
     (ta_refresh_token answer \<noteq> NULL \<longrightarrow> ta_refresh_token answer = oa_refresh_token oa))"

definition saved :: "(string \<Rightarrow> u64) \<Rightarrow> BXOAuth \<Rightarrow> bool" where
  "saved xxh oa \<longleftrightarrow> (\<exists>conf a r. oa_access_token oa = Ptr a \<and> oa_refresh_token oa = Ptr r \<and>
     oa_conf oa = keep_tokens xxh conf r a (oa_expires_at oa))"

text \<open>The endpoint refuses a refresh token, or gives a new one.\<close>

definition rejected_grant :: "'w oauth_env \<Rightarrow> bool" where
  "rejected_grant env \<longleftrightarrow> (\<exists>response answer. oe_decode env response = Ptr answer \<and> ta_error answer = Ptr ''invalid_grant'')"

definition gave_refresh :: "'w oauth_env \<Rightarrow> string \<Rightarrow> bool" where
  "gave_refresh env t \<longleftrightarrow> (\<exists>response answer. oe_decode env response = Ptr answer \<and> ta_refresh_token answer = Ptr t)"

text \<open>An expiry some seconds after a reading of the clock.\<close>

definition expiry_ahead :: "'w oauth_env \<Rightarrow> int \<Rightarrow> bool" where
  "expiry_ahead env e \<longleftrightarrow> (\<exists>w0 ttl. e = fst (oe_time env w0) + ttl \<and> 0 < ttl)"

text \<open>
  One exchange with the endpoint. Either nothing changed, or the grant was given up, or the
  new tokens are in place, and then the flag says whether they were saved.
\<close>

definition exchanged :: "(string \<Rightarrow> u64) \<Rightarrow> 'w oauth_env \<Rightarrow> BXOAuth \<Rightarrow> PostResult \<Rightarrow> BXOAuth \<Rightarrow> bool" where
  "exchanged xxh env oa r oa' \<longleftrightarrow>
     (case r of
        POST_FAILED \<Rightarrow>
          oa' = oa \<or> oa_refreshing oa \<and> rejected_grant env \<and> oa' = oa\<lparr>oa_tokens_dirty := False\<rparr> \<or>
          oa_refresh_token oa = NULL \<and> (\<exists>a. oa' = oa\<lparr>oa_access_token := a\<rparr>)
      | _ \<Rightarrow>
          issued env oa' \<and>
          (\<exists>c a t e. oa' = oa\<lparr>oa_conf := c, oa_access_token := a, oa_refresh_token := Ptr t, oa_expires_at := e,
                             oa_tokens_dirty := (r = POST_UNSAVED)\<rparr> \<and>
             expiry_ahead env e \<and>
             (oa_refresh_token oa = Ptr t \<or> gave_refresh env t)) \<and>
          (r = POST_OK \<longrightarrow> saved xxh oa'))"

lemma exchanged_locked: "exchanged xxh env oa r oa' \<Longrightarrow> locked oa \<Longrightarrow> locked oa'"
  by (auto simp: exchanged_def locked_def split: PostResult.splits)

lemma post_token_outcome:
  assumes "locked oa"
  shows "\<exists>r oa' w'. post_token xxh env form oa w = Some (r, oa', w') \<and> exchanged xxh env oa r oa'"
proof -
  obtain resp w1 where post: "oe_post env form w = (resp, w1)" by fastforce
  show ?thesis
  proof (cases "\<exists>response answer access. resp = Ptr response \<and> oe_decode env response = Ptr answer \<and>
      ta_error answer = NULL \<and> ta_access_token answer = Ptr access")
    case False
    then show ?thesis
      using post by (auto simp: post_token_def exchanged_def rejected_grant_def split: ptr.splits)
  next
    case True
    then obtain response answer access where a: "resp = Ptr response" "oe_decode env response = Ptr answer"
        "ta_error answer = NULL" "ta_access_token answer = Ptr access" by blast
    obtain now w2 where time: "oe_time env w1 = (now, w2)" by fastforce
    define ttl where "ttl = (if ta_expires_in answer \<le> 0 then BX_OAUTH_DEFAULT_TTL_SEC else ta_expires_in answer)"
    define token where "token = (case ta_refresh_token answer of NULL \<Rightarrow> oa_refresh_token oa | Ptr t \<Rightarrow> Ptr t)"
    let ?oa = "oa\<lparr>oa_access_token := Ptr access, oa_refresh_token := token\<rparr>"
    have oa2: "(case ta_refresh_token answer of NULL \<Rightarrow> oa\<lparr>oa_access_token := Ptr access\<rparr>
        | Ptr refresh \<Rightarrow> oa\<lparr>oa_access_token := Ptr access, oa_refresh_token := Ptr refresh\<rparr>) = ?oa"
      by (cases oa) (simp add: token_def split: ptr.split)
    show ?thesis
    proof (cases token)
      case NULL
      then have "post_token xxh env form oa w = Some (POST_FAILED, ?oa, w1)"
        using post a oa2 by (simp add: post_token_def Let_def)
      moreover have "oa_refresh_token oa = NULL" using NULL by (simp add: token_def split: ptr.splits)
      then have "?oa = oa\<lparr>oa_access_token := Ptr access\<rparr>" using NULL by (cases oa) simp
      ultimately show ?thesis using \<open>oa_refresh_token oa = NULL\<close> by (auto simp: exchanged_def)
    next
      case (Ptr t)
      let ?oa1 = "?oa\<lparr>oa_expires_at := now + ttl\<rparr>"
      have "locked ?oa1" using assms by (simp add: locked_def)
      from write_tokens_outcome [OF this, of xxh env w2] obtain ok c w3
        where w: "oauth_write_tokens xxh env ?oa1 w2 = Some (ok, ?oa1\<lparr>oa_conf := c, oa_tokens_dirty := \<not> ok\<rparr>, w3)"
          "ok \<longrightarrow> (\<exists>a r. oa_access_token ?oa1 = Ptr a \<and> oa_refresh_token ?oa1 = Ptr r \<and> 0 \<le> oa_expires_at ?oa1 \<and>
             oa_expires_at ?oa1 \<le> INT_MAX \<and> c = keep_tokens xxh (oa_conf ?oa1) r a (oa_expires_at ?oa1))"
        by (elim exE conjE) (rule that)
      let ?oa3 = "oa\<lparr>oa_conf := c, oa_access_token := Ptr access, oa_refresh_token := Ptr t, oa_expires_at := now + ttl,
        oa_tokens_dirty := \<not> ok\<rparr>"
      have "post_token xxh env form oa w = Some (if ok then POST_OK else POST_UNSAVED, ?oa3, w3)"
        using post a Ptr time w(1) oa2 by (simp add: post_token_def ttl_def Let_def)
      moreover have "issued env ?oa3"
        using a Ptr unfolding issued_def token_def
        by (intro exI [of _ response] exI [of _ answer]) (auto split: ptr.splits)
      moreover have "oa_refresh_token oa = Ptr t \<or> gave_refresh env t"
        using Ptr a(2) by (auto simp: token_def gave_refresh_def split: ptr.splits)
      moreover have "expiry_ahead env (now + ttl)"
        unfolding expiry_ahead_def using time by (intro exI [of _ w1] exI [of _ ttl]) (auto simp: ttl_def BX_OAUTH_DEFAULT_TTL_SEC_def)
      moreover have "ok \<longrightarrow> saved xxh ?oa3" using w(2) Ptr unfolding saved_def by auto
      ultimately show ?thesis using a(2) by (cases ok) (simp_all add: exchanged_def, blast+)
    qed
  qed
qed

lemma refresh_outcome:
  assumes "locked oa" and "\<not> oa_refreshing oa"
  shows "\<exists>r oa' w'. refresh_tokens xxh env oa w = Some (r, oa', w') \<and> locked oa' \<and> \<not> oa_refreshing oa' \<and>
    (r = POST_FAILED \<longrightarrow> (\<exists>d. oa' = oa\<lparr>oa_tokens_dirty := d\<rparr> \<and> (d = oa_tokens_dirty oa \<or> \<not> d \<and> rejected_grant env))) \<and>
    (r \<noteq> POST_FAILED \<longrightarrow> exchanged xxh env oa r oa')"
proof (cases "oa_refresh_token oa")
  case NULL
  then show ?thesis
    using assms by (intro exI [of _ POST_FAILED] exI [of _ oa] exI [of _ w]) (cases oa, auto simp: refresh_tokens_def)
next
  case (Ptr t)
  let ?form = "[(''grant_type'', Ptr ''refresh_token''), (''refresh_token'', oa_refresh_token oa),
    (''client_id'', oa_client_id oa), (''scope'', Ptr (oa_scope oa))]"
  have "locked (oa\<lparr>oa_refreshing := True\<rparr>)" using assms by (simp add: locked_def)
  from post_token_outcome [OF this, of xxh env ?form w] obtain r oa1 w1
    where post: "post_token xxh env ?form (oa\<lparr>oa_refreshing := True\<rparr>) w = Some (r, oa1, w1)"
      "exchanged xxh env (oa\<lparr>oa_refreshing := True\<rparr>) r oa1" by (elim exE conjE) (rule that)
  have run: "refresh_tokens xxh env oa w = Some (r, oa1\<lparr>oa_refreshing := False\<rparr>, w1)"
    using post(1) Ptr by (simp add: refresh_tokens_def)
  have same: "oa\<lparr>oa_refreshing := False\<rparr> = oa" using assms(2) by (cases oa) simp
  have "locked (oa1\<lparr>oa_refreshing := False\<rparr>)"
    using exchanged_locked [OF post(2)] assms(1) by (simp add: locked_def)
  moreover have "\<exists>d. oa1\<lparr>oa_refreshing := False\<rparr> = oa\<lparr>oa_tokens_dirty := d\<rparr> \<and> (d = oa_tokens_dirty oa \<or> \<not> d \<and> rejected_grant env)"
    if "r = POST_FAILED"
    using post(2) that Ptr assms(2) by (cases oa) (auto simp: exchanged_def)
  moreover have "exchanged xxh env oa r (oa1\<lparr>oa_refreshing := False\<rparr>)" if nf: "r \<noteq> POST_FAILED"
  proof -
    have i: "issued env oa1 \<Longrightarrow> issued env (oa1\<lparr>oa_refreshing := False\<rparr>)"
      and s: "saved xxh oa1 \<Longrightarrow> saved xxh (oa1\<lparr>oa_refreshing := False\<rparr>)"
      by (simp_all add: issued_def saved_def)
    obtain c a t e where oa1: "oa1 = oa\<lparr>oa_refreshing := True, oa_conf := c, oa_access_token := a,
        oa_refresh_token := Ptr t, oa_expires_at := e, oa_tokens_dirty := (r = POST_UNSAVED)\<rparr>"
        and e: "expiry_ahead env e" and t: "oa_refresh_token oa = Ptr t \<or> gave_refresh env t"
      using post(2) nf by (cases r) (auto simp: exchanged_def)
    have "oa1\<lparr>oa_refreshing := False\<rparr> = oa\<lparr>oa_conf := c, oa_access_token := a, oa_refresh_token := Ptr t,
        oa_expires_at := e, oa_tokens_dirty := (r = POST_UNSAVED)\<rparr>"
      using assms(2) oa1 by (cases oa) simp
    with e t have "\<exists>c a t e. oa1\<lparr>oa_refreshing := False\<rparr> = oa\<lparr>oa_conf := c, oa_access_token := a,
        oa_refresh_token := Ptr t, oa_expires_at := e, oa_tokens_dirty := (r = POST_UNSAVED)\<rparr> \<and>
        expiry_ahead env e \<and> (oa_refresh_token oa = Ptr t \<or> gave_refresh env t)"
      by blast
    then show ?thesis using post(2) nf i s unfolding exchanged_def by (cases r) simp_all
  qed
  ultimately show ?thesis using run by auto
qed

section \<open>A usable token\<close>

text \<open>What a call that got the lock leaves behind.\<close>

definition ensured :: "(string \<Rightarrow> u64) \<Rightarrow> 'w oauth_env \<Rightarrow> BXOAuth \<Rightarrow> bool \<Rightarrow> BXOAuth \<Rightarrow> bool" where
  "ensured xxh env oa ok oa' \<longleftrightarrow> unlocked oa' \<and> \<not> oa_refreshing oa' \<and>
     (ok \<longrightarrow> issued env oa' \<and> expiry_ahead env (oa_expires_at oa')) \<and>
     (oa_refresh_token oa' = oa_refresh_token oa \<or> (\<exists>t. oa_refresh_token oa' = Ptr t \<and> gave_refresh env t)) \<and>
     (oa_tokens_dirty oa \<longrightarrow> oa_tokens_dirty oa' \<or> saved xxh oa' \<or> rejected_grant env)"

lemma ensure_refresh_outcome:
  assumes "locked oa" and "\<not> oa_refreshing oa"
  shows "\<exists>ok oa' w'. ensure_refresh xxh env oa w = Some (ok, oa', w') \<and> ensured xxh env oa ok oa'"
proof -
  obtain r oa1 w1 where run: "refresh_tokens xxh env oa w = Some (r, oa1, w1)" "locked oa1" "\<not> oa_refreshing oa1"
      "r = POST_FAILED \<longrightarrow> (\<exists>d. oa1 = oa\<lparr>oa_tokens_dirty := d\<rparr> \<and> (d = oa_tokens_dirty oa \<or> \<not> d \<and> rejected_grant env))"
      "r \<noteq> POST_FAILED \<longrightarrow> exchanged xxh env oa r oa1"
    using refresh_outcome [OF assms, of xxh env w] by (elim exE conjE) (rule that)
  let ?oa = "oa1\<lparr>oa_lock_conn := False, oa_lock_held := False\<rparr>"
  have out: "\<exists>w'. oauth_unlock env oa1 v = (?oa, w')" for v by (rule unlock_locked [OF run(2)])
  have sv: "saved xxh oa1 \<Longrightarrow> saved xxh ?oa" and iss: "issued env oa1 \<Longrightarrow> issued env ?oa"
    by (simp_all add: saved_def issued_def)
  have base: "unlocked ?oa" "\<not> oa_refreshing ?oa" using run(3) by (simp_all add: unlocked_def)
  obtain now w2 where t: "oe_time env w1 = (now, w2)" by fastforce
  consider "r = POST_FAILED" | "r = POST_OK" | "r = POST_UNSAVED" by (cases r) auto
  then show ?thesis
  proof cases
    case 1
    with run out [of w1] base show ?thesis by (auto simp: ensure_refresh_def ensured_def)
  next
    case 2
    with run have ex: "exchanged xxh env oa POST_OK oa1" by simp
    have "ensured xxh env oa True ?oa" using ex base sv iss by (auto simp: ensured_def exchanged_def)
    with 2 run(1) out [of w1] show ?thesis by (auto simp: ensure_refresh_def)
  next
    case 3
    with run have ex: "exchanged xxh env oa POST_UNSAVED oa1" by simp
    have "ensured xxh env oa b ?oa" for b using ex base iss by (auto simp: ensured_def exchanged_def)
    with 3 run(1) t out [of w2] show ?thesis by (auto simp: ensure_refresh_def)
  qed
qed

lemma read_tokens_outcome:
  assumes "locked oa"
  shows "\<exists>ok oa' w'. oauth_read_tokens xxh env oa w = Some (ok, oa', w') \<and> locked oa' \<and>
    oa_refreshing oa' = oa_refreshing oa \<and> oa_tokens_dirty oa' = oa_tokens_dirty oa"
  using assms
  by (auto simp: oauth_read_tokens_def locked_def Let_def split: prod.split ptr.split)

text \<open>A token the caller may use: not the one it just had refused, or a new one of the endpoint.\<close>

definition valid_token :: "'w oauth_env \<Rightarrow> bool \<Rightarrow> string ptr \<Rightarrow> BXOAuth \<Rightarrow> bool" where
  "valid_token env force rejected oa \<longleftrightarrow>
     (\<exists>w0. access_usable (oa_access_token oa) (oa_expires_at oa) (fst (oe_time env w0))) \<and>
       (force \<longrightarrow> \<not> token_present rejected \<or> rejected \<noteq> oa_access_token oa) \<or>
     issued env oa \<and> expiry_ahead env (oa_expires_at oa)"

lemma decide_use:
  assumes "bx_oauth_decide force rejected access refresh expires_at now = BX_OAUTH_ACT_USE"
  shows "access_usable access expires_at now \<and> (force \<longrightarrow> \<not> token_present rejected \<or> rejected \<noteq> access)"
  using assms by (auto simp: bx_oauth_decide_def access_usable_def Let_def split: if_splits)

definition kept_grant :: "(string \<Rightarrow> u64) \<Rightarrow> 'w oauth_env \<Rightarrow> BXOAuth \<Rightarrow> BXOAuth \<Rightarrow> bool" where
  "kept_grant xxh env oa oa' \<longleftrightarrow>
     (oa_refresh_token oa' = oa_refresh_token oa \<or> (\<exists>t. oa_refresh_token oa' = Ptr t \<and> gave_refresh env t)) \<and>
     (oa_tokens_dirty oa' \<or> saved xxh oa' \<or> rejected_grant env)"

definition settled :: "(string \<Rightarrow> u64) \<Rightarrow> 'w oauth_env \<Rightarrow> bool \<Rightarrow> string ptr \<Rightarrow> BXOAuth \<Rightarrow> bool \<Rightarrow> BXOAuth \<Rightarrow> bool" where
  "settled xxh env force rejected oa ok oa' \<longleftrightarrow> unlocked oa' \<and> \<not> oa_refreshing oa' \<and>
     (ok \<longrightarrow> valid_token env force rejected oa') \<and> (oa_tokens_dirty oa \<longrightarrow> kept_grant xxh env oa oa')"

lemma ensured_settled: "ensured xxh env oa ok oa' \<Longrightarrow> settled xxh env force rejected oa ok oa'"
  by (auto simp: ensured_def settled_def valid_token_def kept_grant_def)

lemma ensure_dirty_outcome:
  assumes "locked oa" and "\<not> oa_refreshing oa" and "oa_tokens_dirty oa"
  shows "\<exists>ok oa' w'. ensure_locked xxh env force rejected oa w = Some (ok, oa', w') \<and> settled xxh env force rejected oa ok oa'"
proof -
  obtain now w1 where t: "oe_time env w = (now, w1)" by fastforce
  let ?w = "if force then w else w1"
  show ?thesis
  proof (cases "\<not> force \<and> access_usable (oa_access_token oa) (oa_expires_at oa) now")
    case True
    obtain ok c w2 where wr: "oauth_write_tokens xxh env oa w1 = Some (ok, oa\<lparr>oa_conf := c, oa_tokens_dirty := \<not> ok\<rparr>, w2)"
        "ok \<longrightarrow> (\<exists>a r. oa_access_token oa = Ptr a \<and> oa_refresh_token oa = Ptr r \<and> 0 \<le> oa_expires_at oa \<and>
           oa_expires_at oa \<le> INT_MAX \<and> c = keep_tokens xxh (oa_conf oa) r a (oa_expires_at oa))"
      using write_tokens_outcome [OF assms(1), of xxh env w1] by (elim exE conjE) (rule that)
    let ?oa = "oa\<lparr>oa_conf := c, oa_tokens_dirty := \<not> ok\<rparr>"
    let ?oa' = "?oa\<lparr>oa_lock_conn := False, oa_lock_held := False\<rparr>"
    have "locked ?oa" using assms(1) by (simp add: locked_def)
    from unlock_locked [OF this, of env w2] obtain w3 where u: "oauth_unlock env ?oa w2 = (?oa', w3)" by blast
    have "ensure_locked xxh env force rejected oa w = Some (True, ?oa', w3)"
      using True assms(3) t wr(1) u by (simp add: ensure_locked_def)
    moreover have "ok \<longrightarrow> saved xxh ?oa'" using wr(2) by (auto simp: saved_def)
    moreover have "\<exists>w0. access_usable (oa_access_token oa) (oa_expires_at oa) (fst (oe_time env w0))"
      using True t by (intro exI [of _ w]) simp
    ultimately show ?thesis
      using True assms(2) by (auto simp: settled_def unlocked_def valid_token_def kept_grant_def)
  next
    case False
    show ?thesis
    proof (cases "token_present (oa_refresh_token oa)")
      case present: True
      obtain ok oa' w' where r: "ensure_refresh xxh env oa ?w = Some (ok, oa', w')" "ensured xxh env oa ok oa'"
        using ensure_refresh_outcome [OF assms(1,2), of xxh env ?w] by blast
      have "ensure_locked xxh env force rejected oa w = Some (ok, oa', w')"
        using False present assms(3) t r(1) by (auto simp: ensure_locked_def split: if_splits)
      then show ?thesis using ensured_settled [OF r(2)] by blast
    next
      case absent: False
      obtain w3 where "oauth_unlock env oa ?w = (oa\<lparr>oa_lock_conn := False, oa_lock_held := False\<rparr>, w3)"
        using unlock_locked [OF assms(1), of env ?w] by blast
      then have "ensure_locked xxh env force rejected oa w
          = Some (False, oa\<lparr>oa_lock_conn := False, oa_lock_held := False\<rparr>, w3)"
        using False absent assms(3) t by (auto simp: ensure_locked_def split: if_splits)
      then show ?thesis using assms by (auto simp: settled_def unlocked_def kept_grant_def)
    qed
  qed
qed

lemma ensure_locked_outcome:
  assumes "locked oa" and "\<not> oa_refreshing oa"
  shows "\<exists>ok oa' w'. ensure_locked xxh env force rejected oa w = Some (ok, oa', w') \<and> settled xxh env force rejected oa ok oa'"
proof (cases "oa_tokens_dirty oa")
  case True
  then show ?thesis by (rule ensure_dirty_outcome [OF assms])
next
  case False
  obtain ok oa1 w1 where rd: "oauth_read_tokens xxh env oa w = Some (ok, oa1, w1)" "locked oa1"
      "oa_refreshing oa1 = oa_refreshing oa" "oa_tokens_dirty oa1 = oa_tokens_dirty oa"
    using read_tokens_outcome [OF assms(1), of xxh env w] by blast
  obtain now w2 where t: "oe_time env w1 = (now, w2)" by fastforce
  let ?oa = "oa1\<lparr>oa_lock_conn := False, oa_lock_held := False\<rparr>"
  have un: "\<exists>v'. oauth_unlock env oa1 v = (?oa, v')" for v by (rule unlock_locked [OF rd(2)])
  have base: "settled xxh env force rejected oa False ?oa"
    using False rd assms(2) by (simp add: settled_def unlocked_def)
  let ?act = "bx_oauth_decide force rejected (oa_access_token oa1) (oa_refresh_token oa1) (oa_expires_at oa1) now"
  consider "\<not> ok" | "ok" "?act = BX_OAUTH_ACT_USE" | "ok" "?act = BX_OAUTH_ACT_NEED_LOGIN"
    | "ok" "?act = BX_OAUTH_ACT_REFRESH" by (cases ?act) auto
  then show ?thesis
  proof cases
    case 1
    with rd False un [of w1] base show ?thesis by (auto simp: ensure_locked_def)
  next
    case 2
    have "settled xxh env force rejected oa True ?oa"
      using base decide_use [OF 2(2)] t unfolding settled_def valid_token_def by (simp, metis fst_conv)
    with 2 rd False t un [of w2] show ?thesis by (auto simp: ensure_locked_def)
  next
    case 3
    with rd False t un [of w2] base show ?thesis by (auto simp: ensure_locked_def)
  next
    case 4
    have nr: "\<not> oa_refreshing oa1" using rd(3) assms(2) by simp
    obtain ok' oa' w' where "ensure_refresh xxh env oa1 w2 = Some (ok', oa', w')" "ensured xxh env oa1 ok' oa'"
      using ensure_refresh_outcome [OF rd(2) nr, of xxh env w2] by blast
    moreover from this have "settled xxh env force rejected oa ok' oa'"
      using False by (auto simp: ensured_def settled_def valid_token_def)
    ultimately show ?thesis using 4 rd False t by (auto simp: ensure_locked_def)
  qed
qed

lemma ensure_outcome:
  assumes "unlocked oa" and "\<not> oa_refreshing oa"
  shows "\<exists>ok oa' w'. bx_oauth_ensure xxh env oa force w = Some (ok, oa', w') \<and>
    settled xxh env force (if token_present (oa_access_token oa) then oa_access_token oa else NULL) oa ok oa'"
proof -
  obtain now w1 where t: "oe_time env w = (now, w1)" by fastforce
  let ?rej = "if token_present (oa_access_token oa) then oa_access_token oa else NULL"
  show ?thesis
  proof (cases "\<not> oa_tokens_dirty oa \<and> \<not> force \<and> access_usable (oa_access_token oa) (oa_expires_at oa) now")
    case True
    then have "bx_oauth_ensure xxh env oa force w = Some (True, oa, w1)" using t by (simp add: bx_oauth_ensure_def)
    moreover have "\<exists>w0. access_usable (oa_access_token oa) (oa_expires_at oa) (fst (oe_time env w0))"
      using True t by (intro exI [of _ w]) simp
    ultimately show ?thesis using True assms by (simp add: settled_def valid_token_def)
  next
    case False
    obtain w2 where "oauth_lock xxh env oa w1 = (True, oa\<lparr>oa_lock_conn := True, oa_lock_held := True\<rparr>, w2) \<or>
        oauth_lock xxh env oa w1 = (False, oa, w2)"
      using lock_outcome [OF assms(1), of xxh env w1] by blast
    then show ?thesis
    proof
      assume "oauth_lock xxh env oa w1 = (False, oa, w2)"
      then have "bx_oauth_ensure xxh env oa force w = Some (False, oa, w2)"
        using False t by (simp add: bx_oauth_ensure_def Let_def)
      moreover have "settled xxh env force ?rej oa False oa" using assms by (simp add: settled_def kept_grant_def)
      ultimately show ?thesis by blast
    next
      let ?oa = "oa\<lparr>oa_lock_conn := True, oa_lock_held := True\<rparr>"
      assume l: "oauth_lock xxh env oa w1 = (True, ?oa, w2)"
      have "locked ?oa" "\<not> oa_refreshing ?oa" using assms(2) by (simp_all add: locked_def)
      from ensure_locked_outcome [OF this, of xxh env force ?rej w2] obtain ok oa' w'
        where "ensure_locked xxh env force ?rej ?oa w2 = Some (ok, oa', w')" "settled xxh env force ?rej ?oa ok oa'"
        by blast
      then show ?thesis using False t l by (auto simp: bx_oauth_ensure_def Let_def settled_def kept_grant_def)
    qed
  qed
qed

lemma exchange_code_outcome:
  assumes "unlocked oa"
  shows "\<exists>ok oa' w'. exchange_code xxh env oa code verifier w = Some (ok, oa', w') \<and> unlocked oa' \<and>
    (ok \<longrightarrow> issued env oa' \<and> saved xxh oa')"
proof -
  obtain w1 where "oauth_lock xxh env oa w = (True, oa\<lparr>oa_lock_conn := True, oa_lock_held := True\<rparr>, w1) \<or>
      oauth_lock xxh env oa w = (False, oa, w1)"
    using lock_outcome [OF assms(1), of xxh env w] by blast
  then show ?thesis
  proof
    assume "oauth_lock xxh env oa w = (False, oa, w1)"
    then have "exchange_code xxh env oa code verifier w = Some (False, oa, w1)" by (simp add: exchange_code_def)
    then show ?thesis using assms by blast
  next
    let ?oa = "oa\<lparr>oa_lock_conn := True, oa_lock_held := True\<rparr>"
    let ?form = "[(''grant_type'', Ptr ''authorization_code''), (''code'', Ptr code),
      (''redirect_uri'', Ptr (oa_redirect_uri ?oa)), (''client_id'', oa_client_id ?oa), (''code_verifier'', Ptr verifier)]"
    assume l: "oauth_lock xxh env oa w = (True, ?oa, w1)"
    have lk: "locked ?oa" by (simp add: locked_def)
    from post_token_outcome [OF this, of xxh env ?form w1] obtain r oa1 w2
      where p: "post_token xxh env ?form ?oa w1 = Some (r, oa1, w2)" "exchanged xxh env ?oa r oa1" by (elim exE conjE) (rule that)
    from unlock_locked [OF exchanged_locked [OF p(2) lk], of env w2] obtain w3
      where u: "oauth_unlock env oa1 w2 = (oa1\<lparr>oa_lock_conn := False, oa_lock_held := False\<rparr>, w3)" by blast
    have "issued env oa1 \<and> saved xxh oa1" if "r = POST_OK" using p(2) that by (auto simp: exchanged_def)
    then show ?thesis
      using l p(1) u by (auto simp: exchange_code_def unlocked_def issued_def saved_def)
  qed
qed

section \<open>Tokens of another process\<close>

definition token_names :: "string set" where
  "token_names = {''oauth-access-token'', ''oauth-refresh-token'', ''oauth-expires-at''}"

text \<open>
  What the server holds of the tokens: the rows every connection sees, and, while the connection of
  the lock has a transaction open, the rows that connection sees. A row has a number and a text.
\<close>

type_synonym token_rows = "string \<Rightarrow> (string ptr \<times> string ptr) option"

record token_view =
  tv_open :: bool
  tv_own :: token_rows
  tv_committed :: token_rows

text \<open>
  The connection of the lock. \<open>START TRANSACTION\<close> opens a transaction on the committed rows; inside it
  the statement is prepared, an upsert sets one row of the transaction, and only \<open>COMMIT\<close> shows the
  rows to the others. A commit that reports an error may have taken place; no other statement of an
  open transaction, and no rollback, changes what the others see.
\<close>

definition token_writer :: "'w oauth_env \<Rightarrow> ('w \<Rightarrow> token_view) \<Rightarrow> bool" where
  "token_writer env view \<longleftrightarrow>
     (\<forall>w ok w'. my_query (oe_mysql env) ''START TRANSACTION'' w = (ok, w') \<longrightarrow> \<not> tv_open (view w) \<longrightarrow>
        tv_committed (view w') = tv_committed (view w) \<and> (ok \<longrightarrow> tv_open (view w') \<and> tv_own (view w') = tv_committed (view w))) \<and>
     (\<forall>w ok w'. oe_prepare env OAUTH_PUT_SQL w = (ok, w') \<longrightarrow> tv_open (view w) \<longrightarrow>
        tv_committed (view w') = tv_committed (view w) \<and> (ok \<longrightarrow> view w' = view w)) \<and>
     (\<forall>n t iv cv w ok w'. my_execute (oe_mysql env) OAUTH_PUT_SQL [SqlText n, SqlText t, iv, cv] w = (ok, w') \<longrightarrow> tv_open (view w) \<longrightarrow>
        tv_committed (view w') = tv_committed (view w) \<and>
        (ok \<longrightarrow> tv_open (view w') \<and> tv_own (view w') = (tv_own (view w))(n \<mapsto> (sql_cell iv, sql_cell cv)))) \<and>
     (\<forall>w ok w'. my_query (oe_mysql env) ''COMMIT'' w = (ok, w') \<longrightarrow> tv_open (view w) \<longrightarrow>
        tv_committed (view w') = tv_own (view w) \<or> \<not> ok \<and> tv_committed (view w') = tv_committed (view w)) \<and>
     (\<forall>w ok w'. my_query (oe_mysql env) ''ROLLBACK'' w = (ok, w') \<longrightarrow> tv_committed (view w') = tv_committed (view w))"

text \<open>Another connection reads the committed rows, in any order.\<close>

definition token_reader :: "'w oauth_env \<Rightarrow> ('w \<Rightarrow> token_view) \<Rightarrow> bool" where
  "token_reader env view \<longleftrightarrow>
     (\<forall>w. \<exists>rows w'. my_select (oe_mysql env) OAUTH_SELECT_SQL w = (Ptr rows, w') \<and> distinct (map hd rows) \<and>
        set rows = {[Ptr n, iv, cv] | n iv cv. n \<in> token_names \<and> tv_committed (view w) n = Some (iv, cv)})"

lemma upsert_view:
  assumes "token_writer env view" and "oauth_upsert env n t i inull c cnull w = (ok, w')" and "tv_open (view w)"
  shows "tv_committed (view w') = tv_committed (view w) \<and>
    (ok \<longrightarrow> tv_open (view w') \<and> tv_own (view w') = (tv_own (view w))(n \<mapsto> (if inull then NULL else Ptr (dec_int i),
       if cnull then NULL else Ptr (case c of NULL \<Rightarrow> [] | Ptr s \<Rightarrow> s))))"
proof -
  have "tv_committed (view w') = tv_committed (view w) \<and>
    (ok \<longrightarrow> tv_open (view w') \<and> tv_own (view w') = (tv_own (view w))(n \<mapsto> (sql_cell (if inull then SqlNull else SqlInt i),
      sql_cell (if cnull then SqlNull else SqlText (case c of NULL \<Rightarrow> [] | Ptr s \<Rightarrow> s)))))"
    using assms unfolding oauth_upsert_def token_writer_def by blast
  then show ?thesis by (cases inull; cases cnull) simp_all
qed

text \<open>The rows with the three new values.\<close>

definition with_tokens :: "string \<Rightarrow> string \<Rightarrow> int \<Rightarrow> token_rows \<Rightarrow> token_rows" where
  "with_tokens a r e m =
     m(''oauth-refresh-token'' \<mapsto> (NULL, Ptr r), ''oauth-access-token'' \<mapsto> (NULL, Ptr a), ''oauth-expires-at'' \<mapsto> (Ptr (dec_int e), NULL))"

lemma write_rows_view:
  assumes law: "token_writer env view" and run: "write_rows env r a e w = (ok, w')"
    and w: "tv_open (view w)" "tv_own (view w) = tv_committed (view w)"
  shows "tv_committed (view w') = with_tokens a r e (tv_committed (view w)) \<or> \<not> ok \<and> tv_committed (view w') = tv_committed (view w)"
proof -
  obtain b1 w1 where u1: "oauth_upsert env ''oauth-refresh-token'' ''string'' 0 True (Ptr r) False w = (b1, w1)" by fastforce
  obtain b2 w2 where u2: "oauth_upsert env ''oauth-access-token'' ''string'' 0 True (Ptr a) False w1 = (b2, w2)" by fastforce
  obtain b3 w3 where u3: "oauth_upsert env ''oauth-expires-at'' ''integer'' e False NULL True w2 = (b3, w3)" by fastforce
  obtain b4 w4 where c: "my_query (oe_mysql env) ''COMMIT'' w3 = (b4, w4)" by fastforce
  note v1 = upsert_view [OF law u1 w(1)]
  have v2: "tv_committed (view w2) = tv_committed (view w1) \<and> (b2 \<longrightarrow> tv_open (view w2) \<and>
      tv_own (view w2) = (tv_own (view w1))(''oauth-access-token'' \<mapsto> (NULL, Ptr a)))" if b1
    using upsert_view [OF law u2] v1 that by simp
  have v3: "tv_committed (view w3) = tv_committed (view w2) \<and> (b3 \<longrightarrow> tv_open (view w3) \<and>
      tv_own (view w3) = (tv_own (view w2))(''oauth-expires-at'' \<mapsto> (Ptr (dec_int e), NULL)))" if b1 b2
    using upsert_view [OF law u3] v2 that by simp
  have v4: "tv_committed (view w4) = tv_own (view w3) \<or> \<not> b4 \<and> tv_committed (view w4) = tv_committed (view w3)" if b1 b2 b3
    using law c v3 that unfolding token_writer_def by blast
  show ?thesis
  proof (cases "b1 \<and> b2 \<and> b3")
    case True
    then have "ok = b4 \<and> w' = w4" using run u1 u2 u3 c by (simp add: write_rows_def)
    then show ?thesis using True v1 v2 v3 v4 w(2) by (auto simp: with_tokens_def)
  next
    case False
    then have "\<not> ok \<and> (w' = w1 \<and> \<not> b1 \<or> b1 \<and> \<not> b2 \<and> w' = w2 \<or> b1 \<and> b2 \<and> w' = w3)"
      using run u1 u2 u3 by (auto simp: write_rows_def split: bool.splits)
    then show ?thesis using v1 v2 v3 by auto
  qed
qed

text \<open>A save shows the three new values to the others, or nothing.\<close>

lemma write_once_view:
  assumes law: "token_writer env view" and run: "oauth_write_once xxh env oa w = Some (ok, oa', w')"
    and w: "\<not> tv_open (view w)" and tok: "oa_access_token oa = Ptr a" "oa_refresh_token oa = Ptr r"
  shows "tv_committed (view w') = tv_committed (view w) \<and> \<not> ok \<or>
    tv_committed (view w') = with_tokens a r (oa_expires_at oa) (tv_committed (view w)) \<and>
    0 \<le> oa_expires_at oa \<and> oa_expires_at oa \<le> INT_MAX"
proof (cases "0 \<le> oa_expires_at oa \<and> oa_expires_at oa \<le> INT_MAX")
  case False
  then have "\<not> ok \<and> w' = w" using run tok by (auto simp: oauth_write_once_def split: if_splits)
  then show ?thesis by simp
next
  case True
  let ?e = "oa_expires_at oa"
  have locked: "oa_lock_conn oa \<and> oa_lock_held oa" using run by (auto simp: oauth_write_once_def split: if_splits)
  obtain b1 w1 where s: "my_query (oe_mysql env) ''START TRANSACTION'' w = (b1, w1)" by fastforce
  obtain b2 w2 where p: "oe_prepare env OAUTH_PUT_SQL w1 = (b2, w2)" by fastforce
  obtain b3 w3 where x: "write_rows env r a ?e w2 = (b3, w3)" by fastforce
  have rolled: "tv_committed (view (snd (my_query (oe_mysql env) ''ROLLBACK'' w0))) = tv_committed (view w0)" for w0
    using law unfolding token_writer_def by (metis surjective_pairing)
  have v1: "tv_committed (view w1) = tv_committed (view w) \<and> (b1 \<longrightarrow> tv_open (view w1) \<and> tv_own (view w1) = tv_committed (view w))"
    using law s w unfolding token_writer_def by blast
  have v2: "tv_committed (view w2) = tv_committed (view w) \<and> (b2 \<longrightarrow> tv_open (view w2) \<and> tv_own (view w2) = tv_committed (view w))" if b1
    using law p v1 that unfolding token_writer_def by metis
  have v3: "tv_committed (view w3) = with_tokens a r ?e (tv_committed (view w)) \<or> \<not> b3 \<and> tv_committed (view w3) = tv_committed (view w)"
    if b1 b2 using write_rows_view [OF law x] v2 that by simp
  have "(ok, w') = (if \<not> b1 then (False, w1) else if \<not> b2 then (False, snd (my_query (oe_mysql env) ''ROLLBACK'' w2))
      else if \<not> b3 then (False, snd (my_query (oe_mysql env) ''ROLLBACK'' w3)) else (True, w3))"
    using run tok locked True s p x by (auto simp: oauth_write_once_def Let_def split: bool.splits)
  then show ?thesis using True v1 v2 v3 rolled by (auto split: if_splits)
qed

text \<open>The rows in any order: the fields read are those of the three names.\<close>

definition token_row :: "string \<times> string ptr \<times> string ptr \<Rightarrow> string ptr list" where
  "token_row t = [Ptr (fst t), fst (snd t), snd (snd t)]"

definition pick :: "'a \<Rightarrow> ('v \<Rightarrow> 'a) \<Rightarrow> 'v option \<Rightarrow> 'a" where
  "pick d f v = (case v of None \<Rightarrow> d | Some x \<Rightarrow> f x)"

lemma pick_simps [simp]: "pick d f None = d" "pick d f (Some x) = f x"
  by (simp_all add: pick_def)

definition row_expiry :: "int option \<Rightarrow> string ptr \<times> string ptr \<Rightarrow> int option" where
  "row_expiry d t = (case fst t of NULL \<Rightarrow> d | Ptr v \<Rightarrow> Some (to_int32 (strtol_value v)))"

lemma read_rows_lookup:
  assumes "distinct (map fst ts)"
  shows "read_rows (map token_row ts) (A, R, E) =
    (pick A snd (map_of ts ''oauth-access-token''), pick R snd (map_of ts ''oauth-refresh-token''),
     pick E (row_expiry E) (map_of ts ''oauth-expires-at''))"
  using assms
proof (induction ts arbitrary: A R E)
  case (Cons t ts)
  obtain n iv cv where t: "t = (n, iv, cv)" by (cases t)
  have none: "map_of ts n = None" using Cons.prems by (simp add: t map_of_eq_None_iff)
  consider "n = ''oauth-access-token''" | "n = ''oauth-refresh-token''" | "n = ''oauth-expires-at''"
    | "n \<noteq> ''oauth-access-token''" "n \<noteq> ''oauth-refresh-token''" "n \<noteq> ''oauth-expires-at''" by blast
  then show ?case
  proof cases
    case 3
    with Cons none t show ?thesis by (cases iv) (simp_all add: token_row_def row_expiry_def)
  next
    case 4
    with Cons t show ?thesis by (simp add: token_row_def)
  qed (use Cons none t in \<open>simp_all add: token_row_def\<close>)
qed simp

lemma token_rows:
  assumes "distinct (map hd rows)" and "set rows = {[Ptr n, iv, cv] | n iv cv. n \<in> S \<and> m n = Some (iv, cv)}"
  shows "\<exists>ts. rows = map token_row ts \<and> distinct (map fst ts) \<and> (\<forall>n\<in>S. map_of ts n = m n)"
proof -
  have "\<forall>row\<in>set rows. \<exists>t. row = token_row t"
  proof
    fix row assume "row \<in> set rows"
    then obtain n iv cv where "row = [Ptr n, iv, cv]" using assms(2) by blast
    then have "row = token_row (n, iv, cv)" by (simp add: token_row_def)
    then show "\<exists>t. row = token_row t" ..
  qed
  then have "\<exists>ts. rows = map token_row ts" by (rule ex_map_conv [THEN iffD2])
  then obtain ts where ts: "rows = map token_row ts" ..
  have "map hd rows = map Ptr (map fst ts)" using ts by (simp add: token_row_def comp_def)
  then have d: "distinct (map fst ts)" using assms(1) by (metis distinct_map)
  have inj: "inj token_row" by (rule injI) (simp add: token_row_def prod_eq_iff)
  have mem: "(n, iv, cv) \<in> set ts \<longleftrightarrow> n \<in> S \<and> m n = Some (iv, cv)" for n iv cv
  proof -
    have "(n, iv, cv) \<in> set ts \<longleftrightarrow> token_row (n, iv, cv) \<in> set rows"
      by (simp add: ts inj_image_mem_iff [OF inj])
    then show ?thesis unfolding assms(2) by (simp add: token_row_def)
  qed
  have "map_of ts n = m n" if "n \<in> S" for n
  proof (cases "m n")
    case None
    then have "map_of ts n \<noteq> Some v" for v using mem [of n "fst v" "snd v"] map_of_SomeD [of ts n v] by auto
    with None show ?thesis by (cases "map_of ts n") auto
  next
    case (Some v)
    then have "(n, v) \<in> set ts" using mem [of n "fst v" "snd v"] that by simp
    with d Some show ?thesis by simp
  qed
  with ts d show ?thesis by blast
qed

lemma to_int32_id: "0 \<le> i \<Longrightarrow> i \<le> INT_MAX \<Longrightarrow> to_int32 i = i"
  by (simp add: to_int32_def INT_MAX_def signed_take_bit_int_eq_self sint_sbintrunc')

section \<open>The login\<close>

text \<open>Characters of an encoded parameter, and the request a browser sends with two of them.\<close>

definition plain :: "char \<Rightarrow> bool" where
  "plain c \<longleftrightarrow> \<not> value_end c \<and> c \<noteq> CHR ''?'' \<and> c \<noteq> NUL"

definition CRLF :: string where
  "CRLF = [CHR 0x0D, CHR 0x0A]"

definition callback_request :: "string \<Rightarrow> string \<Rightarrow> string \<Rightarrow> string" where
  "callback_request path code st = ''GET '' @ path @ ''?code='' @ code @ ''&state='' @ st @ '' HTTP/1.1'' @ CRLF"

lemma take_plain:
  "list_all plain v \<Longrightarrow> value_end c \<Longrightarrow> takeWhile (\<lambda>c. \<not> value_end c) (v @ c # r) = v"
  by (induction v) (auto simp: plain_def)

lemma query_scan_plain:
  assumes "b \<noteq> CHR ''&''" "b \<noteq> CHR ''?''" "list_all plain v"
  shows "query_scan url_decode name (Some b) (v @ CHR ''&'' # r) = query_scan url_decode name (Some (CHR ''&'')) r"
  using assms by (induction v arbitrary: b) (auto simp: plain_def value_end_def)

lemma scan_at: "is_prefix (name @ ''='') p \<Longrightarrow> p \<noteq> [] \<Longrightarrow> before \<in> {None, Some (CHR ''&''), Some (CHR ''?'')} \<Longrightarrow>
    query_scan url_decode name before p = url_decode (takeWhile (\<lambda>c. \<not> value_end c) (drop (length name + 1) p))"
  by (cases p) auto

lemma request_line_whole:
  assumes "list_all (\<lambda>c. of_char c \<noteq> (10 :: nat)) l" and "length l < n"
  shows "request_line n (l @ CHR 0x0A # rest) = l @ [CHR 0x0A]"
  using assms
proof (induction n arbitrary: l)
  case (Suc n)
  then show ?case by (cases l) (auto simp: of_char_of)
qed simp

lemma plain_line: "plain c \<Longrightarrow> of_char c \<noteq> (10 :: nat) \<and> c \<noteq> NUL \<and> c \<noteq> CHR ''?''"
  by (simp add: plain_def value_end_def)

lemma callback_values:
  assumes "list_all plain path" and "list_all plain code" and "list_all plain st"
  shows "query_value url_decode (callback_request path code st) ''code'' = url_decode code"
    and "query_value url_decode (callback_request path code st) ''state'' = url_decode st"
proof -
  have pre: "list_all (\<lambda>c. c \<noteq> CHR ''?'') (''GET '' @ path)"
    using assms(1) by (auto simp: list_all_iff dest: plain_line)
  let ?q = "''code='' @ code @ CHR ''&'' # ''state='' @ st @ CHR '' '' # ''HTTP/1.1'' @ CRLF"
  have "callback_request path code st = (''GET '' @ path) @ CHR ''?'' # ?q" by (simp add: callback_request_def)
  moreover have "dropWhile (\<lambda>c. c \<noteq> CHR ''?'') ((''GET '' @ path) @ CHR ''?'' # ?q) = CHR ''?'' # ?q"
    using pre by (intro dropWhile_append2 [THEN trans]) (auto simp: list_all_iff)
  ultimately have q: "query_value url_decode (callback_request path code st) name = query_scan url_decode name None ?q" for name
    by (simp add: query_value_def)
  show "query_value url_decode (callback_request path code st) ''code'' = url_decode code"
    unfolding q using take_plain [OF assms(2), of "CHR ''&''"]
    by (subst scan_at) (simp_all add: is_prefix_def value_end_def)
  have "query_scan url_decode ''state'' None ?q
      = query_scan url_decode ''state'' (Some (CHR ''='')) (code @ CHR ''&'' # ''state='' @ st @ CHR '' '' # ''HTTP/1.1'' @ CRLF)"
    by (simp add: is_prefix_def)
  also have "\<dots> = query_scan url_decode ''state'' (Some (CHR ''&'')) (''state='' @ st @ CHR '' '' # ''HTTP/1.1'' @ CRLF)"
    by (rule query_scan_plain) (use assms(2) in simp_all)
  also have "\<dots> = url_decode st"
    using take_plain [OF assms(3), of "CHR '' ''"] by (subst scan_at) (simp_all add: is_prefix_def value_end_def)
  finally show "query_value url_decode (callback_request path code st) ''state'' = url_decode st" unfolding q .
qed

text \<open>A code is taken only from a text whose \<open>state\<close> is the expected one.\<close>

definition has_state :: "(string \<Rightarrow> string ptr) \<Rightarrow> string \<Rightarrow> string \<Rightarrow> bool" where
  "has_state url_decode st src \<longleftrightarrow> query_value url_decode src ''state'' = Ptr st"

lemma matching_code_state: "matching_code url_decode src st = Some code \<Longrightarrow> has_state url_decode st src"
  by (auto simp: matching_code_def has_state_def split: ptr.splits if_splits)

definition event_texts :: "int \<times> poll_event \<Rightarrow> string list" where
  "event_texts e =
     (case snd e of
        PollReady callback line \<Rightarrow>
          (case callback of None \<Rightarrow> [] | Some received \<Rightarrow> [cstr (request_line 4095 received)]) @
          (case line of Some (Some l) \<Rightarrow> [dropWhile is_space l] | _ \<Rightarrow> [])
      | _ \<Rightarrow> [])"

lemma login_wait_state:
  assumes "list_all (\<lambda>e. list_all (\<lambda>src. \<not> has_state url_decode st src) (event_texts e)) events"
  shows "login_wait url_decode st events = None"
  using assms
proof (induction events)
  case (Cons e events)
  obtain t ev where e: "e = (t, ev)" by fastforce
  show ?case
  proof (cases ev)
    case (PollReady callback line)
    have "accept_code url_decode received st = None" if "callback = Some received" for received
      using Cons.prems matching_code_state [of url_decode "cstr (request_line 4095 received)" st] that e PollReady
      by (cases "accept_code url_decode received st") (auto simp: event_texts_def accept_code_def)
    moreover have "code_from_line url_decode l st = None" if "line = Some (Some l)" for l
      using Cons.prems matching_code_state [of url_decode "dropWhile is_space l" st] that e PollReady
      by (cases "code_from_line url_decode l st") (auto simp: event_texts_def code_from_line_def)
    ultimately show ?thesis
      using Cons e PollReady by (auto split: option.splits)
  qed (use Cons e in auto)
qed simp

section \<open>A sample server\<close>

text \<open>The state of the server is the table; the endpoint always grants new tokens.\<close>

definition table_rows :: "(string \<Rightarrow> (string ptr \<times> string ptr) option) \<Rightarrow> string ptr list list" where
  "table_rows m = concat (map (\<lambda>n. case m n of None \<Rightarrow> [] | Some (iv, cv) \<Rightarrow> [[Ptr n, iv, cv]])
     [''oauth-access-token'', ''oauth-refresh-token'', ''oauth-expires-at''])"

definition table_env :: "(string \<Rightarrow> (string ptr \<times> string ptr) option) oauth_env" where
  "table_env = \<lparr>oe_mysql = \<lparr>my_connect = (\<lambda>h u p d w. (True, w)), my_query = (\<lambda>q w. (True, w)),
       my_select = (\<lambda>q w. (Ptr (if q = GET_LOCK_SQL then [[Ptr ''1'']] else table_rows w), w)),
       my_execute = (\<lambda>q ps w. (True, case ps of [SqlText n, t, iv, cv] \<Rightarrow> w(n \<mapsto> (sql_cell iv, sql_cell cv)) | _ \<Rightarrow> w))\<rparr>,
     oe_prepare = (\<lambda>q w. (True, w)), oe_close = (\<lambda>w. w), oe_time = (\<lambda>w. (1000, w)),
     oe_post = (\<lambda>form w. (Ptr ''ok'', w)),
     oe_decode = (\<lambda>t. Ptr \<lparr>ta_error = NULL, ta_access_token = Ptr ''A'', ta_refresh_token = Ptr ''R'', ta_expires_in = 3600\<rparr>)\<rparr>"

definition sample_oauth :: "bool \<Rightarrow> bool \<Rightarrow> BXOAuth" where
  "sample_oauth lock dirty = \<lparr>oa_client_id = Ptr ''c'', oa_redirect_uri = ''http://127.0.0.1:8765/cb'', oa_scope = ''s'',
     oa_conf = [], oa_access_token = Ptr ''a1'', oa_refresh_token = Ptr ''r1'', oa_expires_at = 5000,
     oa_refreshing = False, oa_lock_conn = lock, oa_lock_held = lock, oa_tokens_dirty = dirty\<rparr>"

lemma sample_oauth_flags:
  "unlocked (sample_oauth False d)" "locked (sample_oauth True d)" "\<not> oa_refreshing (sample_oauth l d)"
  "oa_tokens_dirty (sample_oauth l True)"
  by (simp_all add: unlocked_def locked_def sample_oauth_def)

lemma table_rows_set:
  "distinct (map hd (table_rows m)) \<and> set (table_rows m) = {[Ptr n, iv, cv] | n iv cv. n \<in> token_names \<and> m n = Some (iv, cv)}"
proof
  show "distinct (map hd (table_rows m))" by (simp add: table_rows_def split: option.split prod.split)
  have "row \<in> set (table_rows m) \<longleftrightarrow> (\<exists>n iv cv. row = [Ptr n, iv, cv] \<and> n \<in> token_names \<and> m n = Some (iv, cv))" for row
    by (auto simp: table_rows_def token_names_def split: option.splits)
  then show "set (table_rows m) = {[Ptr n, iv, cv] | n iv cv. n \<in> token_names \<and> m n = Some (iv, cv)}" by blast
qed

text \<open>A server with transactions, seen by the connection of the lock and by another one.\<close>

definition tx_query :: "string \<Rightarrow> token_view \<Rightarrow> bool \<times> token_view" where
  "tx_query q v =
     (True, if q = ''START TRANSACTION'' then v\<lparr>tv_open := True, tv_own := tv_committed v\<rparr>
            else if q = ''COMMIT'' \<and> tv_open v then v\<lparr>tv_open := False, tv_committed := tv_own v\<rparr>
            else if q = ''ROLLBACK'' then v\<lparr>tv_open := False\<rparr> else v)"

definition tx_execute :: "string \<Rightarrow> sql_value list \<Rightarrow> token_view \<Rightarrow> bool \<times> token_view" where
  "tx_execute q ps v =
     (True, case ps of
        [SqlText n, t, iv, cv] \<Rightarrow>
          if tv_open v then v\<lparr>tv_own := (tv_own v)(n \<mapsto> (sql_cell iv, sql_cell cv))\<rparr>
          else v\<lparr>tv_committed := (tv_committed v)(n \<mapsto> (sql_cell iv, sql_cell cv))\<rparr>
      | _ \<Rightarrow> v)"

definition tx_env :: "(token_view \<Rightarrow> token_rows) \<Rightarrow> token_view oauth_env" where
  "tx_env seen = \<lparr>oe_mysql = \<lparr>my_connect = (\<lambda>h u p d w. (True, w)), my_query = tx_query,
       my_select = (\<lambda>q w. (Ptr (if q = GET_LOCK_SQL then [[Ptr ''1'']] else table_rows (seen w)), w)), my_execute = tx_execute\<rparr>,
     oe_prepare = (\<lambda>q w. (True, w)), oe_close = (\<lambda>w. w), oe_time = (\<lambda>w. (1000, w)),
     oe_post = (\<lambda>form w. (Ptr ''ok'', w)),
     oe_decode = (\<lambda>t. Ptr \<lparr>ta_error = NULL, ta_access_token = Ptr ''A'', ta_refresh_token = Ptr ''R'', ta_expires_in = 3600\<rparr>)\<rparr>"

lemma tx_env_laws:
  "token_writer (tx_env tv_own) (\<lambda>v. v)" "token_reader (tx_env tv_committed) (\<lambda>v. v)"
proof -
  show "token_writer (tx_env tv_own) (\<lambda>v. v)"
    by (auto simp: token_writer_def tx_env_def tx_query_def tx_execute_def)
  show "token_reader (tx_env tv_committed) (\<lambda>v. v)"
    using table_rows_set by (simp add: token_reader_def tx_env_def GET_LOCK_SQL_def OAUTH_SELECT_SQL_def)
qed

definition tx_start :: token_view where
  "tx_start = \<lparr>tv_open = False, tv_own = Map.empty, tv_committed = Map.empty\<rparr>"

section \<open>Properties\<close>

text \<open>
  C13: asking for a usable token and logging in always return, no assertion about the lock
  fails, and the lock and its connection are released on every path, whatever the server,
  the endpoint and the clock answer.
\<close>

theorem oauth_lock_released:
  assumes "unlocked oa" and "\<not> oa_refreshing oa"
  shows "(\<exists>ok oa' w'. bx_oauth_ensure xxh env oa force w = Some (ok, oa', w') \<and> unlocked oa' \<and> \<not> oa_refreshing oa') \<and>
    (\<exists>st oa' w'. bx_oauth_login xxh env url_decode rand challenge url events oa w = Some (st, oa', w') \<and> unlocked oa')"
proof
  show "\<exists>ok oa' w'. bx_oauth_ensure xxh env oa force w = Some (ok, oa', w') \<and> unlocked oa' \<and> \<not> oa_refreshing oa'"
    using ensure_outcome [OF assms, of xxh env force w] unfolding settled_def by blast
  have "\<exists>st oa' w'. map_option (\<lambda>(ok, oa1, w1). (if ok then BX_OAUTH_OK else BX_OAUTH_FAILED, oa1, w1))
      (exchange_code xxh env oa code verifier w) = Some (st, oa', w') \<and> unlocked oa'" for code verifier
  proof -
    obtain ok oa' w' where "exchange_code xxh env oa code verifier w = Some (ok, oa', w')" "unlocked oa'"
      using exchange_code_outcome [OF assms(1), of xxh env code verifier w] by blast
    then show ?thesis by simp
  qed
  then show "\<exists>st oa' w'. bx_oauth_login xxh env url_decode rand challenge url events oa w = Some (st, oa', w') \<and> unlocked oa'"
    using assms(1) by (simp add: bx_oauth_login_def split: option.split ptr.split prod.split)
qed

theorem oauth_lock_released_witness:
  "\<exists>ok oa' w'. bx_oauth_ensure (\<lambda>_. 0) table_env (sample_oauth False True) True (\<lambda>_. None) = Some (ok, oa', w') \<and> unlocked oa'"
  using oauth_lock_released [OF sample_oauth_flags(1) [of True] sample_oauth_flags(3), of "\<lambda>_. 0" table_env True "\<lambda>_. None"] by blast

text \<open>
  C14: when the call reports success, the token is present and does not expire within a minute
  of the call, or the endpoint has issued it during the call; a forced call never
  hands back the token it was told to replace, unless the endpoint issued it again. No reading
  of the clock is before the time of the call.
\<close>

theorem ensure_token_valid:
  assumes "unlocked oa" and "\<not> oa_refreshing oa" and "\<And>w. t0 \<le> fst (oe_time env w)"
    and "bx_oauth_ensure xxh env oa force w = Some (True, oa', w')"
  shows "oa_access_token oa' \<noteq> NULL \<and> t0 < oa_expires_at oa' \<and>
    (token_present (oa_access_token oa') \<and> t0 + 60 < oa_expires_at oa' \<or> issued env oa') \<and>
    (force \<longrightarrow> oa_access_token oa' \<noteq> oa_access_token oa \<or> issued env oa')"
proof -
  have "valid_token env force (if token_present (oa_access_token oa) then oa_access_token oa else NULL) oa'"
    using ensure_outcome [OF assms(1,2), of xxh env force w] assms(4) by (auto simp: settled_def)
  then show ?thesis
  proof (unfold valid_token_def, elim disjE conjE exE)
    fix w0
    assume u: "access_usable (oa_access_token oa') (oa_expires_at oa') (fst (oe_time env w0))"
      and f: "force \<longrightarrow> \<not> token_present (if token_present (oa_access_token oa) then oa_access_token oa else NULL) \<or>
        (if token_present (oa_access_token oa) then oa_access_token oa else NULL) \<noteq> oa_access_token oa'"
    have "token_present (oa_access_token oa')" "t0 + 60 < oa_expires_at oa'"
      using u assms(3) [of w0] by (simp_all add: access_usable_def BX_OAUTH_SKEW_SEC_def)
    with f show ?thesis by (auto simp: token_present_def split: if_splits ptr.splits)
  next
    assume "issued env oa'" "expiry_ahead env (oa_expires_at oa')"
    moreover from this obtain w0 ttl where "oa_expires_at oa' = fst (oe_time env w0) + ttl" "0 < ttl"
      by (auto simp: expiry_ahead_def)
    then have "t0 < oa_expires_at oa'" using assms(3) [of w0] by simp
    ultimately show ?thesis by (auto simp: issued_def)
  qed
qed

theorem ensure_token_valid_witness:
  "bx_oauth_ensure (\<lambda>_. 0) table_env (sample_oauth False False) False (\<lambda>_. None) = Some (True, sample_oauth False False, (\<lambda>_. None)) \<and>
   1000 + 60 < oa_expires_at (sample_oauth False False)"
proof -
  have "bx_oauth_ensure (\<lambda>_. 0) table_env (sample_oauth False False) False (\<lambda>_. None) = Some (True, sample_oauth False False, (\<lambda>_. None))"
    by (simp add: bx_oauth_ensure_def table_env_def sample_oauth_def access_usable_def token_present_def BX_OAUTH_SKEW_SEC_def)
  moreover have "1000 < oa_expires_at (sample_oauth False False)"
    using ensure_token_valid [OF sample_oauth_flags(1) sample_oauth_flags(3) _ calculation, of 1000] by (simp add: table_env_def)
  ultimately show ?thesis by (simp add: sample_oauth_def)
qed

text \<open>
  C17: tokens that could not be saved are never lost to older ones of the table: a reload
  leaves them alone, and asking for a usable token keeps the refresh token or replaces it by
  one the endpoint gave; they stay marked until they are saved, unless the endpoint
  refuses them.
\<close>

theorem dirty_grant_kept:
  assumes "unlocked oa" and "\<not> oa_refreshing oa" and "oa_tokens_dirty oa"
  shows "bx_oauth_reload xxh strtod_end env oa w = (True, oa, w) \<and>
    (\<exists>ok oa' w'. bx_oauth_ensure xxh env oa force w = Some (ok, oa', w') \<and>
       (oa_refresh_token oa' = oa_refresh_token oa \<or> (\<exists>t. oa_refresh_token oa' = Ptr t \<and> gave_refresh env t)) \<and>
       (oa_tokens_dirty oa' \<or> saved xxh oa' \<or> rejected_grant env))"
proof -
  have "\<exists>ok oa' w'. bx_oauth_ensure xxh env oa force w = Some (ok, oa', w') \<and> kept_grant xxh env oa oa'"
    using ensure_outcome [OF assms(1,2), of xxh env force w] assms(3) unfolding settled_def by blast
  then show ?thesis using assms(3) unfolding kept_grant_def by (simp add: bx_oauth_reload_def)
qed

theorem dirty_grant_kept_witness:
  "bx_oauth_reload (\<lambda>_. 0) (\<lambda>_. None) table_env (sample_oauth False True) (\<lambda>_. None) = (True, sample_oauth False True, (\<lambda>_. None))"
  using dirty_grant_kept [OF sample_oauth_flags(1) [of True] sample_oauth_flags(3) sample_oauth_flags(4),
      of "\<lambda>_. 0" "\<lambda>_. None" table_env "\<lambda>_. None"] by blast

text \<open>
  C36: saving the tokens is atomic, and what was saved is what others read. When a save reports
  success, or when anything that other connections see has changed by it, another process that reads
  under the lock gets both new tokens with their expiry, so no part of a save is left for others to see.
\<close>

theorem tokens_round_trip:
  assumes writer: "token_writer env view" and reader: "token_reader env2 view" and idle: "\<not> tv_open (view w)"
    and put: "oauth_write_once xxh env oa w = Some (ok, oa1, w1)"
    and tok: "oa_access_token oa = Ptr a" "oa_refresh_token oa = Ptr r" "a \<noteq> []" "r \<noteq> []" and other: "locked oa2"
    and shown: "ok \<or> tv_committed (view w1) \<noteq> tv_committed (view w)"
  shows "\<exists>oa3 w3. oauth_read_tokens xxh' env2 oa2 w1 = Some (True, oa3, w3) \<and> oa_access_token oa3 = Ptr a \<and>
    oa_refresh_token oa3 = Ptr r \<and> oa_expires_at oa3 = oa_expires_at oa"
proof -
  let ?e = "oa_expires_at oa" and ?tbl = "tv_committed (view w1)"
  have t: "?tbl = with_tokens a r ?e (tv_committed (view w))" and e: "0 \<le> ?e" "?e \<le> INT_MAX"
    using write_once_view [OF writer put idle tok(1,2)] shown by auto
  obtain rows w3 where rows: "my_select (oe_mysql env2) OAUTH_SELECT_SQL w1 = (Ptr rows, w3)" "distinct (map hd rows)"
      "set rows = {[Ptr n, iv, cv] | n iv cv. n \<in> token_names \<and> ?tbl n = Some (iv, cv)}"
    using reader unfolding token_reader_def by blast
  obtain ts where ts: "rows = map token_row ts" "distinct (map fst ts)" "\<forall>n\<in>token_names. map_of ts n = ?tbl n"
    using token_rows [OF rows(2,3)] by blast
  have "to_int32 (strtol_value (dec_int ?e)) = ?e"
    using e to_int32_id [of ?e] by (simp add: strtol_value_dec_int saturate_id LONG_MIN_def LONG_MAX_def INT_MAX_def)
  moreover have "map_of ts ''oauth-access-token'' = Some (NULL, Ptr a)" "map_of ts ''oauth-refresh-token'' = Some (NULL, Ptr r)"
      "map_of ts ''oauth-expires-at'' = Some (Ptr (dec_int ?e), NULL)"
    using ts(3) t by (simp_all add: token_names_def with_tokens_def del: map_of_eq_Some_iff)
  ultimately have "read_rows rows (NULL, NULL, None) = (Ptr a, Ptr r, Some ?e)"
    using ts(1,2) by (simp add: read_rows_lookup row_expiry_def del: map_of_eq_Some_iff)
  then show ?thesis
    using rows(1) other tok by (simp add: oauth_read_tokens_def locked_def Let_def replace_token_def token_present_def)
qed

theorem tokens_round_trip_witness:
  "\<exists>oa1 w1 oa3 w3. oauth_write_once (\<lambda>_. 0) (tx_env tv_own) (sample_oauth True False) tx_start = Some (True, oa1, w1) \<and>
     oauth_read_tokens (\<lambda>_. 0) (tx_env tv_committed) (sample_oauth True False) w1 = Some (True, oa3, w3) \<and> oa_access_token oa3 = Ptr ''a1''"
proof -
  have "\<exists>oa1 w1. oauth_write_once (\<lambda>_. 0) (tx_env tv_own) (sample_oauth True False) tx_start = Some (True, oa1, w1)"
    by (simp add: oauth_write_once_def sample_oauth_def tx_env_def write_rows_def oauth_upsert_def tx_query_def tx_execute_def INT_MAX_def Let_def)
  then obtain oa1 w1 where put: "oauth_write_once (\<lambda>_. 0) (tx_env tv_own) (sample_oauth True False) tx_start = Some (True, oa1, w1)"
    by blast
  from tokens_round_trip [OF tx_env_laws _ put, of "''a1''" "''r1''" "sample_oauth True False" "\<lambda>_. 0"] put show ?thesis
    by (auto simp: sample_oauth_flags tx_start_def) (auto simp: sample_oauth_def)
qed

text \<open>
  C37: without a text that carries the state of this login no code is taken: the login fails,
  no request is sent and no token changes.
\<close>

theorem login_needs_state:
  assumes "list_all (\<lambda>e. list_all (\<lambda>src. \<not> has_state url_decode st src) (event_texts e)) events"
  shows "bx_oauth_login xxh env url_decode (verifier, Ptr st) challenge url events oa w = Some (BX_OAUTH_FAILED, oa, w)"
  using login_wait_state [OF assms] by (simp add: bx_oauth_login_def split: option.split ptr.split)

theorem login_needs_state_witness:
  "bx_oauth_login (\<lambda>_. 0) table_env Ptr (Ptr ''v'', Ptr ''s'') Ptr (\<lambda>_. Ptr ''u'')
     [(0, PollReady None (Some (Some ''http://127.0.0.1:8765/cb?code=x&state=t'')))] (sample_oauth False False) (\<lambda>_. None)
   = Some (BX_OAUTH_FAILED, sample_oauth False False, (\<lambda>_. None))"
  using login_needs_state [of Ptr "''s''" "[(0, PollReady None (Some (Some ''http://127.0.0.1:8765/cb?code=x&state=t'')))]"]
  by (simp add: event_texts_def has_state_def query_value_def is_space_def value_end_def is_prefix_def)

text \<open>
  C38: the callback of the browser is understood: a request line of at most 4095 bytes with a plain
  path, a code and a state, in this order, is read as this code exactly when its decoded state is the
  expected one.
\<close>

theorem callback_accepted:
  assumes "list_all plain path" and "list_all plain code" and "list_all plain st"
    and "length (callback_request path code st) \<le> 4095"
  shows "accept_code url_decode (callback_request path code st @ headers) expect =
    (case (url_decode code, url_decode st) of
       (Ptr c, Ptr s) \<Rightarrow> if s = expect then Some c else None | _ \<Rightarrow> None)"
proof -
  let ?l = "''GET '' @ path @ ''?code='' @ code @ ''&state='' @ st @ '' HTTP/1.1'' @ [CHR 0x0D]"
  have cb: "callback_request path code st = ?l @ [CHR 0x0A]" by (simp add: callback_request_def CRLF_def)
  have line: "list_all (\<lambda>c. of_char c \<noteq> (10 :: nat)) ?l" "list_all (\<lambda>c. c \<noteq> NUL) (?l @ [CHR 0x0A])"
  proof -
    have "list_all (\<lambda>c. of_char c \<noteq> (10 :: nat)) v \<and> list_all (\<lambda>c. c \<noteq> NUL) v" if "list_all plain v" for v
      using that by (induction v) (auto dest: plain_line)
    with assms(1-3) show "list_all (\<lambda>c. of_char c \<noteq> (10 :: nat)) ?l" "list_all (\<lambda>c. c \<noteq> NUL) (?l @ [CHR 0x0A])"
      by (simp_all add: of_char_of) (simp_all add: NUL_def)
  qed
  have "request_line 4095 (callback_request path code st @ headers) = callback_request path code st"
    using request_line_whole [OF line(1), of 4095 headers] assms(4) cb by simp
  moreover have "cstr (callback_request path code st) = callback_request path code st"
    using line(2) unfolding cb cstr_def by (auto simp: list_all_iff takeWhile_eq_all_conv)
  ultimately show ?thesis
    unfolding accept_code_def matching_code_def using callback_values [OF assms(1-3), of url_decode] by simp
qed

theorem callback_accepted_witness:
  "accept_code Ptr (callback_request ''/cb'' ''x1'' ''s9'' @ ''Host: h'') ''s9'' = Some ''x1''"
  using callback_accepted [of "''/cb''" "''x1''" "''s9''" Ptr "''Host: h''" "''s9''"]
  by (simp add: plain_def value_end_def NUL_def callback_request_def CRLF_def)

end
