(* ===== verification/Bx_Net.thy ===== *)
theory Bx_Net
  imports Bx_Utils Bx_OAuth_Properties
begin

text \<open>
  The requests of \<open>src/src/bx_net.c\<close>: the percent encoding of parameters, the construction of a
  URL in one allocated block, the collection of an answer and of the rate limits in its
  headers, and a request with its second attempt after a refused token. The transfer itself
  is an argument.
\<close>

section \<open>Percent encoding\<close>

definition percent_table :: "(char \<times> string) list" where
  "percent_table =
     [(CHR ''~'', ''%7E''), (CHR ''!'', ''%21''), (CHR ''#'', ''%23''), (CHR ''$'', ''%24''), (CHR ''&'', ''%26''),
      (CHR ''('', ''%28''), (CHR '')'', ''%29''), (CHR ''*'', ''%2A''), (CHR ''+'', ''%2B''), (CHR '','', ''%2C''),
      (CHR ''/'', ''%2F''), (CHR '':'', ''%3A''), (CHR '';'', ''%3B''), (CHR ''='', ''%3D''), (CHR ''?'', ''%3F''),
      (CHR ''@'', ''%40''), (CHR ''['', ''%5B''), (CHR '']'', ''%5D''), (CHR 0x22, ''%22''), (CHR ''%'', ''%25''),
      (CHR ''-'', ''%2D''), (CHR ''.'', ''%2E''), (CHR ''<'', ''%3C''), (CHR ''>'', ''%3E''), (CHR ''^'', ''%5E''),
      (CHR 0x60, ''%60''), (CHR ''{'', ''%7B''), (CHR ''|'', ''%7C''), (CHR ''}'', ''%7D''), (CHR ''_'', ''%5F''),
      (CHR 0x27, ''%27''), (CHR 0x5C, ''%5C'')]"

definition hex_upper :: "nat \<Rightarrow> char" where
  "hex_upper n = ''0123456789ABCDEF'' ! n"

definition percent_hex :: "char \<Rightarrow> string" where
  "percent_hex c = (let n = of_char c :: nat in [CHR ''%'', hex_upper (n div 16), hex_upper (n mod 16)])"

definition percent_escape :: "char \<Rightarrow> string option" where
  "percent_escape c =
     (case map_of percent_table c of
        Some e \<Rightarrow> Some e
      | None \<Rightarrow> if 128 \<le> (of_char c :: nat) then Some (percent_hex c) else None)"

text \<open>One character written at \<open>pos\<close>, with \<open>room\<close> bytes left; the result says whether it was escaped.\<close>

definition bx_encode_char_percent_encoding :: "char list \<Rightarrow> nat \<Rightarrow> nat \<Rightarrow> char \<Rightarrow> (bool \<times> char list) option" where
  "bx_encode_char_percent_encoding url pos room c =
     (case percent_escape c of
        Some e \<Rightarrow> if 3 \<le> room then map_option (Pair True) (copy_in url pos e) else Some (True, url)
      | None \<Rightarrow> if 1 \<le> room then map_option (Pair False) (wr url pos c) else Some (False, url))"

fun encoded_length :: "string \<Rightarrow> nat" where
  "encoded_length [] = 0"
| "encoded_length (c # v) = (if percent_escape c \<noteq> None then 3 else 1) + encoded_length v"

fun encode_loop :: "string \<Rightarrow> char list \<Rightarrow> nat \<Rightarrow> nat \<Rightarrow> char list option" where
  "encode_loop [] o' pos r_size = Some o'"
| "encode_loop (c # v) o' pos r_size =
     (case bx_encode_char_percent_encoding o' pos r_size c of
        None \<Rightarrow> None
      | Some (True, o1) \<Rightarrow> encode_loop v o1 (pos + 3) (r_size - 3)
      | Some (False, o1) \<Rightarrow> encode_loop v o1 (pos + 1) (r_size - 1))"

definition bx_percent_encoding :: "string \<Rightarrow> char list option" where
  "bx_percent_encoding v =
     encode_loop v (replicate (encoded_length v + 1) NUL) 0 (encoded_length v)"

definition bx_net_request_add_param :: "BXNetRequest \<Rightarrow> string \<Rightarrow> string \<Rightarrow> BXNetRequest option" where
  "bx_net_request_add_param request name value' = do {
     e_name \<leftarrow> bx_percent_encoding name;
     e_value \<leftarrow> bx_percent_encoding value';
     Some (request\<lparr>rq_params := rq_params request @ [(cstr e_name, cstr e_value)]\<rparr>)
   }"

section \<open>URLs\<close>

fun params_length :: "(string \<times> string) list \<Rightarrow> nat" where
  "params_length [] = 0"
| "params_length [(n, v)] = 1 + length n + length v"
| "params_length ((n, v) # ps) = 1 + length n + length v + 1 + params_length ps"

text \<open>The loop that keeps one of several slashes: \<open>i\<close> reads and \<open>j\<close> writes.\<close>

function squeeze_loop :: "nat \<Rightarrow> char list \<Rightarrow> nat \<Rightarrow> nat \<Rightarrow> bool \<Rightarrow> (char list \<times> nat) option" where
  "squeeze_loop url_len url i j prev =
     (if i < url_len then
        (case rd url i of
           None \<Rightarrow> None
         | Some c \<Rightarrow>
             if c = NUL then Some (url, j)
             else if prev \<and> c = CHR ''/'' then squeeze_loop url_len url (i + 1) j prev
             else
               (case wr url j c of
                  None \<Rightarrow> None
                | Some url1 \<Rightarrow> squeeze_loop url_len url1 (i + 1) (j + 1) (c = CHR ''/'')))
      else Some (url, j))"
  by pat_completeness auto
termination
  by (relation "measure (\<lambda>(n, url, i, j, prev). n - i)") auto

declare squeeze_loop.simps [simp del]

fun write_params :: "(string \<times> string) list \<Rightarrow> char list \<Rightarrow> nat \<Rightarrow> char list option" where
  "write_params [] url j = Some url"
| "write_params ((n, v) # ps) url j = do {
     url1 \<leftarrow> copy_in url j n;
     url2 \<leftarrow> wr url1 (j + length n) (CHR ''='');
     url3 \<leftarrow> copy_in url2 (j + length n + 1) v;
     url4 \<leftarrow> (if ps \<noteq> [] then wr url3 (j + length n + 1 + length v) (CHR ''&'') else Some url3);
     write_params ps url4 (j + length n + 1 + length v + (if ps \<noteq> [] then 1 else 0))
   }"

text \<open>
  An endpoint shorter than two characters makes the start of the loop negative: the loop does
  not run and the block is cleared from before its start.
\<close>

definition bx_build_url :: "string \<Rightarrow> string \<Rightarrow> (string \<times> string) list \<Rightarrow> char list option" where
  "bx_build_url endpoint path params =
     (let url_len = params_length params + length endpoint + 1 + length path + 1 in
      if length endpoint < 2 then None
      else do {
        url1 \<leftarrow> copy_in (replicate (url_len + 1) NUL) 0 (take (url_len - 1) (endpoint @ ''/'' @ path));
        (url2, j) \<leftarrow> squeeze_loop url_len url1 (length endpoint - 2) (length endpoint - 2) False;
        url3 \<leftarrow> fill url2 j (url_len - j) NUL;
        if params = [] then Some url3
        else do {
          url4 \<leftarrow> wr url3 j (CHR ''?'');
          write_params params url4 (j + 1)
        }
      })"

section \<open>Answers\<close>

record BXNetRatelimit =
  li_max_request :: int
  li_remaining_request :: int
  li_reset_time :: int

text \<open>The average time of a request, which is only logged, and the curl handle are left out.\<close>

record BXNet =
  ne_oauth :: BXOAuth
  ne_endpoint :: string
  ne_limits :: BXNetRatelimit
  ne_request_count :: u64

definition bx_write_cb :: "BXNetRData \<Rightarrow> string \<Rightarrow> BXNetRData" where
  "bx_write_cb netdata chunk =
     (let old = (case rd_data netdata of NULL \<Rightarrow> [] | Ptr d \<Rightarrow> take (rd_data_len netdata) d) in
      netdata\<lparr>rd_data := Ptr (old @ chunk @ [NUL]), rd_data_len := rd_data_len netdata + length chunk\<rparr>)"

text \<open>
  The value of a header of \<open>n\<close> bytes at the start of \<open>mem\<close> after a name whose literal has \<open>k\<close> bytes with
  its NUL: the copy starts one byte after the colon and has one byte too many. \<open>Some None\<close> is
  a value that is ignored.
\<close>

definition header_value :: "char list \<Rightarrow> nat \<Rightarrow> nat \<Rightarrow> int option option" where
  "header_value mem n k =
     (if k + 1 + (n - k) \<le> length mem then
        (let b = dropWhile (\<lambda>c. c = CHR '' '' \<or> c = CHR '':'') (cstr (take (n - k) (drop (k + 1) mem)));
             v = to_int32 (strtol_value b)
         in Some (if b = [] \<or> v = 0 then None else Some v))
      else None)"

definition header_is :: "char list \<Rightarrow> nat \<Rightarrow> string \<Rightarrow> bool" where
  "header_is mem n name \<longleftrightarrow>
     length name + 1 < n \<and> bx_string_compare (cstr mem) name (length name + 1) \<and> n - (length name + 1) < 10"

definition bx_header_callback :: "char list \<Rightarrow> nat \<Rightarrow> BXNetRatelimit \<Rightarrow> BXNetRatelimit option" where
  "bx_header_callback mem n limits =
     (if n = 0 then Some limits
      else if header_is mem n ''ratelimit-limit'' then
        map_option (\<lambda>r. case r of None \<Rightarrow> limits | Some v \<Rightarrow> limits\<lparr>li_max_request := v\<rparr>)
          (header_value mem n (length ''ratelimit-limit'' + 1))
      else if header_is mem n ''ratelimit-remaining'' then
        map_option (\<lambda>r. case r of None \<Rightarrow> limits | Some v \<Rightarrow> limits\<lparr>li_remaining_request := v\<rparr>)
          (header_value mem n (length ''ratelimit-remaining'' + 1))
      else if header_is mem n ''ratelimit-reset'' then
        map_option (\<lambda>r. case r of None \<Rightarrow> limits | Some v \<Rightarrow> limits\<lparr>li_reset_time := v\<rparr>)
          (header_value mem n (length ''ratelimit-reset'' + 1))
      else Some limits)"

section \<open>A request\<close>

definition BX_API_AUTH_HEADER :: string where
  "BX_API_AUTH_HEADER = ''Authorization: Bearer ''"

definition bx_auth_header :: "(string \<Rightarrow> u64) \<Rightarrow> 'w oauth_env \<Rightarrow> BXNet \<Rightarrow> bool \<Rightarrow> 'w \<Rightarrow> (string ptr \<times> BXNet \<times> 'w) option" where
  "bx_auth_header xxh env net force w =
     map_option (\<lambda>(ok, oa, w1).
         (if \<not> ok then NULL
          else (case oa_access_token oa of NULL \<Rightarrow> NULL | Ptr tok \<Rightarrow> Ptr (BX_API_AUTH_HEADER @ tok)),
          net\<lparr>ne_oauth := oa\<rparr>, w1))
       (bx_oauth_ensure xxh env (ne_oauth net) force w)"

text \<open>
  What the transfer gives: the header lines with the memory they are in, the pieces of the
  body, whether it was performed, and the code. A transfer that could not be set up has no
  headers and was not performed.
\<close>

record curl_answer =
  cu_headers :: "(char list \<times> nat) list"
  cu_chunks :: "string list"
  cu_ok :: bool
  cu_code :: int

fun read_headers :: "(char list \<times> nat) list \<Rightarrow> BXNetRatelimit \<Rightarrow> BXNetRatelimit option" where
  "read_headers [] limits = Some limits"
| "read_headers ((mem, n) # hs) limits =
     (case bx_header_callback mem n limits of None \<Rightarrow> None | Some limits1 \<Rightarrow> read_headers hs limits1)"

text \<open>One attempt: NULL when there is no token or the transfer failed.\<close>

definition fetch_attempt :: "(string \<Rightarrow> u64) \<Rightarrow> 'w oauth_env \<Rightarrow> (string \<Rightarrow> string \<Rightarrow> 'w \<Rightarrow> curl_answer \<times> 'w)
    \<Rightarrow> string \<Rightarrow> bool \<Rightarrow> BXNet \<Rightarrow> 'w \<Rightarrow> (BXNetRData ptr \<times> BXNet \<times> 'w) option" where
  "fetch_attempt xxh env perform url force net w =
     (case bx_auth_header xxh env net force w of
        None \<Rightarrow> None
      | Some (NULL, net1, w1) \<Rightarrow> Some (NULL, net1, w1)
      | Some (Ptr auth, net1, w1) \<Rightarrow>
          (let (answer, w2) = perform url auth w1 in
           map_option (\<lambda>limits.
               if \<not> cu_ok answer then (NULL, net1\<lparr>ne_limits := limits\<rparr>, w2)
               else
                 (Ptr ((foldl bx_write_cb \<lparr>rd_data = NULL, rd_data_len = 0, rd_http_code = 0\<rparr> (cu_chunks answer))
                         \<lparr>rd_http_code := cu_code answer\<rparr>),
                  net1\<lparr>ne_limits := limits, ne_request_count := ne_request_count net1 + 1\<rparr>, w2))
             (read_headers (cu_headers answer) (ne_limits net1))))"

definition bx_fetch :: "(string \<Rightarrow> u64) \<Rightarrow> 'w oauth_env \<Rightarrow> (string \<Rightarrow> string \<Rightarrow> 'w \<Rightarrow> curl_answer \<times> 'w)
    \<Rightarrow> string \<Rightarrow> (string \<times> string) list \<Rightarrow> BXNet \<Rightarrow> 'w \<Rightarrow> (BXNetRData ptr \<times> BXNet \<times> 'w) option" where
  "bx_fetch xxh env perform path params net w = do {
     buf \<leftarrow> bx_build_url (ne_endpoint net) path params;
     let url = cstr buf;
     (r, net1, w1) \<leftarrow> fetch_attempt xxh env perform url False net w;
     (case r of
        NULL \<Rightarrow> Some (NULL, net1, w1)
      | Ptr rdata \<Rightarrow>
          if rd_http_code rdata \<noteq> 401 then Some (Ptr rdata, net1, w1)
          else fetch_attempt xxh env perform url True net1 w1)
   }"

definition bx_net_init :: "(string \<Rightarrow> u64) \<Rightarrow> (string \<Rightarrow> string \<Rightarrow> bool) \<Rightarrow> 'w oauth_env \<Rightarrow> BXConf \<Rightarrow> 'w \<Rightarrow> (BXNet ptr \<times> 'w) option" where
  "bx_net_init xxh set_up env conf w =
     (case bx_conf_get_string xxh conf ''bexio-endpoint'' of
        NULL \<Rightarrow> Some (NULL, w)
      | Ptr endpoint \<Rightarrow>
          (case bx_oauth_init xxh set_up conf of
             NULL \<Rightarrow> Some (NULL, w)
           | Ptr oa \<Rightarrow>
               (case bx_oauth_startup xxh env (Ptr oa) w of
                  None \<Rightarrow> None
                | Some (BX_OAUTH_OK, Ptr oa1, w1) \<Rightarrow>
                    Some (Ptr \<lparr>ne_oauth = oa1, ne_endpoint = endpoint,
                               ne_limits = \<lparr>li_max_request = 0, li_remaining_request = 0, li_reset_time = 0\<rparr>,
                               ne_request_count = 0\<rparr>, w1)
                | Some (_, _, w1) \<Rightarrow> Some (NULL, w1))))"

end
