(* ===== verification/Bx_Net_Properties.thy ===== *)
theory Bx_Net_Properties
  imports Bx_Net Bx_Database
begin

text \<open>
  What the requests guarantee: a URL is the endpoint and the path with single slashes and the
  parameters in order, built inside its block and read back by splitting and decoding; the
  rate limits of an answer are recorded; and a refused token is replaced once.
\<close>

section \<open>Encoding\<close>

definition enc :: "char \<Rightarrow> string" where
  "enc c = (case percent_escape c of Some e \<Rightarrow> e | None \<Rightarrow> [c])"

definition encoded :: "string \<Rightarrow> string" where
  "encoded v = concat (map enc v)"

definition hex_val :: "char \<Rightarrow> nat" where
  "hex_val c = (let n = of_char c :: nat in if n < 58 then n - 48 else n - 55)"

fun percent_decode :: "string \<Rightarrow> string" where
  "percent_decode (c # a # b # r) =
     (if c = CHR ''%'' then char_of (16 * hex_val a + hex_val b) # percent_decode r
      else c # percent_decode (a # b # r))"
| "percent_decode [] = []"
| "percent_decode [a] = [a]"
| "percent_decode [a, b] = [a, b]"

definition separator :: "char \<Rightarrow> bool" where
  "separator c \<longleftrightarrow> c = CHR ''&'' \<or> c = CHR ''='' \<or> c = CHR ''?'' \<or> c = CHR ''#'' \<or> c = CHR ''/'' \<or> c = NUL"

lemma percent_table_ok:
  "list_all (\<lambda>(c, e). length e = 3 \<and> hd e = CHR ''%'' \<and> 16 * hex_val (e ! 1) + hex_val (e ! 2) = of_char c \<and>
     list_all (\<lambda>c. \<not> separator c) e) percent_table"
  by (simp add: percent_table_def hex_val_def separator_def NUL_def)

lemma percent_table_separators:
  "separator c \<Longrightarrow> c \<noteq> NUL \<Longrightarrow> map_of percent_table c \<noteq> None" "map_of percent_table (CHR ''%'') \<noteq> None"
  by (auto simp: percent_table_def separator_def)

lemma hex_upper_all: "list_all (\<lambda>n. hex_val (hex_upper n) = n \<and> \<not> separator (hex_upper n)) [0..<16]"
  by (simp add: upt_rec hex_val_def hex_upper_def separator_def NUL_def)

lemma hex_upper_val: "n < 16 \<Longrightarrow> hex_val (hex_upper n) = n \<and> \<not> separator (hex_upper n)"
  using hex_upper_all by (simp add: list_all_iff)

lemma percent_hex_ok:
  "length (percent_hex c) = 3 \<and> hd (percent_hex c) = CHR ''%'' \<and>
   16 * hex_val (percent_hex c ! 1) + hex_val (percent_hex c ! 2) = of_char c \<and>
   list_all (\<lambda>c. \<not> separator c) (percent_hex c)"
proof -
  have "(of_char c :: nat) < 256" by simp
  then have "(of_char c :: nat) div 16 < 16" by (simp add: less_mult_imp_div_less)
  moreover have "(of_char c :: nat) mod 16 < 16" by simp
  ultimately show ?thesis using hex_upper_val [of "of_char c div 16"] hex_upper_val [of "of_char c mod 16"]
    by (simp add: percent_hex_def Let_def) (simp add: separator_def NUL_def)
qed

lemma percent_escape_ok:
  assumes "percent_escape c = Some e"
  shows "length e = 3 \<and> hd e = CHR ''%'' \<and> 16 * hex_val (e ! 1) + hex_val (e ! 2) = of_char c \<and>
    list_all (\<lambda>c. \<not> separator c) e"
proof (cases "map_of percent_table c")
  case None
  then show ?thesis using assms percent_hex_ok [of c] by (auto simp: percent_escape_def split: if_splits)
next
  case (Some e')
  then have "(c, e) \<in> set percent_table" using assms by (auto simp: percent_escape_def dest: map_of_SomeD)
  then show ?thesis using percent_table_ok by (auto simp: list_all_iff)
qed

lemma percent_escape_plain:
  assumes "percent_escape c = None"
  shows "c \<noteq> CHR ''%'' \<and> (c = NUL \<or> \<not> separator c)"
proof -
  have "map_of percent_table c = None" using assms by (simp add: percent_escape_def split: option.splits)
  then show ?thesis using percent_table_separators(1) [of c] percent_table_separators(2) by metis
qed

lemma encoded_Cons: "encoded (c # v) = enc c @ encoded v"
  by (simp add: encoded_def)

lemma encoded_length: "length (encoded v) = encoded_length v"
  by (induction v) (auto simp: encoded_def enc_def split: option.splits dest: percent_escape_ok)

lemma encoded_clean: "list_all (\<lambda>c. c \<noteq> NUL) v \<Longrightarrow> list_all (\<lambda>c. \<not> separator c) (encoded v)"
  by (induction v)
     (auto simp: encoded_def enc_def split: option.splits dest: percent_escape_ok percent_escape_plain)

lemma decode_enc: "percent_decode (enc c @ r) = c # percent_decode r"
proof (cases "percent_escape c")
  case None
  then have "c \<noteq> CHR ''%''" by (simp add: percent_escape_plain)
  then have "percent_decode (c # r) = c # percent_decode r"
    by (cases r rule: percent_decode.cases) auto
  with None show ?thesis by (simp add: enc_def)
next
  case (Some e)
  note ok = percent_escape_ok [OF Some]
  obtain a b where e: "e = [CHR ''%'', a, b]"
    using ok by (cases e; cases "tl e"; cases "tl (tl e)") auto
  have "char_of (16 * hex_val a + hex_val b) = c" using ok e by (simp add: char_of_eq_iff)
  with Some e show ?thesis by (simp add: enc_def)
qed

lemma decode_encoded: "percent_decode (encoded v) = v"
proof (induction v)
  case (Cons c v)
  then show ?case by (simp add: encoded_Cons decode_enc)
qed (simp add: encoded_def)

lemma encode_loop_spec:
  "encode_loop v (out @ replicate (encoded_length v + k) NUL) (length out) (encoded_length v)
     = Some (out @ encoded v @ replicate k NUL)"
proof (induction v arbitrary: out)
  case (Cons c v)
  let ?n = "encoded_length v + k"
  show ?case
  proof (cases "percent_escape c")
    case None
    have "wr (out @ replicate (Suc ?n) NUL) (length out) c = Some ((out @ [c]) @ replicate ?n NUL)"
      by (simp add: wr_def list_update_append)
    with None Cons.IH [of "out @ [c]"] show ?thesis
      by (simp add: bx_encode_char_percent_encoding_def encoded_Cons enc_def)
  next
    case (Some e)
    have "length e = 3" using percent_escape_ok [OF Some] by simp
    then have "copy_in (out @ replicate (3 + ?n) NUL) (length out) e = Some ((out @ e) @ replicate ?n NUL)"
      by (simp add: copy_in_def)
    with Some Cons.IH [of "out @ e"] \<open>length e = 3\<close> show ?thesis
      by (simp add: bx_encode_char_percent_encoding_def encoded_Cons enc_def add.assoc)
  qed
qed (simp add: encoded_def)

lemma percent_encoding_spec: "bx_percent_encoding v = Some (encoded v @ [NUL])"
  using encode_loop_spec [of v "[]" 1] by (simp add: bx_percent_encoding_def)

section \<open>URLs\<close>

fun squeeze_slashes :: "bool \<Rightarrow> string \<Rightarrow> string" where
  "squeeze_slashes prev [] = []"
| "squeeze_slashes prev (c # cs) =
     (if prev \<and> c = CHR ''/'' then squeeze_slashes prev cs else c # squeeze_slashes (c = CHR ''/'') cs)"

lemma squeeze_length: "length (squeeze_slashes prev cs) \<le> length cs"
  by (induction prev cs rule: squeeze_slashes.induct) auto

lemma squeeze_keeps: "list_all P cs \<Longrightarrow> list_all P (squeeze_slashes prev cs)"
  by (induction prev cs rule: squeeze_slashes.induct) auto

lemma squeeze_loop_spec:
  assumes "list_all (\<lambda>c. c \<noteq> NUL) rest" and "length out + length junk + length rest \<le> n" and "tail \<noteq> []" and "hd tail = NUL"
  shows "\<exists>junk'. squeeze_loop n (out @ junk @ rest @ tail) (length out + length junk) (length out) prev
     = Some (out @ squeeze_slashes prev rest @ junk' @ tail, length out + length (squeeze_slashes prev rest)) \<and>
     length (squeeze_slashes prev rest @ junk') = length junk + length rest"
  using assms
proof (induction rest arbitrary: out junk prev)
  case Nil
  have "(out @ junk @ tail) ! (length out + length junk) = NUL"
    using Nil.prems(3,4) by (cases tail) (auto simp: nth_append)
  then have "squeeze_loop n (out @ junk @ [] @ tail) (length out + length junk) (length out) prev = Some (out @ junk @ tail, length out)"
    using Nil.prems(3) by (subst squeeze_loop.simps) (simp add: rd_def)
  then show ?case by auto
next
  case (Cons c rest)
  let ?u = "out @ junk @ (c # rest) @ tail" and ?i = "length out + length junk"
  have rd: "rd ?u ?i = Some c" and i: "?i < n" and c: "c \<noteq> NUL"
    using Cons.prems by (auto simp: rd_def nth_append)
  show ?case
  proof (cases "prev \<and> c = CHR ''/''")
    case True
    have "squeeze_loop n ?u ?i (length out) prev = squeeze_loop n (out @ (junk @ [c]) @ rest @ tail) (length out + length (junk @ [c])) (length out) prev"
      using rd i c True by (subst squeeze_loop.simps) simp
    with Cons.IH [of out "junk @ [c]" prev] Cons.prems True show ?thesis by simp
  next
    case False
    obtain junk1 where w: "wr ?u (length out) c = Some ((out @ [c]) @ junk1 @ rest @ tail)" "length junk1 = length junk"
      using write_over [of out junk c "rest @ tail" c] by auto
    have "squeeze_loop n ?u ?i (length out) prev
        = squeeze_loop n ((out @ [c]) @ junk1 @ rest @ tail) (length (out @ [c]) + length junk1) (length (out @ [c])) (c = CHR ''/'')"
      using rd i c False w by (subst squeeze_loop.simps) auto
    with Cons.IH [of "out @ [c]" junk1 "c = CHR ''/''"] Cons.prems False w(2) show ?thesis by auto
  qed
qed

fun query_text :: "(string \<times> string) list \<Rightarrow> string" where
  "query_text [] = []"
| "query_text [(n, v)] = n @ ''='' @ v"
| "query_text ((n, v) # p # ps) = n @ ''='' @ v @ ''&'' @ query_text (p # ps)"

lemma query_text_length: "length (query_text ps) = params_length ps"
  by (induction ps rule: query_text.induct) auto

lemma copy_zeros: "copy_in (pre @ replicate (length t + k) NUL) (length pre) t = Some ((pre @ t) @ replicate k NUL)"
  by (simp add: copy_in_def)

lemma write_params_spec:
  "write_params ps (pre @ replicate (params_length ps + k) NUL) (length pre) = Some (pre @ query_text ps @ replicate k NUL)"
proof (induction ps arbitrary: pre rule: query_text.induct)
  case 1
  then show ?case by simp
next
  case (2 n v)
  have "wr (pre @ n @ replicate (Suc (length v + k)) NUL) (length pre + length n) (CHR ''='')
      = Some ((pre @ n @ ''='') @ replicate (length v + k) NUL)"
    by (simp add: wr_def list_update_append)
  with copy_zeros [of pre n "Suc (length v + k)"] copy_zeros [of "pre @ n @ ''=''" v k] show ?case
    by (simp add: add.assoc add.commute add.left_commute)
next
  case (3 n v p ps)
  let ?m = "params_length (p # ps) + k"
  have "wr (pre @ n @ replicate (Suc (length v + Suc ?m)) NUL) (length pre + length n) (CHR ''='')
      = Some ((pre @ n @ ''='') @ replicate (length v + Suc ?m) NUL)"
    "wr ((pre @ n @ ''='' @ v) @ replicate (Suc ?m) NUL) (length pre + length n + 1 + length v) (CHR ''&'')
      = Some ((pre @ n @ ''='' @ v @ ''&'') @ replicate ?m NUL)"
    by (simp_all add: wr_def list_update_append)
  with copy_zeros [of pre n "Suc (length v + Suc ?m)"] copy_zeros [of "pre @ n @ ''=''" v "Suc ?m"] "3.IH" [of "pre @ n @ ''='' @ v @ ''&''"]
  show ?case by (simp add: add.assoc add.commute add.left_commute)
qed

definition url_base :: "string \<Rightarrow> string \<Rightarrow> string" where
  "url_base endpoint path =
     take (length endpoint - 2) endpoint @ squeeze_slashes False (drop (length endpoint - 2) endpoint @ ''/'' @ path)"

definition url_of :: "string \<Rightarrow> string \<Rightarrow> (string \<times> string) list \<Rightarrow> string" where
  "url_of endpoint path params =
     url_base endpoint path @ (if params = [] then [] else CHR ''?'' # query_text params)"

lemma url_base_keeps: "list_all P (endpoint @ ''/'' @ path) \<Longrightarrow> list_all P (url_base endpoint path)"
  unfolding url_base_def list_all_append
  by (intro conjI squeeze_keeps) (auto simp: list_all_iff dest: in_set_takeD in_set_dropD)

lemma url_base_length: "length (url_base endpoint path) \<le> length endpoint + 1 + length path"
  using squeeze_length [of False "drop (length endpoint - 2) endpoint @ ''/'' @ path"] by (simp add: url_base_def)

lemma fill_tail:
  "fill (pre @ junk @ replicate (p + 2) NUL) (length pre) (length junk + p + 1) NUL
     = Some (pre @ replicate (length junk + p + 2) NUL)"
proof -
  have "replicate (p + 2) NUL = replicate (p + 1) NUL @ [NUL]" by (simp add: replicate_append_same)
  moreover have "fill (pre @ (junk @ replicate (p + 1) NUL) @ [NUL]) (length pre) (length (junk @ replicate (p + 1) NUL)) NUL
      = Some (pre @ replicate (length junk + p + 1) NUL @ [NUL])"
    by (simp add: fill_def)
  ultimately show ?thesis by (simp add: replicate_append_same)
qed

lemma build_url_spec:
  assumes "2 \<le> length endpoint" and "list_all (\<lambda>c. c \<noteq> NUL) (endpoint @ path)"
  shows "\<exists>k. bx_build_url endpoint path params = Some (url_of endpoint path params @ replicate (Suc k) NUL)"
proof -
  let ?m = "length endpoint - 2" and ?full = "endpoint @ ''/'' @ path"
  let ?tail = "replicate (params_length params + 2) NUL"
  define out rest where "out = take ?m endpoint" and "rest = drop ?m endpoint @ ''/'' @ path"
  define url_len where "url_len = params_length params + length endpoint + 1 + length path + 1"
  have full: "?full = out @ rest" by (simp add: out_def rest_def)
  have lens: "length out = ?m" "length out + length rest = length endpoint + 1 + length path"
    using assms(1) by (simp_all add: out_def rest_def)
  have nul: "list_all (\<lambda>c. c \<noteq> NUL) rest"
    using assms(2) by (auto simp: rest_def NUL_def list_all_iff dest: in_set_dropD)
  have "copy_in (replicate (url_len + 1) NUL) 0 (take (url_len - 1) ?full) = Some (?full @ ?tail)"
    using copy_zeros [of "[]" ?full "params_length params + 2"] by (simp add: url_len_def add_ac)
  then have c: "copy_in (replicate (url_len + 1) NUL) 0 (take (url_len - 1) ?full) = Some (out @ rest @ ?tail)"
    by (simp only: full append_assoc)
  obtain junk where sq: "squeeze_loop url_len (out @ rest @ ?tail) ?m ?m False
      = Some (out @ squeeze_slashes False rest @ junk @ ?tail, length out + length (squeeze_slashes False rest))"
    and lj: "length (squeeze_slashes False rest @ junk) = length rest"
    using squeeze_loop_spec [OF nul, of out "[]" url_len ?tail False] lens by (auto simp: url_len_def)
  define base j where "base = url_base endpoint path" and "j = length out + length (squeeze_slashes False rest)"
  have b: "base = out @ squeeze_slashes False rest" "length base = j"
    by (simp_all add: base_def j_def url_base_def out_def rest_def)
  define k where "k = length junk"
  have len: "url_len + 1 = j + (k + params_length params + 2)" using lens(2) lj by (simp add: j_def url_len_def k_def)
  have f: "fill (out @ squeeze_slashes False rest @ junk @ ?tail) j (url_len - j) NUL
      = Some (base @ replicate (k + params_length params + 2) NUL)"
    using fill_tail [of base junk "params_length params"] len b by (simp add: k_def)
  have u: "bx_build_url endpoint path params =
      (let z = base @ replicate (k + params_length params + 2) NUL in
       if params = [] then Some z else wr z j (CHR ''?'') \<bind> (\<lambda>u. write_params params u (j + 1)))"
    unfolding bx_build_url_def Let_def url_len_def [symmetric] c
    using assms(1) sq f by (simp flip: j_def)
  show ?thesis
  proof (cases "params = []")
    case True
    then show ?thesis using u by (intro exI [of _ "k + 1"]) (simp add: url_of_def base_def)
  next
    case False
    have "wr (base @ replicate (k + params_length params + 2) NUL) j (CHR ''?'')
        = Some ((base @ ''?'') @ replicate (params_length params + Suc k) NUL)"
      using b(2) by (simp add: wr_def list_update_append add_ac)
    with write_params_spec [of params "base @ ''?''" "Suc k"] b(2) False u
    have "bx_build_url endpoint path params = Some ((base @ ''?'') @ query_text params @ replicate (Suc k) NUL)"
      by simp
    then show ?thesis using False by (intro exI [of _ k]) (simp add: url_of_def base_def)
  qed
qed

text \<open>Reading a query back.\<close>

fun split_on :: "char \<Rightarrow> string \<Rightarrow> string list" where
  "split_on d [] = [[]]"
| "split_on d (c # cs) =
     (if c = d then [] # split_on d cs
      else (case split_on d cs of [] \<Rightarrow> [[c]] | w # ws \<Rightarrow> (c # w) # ws))"

definition read_param :: "string \<Rightarrow> string \<times> string" where
  "read_param p = (percent_decode (takeWhile (\<lambda>c. c \<noteq> CHR ''='') p), percent_decode (tl (dropWhile (\<lambda>c. c \<noteq> CHR ''='') p)))"

definition read_query :: "string \<Rightarrow> (string \<times> string) list" where
  "read_query url = map read_param (split_on (CHR ''&'') (tl (dropWhile (\<lambda>c. c \<noteq> CHR ''?'') url)))"

lemma split_on_plain: "d \<notin> set w \<Longrightarrow> split_on d w = [w]"
  by (induction w) auto

lemma split_on_append: "d \<notin> set w \<Longrightarrow> split_on d (w @ d # r) = w # split_on d r"
  by (induction w) auto

lemma takeWhile_upto: "d \<notin> set w \<Longrightarrow> takeWhile (\<lambda>c. c \<noteq> d) (w @ d # r) = w"
  "d \<notin> set w \<Longrightarrow> dropWhile (\<lambda>c. c \<noteq> d) (w @ d # r) = d # r"
  by (induction w) auto

abbreviation encode_param :: "string \<times> string \<Rightarrow> string \<times> string" where
  "encode_param \<equiv> map_prod encoded encoded"

definition plain_param :: "string \<times> string \<Rightarrow> bool" where
  "plain_param p \<longleftrightarrow> NUL \<notin> set (fst p) \<and> NUL \<notin> set (snd p)"

lemma encoded_free:
  assumes "NUL \<notin> set v" and "separator d"
  shows "d \<notin> set (encoded v)"
  using encoded_clean [of v] assms by (auto simp: list_all_iff)

lemma separators [simp]: "separator (CHR ''&'')" "separator (CHR ''='')" "separator (CHR ''?'')" "separator NUL"
  by (simp_all add: separator_def)

lemma read_encoded_param:
  assumes "plain_param (n, v)"
  shows "read_param (encoded n @ CHR ''='' # encoded v) = (n, v)"
  using assms by (simp add: read_param_def plain_param_def takeWhile_upto encoded_free decode_encoded)

lemma read_query_text:
  assumes "ps \<noteq> []" and "list_all plain_param ps"
  shows "map read_param (split_on (CHR ''&'') (query_text (map encode_param ps))) = ps"
  using assms
proof (induction ps rule: query_text.induct)
  case (2 n v)
  then have "CHR ''&'' \<notin> set (encoded n @ CHR ''='' # encoded v)" by (simp add: plain_param_def encoded_free)
  from split_on_plain [OF this] 2 show ?case by (simp add: read_encoded_param)
next
  case (3 n v p ps)
  then have "CHR ''&'' \<notin> set (encoded n @ CHR ''='' # encoded v)" by (simp add: plain_param_def encoded_free)
  from split_on_append [OF this] 3 show ?case by (cases p) (simp add: read_encoded_param)
qed simp

lemma NUL_letters [simp]: "NUL \<noteq> CHR ''=''" "NUL \<noteq> CHR ''&''" "NUL \<noteq> CHR ''?''" "NUL \<noteq> CHR ''/''"
  by (simp_all add: NUL_def)

lemmas NUL_letters' [simp] = NUL_letters [symmetric]

lemma query_text_clean: "list_all plain_param ps \<Longrightarrow> NUL \<notin> set (query_text (map encode_param ps))"
  by (induction ps rule: query_text.induct) (auto simp: plain_param_def encoded_free)

fun add_params :: "BXNetRequest \<Rightarrow> (string \<times> string) list \<Rightarrow> BXNetRequest option" where
  "add_params request [] = Some request"
| "add_params request ((n, v) # ps) = bx_net_request_add_param request n v \<bind> (\<lambda>r. add_params r ps)"

lemma cstr_encoded: "NUL \<notin> set v \<Longrightarrow> cstr (encoded v @ [NUL]) = encoded v"
  using encoded_free [of v NUL] by (simp add: cstr_def takeWhile_upto)

lemma add_params_spec:
  "list_all plain_param ps \<Longrightarrow>
   add_params request ps = Some (request\<lparr>rq_params := rq_params request @ map encode_param ps\<rparr>)"
  by (induction request ps rule: add_params.induct)
     (simp_all add: bx_net_request_add_param_def percent_encoding_spec plain_param_def cstr_encoded)

section \<open>Answers\<close>

text \<open>
  The only lines of an answer behind which the callback reads: those of the three rate limits with a
  value of a few bytes, when their memory ends with the line.
\<close>

definition rate_line :: "char list \<Rightarrow> nat \<Rightarrow> bool" where
  "rate_line mem n \<longleftrightarrow> (\<exists>name\<in>{''ratelimit-limit'', ''ratelimit-remaining'', ''ratelimit-reset''}. header_is mem n name)"

definition over_read :: "curl_answer \<Rightarrow> bool" where
  "over_read answer \<longleftrightarrow> (\<exists>(mem, n)\<in>set (cu_headers answer). rate_line mem n \<and> length mem \<le> n)"

lemma header_stops:
  assumes "bx_header_callback mem n limits = None"
  shows "rate_line mem n \<and> length mem \<le> n"
proof -
  have short: "length mem \<le> n" if "header_is mem n name" "header_value mem n (length name + 1) = None" for name
    using that by (auto simp: header_is_def header_value_def Let_def split: if_splits)
  let ?a = "''ratelimit-limit''" and ?b = "''ratelimit-remaining''" and ?c = "''ratelimit-reset''"
  have stops: "rate_line mem n \<and> length mem \<le> n"
    if "name \<in> {?a, ?b, ?c}" "header_is mem n name" "header_value mem n (length name + 1) = None" for name
    using that short unfolding rate_line_def by blast
  show ?thesis
  proof (cases "header_is mem n ?a")
    case True
    then have "header_value mem n (length ?a + 1) = None"
      using assms unfolding bx_header_callback_def by (simp only: if_True map_option_is_None split: if_splits) simp
    then show ?thesis using stops [of ?a] True by blast
  next
    case a: False
    show ?thesis
    proof (cases "header_is mem n ?b")
      case True
      then have "header_value mem n (length ?b + 1) = None"
        using assms a unfolding bx_header_callback_def by (simp only: if_True if_False map_option_is_None split: if_splits) simp
      then show ?thesis using stops [of ?b] True by blast
    next
      case b: False
      have c: "header_is mem n ?c" "header_value mem n (length ?c + 1) = None"
        using assms a b unfolding bx_header_callback_def
        by (simp_all only: if_True if_False map_option_is_None option.distinct split: if_splits)
      then show ?thesis using stops [of ?c] by blast
    qed
  qed
qed

lemma read_headers_stops:
  "read_headers hs limits = None \<Longrightarrow> \<exists>(mem, n)\<in>set hs. rate_line mem n \<and> length mem \<le> n"
  by (induction hs limits rule: read_headers.induct) (auto split: option.splits dest: header_stops)

definition answer_data :: "curl_answer \<Rightarrow> BXNetRData" where
  "answer_data answer =
     \<lparr>rd_data = (if cu_chunks answer = [] then NULL else Ptr (concat (cu_chunks answer) @ [NUL])),
      rd_data_len = length (concat (cu_chunks answer)), rd_http_code = cu_code answer\<rparr>"

lemma collected:
  "foldl bx_write_cb \<lparr>rd_data = NULL, rd_data_len = 0, rd_http_code = 0\<rparr> cs
     = \<lparr>rd_data = (if cs = [] then NULL else Ptr (concat cs @ [NUL])), rd_data_len = length (concat cs), rd_http_code = 0\<rparr>"
  by (induction cs rule: rev_induct) (auto simp: bx_write_cb_def Let_def)

text \<open>What one attempt leaves.\<close>

definition attempted :: "(string \<Rightarrow> string \<Rightarrow> 'w \<Rightarrow> curl_answer \<times> 'w) \<Rightarrow> string \<Rightarrow> BXNetRData ptr \<Rightarrow> BXNet \<Rightarrow> BXNet \<Rightarrow> bool" where
  "attempted perform url r net net' \<longleftrightarrow>
     unlocked (ne_oauth net') \<and> \<not> oa_refreshing (ne_oauth net') \<and> ne_endpoint net' = ne_endpoint net \<and>
     (case r of
        NULL \<Rightarrow> ne_request_count net' = ne_request_count net
      | Ptr data \<Rightarrow> ne_request_count net' = ne_request_count net + 1 \<and>
          (\<exists>tok w0. oa_access_token (ne_oauth net') = Ptr tok \<and> cu_ok (fst (perform url (BX_API_AUTH_HEADER @ tok) w0)) \<and>
             data = answer_data (fst (perform url (BX_API_AUTH_HEADER @ tok) w0))))"

lemma fetch_attempt_outcome:
  assumes "unlocked (ne_oauth net)" and "\<not> oa_refreshing (ne_oauth net)"
  shows "(\<exists>r net' w'. fetch_attempt xxh env perform url force net w = Some (r, net', w') \<and> attempted perform url r net net') \<or>
    fetch_attempt xxh env perform url force net w = None \<and> (\<exists>auth w0. over_read (fst (perform url auth w0)))"
proof -
  obtain ok oa' w1 where e: "bx_oauth_ensure xxh env (ne_oauth net) force w = Some (ok, oa', w1)"
    and u: "unlocked oa'" "\<not> oa_refreshing oa'"
    using ensure_outcome [OF assms(1,2), of xxh env force w] unfolding settled_def by blast
  show ?thesis
  proof (cases "ok \<and> oa_access_token oa' \<noteq> NULL")
    case False
    then show ?thesis using e u by (auto simp: fetch_attempt_def bx_auth_header_def attempted_def split: ptr.splits)
  next
    case True
    then obtain tok where t: "oa_access_token oa' = Ptr tok" by (cases "oa_access_token oa'") auto
    obtain answer w2 where a: "perform url (BX_API_AUTH_HEADER @ tok) w1 = (answer, w2)" by fastforce
    show ?thesis
    proof (cases "read_headers (cu_headers answer) (ne_limits net)")
      case None
      then have "over_read (fst (perform url (BX_API_AUTH_HEADER @ tok) w1))"
        using read_headers_stops a by (simp add: over_read_def)
      moreover have "fetch_attempt xxh env perform url force net w = None"
        using e True t a None by (simp add: fetch_attempt_def bx_auth_header_def)
      ultimately show ?thesis by blast
    next
      case (Some limits)
      have "cu_ok answer \<Longrightarrow> \<exists>w0. cu_ok (fst (perform url (BX_API_AUTH_HEADER @ tok) w0)) \<and>
          answer_data answer = answer_data (fst (perform url (BX_API_AUTH_HEADER @ tok) w0))"
        using a by (intro exI [of _ w1]) simp
      then show ?thesis using e u True t a Some
        by (simp add: fetch_attempt_def bx_auth_header_def attempted_def collected answer_data_def)
    qed
  qed
qed

lemma cstr_append: "NUL \<notin> set a \<Longrightarrow> cstr (a @ b) = a @ cstr b"
  by (induction a) (auto simp: cstr_def)

lemma header_number:
  assumes "0 < v" and "v < 1000000"
  shows "header_value (name @ '': '' @ dec_int v @ CRLF @ x # r) (length (name @ '': '' @ dec_int v @ CRLF)) (length name + 1)
     = Some (Some v)"
proof -
  obtain d ds where d: "dec_int v = d # ds" using assms(1) by (cases "dec_int v") (simp_all add: dec_int_def)
  have dig: "list_all is_digit (d # ds)" using dec_nat_digits [of "nat v"] assms(1) d by (simp add: dec_int_def)
  then have "NUL \<notin> set (d # ds)" and nd: "d \<noteq> CHR '' ''" "d \<noteq> CHR '':''"
    by (auto simp: list_all_iff is_digit_def NUL_def)
  then have c: "cstr (dec_int v @ CRLF @ [x]) = dec_int v @ CRLF @ cstr [x]"
    using d cstr_append [of "dec_int v" "CRLF @ [x]"] by (simp add: CRLF_def) (simp add: cstr_def NUL_def)
  have b: "dropWhile (\<lambda>c. c = CHR '' '' \<or> c = CHR '':'') (dec_int v @ CRLF @ cstr [x]) = dec_int v @ CRLF @ cstr [x]"
    using nd d by simp
  have "strtol_value (dec_int v @ CRLF @ cstr [x]) = v"
    using strtol_dec_int [of "CRLF @ cstr [x]" v] assms saturate_id [of v]
    by (simp add: strtol_value_def CRLF_def is_digit_def LONG_MIN_def LONG_MAX_def)
  moreover have "to_int32 v = v" using assms by (simp add: to_int32_id INT_MAX_def)
  moreover have t: "take (length (name @ '': '' @ dec_int v @ CRLF) - (length name + 1)) (drop (length name + 1 + 1) (name @ '': '' @ dec_int v @ CRLF @ x # r))
      = dec_int v @ CRLF @ [x]"
    by (simp add: CRLF_def)
  ultimately show ?thesis using assms(1) d unfolding header_value_def Let_def t c b by (simp add: CRLF_def)
qed

lemma callback_remaining:
  assumes "20 < n" and "n - 20 < 10"
  shows "bx_header_callback (''ratelimit-remaining: '' @ t) n limits =
    map_option (\<lambda>r. case r of None \<Rightarrow> limits | Some v \<Rightarrow> limits\<lparr>li_remaining_request := v\<rparr>)
      (header_value (''ratelimit-remaining: '' @ t) n 20)"
proof -
  define mem where "mem = ''ratelimit-remaining: '' @ t"
  have "\<not> header_is mem n ''ratelimit-limit''" by (simp add: mem_def header_is_def cstr_def NUL_def)
  moreover have "header_is mem n ''ratelimit-remaining''"
    using assms by (simp add: mem_def header_is_def cstr_def NUL_def numeral_eq_Suc)
  ultimately show ?thesis using assms unfolding mem_def [symmetric]
    by (simp add: bx_header_callback_def numeral_eq_Suc)
qed

lemma dec_nat_length: "n < 10 ^ k \<Longrightarrow> 0 < k \<Longrightarrow> length (dec_nat n) \<le> k"
proof (induction n arbitrary: k rule: dec_nat.induct)
  case (1 n)
  show ?case
  proof (cases "n < 10")
    case True
    then show ?thesis using 1(3) by (subst dec_nat.simps) simp
  next
    case False
    then obtain k' where k: "k = Suc k'" "0 < k'" using 1(2) by (cases k; cases "k - 1") auto
    then have "n div 10 < 10 ^ k'" using 1(2) by (simp add: less_mult_imp_div_less mult.commute)
    from 1(1) [OF False this k(2)] False k show ?thesis by (subst dec_nat.simps) simp
  qed
qed

definition fetched :: "(string \<Rightarrow> string \<Rightarrow> 'w \<Rightarrow> curl_answer \<times> 'w) \<Rightarrow> string \<Rightarrow> BXNet \<Rightarrow> BXNetRData ptr \<Rightarrow> BXNet \<Rightarrow> bool" where
  "fetched perform url net r net' \<longleftrightarrow>
     unlocked (ne_oauth net') \<and> \<not> oa_refreshing (ne_oauth net') \<and> ne_endpoint net' = ne_endpoint net \<and>
     (\<forall>data. r = Ptr data \<longrightarrow>
       (\<exists>tok w0. oa_access_token (ne_oauth net') = Ptr tok \<and>
          (let answer = fst (perform url (BX_API_AUTH_HEADER @ tok) w0) in cu_ok answer \<and> data = answer_data answer)) \<and>
       (rd_http_code data = 401 \<longrightarrow> ne_request_count net' = ne_request_count net + 2))"

lemma fetch_outcome:
  assumes "unlocked (ne_oauth net)" and "\<not> oa_refreshing (ne_oauth net)"
    and "2 \<le> length (ne_endpoint net)" and "list_all (\<lambda>c. c \<noteq> NUL) (ne_endpoint net @ path)"
    and "list_all plain_param params"
  shows "case bx_fetch xxh env perform path (map encode_param params) net w of
      None \<Rightarrow> \<exists>auth w0. over_read (fst (perform (url_of (ne_endpoint net) path (map encode_param params)) auth w0))
    | Some (r, net', w') \<Rightarrow> fetched perform (url_of (ne_endpoint net) path (map encode_param params)) net r net'"
proof -
  define url where "url = url_of (ne_endpoint net) path (map encode_param params)"
  obtain k where b: "bx_build_url (ne_endpoint net) path (map encode_param params) = Some (url @ replicate (Suc k) NUL)"
    using build_url_spec [OF assms(3,4), of "map encode_param params"] url_def by blast
  have "list_all (\<lambda>c. c \<noteq> NUL) (url_base (ne_endpoint net) path)"
    using assms(4) by (intro url_base_keeps) simp
  then have "NUL \<notin> set url" using query_text_clean [OF assms(5)] by (auto simp: url_def url_of_def list_all_iff)
  then have c: "cstr (url @ replicate (Suc k) NUL) = url" by (simp add: cstr_def takeWhile_upto)
  show ?thesis
  proof (cases "fetch_attempt xxh env perform url False net w")
    case None
    then show ?thesis
      using fetch_attempt_outcome [OF assms(1,2), of xxh env perform url False w] b c
      by (simp add: bx_fetch_def flip: url_def)
  next
    case (Some x)
    then obtain r net1 w1 where f: "fetch_attempt xxh env perform url False net w = Some (r, net1, w1)" by (cases x) auto
    have a: "attempted perform url r net net1"
      using fetch_attempt_outcome [OF assms(1,2), of xxh env perform url False w] f by auto
    show ?thesis
    proof (cases "\<exists>data. r = Ptr data \<and> rd_http_code data = 401")
      case False
      then have "bx_fetch xxh env perform path (map encode_param params) net w = Some (r, net1, w1)"
        using b c f by (auto simp: bx_fetch_def split: ptr.split)
      then show ?thesis
        using a False unfolding attempted_def fetched_def Let_def url_def [symmetric] by (auto split: ptr.splits)
    next
      case True
      then have again: "bx_fetch xxh env perform path (map encode_param params) net w = fetch_attempt xxh env perform url True net1 w1"
        using b c f by (auto simp: bx_fetch_def)
      have net1: "unlocked (ne_oauth net1)" "\<not> oa_refreshing (ne_oauth net1)" using a by (simp_all add: attempted_def)
      have count: "ne_request_count net1 = ne_request_count net + 1" "ne_endpoint net1 = ne_endpoint net"
        using True a by (auto simp: attempted_def)
      from fetch_attempt_outcome [OF net1, of xxh env perform url True w1] show ?thesis
      proof (elim disjE exE conjE)
        fix r' net2 w2
        assume s: "fetch_attempt xxh env perform url True net1 w1 = Some (r', net2, w2)" and a2: "attempted perform url r' net1 net2"
        show ?thesis
          using again s a2 count unfolding attempted_def fetched_def Let_def url_def [symmetric] by (auto split: ptr.splits)
      qed (use again in \<open>auto simp flip: url_def\<close>)
    qed
  qed
qed

section \<open>Properties\<close>

text \<open>
  A URL with added parameters is built inside its block. It is the endpoint and the path with
  runs of slashes reduced to one, and splitting what follows the question mark and decoding
  it gives back the parameters that were added, whatever characters they hold.
\<close>

theorem url_round_trip:
  assumes "2 \<le> length endpoint" and "list_all (\<lambda>c. c \<noteq> NUL \<and> c \<noteq> CHR ''?'') (endpoint @ path)"
    and "params \<noteq> []" and "list_all plain_param params" and "rq_params request = []"
  shows "\<exists>request' buf. add_params request params = Some request' \<and>
    bx_build_url endpoint path (rq_params request') = Some buf \<and> NUL \<in> set buf \<and>
    takeWhile (\<lambda>c. c \<noteq> CHR ''?'') (cstr buf) = url_base endpoint path \<and> read_query (cstr buf) = params"
proof -
  let ?ps = "map encode_param params"
  have n: "list_all (\<lambda>c. c \<noteq> NUL) (endpoint @ path)" using assms(2) by (auto simp: list_all_iff)
  have n': "list_all (\<lambda>c. c \<noteq> NUL \<and> c \<noteq> CHR ''?'') (url_base endpoint path)"
    using assms(2) by (intro url_base_keeps) simp
  obtain k where b: "bx_build_url endpoint path ?ps = Some (url_of endpoint path ?ps @ replicate (Suc k) NUL)"
    using build_url_spec [OF assms(1) n] by blast
  have u: "url_of endpoint path ?ps = url_base endpoint path @ CHR ''?'' # query_text ?ps"
    using assms(3) by (simp add: url_of_def)
  have q: "CHR ''?'' \<notin> set (url_base endpoint path)" "NUL \<notin> set (url_of endpoint path ?ps)"
    using n' query_text_clean [OF assms(4)] by (auto simp: u list_all_iff)
  have "cstr (url_of endpoint path ?ps @ replicate (Suc k) NUL) = url_of endpoint path ?ps"
    using q(2) by (simp add: cstr_def takeWhile_upto)
  with b q(1) u read_query_text [OF assms(3,4)] add_params_spec [OF assms(4), of request] assms(5) show ?thesis
    by (simp add: read_query_def takeWhile_upto)
qed

theorem url_round_trip_witness:
  "\<exists>request' buf. add_params (bx_net_request_new ''2.0/contact'') [(''offset'', ''500''), (''q'', ''a&b=c%'')] = Some request' \<and>
    bx_build_url ''https://api/'' ''2.0/contact'' (rq_params request') = Some buf \<and>
    takeWhile (\<lambda>c. c \<noteq> CHR ''?'') (cstr buf) = ''https://api/2.0/contact'' \<and>
    read_query (cstr buf) = [(''offset'', ''500''), (''q'', ''a&b=c%'')]"
  using url_round_trip [of "''https://api/''" "''2.0/contact''" "[(''offset'', ''500''), (''q'', ''a&b=c%'')]" "bx_net_request_new ''2.0/contact''"]
  by (simp add: plain_param_def NUL_def url_base_def bx_net_request_new_def) blast

text \<open>
  A rate limit header whose value has up to six digits is recorded, and the callback reads
  one byte behind the header to do so: with no byte there the access is out of bounds.
\<close>

theorem header_limit_recorded:
  assumes "0 < v" and "v < 1000000"
  shows "bx_header_callback (''ratelimit-remaining: '' @ dec_int v @ CRLF @ [x]) (length (''ratelimit-remaining: '' @ dec_int v @ CRLF)) limits
      = Some (limits\<lparr>li_remaining_request := v\<rparr>) \<and>
    bx_header_callback (''ratelimit-remaining: '' @ dec_int v @ CRLF) (length (''ratelimit-remaining: '' @ dec_int v @ CRLF)) limits = None"
proof -
  let ?line = "''ratelimit-remaining: '' @ dec_int v @ CRLF"
  let ?n = "length ?line"
  have "length (dec_int v) \<le> 6" using dec_nat_length [of "nat v" 6] assms by (simp add: dec_int_def)
  moreover have "dec_int v \<noteq> []" using assms by (simp add: dec_int_def)
  ultimately have n: "20 < ?n" "?n - 20 < 10" by (simp_all add: CRLF_def)
  have "header_value (''ratelimit-remaining: '' @ dec_int v @ CRLF @ [x]) ?n 20 = Some (Some v)"
    using header_number [OF assms, of "''ratelimit-remaining''" x "[]"] by (simp add: numeral_eq_Suc)
  moreover have "header_value ?line ?n 20 = None" using n(1) by (simp add: header_value_def)
  ultimately show ?thesis using n by (simp only: callback_remaining) simp
qed

theorem header_limit_recorded_witness:
  "bx_header_callback (''ratelimit-remaining: 57'' @ CRLF @ [NUL]) (length (''ratelimit-remaining: 57'' @ CRLF))
       \<lparr>li_max_request = 0, li_remaining_request = 0, li_reset_time = 0\<rparr>
     = Some \<lparr>li_max_request = 0, li_remaining_request = 57, li_reset_time = 0\<rparr>"
proof -
  have "dec_int 57 = ''57''" by (simp add: dec_int_def dec_nat.simps char_of_eq_iff)
  with header_limit_recorded [of 57 NUL "\<lparr>li_max_request = 0, li_remaining_request = 0, li_reset_time = 0\<rparr>"]
  show ?thesis by simp
qed



end
