(* ===== verification/Bx_Requests.thy ===== *)
theory Bx_Requests
  imports Bx_Net_Properties Bx_Utils_Properties Bx_Chain
begin

text \<open>
  The requests of the chain from end to end: the path a walk makes of its format and its arguments,
  and the URL the network makes of the endpoint and that path.
\<close>

section \<open>The endpoint\<close>

text \<open>The site of an endpoint, which is written with or without a slash at its end.\<close>

definition endpoint_of :: "string \<Rightarrow> string \<Rightarrow> bool" where
  "endpoint_of site endpoint \<longleftrightarrow>
     2 \<le> length site \<and> last site \<noteq> CHR ''/'' \<and> list_all (\<lambda>c. c \<noteq> NUL) site \<and> (endpoint = site \<or> endpoint = site @ ''/'')"

lemma squeeze_plain: "CHR ''/'' \<notin> set t \<Longrightarrow> squeeze_slashes prev t = t"
  by (induction prev t rule: squeeze_slashes.induct) auto

lemma site_url:
  assumes "endpoint_of site endpoint" and "squeeze_slashes True path = path"
  shows "url_base endpoint path = site @ ''/'' @ path"
proof -
  obtain a x y where site: "site = a @ [x, y]"
  proof (rule that)
    have "site = take (length site - 2) site @ drop (length site - 2) site" by simp
    moreover have "drop (length site - 2) site = [site ! (length site - 2), site ! (length site - 1)]"
    proof -
      have "length site - 2 < length site" "Suc (length site - 2) = length site - 1" "Suc (length site - 1) = length site"
        using assms(1) by (auto simp: endpoint_of_def)
      then show ?thesis by (metis Cons_nth_drop_Suc drop_all order_refl lessI)
    qed
    ultimately show "site = take (length site - 2) site @ [site ! (length site - 2), site ! (length site - 1)]" by metis
  qed
  have y: "y \<noteq> CHR ''/''" using assms(1) site by (auto simp: endpoint_of_def)
  from assms(1) consider "endpoint = a @ [x, y]" | "endpoint = (a @ [x]) @ [y, CHR ''/'']"
    unfolding endpoint_of_def site by auto
  then show ?thesis
  proof cases
    case 1
    then show ?thesis using y assms(2) site by (cases "x = CHR ''/''") (simp_all add: url_base_def)
  next
    case 2
    then show ?thesis using y assms(2) site by (simp add: url_base_def)
  qed
qed

section \<open>From a format to a URL\<close>

lemma page_url:
  assumes site: "endpoint_of site endpoint" and fmt: "fmt \<noteq> []" "holes fmt \<le> length args" and args: "list_all2 prints args strs"
    and path: "subst_args fmt strs = path" "list_all (\<lambda>c. c \<noteq> NUL) path" "squeeze_slashes True path = path"
  shows "\<exists>p buf. bx_item_to_path fmt args = Some (Ptr p) \<and> bx_build_url endpoint (cstr p) [] = Some buf \<and>
    cstr buf = site @ ''/'' @ path"
proof -
  have p: "bx_item_to_path fmt args = Some (Ptr (path @ [NUL]))" using item_to_path_spec [OF fmt(1) args fmt(2)] path(1) by simp
  have cstr: "cstr (t @ NUL # r) = t" if "list_all (\<lambda>c. c \<noteq> NUL) t" for t r
    using that by (induction t) (auto simp: cstr_def)
  have "2 \<le> length endpoint" "list_all (\<lambda>c. c \<noteq> NUL) (endpoint @ path)"
    using site path(2) by (auto simp: endpoint_of_def)
  from build_url_spec [OF this, of "[]"] obtain k where
    "bx_build_url endpoint path [] = Some (url_of endpoint path [] @ replicate (Suc k) NUL)" by blast
  moreover have "url_of endpoint path [] = site @ ''/'' @ path" using site_url [OF site path(3)] by (simp add: url_of_def)
  moreover have "list_all (\<lambda>c. c \<noteq> NUL) (site @ ''/'' @ path)" using site path(2) by (simp add: endpoint_of_def)
  ultimately show ?thesis using p cstr [OF path(2), of "[]"] cstr [of "site @ ''/'' @ path" "replicate k NUL"] by simp
qed

lemma dec_plain: "0 \<le> n \<Longrightarrow> list_all (\<lambda>c. c \<noteq> NUL \<and> c \<noteq> CHR ''/'') (dec_int n)"
  using dec_nat_digits [of "nat n"] by (auto simp: dec_int_def list_all_iff is_digit_def NUL_def)

lemma dec_clean: "0 \<le> n \<Longrightarrow> list_all (\<lambda>c. c \<noteq> NUL) (dec_int n)" "0 \<le> n \<Longrightarrow> CHR ''/'' \<notin> set (dec_int n)"
  using dec_plain [of n] by (auto simp: list_all_iff)

text \<open>The URL the network asks for a format and its arguments, as \<open>bx_do_request_wait\<close> and \<open>_bx_net_fetch\<close> make it.\<close>

definition asked_url :: "string \<Rightarrow> string \<Rightarrow> BXAny ptr list \<Rightarrow> string option" where
  "asked_url endpoint fmt args = do {
     path \<leftarrow> bx_item_to_path fmt args;
     (case path of
        NULL \<Rightarrow> None
      | Ptr p \<Rightarrow> map_option cstr (bx_build_url endpoint (cstr p) []))
   }"

lemma asked_url_is:
  assumes "endpoint_of site endpoint" and "fmt \<noteq> []" "holes fmt \<le> length args" and "list_all2 prints args strs"
    and "subst_args fmt strs = path" "list_all (\<lambda>c. c \<noteq> NUL) path" "squeeze_slashes True path = path"
  shows "asked_url endpoint fmt args = Some (site @ ''/'' @ path)"
  using page_url [OF assms] by (auto simp: asked_url_def)

lemma prints_page:
  "0 \<le> n \<Longrightarrow> list_all2 prints (page_args NULL n) [''500'', dec_int n]"
  "0 \<le> n \<Longrightarrow> list_all2 prints (page_args (Ptr (ABool \<lparr>bb_isset = True, bb_value = b\<rparr>)) n)
     [''500'', dec_int n, if b then ''true'' else ''false'']"
proof -
  have "dec_int 500 = ''500''" by code_simp
  moreover have "dec_int n \<noteq> []" by (auto simp: dec_int_def)
  ultimately show "list_all2 prints (page_args NULL n) [''500'', dec_int n]"
    and "list_all2 prints (page_args (Ptr (ABool \<lparr>bb_isset = True, bb_value = b\<rparr>)) n)
      [''500'', dec_int n, if b then ''true'' else ''false'']"
    by (auto simp: page_args_def int_arg_def prints_def int2str_def bool2str_def BXILL_LIST_LIMIT_def)
qed

lemma page_paths:
  assumes "0 \<le> n"
  shows "list_all (\<lambda>c. c \<noteq> NUL) (dec_int n @ t) \<longleftrightarrow> list_all (\<lambda>c. c \<noteq> NUL) t"
    and "CHR ''/'' \<notin> set t \<Longrightarrow> squeeze_slashes prev (dec_int n @ t) = dec_int n @ t"
  using dec_clean [OF assms] by (auto intro: squeeze_plain)

text \<open>
  C40: With an endpoint that is a site with or without a slash at its end, the walks and the fetch of
  one invoice ask for the URLs of the API: the site, one slash, the path of the list, the limit, the
  offset in decimal, and for contacts whether archived ones are meant, written inside the blocks
  allocated for the path and for the URL.
\<close>

theorem chain_urls:
  assumes site: "endpoint_of site endpoint" and n: "0 \<le> n"
  shows "asked_url endpoint WALK_CONTACT_PATH (page_args (Ptr (ABool \<lparr>bb_isset = True, bb_value = archived\<rparr>)) n) =
      Some (site @ ''/2.0/contact?limit=500&offset='' @ dec_int n @ ''&show_archived='' @ (if archived then ''true'' else ''false'')) \<and>
    asked_url endpoint WALK_PROJECT_PATH (page_args NULL n) =
      Some (site @ ''/2.0/pr_project?limit=500&offset='' @ dec_int n) \<and>
    asked_url endpoint WALK_INVOICE_PATH (page_args NULL n) =
      Some (site @ ''/2.0/kb_invoice?limit=500&offset='' @ dec_int n @ ''&order_by=id'') \<and>
    asked_url endpoint GET_INVOICE_PATH [Ptr (AUInteger \<lparr>bu_isset = True, bu_value = i\<rparr>)] =
      Some (site @ ''/2.0/kb_invoice/'' @ dec_int (uint i))"
proof (intro conjI)
  note clean = page_paths [OF n] dec_clean [OF n]
  show "asked_url endpoint WALK_CONTACT_PATH (page_args (Ptr (ABool \<lparr>bb_isset = True, bb_value = archived\<rparr>)) n) =
      Some (site @ ''/2.0/contact?limit=500&offset='' @ dec_int n @ ''&show_archived='' @ (if archived then ''true'' else ''false''))"
    using asked_url_is [OF site _ _ prints_page(2) [OF n, of archived] refl, of WALK_CONTACT_PATH] clean
    by (simp add: WALK_CONTACT_PATH_def holes_def page_args_def NUL_def)
  show "asked_url endpoint WALK_PROJECT_PATH (page_args NULL n) =
      Some (site @ ''/2.0/pr_project?limit=500&offset='' @ dec_int n)"
    using asked_url_is [OF site _ _ prints_page(1) [OF n] refl, of WALK_PROJECT_PATH] clean
    by (simp add: WALK_PROJECT_PATH_def holes_def page_args_def NUL_def squeeze_plain)
  show "asked_url endpoint WALK_INVOICE_PATH (page_args NULL n) =
      Some (site @ ''/2.0/kb_invoice?limit=500&offset='' @ dec_int n @ ''&order_by=id'')"
    using asked_url_is [OF site _ _ prints_page(1) [OF n] refl, of WALK_INVOICE_PATH] clean
    by (simp add: WALK_INVOICE_PATH_def holes_def page_args_def NUL_def)
  have u: "0 \<le> uint i" "dec_int (uint i) \<noteq> []" by (auto simp: dec_int_def)
  moreover have "list_all2 prints [Ptr (AUInteger \<lparr>bu_isset = True, bu_value = i\<rparr>)] [dec_int (uint i)]"
    using u by (simp add: prints_def uint2str_def dec_int_def)
  ultimately show "asked_url endpoint GET_INVOICE_PATH [Ptr (AUInteger \<lparr>bu_isset = True, bu_value = i\<rparr>)] =
      Some (site @ ''/2.0/kb_invoice/'' @ dec_int (uint i))"
    using asked_url_is [OF site _ _ _ refl, of GET_INVOICE_PATH "[Ptr (AUInteger \<lparr>bu_isset = True, bu_value = i\<rparr>)]" "[dec_int (uint i)]"]
      dec_clean [OF u(1)]
    by (simp add: GET_INVOICE_PATH_def holes_def NUL_def squeeze_plain)
qed

theorem chain_urls_witness:
  "asked_url ''https://api.bexio.com/'' WALK_PROJECT_PATH (page_args NULL 500) =
     Some ''https://api.bexio.com/2.0/pr_project?limit=500&offset=500''"
proof -
  have "endpoint_of ''https://api.bexio.com'' ''https://api.bexio.com/''" by (simp add: endpoint_of_def NUL_def)
  moreover have "dec_int 500 = ''500''" by code_simp
  ultimately show ?thesis using chain_urls [of "''https://api.bexio.com''" "''https://api.bexio.com/''" 500] by simp
qed

end
