(* ===== verification/Bx_Queue.thy ===== *)
theory Bx_Queue
  imports Complex_Main Bx_Net
begin

text \<open>
  The queue of requests of \<open>src/src/bx_net.c\<close>: the two lists the data threads and the request
  thread share, and the request thread itself, step by step. Critical sections of the data
  threads are one step each, as is every critical section under the lock of the finished list;
  the lock of the waiting list is a part of the state, because the request thread keeps it
  while it waits for work and while it leaves.
\<close>

section \<open>The lists\<close>

record BXNetRequestList =
  ql_run :: bool
  ql_standby :: bool
  ql_next_id :: u64
  ql_in :: "BXNetRequest list"
  ql_out :: "BXNetRequest list"
  ql_in_held :: bool

definition bx_net_request_list_init :: BXNetRequestList where
  "bx_net_request_list_init =
     \<lparr>ql_run = True, ql_standby = False, ql_next_id = 0, ql_in = [], ql_out = [], ql_in_held = False\<rparr>"

text \<open>An operation that needs the lock of the waiting list has no result while it is held.\<close>

definition bx_net_request_list_add :: "BXNetRequestList \<Rightarrow> BXNetRequest \<Rightarrow> (u64 \<times> BXNetRequestList) option" where
  "bx_net_request_list_add list request =
     (if ql_in_held list then None
      else
        (let i = ql_next_id list + 1 in
         Some (i, list\<lparr>ql_next_id := i, ql_in := request\<lparr>rq_id := i\<rparr> # ql_in list\<rparr>)))"

fun unlink_request :: "u64 \<Rightarrow> BXNetRequest list \<Rightarrow> (BXNetRequest \<times> BXNetRequest list) option" where
  "unlink_request request_id [] = None"
| "unlink_request request_id (current # rest) =
     (if rq_id current = request_id then Some (current, rest)
      else map_option (\<lambda>(found, rest'). (found, current # rest')) (unlink_request request_id rest))"

datatype finished = Finished BXNetRequest | Stopped | Waiting

text \<open>One turn of the loop: the caller has its request, learns that the queue stopped, or waits.\<close>

definition bx_net_request_list_get_finished :: "BXNetRequestList \<Rightarrow> u64 \<Rightarrow> finished \<times> BXNetRequestList" where
  "bx_net_request_list_get_finished list request_id =
     (case unlink_request request_id (ql_out list) of
        Some (current, out) \<Rightarrow> (Finished current, list\<lparr>ql_out := out\<rparr>)
      | None \<Rightarrow> (if \<not> ql_run list then Stopped else Waiting, list))"

text \<open>The lock of the waiting list stays held.\<close>

definition bx_net_request_list_cancel :: "BXNetRequestList \<Rightarrow> BXNetRequestList option" where
  "bx_net_request_list_cancel list =
     (if ql_in_held list then None
      else
        (let l = map (\<lambda>current. current\<lparr>rq_cancel := True\<rparr>) (ql_in list) in
         Some (list\<lparr>ql_in := [], ql_out := (if ql_out list = [] then l else ql_out list @ l), ql_in_held := True\<rparr>)))"

text \<open>What is freed, in this order.\<close>

definition bx_net_request_list_destroy :: "BXNetRequestList \<Rightarrow> BXNetRequest list" where
  "bx_net_request_list_destroy list = (if ql_out list = [] then ql_in list else ql_out list @ ql_in list)"

section \<open>The pause between two requests\<close>

text \<open>
  Single precision numbers. \<open>rnd\<close> is the rounding of a result and \<open>cvt\<close> the conversion to \<open>int\<close>,
  which C leaves open for numbers that do not fit; a signed product that overflows wraps.
\<close>

datatype fl = Fin rat | PInf | MInf | NaN

definition fdiv :: "(rat \<Rightarrow> fl) \<Rightarrow> fl \<Rightarrow> fl \<Rightarrow> fl" where
  "fdiv rnd x y =
     (case (x, y) of
        (Fin a, Fin b) \<Rightarrow>
          if b = 0 then (if a = 0 then NaN else if a > 0 then PInf else MInf) else rnd (a / b)
      | (Fin a, PInf) \<Rightarrow> Fin 0
      | (Fin a, MInf) \<Rightarrow> Fin 0
      | (PInf, Fin b) \<Rightarrow> if b < 0 then MInf else PInf
      | (MInf, Fin b) \<Rightarrow> if b < 0 then PInf else MInf
      | _ \<Rightarrow> NaN)"

definition fadd :: "(rat \<Rightarrow> fl) \<Rightarrow> fl \<Rightarrow> fl \<Rightarrow> fl" where
  "fadd rnd x y =
     (case (x, y) of
        (Fin a, Fin b) \<Rightarrow> rnd (a + b)
      | (NaN, _) \<Rightarrow> NaN
      | (_, NaN) \<Rightarrow> NaN
      | (PInf, MInf) \<Rightarrow> NaN
      | (MInf, PInf) \<Rightarrow> NaN
      | (Fin a, _) \<Rightarrow> y
      | _ \<Rightarrow> x)"

definition BX_NET_DEFAULT_US_SLEEP :: int where
  "BX_NET_DEFAULT_US_SLEEP = 125 * 1000"

definition next_us_sleep :: "(rat \<Rightarrow> fl) \<Rightarrow> (fl \<Rightarrow> int) \<Rightarrow> BXNetRatelimit \<Rightarrow> u64 \<Rightarrow> int \<Rightarrow> int" where
  "next_us_sleep rnd cvt limits request_count us_sleep =
     (let us_sleep_1 =
            (if li_max_request limits = 0 then rnd (of_int BX_NET_DEFAULT_US_SLEEP)
             else fdiv rnd (rnd (of_int (to_int32 (li_reset_time limits * 1000 * 1000)))) (rnd (of_int (li_remaining_request limits))));
          sum = fadd rnd us_sleep_1 (rnd (of_nat (unat (word_of_int us_sleep * (request_count - 1)))));
          v = cvt (fdiv rnd sum (rnd (of_nat (unat request_count))))
      in if v \<le> 0 \<or> v > BX_NET_DEFAULT_US_SLEEP then BX_NET_DEFAULT_US_SLEEP else v)"

section \<open>The request thread\<close>

text \<open>Where the thread is; \<open>W_FETCH\<close> and \<open>W_PUT\<close> hold the request it works on.\<close>

datatype worker_pc =
    W_TEST
  | W_LOCK
  | W_CHECK
  | W_WAIT
  | W_WOKEN
  | W_FETCH BXNetRequest
  | W_PUT BXNetRequest
  | W_PACE
  | W_CANCEL
  | W_UNLOCK
  | W_GONE

text \<open>The last of the waiting list, which is the oldest, and the others.\<close>

fun take_oldest :: "BXNetRequest list \<Rightarrow> (BXNetRequest \<times> BXNetRequest list) option" where
  "take_oldest [] = None"
| "take_oldest [request] = Some (request, [])"
| "take_oldest (previous # rest) = map_option (\<lambda>(request, rest'). (request, previous # rest')) (take_oldest rest)"

record 'n queue_config =
  qc_list :: BXNetRequestList
  qc_pc :: worker_pc
  qc_standby :: bool
  qc_us_sleep :: int
  qc_net :: 'n

definition needs_standby :: "int \<Rightarrow> bool" where
  "needs_standby http_code \<longleftrightarrow> http_code = 429 \<or> http_code = 500 \<or> http_code = 503"

text \<open>What the answer makes of the request, of the standby flag of the thread and of the shared one.\<close>

definition take_answer :: "BXNetRData ptr \<Rightarrow> BXNetRequest \<Rightarrow> bool \<Rightarrow> bool \<Rightarrow> BXNetRequest \<times> bool \<times> bool" where
  "take_answer response request standby list_standby =
     (case response of
        NULL \<Rightarrow> (request\<lparr>rq_response := NULL, rq_cancel := True, rq_done := True\<rparr>, True, list_standby)
      | Ptr data \<Rightarrow>
          (let request1 = request\<lparr>rq_response := Ptr data, rq_cancel := False, rq_done := True\<rparr> in
           if needs_standby (rd_http_code data)
           then (request1, True, if \<not> standby then True else list_standby)
           else (request1, False, if standby then False else list_standby)))"

datatype queue_event =
    Added u64
  | Taken u64
  | Got u64 BXNetRequest
  | Told_Stopped u64
  | Stop
  | Quiet

text \<open>
  \<open>fetch\<close> is the request over the network and \<open>pause\<close> the next pause; there is no step while a
  lock the thread wants is held, or when the fetch has none.
\<close>

definition worker_step :: "(string \<Rightarrow> (string \<times> string) list \<Rightarrow> 'n \<Rightarrow> (BXNetRData ptr \<times> 'n) option) \<Rightarrow> ('n \<Rightarrow> int \<Rightarrow> int)
    \<Rightarrow> 'n queue_config \<Rightarrow> (queue_event \<times> 'n queue_config) option" where
  "worker_step fetch pause c =
     (let list = qc_list c in
      case qc_pc c of
        W_TEST \<Rightarrow> Some (Quiet, c\<lparr>qc_pc := if ql_run list then W_LOCK else W_CANCEL\<rparr>)
      | W_LOCK \<Rightarrow>
          if ql_in_held list then None
          else Some (Quiet, c\<lparr>qc_list := list\<lparr>ql_in_held := True\<rparr>, qc_pc := W_CHECK\<rparr>)
      | W_CHECK \<Rightarrow>
          (case take_oldest (ql_in list) of
             None \<Rightarrow> Some (Quiet, c\<lparr>qc_list := list\<lparr>ql_in_held := False\<rparr>, qc_pc := W_WAIT\<rparr>)
           | Some (request, rest) \<Rightarrow>
               Some (Taken (rq_id request), c\<lparr>qc_list := list\<lparr>ql_in := rest, ql_in_held := False\<rparr>, qc_pc := W_FETCH request\<rparr>))
      | W_WAIT \<Rightarrow>
          if ql_in_held list then None
          else Some (Quiet, c\<lparr>qc_list := list\<lparr>ql_in_held := True\<rparr>, qc_pc := W_WOKEN\<rparr>)
      | W_WOKEN \<Rightarrow> Some (Quiet, c\<lparr>qc_pc := if \<not> ql_run list then W_CANCEL else W_CHECK\<rparr>)
      | W_FETCH request \<Rightarrow>
          map_option (\<lambda>(response, net).
              let (request1, standby, list_standby) = take_answer response request (qc_standby c) (ql_standby list) in
              (Quiet, c\<lparr>qc_list := list\<lparr>ql_standby := list_standby\<rparr>, qc_standby := standby, qc_net := net,
                        qc_pc := W_PUT request1\<rparr>))
            (fetch (rq_path request) (rq_params request) (qc_net c))
      | W_PUT request \<Rightarrow>
          Some (Quiet, c\<lparr>qc_list := list\<lparr>ql_out := request # ql_out list\<rparr>, qc_pc := W_PACE\<rparr>)
      | W_PACE \<Rightarrow> Some (Quiet, c\<lparr>qc_us_sleep := pause (qc_net c) (qc_us_sleep c), qc_pc := W_TEST\<rparr>)
      | W_CANCEL \<Rightarrow>
          map_option (\<lambda>list1. (Quiet, c\<lparr>qc_list := list1, qc_pc := W_UNLOCK\<rparr>)) (bx_net_request_list_cancel list)
      | W_UNLOCK \<Rightarrow> Some (Quiet, c\<lparr>qc_list := list\<lparr>ql_in_held := False\<rparr>, qc_pc := W_GONE\<rparr>)
      | W_GONE \<Rightarrow> None)"

definition bx_net_loop :: "'n \<Rightarrow> 'n queue_config" where
  "bx_net_loop net =
     \<lparr>qc_list = bx_net_request_list_init, qc_pc = W_TEST, qc_standby = False,
      qc_us_sleep = BX_NET_DEFAULT_US_SLEEP, qc_net = net\<rparr>"

text \<open>The request thread of the program: the fetch and the limits are those of the network.\<close>

definition net_fetch :: "(string \<Rightarrow> u64) \<Rightarrow> 'w oauth_env \<Rightarrow> (string \<Rightarrow> string \<Rightarrow> 'w \<Rightarrow> curl_answer \<times> 'w)
    \<Rightarrow> string \<Rightarrow> (string \<times> string) list \<Rightarrow> BXNet \<times> 'w \<Rightarrow> (BXNetRData ptr \<times> BXNet \<times> 'w) option" where
  "net_fetch xxh env perform path params n = bx_fetch xxh env perform path params (fst n) (snd n)"

definition bx_net_loop_worker :: "(string \<Rightarrow> u64) \<Rightarrow> 'w oauth_env \<Rightarrow> (string \<Rightarrow> string \<Rightarrow> 'w \<Rightarrow> curl_answer \<times> 'w)
    \<Rightarrow> (rat \<Rightarrow> fl) \<Rightarrow> (fl \<Rightarrow> int) \<Rightarrow> (BXNet \<times> 'w) queue_config \<Rightarrow> (queue_event \<times> (BXNet \<times> 'w) queue_config) option" where
  "bx_net_loop_worker xxh env perform rnd cvt =
     worker_step (net_fetch xxh env perform)
       (\<lambda>n us_sleep. next_us_sleep rnd cvt (ne_limits (fst n)) (ne_request_count (fst n)) us_sleep)"

section \<open>The threads together\<close>

text \<open>Data threads add requests and look for finished ones, the main thread stops the queue.\<close>

inductive queue_step :: "('n queue_config \<Rightarrow> (queue_event \<times> 'n queue_config) option) \<Rightarrow> 'n queue_config \<Rightarrow> queue_event \<Rightarrow> 'n queue_config \<Rightarrow> bool"
  for worker where
  add: "bx_net_request_list_add (qc_list c) request = Some (i, list) \<Longrightarrow> queue_step worker c (Added i) (c\<lparr>qc_list := list\<rparr>)"
| get: "bx_net_request_list_get_finished (qc_list c) i = (Finished request, list) \<Longrightarrow>
    queue_step worker c (Got i request) (c\<lparr>qc_list := list\<rparr>)"
| told: "bx_net_request_list_get_finished (qc_list c) i = (Stopped, list) \<Longrightarrow>
    queue_step worker c (Told_Stopped i) (c\<lparr>qc_list := list\<rparr>)"
| stop: "queue_step worker c Stop (c\<lparr>qc_list := (qc_list c)\<lparr>ql_run := False\<rparr>\<rparr>)"
| work: "worker c = Some (e, c') \<Longrightarrow> queue_step worker c e c'"

inductive queue_run :: "('n queue_config \<Rightarrow> (queue_event \<times> 'n queue_config) option) \<Rightarrow> 'n queue_config \<Rightarrow> queue_event list \<Rightarrow> 'n queue_config \<Rightarrow> bool"
  for worker where
  start: "queue_run worker c [] c"
| next_step: "queue_run worker c es c1 \<Longrightarrow> queue_step worker c1 e c2 \<Longrightarrow> queue_run worker c (es @ [e]) c2"

end
