(* ===== verification/Bx_Queue_Properties.thy ===== *)
theory Bx_Queue_Properties
  imports Bx_Queue Bx_Net_Properties "HOL-Library.Multiset" "HOL-Library.Sublist"
begin

text \<open>
  What the queue of requests guarantees, whatever the order in which the threads run: no
  request is lost, handed out twice or handed to another caller, requests are served in the
  order they were added, a request that is handed back was answered or cancelled; and what
  happens when the queue is stopped.
\<close>

section \<open>First in, first out\<close>

locale fifo =
  fixes put :: "'a \<Rightarrow> 'q \<Rightarrow> 'q" and take_next :: "'q \<Rightarrow> ('a \<times> 'q) option" and items :: "'q \<Rightarrow> 'a list"
  assumes items_put: "items (put x q) = items q @ [x]"
    and take_empty: "take_next q = None \<longleftrightarrow> items q = []"
    and take_items: "take_next q = Some (x, q') \<Longrightarrow> items q = x # items q'"
begin

lemma take_nonempty: "items q \<noteq> [] \<Longrightarrow> \<exists>q'. take_next q = Some (hd (items q), q') \<and> items q' = tl (items q)"
  using take_empty [of q] take_items by (cases "take_next q") fastforce+

lemma put_take: "take_next q = Some (x, q') \<Longrightarrow> \<exists>q''. take_next (put y q) = Some (x, q'') \<and> items q'' = items q' @ [y]"
  using take_nonempty [of "put y q"] take_items [of q x q'] items_put [of y q] by auto

end

lemma take_oldest_rev: "take_oldest q = (case rev q of [] \<Rightarrow> None | r # rs \<Rightarrow> Some (r, rev rs))"
proof (induction q rule: take_oldest.induct)
  case (3 previous request rest)
  obtain a l where "rev (request # rest) = a # l" by (cases "rev (request # rest)") auto
  then have "rev (previous # request # rest) = a # l @ [previous]" "take_oldest (request # rest) = Some (a, rev l)"
    using 3 by (simp_all only: rev.simps(2) [of previous] append_Cons list.case)
  then show ?case by (simp only: take_oldest.simps) simp
qed simp_all

interpretation in_list: fifo "(#)" take_oldest rev
  by unfold_locales (auto simp: take_oldest_rev split: list.splits)

section \<open>What happened\<close>

definition added :: "queue_event list \<Rightarrow> u64 list" where
  "added es = concat (map (\<lambda>e. case e of Added i \<Rightarrow> [i] | _ \<Rightarrow> []) es)"

definition taken :: "queue_event list \<Rightarrow> u64 list" where
  "taken es = concat (map (\<lambda>e. case e of Taken i \<Rightarrow> [i] | _ \<Rightarrow> []) es)"

definition got :: "queue_event list \<Rightarrow> u64 list" where
  "got es = concat (map (\<lambda>e. case e of Got i r \<Rightarrow> [i] | _ \<Rightarrow> []) es)"

lemma logs_Nil [simp]: "added [] = []" "taken [] = []" "got [] = []"
  by (simp_all add: added_def taken_def got_def)

lemma logs_snoc [simp]:
  "added (es @ [e]) = added es @ (case e of Added i \<Rightarrow> [i] | _ \<Rightarrow> [])"
  "taken (es @ [e]) = taken es @ (case e of Taken i \<Rightarrow> [i] | _ \<Rightarrow> [])"
  "got (es @ [e]) = got es @ (case e of Got i r \<Rightarrow> [i] | _ \<Rightarrow> [])"
  by (simp_all add: added_def taken_def got_def)

definition in_work :: "worker_pc \<Rightarrow> BXNetRequest list" where
  "in_work pc = (case pc of W_FETCH r \<Rightarrow> [r] | W_PUT r \<Rightarrow> [r] | _ \<Rightarrow> [])"

text \<open>The requests in the hands of the queue, and those that are ready.\<close>

definition ids :: "BXNetRequest list \<Rightarrow> u64 list" where
  "ids rs = map rq_id rs"

lemma ids_simps [simp]: "ids [] = []" "ids (r # rs) = rq_id r # ids rs" "ids (rs @ rs') = ids rs @ ids rs'" "ids (rev rs) = rev (ids rs)"
  by (simp_all add: ids_def rev_map)

definition ready :: "BXNetRequest \<Rightarrow> bool" where
  "ready r \<longleftrightarrow> rq_cancel r \<or> rq_done r \<and> rq_response r \<noteq> NULL"

text \<open>The request thread is past the last request it takes.\<close>

definition leaving :: "worker_pc \<Rightarrow> bool" where
  "leaving pc \<longleftrightarrow> pc = W_UNLOCK \<or> pc = W_GONE"

text \<open>The numbers the queue gives.\<close>

definition numbered :: "u64 list \<Rightarrow> bool" where
  "numbered ns \<longleftrightarrow> ns = map of_nat [1..<length ns + 1]"

lemma numbered_snoc: "numbered ns \<Longrightarrow> numbered (ns @ [of_nat (length ns) + 1])"
  unfolding numbered_def by (simp add: add.commute)

definition queue_ok :: "queue_event list \<Rightarrow> 'n queue_config \<Rightarrow> bool" where
  "queue_ok es c \<longleftrightarrow>
     numbered (added es) \<and> ql_next_id (qc_list c) = of_nat (length (added es)) \<and>
     mset (added es) = mset (ids (ql_in (qc_list c))) + mset (ids (in_work (qc_pc c))) + mset (ids (ql_out (qc_list c))) + mset (got es) \<and>
     (if leaving (qc_pc c) then prefix (taken es) (added es) else added es = taken es @ rev (ids (ql_in (qc_list c)))) \<and>
     list_all ready (ql_out (qc_list c)) \<and>
     (\<forall>r. qc_pc c = W_PUT r \<longrightarrow> ready r) \<and>
     (\<forall>i r. Got i r \<in> set es \<longrightarrow> rq_id r = i \<and> ready r)"

lemma unlink_found:
  "unlink_request i rs = Some (r, rs') \<Longrightarrow> rq_id r = i \<and> mset rs = add_mset r (mset rs')"
  by (induction rs arbitrary: rs') (auto split: if_splits)

lemma queue_ok_start: "queue_ok [] (bx_net_loop net)"
  by (simp add: queue_ok_def numbered_def bx_net_loop_def bx_net_request_list_init_def in_work_def leaving_def)

lemma queue_ok_add:
  assumes "queue_ok es c" and "bx_net_request_list_add (qc_list c) request = Some (i, list)"
  shows "queue_ok (es @ [Added i]) (c\<lparr>qc_list := list\<rparr>)"
  using assms numbered_snoc [of "added es"]
  by (auto simp: queue_ok_def bx_net_request_list_add_def Let_def split: if_splits)

lemma queue_ok_get:
  assumes "queue_ok es c" and "bx_net_request_list_get_finished (qc_list c) i = (Finished r, list)"
  shows "queue_ok (es @ [Got i r]) (c\<lparr>qc_list := list\<rparr>)"
proof -
  obtain out where u: "unlink_request i (ql_out (qc_list c)) = Some (r, out)" and l: "list = (qc_list c)\<lparr>ql_out := out\<rparr>"
    using assms(2) by (auto simp: bx_net_request_list_get_finished_def split: option.splits prod.splits if_splits)
  have f: "rq_id r = i" "mset (ql_out (qc_list c)) = add_mset r (mset out)" using unlink_found [OF u] by auto
  then have "mset (ids (ql_out (qc_list c))) = add_mset i (mset (ids out))" by (simp add: ids_def)
  moreover have "set (ql_out (qc_list c)) = insert r (set out)" using f(2) by (metis set_mset_add_mset_insert set_mset_mset)
  ultimately show ?thesis using assms(1) f(1) l by (auto simp: queue_ok_def list_all_iff)
qed

lemma take_answer_ready: "take_answer response request s ls = (r, s', ls') \<Longrightarrow> ready r \<and> rq_id r = rq_id request"
  by (cases response) (auto simp: take_answer_def ready_def Let_def split: if_splits)

lemma ready_cancelled: "list_all ready (map (\<lambda>r. r\<lparr>rq_cancel := True\<rparr>) rs)" "ids (map (\<lambda>r. r\<lparr>rq_cancel := True\<rparr>) rs) = ids rs"
  by (simp_all add: list_all_iff ready_def ids_def)

lemma queue_ok_work:
  assumes "queue_ok es c" and "worker_step fetch pause c = Some (e, c')"
  shows "queue_ok (es @ [e]) c'"
proof (cases "qc_pc c")
  case W_CHECK
  show ?thesis
  proof (cases "take_oldest (ql_in (qc_list c))")
    case None
    with W_CHECK assms show ?thesis by (auto simp: worker_step_def Let_def queue_ok_def in_work_def leaving_def)
  next
    case (Some p)
    then obtain request rest where p: "take_oldest (ql_in (qc_list c)) = Some (request, rest)" by (cases p) auto
    then have "ql_in (qc_list c) = rest @ [request]" using in_list.take_items [OF p] by (simp add: rev_eq_Cons_iff)
    with W_CHECK assms p show ?thesis
      by (auto simp: worker_step_def Let_def queue_ok_def in_work_def leaving_def)
  qed
next
  case (W_FETCH r)
  then obtain response net where f: "fetch (rq_path r) (rq_params r) (qc_net c) = Some (response, net)"
    using assms(2) by (auto simp: worker_step_def Let_def)
  obtain r1 s ls where a: "take_answer response r (qc_standby c) (ql_standby (qc_list c)) = (r1, s, ls)"
    by (cases "take_answer response r (qc_standby c) (ql_standby (qc_list c))") auto
  have "e = Quiet" "c' = c\<lparr>qc_list := (qc_list c)\<lparr>ql_standby := ls\<rparr>, qc_standby := s, qc_net := net, qc_pc := W_PUT r1\<rparr>"
    using W_FETCH assms(2) f a by (auto simp: worker_step_def Let_def)
  with take_answer_ready [OF a] W_FETCH assms(1) show ?thesis
    by (auto simp: queue_ok_def in_work_def leaving_def)
next
  case W_CANCEL
  with assms ready_cancelled [of "ql_in (qc_list c)"] show ?thesis
    by (auto simp: worker_step_def Let_def bx_net_request_list_cancel_def queue_ok_def in_work_def leaving_def split: if_splits)
qed (use assms in \<open>auto simp: worker_step_def Let_def queue_ok_def in_work_def leaving_def split: if_splits\<close>)

lemma queue_ok_step:
  assumes "queue_step (worker_step fetch pause) c e c'" and "queue_ok es c"
  shows "queue_ok (es @ [e]) c'"
  using assms
proof (cases rule: queue_step.cases)
  case (told i list)
  then have "list = qc_list c"
    by (auto simp: bx_net_request_list_get_finished_def split: option.splits prod.splits if_splits)
  with told assms(2) show ?thesis by (simp add: queue_ok_def)
next
  case stop
  with assms(2) show ?thesis by (simp add: queue_ok_def)
qed (use assms(2) queue_ok_add queue_ok_get queue_ok_work in fast)+

lemma queue_ok_run: "queue_run (worker_step fetch pause) c es c' \<Longrightarrow> queue_ok [] c \<Longrightarrow> queue_ok es c'"
  by (induction rule: queue_run.induct) (auto intro: queue_ok_step)

lemma worker_run_ok:
  assumes "queue_run (bx_net_loop_worker xxh env perform rnd cvt) (bx_net_loop n) es c"
  shows "queue_ok es c"
  by (rule queue_ok_run [OF assms [unfolded bx_net_loop_worker_def] queue_ok_start])

lemma numbered_distinct:
  assumes "numbered ns" and "length ns < 2 ^ 64"
  shows "distinct ns"
proof -
  have "inj_on (of_nat :: nat \<Rightarrow> u64) {1..<length ns + 1}"
  proof (rule inj_onI)
    fix m n
    assume "m \<in> {1..<length ns + 1}" "n \<in> {1..<length ns + 1}" and e: "(of_nat m :: u64) = of_nat n"
    then have "m < 2 ^ 64" "n < 2 ^ 64" using assms(2) by auto
    with arg_cong [OF e, of unat] show "m = n" by (simp add: unat_of_nat)
  qed
  then have "distinct (map (of_nat :: nat \<Rightarrow> u64) [1..<length ns + 1])" by (simp only: distinct_map distinct_upt set_upt simp_thms)
  then show ?thesis using assms(1) unfolding numbered_def by metis
qed

section \<open>The request thread alone\<close>

fun worker_iter :: "('n queue_config \<Rightarrow> (queue_event \<times> 'n queue_config) option) \<Rightarrow> nat \<Rightarrow> 'n queue_config \<Rightarrow> 'n queue_config option" where
  "worker_iter worker 0 c = Some c"
| "worker_iter worker (Suc n) c = (case worker c of None \<Rightarrow> None | Some (e, c') \<Rightarrow> worker_iter worker n c')"

lemma worker_iter_add: "worker_iter worker (m + n) c = worker_iter worker m c \<bind> worker_iter worker n"
  by (induction m arbitrary: c) (auto split: option.splits)

text \<open>A request thread that is at rest and whose connection is in order.\<close>

definition net_ready :: "BXNet \<Rightarrow> bool" where
  "net_ready net \<longleftrightarrow> unlocked (ne_oauth net) \<and> \<not> oa_refreshing (ne_oauth net) \<and> 2 \<le> length (ne_endpoint net) \<and>
     list_all (\<lambda>c. c \<noteq> NUL) (ne_endpoint net)"

definition at_rest :: "(BXNet \<times> 'w) queue_config \<Rightarrow> bool" where
  "at_rest c \<longleftrightarrow> qc_pc c = W_TEST \<and> ql_run (qc_list c) \<and> \<not> ql_in_held (qc_list c) \<and> net_ready (fst (qc_net c))"

text \<open>A server none of whose answers is read past its end.\<close>

definition never_over_read :: "(string \<Rightarrow> string \<Rightarrow> 'w \<Rightarrow> curl_answer \<times> 'w) \<Rightarrow> bool" where
  "never_over_read perform \<longleftrightarrow> (\<forall>url auth w. \<not> over_read (fst (perform url auth w)))"

text \<open>A request as the program makes it: a path and parameters that were added to it.\<close>

definition made :: "BXNetRequest \<Rightarrow> bool" where
  "made r \<longleftrightarrow> list_all (\<lambda>c. c \<noteq> NUL) (rq_path r) \<and> (\<exists>ps. list_all plain_param ps \<and> rq_params r = map encode_param ps)"

lemma fetch_ready:
  assumes "net_ready (fst n)" and "made r" and "never_over_read perform"
  shows "\<exists>response n'. net_fetch xxh env perform (rq_path r) (rq_params r) n = Some (response, n') \<and> net_ready (fst n')"
proof -
  obtain ps where ps: "list_all plain_param ps" "rq_params r = map encode_param ps"
    using assms(2) by (auto simp: made_def)
  have ok: "list_all (\<lambda>c. c \<noteq> NUL) (ne_endpoint (fst n) @ rq_path r)" "2 \<le> length (ne_endpoint (fst n))"
      "unlocked (ne_oauth (fst n))" "\<not> oa_refreshing (ne_oauth (fst n))"
    using assms(1,2) by (simp_all add: net_ready_def made_def)
  obtain response net' w' where "bx_fetch xxh env perform (rq_path r) (map encode_param ps) (fst n) (snd n) = Some (response, net', w')"
      "unlocked (ne_oauth net')" "\<not> oa_refreshing (ne_oauth net')" "ne_endpoint net' = ne_endpoint (fst n)"
    using fetch_outcome [OF ok(3,4,2,1) ps(1), of perform xxh env "snd n"] assms(3)
    by (auto simp: never_over_read_def fetched_def split: option.splits)
  then show ?thesis using assms(1) ps(2) by (auto simp: net_fetch_def net_ready_def)
qed

lemma serves_one:
  assumes "at_rest c" and "ql_in (qc_list c) = rest @ [r]" and "made r" and "never_over_read perform"
  shows "\<exists>c' r'. worker_iter (bx_net_loop_worker xxh env perform rnd cvt) 6 c = Some c' \<and> at_rest c' \<and>
    ql_in (qc_list c') = rest \<and> ql_out (qc_list c') = r' # ql_out (qc_list c) \<and> rq_id r' = rq_id r \<and> ready r'"
proof -
  obtain response n' where f: "net_fetch xxh env perform (rq_path r) (rq_params r) (qc_net c) = Some (response, n')"
    and n: "net_ready (fst n')"
    using fetch_ready [OF _ assms(3,4)] assms(1) unfolding at_rest_def by blast
  obtain r' s ls where a: "take_answer response r (qc_standby c) (ql_standby (qc_list c)) = (r', s, ls)"
    by (cases "take_answer response r (qc_standby c) (ql_standby (qc_list c))") auto
  show ?thesis
    using assms(1,2) f n a take_answer_ready [OF a]
    by (auto simp: at_rest_def bx_net_loop_worker_def worker_step_def take_oldest_rev Let_def numeral_eq_Suc)
qed

lemma serves_all:
  assumes "at_rest c" and "list_all made (ql_in (qc_list c))" and "never_over_read perform"
  shows "\<exists>c'. worker_iter (bx_net_loop_worker xxh env perform rnd cvt) (6 * length (ql_in (qc_list c))) c = Some c' \<and>
    at_rest c' \<and> ql_in (qc_list c') = [] \<and> ids (ql_out (qc_list c')) = ids (ql_in (qc_list c)) @ ids (ql_out (qc_list c))"
  using assms
proof (induction "ql_in (qc_list c)" arbitrary: c rule: rev_induct)
  case Nil
  then show ?case by simp
next
  case (snoc r rest)
  let ?worker = "bx_net_loop_worker xxh env perform rnd cvt"
  have made: "made r" using snoc.prems(2) snoc.hyps(2) [symmetric] by simp
  obtain c1 r' where one: "worker_iter ?worker 6 c = Some c1" "at_rest c1" "ql_in (qc_list c1) = rest"
      "ql_out (qc_list c1) = r' # ql_out (qc_list c)" "rq_id r' = rq_id r"
    using serves_one [OF snoc.prems(1) snoc.hyps(2) [symmetric] _ snoc.prems(3), of xxh env rnd cvt] made by blast
  have "list_all made (ql_in (qc_list c1))" using snoc.prems(2) snoc.hyps(2) [symmetric] one(3) by simp
  then obtain c' where rest: "worker_iter ?worker (6 * length rest) c1 = Some c'" "at_rest c'" "ql_in (qc_list c') = []"
      "ids (ql_out (qc_list c')) = ids rest @ ids (ql_out (qc_list c1))"
    using snoc.hyps(1) [of c1] one(2,3) snoc.prems(3) by auto
  have "worker_iter ?worker (6 + 6 * length rest) c = Some c'" using worker_iter_add [of ?worker 6] one(1) rest(1) by simp
  then show ?case using rest one(4,5) snoc.hyps(2) [symmetric] by (intro exI [of _ c']) (simp add: algebra_simps)
qed

section \<open>Leaving\<close>

text \<open>The request thread wants a lock it holds.\<close>

definition self_locked :: "'n queue_config \<Rightarrow> bool" where
  "self_locked c \<longleftrightarrow> qc_pc c = W_CANCEL \<and> ql_in_held (qc_list c)"

lemma self_locked_step:
  assumes "queue_step (worker_step fetch pause) c e c'" and "self_locked c"
  shows "self_locked c' \<and> (\<forall>i. e \<noteq> Added i)"
  using assms
  by (auto simp: self_locked_def bx_net_request_list_add_def bx_net_request_list_get_finished_def worker_step_def
        bx_net_request_list_cancel_def elim!: queue_step.cases split: if_splits option.splits prod.splits)

lemma self_locked_run:
  "queue_run (worker_step fetch pause) c es c' \<Longrightarrow> self_locked c \<Longrightarrow> self_locked c' \<and> added es = []"
  by (induction rule: queue_run.induct) (auto dest: self_locked_step split: queue_event.split)

section \<open>A sample\<close>

definition sample_net :: BXNet where
  "sample_net = \<lparr>ne_oauth = sample_oauth False False, ne_endpoint = ''https://api'',
     ne_limits = \<lparr>li_max_request = 0, li_remaining_request = 0, li_reset_time = 0\<rparr>, ne_request_count = 0\<rparr>"

definition sample_perform :: "string \<Rightarrow> string \<Rightarrow> (string \<Rightarrow> (string ptr \<times> string ptr) option) \<Rightarrow> curl_answer \<times> (string \<Rightarrow> (string ptr \<times> string ptr) option)" where
  "sample_perform url auth w = (\<lparr>cu_headers = [], cu_chunks = [''[]''], cu_ok = True, cu_code = 200\<rparr>, w)"

definition sample_worker :: "(BXNet \<times> (string \<Rightarrow> (string ptr \<times> string ptr) option)) queue_config \<Rightarrow> (queue_event \<times> (BXNet \<times> (string \<Rightarrow> (string ptr \<times> string ptr) option)) queue_config) option" where
  "sample_worker = bx_net_loop_worker (\<lambda>_. 0) table_env sample_perform Fin (\<lambda>_. 1)"

definition sample_start :: "(BXNet \<times> (string \<Rightarrow> (string ptr \<times> string ptr) option)) queue_config" where
  "sample_start = bx_net_loop (sample_net, \<lambda>_. None)"

definition sample_waiting :: "(BXNet \<times> (string \<Rightarrow> (string ptr \<times> string ptr) option)) queue_config" where
  "sample_waiting = sample_start\<lparr>qc_list := bx_net_request_list_init\<lparr>ql_next_id := 1,
     ql_in := [(bx_net_request_new ''2.0/contact'')\<lparr>rq_id := 1\<rparr>]\<rparr>\<rparr>"

lemma sample_readable: "never_over_read sample_perform"
  by (simp add: never_over_read_def over_read_def sample_perform_def)

lemma sample_waiting_ok:
  "at_rest sample_waiting" "list_all made (ql_in (qc_list sample_waiting))" "length (ql_in (qc_list sample_waiting)) = 1"
  "ids (ql_in (qc_list sample_waiting)) = [1]" "ids (ql_out (qc_list sample_waiting)) = []"
  using sample_oauth_flags
  by (simp_all add: at_rest_def net_ready_def sample_waiting_def sample_start_def bx_net_loop_def sample_net_def
        bx_net_request_list_init_def made_def bx_net_request_new_def NUL_def)

lemma worker_event: "worker_step fetch pause c = Some (e, c') \<Longrightarrow> e \<noteq> Added i"
  by (auto simp: worker_step_def Let_def split_beta split: worker_pc.splits if_splits option.splits)

lemma iter_run:
  assumes "worker_iter (worker_step fetch pause) n c = Some c'" and "queue_run (worker_step fetch pause) c0 es c"
  shows "\<exists>es'. queue_run (worker_step fetch pause) c0 (es @ es') c' \<and> added es' = []"
  using assms
proof (induction n arbitrary: c es)
  case 0
  then show ?case by (intro exI [of _ "[]"]) simp
next
  case (Suc n)
  then obtain e c1 where w: "worker_step fetch pause c = Some (e, c1)" "worker_iter (worker_step fetch pause) n c1 = Some c'"
    by (auto split: option.splits)
  have "queue_run (worker_step fetch pause) c0 (es @ [e]) c1"
    using queue_run.next_step [OF Suc.prems(2) queue_step.work [of "worker_step fetch pause", OF w(1)]] .
  from Suc.IH [OF w(2) this] obtain es' where "queue_run (worker_step fetch pause) c0 ((es @ [e]) @ es') c'" "added es' = []"
    by blast
  then show ?case using worker_event [OF w(1)] by (intro exI [of _ "e # es'"]) (auto simp: added_def split: queue_event.split)
qed

lemma sample_run: "\<exists>es c r. queue_run sample_worker sample_start es c \<and> Got 1 r \<in> set es \<and> added es = [1]"
proof -
  have "bx_net_request_list_add (qc_list sample_start) (bx_net_request_new ''2.0/contact'') = Some (1, qc_list sample_waiting)"
    by (simp add: bx_net_request_list_add_def sample_waiting_def sample_start_def bx_net_loop_def bx_net_request_list_init_def)
  from queue_run.next_step [OF queue_run.start queue_step.add [OF this], of sample_worker] have a: "queue_run sample_worker sample_start [Added 1] sample_waiting"
    by (simp add: sample_waiting_def sample_start_def bx_net_loop_def)
  obtain c where c: "worker_iter sample_worker (6 * length (ql_in (qc_list sample_waiting))) sample_waiting = Some c"
    "ids (ql_out (qc_list c)) = [1]"
    using serves_all [OF sample_waiting_ok(1,2) sample_readable, of "\<lambda>_. 0" table_env Fin "\<lambda>_. 1"] sample_waiting_ok(4,5)
    by (auto simp: sample_worker_def)
  obtain es' where e: "queue_run sample_worker sample_start ([Added 1] @ es') c" "added es' = []"
    using iter_run [OF c(1) [unfolded sample_worker_def bx_net_loop_worker_def] a [unfolded sample_worker_def bx_net_loop_worker_def]]
    unfolding sample_worker_def bx_net_loop_worker_def by blast
  obtain r where "ql_out (qc_list c) = [r]" "rq_id r = 1" using c(2) by (auto simp: ids_def)
  then have "bx_net_request_list_get_finished (qc_list c) 1 = (Finished r, (qc_list c)\<lparr>ql_out := []\<rparr>)"
    by (simp add: bx_net_request_list_get_finished_def)
  from queue_run.next_step [OF e(1) queue_step.get [OF this]] e(2)
  have "queue_run sample_worker sample_start (([Added 1] @ es') @ [Got 1 r]) (c\<lparr>qc_list := (qc_list c)\<lparr>ql_out := []\<rparr>\<rparr>)"
    "added (([Added 1] @ es') @ [Got 1 r]) = [1]" by (simp_all add: added_def)
  then show ?thesis by (metis in_set_conv_decomp)
qed

section \<open>Properties\<close>

text \<open>
  C11: whatever the threads do, no request is lost, kept twice or handed out twice: the numbers
  given out are exactly those of the waiting requests, of the one in work, of the finished
  ones and of those handed back, each once. Fewer requests than 64 bits can number are added.
\<close>

theorem queue_conserves:
  assumes "queue_run (bx_net_loop_worker xxh env perform rnd cvt) (bx_net_loop n) es c" and "length (added es) < 2 ^ 64"
  shows "mset (added es) = mset (ids (ql_in (qc_list c))) + mset (ids (in_work (qc_pc c))) + mset (ids (ql_out (qc_list c))) + mset (got es) \<and>
    distinct (added es) \<and> distinct (got es) \<and>
    distinct (ids (ql_in (qc_list c) @ in_work (qc_pc c) @ ql_out (qc_list c)))"
proof -
  have ok: "queue_ok es c" by (rule worker_run_ok [OF assms(1)])
  then have d: "distinct (added es)" using numbered_distinct assms(2) by (simp add: queue_ok_def)
  moreover have m: "mset (added es) = mset (ids (ql_in (qc_list c)) @ ids (in_work (qc_pc c)) @ ids (ql_out (qc_list c)) @ got es)"
    using ok by (simp add: queue_ok_def)
  ultimately have "distinct (ids (ql_in (qc_list c)) @ ids (in_work (qc_pc c)) @ ids (ql_out (qc_list c)) @ got es)"
    using mset_eq_imp_distinct_iff by blast
  with d m show ?thesis by (auto simp: ac_simps)
qed

theorem queue_conserves_witness:
  "\<exists>es c. queue_run sample_worker sample_start es c \<and> got es \<noteq> [] \<and> distinct (got es)"
proof -
  obtain es c r where "queue_run sample_worker sample_start es c" "Got 1 r \<in> set es" "added es = [1]" using sample_run by blast
  moreover from this have "got es \<noteq> []" by (force simp: got_def)
  ultimately show ?thesis
    using queue_conserves [of "\<lambda>_. 0" table_env sample_perform Fin "\<lambda>_. 1" "(sample_net, \<lambda>_. None)" es c]
    unfolding sample_worker_def sample_start_def by auto
qed

text \<open>
  C15: requests are taken in the order in which they were added, and a request a caller gets
  back has the number the caller asked for, was added before, and was either answered or
  marked as cancelled.
\<close>

theorem queue_serves_in_order:
  assumes "queue_run (bx_net_loop_worker xxh env perform rnd cvt) (bx_net_loop n) es c"
  shows "prefix (taken es) (added es) \<and>
    (\<forall>i r. Got i r \<in> set es \<longrightarrow> rq_id r = i \<and> i \<in> set (added es) \<and> (rq_cancel r \<or> rq_done r \<and> rq_response r \<noteq> NULL))"
proof -
  have ok: "queue_ok es c" by (rule worker_run_ok [OF assms])
  then have "prefix (taken es) (added es)" by (auto simp: queue_ok_def split: if_splits)
  moreover have "i \<in> set (added es)" if "Got i r \<in> set es" for i r
  proof -
    have "i \<in> set (got es)" using that by (force simp: got_def)
    moreover have "set_mset (mset (got es)) \<subseteq> set_mset (mset (added es))" using ok by (simp add: queue_ok_def)
    ultimately show ?thesis by auto
  qed
  ultimately show ?thesis using ok by (auto simp: queue_ok_def ready_def)
qed

theorem queue_serves_in_order_witness:
  "\<exists>es c r. queue_run sample_worker sample_start es c \<and> Got 1 r \<in> set es \<and> rq_id r = 1 \<and> prefix (taken es) (added es)"
proof -
  obtain es c r where "queue_run sample_worker sample_start es c" "Got 1 r \<in> set es" using sample_run by blast
  then show ?thesis
    using queue_serves_in_order [of "\<lambda>_. 0" table_env sample_perform Fin "\<lambda>_. 1" "(sample_net, \<lambda>_. None)" es c]
    unfolding sample_worker_def sample_start_def by blast
qed

text \<open>
  C39: stopping the queue while the request thread waits for work blocks it for ever. It wakes up
  with the lock of the waiting list, goes to the cancellation, and wants the lock again; from
  then on it never moves, nothing is added, and no waiting request is cancelled.
\<close>

theorem stop_blocks_worker:
  assumes "qc_pc c = W_WAIT" and "\<not> ql_run (qc_list c)" and "\<not> ql_in_held (qc_list c)"
  shows "\<exists>c2. worker_iter (bx_net_loop_worker xxh env perform rnd cvt) 2 c = Some c2 \<and>
    (\<forall>es c3. queue_run (bx_net_loop_worker xxh env perform rnd cvt) c2 es c3 \<longrightarrow>
       bx_net_loop_worker xxh env perform rnd cvt c3 = None \<and> qc_pc c3 \<noteq> W_GONE \<and> added es = [])"
proof -
  let ?worker = "bx_net_loop_worker xxh env perform rnd cvt"
  obtain c2 where c2: "worker_iter ?worker 2 c = Some c2" "self_locked c2"
    using assms by (simp add: bx_net_loop_worker_def worker_step_def Let_def self_locked_def numeral_eq_Suc)
  have "?worker c3 = None \<and> qc_pc c3 \<noteq> W_GONE \<and> added es = []" if "queue_run ?worker c2 es c3" for es c3
    using self_locked_run [OF that [unfolded bx_net_loop_worker_def] c2(2)]
    by (simp add: self_locked_def bx_net_loop_worker_def worker_step_def bx_net_request_list_cancel_def)
  with c2(1) show ?thesis by blast
qed

theorem stop_blocks_worker_witness:
  "\<exists>c2. worker_iter sample_worker 2 (sample_start\<lparr>qc_pc := W_WAIT, qc_list := bx_net_request_list_init\<lparr>ql_run := False\<rparr>\<rparr>) = Some c2 \<and>
     sample_worker c2 = None \<and> qc_pc c2 \<noteq> W_GONE"
  using stop_blocks_worker [of "sample_start\<lparr>qc_pc := W_WAIT, qc_list := bx_net_request_list_init\<lparr>ql_run := False\<rparr>\<rparr>"
      "\<lambda>_. 0" table_env sample_perform Fin "\<lambda>_. 1"] queue_run.start
  unfolding sample_worker_def by (fastforce simp: bx_net_request_list_init_def)

end
