(* ===== verification/Bx_Upsert.thy ===== *)
theory Bx_Upsert
  imports Bx_Database Bx_Walk
begin

text \<open>
  Writing a JSON object into a table: the generic upsert of \<open>src/src/bx_upsert.c\<close>, which builds
  its statements from a list of fields, and the lists of named things of
  \<open>src/src/bx_named_list.c\<close>. The statement interface, the digest of the hash, the conversions of
  a double, the clock, and the bytes left of the variable of a call that has returned
  (\<open>st_dead\<close>) are the environment. \<open>None\<close> is an access outside of a buffer.
\<close>

record 'w store_env =
  st_api :: "'w stmt_api"
  st_digest :: "u8 list \<Rightarrow> u64"
  st_libc :: libc_double
  st_time :: "'w \<Rightarrow> u64 \<times> 'w"
  st_dead :: "u64 \<Rightarrow> u64"

definition hash_digest :: "('w, 'z) store_env_scheme \<Rightarrow> hstate \<Rightarrow> u64" where
  "hash_digest env hash = (case hash of NULL \<Rightarrow> 0 | Ptr bytes \<Rightarrow> st_digest env bytes)"

text \<open>\<open>bx_database_execute (query) && bx_database_results (query)\<close>.\<close>

definition query_rows :: "('w, 'z) store_env_scheme \<Rightarrow> BXDatabaseQuery \<Rightarrow> 'w \<Rightarrow> bool \<times> BXDatabaseQuery \<times> 'w" where
  "query_rows env query w =
     (case bx_database_execute (st_api env) query w of
        (True, query1, w1) \<Rightarrow> bx_database_results (st_api env) query1 w1
      | (False, query1, w1) \<Rightarrow> (False, query1, w1))"

definition query_failure :: "BXDatabaseQuery \<Rightarrow> BXillError" where
  "query_failure query = (if dq_need_reconnect query then ErrorSQLReconnect else ErrorGeneric)"

text \<open>The first column of the first row, when there is one.\<close>

definition first_value :: "BXDatabaseQuery \<Rightarrow> u64 option" where
  "first_value query =
     (case dq_results query of
        (column # _) # _ \<Rightarrow> Some (word_of_int (co_i_value column))
      | _ \<Rightarrow> None)"

definition bind_value :: "string \<Rightarrow> BXAny \<Rightarrow> BXDatabaseQuery \<Rightarrow> BXDatabaseQuery" where
  "bind_value name v query = snd (bx_database_add_bxtype query name v)"

definition bind_uint64 :: "string \<Rightarrow> u64 \<Rightarrow> BXDatabaseQuery \<Rightarrow> BXDatabaseQuery" where
  "bind_uint64 name v query = snd (bx_database_add_param_uint64 query name v)"

section \<open>Fields\<close>

datatype BXFieldKind = BX_F_UINT | BX_F_INT | BX_F_STR | BX_F_FLOAT | BX_F_BOOL | BX_F_UUID

record BXJsonField =
  jf_key :: string
  jf_sql :: "string ptr"
  jf_kind :: BXFieldKind

definition BX_FIELD :: "string \<Rightarrow> BXFieldKind \<Rightarrow> BXJsonField" where
  "BX_FIELD k ftype = \<lparr>jf_key = k, jf_sql = NULL, jf_kind = ftype\<rparr>"

definition BX_UPSERT_MAX_FIELDS :: nat where
  "BX_UPSERT_MAX_FIELDS = 48"

definition table_allowed :: "string \<Rightarrow> bool" where
  "table_allowed table \<longleftrightarrow>
     table \<in> set [''country'', ''account_group'', ''client_service'', ''communication_kind'', ''pr_project_state'',
       ''pr_project_type'', ''timesheet_status'', ''todo_status'', ''todo_priority'', ''stock'', ''stock_place'',
       ''bank_account'', ''company_profile'', ''calendar_year'', ''business_year'', ''vat_period'',
       ''contact_relation'', ''additional_address'', ''article'', ''note'', ''task'', ''timesheet'', ''kb_quote'',
       ''kb_order'', ''kb_delivery'', ''invoice_payment'', ''invoice_reminder'', ''kb_comment'',
       ''project_milestone'', ''project_package'', ''purchase_order'', ''purchase_bill'', ''expense'',
       ''manual_entry'', ''manual_entry_line'']"

definition fname :: "BXJsonField \<Rightarrow> string" where
  "fname f = (case jf_sql f of NULL \<Rightarrow> jf_key f | Ptr s \<Rightarrow> s)"

text \<open>
  The member of a slot that the kind of the field selects; the other members stay cleared and
  are never used.
\<close>

definition read_slot :: "('w, 'z) store_env_scheme \<Rightarrow> json \<Rightarrow> BXJsonField \<Rightarrow> hstate \<Rightarrow> (BXAny \<times> hstate) option" where
  "read_slot env obj f hash =
     (case jf_kind f of
        BX_F_UINT \<Rightarrow> Some (case bx_object_get_json_uint obj (jf_key f) hash of (v, h) \<Rightarrow> (AUInteger v, h))
      | BX_F_INT \<Rightarrow> Some (case bx_object_get_json_int obj (jf_key f) hash of (v, h) \<Rightarrow> (AInteger v, h))
      | BX_F_STR \<Rightarrow> map_option (\<lambda>(v, h). (AString v, h))
                    (bx_object_get_json_string (st_libc env) BXHTMLEntities obj (jf_key f) hash)
      | BX_F_FLOAT \<Rightarrow> Some (case bx_object_get_json_double (st_libc env) obj (jf_key f) hash of (v, h) \<Rightarrow> (AFloat v, h))
      | BX_F_BOOL \<Rightarrow> Some (case bx_object_get_json_bool obj (jf_key f) hash of (v, h) \<Rightarrow> (ABool v, h))
      | BX_F_UUID \<Rightarrow> map_option (\<lambda>(v, h). (AUuid v, h)) (bx_object_get_json_uuid obj (jf_key f) hash))"

fun read_slots :: "('w, 'z) store_env_scheme \<Rightarrow> json \<Rightarrow> BXJsonField list \<Rightarrow> hstate \<Rightarrow> (BXAny list \<times> hstate) option" where
  "read_slots env obj [] hash = Some ([], hash)"
| "read_slots env obj (f # fs) hash = do {
     (v, hash1) \<leftarrow> read_slot env obj f hash;
     (vs, hash2) \<leftarrow> read_slots env obj fs hash1;
     Some (v # vs, hash2)
   }"

fun pk_ok :: "BXAny \<Rightarrow> bool" where
  "pk_ok (AUInteger v) = bu_isset v"
| "pk_ok (AInteger v) = bi_isset v"
| "pk_ok (AString v) = (bs_isset v \<and> bs_value v \<noteq> NULL)"
| "pk_ok (AUuid v) = bq_isset v"
| "pk_ok _ = False"

section \<open>Statements\<close>

text \<open>
  \<open>n += snprintf (buf + n, size - n, ...)\<close>: the text in the buffer and the offset. Past the end
  of the buffer the room is a huge unsigned number, and the call writes outside.
\<close>

definition append_text :: "nat \<Rightarrow> string \<Rightarrow> string \<times> nat \<Rightarrow> (string \<times> nat) option" where
  "append_text room s b =
     (case b of (buf, n) \<Rightarrow>
        if room < n then None
        else Some (buf @ take (room - n - 1) s, n + length s))"

fun column_texts :: "BXJsonField list \<Rightarrow> bool \<Rightarrow> (string \<times> nat) \<times> (string \<times> nat) \<times> (string \<times> nat)
    \<Rightarrow> ((string \<times> nat) \<times> (string \<times> nat) \<times> (string \<times> nat)) option" where
  "column_texts [] first b = Some b"
| "column_texts (f # fs) first (cols, vals, sets) = do {
     let n = fname f;
     cols1 \<leftarrow> append_text 1024 ((if first then [] else '', '') @ n) cols;
     vals1 \<leftarrow> append_text 1024 ((if first then [] else '', '') @ '':'' @ n) vals;
     sets1 \<leftarrow> (if first then Some sets
               else append_text 1024 ((if snd sets \<noteq> 0 then '', '' else []) @ n @ '' = :'' @ n) sets);
     column_texts fs False (cols1, vals1, sets1)
   }"

definition statement_texts :: "BXJsonField list \<Rightarrow> string ptr \<Rightarrow> (string \<times> string \<times> string) option" where
  "statement_texts flds parent_sql = do {
     (cols, vals, sets) \<leftarrow> column_texts flds True (([], 0), ([], 0), ([], 0));
     (cols1, vals1) \<leftarrow>
       (case parent_sql of
          NULL \<Rightarrow> Some (cols, vals)
        | Ptr p \<Rightarrow> do {
            c \<leftarrow> append_text 1024 ('', '' @ p) cols;
            v \<leftarrow> append_text 1024 '', :_parent'' vals;
            Some (c, v)
          });
     cols2 \<leftarrow> append_text 1024 '', _checksum, _last_updated, _deleted'' cols1;
     vals2 \<leftarrow> append_text 1024 '', :_checksum, :_last_updated, :_deleted'' vals1;
     sets2 \<leftarrow> append_text 1024
                ((if snd sets \<noteq> 0 then '', '' else []) @
                 ''_checksum = :_checksum, _last_updated = :_last_updated, _deleted = :_deleted'') sets;
     Some (fst cols2, fst vals2, fst sets2)
   }"

definition select_text :: "string \<Rightarrow> BXJsonField list \<Rightarrow> string ptr \<Rightarrow> string" where
  "select_text table flds parent_sql =
     take 255 (''SELECT _checksum FROM '' @ table @ '' WHERE '' @ fname (hd flds) @ '' = :id'' @
       (case parent_sql of NULL \<Rightarrow> [] | Ptr p \<Rightarrow> '' AND '' @ p @ '' = :_parent''))"

definition write_text :: "bool \<Rightarrow> string \<Rightarrow> BXJsonField list \<Rightarrow> string ptr \<Rightarrow> string option" where
  "write_text need_insert table flds parent_sql =
     map_option (\<lambda>(cols, vals, sets).
         take 2799
           (if need_insert then ''INSERT INTO '' @ table @ '' ('' @ cols @ '') VALUES ('' @ vals @ '')''
            else ''UPDATE '' @ table @ '' SET '' @ sets @ '' WHERE '' @ fname (hd flds) @ '' = :id'' @
              (case parent_sql of NULL \<Rightarrow> [] | Ptr p \<Rightarrow> '' AND '' @ p @ '' = :_parent'')))
       (statement_texts flds parent_sql)"

text \<open>The name of a parameter is cut to its buffer.\<close>

fun bind_slots :: "BXJsonField list \<Rightarrow> BXAny list \<Rightarrow> BXDatabaseQuery \<Rightarrow> BXDatabaseQuery" where
  "bind_slots (f # fs) (v # vs) query = bind_slots fs vs (bind_value (take 63 ('':'' @ fname f)) v query)"
| "bind_slots _ _ query = query"

definition bind_parent :: "string ptr \<Rightarrow> u64 \<Rightarrow> BXDatabaseQuery \<Rightarrow> BXDatabaseQuery" where
  "bind_parent parent_sql parent_id query = (if parent_sql = NULL then query else bind_uint64 '':_parent'' parent_id query)"

definition bind_marks :: "u64 \<Rightarrow> u64 \<Rightarrow> BXDatabaseQuery \<Rightarrow> BXDatabaseQuery" where
  "bind_marks checksum now query =
     bind_uint64 '':_deleted'' 0 (bind_uint64 '':_last_updated'' now (bind_uint64 '':_checksum'' checksum query))"

section \<open>The upsert\<close>

text \<open>Insert or update, once the slots and the checksum are known.\<close>

definition write_row :: "('w, 'z) store_env_scheme \<Rightarrow> bool \<Rightarrow> string \<Rightarrow> BXJsonField list \<Rightarrow> BXAny list \<Rightarrow> u64
    \<Rightarrow> string ptr \<Rightarrow> u64 \<Rightarrow> 'w \<Rightarrow> (BXillError \<times> 'w) option" where
  "write_row env need_insert table flds slots checksum parent_sql parent_id w = do {
     sql \<leftarrow> write_text need_insert table flds parent_sql;
     query \<leftarrow> bx_database_new_query sql;
     (case query of
        NULL \<Rightarrow> Some (ErrorGeneric, w)
      | Ptr q \<Rightarrow>
          (let (now, w1) = st_time env w;
               q1 = bind_marks checksum now (bind_parent parent_sql parent_id (bind_slots flds slots q));
               (ok, q2, w2) = query_rows env q1 w1
           in Some (if ok then NoError else query_failure q2, w2)))
   }"

definition bx_json_upsert :: "('w, 'z) store_env_scheme \<Rightarrow> unit ptr \<Rightarrow> string \<Rightarrow> json ptr \<Rightarrow> BXJsonField list
    \<Rightarrow> string ptr \<Rightarrow> u64 \<Rightarrow> 'w \<Rightarrow> (BXillError \<times> 'w) option" where
  "bx_json_upsert env conn table obj flds parent_sql parent_id w =
     (case obj of
        NULL \<Rightarrow> Some (ErrorGeneric, w)
      | Ptr object \<Rightarrow>
          if conn = NULL \<or> flds = [] \<or> BX_UPSERT_MAX_FIELDS < length flds \<or> \<not> table_allowed table
          then Some (ErrorGeneric, w)
          else do {
            let hash = hash_update (Ptr []) (if parent_sql = NULL then [] else le_bytes 8 parent_id);
            (slots, hash1) \<leftarrow> read_slots env object flds hash;
            let checksum = hash_digest env hash1;
            if \<not> pk_ok (hd slots) then Some (ErrorGeneric, w)
            else do {
              query \<leftarrow> bx_database_new_query (select_text table flds parent_sql);
              (case query of
                 NULL \<Rightarrow> Some (ErrorGeneric, w)
               | Ptr q \<Rightarrow>
                   (case query_rows env (bind_parent parent_sql parent_id (bind_value '':id'' (hd slots) q)) w of
                      (False, q1, w1) \<Rightarrow> Some (query_failure q1, w1)
                    | (True, q1, w1) \<Rightarrow>
                        (case first_value q1 of
                           Some stored \<Rightarrow>
                             if stored = checksum then Some (NoError, w1)
                             else write_row env False table flds slots checksum parent_sql parent_id w1
                         | None \<Rightarrow> write_row env True table flds slots checksum parent_sql parent_id w1)))
            }
          })"

section \<open>Named lists\<close>

definition table_ok :: "string ptr \<Rightarrow> bool" where
  "table_ok table \<longleftrightarrow>
     table \<in> Ptr ` set [''unit'', ''salutation'', ''title'', ''payment_type'', ''contact_group'', ''communication_kind'',
       ''pr_project_state'', ''pr_project_type'', ''timesheet_status'', ''todo_status'', ''todo_priority'', ''stock'',
       ''stock_place'']"

definition named_select :: "string \<Rightarrow> string" where
  "named_select table = take 159 (''SELECT _checksum FROM '' @ table @ '' WHERE id = :id'')"

definition named_insert :: "string \<Rightarrow> string" where
  "named_insert table = take 255 (''INSERT INTO '' @ table @ '' (id, name, _checksum, _last_updated, _deleted) '' @
     ''VALUES (:id, :name, :_checksum, :_last_updated, :_deleted)'')"

definition named_update :: "string \<Rightarrow> string" where
  "named_update table = take 255 (''UPDATE '' @ table @ '' SET name = :name, _checksum = :_checksum, '' @
     ''_last_updated = :_last_updated, _deleted = :_deleted WHERE id = :id'')"

definition write_named :: "('w, 'z) store_env_scheme \<Rightarrow> string \<Rightarrow> BXUInteger \<Rightarrow> BXString \<Rightarrow> u64 \<Rightarrow> u64 \<Rightarrow> 'w \<Rightarrow> (BXillError \<times> 'w) option" where
  "write_named env sql i name checksum now w = do {
     query \<leftarrow> bx_database_new_query sql;
     (case query of
        NULL \<Rightarrow> Some (ErrorGeneric, w)
      | Ptr q \<Rightarrow>
          (let (ok, q2, w2) = query_rows env (bind_marks checksum now (bind_value '':name'' (AString name) (bind_value '':id'' (AUInteger i) q))) w
           in Some (if ok then NoError else query_failure q2, w2)))
   }"

definition upsert_named :: "('w, 'z) store_env_scheme \<Rightarrow> string \<Rightarrow> BXUInteger \<Rightarrow> BXString \<Rightarrow> u64 \<Rightarrow> 'w \<Rightarrow> (BXillError \<times> 'w) option" where
  "upsert_named env table i name checksum w = do {
     query \<leftarrow> bx_database_new_query (named_select table);
     (case query of
        NULL \<Rightarrow> Some (ErrorGeneric, w)
      | Ptr q \<Rightarrow>
          (case query_rows env (bind_value '':id'' (AUInteger i) q) w of
             (False, q1, w1) \<Rightarrow> Some (query_failure q1, w1)
           | (True, q1, w1) \<Rightarrow>
               (let (now, w2) = st_time env w1 in
                case first_value q1 of
                  None \<Rightarrow> write_named env (named_insert table) i name checksum now w2
                | Some stored \<Rightarrow>
                    if stored = checksum then Some (NoError, w2)
                    else write_named env (named_update table) i name checksum now w2)))
   }"

definition named_list_item :: "('w, 'z) store_env_scheme \<Rightarrow> string \<Rightarrow> json \<Rightarrow> 'w handler" where
  "named_list_item env table item w = do {
     let (i, hash) = bx_object_get_json_uint item ''id'' (Ptr []);
     (name, hash1) \<leftarrow> bx_object_get_json_string (st_libc env) BXHTMLEntities item ''name'' hash;
     upsert_named env table i name (hash_digest env hash1) w
   }"

definition bx_named_list_walk :: "('w, 'z) store_env_scheme \<Rightarrow> 'w walk_env \<Rightarrow> unit ptr \<Rightarrow> string \<Rightarrow> string ptr \<Rightarrow> 'w handler" where
  "bx_named_list_walk env walk conn path_fmt table w =
     (case table of
        NULL \<Rightarrow> Some (ErrorGeneric, w)
      | Ptr t \<Rightarrow>
          if conn = NULL \<or> \<not> table_ok (Ptr t) then Some (ErrorGeneric, w)
          else bx_walk_pages walk path_fmt NULL False (named_list_item env t) w)"

definition bx_unit_walk_items :: "('w, 'z) store_env_scheme \<Rightarrow> 'w walk_env \<Rightarrow> unit ptr \<Rightarrow> 'w handler" where
  "bx_unit_walk_items env walk conn = bx_named_list_walk env walk conn ''2.0/unit?limit=$&offset=$'' (Ptr ''unit'')"

definition bx_salutation_walk_items :: "('w, 'z) store_env_scheme \<Rightarrow> 'w walk_env \<Rightarrow> unit ptr \<Rightarrow> 'w handler" where
  "bx_salutation_walk_items env walk conn = bx_named_list_walk env walk conn ''2.0/salutation?limit=$&offset=$'' (Ptr ''salutation'')"

definition bx_title_walk_items :: "('w, 'z) store_env_scheme \<Rightarrow> 'w walk_env \<Rightarrow> unit ptr \<Rightarrow> 'w handler" where
  "bx_title_walk_items env walk conn = bx_named_list_walk env walk conn ''2.0/title?limit=$&offset=$'' (Ptr ''title'')"

definition bx_payment_type_walk_items :: "('w, 'z) store_env_scheme \<Rightarrow> 'w walk_env \<Rightarrow> unit ptr \<Rightarrow> 'w handler" where
  "bx_payment_type_walk_items env walk conn = bx_named_list_walk env walk conn ''2.0/payment_type?limit=$&offset=$'' (Ptr ''payment_type'')"

definition bx_communication_kind_walk_items :: "('w, 'z) store_env_scheme \<Rightarrow> 'w walk_env \<Rightarrow> unit ptr \<Rightarrow> 'w handler" where
  "bx_communication_kind_walk_items env walk conn = bx_named_list_walk env walk conn ''2.0/communication_kind?limit=$&offset=$'' (Ptr ''communication_kind'')"

definition bx_project_state_walk_items :: "('w, 'z) store_env_scheme \<Rightarrow> 'w walk_env \<Rightarrow> unit ptr \<Rightarrow> 'w handler" where
  "bx_project_state_walk_items env walk conn = bx_named_list_walk env walk conn ''2.0/pr_project_state?limit=$&offset=$'' (Ptr ''pr_project_state'')"

definition bx_project_type_walk_items :: "('w, 'z) store_env_scheme \<Rightarrow> 'w walk_env \<Rightarrow> unit ptr \<Rightarrow> 'w handler" where
  "bx_project_type_walk_items env walk conn = bx_named_list_walk env walk conn ''2.0/pr_project_type?limit=$&offset=$'' (Ptr ''pr_project_type'')"

definition bx_timesheet_status_walk_items :: "('w, 'z) store_env_scheme \<Rightarrow> 'w walk_env \<Rightarrow> unit ptr \<Rightarrow> 'w handler" where
  "bx_timesheet_status_walk_items env walk conn = bx_named_list_walk env walk conn ''2.0/timesheet_status?limit=$&offset=$'' (Ptr ''timesheet_status'')"

definition bx_todo_status_walk_items :: "('w, 'z) store_env_scheme \<Rightarrow> 'w walk_env \<Rightarrow> unit ptr \<Rightarrow> 'w handler" where
  "bx_todo_status_walk_items env walk conn = bx_named_list_walk env walk conn ''2.0/todo_status?limit=$&offset=$'' (Ptr ''todo_status'')"

definition bx_todo_priority_walk_items :: "('w, 'z) store_env_scheme \<Rightarrow> 'w walk_env \<Rightarrow> unit ptr \<Rightarrow> 'w handler" where
  "bx_todo_priority_walk_items env walk conn = bx_named_list_walk env walk conn ''2.0/todo_priority?limit=$&offset=$'' (Ptr ''todo_priority'')"

definition bx_stock_walk_items :: "('w, 'z) store_env_scheme \<Rightarrow> 'w walk_env \<Rightarrow> unit ptr \<Rightarrow> 'w handler" where
  "bx_stock_walk_items env walk conn = bx_named_list_walk env walk conn ''2.0/stock?limit=$&offset=$'' (Ptr ''stock'')"

definition bx_stock_place_walk_items :: "('w, 'z) store_env_scheme \<Rightarrow> 'w walk_env \<Rightarrow> unit ptr \<Rightarrow> 'w handler" where
  "bx_stock_place_walk_items env walk conn = bx_named_list_walk env walk conn ''2.0/stock_place?limit=$&offset=$'' (Ptr ''stock_place'')"

end
