(* ===== verification/Bx_Sync_More.thy ===== *)
theory Bx_Sync_More
  imports Bx_Upsert
begin

text \<open>
  The other records of the API: the positions of documents
  (\<open>persist_one_position\<close> and its callers in \<open>src/src/bxobjects/position.c\<close>) and the lookups, records,
  sales documents and details of \<open>src/src/bxobjects/sync_more.c\<close>, all written through the generic
  upsert. Walks and requests go through the environment of the paged walk.
\<close>

section \<open>Positions of a document\<close>

definition pos_table_ok :: "string \<Rightarrow> string \<Rightarrow> bool" where
  "pos_table_ok table parent_col \<longleftrightarrow>
     (table, parent_col) \<in> {(''invoice_position'', ''_invoice_id''), (''quote_position'', ''_quote_id''),
       (''order_position'', ''_order_id'')}"

fun unset_if_zero :: "BXAny \<Rightarrow> BXAny" where
  "unset_if_zero (AUInteger v) = AUInteger (if bu_isset v \<and> bu_value v = 0 then v\<lparr>bu_isset := False\<rparr> else v)"
| "unset_if_zero v = v"

text \<open>The keys in the order in which they are hashed, with the names of their columns.\<close>

definition position_fields :: "BXJsonField list" where
  "position_fields =
     [BX_FIELD ''id'' BX_F_UINT, BX_FIELD ''amount'' BX_F_FLOAT, BX_FIELD ''account_id'' BX_F_UINT,
      BX_FIELD ''unit_id'' BX_F_UINT, BX_FIELD ''tax_id'' BX_F_UINT, BX_FIELD ''tax_value'' BX_F_FLOAT,
      (BX_FIELD ''text'' BX_F_STR)\<lparr>jf_sql := Ptr ''description''\<rparr>, BX_FIELD ''unit_price'' BX_F_FLOAT,
      (BX_FIELD ''discount_in_percent'' BX_F_FLOAT)\<lparr>jf_sql := Ptr ''discount''\<rparr>,
      (BX_FIELD ''pos'' BX_F_UINT)\<lparr>jf_sql := Ptr ''position''\<rparr>,
      (BX_FIELD ''internal_pos'' BX_F_UINT)\<lparr>jf_sql := Ptr ''internal_position''\<rparr>,
      BX_FIELD ''type'' BX_F_STR, BX_FIELD ''parent_id'' BX_F_UINT]"

definition clear_zero_ids :: "BXJsonField list \<Rightarrow> BXAny list \<Rightarrow> BXAny list" where
  "clear_zero_ids flds slots =
     map2 (\<lambda>f v. if jf_key f \<in> {''unit_id'', ''account_id'', ''tax_id'', ''parent_id''} then unset_if_zero v else v) flds slots"

definition position_insert :: "string \<Rightarrow> string \<Rightarrow> string" where
  "position_insert table parent_col = take 899 (''INSERT INTO '' @ table @ '' (id, amount, account_id, unit_id, tax_id, '' @
     ''tax_value, description, unit_price, discount, position, '' @ ''internal_position, type, parent_id, '' @ parent_col @
     '', _checksum, '' @ ''_last_updated) VALUES (:id, :amount, :account_id, :unit_id, '' @
     '':tax_id, :tax_value, :description, :unit_price, :discount, '' @
     '':position, :internal_position, :type, :parent_id, :_parent, '' @ '':_checksum, :_last_updated)'')"

definition position_update :: "string \<Rightarrow> string \<Rightarrow> string" where
  "position_update table parent_col = take 899 (''UPDATE '' @ table @ '' SET amount = :amount, account_id = :account_id, '' @
     ''unit_id = :unit_id, tax_id = :tax_id, tax_value = :tax_value, '' @
     ''description = :description, unit_price = :unit_price, '' @ ''discount = :discount, position = :position, '' @
     ''internal_position = :internal_position, type = :type, '' @ ''parent_id = :parent_id, _checksum = :_checksum, '' @
     ''_last_updated = :_last_updated WHERE id = :id AND '' @ parent_col @ '' = :_parent'')"

definition persist_one_position :: "('w, 'z) store_env_scheme \<Rightarrow> string \<Rightarrow> string \<Rightarrow> u64 \<Rightarrow> json \<Rightarrow> 'w handler" where
  "persist_one_position env table parent_col doc_id item w = do {
     (read, hash) \<leftarrow> read_slots env item position_fields (Ptr []);
     let slots = clear_zero_ids position_fields read;
     let checksum = hash_digest env hash;
     query \<leftarrow> bx_database_new_query
       (take 191 (''SELECT _checksum FROM '' @ table @ '' WHERE id = :id AND '' @ parent_col @ '' = :_parent''));
     (case query of
        NULL \<Rightarrow> Some (ErrorGeneric, w)
      | Ptr q \<Rightarrow>
          (case query_rows env (bind_uint64 '':_parent'' doc_id (bind_value '':id'' (hd slots) q)) w of
             (False, q1, w1) \<Rightarrow> Some (query_failure q1, w1)
           | (True, q1, w1) \<Rightarrow>
               if first_value q1 = Some checksum then Some (NoError, w1)
               else do {
                 written \<leftarrow> bx_database_new_query
                   (if first_value q1 = None then position_insert table parent_col else position_update table parent_col);
                 (case written of
                    NULL \<Rightarrow> Some (ErrorGeneric, w1)
                  | Ptr q2 \<Rightarrow>
                      (let (now, w2) = st_time env w1;
                           q3 = bind_uint64 '':_last_updated'' now (bind_uint64 '':_checksum'' checksum
                                  (bind_uint64 '':_parent'' doc_id (bind_slots position_fields slots q2)));
                           (ok, q4, w3) = query_rows env q3 w2
                       in Some (if ok then NoError else query_failure q4, w3)))
               }))
   }"

definition bx_kb_positions_store :: "('w, 'z) store_env_scheme \<Rightarrow> string \<Rightarrow> string \<Rightarrow> u64 \<Rightarrow> json ptr \<Rightarrow> 'w handler" where
  "bx_kb_positions_store env table parent_col parent_id positions w =
     (case positions of
        Ptr (JArray items) \<Rightarrow>
          if \<not> pos_table_ok table parent_col then Some (ErrorGeneric, w)
          else sync_rows (persist_one_position env table parent_col parent_id) items w
      | _ \<Rightarrow> Some (NoError, w))"

definition bx_invoice_positions_store :: "('w, 'z) store_env_scheme \<Rightarrow> u64 \<Rightarrow> json ptr \<Rightarrow> 'w handler" where
  "bx_invoice_positions_store env invoice_id positions =
     bx_kb_positions_store env ''invoice_position'' ''_invoice_id'' invoice_id positions"

section \<open>Steps\<close>

definition up :: "('w, 'z) store_env_scheme \<Rightarrow> unit ptr \<Rightarrow> string \<Rightarrow> json \<Rightarrow> BXJsonField list \<Rightarrow> 'w handler" where
  "up env conn table item flds = bx_json_upsert env conn table (Ptr item) flds NULL 0"

definition json_as_array :: "json ptr \<Rightarrow> json list ptr" where
  "json_as_array root =
     (case root of
        Ptr (JArray xs) \<Rightarrow> Ptr xs
      | Ptr (JObject kvs) \<Rightarrow>
          (case json_object_get (JObject kvs) ''data'' of Ptr (JArray xs) \<Rightarrow> Ptr xs | _ \<Rightarrow> NULL)
      | _ \<Rightarrow> NULL)"

text \<open>Only a lost connection stops the sequence; other errors are logged.\<close>

definition keep_going :: "'w handler \<Rightarrow> 'w handler" where
  "keep_going step w = map_option (\<lambda>(e, w1). (if e = ErrorSQLReconnect then e else NoError, w1)) (step w)"

definition pages :: "'w walk_env \<Rightarrow> string \<Rightarrow> (json \<Rightarrow> 'w handler) \<Rightarrow> 'w handler" where
  "pages walk path sync = bx_walk_pages walk path NULL False sync"

fun in_turn :: "'w handler list \<Rightarrow> 'w handler" where
  "in_turn [] w = Some (NoError, w)"
| "in_turn (step # steps) w = do {
     (e, w1) \<leftarrow> step w;
     if e \<noteq> NoError then Some (e, w1) else in_turn steps w1
   }"

text \<open>Rows whose errors do not count, unless the connection is lost.\<close>

fun each_row :: "(json \<Rightarrow> 'w handler) \<Rightarrow> json list \<Rightarrow> 'w handler" where
  "each_row f [] w = Some (NoError, w)"
| "each_row f (item # items) w = do {
     (e, w1) \<leftarrow> f item w;
     if e = ErrorSQLReconnect then Some (e, w1) else each_row f items w1
   }"

section \<open>Lookups\<close>

definition country_fields :: "BXJsonField list" where
  "country_fields =
     [BX_FIELD ''id'' BX_F_UINT, BX_FIELD ''name'' BX_F_STR, BX_FIELD ''name_short'' BX_F_STR,
      BX_FIELD ''iso3166_alpha2'' BX_F_STR]"

definition country_one :: "('w, 'z) store_env_scheme \<Rightarrow> unit ptr \<Rightarrow> json \<Rightarrow> 'w handler" where
  "country_one env conn item = up env conn ''country'' item country_fields"

definition account_group_fields :: "BXJsonField list" where
  "account_group_fields =
     [BX_FIELD ''id'' BX_F_UINT, BX_FIELD ''uuid'' BX_F_UUID, BX_FIELD ''account_no'' BX_F_STR,
      BX_FIELD ''name'' BX_F_STR, BX_FIELD ''parent_fibu_account_group_id'' BX_F_UINT,
      BX_FIELD ''is_active'' BX_F_BOOL, BX_FIELD ''is_locked'' BX_F_BOOL]"

definition account_group_one :: "('w, 'z) store_env_scheme \<Rightarrow> unit ptr \<Rightarrow> json \<Rightarrow> 'w handler" where
  "account_group_one env conn item = up env conn ''account_group'' item account_group_fields"

definition client_service_fields :: "BXJsonField list" where
  "client_service_fields =
     [BX_FIELD ''id'' BX_F_UINT, BX_FIELD ''name'' BX_F_STR, BX_FIELD ''default_is_billable'' BX_F_BOOL,
      BX_FIELD ''default_price_per_hour'' BX_F_FLOAT, BX_FIELD ''account_id'' BX_F_UINT]"

definition client_service_one :: "('w, 'z) store_env_scheme \<Rightarrow> unit ptr \<Rightarrow> json \<Rightarrow> 'w handler" where
  "client_service_one env conn item = up env conn ''client_service'' item client_service_fields"

definition bank_account_fields :: "BXJsonField list" where
  "bank_account_fields =
     [BX_FIELD ''id'' BX_F_UINT, BX_FIELD ''name'' BX_F_STR, BX_FIELD ''owner'' BX_F_STR,
      BX_FIELD ''owner_address'' BX_F_STR, BX_FIELD ''owner_zip'' BX_F_STR, BX_FIELD ''owner_city'' BX_F_STR,
      BX_FIELD ''owner_country_code'' BX_F_STR, BX_FIELD ''bc_nr'' BX_F_STR, BX_FIELD ''bank_name'' BX_F_STR,
      BX_FIELD ''bank_nr'' BX_F_STR, BX_FIELD ''bank_account_nr'' BX_F_STR, BX_FIELD ''iban_nr'' BX_F_STR,
      BX_FIELD ''currency_id'' BX_F_UINT, BX_FIELD ''account_id'' BX_F_UINT, BX_FIELD ''remarks'' BX_F_STR,
      BX_FIELD ''invoice_mode'' BX_F_STR, BX_FIELD ''qr_invoice_iban'' BX_F_STR, BX_FIELD ''type'' BX_F_STR]"

definition bank_account_one :: "('w, 'z) store_env_scheme \<Rightarrow> unit ptr \<Rightarrow> json \<Rightarrow> 'w handler" where
  "bank_account_one env conn item = up env conn ''bank_account'' item bank_account_fields"

definition company_fields :: "BXJsonField list" where
  "company_fields =
     [BX_FIELD ''id'' BX_F_UINT, BX_FIELD ''name'' BX_F_STR, BX_FIELD ''address'' BX_F_STR,
      BX_FIELD ''address_nr'' BX_F_STR, BX_FIELD ''postcode'' BX_F_STR, BX_FIELD ''city'' BX_F_STR,
      BX_FIELD ''country_id'' BX_F_UINT, BX_FIELD ''legal_form'' BX_F_STR, BX_FIELD ''country_name'' BX_F_STR,
      BX_FIELD ''mail'' BX_F_STR, BX_FIELD ''phone_fixed'' BX_F_STR, BX_FIELD ''phone_mobile'' BX_F_STR,
      BX_FIELD ''fax'' BX_F_STR, BX_FIELD ''url'' BX_F_STR, BX_FIELD ''ust_id_nr'' BX_F_STR,
      BX_FIELD ''mwst_nr'' BX_F_STR, BX_FIELD ''trade_register_nr'' BX_F_STR]"

definition company_one :: "('w, 'z) store_env_scheme \<Rightarrow> unit ptr \<Rightarrow> json \<Rightarrow> 'w handler" where
  "company_one env conn item = up env conn ''company_profile'' item company_fields"

definition calendar_fields :: "BXJsonField list" where
  "calendar_fields =
     [BX_FIELD ''id'' BX_F_UINT, BX_FIELD ''start'' BX_F_STR, BX_FIELD ''end'' BX_F_STR,
      BX_FIELD ''is_vat_subject'' BX_F_BOOL, BX_FIELD ''is_annual_reporting'' BX_F_BOOL,
      BX_FIELD ''created_at'' BX_F_STR, BX_FIELD ''updated_at'' BX_F_STR,
      BX_FIELD ''vat_accounting_method'' BX_F_STR, BX_FIELD ''vat_accounting_type'' BX_F_STR]"

definition calendar_one :: "('w, 'z) store_env_scheme \<Rightarrow> unit ptr \<Rightarrow> json \<Rightarrow> 'w handler" where
  "calendar_one env conn item = up env conn ''calendar_year'' item calendar_fields"

definition business_year_fields :: "BXJsonField list" where
  "business_year_fields =
     [BX_FIELD ''id'' BX_F_UINT, BX_FIELD ''start'' BX_F_STR, BX_FIELD ''end'' BX_F_STR,
      BX_FIELD ''status'' BX_F_STR, BX_FIELD ''closed_at'' BX_F_STR]"

definition business_year_one :: "('w, 'z) store_env_scheme \<Rightarrow> unit ptr \<Rightarrow> json \<Rightarrow> 'w handler" where
  "business_year_one env conn item = up env conn ''business_year'' item business_year_fields"

definition vat_period_fields :: "BXJsonField list" where
  "vat_period_fields =
     [BX_FIELD ''id'' BX_F_UINT, BX_FIELD ''start'' BX_F_STR, BX_FIELD ''end'' BX_F_STR,
      BX_FIELD ''type'' BX_F_STR, BX_FIELD ''status'' BX_F_STR, BX_FIELD ''closed_at'' BX_F_STR]"

definition vat_period_one :: "('w, 'z) store_env_scheme \<Rightarrow> unit ptr \<Rightarrow> json \<Rightarrow> 'w handler" where
  "vat_period_one env conn item = up env conn ''vat_period'' item vat_period_fields"


definition bx_lookups_walk_more :: "('w, 'z) store_env_scheme \<Rightarrow> 'w walk_env \<Rightarrow> unit ptr \<Rightarrow> 'w handler" where
  "bx_lookups_walk_more env walk conn =
     in_turn
       [keep_going (pages walk ''2.0/country?limit=$&offset=$'' (country_one env conn)),
        keep_going (pages walk ''2.0/account_groups?limit=$&offset=$'' (account_group_one env conn)),
        keep_going (bx_communication_kind_walk_items env walk conn),
        keep_going (bx_project_state_walk_items env walk conn),
        keep_going (bx_project_type_walk_items env walk conn),
        keep_going (bx_timesheet_status_walk_items env walk conn),
        keep_going (bx_todo_status_walk_items env walk conn),
        keep_going (bx_todo_priority_walk_items env walk conn),
        keep_going (bx_stock_walk_items env walk conn),
        keep_going (bx_stock_place_walk_items env walk conn),
        keep_going (pages walk ''2.0/client_service?limit=$&offset=$'' (client_service_one env conn)),
        keep_going (pages walk ''3.0/banking/accounts?limit=$&offset=$'' (bank_account_one env conn)),
        keep_going (pages walk ''2.0/company_profile'' (company_one env conn)),
        keep_going (pages walk ''3.0/accounting/calendar_years?limit=$&offset=$'' (calendar_one env conn)),
        keep_going (pages walk ''3.0/accounting/business_years'' (business_year_one env conn)),
        keep_going (pages walk ''3.0/accounting/vat_periods'' (vat_period_one env conn))]"

section \<open>Records\<close>

definition relation_fields :: "BXJsonField list" where
  "relation_fields =
     [BX_FIELD ''id'' BX_F_UINT, BX_FIELD ''contact_id'' BX_F_UINT, BX_FIELD ''contact_sub_id'' BX_F_UINT,
      BX_FIELD ''description'' BX_F_STR, BX_FIELD ''updated_at'' BX_F_STR]"

definition relation_one :: "('w, 'z) store_env_scheme \<Rightarrow> unit ptr \<Rightarrow> json \<Rightarrow> 'w handler" where
  "relation_one env conn item = up env conn ''contact_relation'' item relation_fields"

definition article_fields :: "BXJsonField list" where
  "article_fields =
     [BX_FIELD ''id'' BX_F_UINT, BX_FIELD ''user_id'' BX_F_UINT, BX_FIELD ''article_type_id'' BX_F_UINT,
      BX_FIELD ''contact_id'' BX_F_UINT, BX_FIELD ''intern_code'' BX_F_STR, BX_FIELD ''intern_name'' BX_F_STR,
      BX_FIELD ''intern_description'' BX_F_STR, BX_FIELD ''purchase_price'' BX_F_FLOAT,
      BX_FIELD ''sale_price'' BX_F_FLOAT, BX_FIELD ''currency_id'' BX_F_UINT, BX_FIELD ''tax_id'' BX_F_UINT,
      BX_FIELD ''unit_id'' BX_F_UINT, BX_FIELD ''is_stock'' BX_F_BOOL, BX_FIELD ''stock_id'' BX_F_UINT,
      BX_FIELD ''stock_place_id'' BX_F_UINT, BX_FIELD ''stock_nr'' BX_F_FLOAT, BX_FIELD ''remarks'' BX_F_STR,
      BX_FIELD ''article_group_id'' BX_F_UINT, BX_FIELD ''account_id'' BX_F_UINT]"

definition article_one :: "('w, 'z) store_env_scheme \<Rightarrow> unit ptr \<Rightarrow> json \<Rightarrow> 'w handler" where
  "article_one env conn item = up env conn ''article'' item article_fields"

definition note_fields :: "BXJsonField list" where
  "note_fields =
     [BX_FIELD ''id'' BX_F_UINT, BX_FIELD ''user_id'' BX_F_UINT, BX_FIELD ''event_start'' BX_F_STR,
      BX_FIELD ''subject'' BX_F_STR, BX_FIELD ''info'' BX_F_STR, BX_FIELD ''contact_id'' BX_F_UINT,
      BX_FIELD ''project_id'' BX_F_UINT, BX_FIELD ''entry_id'' BX_F_UINT, BX_FIELD ''module_id'' BX_F_UINT]"

definition note_one :: "('w, 'z) store_env_scheme \<Rightarrow> unit ptr \<Rightarrow> json \<Rightarrow> 'w handler" where
  "note_one env conn item = up env conn ''note'' item note_fields"

definition task_fields :: "BXJsonField list" where
  "task_fields =
     [BX_FIELD ''id'' BX_F_UINT, BX_FIELD ''user_id'' BX_F_UINT, BX_FIELD ''finish_date'' BX_F_STR,
      BX_FIELD ''subject'' BX_F_STR, BX_FIELD ''info'' BX_F_STR, BX_FIELD ''contact_id'' BX_F_UINT,
      BX_FIELD ''sub_contact_id'' BX_F_UINT, BX_FIELD ''project_id'' BX_F_UINT,
      BX_FIELD ''todo_status_id'' BX_F_UINT, BX_FIELD ''todo_priority_id'' BX_F_UINT,
      BX_FIELD ''has_reminder'' BX_F_BOOL, BX_FIELD ''communication_kind_id'' BX_F_UINT]"

definition task_one :: "('w, 'z) store_env_scheme \<Rightarrow> unit ptr \<Rightarrow> json \<Rightarrow> 'w handler" where
  "task_one env conn item = up env conn ''task'' item task_fields"

definition timesheet_fields :: "BXJsonField list" where
  "timesheet_fields =
     [BX_FIELD ''id'' BX_F_UINT, BX_FIELD ''user_id'' BX_F_UINT, BX_FIELD ''status_id'' BX_F_UINT,
      BX_FIELD ''client_service_id'' BX_F_UINT, BX_FIELD ''text'' BX_F_STR, BX_FIELD ''allowable_bill'' BX_F_BOOL,
      BX_FIELD ''contact_id'' BX_F_UINT, BX_FIELD ''sub_contact_id'' BX_F_UINT,
      BX_FIELD ''pr_project_id'' BX_F_UINT, BX_FIELD ''pr_package_id'' BX_F_UINT,
      BX_FIELD ''pr_milestone_id'' BX_F_UINT, BX_FIELD ''estimated_time'' BX_F_STR, BX_FIELD ''date'' BX_F_STR,
      BX_FIELD ''duration'' BX_F_STR, BX_FIELD ''running'' BX_F_BOOL]"

definition timesheet_one :: "('w, 'z) store_env_scheme \<Rightarrow> unit ptr \<Rightarrow> json \<Rightarrow> 'w handler" where
  "timesheet_one env conn item = up env conn ''timesheet'' item timesheet_fields"

definition purchase_order_fields :: "BXJsonField list" where
  "purchase_order_fields =
     [BX_FIELD ''id'' BX_F_UINT, BX_FIELD ''document_nr'' BX_F_STR, BX_FIELD ''title'' BX_F_STR,
      BX_FIELD ''contact_id'' BX_F_UINT, BX_FIELD ''contact_sub_id'' BX_F_UINT, BX_FIELD ''user_id'' BX_F_UINT,
      BX_FIELD ''project_id'' BX_F_UINT, BX_FIELD ''language_id'' BX_F_UINT,
      BX_FIELD ''bank_account_id'' BX_F_UINT, BX_FIELD ''currency_id'' BX_F_UINT,
      BX_FIELD ''payment_type_id'' BX_F_UINT, BX_FIELD ''header'' BX_F_STR, BX_FIELD ''footer'' BX_F_STR,
      BX_FIELD ''template_slug'' BX_F_STR]"

definition purchase_order_one :: "('w, 'z) store_env_scheme \<Rightarrow> unit ptr \<Rightarrow> json \<Rightarrow> 'w handler" where
  "purchase_order_one env conn item = up env conn ''purchase_order'' item purchase_order_fields"

definition bill_fields :: "BXJsonField list" where
  "bill_fields =
     [BX_FIELD ''id'' BX_F_STR, BX_FIELD ''created_at'' BX_F_STR, BX_FIELD ''document_no'' BX_F_STR,
      BX_FIELD ''status'' BX_F_STR, BX_FIELD ''vendor_ref'' BX_F_STR, BX_FIELD ''vendor'' BX_F_STR,
      BX_FIELD ''title'' BX_F_STR, BX_FIELD ''currency_code'' BX_F_STR, BX_FIELD ''pending_amount'' BX_F_FLOAT,
      BX_FIELD ''net'' BX_F_FLOAT, BX_FIELD ''gross'' BX_F_FLOAT, BX_FIELD ''bill_date'' BX_F_STR,
      BX_FIELD ''due_date'' BX_F_STR, BX_FIELD ''overdue'' BX_F_BOOL]"

definition bill_one :: "('w, 'z) store_env_scheme \<Rightarrow> unit ptr \<Rightarrow> json \<Rightarrow> 'w handler" where
  "bill_one env conn item = up env conn ''purchase_bill'' item bill_fields"

definition expense_fields :: "BXJsonField list" where
  "expense_fields =
     [BX_FIELD ''id'' BX_F_STR, BX_FIELD ''created_at'' BX_F_STR, BX_FIELD ''document_no'' BX_F_STR,
      BX_FIELD ''status'' BX_F_STR, BX_FIELD ''vendor'' BX_F_STR, BX_FIELD ''title'' BX_F_STR,
      BX_FIELD ''currency_code'' BX_F_STR, BX_FIELD ''paid_on'' BX_F_STR,
      BX_FIELD ''booking_account_id'' BX_F_UINT, BX_FIELD ''net'' BX_F_FLOAT, BX_FIELD ''gross'' BX_F_FLOAT,
      BX_FIELD ''chargeable_contact_id'' BX_F_UINT]"

definition expense_one :: "('w, 'z) store_env_scheme \<Rightarrow> unit ptr \<Rightarrow> json \<Rightarrow> 'w handler" where
  "expense_one env conn item = up env conn ''expense'' item expense_fields"

definition json_integer_value :: "json ptr \<Rightarrow> int" where
  "json_integer_value v = (case v of Ptr (JInt i) \<Rightarrow> i | _ \<Rightarrow> 0)"

definition manual_head_fields :: "BXJsonField list" where
  "manual_head_fields =
     [BX_FIELD ''id'' BX_F_UINT, BX_FIELD ''type'' BX_F_STR, BX_FIELD ''date'' BX_F_STR,
      BX_FIELD ''reference_nr'' BX_F_STR, BX_FIELD ''created_by_user_id'' BX_F_UINT,
      BX_FIELD ''edited_by_user_id'' BX_F_UINT, BX_FIELD ''is_locked'' BX_F_BOOL, BX_FIELD ''locked_info'' BX_F_STR]"

definition manual_line_fields :: "BXJsonField list" where
  "manual_line_fields =
     [BX_FIELD ''id'' BX_F_UINT, BX_FIELD ''date'' BX_F_STR, BX_FIELD ''debit_account_id'' BX_F_UINT,
      BX_FIELD ''credit_account_id'' BX_F_UINT, BX_FIELD ''tax_id'' BX_F_UINT, BX_FIELD ''description'' BX_F_STR,
      BX_FIELD ''amount'' BX_F_FLOAT, BX_FIELD ''currency_id'' BX_F_UINT]"

definition manual_one :: "('w, 'z) store_env_scheme \<Rightarrow> unit ptr \<Rightarrow> json \<Rightarrow> 'w handler" where
  "manual_one env conn item w = do {
     (e, w1) \<leftarrow> up env conn ''manual_entry'' item manual_head_fields w;
     if e \<noteq> NoError then Some (e, w1)
     else
       (let entry_id = word_of_int (json_integer_value (json_object_get item ''id'')) in
        case json_object_get item ''entries'' of
          Ptr (JArray rows) \<Rightarrow>
            sync_rows (\<lambda>row. bx_json_upsert env conn ''manual_entry_line'' (Ptr row) manual_line_fields (Ptr ''_entry_id'') entry_id) rows w1
        | _ \<Rightarrow> Some (NoError, w1))
   }"

definition bx_records_walk_more :: "('w, 'z) store_env_scheme \<Rightarrow> 'w walk_env \<Rightarrow> unit ptr \<Rightarrow> 'w handler" where
  "bx_records_walk_more env walk conn =
     in_turn
       [keep_going (pages walk ''2.0/contact_relation?limit=$&offset=$'' (relation_one env conn)),
        keep_going (pages walk ''2.0/article?limit=$&offset=$'' (article_one env conn)),
        keep_going (pages walk ''2.0/note?limit=$&offset=$'' (note_one env conn)),
        keep_going (pages walk ''2.0/task?limit=$&offset=$'' (task_one env conn)),
        keep_going (pages walk ''2.0/timesheet?limit=$&offset=$'' (timesheet_one env conn)),
        keep_going (pages walk ''3.0/purchase_orders?limit=$&offset=$'' (purchase_order_one env conn)),
        keep_going (pages walk ''4.0/purchase/bills?limit=$&page=$'' (bill_one env conn)),
        keep_going (pages walk ''4.0/expenses?limit=$&page=$'' (expense_one env conn)),
        keep_going (pages walk ''3.0/accounting/manual_entries?limit=$&offset=$'' (manual_one env conn))]"

section \<open>Sales documents\<close>

definition kb_quote_fields :: "BXJsonField list" where
  "kb_quote_fields =
     [BX_FIELD ''id'' BX_F_UINT, BX_FIELD ''document_nr'' BX_F_STR, BX_FIELD ''title'' BX_F_STR,
      BX_FIELD ''contact_id'' BX_F_UINT, BX_FIELD ''contact_sub_id'' BX_F_UINT, BX_FIELD ''user_id'' BX_F_UINT,
      BX_FIELD ''project_id'' BX_F_UINT, BX_FIELD ''language_id'' BX_F_UINT,
      BX_FIELD ''bank_account_id'' BX_F_UINT, BX_FIELD ''currency_id'' BX_F_UINT,
      BX_FIELD ''payment_type_id'' BX_F_UINT, BX_FIELD ''header'' BX_F_STR, BX_FIELD ''footer'' BX_F_STR,
      BX_FIELD ''total_gross'' BX_F_FLOAT, BX_FIELD ''total_net'' BX_F_FLOAT, BX_FIELD ''total_taxes'' BX_F_FLOAT,
      BX_FIELD ''total'' BX_F_FLOAT, BX_FIELD ''total_rounding_difference'' BX_F_FLOAT,
      BX_FIELD ''mwst_type'' BX_F_INT, BX_FIELD ''mwst_is_net'' BX_F_UINT,
      BX_FIELD ''show_position_taxes'' BX_F_UINT, BX_FIELD ''is_valid_from'' BX_F_STR,
      BX_FIELD ''is_valid_until'' BX_F_STR, BX_FIELD ''contact_address'' BX_F_STR,
      BX_FIELD ''kb_item_status_id'' BX_F_INT, BX_FIELD ''updated_at'' BX_F_STR,
      BX_FIELD ''template_slug'' BX_F_STR]"

definition kb_order_fields :: "BXJsonField list" where
  "kb_order_fields =
     [BX_FIELD ''id'' BX_F_UINT, BX_FIELD ''document_nr'' BX_F_STR, BX_FIELD ''title'' BX_F_STR,
      BX_FIELD ''contact_id'' BX_F_UINT, BX_FIELD ''contact_sub_id'' BX_F_UINT, BX_FIELD ''user_id'' BX_F_UINT,
      BX_FIELD ''project_id'' BX_F_UINT, BX_FIELD ''language_id'' BX_F_UINT,
      BX_FIELD ''bank_account_id'' BX_F_UINT, BX_FIELD ''currency_id'' BX_F_UINT,
      BX_FIELD ''payment_type_id'' BX_F_UINT, BX_FIELD ''header'' BX_F_STR, BX_FIELD ''footer'' BX_F_STR,
      BX_FIELD ''total_gross'' BX_F_FLOAT, BX_FIELD ''total_net'' BX_F_FLOAT, BX_FIELD ''total_taxes'' BX_F_FLOAT,
      BX_FIELD ''total'' BX_F_FLOAT, BX_FIELD ''total_rounding_difference'' BX_F_FLOAT,
      BX_FIELD ''mwst_type'' BX_F_INT, BX_FIELD ''mwst_is_net'' BX_F_UINT, BX_FIELD ''is_valid_from'' BX_F_STR,
      BX_FIELD ''contact_address'' BX_F_STR, BX_FIELD ''kb_item_status_id'' BX_F_INT,
      BX_FIELD ''updated_at'' BX_F_STR]"

definition kb_delivery_fields :: "BXJsonField list" where
  "kb_delivery_fields =
     [BX_FIELD ''id'' BX_F_UINT, BX_FIELD ''document_nr'' BX_F_STR, BX_FIELD ''title'' BX_F_STR,
      BX_FIELD ''contact_id'' BX_F_UINT, BX_FIELD ''user_id'' BX_F_UINT, BX_FIELD ''project_id'' BX_F_UINT,
      BX_FIELD ''language_id'' BX_F_UINT, BX_FIELD ''kb_item_status_id'' BX_F_INT,
      BX_FIELD ''is_valid_from'' BX_F_STR, BX_FIELD ''contact_address'' BX_F_STR, BX_FIELD ''updated_at'' BX_F_STR]"

definition kb_comment_fields :: "BXJsonField list" where
  "kb_comment_fields =
     [BX_FIELD ''id'' BX_F_UINT, BX_FIELD ''text'' BX_F_STR, BX_FIELD ''user_id'' BX_F_UINT,
      BX_FIELD ''user_name'' BX_F_STR, BX_FIELD ''date'' BX_F_STR, BX_FIELD ''is_public'' BX_F_BOOL,
      BX_FIELD ''_document_type'' BX_F_STR]"

definition kb_doc_object :: "json ptr \<Rightarrow> json ptr" where
  "kb_doc_object root =
     (case root of
        Ptr (JObject kvs) \<Rightarrow>
          (case json_object_get (JObject kvs) ''data'' of Ptr (JObject d) \<Rightarrow> Ptr (JObject d) | _ \<Rightarrow> root)
      | _ \<Rightarrow> NULL)"

definition kb_doc_has_id :: "json \<Rightarrow> bool" where
  "kb_doc_has_id obj =
     (case json_object_get obj ''id'' of Ptr (JInt i) \<Rightarrow> True | Ptr (JString s) \<Rightarrow> True | _ \<Rightarrow> False)"

definition uint_arg :: "u64 \<Rightarrow> BXAny ptr" where
  "uint_arg v = Ptr (AUInteger \<lparr>bu_isset = True, bu_value = v\<rparr>)"

definition json_object_set :: "json \<Rightarrow> string \<Rightarrow> json \<Rightarrow> json" where
  "json_object_set obj k v =
     (case obj of
        JObject kvs \<Rightarrow> JObject (if map_of kvs k = None then kvs @ [(k, v)] else map (\<lambda>(k', v'). (k', if k' = k then v else v')) kvs)
      | _ \<Rightarrow> obj)"

text \<open>The document as the list has it, or as its own path has it when the list has no positions.\<close>

definition whole_document :: "'w walk_env \<Rightarrow> string \<Rightarrow> json \<Rightarrow> 'w \<Rightarrow> ((json \<times> json ptr) \<times> 'w) option" where
  "whole_document walk get_fmt src w =
     (case json_object_get src ''positions'' of
        Ptr p \<Rightarrow> Some ((src, Ptr p), w)
      | NULL \<Rightarrow>
          (let i = fst (bx_object_get_json_uint src ''id'' NULL) in
           if \<not> bu_isset i then Some ((src, NULL), w)
           else
             map_option (\<lambda>(request, w1).
                 ((case request of
                     NULL \<Rightarrow> (src, NULL)
                   | Ptr r \<Rightarrow>
                       (case (rq_response r, kb_doc_object (rq_decoded r)) of
                          (Ptr data, Ptr decoded) \<Rightarrow>
                            if rd_http_code data = 200 \<and> kb_doc_has_id decoded
                            then (decoded, json_object_get decoded ''positions'')
                            else (src, NULL)
                        | _ \<Rightarrow> (src, NULL))), w1))
               (we_request walk get_fmt [Ptr (AUInteger i)] w)))"

text \<open>The error of the last comment is the one that counts.\<close>

fun comment_rows :: "(json \<Rightarrow> 'w handler) \<Rightarrow> json list \<Rightarrow> BXillError \<Rightarrow> 'w handler" where
  "comment_rows f [] e w = Some (e, w)"
| "comment_rows f (row # rows) e w = do {
     (e1, w1) \<leftarrow> f row w;
     if e1 = ErrorSQLReconnect then Some (e1, w1) else comment_rows f rows e1 w1
   }"

definition kb_doc_one :: "('w, 'z) store_env_scheme \<Rightarrow> 'w walk_env \<Rightarrow> unit ptr \<Rightarrow> string \<Rightarrow> string \<Rightarrow> BXJsonField list
    \<Rightarrow> (string \<times> string) ptr \<Rightarrow> json \<Rightarrow> 'w handler" where
  "kb_doc_one env walk conn table get_fmt flds pos item w =
     (case kb_doc_object (Ptr item) of
        NULL \<Rightarrow> Some (NoError, w)
      | Ptr src0 \<Rightarrow>
          if \<not> kb_doc_has_id src0 then Some (NoError, w)
          else do {
            ((src, positions), w1) \<leftarrow> whole_document walk get_fmt src0 w;
            let i = (word_of_int (json_integer_value (json_object_get src ''id'')) :: u64);
            (e, w2) \<leftarrow> bx_json_upsert env conn table (Ptr src) flds NULL 0 w1;
            (e, w3) \<leftarrow> (case pos of
               Ptr (pos_table, pos_parent) \<Rightarrow>
                 if e = NoError \<and> positions \<noteq> NULL then bx_kb_positions_store env pos_table pos_parent i positions w2
                 else Some (e, w2)
             | NULL \<Rightarrow> Some (e, w2));
            if e \<noteq> NoError then Some (e, w3)
            else do {
              let kb = (if table = ''kb_quote'' then ''kb_offer'' else if table = ''kb_order'' then ''kb_order'' else ''kb_delivery'');
              (request, w4) \<leftarrow> we_request walk (take 95 (''2.0/'' @ kb @ ''/'' @ dec_nat (unat i) @ ''/comment'')) [] w3;
              (case request of
                 NULL \<Rightarrow> Some (e, w4)
               | Ptr r \<Rightarrow>
                   (case rq_decoded r of
                      Ptr (JArray rows) \<Rightarrow>
                        comment_rows (\<lambda>row. bx_json_upsert env conn ''kb_comment'' (Ptr (json_object_set row ''_document_type'' (JString kb)))
                          kb_comment_fields (Ptr ''_document_id'') i) rows e w4
                    | _ \<Rightarrow> Some (e, w4)))
            }
          })"

definition quote_one :: "('w, 'z) store_env_scheme \<Rightarrow> 'w walk_env \<Rightarrow> unit ptr \<Rightarrow> json \<Rightarrow> 'w handler" where
  "quote_one env walk conn = kb_doc_one env walk conn ''kb_quote'' ''2.0/kb_offer/$'' kb_quote_fields (Ptr (''quote_position'', ''_quote_id''))"

definition order_one :: "('w, 'z) store_env_scheme \<Rightarrow> 'w walk_env \<Rightarrow> unit ptr \<Rightarrow> json \<Rightarrow> 'w handler" where
  "order_one env walk conn = kb_doc_one env walk conn ''kb_order'' ''2.0/kb_order/$'' kb_order_fields (Ptr (''order_position'', ''_order_id''))"

definition delivery_one :: "('w, 'z) store_env_scheme \<Rightarrow> 'w walk_env \<Rightarrow> unit ptr \<Rightarrow> json \<Rightarrow> 'w handler" where
  "delivery_one env walk conn = kb_doc_one env walk conn ''kb_delivery'' ''2.0/kb_delivery/$'' kb_delivery_fields NULL"

definition bx_kb_sales_walk_items :: "('w, 'z) store_env_scheme \<Rightarrow> 'w walk_env \<Rightarrow> unit ptr \<Rightarrow> 'w handler" where
  "bx_kb_sales_walk_items env walk conn =
     in_turn
       [keep_going (pages walk ''2.0/kb_offer?limit=$&offset=$'' (quote_one env walk conn)),
        keep_going (pages walk ''2.0/kb_order?limit=$&offset=$'' (order_one env walk conn)),
        keep_going (pages walk ''2.0/kb_delivery?limit=$&offset=$'' (delivery_one env walk conn))]"

section \<open>Details\<close>

definition answer_rows :: "BXNetRequest ptr \<Rightarrow> json list ptr" where
  "answer_rows request = (case request of NULL \<Rightarrow> NULL | Ptr r \<Rightarrow> json_as_array (rq_decoded r))"

definition address_fields :: "BXJsonField list" where
  "address_fields =
     [BX_FIELD ''id'' BX_F_UINT, BX_FIELD ''name'' BX_F_STR, BX_FIELD ''name_addition'' BX_F_STR,
      BX_FIELD ''address'' BX_F_STR, BX_FIELD ''street_name'' BX_F_STR, BX_FIELD ''house_number'' BX_F_STR,
      BX_FIELD ''address_addition'' BX_F_STR, BX_FIELD ''postcode'' BX_F_STR, BX_FIELD ''city'' BX_F_STR,
      BX_FIELD ''country_id'' BX_F_UINT, BX_FIELD ''subject'' BX_F_STR, BX_FIELD ''description'' BX_F_STR]"

definition bx_contact_extra_sync :: "('w, 'z) store_env_scheme \<Rightarrow> 'w walk_env \<Rightarrow> unit ptr \<Rightarrow> u64 \<Rightarrow> 'w handler" where
  "bx_contact_extra_sync env walk conn contact_id w = do {
     (req, w1) \<leftarrow> we_request walk ''2.0/contact/$/additional_address'' [uint_arg contact_id] w;
     if req = NULL then Some (ErrorNet, w1)
     else (case answer_rows req of
        NULL \<Rightarrow> Some (NoError, w1)
      | Ptr rows \<Rightarrow>
          sync_rows (\<lambda>row. bx_json_upsert env conn ''additional_address'' (Ptr row) address_fields (Ptr ''_contact_id'') contact_id) rows w1)
   }"

text \<open>One list of details: rows that are not a list, and errors other than a lost connection, are passed over.\<close>

definition detail_rows :: "'w walk_env \<Rightarrow> string \<Rightarrow> u64 \<Rightarrow> (json \<Rightarrow> 'w handler) \<Rightarrow> 'w handler" where
  "detail_rows walk path i f w = do {
     (req, w1) \<leftarrow> we_request walk path [uint_arg i] w;
     (case answer_rows req of NULL \<Rightarrow> Some (NoError, w1) | Ptr rows \<Rightarrow> each_row f rows w1)
   }"

definition payment_fields :: "BXJsonField list" where
  "payment_fields =
     [BX_FIELD ''id'' BX_F_UINT, BX_FIELD ''date'' BX_F_STR, BX_FIELD ''value'' BX_F_FLOAT,
      BX_FIELD ''bank_account_id'' BX_F_UINT, BX_FIELD ''title'' BX_F_STR, BX_FIELD ''is_cash_discount'' BX_F_BOOL,
      BX_FIELD ''kb_invoice_id'' BX_F_UINT]"

definition reminder_fields :: "BXJsonField list" where
  "reminder_fields =
     [BX_FIELD ''id'' BX_F_UINT, BX_FIELD ''kb_invoice_id'' BX_F_UINT, BX_FIELD ''title'' BX_F_STR,
      BX_FIELD ''is_valid_from'' BX_F_STR, BX_FIELD ''is_valid_to'' BX_F_STR, BX_FIELD ''reminder_level'' BX_F_INT,
      BX_FIELD ''is_sent'' BX_F_BOOL, BX_FIELD ''remaining_price'' BX_F_FLOAT]"

definition invoice_comment_fields :: "BXJsonField list" where
  "invoice_comment_fields =
     [BX_FIELD ''id'' BX_F_UINT, BX_FIELD ''text'' BX_F_STR, BX_FIELD ''user_id'' BX_F_UINT,
      BX_FIELD ''user_name'' BX_F_STR, BX_FIELD ''date'' BX_F_STR, BX_FIELD ''is_public'' BX_F_BOOL,
      BX_FIELD ''_document_type'' BX_F_STR]"

definition bx_invoice_extra_sync :: "('w, 'z) store_env_scheme \<Rightarrow> 'w walk_env \<Rightarrow> unit ptr \<Rightarrow> u64 \<Rightarrow> 'w handler" where
  "bx_invoice_extra_sync env walk conn invoice_id =
     in_turn
       [detail_rows walk ''2.0/kb_invoice/$/payment'' invoice_id
          (\<lambda>row. bx_json_upsert env conn ''invoice_payment'' (Ptr row) payment_fields (Ptr ''_invoice_id'') invoice_id),
        detail_rows walk ''2.0/kb_invoice/$/kb_reminder'' invoice_id
          (\<lambda>row. bx_json_upsert env conn ''invoice_reminder'' (Ptr row) reminder_fields (Ptr ''_invoice_id'') invoice_id),
        detail_rows walk ''2.0/kb_invoice/$/comment'' invoice_id
          (\<lambda>row. bx_json_upsert env conn ''kb_comment'' (Ptr (json_object_set row ''_document_type'' (JString ''kb_invoice'')))
             invoice_comment_fields (Ptr ''_document_id'') invoice_id)]"

definition milestone_fields :: "BXJsonField list" where
  "milestone_fields =
     [BX_FIELD ''id'' BX_F_UINT, BX_FIELD ''name'' BX_F_STR, BX_FIELD ''end_date'' BX_F_STR,
      BX_FIELD ''comment'' BX_F_STR, BX_FIELD ''pr_parent_milestone_id'' BX_F_UINT]"

definition package_fields :: "BXJsonField list" where
  "package_fields =
     [BX_FIELD ''id'' BX_F_UINT, BX_FIELD ''name'' BX_F_STR, BX_FIELD ''spent_time_in_hours'' BX_F_FLOAT,
      BX_FIELD ''estimated_time_in_hours'' BX_F_FLOAT, BX_FIELD ''comment'' BX_F_STR,
      BX_FIELD ''pr_milestone_id'' BX_F_UINT]"

definition bx_project_extra_sync :: "('w, 'z) store_env_scheme \<Rightarrow> 'w walk_env \<Rightarrow> unit ptr \<Rightarrow> u64 \<Rightarrow> 'w handler" where
  "bx_project_extra_sync env walk conn project_id =
     in_turn
       [detail_rows walk ''3.0/projects/$/milestones'' project_id
          (\<lambda>row. bx_json_upsert env conn ''project_milestone'' (Ptr row) milestone_fields (Ptr ''_project_id'') project_id),
        detail_rows walk ''3.0/projects/$/packages'' project_id
          (\<lambda>row. bx_json_upsert env conn ''project_package'' (Ptr row) package_fields (Ptr ''_project_id'') project_id)]"

end
