(* ===== verification/Bx_Upsert_Texts.thy ===== *)
theory Bx_Upsert_Texts
  imports Bx_Sync_More
begin

text \<open>
  The statements the generic upsert builds: when they fit their buffers they are the lists of
  columns, values and settings one expects, and every parameter is named once, in order.
\<close>

section \<open>Texts\<close>

fun joined :: "bool \<Rightarrow> string list \<Rightarrow> string" where
  "joined first [] = []"
| "joined first (x # xs) = (if first then [] else '', '') @ x @ joined False xs"

lemma joined_append: "joined b (xs @ ys) = joined b xs @ joined (b \<and> xs = []) ys"
  by (induction xs arbitrary: b) auto

lemma joined_None: "joined True xs = [] \<longleftrightarrow> list_all (\<lambda>x. x = []) xs \<and> length xs \<le> 1"
  by (cases xs; cases "tl xs") auto

definition marks :: "string list" where
  "marks = [''_checksum'', ''_last_updated'', ''_deleted'']"

definition parent_columns :: "string ptr \<Rightarrow> string list" where
  "parent_columns parent_sql = (case parent_sql of NULL \<Rightarrow> [] | Ptr p \<Rightarrow> [p])"

definition parent_params :: "string ptr \<Rightarrow> string list" where
  "parent_params parent_sql = (case parent_sql of NULL \<Rightarrow> [] | Ptr p \<Rightarrow> [''_parent''])"

definition cols_text :: "BXJsonField list \<Rightarrow> string ptr \<Rightarrow> string" where
  "cols_text flds parent_sql = joined True (map fname flds @ parent_columns parent_sql @ marks)"

definition vals_text :: "BXJsonField list \<Rightarrow> string ptr \<Rightarrow> string" where
  "vals_text flds parent_sql = joined True (map (Cons (CHR '':'')) (map fname flds @ parent_params parent_sql @ marks))"

definition sets_text :: "BXJsonField list \<Rightarrow> string" where
  "sets_text flds = joined True (map (\<lambda>n. n @ '' = :'' @ n) (map fname (tl flds) @ marks))"

definition texts_fit :: "BXJsonField list \<Rightarrow> string ptr \<Rightarrow> bool" where
  "texts_fit flds parent_sql \<longleftrightarrow> length (cols_text flds parent_sql) < 1024 \<and> length (vals_text flds parent_sql) < 1024 \<and>
     length (sets_text flds) < 1024"

lemma append_text_fits: "length buf + length s < room \<Longrightarrow> append_text room s (buf, length buf) = Some (buf @ s, length (buf @ s))"
  by (simp add: append_text_def)

lemma column_texts_rest:
  assumes "length (c @ joined False (map fname fs)) < 1024" and "length (v @ joined False (map (Cons (CHR '':'') \<circ> fname) fs)) < 1024"
    and "length (s @ joined (s = []) (map (\<lambda>f. fname f @ '' = :'' @ fname f) fs)) < 1024"
  shows "column_texts fs False ((c, length c), (v, length v), (s, length s)) =
    (let c' = c @ joined False (map fname fs); v' = v @ joined False (map (Cons (CHR '':'') \<circ> fname) fs);
         s' = s @ joined (s = []) (map (\<lambda>f. fname f @ '' = :'' @ fname f) fs)
     in Some ((c', length c'), (v', length v'), (s', length s')))"
  using assms
proof (induction fs arbitrary: c v s)
  case (Cons f fs)
  let ?c = "c @ '', '' @ fname f" and ?v = "v @ '', :'' @ fname f"
  let ?t = "(if s \<noteq> [] then '', '' else []) @ fname f @ '' = :'' @ fname f"
  have a: "append_text 1024 ('', '' @ fname f) (c, length c) = Some (?c, length ?c)"
    using Cons.prems(1) by (intro append_text_fits) simp
  have b: "append_text 1024 ('', '' @ '':'' @ fname f) (v, length v) = Some (?v, length ?v)"
    using append_text_fits [of v "'', :'' @ fname f" 1024] Cons.prems(2) by simp
  have d: "append_text 1024 ?t (s, length s) = Some (s @ ?t, length (s @ ?t))"
    using Cons.prems(3) by (intro append_text_fits) (simp split: if_splits)
  have "column_texts (f # fs) False ((c, length c), (v, length v), (s, length s))
      = column_texts fs False ((?c, length ?c), (?v, length ?v), (s @ ?t, length (s @ ?t)))"
    using a b d by (simp add: Let_def)
  also have "\<dots> = (let c' = ?c @ joined False (map fname fs); v' = ?v @ joined False (map (Cons (CHR '':'') \<circ> fname) fs);
         s' = (s @ ?t) @ joined False (map (\<lambda>f. fname f @ '' = :'' @ fname f) fs)
     in Some ((c', length c'), (v', length v'), (s', length s')))"
    using Cons.IH [of ?c ?v "s @ ?t"] Cons.prems by (cases s) (simp_all add: comp_def)
  finally show ?case by (cases s) (simp_all add: comp_def)
qed simp

lemma append_text_at: "n = length buf \<Longrightarrow> n + length s < room \<Longrightarrow> append_text room s (buf, n) = Some (buf @ s, n + length s)"
  by (simp add: append_text_def)

lemma statement_texts_fit:
  assumes "flds \<noteq> []" and "texts_fit flds parent_sql"
  shows "statement_texts flds parent_sql = Some (cols_text flds parent_sql, vals_text flds parent_sql, sets_text flds)"
proof -
  obtain f fs where fs: "flds = f # fs" using assms(1) by (cases flds) auto
  let ?c = "joined True (map fname flds)" and ?v = "joined True (map (Cons (CHR '':'')) (map fname flds))"
  let ?s = "joined True (map (\<lambda>n. n @ '' = :'' @ n) (map fname fs))"
  have ct: "cols_text flds parent_sql = ?c @ (case parent_sql of NULL \<Rightarrow> [] | Ptr p \<Rightarrow> '', '' @ p) @ '', _checksum, _last_updated, _deleted''"
    by (cases parent_sql) (simp_all add: cols_text_def joined_append parent_columns_def marks_def fs)
  have vt: "vals_text flds parent_sql = ?v @ (case parent_sql of NULL \<Rightarrow> [] | Ptr p \<Rightarrow> '', :_parent'') @ '', :_checksum, :_last_updated, :_deleted''"
    by (cases parent_sql) (simp_all add: vals_text_def joined_append parent_params_def marks_def fs)
  have st: "sets_text flds = ?s @ (if ?s \<noteq> [] then '', '' else []) @
      ''_checksum = :_checksum, _last_updated = :_last_updated, _deleted = :_deleted''"
    by (cases fs) (simp_all add: sets_text_def joined_append marks_def fs)
  note fit = assms(2) [unfolded texts_fit_def ct vt st]
  have "column_texts flds True (([], 0), ([], 0), ([], 0)) =
      column_texts fs False ((fname f, length (fname f)), (CHR '':'' # fname f, length (CHR '':'' # fname f)), ([], length ([] :: string)))"
    using fit append_text_fits [of "[]" "fname f" 1024] append_text_fits [of "[]" "CHR '':'' # fname f" 1024]
    by (simp add: fs Let_def)
  also have "\<dots> = Some ((?c, length ?c), (?v, length ?v), (?s, length ?s))"
    using fit column_texts_rest [of "fname f" fs "CHR '':'' # fname f" "[]"] by (simp add: fs comp_def Let_def)
  finally show ?thesis
    using fit append_text_fits [of ?c "case parent_sql of NULL \<Rightarrow> [] | Ptr p \<Rightarrow> '', '' @ p" 1024]
      append_text_fits [of ?v "'', :_parent''" 1024]
    unfolding ct vt st statement_texts_def
    by (cases parent_sql) (simp_all add: append_text_at)
qed

section \<open>Parameters of the texts\<close>

definition ident :: "string \<Rightarrow> bool" where
  "ident n \<longleftrightarrow> n \<noteq> [] \<and> list_all is_variable_char n \<and> length n \<le> 27"

definition breaks :: "string \<Rightarrow> bool" where
  "breaks r \<longleftrightarrow> r = [] \<or> \<not> is_variable_char (hd r)"

lemma sql_plain:
  "list_all (\<lambda>c. c \<noteq> CHR '':'') s \<Longrightarrow> sql_params (s @ r) = (s @ fst (sql_params r), snd (sql_params r))"
  by (induction s) auto

lemma sql_name:
  assumes "n \<noteq> []" and "list_all is_variable_char n" and "breaks r"
  shows "sql_params (CHR '':'' # n @ r) = (CHR ''?'' # fst (sql_params r), (CHR '':'' # n) # snd (sql_params r))"
proof -
  have "takeWhile is_variable_char r = []" "dropWhile is_variable_char r = r"
    using assms(3) by (cases r; simp add: breaks_def)+
  moreover have "is_variable_char (hd (n @ r))" using assms(1,2) by (cases n) auto
  ultimately show ?thesis using assms(1,2)
    by (simp add: takeWhile_append2 dropWhile_append2 list_all_iff)
qed

lemma ident_plain: "list_all is_variable_char n \<Longrightarrow> list_all (\<lambda>c. c \<noteq> CHR '':'') n"
  using colon_not_variable by (auto simp: list_all_iff)

lemma joined_breaks: "breaks r \<Longrightarrow> breaks (joined False xs @ r)"
  by (cases xs) (auto simp: breaks_def is_variable_char_def)

lemma sql_marked:
  assumes "list_all ident ns" and "breaks r"
  shows "sql_params (joined b (map (Cons (CHR '':'')) ns) @ r) =
    (joined b (map (\<lambda>n. ''?'') ns) @ fst (sql_params r), map (Cons (CHR '':'')) ns @ snd (sql_params r))"
  using assms
proof (induction ns arbitrary: b)
  case (Cons n ns)
  let ?r = "joined False (map (Cons (CHR '':'')) ns) @ r"
  have "sql_params (CHR '':'' # n @ ?r) = (CHR ''?'' # fst (sql_params ?r), (CHR '':'' # n) # snd (sql_params ?r))"
    using Cons.prems by (intro sql_name joined_breaks) (simp_all add: ident_def)
  with Cons.IH [of False] Cons.prems show ?case by (cases b) simp_all
qed simp

lemma sql_settings:
  assumes "list_all ident ns" and "breaks r"
  shows "sql_params (joined b (map (\<lambda>n. n @ '' = :'' @ n) ns) @ r) =
    (joined b (map (\<lambda>n. n @ '' = ?'') ns) @ fst (sql_params r), map (Cons (CHR '':'')) ns @ snd (sql_params r))"
  using assms
proof (induction ns arbitrary: b)
  case (Cons n ns)
  let ?r = "joined False (map (\<lambda>n. n @ '' = :'' @ n) ns) @ r"
  have "sql_params (CHR '':'' # n @ ?r) = (CHR ''?'' # fst (sql_params ?r), (CHR '':'' # n) # snd (sql_params ?r))"
    using Cons.prems by (intro sql_name joined_breaks) (simp_all add: ident_def)
  moreover have "sql_params (n @ '' = '' @ CHR '':'' # n @ ?r) = (n @ '' = '' @ fst (sql_params (CHR '':'' # n @ ?r)), snd (sql_params (CHR '':'' # n @ ?r)))"
    using sql_plain [of "n @ '' = ''" "CHR '':'' # n @ ?r"] ident_plain [of n] Cons.prems by (simp add: ident_def)
  ultimately show ?case using Cons.IH [of False] Cons.prems by (cases b) simp_all
qed simp

lemma joined_all: "list_all (list_all P) xs \<Longrightarrow> P (CHR '','') \<Longrightarrow> P (CHR '' '') \<Longrightarrow> list_all P (joined b xs)"
  by (induction xs arbitrary: b) auto

text \<open>A list of columns the upsert can be used with.\<close>

definition table_fits :: "string \<Rightarrow> BXJsonField list \<Rightarrow> string ptr \<Rightarrow> bool" where
  "table_fits table flds parent_sql \<longleftrightarrow>
     flds \<noteq> [] \<and> length flds \<le> 48 \<and> fname (hd flds) = ''id'' \<and> list_all ident (map fname flds) \<and>
     distinct (map fname flds @ [''_parent'', ''_checksum'', ''_last_updated'', ''_deleted'']) \<and>
     table_allowed table \<and> list_all ident (parent_columns parent_sql) \<and> texts_fit flds parent_sql"

lemma table_name: "table_allowed table \<Longrightarrow> list_all is_variable_char table \<and> length table \<le> 18"
  by (auto simp: table_allowed_def is_variable_char_def)

lemma variable_no_NUL: "list_all is_variable_char n \<Longrightarrow> list_all (\<lambda>c. c \<noteq> NUL) n"
  using NUL_not_variable by (auto simp: list_all_iff)

lemma ident_no_NUL: "list_all ident ns \<Longrightarrow> list_all (list_all (\<lambda>c. c \<noteq> NUL)) ns"
  by (induction ns) (simp_all add: ident_def variable_no_NUL)

lemma marks_ident: "list_all ident marks"
  by (simp add: marks_def ident_def is_variable_char_def)

lemma parent_params_ident: "list_all ident (parent_params parent_sql)"
  by (cases parent_sql) (simp_all add: parent_params_def ident_def is_variable_char_def)

lemma close_breaks: "breaks '')''" "sql_params '')'' = ('')'', [])" "breaks []" "sql_params [] = ([], [])"
  by (simp_all add: breaks_def is_variable_char_def)

lemma and_breaks: "breaks ('' AND '' @ r)"
  by (simp add: breaks_def is_variable_char_def)

lemma insert_text:
  assumes "table_fits table flds parent_sql"
  shows "\<exists>sql. write_text True table flds parent_sql = Some sql \<and> sql \<noteq> [] \<and> list_all (\<lambda>c. c \<noteq> NUL) sql \<and>
    snd (sql_params sql) = map (Cons (CHR '':'')) (map fname flds @ parent_params parent_sql @ marks)"
proof -
  let ?ns = "map fname flds @ parent_params parent_sql @ marks"
  let ?pre = "''INSERT INTO '' @ table @ '' ('' @ cols_text flds parent_sql @ '') VALUES (''"
  let ?sql = "?pre @ joined True (map (Cons (CHR '':'')) ?ns) @ '')''"
  have fit: "texts_fit flds parent_sql" "flds \<noteq> []" and t: "list_all is_variable_char table" "length table \<le> 18"
    using assms table_name by (auto simp: table_fits_def)
  have names: "list_all ident (map fname flds)" "list_all ident (parent_columns parent_sql)"
    using assms by (simp_all add: table_fits_def)
  have ns: "list_all ident ?ns" using names(1) marks_ident parent_params_ident [of parent_sql] by simp
  have all: "list_all ident (map fname flds @ parent_columns parent_sql @ marks)" using names marks_ident by simp
  then have "list_all (list_all (\<lambda>c. c \<noteq> CHR '':'')) (map fname flds @ parent_columns parent_sql @ marks)"
    by (rule list.pred_mono_strong) (simp add: ident_def ident_plain)
  then have "list_all (\<lambda>c. c \<noteq> CHR '':'') (cols_text flds parent_sql)"
    unfolding cols_text_def by (rule joined_all) simp_all
  then have "list_all (\<lambda>c. c \<noteq> CHR '':'') ?pre" using ident_plain [OF t(1)] by simp
  then have "sql_params ?sql = (?pre @ fst (sql_params (joined True (map (Cons (CHR '':'')) ?ns) @ '')'')),
      snd (sql_params (joined True (map (Cons (CHR '':'')) ?ns) @ '')'')))"
    by (rule sql_plain)
  moreover have "sql_params (joined True (map (Cons (CHR '':'')) ?ns) @ '')'') = (joined True (map (\<lambda>n. ''?'') ?ns) @ '')'', map (Cons (CHR '':'')) ?ns)"
    using sql_marked [OF ns close_breaks(1), of True] by (simp only: close_breaks fst_conv snd_conv append_Nil2)
  ultimately have names: "snd (sql_params ?sql) = map (Cons (CHR '':'')) ?ns" by (simp only: snd_conv)
  have "write_text True table flds parent_sql = Some (take 2799 ?sql)"
    by (simp only: write_text_def statement_texts_fit [OF fit(2,1)] vals_text_def option.map prod.case if_True append_assoc)
  then have stmt: "write_text True table flds parent_sql = Some ?sql"
    using fit(1) t(2) take_all [of ?sql 2799] by (simp add: texts_fit_def vals_text_def del: take_all)
  have nul: "list_all (\<lambda>c. c \<noteq> NUL) ?sql"
    using ident_no_NUL [OF all] ident_no_NUL [OF ns] variable_no_NUL [OF t(1)]
    unfolding list_all_append cols_text_def
    by (intro conjI joined_all) (simp_all add: NUL_def list.pred_map comp_def)
  show ?thesis by (rule exI [of _ ?sql], intro conjI stmt nul names) simp
qed

definition where_text :: "string ptr \<Rightarrow> string" where
  "where_text parent_sql = '' WHERE id = :id'' @ (case parent_sql of NULL \<Rightarrow> [] | Ptr p \<Rightarrow> '' AND '' @ p @ '' = :_parent'')"

lemma where_params:
  assumes "list_all ident (parent_columns parent_sql)"
  shows "snd (sql_params (where_text parent_sql)) = map (Cons (CHR '':'')) (''id'' # parent_params parent_sql)"
    "list_all (\<lambda>c. c \<noteq> NUL) (where_text parent_sql)" "breaks (where_text parent_sql)" "length (where_text parent_sql) \<le> 58"
proof -
  have i: "''id'' \<noteq> []" "list_all is_variable_char ''id''" by (simp_all add: is_variable_char_def)
  have w: "snd (sql_params ('' WHERE id = :id'' @ r)) = '':id'' # snd (sql_params r)" if "breaks r" for r
    using sql_plain [of "'' WHERE id = ''" "'':id'' @ r"] sql_name [OF i that] by simp
  have p: "snd (sql_params ('' AND '' @ p @ '' = :_parent'')) = ['':_parent'']" if "ident p" for p
    using sql_plain [of "'' AND '' @ p @ '' = ''" "'':_parent''"] ident_plain [of p] that
      sql_name [of "''_parent''" "[]"] by (simp add: ident_def is_variable_char_def breaks_def)
  show "snd (sql_params (where_text parent_sql)) = map (Cons (CHR '':'')) (''id'' # parent_params parent_sql)"
    using w p assms by (cases parent_sql)
      (simp_all only: where_text_def parent_params_def parent_columns_def ptr.case list.pred_inject simp_thms close_breaks and_breaks list.map snd_conv)
  show "list_all (\<lambda>c. c \<noteq> NUL) (where_text parent_sql)"
    using ident_no_NUL [OF assms] by (cases parent_sql) (simp_all add: where_text_def parent_columns_def NUL_def)
  show "breaks (where_text parent_sql)" by (simp add: where_text_def breaks_def is_variable_char_def)
  show "length (where_text parent_sql) \<le> 58"
    using assms by (cases parent_sql) (simp_all add: where_text_def parent_columns_def ident_def)
qed

lemma update_text:
  assumes "table_fits table flds parent_sql"
  shows "\<exists>sql. write_text False table flds parent_sql = Some sql \<and> sql \<noteq> [] \<and> list_all (\<lambda>c. c \<noteq> NUL) sql \<and>
    snd (sql_params sql) = map (Cons (CHR '':'')) (map fname (tl flds) @ marks @ ''id'' # parent_params parent_sql)"
proof -
  let ?ns = "map fname (tl flds) @ marks"
  let ?pre = "''UPDATE '' @ table @ '' SET ''"
  let ?sql = "?pre @ joined True (map (\<lambda>n. n @ '' = :'' @ n) ?ns) @ where_text parent_sql"
  have fit: "texts_fit flds parent_sql" "flds \<noteq> []" and t: "list_all is_variable_char table" "length table \<le> 18"
    and i: "fname (hd flds) = ''id''" and p: "list_all ident (parent_columns parent_sql)"
    using assms table_name by (auto simp: table_fits_def)
  have "list_all ident (map fname flds)" using assms by (simp add: table_fits_def)
  then have ns: "list_all ident ?ns" using marks_ident fit(2) by (cases flds) simp_all
  note wp = where_params [OF p]
  have "list_all (\<lambda>c. c \<noteq> CHR '':'') ?pre" using ident_plain [OF t(1)] by simp
  then have "sql_params ?sql = (?pre @ fst (sql_params (joined True (map (\<lambda>n. n @ '' = :'' @ n) ?ns) @ where_text parent_sql)),
      snd (sql_params (joined True (map (\<lambda>n. n @ '' = :'' @ n) ?ns) @ where_text parent_sql)))"
    by (rule sql_plain)
  then have names: "snd (sql_params ?sql) = map (Cons (CHR '':'')) (map fname (tl flds) @ marks @ ''id'' # parent_params parent_sql)"
    using sql_settings [OF ns wp(3), of True] wp(1) by (simp only: snd_conv map_append append_assoc)
  have "write_text False table flds parent_sql = Some (take 2799 ?sql)"
    by (simp only: write_text_def statement_texts_fit [OF fit(2,1)] sets_text_def i where_text_def option.map prod.case if_False append_assoc)
       simp
  then have stmt: "write_text False table flds parent_sql = Some ?sql"
    using fit(1) t(2) wp(4) take_all [of ?sql 2799] by (simp add: texts_fit_def sets_text_def del: take_all)
  have nul: "list_all (\<lambda>c. c \<noteq> NUL) ?sql"
    using ident_no_NUL [OF ns] variable_no_NUL [OF t(1)] wp(2)
    unfolding list_all_append by (intro conjI joined_all) (simp_all add: NUL_def list.pred_map comp_def)
  show ?thesis by (rule exI [of _ ?sql], intro conjI stmt nul) (simp, rule names)
qed

lemma select_names:
  assumes "table_fits table flds parent_sql"
  shows "select_text table flds parent_sql \<noteq> [] \<and> list_all (\<lambda>c. c \<noteq> NUL) (select_text table flds parent_sql) \<and>
    snd (sql_params (select_text table flds parent_sql)) = map (Cons (CHR '':'')) (''id'' # parent_params parent_sql)"
proof -
  let ?pre = "''SELECT _checksum FROM '' @ table"
  have t: "list_all is_variable_char table" "length table \<le> 18" and i: "fname (hd flds) = ''id''"
    and p: "list_all ident (parent_columns parent_sql)"
    using assms table_name by (auto simp: table_fits_def)
  note wp = where_params [OF p]
  have "select_text table flds parent_sql = take 255 (?pre @ where_text parent_sql)"
    by (simp only: select_text_def i where_text_def append_assoc) simp
  then have s: "select_text table flds parent_sql = ?pre @ where_text parent_sql"
    using t(2) wp(4) take_all [of "?pre @ where_text parent_sql" 255] by (simp del: take_all)
  have "sql_params (?pre @ where_text parent_sql) = (?pre @ fst (sql_params (where_text parent_sql)), snd (sql_params (where_text parent_sql)))"
    using ident_plain [OF t(1)] by (intro sql_plain) simp
  then have "snd (sql_params (?pre @ where_text parent_sql)) = map (Cons (CHR '':'')) (''id'' # parent_params parent_sql)"
    using wp(1) by (simp only: snd_conv)
  moreover have "list_all (\<lambda>c. c \<noteq> NUL) (?pre @ where_text parent_sql)"
    using variable_no_NUL [OF t(1)] wp(2) by (simp add: NUL_def)
  ultimately show ?thesis unfolding s by blast
qed

end
