(* ===== verification/Bx_Tables.thy ===== *)
theory Bx_Tables
  imports Bx_Upsert_Texts
begin

text \<open>The tables the program writes with the generic upsert: which of them its buffers can hold.\<close>

definition catalogue_tables :: "(string \<times> BXJsonField list \<times> string ptr) list" where
  "catalogue_tables =
     [(''country'', country_fields, NULL), (''client_service'', client_service_fields, NULL),
      (''bank_account'', bank_account_fields, NULL), (''company_profile'', company_fields, NULL),
      (''calendar_year'', calendar_fields, NULL), (''business_year'', business_year_fields, NULL),
      (''vat_period'', vat_period_fields, NULL), (''contact_relation'', relation_fields, NULL)]"

definition record_tables :: "(string \<times> BXJsonField list \<times> string ptr) list" where
  "record_tables =
     [(''article'', article_fields, NULL), (''note'', note_fields, NULL), (''task'', task_fields, NULL),
      (''timesheet'', timesheet_fields, NULL), (''purchase_order'', purchase_order_fields, NULL),
      (''purchase_bill'', bill_fields, NULL), (''expense'', expense_fields, NULL),
      (''manual_entry'', manual_head_fields, NULL), (''manual_entry_line'', manual_line_fields, Ptr ''_entry_id'')]"

definition document_tables :: "(string \<times> BXJsonField list \<times> string ptr) list" where
  "document_tables =
     [(''kb_quote'', kb_quote_fields, NULL), (''kb_order'', kb_order_fields, NULL), (''kb_delivery'', kb_delivery_fields, NULL),
      (''kb_comment'', kb_comment_fields, Ptr ''_document_id'')]"

definition detail_tables :: "(string \<times> BXJsonField list \<times> string ptr) list" where
  "detail_tables =
     [(''additional_address'', address_fields, Ptr ''_contact_id''),
      (''invoice_payment'', payment_fields, Ptr ''_invoice_id''), (''invoice_reminder'', reminder_fields, Ptr ''_invoice_id''),
      (''kb_comment'', invoice_comment_fields, Ptr ''_document_id''), (''project_milestone'', milestone_fields, Ptr ''_project_id''),
      (''project_package'', package_fields, Ptr ''_project_id'')]"

lemma catalogue_tables_fit: "list_all (\<lambda>(table, flds, parent_sql). table_fits table flds parent_sql) catalogue_tables"
  by code_simp

lemma record_tables_fit: "list_all (\<lambda>(table, flds, parent_sql). table_fits table flds parent_sql) record_tables"
  by code_simp

lemma document_tables_fit: "list_all (\<lambda>(table, flds, parent_sql). table_fits table flds parent_sql) document_tables"
  by code_simp

lemma detail_tables_fit: "list_all (\<lambda>(table, flds, parent_sql). table_fits table flds parent_sql) detail_tables"
  by code_simp

definition upsert_tables :: "(string \<times> BXJsonField list \<times> string ptr) list" where
  "upsert_tables = catalogue_tables @ record_tables @ document_tables @ detail_tables"

text \<open>
  The field lists of the program fit the generic upsert: at most 48 fields, an allowed table,
  the key \<open>id\<close> first, parameter names that differ and fit their 30 bytes, and statements that
  fit their buffers. Only the table \<open>account_group\<close> is not in the list.
\<close>

theorem upsert_tables_fit: "list_all (\<lambda>(table, flds, parent_sql). table_fits table flds parent_sql) upsert_tables"
  by (simp add: upsert_tables_def catalogue_tables_fit record_tables_fit document_tables_fit detail_tables_fit)

text \<open>
  The writes of \<open>account_group\<close> name a parameter of 29 characters and leave the buffer of its name.
\<close>

theorem account_group_overflow:
  "write_row env need_insert ''account_group'' account_group_fields slots checksum NULL parent_id w = None"
proof -
  have "Option.bind (write_text True ''account_group'' account_group_fields NULL) bx_database_new_query = None" by code_simp
  moreover have "Option.bind (write_text False ''account_group'' account_group_fields NULL) bx_database_new_query = None" by code_simp
  ultimately show ?thesis by (cases need_insert) (auto simp: write_row_def split: bind_splits)
qed

end
