(* ===== verification/Bx_Upsert_Properties.thy ===== *)
theory Bx_Upsert_Properties
  imports Bx_Tables Bx_Prune
begin

text \<open>
  What the generic upsert guarantees: its statements fit their buffers for the tables of the
  program, every value is bound under its own name, and a row of the table has the values and
  the checksum of the object afterwards, or had its checksum before.
\<close>

section \<open>Binding\<close>

text \<open>What a binding does to the parameter it finds, and the bind it leads to.\<close>

fun param_update :: "BXAny \<Rightarrow> BXDatabaseParameter \<Rightarrow> BXDatabaseParameter" where
  "param_update (AInteger v) = (if \<not> bi_isset v then set_null
     else set_value (Ptr (le_bytes 8 (word_of_int (bi_value v) :: u64))) 8 MYSQL_TYPE_LONGLONG)"
| "param_update (AUInteger v) = (if \<not> bu_isset v then set_null else set_value (Ptr (le_bytes 8 (bu_value v))) 8 MYSQL_TYPE_LONGLONG)"
| "param_update (AString v) = (if \<not> bs_isset v \<or> bs_value v = NULL then set_null
     else set_value (bytes_ptr (bs_value v)) (bs_len v) MYSQL_TYPE_STRING)"
| "param_update (AFloat v) = (if \<not> bf_isset v then set_null else set_value (Ptr (le_bytes 8 (bf_value v))) 8 MYSQL_TYPE_DOUBLE)"
| "param_update (ABool v) = (if \<not> bb_isset v then set_null else set_value (Ptr [if bb_value v then 1 else 0]) 1 MYSQL_TYPE_TINY)"
| "param_update (ABytes v) = (if \<not> by_isset v \<or> by_value v = NULL then set_null else set_value (by_value v) (by_len v) MYSQL_TYPE_BLOB)"
| "param_update (AUuid v) = (if \<not> bq_isset v then set_null
     else set_value (Ptr (le_bytes 8 (fst (bq_value v)) @ le_bytes 8 (snd (bq_value v)))) 16 MYSQL_TYPE_BLOB)"
| "param_update (Other t) = set_null"

definition any_bind :: "BXAny \<Rightarrow> MYSQL_BIND" where
  "any_bind v = fst (param_to_bind (param_update v zero_parameter))"

lemma add_bxtype_update: "bx_database_add_bxtype q name v = with_param q name (param_update v)"
  by (cases v) simp_all

lemma param_update_name: "pa_name (param_update v p) = pa_name p"
  by (cases v) (simp_all add: set_null_def set_value_def)

lemma param_update_bind: "fst (param_to_bind (param_update v p)) = any_bind v"
  by (cases v) (simp_all add: any_bind_def set_null_def set_value_def param_to_bind_def Let_def)

text \<open>The parameters of a query, and what the ones in \<open>g\<close> are bound to.\<close>

definition bound :: "string list \<Rightarrow> (string \<rightharpoonup> MYSQL_BIND) \<Rightarrow> BXDatabaseQuery \<Rightarrow> bool" where
  "bound ns g q \<longleftrightarrow> map (\<lambda>p. cstr (pa_name p)) (dq_parameters q) = ns \<and>
     (\<forall>i < length ns. \<forall>b. g (ns ! i) = Some b \<longrightarrow> fst (param_to_bind (dq_parameters q ! i)) = b) \<and>
     distinct ns \<and> list_all (\<lambda>n. length n \<le> 28 \<and> list_all (\<lambda>c. c \<noteq> NUL) n) ns"

lemma first_place: "x \<in> set xs \<Longrightarrow> length (takeWhile (\<lambda>y. y \<noteq> x) xs) < length xs"
  by (induction xs) auto

lemma with_param_bound:
  assumes "bound ns g q" and "length name \<le> 30" and "\<And>p. pa_name (f p) = pa_name p" and "\<And>p. fst (param_to_bind (f p)) = b"
  shows "bound ns (g(name \<mapsto> b)) (snd (with_param q name f))"
proof (cases "name \<in> set ns")
  case False
  then have "find_param (dq_parameters q) name = None"
    using find_param_named [of ns name "dq_parameters q"] assms(1,2) by (simp add: bound_def)
  moreover have "ns ! i \<noteq> name" if "i < length ns" for i using False that nth_mem by blast
  ultimately show ?thesis using assms(1) by (simp add: bound_def with_param_def)
next
  case True
  let ?k = "length (takeWhile (\<lambda>n. n \<noteq> name) ns)"
  have k: "?k < length ns" "ns ! ?k = name"
    using first_place [OF True] nth_length_takeWhile [of "\<lambda>n. n \<noteq> name" ns] by auto
  have len: "length (dq_parameters q) = length ns" and d: "distinct ns"
    using assms(1) by (auto simp: bound_def)
  have find: "find_param (dq_parameters q) name = Some ?k"
    using find_param_named [of ns name "dq_parameters q"] assms(1,2) True by (simp add: bound_def)
  have names: "map (\<lambda>p. cstr (pa_name p)) (dq_parameters q) = ns" using assms(1) by (simp add: bound_def)
  have "map (\<lambda>p. cstr (pa_name p)) ((dq_parameters q)[?k := f (dq_parameters q ! ?k)])
      = (map (\<lambda>p. cstr (pa_name p)) (dq_parameters q))[?k := cstr (pa_name (dq_parameters q ! ?k))]"
    by (simp only: map_update assms(3))
  also have "\<dots> = ns"
    using names k(1) len list_update_id [of ns ?k] by (metis nth_map)
  finally have "map (\<lambda>p. cstr (pa_name p)) ((dq_parameters q)[?k := f (dq_parameters q ! ?k)]) = ns" .
  moreover have "fst (param_to_bind ((dq_parameters q)[?k := f (dq_parameters q ! ?k)] ! i)) = b'"
    if "i < length ns" "(g(name \<mapsto> b)) (ns ! i) = Some b'" for i b'
  proof (cases "i = ?k")
    case True
    then show ?thesis using that k len assms(4) by simp
  next
    case False
    then have "ns ! i \<noteq> name" using that(1) k d nth_eq_iff_index_eq by metis
    then show ?thesis using that False assms(1) by (simp add: bound_def)
  qed
  ultimately show ?thesis using assms(1) find by (simp add: bound_def with_param_def)
qed

lemma bind_value_bound: "bound ns g q \<Longrightarrow> length name \<le> 30 \<Longrightarrow> bound ns (g(name \<mapsto> any_bind v)) (bind_value name v q)"
  unfolding bind_value_def add_bxtype_update by (rule with_param_bound) (simp_all add: param_update_name param_update_bind)

lemma bind_uint64_bound: "bound ns g q \<Longrightarrow> length name \<le> 30 \<Longrightarrow> bound ns (g(name \<mapsto> id_bind v)) (bind_uint64 name v q)"
  unfolding bind_uint64_def bx_database_add_param_uint64_def bx_database_add_param_int_def
  by (rule with_param_bound) (simp_all add: param_to_bind_def id_bind_def)

lemma bound_all:
  assumes "bound ns g q" and "set ns \<subseteq> dom g"
  shows "map (fst \<circ> param_to_bind) (dq_parameters q) = map (\<lambda>n. the (g n)) ns"
proof (rule nth_equalityI)
  show "length (map (fst \<circ> param_to_bind) (dq_parameters q)) = length (map (\<lambda>n. the (g n)) ns)"
    using assms(1) by (auto simp: bound_def)
  fix i
  assume "i < length (map (fst \<circ> param_to_bind) (dq_parameters q))"
  then have i: "i < length ns" "i < length (dq_parameters q)" using assms(1) by (auto simp: bound_def)
  then obtain b where "g (ns ! i) = Some b" using assms(2) nth_mem [OF i(1)] by blast
  then show "map (fst \<circ> param_to_bind) (dq_parameters q) ! i = map (\<lambda>n. the (g n)) ns ! i"
    using assms(1) i by (simp add: bound_def)
qed

lemma bind_slots_bound:
  assumes "bound ns g q" and "list_all ident (map fname fs)" and "length vs = length fs"
  shows "bound ns (g(map (\<lambda>f. CHR '':'' # fname f) fs [\<mapsto>] map any_bind vs)) (bind_slots fs vs q)"
  using assms
proof (induction fs vs q arbitrary: g rule: bind_slots.induct)
  case (1 f fs v vs q)
  have "take 63 ('':'' @ fname f) = CHR '':'' # fname f" "length (CHR '':'' # fname f) \<le> 30"
    using 1 by (simp_all add: ident_def)
  with bind_value_bound [OF "1.prems"(1), of "CHR '':'' # fname f" v] 1 show ?case by simp
qed auto

section \<open>Running a statement\<close>

text \<open>The parts of the interface that do not execute leave the rows alone.\<close>

definition quiet_api :: "'w stmt_api \<Rightarrow> ('w \<Rightarrow> 'r) \<Rightarrow> bool" where
  "quiet_api api rows \<longleftrightarrow>
     (\<forall>t w. rows (snd (sa_prepare api t w)) = rows w) \<and> (\<forall>bs w. rows (snd (sa_bind api bs w)) = rows w) \<and>
     (\<forall>w. rows (snd (sa_show_warnings api w)) = rows w) \<and> (\<forall>w. rows (snd (snd (sa_fetch api w))) = rows w)"

definition fresh :: "string \<Rightarrow> BXDatabaseQuery \<Rightarrow> bool" where
  "fresh t q \<longleftrightarrow> cstr (dq_query q) = t \<and> \<not> dq_executed q \<and> dq_results q = []"

lemma fresh_binds [simp]:
  "fresh t (bind_value name v q) = fresh t q" "fresh t (bind_uint64 name u q) = fresh t q"
  by (auto simp: fresh_def bind_value_def bind_uint64_def add_bxtype_update bx_database_add_param_uint64_def
      bx_database_add_param_int_def with_param_def split: option.splits)

lemma fresh_bind_slots [simp]: "fresh t (bind_slots fs vs q) = fresh t q"
  by (induction fs vs q rule: bind_slots.induct) simp_all

lemma run_prepared:
  assumes "quiet_api api rows" and "execute_prepared api q w = (ok, q', w')" and "cstr (dq_query q) = t"
    and "map (fst \<circ> param_to_bind) (dq_parameters q) = bs"
  shows "\<exists>w0 e w1. rows w0 = rows w \<and> sa_execute api t bs w0 = (e, w1) \<and> (rows w' = rows w \<or> rows w' = rows w1) \<and>
    (ok \<longrightarrow> e = 0 \<and> (w' = w1 \<or> w' = snd (sa_show_warnings api w1)) \<and> dq_results q' = dq_results q \<and> \<not> dq_has_failed q' \<and>
       dq_result_metadata q' = sa_result_metadata api w1 \<and> dq_has_dataset q' = (sa_result_metadata api w1 \<noteq> NULL))"
proof -
  obtain e1 w1 where b: "sa_bind api bs w = (e1, w1)" by fastforce
  obtain e2 w2 where x: "sa_execute api t bs w1 = (e2, w2)" by fastforce
  obtain r w3 where s: "sa_show_warnings api w2 = (r, w3)" by fastforce
  have rows: "rows w1 = rows w" "rows w3 = rows w2"
    using assms(1) b s unfolding quiet_api_def by (metis snd_conv)+
  have fst_bound: "map fst (map param_to_bind (dq_parameters q)) = bs" using assms(4) by simp
  note ex = assms(2) [unfolded execute_prepared_def Let_def fst_bound assms(3) b, simplified prod.case x]
  have "rows w' = rows w \<or> rows w' = rows w2"
    using ex x s rows by (auto simp: bx_database_print_warnings_def split: if_splits sum.splits prod.splits)
  moreover have "ok \<longrightarrow> e2 = 0 \<and> (w' = w2 \<or> w' = snd (sa_show_warnings api w2)) \<and> dq_results q' = dq_results q \<and> \<not> dq_has_failed q' \<and>
      dq_result_metadata q' = sa_result_metadata api w2 \<and> dq_has_dataset q' = (sa_result_metadata api w2 \<noteq> NULL)"
    using ex x s by (auto simp: bx_database_print_warnings_def mark_reconnect_def split: if_splits sum.splits prod.splits)
  ultimately show ?thesis using rows(1) x by blast
qed

lemma run_query:
  assumes quiet: "quiet_api (st_api env) rows" and run: "query_rows env q w = (ok, q', w')" and q: "fresh t q"
    and bs: "map (fst \<circ> param_to_bind) (dq_parameters q) = bs"
  shows "rows w' = rows w \<or> (\<exists>w0 e w1. rows w0 = rows w \<and> sa_execute (st_api env) t bs w0 = (e, w1) \<and> rows w' = rows w1)"
    and "ok \<Longrightarrow> \<exists>w0 w1 w2. rows w0 = rows w \<and> sa_execute (st_api env) t bs w0 = (0, w1) \<and>
      (w2 = w1 \<or> w2 = snd (sa_show_warnings (st_api env) w1)) \<and> rows w' = rows w1 \<and>
      (case sa_result_metadata (st_api env) w1 of
         NULL \<Rightarrow> dq_results q' = []
       | Ptr cols \<Rightarrow> \<exists>r w3. sa_fetch (st_api env) w2 = (r, 0, w3) \<and> dq_results q' = map (fetch_row cols) r)"
proof -
  let ?api = "st_api env"
  obtain ep wp where p: "sa_prepare ?api t w = (ep, wp)" by fastforce
  have rp: "rows wp = rows w" using quiet p unfolding quiet_api_def by (metis snd_conv)
  have t: "cstr (dq_query q) = t" "\<not> dq_executed q" "dq_results q = []" using q by (auto simp: fresh_def)
  obtain ok1 q1 w1 where e: "bx_database_execute ?api q w = (ok1, q1, w1)" by (metis prod_cases3)
  have fetched: "rows (snd (snd (sa_fetch ?api w))) = rows w" for w using quiet by (simp add: quiet_api_def)
  have warned: "rows (snd (sa_show_warnings ?api w)) = rows w" for w using quiet by (simp add: quiet_api_def)
  have rr: "rows w' = rows w1"
    using run e fetched [of w1]
    by (auto simp: query_rows_def bx_database_results_def Let_def split: bool.splits ptr.splits if_splits prod.splits)
  have run1: "(ep \<noteq> 0 \<and> w1 = wp \<and> \<not> ok1) \<or> execute_prepared ?api q wp = (ok1, q1, w1)"
    using e t p by (auto simp: bx_database_execute_def split: if_splits)
  show "rows w' = rows w \<or> (\<exists>w0 e w1. rows w0 = rows w \<and> sa_execute ?api t bs w0 = (e, w1) \<and> rows w' = rows w1)"
    using run1 run_prepared [OF quiet _ t(1) bs, of wp ok1 q1 w1] rr rp by metis
  assume ok
  then have "ok1" using run e by (auto simp: query_rows_def split: bool.splits)
  then obtain w0 w2 where x: "rows w0 = rows w" "sa_execute ?api t bs w0 = (0, w2)" "w1 = w2 \<or> w1 = snd (sa_show_warnings ?api w2)"
      "dq_results q1 = []" "\<not> dq_has_failed q1" "dq_result_metadata q1 = sa_result_metadata ?api w2"
      "dq_has_dataset q1 = (sa_result_metadata ?api w2 \<noteq> NULL)"
    using run1 run_prepared [OF quiet _ t(1) bs, of wp ok1 q1 w1] rp t(3) by auto
  have "case sa_result_metadata ?api w2 of NULL \<Rightarrow> dq_results q' = []
       | Ptr cols \<Rightarrow> \<exists>r w3. sa_fetch ?api w1 = (r, 0, w3) \<and> dq_results q' = map (fetch_row cols) r"
    using run e x \<open>ok\<close> \<open>ok1\<close>
    by (auto simp: query_rows_def bx_database_results_def Let_def free_query_metadata_def
        split: bool.splits ptr.splits if_splits prod.splits)
  moreover have "rows w' = rows w2" using rr x(3) warned by auto
  ultimately show "\<exists>w0 w1 w2. rows w0 = rows w \<and> sa_execute ?api t bs w0 = (0, w1) \<and>
      (w2 = w1 \<or> w2 = snd (sa_show_warnings ?api w1)) \<and> rows w' = rows w1 \<and>
      (case sa_result_metadata ?api w1 of NULL \<Rightarrow> dq_results q' = []
       | Ptr cols \<Rightarrow> \<exists>r w3. sa_fetch ?api w2 = (r, 0, w3) \<and> dq_results q' = map (fetch_row cols) r)"
    using x(1-3) by blast
qed

section \<open>Rows\<close>

text \<open>
  A row is found by the bound key, the id and the parent of the object. The laws of a table:
  the selection gives the checksum of the row of the key, an insertion makes the row of its
  key, an update changes it, and a statement that fails leaves the rows alone.
\<close>

record table_row =
  tr_values :: "MYSQL_BIND list"
  tr_checksum :: u64
  tr_last_updated :: u64
  tr_deleted :: u64

definition selects_rows :: "'w stmt_api \<Rightarrow> ('w \<Rightarrow> MYSQL_BIND list \<rightharpoonup> table_row) \<Rightarrow> string \<Rightarrow> bool" where
  "selects_rows api rows t \<longleftrightarrow>
     (\<forall>key w e w1. sa_execute api t key w = (e, w1) \<longrightarrow> rows w1 = rows w \<and>
        (e = 0 \<longrightarrow> (\<exists>c. sa_result_metadata api w1 = Ptr [(c, MYSQL_TYPE_LONGLONG)]) \<and>
           (\<forall>w2 r w3. w2 = w1 \<or> w2 = snd (sa_show_warnings api w1) \<longrightarrow> sa_fetch api w2 = (r, 0, w3) \<longrightarrow>
              r = (case rows w key of None \<Rightarrow> [] | Some x \<Rightarrow> [[CellInt (uint (tr_checksum x))]]))))"

definition inserts_rows :: "'w stmt_api \<Rightarrow> ('w \<Rightarrow> MYSQL_BIND list \<rightharpoonup> table_row) \<Rightarrow> string \<Rightarrow> nat \<Rightarrow> nat \<Rightarrow> bool" where
  "inserts_rows api rows t n k \<longleftrightarrow>
     (\<forall>i vs ps cs now del w e w1. length vs = n \<longrightarrow> length ps = k \<longrightarrow>
        sa_execute api t (i # vs @ ps @ map id_bind [cs, now, del]) w = (e, w1) \<longrightarrow>
        rows w1 = (if e = 0 then (rows w)(i # ps \<mapsto> \<lparr>tr_values = vs, tr_checksum = cs, tr_last_updated = now, tr_deleted = del\<rparr>)
                   else rows w))"

definition updates_rows :: "'w stmt_api \<Rightarrow> ('w \<Rightarrow> MYSQL_BIND list \<rightharpoonup> table_row) \<Rightarrow> string \<Rightarrow> nat \<Rightarrow> nat \<Rightarrow> bool" where
  "updates_rows api rows t n k \<longleftrightarrow>
     (\<forall>i vs ps cs now del w e w1. length vs = n \<longrightarrow> length ps = k \<longrightarrow>
        sa_execute api t (vs @ map id_bind [cs, now, del] @ i # ps) w = (e, w1) \<longrightarrow>
        rows w1 = (if e = 0 \<and> i # ps \<in> dom (rows w)
                   then (rows w)(i # ps \<mapsto> \<lparr>tr_values = vs, tr_checksum = cs, tr_last_updated = now, tr_deleted = del\<rparr>)
                   else rows w))"

definition stores_rows :: "'w stmt_api \<Rightarrow> ('w \<Rightarrow> MYSQL_BIND list \<rightharpoonup> table_row) \<Rightarrow> string \<Rightarrow> BXJsonField list \<Rightarrow> string ptr \<Rightarrow> bool" where
  "stores_rows api rows table flds parent_sql \<longleftrightarrow>
     (let n = length flds - 1; k = length (parent_params parent_sql) in
      quiet_api api rows \<and> selects_rows api rows (fst (sql_params (select_text table flds parent_sql))) \<and>
      (\<forall>sql. write_text True table flds parent_sql = Some sql \<longrightarrow> inserts_rows api rows (fst (sql_params sql)) n k) \<and>
      (\<forall>sql. write_text False table flds parent_sql = Some sql \<longrightarrow> updates_rows api rows (fst (sql_params sql)) n k))"

definition parent_key :: "string ptr \<Rightarrow> u64 \<Rightarrow> MYSQL_BIND list" where
  "parent_key parent_sql parent_id = (case parent_sql of NULL \<Rightarrow> [] | Ptr p \<Rightarrow> [id_bind parent_id])"

lemma new_bound:
  assumes "sql \<noteq> []" and "list_all (\<lambda>c. c \<noteq> NUL) sql" and "snd (sql_params sql) = map (Cons (CHR '':'')) ns"
    and "list_all ident ns" and "distinct ns"
  shows "\<exists>q. bx_database_new_query sql = Some (Ptr q) \<and> fresh (fst (sql_params sql)) q \<and> bound (map (Cons (CHR '':'')) ns) Map.empty q"
proof -
  have ok: "length n \<le> 28 \<and> list_all (\<lambda>c. c \<noteq> NUL) n" if "n \<in> set (snd (sql_params sql))" for n
    using that assms(3,4) sql_params_names_ok [OF assms(2)] by (fastforce simp: list_all_iff ident_def)
  then have short: "list_all (\<lambda>n. length n \<le> 28) (snd (sql_params sql))" by (simp add: list_all_iff)
  obtain q where q: "bx_database_new_query sql = Some (Ptr q)" "cstr (dq_query q) = fst (sql_params sql)"
      "dq_parameters q = map named (snd (sql_params sql))" "\<not> dq_executed q"
    using new_query_spec [OF assms(1) short assms(2)] by blast
  have "dq_results q = []"
    using q(1) by (auto simp: bx_database_new_query_def Let_def split: if_splits bind_splits prod.splits)
  moreover have "map (\<lambda>p. cstr (pa_name p)) (dq_parameters q) = snd (sql_params sql)"
    unfolding q(3) using ok by (auto intro!: map_idI cstr_named simp: comp_def)
  moreover have "distinct (map (Cons (CHR '':'')) ns)" using assms(5) by (simp add: distinct_map inj_on_def)
  ultimately show ?thesis using q ok assms(3) by (auto simp: fresh_def bound_def list_all_iff)
qed

lemma bind_parent_bound:
  "bound ns g q \<Longrightarrow> bound ns (g(map (Cons (CHR '':'')) (parent_params parent_sql) [\<mapsto>] parent_key parent_sql parent_id)) (bind_parent parent_sql parent_id q)"
  using bind_uint64_bound [of ns g q "'':_parent''" parent_id]
  by (cases parent_sql) (simp_all add: bind_parent_def parent_params_def parent_key_def)

lemma bind_marks_bound:
  assumes "bound ns g q"
  shows "bound ns (g(map (Cons (CHR '':'')) marks [\<mapsto>] map id_bind [cs, now, 0])) (bind_marks cs now q)"
  using bind_uint64_bound [OF bind_uint64_bound [OF bind_uint64_bound [OF assms, of "'':_checksum''" cs], of "'':_last_updated''" now],
      of "'':_deleted''" 0]
  by (simp add: bind_marks_def marks_def)

lemma fresh_parent_marks [simp]:
  "fresh t (bind_parent parent_sql parent_id q) = fresh t q" "fresh t (bind_marks cs now q) = fresh t q"
  by (simp_all add: bind_parent_def bind_marks_def)

lemma map_upds_lookup:
  "length ks = length vs \<Longrightarrow> distinct ks \<Longrightarrow> map (\<lambda>k. the ((g(ks [\<mapsto>] vs)) k)) ks = vs"
proof (induction ks arbitrary: vs g)
  case (Cons k ks)
  then obtain v vs' where "vs = v # vs'" by (cases vs) auto
  moreover have "((g(k \<mapsto> v))(ks [\<mapsto>] vs')) k = Some v" using Cons.prems(2) by (simp add: map_upds_apply_nontin)
  moreover have "map (\<lambda>x. the (((g(k \<mapsto> v))(ks [\<mapsto>] vs')) x)) ks = vs'"
    using Cons.prems calculation(1) by (intro Cons.IH) simp_all
  ultimately show ?case by (simp only: map_upds_Cons list.map option.sel)
qed simp

lemma map_upds_others: "set ks \<inter> set xs = {} \<Longrightarrow> map (\<lambda>k. the ((g(ks [\<mapsto>] vs)) k)) xs = map (\<lambda>k. the (g k)) xs"
  by (induction xs) (auto simp: map_upds_apply_nontin)

lemma parent_key_length: "length (parent_key parent_sql parent_id) = length (parent_params parent_sql)"
  by (cases parent_sql) (simp_all add: parent_key_def parent_params_def)

lemma select_run:
  assumes law: "stores_rows (st_api env) rows table flds parent_sql"
    and q: "fresh (fst (sql_params (select_text table flds parent_sql))) q"
    and b: "bound (map (Cons (CHR '':'')) (''id'' # parent_params parent_sql)) Map.empty q"
    and run: "query_rows env (bind_parent parent_sql parent_id (bind_value '':id'' v q)) w = (ok, q', w')"
  shows "rows w' = rows w \<and> (ok \<longrightarrow> first_value q' = map_option tr_checksum (rows w (any_bind v # parent_key parent_sql parent_id)))"
proof -
  let ?q = "bind_parent parent_sql parent_id (bind_value '':id'' v q)" and ?key = "any_bind v # parent_key parent_sql parent_id"
  let ?g = "(['':id'' \<mapsto> any_bind v])(map (Cons (CHR '':'')) (parent_params parent_sql) [\<mapsto>] parent_key parent_sql parent_id)"
  have "bound (map (Cons (CHR '':'')) (''id'' # parent_params parent_sql)) ?g ?q"
    using bind_parent_bound [OF bind_value_bound [OF b, of "'':id''" v], of parent_sql parent_id] by simp
  from bound_all [OF this] have bs: "map (fst \<circ> param_to_bind) (dq_parameters ?q) = ?key"
    by (cases parent_sql) (auto simp: parent_params_def parent_key_def)
  have f: "fresh (fst (sql_params (select_text table flds parent_sql))) ?q" using q by simp
  have quiet: "quiet_api (st_api env) rows" and sel: "selects_rows (st_api env) rows (fst (sql_params (select_text table flds parent_sql)))"
    using law by (simp_all add: stores_rows_def Let_def)
  note r = run_query [OF quiet run f bs]
  have keep: "rows w' = rows w" using r(1) sel by (fastforce simp: selects_rows_def)
  moreover have "first_value q' = map_option tr_checksum (rows w ?key)" if ok
  proof -
    obtain w0 w1 w2 where x: "rows w0 = rows w" "sa_execute (st_api env) (fst (sql_params (select_text table flds parent_sql))) ?key w0 = (0, w1)"
        "w2 = w1 \<or> w2 = snd (sa_show_warnings (st_api env) w1)"
        "case sa_result_metadata (st_api env) w1 of NULL \<Rightarrow> dq_results q' = []
         | Ptr cols \<Rightarrow> \<exists>r w3. sa_fetch (st_api env) w2 = (r, 0, w3) \<and> dq_results q' = map (fetch_row cols) r"
      using r(2) [OF \<open>ok\<close>] by blast
    obtain c where m: "sa_result_metadata (st_api env) w1 = Ptr [(c, MYSQL_TYPE_LONGLONG)]"
        and fetch: "\<And>r w3. sa_fetch (st_api env) w2 = (r, 0, w3) \<Longrightarrow>
          r = (case rows w0 ?key of None \<Rightarrow> [] | Some x \<Rightarrow> [[CellInt (uint (tr_checksum x))]])"
      using x(3) sel [unfolded selects_rows_def, rule_format, OF x(2)] by auto
    from x(4) m obtain r w3 where "sa_fetch (st_api env) w2 = (r, 0, w3)" "dq_results q' = map (fetch_row [(c, MYSQL_TYPE_LONGLONG)]) r"
      by auto
    with fetch x(1) show ?thesis
      by (cases "rows w ?key") (auto simp: first_value_def fetch_row_def fetch_column_def int_column_def Let_def)
  qed
  ultimately show ?thesis by blast
qed

text \<open>Which value every parameter of the two statements is bound to.\<close>

definition colons :: "string list \<Rightarrow> string list" where
  "colons ns = map (Cons (CHR '':'')) ns"

lemma row_binds:
  assumes fits: "table_fits table flds parent_sql" and len: "length slots = length flds"
    and b: "bound (colons ns) Map.empty q" and ns: "set ns \<subseteq> set (map fname flds @ parent_params parent_sql @ marks)"
  shows "\<exists>h. map (fst \<circ> param_to_bind) (dq_parameters (bind_marks cs now (bind_parent parent_sql parent_id (bind_slots flds slots q))))
        = map h (colons ns) \<and> map h (colons (map fname flds)) = map any_bind slots \<and>
      map h (colons (parent_params parent_sql)) = parent_key parent_sql parent_id \<and> map h (colons marks) = map id_bind [cs, now, 0]"
proof -
  define g where "g = ((Map.empty(colons (map fname flds) [\<mapsto>] map any_bind slots))
      (colons (parent_params parent_sql) [\<mapsto>] parent_key parent_sql parent_id))(colons marks [\<mapsto>] map id_bind [cs, now, 0])"
  have names: "list_all ident (map fname flds)" and d: "distinct (map fname flds @ [''_parent'', ''_checksum'', ''_last_updated'', ''_deleted''])"
    using fits by (simp_all add: table_fits_def)
  have inj: "distinct (colons xs) = distinct xs" "set (colons xs) \<inter> set (colons ys) = {} \<longleftrightarrow> set xs \<inter> set ys = {}" for xs ys
    by (auto simp: colons_def distinct_map inj_on_def)
  have apart: "set (map fname flds) \<inter> set (parent_params parent_sql) = {}" "set (map fname flds) \<inter> set marks = {}"
      "set (parent_params parent_sql) \<inter> set marks = {}" "distinct (map fname flds)" "distinct marks" "distinct (parent_params parent_sql)"
    using d by (cases parent_sql; auto simp: marks_def parent_params_def)+
  have "bound (colons ns) g (bind_marks cs now (bind_parent parent_sql parent_id (bind_slots flds slots q)))"
    using bind_marks_bound [OF bind_parent_bound [OF bind_slots_bound [OF b names len]], where cs = cs and now = now and parent_sql1 = parent_sql and parent_id1 = parent_id]
    by (simp add: g_def colons_def comp_def)
  moreover have "dom g = set (colons (map fname flds @ parent_params parent_sql @ marks))"
    using len parent_key_length [of parent_sql parent_id] by (auto simp: g_def colons_def marks_def)
  then have "set (colons ns) \<subseteq> dom g" using ns by (auto simp: colons_def)
  ultimately have "map (fst \<circ> param_to_bind) (dq_parameters (bind_marks cs now (bind_parent parent_sql parent_id (bind_slots flds slots q))))
      = map (\<lambda>n. the (g n)) (colons ns)" by (rule bound_all)
  moreover have "map (\<lambda>n. the (g n)) (colons marks) = map id_bind [cs, now, 0]"
    unfolding g_def by (rule map_upds_lookup) (simp_all add: inj apart, simp add: colons_def marks_def)
  moreover have "map (\<lambda>n. the (g n)) (colons (parent_params parent_sql)) = parent_key parent_sql parent_id"
    unfolding g_def by (subst map_upds_others, use inj apart in blast, rule map_upds_lookup)
      (simp_all add: inj apart, simp add: colons_def parent_key_length)
  moreover have "map (\<lambda>n. the (g n)) (colons (map fname flds)) = map any_bind slots"
    unfolding g_def by (subst map_upds_others, use inj apart in blast, subst map_upds_others, use inj apart in blast, rule map_upds_lookup)
      (simp_all only: inj apart, simp add: colons_def len)
  ultimately show ?thesis by blast
qed

lemma key_parent: "length slots = length flds \<Longrightarrow> flds \<noteq> [] \<Longrightarrow> slots = hd slots # tl slots"
  by (cases slots) auto

definition new_row :: "BXAny list \<Rightarrow> u64 \<Rightarrow> u64 \<Rightarrow> table_row" where
  "new_row slots cs now = \<lparr>tr_values = map any_bind (tl slots), tr_checksum = cs, tr_last_updated = now, tr_deleted = 0\<rparr>"

lemma write_run:
  assumes fits: "table_fits table flds parent_sql" and law: "stores_rows (st_api env) rows table flds parent_sql"
    and time: "\<And>w. rows (snd (st_time env w)) = rows w" and len: "length slots = length flds"
    and key: "\<not> ins \<Longrightarrow> any_bind (hd slots) # parent_key parent_sql parent_id \<in> dom (rows w)"
  shows "\<exists>e w' now. write_row env ins table flds slots cs parent_sql parent_id w = Some (e, w') \<and>
    (rows w' = rows w \<or> rows w' = (rows w)(any_bind (hd slots) # parent_key parent_sql parent_id \<mapsto> new_row slots cs now)) \<and>
    (e = NoError \<longrightarrow> rows w' = (rows w)(any_bind (hd slots) # parent_key parent_sql parent_id \<mapsto> new_row slots cs now))"
proof -
  define ns where "ns = (if ins then map fname flds @ parent_params parent_sql @ marks
    else map fname (tl flds) @ marks @ ''id'' # parent_params parent_sql)"
  have f: "flds \<noteq> []" "fname (hd flds) = ''id''" and d: "distinct (map fname flds @ [''_parent'', ''_checksum'', ''_last_updated'', ''_deleted''])"
    and names: "list_all ident (map fname flds)"
    using fits by (simp_all add: table_fits_def)
  then have hd: "map fname flds = ''id'' # map fname (tl flds)" by (cases flds) auto
  have ok: "list_all ident ns" "distinct ns" "set ns \<subseteq> set (map fname flds @ parent_params parent_sql @ marks)"
    using names d marks_ident parent_params_ident [of parent_sql] unfolding hd
    by (cases parent_sql; auto simp: ns_def hd marks_def parent_params_def)+
  obtain sql where sql: "write_text ins table flds parent_sql = Some sql" "sql \<noteq> []" "list_all (\<lambda>c. c \<noteq> NUL) sql" "snd (sql_params sql) = colons ns"
    using insert_text [OF fits] update_text [OF fits] by (cases ins) (auto simp: ns_def colons_def)
  obtain q where q: "bx_database_new_query sql = Some (Ptr q)" "fresh (fst (sql_params sql)) q" "bound (colons ns) Map.empty q"
    using new_bound [OF sql(2,3) sql(4) [unfolded colons_def] ok(1,2)] by (auto simp: colons_def)
  obtain now w1 where t: "st_time env w = (now, w1)" by fastforce
  have w1: "rows w1 = rows w" using time [of w] t by simp
  let ?q = "bind_marks cs now (bind_parent parent_sql parent_id (bind_slots flds slots q))"
  let ?k = "any_bind (hd slots) # parent_key parent_sql parent_id" and ?vs = "map any_bind (tl slots)"
  obtain ran q' w' where run: "query_rows env ?q w1 = (ran, q', w')" by (metis prod_cases3)
  obtain h where h: "map (fst \<circ> param_to_bind) (dq_parameters ?q) = map h (colons ns)" "map h (colons (map fname flds)) = map any_bind slots"
      "map h (colons (parent_params parent_sql)) = parent_key parent_sql parent_id" "map h (colons marks) = map id_bind [cs, now, 0]"
    using row_binds [OF fits len q(3) ok(3), of cs now parent_id] by blast
  have slots: "map any_bind slots = any_bind (hd slots) # ?vs" using f(1) len by (cases slots) auto
  have bs: "map h (colons ns) = (if ins then any_bind (hd slots) # ?vs @ parent_key parent_sql parent_id @ map id_bind [cs, now, 0]
      else ?vs @ map id_bind [cs, now, 0] @ ?k)"
    using h(2-4) slots by (simp add: ns_def colons_def hd o_assoc)
  have lens: "length ?vs = length flds - 1" "length (parent_key parent_sql parent_id) = length (parent_params parent_sql)"
    using len by (simp_all add: parent_key_length)
  have effect: "rows w2 = (if e = 0 then (rows w)(?k \<mapsto> new_row slots cs now) else rows w)"
    if x: "sa_execute (st_api env) (fst (sql_params sql)) (map h (colons ns)) w0 = (e, w2)" and "rows w0 = rows w" for e w0 w2
  proof (cases ins)
    case True
    then have "inserts_rows (st_api env) rows (fst (sql_params sql)) (length flds - 1) (length (parent_params parent_sql))"
      using law sql(1) by (simp add: stores_rows_def Let_def)
    from this [unfolded inserts_rows_def, rule_format, OF lens] x [unfolded bs] True that(2) show ?thesis
      by (simp add: new_row_def)
  next
    case False
    then have "updates_rows (st_api env) rows (fst (sql_params sql)) (length flds - 1) (length (parent_params parent_sql))"
      using law sql(1) by (simp add: stores_rows_def Let_def)
    from this [unfolded updates_rows_def, rule_format, OF lens] x [unfolded bs] False that(2) key show ?thesis
      by (simp add: new_row_def)
  qed
  have quiet: "quiet_api (st_api env) rows" using law by (simp add: stores_rows_def Let_def)
  have f2: "fresh (fst (sql_params sql)) ?q" using q(2) by simp
  note r = run_query [OF quiet run f2 h(1)]
  have "rows w' = rows w \<or> rows w' = (rows w)(?k \<mapsto> new_row slots cs now)"
    using r(1) w1 effect by metis
  moreover have "ran \<Longrightarrow> rows w' = (rows w)(?k \<mapsto> new_row slots cs now)"
    using r(2) w1 effect by metis
  moreover have "write_row env ins table flds slots cs parent_sql parent_id w = Some (if ran then NoError else query_failure q', w')"
    using sql(1) q(1) t run by (simp add: write_row_def)
  moreover have "query_failure q' \<noteq> NoError" by (simp add: query_failure_def)
  ultimately show ?thesis by (cases ran) auto
qed

lemma read_slots_length: "read_slots env obj fs h = Some (slots, h') \<Longrightarrow> length slots = length fs"
  by (induction env obj fs h arbitrary: slots h' rule: read_slots.induct) (auto split: bind_splits)

definition start_hash :: "string ptr \<Rightarrow> u64 \<Rightarrow> hstate" where
  "start_hash parent_sql parent_id = hash_update (Ptr []) (if parent_sql = NULL then [] else le_bytes 8 parent_id)"

lemma upsert_outcome:
  assumes fits: "table_fits table flds parent_sql" and law: "stores_rows (st_api env) rows table flds parent_sql"
    and time: "\<And>w. rows (snd (st_time env w)) = rows w"
    and read: "read_slots env object flds (start_hash parent_sql parent_id) = Some (slots, hash)" and pk: "pk_ok (hd slots)"
  shows "\<exists>e w' now. bx_json_upsert env (Ptr ()) table (Ptr object) flds parent_sql parent_id w = Some (e, w') \<and>
    (let key = any_bind (hd slots) # parent_key parent_sql parent_id; cs = hash_digest env hash;
         new = (rows w)(key \<mapsto> new_row slots cs now)
     in if map_option tr_checksum (rows w key) = Some cs then rows w' = rows w
        else (rows w' = rows w \<or> rows w' = new) \<and> (e = NoError \<longrightarrow> rows w' = new))"
proof -
  let ?key = "any_bind (hd slots) # parent_key parent_sql parent_id" and ?cs = "hash_digest env hash"
  note sel = select_names [OF fits]
  have ids: "list_all ident (''id'' # parent_params parent_sql)" "distinct (''id'' # parent_params parent_sql)"
    using parent_params_ident [of parent_sql] by (cases parent_sql; simp add: ident_def is_variable_char_def parent_params_def)+
  obtain q where q: "bx_database_new_query (select_text table flds parent_sql) = Some (Ptr q)"
      "fresh (fst (sql_params (select_text table flds parent_sql))) q" "bound (map (Cons (CHR '':'')) (''id'' # parent_params parent_sql)) Map.empty q"
    using new_bound [OF conjunct1 [OF sel] conjunct1 [OF conjunct2 [OF sel]] conjunct2 [OF conjunct2 [OF sel]] ids] by blast
  obtain ok q1 w1 where run: "query_rows env (bind_parent parent_sql parent_id (bind_value '':id'' (hd slots) q)) w = (ok, q1, w1)"
    by (metis prod_cases3)
  have r: "rows w1 = rows w" "ok \<Longrightarrow> first_value q1 = map_option tr_checksum (rows w ?key)"
    using select_run [OF law q(2,3) run] by blast+
  have guard: "flds \<noteq> []" "\<not> BX_UPSERT_MAX_FIELDS < length flds" "table_allowed table"
    using fits by (simp_all add: table_fits_def BX_UPSERT_MAX_FIELDS_def)
  have step: "bx_json_upsert env (Ptr ()) table (Ptr object) flds parent_sql parent_id w =
      (if \<not> ok then Some (query_failure q1, w1)
       else case first_value q1 of
              Some stored \<Rightarrow> if stored = ?cs then Some (NoError, w1) else write_row env False table flds slots ?cs parent_sql parent_id w1
            | None \<Rightarrow> write_row env True table flds slots ?cs parent_sql parent_id w1)"
    using guard read pk q(1) run by (simp add: bx_json_upsert_def start_hash_def Let_def)
  have wr: "\<exists>e w' now. write_row env ins table flds slots ?cs parent_sql parent_id w1 = Some (e, w') \<and>
      (rows w' = rows w \<or> rows w' = (rows w)(?key \<mapsto> new_row slots ?cs now)) \<and>
      (e = NoError \<longrightarrow> rows w' = (rows w)(?key \<mapsto> new_row slots ?cs now))" if "\<not> ins \<Longrightarrow> ?key \<in> dom (rows w)" for ins
    using write_run [OF fits law time read_slots_length [OF read], of ins parent_id w1 ?cs] that r(1) by simp
  show ?thesis
  proof (cases "ok \<and> first_value q1 \<noteq> Some ?cs")
    case False
    then show ?thesis using step r by (auto simp: query_failure_def Let_def)
  next
    case True
    then show ?thesis
      using step r wr [of "first_value q1 = None"] by (cases "rows w ?key") (auto simp: Let_def dom_def)
  qed
qed

lemma upsert_checksum:
  assumes "table_fits table flds parent_sql" and "stores_rows (st_api env) rows table flds parent_sql"
    and "\<And>w. rows (snd (st_time env w)) = rows w"
    and "read_slots env object flds (start_hash parent_sql parent_id) = Some (slots, hash)" and "pk_ok (hd slots)"
    and "bx_json_upsert env (Ptr ()) table (Ptr object) flds parent_sql parent_id w = Some (NoError, w')"
  shows "map_option tr_checksum (rows w' (any_bind (hd slots) # parent_key parent_sql parent_id)) = Some (hash_digest env hash)"
proof -
  let ?key = "any_bind (hd slots) # parent_key parent_sql parent_id" and ?cs = "hash_digest env hash"
  obtain e w2 now where r: "bx_json_upsert env (Ptr ()) table (Ptr object) flds parent_sql parent_id w = Some (e, w2)"
      "if map_option tr_checksum (rows w ?key) = Some ?cs then rows w2 = rows w
       else (rows w2 = rows w \<or> rows w2 = (rows w)(?key \<mapsto> new_row slots ?cs now)) \<and>
         (e = NoError \<longrightarrow> rows w2 = (rows w)(?key \<mapsto> new_row slots ?cs now))"
    using upsert_outcome [OF assms(1-5), of w] unfolding Let_def by blast
  then have "e = NoError" "w2 = w'" using assms(6) by simp_all
  show ?thesis
  proof (cases "map_option tr_checksum (rows w ?key) = Some ?cs")
    case True
    then show ?thesis using r(2) \<open>w2 = w'\<close> by (simp only: if_True)
  next
    case False
    then have "rows w' = (rows w)(?key \<mapsto> new_row slots ?cs now)"
      using r(2) \<open>w2 = w'\<close> \<open>e = NoError\<close> by (simp only: if_False simp_thms)
    then show ?thesis by (simp add: new_row_def)
  qed
qed

section \<open>A server with one table\<close>

text \<open>The rows, and the answer of the last statement.\<close>

type_synonym table_world = "(MYSQL_BIND list \<rightharpoonup> table_row) \<times> db_cell list list ptr"

definition bind_u64 :: "MYSQL_BIND \<Rightarrow> u64" where
  "bind_u64 b = (case bd_buffer b of NULL \<Rightarrow> 0 | Ptr bytes \<Rightarrow> be_u64 (rev bytes))"

lemma bind_u64_id [simp]: "bind_u64 (id_bind v) = v"
  using be_u64_rev_le [of 8 v] by (simp add: bind_u64_def id_bind_def take_bit_word_eq_self)

definition row_of_binds :: "MYSQL_BIND list \<Rightarrow> MYSQL_BIND list \<Rightarrow> table_row" where
  "row_of_binds vs ms = \<lparr>tr_values = vs, tr_checksum = bind_u64 (ms ! 0), tr_last_updated = bind_u64 (ms ! 1), tr_deleted = bind_u64 (ms ! 2)\<rparr>"

fun table_execute :: "nat \<Rightarrow> nat \<Rightarrow> string \<Rightarrow> MYSQL_BIND list \<Rightarrow> table_world \<Rightarrow> nat \<times> table_world" where
  "table_execute n k t bs (m, r) =
     (if hd t = CHR ''S'' then (0, m, Ptr (case m bs of None \<Rightarrow> [] | Some x \<Rightarrow> [[CellInt (uint (tr_checksum x))]]))
      else if hd t = CHR ''I'' then
        (0, m(hd bs # take k (drop n (tl bs)) \<mapsto> row_of_binds (take n (tl bs)) (drop (n + k) (tl bs))), NULL)
      else
        (let key = drop (n + 3) bs in
         (0, if key \<in> dom m then m(key \<mapsto> row_of_binds (take n bs) (take 3 (drop n bs))) else m, NULL)))"

definition table_api :: "nat \<Rightarrow> nat \<Rightarrow> table_world stmt_api" where
  "table_api n k = \<lparr>sa_prepare = (\<lambda>t w. (0, w)), sa_bind = (\<lambda>bs w. (0, w)), sa_execute = table_execute n k,
     sa_affected_rows = (\<lambda>w. 1),
     sa_result_metadata = (\<lambda>w. case snd w of NULL \<Rightarrow> NULL | Ptr r \<Rightarrow> Ptr [(''_checksum'', MYSQL_TYPE_LONGLONG)]),
     sa_metadata_errno = (\<lambda>w. 0), sa_warning_count = (\<lambda>w. 0), sa_show_warnings = (\<lambda>w. (Inl [], w)),
     sa_fetch = (\<lambda>w. (case snd w of NULL \<Rightarrow> [] | Ptr r \<Rightarrow> r, 0, w))\<rparr>"

lemma params_hd: "c \<noteq> CHR '':'' \<Longrightarrow> hd (fst (sql_params (c # q))) = c"
  by simp

lemma select_hd: "hd (fst (sql_params (select_text table flds parent_sql))) = CHR ''S''"
proof -
  have "\<exists>r. select_text table flds parent_sql = CHR ''S'' # r" by (simp add: select_text_def)
  then show ?thesis using params_hd [of "CHR ''S''"] by auto
qed

lemma write_hd:
  assumes "write_text ins table flds parent_sql = Some sql"
  shows "hd (fst (sql_params sql)) = (if ins then CHR ''I'' else CHR ''U'')"
proof -
  have "\<exists>r. sql = (if ins then CHR ''I'' else CHR ''U'') # r" using assms by (auto simp: write_text_def)
  then show ?thesis using params_hd [of "CHR ''I''"] params_hd [of "CHR ''U''"] by (cases ins) auto
qed

lemma table_api_stores:
  "stores_rows (table_api (length flds - 1) (length (parent_params parent_sql))) fst table flds parent_sql"
proof -
  let ?n = "length flds - 1" and ?k = "length (parent_params parent_sql)"
  let ?api = "table_api ?n ?k"
  have "quiet_api ?api fst" by (simp add: quiet_api_def table_api_def)
  moreover have "selects_rows ?api fst (fst (sql_params (select_text table flds parent_sql)))"
    by (auto simp: selects_rows_def table_api_def select_hd)
  moreover have "inserts_rows ?api fst (fst (sql_params sql)) ?n ?k" if "write_text True table flds parent_sql = Some sql" for sql
    using write_hd [OF that] by (auto simp: inserts_rows_def table_api_def row_of_binds_def)
  moreover have "updates_rows ?api fst (fst (sql_params sql)) ?n ?k" if "write_text False table flds parent_sql = Some sql" for sql
    using write_hd [OF that] by (auto simp: updates_rows_def table_api_def row_of_binds_def Let_def)
  ultimately show ?thesis by (simp add: stores_rows_def Let_def)
qed

definition table_env :: "nat \<Rightarrow> nat \<Rightarrow> table_world store_env" where
  "table_env n k = \<lparr>st_api = table_api n k, st_digest = (\<lambda>bytes. of_nat (length bytes)),
     st_libc = \<lparr>lc_strtod = (\<lambda>s. 0), lc_fmt_e = (\<lambda>v. ''0'')\<rparr>, st_time = (\<lambda>w. (100, w)), st_dead = (\<lambda>v. 0)\<rparr>"

lemma country_env: "stores_rows (st_api (table_env 3 0)) fst ''country'' country_fields NULL"
  using table_api_stores [of country_fields NULL "''country''"]
  by (simp add: table_env_def country_fields_def parent_params_def numeral_eq_Suc)

lemma country_fits: "table_fits ''country'' country_fields NULL"
  using catalogue_tables_fit by (simp add: catalogue_tables_def)

lemma relation_env: "stores_rows (st_api (table_env 4 0)) fst ''contact_relation'' relation_fields NULL"
  using table_api_stores [of relation_fields NULL "''contact_relation''"]
  by (simp add: table_env_def relation_fields_def parent_params_def numeral_eq_Suc)

lemma relation_fits: "table_fits ''contact_relation'' relation_fields NULL"
  using catalogue_tables_fit by (simp add: catalogue_tables_def)

section \<open>Properties\<close>

text \<open>
  C5: on a server whose statements do what they say, the generic upsert returns, touches no row but
  the one of the object, and when it reports no error that row has the values and the checksum of
  the object and is not marked deleted, or had its checksum before and was not written.
\<close>

theorem upsert_stores:
  assumes "table_fits table flds parent_sql" and "stores_rows (st_api env) rows table flds parent_sql"
    and "\<And>w. rows (snd (st_time env w)) = rows w"
    and "read_slots env object flds (start_hash parent_sql parent_id) = Some (slots, hash)" and "pk_ok (hd slots)"
  defines "key \<equiv> any_bind (hd slots) # parent_key parent_sql parent_id" and "checksum \<equiv> hash_digest env hash"
  shows "\<exists>e w'. bx_json_upsert env (Ptr ()) table (Ptr object) flds parent_sql parent_id w = Some (e, w') \<and>
    (\<forall>k. k \<noteq> key \<longrightarrow> rows w' k = rows w k) \<and>
    (e = NoError \<longrightarrow>
       (if map_option tr_checksum (rows w key) = Some checksum then rows w' = rows w
        else \<exists>now. rows w' key = Some \<lparr>tr_values = map any_bind (tl slots), tr_checksum = checksum, tr_last_updated = now, tr_deleted = 0\<rparr>))"
  using upsert_outcome [OF assms(1-5), of w] unfolding key_def checksum_def new_row_def Let_def
  by (fastforce split: if_splits)

theorem upsert_stores_witness:
  "\<exists>e w'. bx_json_upsert (table_env 3 0) (Ptr ()) ''country'' (Ptr (JObject [(''id'', JInt 5)])) country_fields NULL 0 (Map.empty, NULL) = Some (e, w') \<and>
    (\<forall>k. k \<noteq> [any_bind (AUInteger \<lparr>bu_isset = True, bu_value = 5\<rparr>)] \<longrightarrow> fst w' k = None)"
proof -
  let ?unset = "AString \<lparr>bs_isset = False, bs_value = NULL, bs_len = 0\<rparr>"
  have "read_slots (table_env 3 0) (JObject [(''id'', JInt 5)]) country_fields (start_hash NULL 0) =
      Some ([AUInteger \<lparr>bu_isset = True, bu_value = 5\<rparr>, ?unset, ?unset, ?unset], Ptr (le_bytes 8 (5 :: u64)))"
    by (simp add: country_fields_def BX_FIELD_def read_slot_def start_hash_def json_field_def
        bx_object_get_json_uint_def bx_object_get_json_string_def)
  from upsert_stores [OF country_fits country_env _ this, of "(Map.empty, NULL)"] show ?thesis
    by (auto simp: table_env_def parent_key_def)
qed

text \<open>
  The checksum of an object has no trace of the fields that are absent: when a value moves from
  one field to another, as the other contact of a relation here, the row keeps the old value.
\<close>

theorem moved_value_not_stored:
  assumes law: "stores_rows (st_api env) rows ''contact_relation'' relation_fields NULL"
    and time: "\<And>w. rows (snd (st_time env w)) = rows w"
    and first: "relation_one env (Ptr ()) (JObject [(''id'', JInt i), (''contact_id'', JInt c)]) w = Some (NoError, w1)"
  shows "\<exists>e w2. relation_one env (Ptr ()) (JObject [(''id'', JInt i), (''contact_sub_id'', JInt c)]) w1 = Some (e, w2) \<and> rows w2 = rows w1"
proof -
  let ?id = "AUInteger \<lparr>bu_isset = True, bu_value = word_of_int i\<rparr>" and ?c = "AUInteger \<lparr>bu_isset = True, bu_value = word_of_int c\<rparr>"
  let ?none = "AUInteger \<lparr>bu_isset = False, bu_value = 0\<rparr>" and ?unset = "AString \<lparr>bs_isset = False, bs_value = NULL, bs_len = 0\<rparr>"
  let ?hash = "Ptr (le_bytes 8 (word_of_int i :: u64) @ le_bytes 8 (word_of_int c :: u64))"
  note read = relation_fields_def BX_FIELD_def read_slot_def start_hash_def json_field_def
    bx_object_get_json_uint_def bx_object_get_json_string_def
  have old: "read_slots env (JObject [(''id'', JInt i), (''contact_id'', JInt c)]) relation_fields (start_hash NULL 0) =
      Some ([?id, ?c, ?none, ?unset, ?unset], ?hash)" by (simp add: read Let_def)
  have new: "read_slots env (JObject [(''id'', JInt i), (''contact_sub_id'', JInt c)]) relation_fields (start_hash NULL 0) =
      Some ([?id, ?none, ?c, ?unset, ?unset], ?hash)" by (simp add: read Let_def)
  have "map_option tr_checksum (rows w1 [any_bind ?id]) = Some (hash_digest env ?hash)"
    using upsert_checksum [OF relation_fits law time old, of w w1] first
    by (simp add: relation_one_def up_def parent_key_def)
  then show ?thesis
    using upsert_outcome [OF relation_fits law time new, of w1] by (auto simp: relation_one_def up_def parent_key_def Let_def)
qed

end
