(* ===== verification/Bx_Record.thy ===== *)
theory Bx_Record
  imports Bx_Sync_More
begin

text \<open>
  What the handlers of \<open>src/src/bxobjects\<close> share: reading an object field by field with its checksum,
  finding a value by the name of its member, binding members by name (the macro \<open>bxd_bind\<close> of
  \<open>src/src/include/bx_database.h\<close>), the statements that look for a row, and the write of a row whose
  stored checksum is not the one of the object. A decoded object is the list of its members with
  their values, in the order in which they are read and hashed, and its checksum.
\<close>

section \<open>Objects\<close>

type_synonym bx_members = "(string \<times> BXAny) list"

definition decode_members :: "('w, 'z) store_env_scheme \<Rightarrow> BXJsonField list \<Rightarrow> json \<Rightarrow> (bx_members \<times> u64) option" where
  "decode_members env flds object =
     map_option (\<lambda>(vs, hash). (zip (map fname flds) vs, hash_digest env hash)) (read_slots env object flds (Ptr []))"

definition member :: "bx_members \<Rightarrow> string \<Rightarrow> BXAny" where
  "member obj k = (case map_of obj k of Some v \<Rightarrow> v | None \<Rightarrow> Other 0)"

definition uint_member :: "bx_members \<Rightarrow> string \<Rightarrow> BXUInteger" where
  "uint_member obj k = (case member obj k of AUInteger v \<Rightarrow> v | _ \<Rightarrow> \<lparr>bu_isset = False, bu_value = 0\<rparr>)"

definition string_member :: "bx_members \<Rightarrow> string \<Rightarrow> BXString" where
  "string_member obj k = (case member obj k of AString v \<Rightarrow> v | _ \<Rightarrow> \<lparr>bs_isset = False, bs_value = NULL, bs_len = 0\<rparr>)"

definition bool_member :: "bx_members \<Rightarrow> string \<Rightarrow> BXBool" where
  "bool_member obj k = (case member obj k of ABool v \<Rightarrow> v | _ \<Rightarrow> \<lparr>bb_isset = False, bb_value = False\<rparr>)"

definition set_member :: "bx_members \<Rightarrow> string \<Rightarrow> BXAny \<Rightarrow> bx_members" where
  "set_member obj k v = map (\<lambda>(k', v'). (k', if k' = k then v else v')) obj"

section \<open>Bindings\<close>

type_synonym binding = "BXDatabaseQuery \<Rightarrow> bool \<times> BXDatabaseQuery"

definition bxd_bind :: "bx_members \<Rightarrow> string \<Rightarrow> binding" where
  "bxd_bind obj k query = bx_database_add_bxtype query (CHR '':'' # k) (member obj k)"

definition bx_database_add_param_char :: "string \<Rightarrow> u8 list ptr \<Rightarrow> nat \<Rightarrow> binding" where
  "bx_database_add_param_char name v n query = bx_database_add_param_str query name v n MYSQL_TYPE_STRING"

definition bx_database_add_param_int64 :: "string \<Rightarrow> int \<Rightarrow> binding" where
  "bx_database_add_param_int64 name v query =
     bx_database_add_param_int query name (Ptr (le_bytes 8 (word_of_int v :: u64))) 8 MYSQL_TYPE_LONGLONG False"

definition bx_database_add_param_uint8 :: "string \<Rightarrow> u8 \<Rightarrow> binding" where
  "bx_database_add_param_uint8 name v query = bx_database_add_param_int query name (Ptr [v]) 1 MYSQL_TYPE_TINY True"

definition u64_param :: "string \<Rightarrow> u64 \<Rightarrow> binding" where
  "u64_param name v query = bx_database_add_param_uint64 query name v"

text \<open>\<open>f1 && f2 && ...\<close>, and the same calls when their results are not looked at.\<close>

fun all_bound :: "binding list \<Rightarrow> binding" where
  "all_bound [] query = (True, query)"
| "all_bound (f # fs) query = (case f query of (True, query1) \<Rightarrow> all_bound fs query1 | (False, query1) \<Rightarrow> (False, query1))"

fun bind_each :: "binding list \<Rightarrow> BXDatabaseQuery \<Rightarrow> BXDatabaseQuery" where
  "bind_each [] query = query"
| "bind_each (f # fs) query = bind_each fs (snd (f query))"

section \<open>Statements\<close>

definition with_query :: "string \<Rightarrow> 'w \<Rightarrow> (BXDatabaseQuery \<Rightarrow> (BXillError \<times> 'w) option) \<Rightarrow> (BXillError \<times> 'w) option" where
  "with_query sql w k = do {
     query \<leftarrow> bx_database_new_query sql;
     (case query of NULL \<Rightarrow> Some (ErrorGeneric, w) | Ptr q \<Rightarrow> k q)
   }"

text \<open>Is there a row with this id?\<close>

definition row_present :: "('w, 'z) store_env_scheme \<Rightarrow> string \<Rightarrow> BXAny \<Rightarrow> 'w \<Rightarrow> ((BXillError \<times> bool) \<times> 'w) option" where
  "row_present env sql item w = do {
     query \<leftarrow> bx_database_new_query sql;
     (case query of
        NULL \<Rightarrow> Some ((ErrorGeneric, False), w)
      | Ptr q \<Rightarrow>
          (case query_rows env (bind_value '':id'' item q) w of
             (False, q1, w1) \<Rightarrow> Some ((bx_database_query_error (Ptr q1), False), w1)
           | (True, q1, w1) \<Rightarrow> Some ((NoError, first_value q1 \<noteq> None), w1)))
   }"

text \<open>
  \<open>SELECT _checksum\<close>, then nothing, an insertion or an update: the functions \<open>persist\<close> of the
  accounts and currencies and \<open>persist_file\<close>.
\<close>

definition write_members :: "('w, 'z) store_env_scheme \<Rightarrow> string \<Rightarrow> binding list \<Rightarrow> u64 \<Rightarrow> 'w \<Rightarrow> (BXillError \<times> 'w) option" where
  "write_members env sql binds checksum w =
     with_query sql w (\<lambda>query.
       let (now, w1) = st_time env w in
       case all_bound (binds @ [u64_param '':_checksum'' checksum, u64_param '':_last_updated'' now, u64_param '':_deleted'' 0]) query of
         (False, query1) \<Rightarrow> Some (ErrorGeneric, w1)
       | (True, query1) \<Rightarrow>
           (case query_rows env query1 w1 of
              (ok, query2, w2) \<Rightarrow> Some (if ok then NoError else query_failure query2, w2)))"

definition persist_members :: "('w, 'z) store_env_scheme \<Rightarrow> string \<Rightarrow> string \<Rightarrow> string \<Rightarrow> bx_members \<Rightarrow> string list \<Rightarrow> u64 \<Rightarrow> 'w
    \<Rightarrow> (BXillError \<times> 'w) option" where
  "persist_members env select_sql insert_sql update_sql obj names checksum w =
     with_query select_sql w (\<lambda>query.
       case query_rows env (bind_value '':id'' (member obj ''id'') query) w of
         (False, query1, w1) \<Rightarrow> Some (query_failure query1, w1)
       | (True, query1, w1) \<Rightarrow>
           if first_value query1 = Some checksum then Some (NoError, w1)
           else write_members env (if first_value query1 = None then insert_sql else update_sql)
                  (map (bxd_bind obj) names) checksum w1)"

end
