(* ===== verification/Bx_Catalogue.thy ===== *)
theory Bx_Catalogue
  imports Bx_Record
begin

text \<open>
  The small tables: accounts (\<open>src/src/bxobjects/account.c\<close>), currencies (\<open>currency.c\<close>), taxes
  (\<open>taxes.c\<close>) and languages (\<open>language.c\<close>).
\<close>

section \<open>Accounts and currencies\<close>

definition account_insert :: string where
  "account_insert =
     ''INSERT INTO account (id, uuid, account_no, name, account_type, tax_id, '' @
     ''fibu_account_group_id, is_active, is_locked, _checksum, _last_updated, '' @
     ''_deleted) VALUES (:id, :uuid, :account_no, :name, :account_type, :tax_id, '' @
     '':fibu_account_group_id, :is_active, :is_locked, :_checksum, '' @ '':_last_updated, :_deleted)''"

definition account_update :: string where
  "account_update =
     ''UPDATE account SET uuid = :uuid, account_no = :account_no, name = :name, '' @
     ''account_type = :account_type, tax_id = :tax_id, '' @
     ''fibu_account_group_id = :fibu_account_group_id, is_active = :is_active, '' @
     ''is_locked = :is_locked, _checksum = :_checksum, '' @
     ''_last_updated = :_last_updated, _deleted = :_deleted WHERE id = :id''"

definition account_fields :: "BXJsonField list" where
  "account_fields =
     [BX_FIELD ''id'' BX_F_UINT, BX_FIELD ''uuid'' BX_F_UUID, BX_FIELD ''account_no'' BX_F_STR,
      BX_FIELD ''name'' BX_F_STR, BX_FIELD ''account_type'' BX_F_INT, BX_FIELD ''tax_id'' BX_F_UINT,
      BX_FIELD ''fibu_account_group_id'' BX_F_UINT, BX_FIELD ''is_active'' BX_F_BOOL,
      BX_FIELD ''is_locked'' BX_F_BOOL]"

definition account_persist :: "('w, 'z) store_env_scheme \<Rightarrow> bx_members \<times> u64 \<Rightarrow> 'w handler" where
  "account_persist env account =
     persist_members env ''SELECT _checksum FROM account WHERE id = :id'' account_insert account_update (fst account)
       [''id'', ''uuid'', ''account_no'', ''name'', ''account_type'', ''tax_id'', ''fibu_account_group_id'',
        ''is_active'', ''is_locked''] (snd account)"

definition account_page_item :: "('w, 'z) store_env_scheme \<Rightarrow> json \<Rightarrow> 'w handler" where
  "account_page_item env item w = do {
     account \<leftarrow> decode_members env account_fields item;
     account_persist env account w
   }"

definition bx_account_walk_items :: "('w, 'z) store_env_scheme \<Rightarrow> 'w walk_env \<Rightarrow> 'w handler" where
  "bx_account_walk_items env walk = bx_walk_pages walk ''2.0/accounts?limit=$&offset=$'' NULL False (account_page_item env)"

definition currency_insert :: string where
  "currency_insert =
     ''INSERT INTO currency (id, name, round_factor, exchange_rate, '' @
     ''exchange_rate_id, ratio, source, source_reason, exchange_rate_date, '' @
     ''_checksum, _last_updated, _deleted) VALUES (:id, :name, :round_factor, '' @
     '':exchange_rate, :exchange_rate_id, :ratio, :source, :source_reason, '' @
     '':exchange_rate_date, :_checksum, :_last_updated, :_deleted)''"

definition currency_update :: string where
  "currency_update =
     ''UPDATE currency SET name = :name, round_factor = :round_factor, '' @
     ''exchange_rate = :exchange_rate, exchange_rate_id = :exchange_rate_id, '' @
     ''ratio = :ratio, source = :source, source_reason = :source_reason, '' @
     ''exchange_rate_date = :exchange_rate_date, _checksum = :_checksum, '' @
     ''_last_updated = :_last_updated, _deleted = :_deleted WHERE id = :id''"

definition currency_fields :: "BXJsonField list" where
  "currency_fields =
     [BX_FIELD ''id'' BX_F_UINT, BX_FIELD ''name'' BX_F_STR, BX_FIELD ''round_factor'' BX_F_FLOAT,
      BX_FIELD ''exchange_rate'' BX_F_FLOAT, BX_FIELD ''exchange_rate_id'' BX_F_UINT,
      BX_FIELD ''ratio'' BX_F_FLOAT, BX_FIELD ''source'' BX_F_STR, BX_FIELD ''source_reason'' BX_F_STR,
      BX_FIELD ''exchange_rate_date'' BX_F_STR]"

definition currency_persist :: "('w, 'z) store_env_scheme \<Rightarrow> bx_members \<times> u64 \<Rightarrow> 'w handler" where
  "currency_persist env currency =
     persist_members env ''SELECT _checksum FROM currency WHERE id = :id'' currency_insert currency_update (fst currency)
       [''id'', ''name'', ''round_factor'', ''exchange_rate'', ''exchange_rate_id'', ''ratio'', ''source'',
        ''source_reason'', ''exchange_rate_date''] (snd currency)"

definition currency_page_item :: "('w, 'z) store_env_scheme \<Rightarrow> json \<Rightarrow> 'w handler" where
  "currency_page_item env item w = do {
     currency \<leftarrow> decode_members env currency_fields item;
     currency_persist env currency w
   }"

definition bx_currency_walk_items :: "('w, 'z) store_env_scheme \<Rightarrow> 'w walk_env \<Rightarrow> 'w handler" where
  "bx_currency_walk_items env walk = bx_walk_pages walk ''3.0/currencies?limit=$&offset=$'' NULL False (currency_page_item env)"

section \<open>Taxes\<close>

datatype ObjectState = Error | NeedUpdate | NeedCreate | NeedNothing

definition tax_insert :: string where
  "tax_insert =
     ''INSERT IGNORE INTO taxes (`id`, `uuid`, `name`, `digit`, `type`, '' @ ''`account_id`, '' @
     ''`tax_settlement_type`, `value`, `net_tax_value`, `start_year`, '' @ ''`end_year`, '' @
     ''`is_active`, `display_name`, `start_month`, `end_month`, `_checksum`, '' @
     ''`_last_updated`) VALUES (:id, :uuid, :name, :digit, :taxtype, '' @
     '':account_id, :tax_settlement_type, :value, :net_tax_value, :start_year, '' @
     '':end_year, :is_active, :display_name, :start_month, :end_month, '' @ '':_checksum, :_last_updated);''"

definition tax_update :: string where
  "tax_update =
     ''UPDATE taxes SET `uuid` = :uuid, `name` = :name, `digit` = :digit, '' @
     ''`type` = :taxtype, `account_id` = :account_id, '' @
     ''`tax_settlement_type` = :tax_settlement_type, `value` = :value, '' @
     ''`net_tax_value` = :net_tax_value, `start_year` = :start_year, '' @
     ''`end_year` = :end_year, `is_active` = :is_active, '' @
     ''`display_name` = :display_name, `start_month` = :start_month, '' @
     ''`end_month` = :end_month, `_checksum` = :_checksum, '' @
     ''`_last_updated` = :_last_updated WHERE `id` = :id;''"

definition tax_fields :: "BXJsonField list" where
  "tax_fields =
     [BX_FIELD ''id'' BX_F_UINT, BX_FIELD ''uuid'' BX_F_UUID, BX_FIELD ''name'' BX_F_STR,
      BX_FIELD ''digit'' BX_F_INT, (BX_FIELD ''type'' BX_F_STR)\<lparr>jf_sql := Ptr ''taxtype''\<rparr>, BX_FIELD ''account_id'' BX_F_UINT,
      BX_FIELD ''tax_settlement_type'' BX_F_STR, BX_FIELD ''value'' BX_F_FLOAT,
      BX_FIELD ''net_tax_value'' BX_F_STR, BX_FIELD ''start_year'' BX_F_INT,
      BX_FIELD ''end_year'' BX_F_INT, BX_FIELD ''start_month'' BX_F_INT, BX_FIELD ''end_month'' BX_F_INT,
      BX_FIELD ''display_name'' BX_F_STR, BX_FIELD ''is_active'' BX_F_BOOL]"

definition bind_tax_params :: "bx_members \<Rightarrow> u64 \<Rightarrow> u64 \<Rightarrow> binding" where
  "bind_tax_params tax checksum now =
     all_bound (map (bxd_bind tax)
       [''id'', ''uuid'', ''name'', ''digit'', ''taxtype'', ''account_id'', ''tax_settlement_type'',
        ''value'', ''net_tax_value'', ''start_year'', ''start_month'', ''end_year'', ''end_month'',
        ''display_name'', ''is_active''] @
       [u64_param '':_checksum'' checksum, u64_param '':_last_updated'' now])"

text \<open>
  The parameters of a query point to their values, and \<open>now\<close> is a variable of \<open>bind_tax_params\<close>, which has
  returned when the statement runs: the server reads what is left of it.
\<close>

definition execute_tax_query :: "('w, 'z) store_env_scheme \<Rightarrow> bx_members \<times> u64 \<Rightarrow> string \<Rightarrow> 'w handler" where
  "execute_tax_query env tax sql w =
     with_query sql w (\<lambda>query.
       let (now, w1) = st_time env w in
       case bind_tax_params (fst tax) (snd tax) (st_dead env now) query of
         (False, query1) \<Rightarrow> Some (ErrorGeneric, w1)
       | (True, query1) \<Rightarrow>
           (case query_rows env query1 w1 of
              (ok, query2, w2) \<Rightarrow> Some (if ok then NoError else query_failure query2, w2)))"

definition bx_taxes_check_database :: "('w, 'z) store_env_scheme \<Rightarrow> bx_members \<times> u64 \<Rightarrow> 'w
    \<Rightarrow> ((BXillError \<times> ObjectState) \<times> 'w) option" where
  "bx_taxes_check_database env tax w = do {
     query \<leftarrow> bx_database_new_query ''SELECT _checksum FROM taxes WHERE id = :id'';
     (case query of
        NULL \<Rightarrow> Some ((ErrorGeneric, NeedNothing), w)
      | Ptr q \<Rightarrow>
          (case bxd_bind (fst tax) ''id'' q of
             (False, q1) \<Rightarrow> Some ((bx_database_query_error (Ptr q1), NeedNothing), w)
           | (True, q1) \<Rightarrow>
               (case query_rows env q1 w of
                  (False, q2, w1) \<Rightarrow> Some ((bx_database_query_error (Ptr q2), NeedNothing), w1)
                | (True, q2, w1) \<Rightarrow>
                    Some ((NoError, case first_value q2 of None \<Rightarrow> NeedCreate
                                    | Some stored \<Rightarrow> if stored \<noteq> snd tax then NeedUpdate else NeedNothing), w1))))
   }"

definition bx_sync_item :: "('w, 'z) store_env_scheme \<Rightarrow> json \<Rightarrow> 'w handler" where
  "bx_sync_item env item w = do {
     tax \<leftarrow> decode_members env tax_fields item;
     ((e, state), w1) \<leftarrow> bx_taxes_check_database env tax w;
     if e \<noteq> NoError then Some (e, w1)
     else
       (case state of
          Error \<Rightarrow> Some (ErrorGeneric, w1)
        | NeedCreate \<Rightarrow> execute_tax_query env tax tax_insert w1
        | NeedUpdate \<Rightarrow> execute_tax_query env tax tax_update w1
        | NeedNothing \<Rightarrow> Some (NoError, w1))
   }"

definition bx_taxes_walk_item :: "('w, 'z) store_env_scheme \<Rightarrow> 'w walk_env \<Rightarrow> 'w handler" where
  "bx_taxes_walk_item env walk w =
     (let scope = (\<lambda>s. Ptr (AString \<lparr>bs_isset = True, bs_value = Ptr (s @ [NUL]), bs_len = length s + 1\<rparr>)) in do {
        (e, w1) \<leftarrow> bx_walk_pages walk ''3.0/taxes?limit=$&offset=$&scope=$'' (scope ''active'') True (bx_sync_item env) w;
        if e \<noteq> NoError then Some (e, w1)
        else bx_walk_pages walk ''3.0/taxes?limit=$&offset=$&scope=$'' (scope ''inactive'') True (bx_sync_item env) w1
      })"

section \<open>Languages\<close>

definition language_insert :: string where
  "language_insert =
     ''INSERT IGNORE INTO language (id, name, decimal_point, '' @ ''thousands_separator,'' @
     ''date_format_id, date_format, iso_639_1, _checksum, _last_updated)'' @
     '' VALUES (:id, :name, :decimal_point, :thousands_separator, '' @ '':date_format_id,'' @
     '':date_format, :iso_639_1,'' @ '':_checksum, :_last_updated)''"

definition language_update :: string where
  "language_update =
     ''UPDATE language SET name = :name, decimal_point = :decimal_point,'' @
     ''thousands_separator = :thousands_separator, date_format_id = '' @ '':date_format_id,'' @
     ''date_format = :date_format, iso_639_1 = :iso_639_1,'' @
     ''_checksum = :_checksum, _last_updated = :_last_updated'' @ '' WHERE id = :id''"

definition language_fields :: "BXJsonField list" where
  "language_fields =
     [BX_FIELD ''id'' BX_F_UINT, BX_FIELD ''date_format_id'' BX_F_UINT, BX_FIELD ''name'' BX_F_STR,
      BX_FIELD ''decimal_point'' BX_F_STR, BX_FIELD ''thousands_separator'' BX_F_STR,
      BX_FIELD ''iso_639_1'' BX_F_STR, BX_FIELD ''date_format'' BX_F_STR]"

text \<open>The elements \<open>json_array_size\<close> and \<open>json_array_get\<close> see.\<close>

definition json_items :: "json ptr \<Rightarrow> json list" where
  "json_items root = (case root of Ptr (JArray xs) \<Rightarrow> xs | _ \<Rightarrow> [])"

definition char_bind :: "bx_members \<Rightarrow> string \<Rightarrow> binding" where
  "char_bind obj k = bx_database_add_param_char (CHR '':'' # k) (bytes_ptr (bs_value (string_member obj k))) (bs_len (string_member obj k))"

definition language_bind_params :: "bx_members \<Rightarrow> u64 \<Rightarrow> u64 \<Rightarrow> binding" where
  "language_bind_params language checksum now =
     all_bound ([u64_param '':id'' (bu_value (uint_member language ''id'')),
                 u64_param '':date_format_id'' (bu_value (uint_member language ''date_format_id''))] @
                map (char_bind language) [''name'', ''decimal_point'', ''date_format'', ''thousands_separator'', ''iso_639_1''] @
                [u64_param '':_checksum'' checksum, u64_param '':_last_updated'' now])"

text \<open>The time is again a variable of a call that has returned.\<close>

definition language_execute_request :: "('w, 'z) store_env_scheme \<Rightarrow> bx_members \<times> u64 \<Rightarrow> string \<Rightarrow> 'w handler" where
  "language_execute_request env language request w =
     with_query request w (\<lambda>query.
       let (now, w1) = st_time env w in
       case language_bind_params (fst language) (snd language) (st_dead env now) query of
         (False, query1) \<Rightarrow> Some (bx_database_query_error (Ptr query1), w1)
       | (True, query1) \<Rightarrow>
           (case query_rows env query1 w1 of
              (ok, query2, w2) \<Rightarrow> Some (if ok then NoError else bx_database_query_error (Ptr query2), w2)))"

definition bx_language_check_database :: "('w, 'z) store_env_scheme \<Rightarrow> bx_members \<times> u64 \<Rightarrow> 'w
    \<Rightarrow> ((BXillError \<times> ObjectState) \<times> 'w) option" where
  "bx_language_check_database env language w = do {
     query \<leftarrow> bx_database_new_query ''SELECT _checksum FROM language WHERE id = :id'';
     (case query of
        NULL \<Rightarrow> Some ((ErrorGeneric, NeedNothing), w)
      | Ptr q \<Rightarrow>
          (case query_rows env (bind_uint64 '':id'' (bu_value (uint_member (fst language) ''id'')) q) w of
             (False, q1, w1) \<Rightarrow> Some ((bx_database_query_error (Ptr q1), NeedNothing), w1)
           | (True, q1, w1) \<Rightarrow>
               Some ((NoError, case first_value q1 of None \<Rightarrow> NeedCreate
                               | Some stored \<Rightarrow> if stored \<noteq> snd language then NeedUpdate else NeedNothing), w1)))
   }"

text \<open>A language that cannot be written is logged, unless the connection is lost.\<close>

definition language_item :: "('w, 'z) store_env_scheme \<Rightarrow> json \<Rightarrow> 'w handler" where
  "language_item env item w = do {
     language \<leftarrow> decode_members env language_fields item;
     ((e, state), w1) \<leftarrow> bx_language_check_database env language w;
     if e \<noteq> NoError then Some (e, w1)
     else do {
       (e1, w2) \<leftarrow> (case state of
          NeedCreate \<Rightarrow> language_execute_request env language language_insert w1
        | NeedUpdate \<Rightarrow> language_execute_request env language language_update w1
        | _ \<Rightarrow> Some (NoError, w1));
       Some (if e1 = ErrorSQLReconnect then e1 else NoError, w2)
     }
   }"

definition bx_language_load :: "('w, 'z) store_env_scheme \<Rightarrow> 'w walk_env \<Rightarrow> 'w handler" where
  "bx_language_load env walk w = do {
     (request, w1) \<leftarrow> we_request walk ''2.0/language'' [] w;
     (case request of
        NULL \<Rightarrow> Some (ErrorNet, w1)
      | Ptr r \<Rightarrow>
          (case rq_response r of
             NULL \<Rightarrow> Some (ErrorNet, w1)
           | Ptr response \<Rightarrow>
               if rd_http_code response \<noteq> 200 then Some (ErrorNet, w1)
               else sync_rows (language_item env) (json_items (rq_decoded r)) w1))
   }"

end
