(* ===== verification/Bx_People.thy ===== *)
theory Bx_People
  imports Bx_Catalogue
begin

text \<open>
  Users (\<open>src/src/bxobjects/user.c\<close>) and groups of contacts (\<open>contact_group.c\<close>).
\<close>

section \<open>Users\<close>

definition user_insert :: string where
  "user_insert =
     ''INSERT IGNORE INTO user ('' @ ''_checksum, '' @ ''_last_updated, '' @ ''_deleted, '' @ ''id, '' @
     ''firstname, '' @ ''lastname, '' @ ''email, '' @ ''salutation_type, '' @ ''is_superadmin, '' @
     ''is_accountant) '' @ ''VALUES ('' @ '':_checksum, '' @ '':_last_updated, '' @ '':_deleted , '' @
     '':id, '' @ '':firstname, '' @ '':lastname, '' @ '':email, '' @ '':salutation_type, '' @
     '':is_superadmin, '' @ '':is_accountant);''"

definition user_update :: string where
  "user_update =
     ''UPDATE user SET '' @ ''_checksum = :_checksum, '' @ ''_last_updated = :_last_updated, '' @
     ''_deleted = :_deleted, '' @ ''lastname = :lastname, '' @ ''firstname = :firstname, '' @
     ''email = :email, '' @ ''salutation_type = :salutation_type, '' @ ''is_superadmin = :is_superadmin, '' @
     ''is_accountant = :is_accountant '' @ ''WHERE id = :id;''"

definition user_fields :: "BXJsonField list" where
  "user_fields =
     [BX_FIELD ''id'' BX_F_UINT, BX_FIELD ''firstname'' BX_F_STR, BX_FIELD ''lastname'' BX_F_STR,
      BX_FIELD ''email'' BX_F_STR, BX_FIELD ''salutation_type'' BX_F_STR,
      BX_FIELD ''is_accountant'' BX_F_BOOL, BX_FIELD ''is_superadmin'' BX_F_BOOL]"

definition bx_user_is_in_database :: "('w, 'z) store_env_scheme \<Rightarrow> BXAny \<Rightarrow> 'w \<Rightarrow> ((BXillError \<times> bool) \<times> 'w) option" where
  "bx_user_is_in_database env item = row_present env ''SELECT id FROM user  WHERE id = :id;'' item"

definition ensure_str :: "BXString \<Rightarrow> BXString" where
  "ensure_str s = (if bs_isset s \<and> bs_value s \<noteq> NULL then s else \<lparr>bs_isset = True, bs_value = Ptr [NUL], bs_len = 0\<rparr>)"

definition ensure_member :: "string \<Rightarrow> bx_members \<Rightarrow> bx_members" where
  "ensure_member k obj = set_member obj k (AString (ensure_str (string_member obj k)))"

definition write_user :: "('w, 'z) store_env_scheme \<Rightarrow> string \<Rightarrow> bx_members \<Rightarrow> u64 \<Rightarrow> u64 \<Rightarrow> 'w handler" where
  "write_user env sql user checksum now w =
     with_query sql w (\<lambda>query.
       case query_rows env (bind_each
              (map (bxd_bind user) [''id'', ''firstname'', ''lastname'', ''email'', ''salutation_type''] @
               [bx_database_add_param_uint8 '':is_superadmin'' (if bb_value (bool_member user ''is_superadmin'') then 1 else 0),
                bx_database_add_param_uint8 '':is_accountant'' (if bb_value (bool_member user ''is_accountant'') then 1 else 0),
                u64_param '':_checksum'' checksum, u64_param '':_last_updated'' now, u64_param '':_deleted'' 0]) query) w of
         (False, query1, w1) \<Rightarrow> Some (bx_database_query_error (Ptr query1), w1)
       | (True, query1, w1) \<Rightarrow> Some (if bx_database_persist_ok (Ptr query1) then NoError else ErrorGeneric, w1))"

definition persist_user :: "('w, 'z) store_env_scheme \<Rightarrow> unit ptr \<Rightarrow> bx_members \<times> u64 \<Rightarrow> 'w handler" where
  "persist_user env conn user w =
     (if conn = NULL \<or> \<not> bu_isset (uint_member (fst user) ''id'') then Some (ErrorGeneric, w)
      else
        (let obj = ensure_member ''salutation_type'' (ensure_member ''email'' (ensure_member ''lastname''
                     (ensure_member ''firstname'' (fst user))));
             (now, w1) = st_time env w
         in with_query ''SELECT _checksum FROM user WHERE id = :id;'' w1 (\<lambda>query.
              case query_rows env (bind_value '':id'' (member obj ''id'') query) w1 of
                (False, query1, w2) \<Rightarrow> Some (bx_database_query_error (Ptr query1), w2)
              | (True, query1, w2) \<Rightarrow>
                  if first_value query1 = Some (snd user) then Some (NoError, w2)
                  else write_user env (if first_value query1 = None then user_insert else user_update) obj (snd user) now w2)))"

definition decode_user_json :: "('w, 'z) store_env_scheme \<Rightarrow> json ptr \<Rightarrow> (bx_members \<times> u64) ptr option" where
  "decode_user_json env root =
     (case kb_doc_object root of NULL \<Rightarrow> Some NULL | Ptr object \<Rightarrow> map_option Ptr (decode_members env user_fields object))"

fun user_paths :: "('w, 'z) store_env_scheme \<Rightarrow> 'w walk_env \<Rightarrow> unit ptr \<Rightarrow> BXAny \<Rightarrow> string list \<Rightarrow> BXillError \<Rightarrow> 'w handler" where
  "user_paths env walk conn item [] last_error w = Some (last_error, w)"
| "user_paths env walk conn item (path # paths) last_error w = do {
     (request, w1) \<leftarrow> we_request walk path [Ptr item] w;
     (case request of
        NULL \<Rightarrow> user_paths env walk conn item paths last_error w1
      | Ptr r \<Rightarrow>
          (case rq_response r of
             NULL \<Rightarrow> user_paths env walk conn item paths last_error w1
           | Ptr response \<Rightarrow>
               if rd_http_code response \<noteq> 200 then user_paths env walk conn item paths last_error w1
               else do {
                 user \<leftarrow> decode_user_json env (rq_decoded r);
                 (case user of
                    NULL \<Rightarrow> user_paths env walk conn item paths last_error w1
                  | Ptr u \<Rightarrow> do {
                      (e, w2) \<leftarrow> persist_user env conn u w1;
                      if e = NoError \<or> e = ErrorSQLReconnect then Some (e, w2)
                      else user_paths env walk conn item paths e w2
                    })
               }))
   }"

definition bx_user_sync_item :: "('w, 'z) store_env_scheme \<Rightarrow> 'w walk_env \<Rightarrow> unit ptr \<Rightarrow> BXAny \<Rightarrow> 'w handler" where
  "bx_user_sync_item env walk conn item =
     user_paths env walk conn item [''3.0/users/$'', ''3.0/fictional_users/$''] ErrorGeneric"

definition user_page_item :: "('w, 'z) store_env_scheme \<Rightarrow> unit ptr \<Rightarrow> json \<Rightarrow> 'w handler" where
  "user_page_item env conn item w = do {
     user \<leftarrow> decode_user_json env (Ptr item);
     (case user of
        NULL \<Rightarrow> Some (NoError, w)
      | Ptr u \<Rightarrow> map_option (\<lambda>(e, w1). (if e = ErrorSQLReconnect then e else NoError, w1)) (persist_user env conn u w))
   }"

definition bx_user_walk_items :: "('w, 'z) store_env_scheme \<Rightarrow> 'w walk_env \<Rightarrow> unit ptr \<Rightarrow> 'w handler" where
  "bx_user_walk_items env walk conn w = do {
     (e, w1) \<leftarrow> bx_walk_pages walk ''3.0/users?limit=$&offset=$'' NULL False (user_page_item env conn) w;
     if e = ErrorSQLReconnect then Some (e, w1)
     else do {
       (e1, w2) \<leftarrow> bx_walk_pages walk ''3.0/fictional_users?limit=$&offset=$'' NULL False (user_page_item env conn) w1;
       Some (if e1 \<noteq> NoError \<and> e1 \<noteq> ErrorSQLReconnect then NoError else e1, w2)
     }
   }"

section \<open>Groups of contacts\<close>

definition group_fields :: "BXJsonField list" where
  "group_fields = [BX_FIELD ''id'' BX_F_UINT, BX_FIELD ''name'' BX_F_STR]"

text \<open>The time of the deletion marks a group, once. An id that is not positive ends the program.\<close>

definition db_delete_object :: "('w, 'z) store_env_scheme \<Rightarrow> int \<Rightarrow> 'w handler" where
  "db_delete_object env i w =
     (if i \<le> 0 then None
      else with_query ''SELECT _deleted FROM contact_group WHERE id = :id;'' w (\<lambda>query.
        case query_rows env (bind_each [bx_database_add_param_int64 '':id'' i] query) w of
          (False, query1, w1) \<Rightarrow> Some (bx_database_query_error (Ptr query1), w1)
        | (True, query1, w1) \<Rightarrow>
            (case first_value query1 of
               None \<Rightarrow> Some (NoError, w1)
             | Some deleted \<Rightarrow>
                 if (ucast deleted :: u32) \<noteq> 0 then Some (NoError, w1)
                 else
                   (let (now, w2) = st_time env w1 in
                    with_query ''UPDATE contact_group SET _deleted = :deleted WHERE id = :id;'' w2 (\<lambda>query2.
                      case query_rows env (bind_each [bx_database_add_param_int64 '':deleted'' (sint now),
                             bx_database_add_param_int64 '':id'' i] query2) w2 of
                        (ok, query3, w3) \<Rightarrow> Some (if ok then NoError else bx_database_query_error (Ptr query3), w3))))))"

fun any_int :: "BXAny \<Rightarrow> int" where
  "any_int (AInteger v) = bi_value v"
| "any_int (AUInteger v) = sint (bu_value v)"
| "any_int _ = 0"

definition json_or_null :: "json ptr \<Rightarrow> json" where
  "json_or_null root = (case root of NULL \<Rightarrow> JNull | Ptr j \<Rightarrow> j)"

definition sync_group :: "('w, 'z) store_env_scheme \<Rightarrow> bx_members \<times> u64 \<Rightarrow> 'w handler" where
  "sync_group env grp w =
     (let (now, w1) = st_time env w; i = bu_value (uint_member (fst grp) ''id'') in
      with_query ''SELECT _checksum FROM contact_group WHERE id = :id;'' w1 (\<lambda>query.
        case query_rows env (bind_each [bx_database_add_param_int64 '':id'' (sint i)] query) w1 of
          (False, query1, w2) \<Rightarrow> Some (bx_database_query_error (Ptr query1), w2)
        | (True, query1, w2) \<Rightarrow>
            if first_value query1 = Some (snd grp) then Some (NoError, w2)
            else if first_value query1 = None then
              with_query (''INSERT INTO contact_group (_checksum, id, name, _last_updated)'' @
                          '' VALUES (:_checksum, :id, :name, :_last_updated);'') w2 (\<lambda>query2.
                case query_rows env (bind_each [char_bind (fst grp) ''name'', u64_param '':_checksum'' (snd grp),
                       u64_param '':id'' i, u64_param '':_last_updated'' now] query2) w2 of
                  (ok, query3, w3) \<Rightarrow> Some (if ok then NoError else bx_database_query_error (Ptr query3), w3))
            else
              with_query (''UPDATE contact_group SET _checksum = :_checksum, name = :name, '' @
                          ''_last_updated = :_last_updated, _deleted = :_deleted '' @ ''WHERE id = :id;'') w2 (\<lambda>query2.
                case query_rows env (bind_each [char_bind (fst grp) ''name'', u64_param '':id'' i,
                       u64_param '':_checksum'' (snd grp), u64_param '':_last_updated'' now,
                       u64_param '':_deleted'' 0] query2) w2 of
                  (ok, query3, w3) \<Rightarrow> Some (if ok then NoError else bx_database_query_error (Ptr query3), w3))))"

definition bx_contact_group_sync_item :: "('w, 'z) store_env_scheme \<Rightarrow> 'w walk_env \<Rightarrow> BXAny \<Rightarrow> 'w handler" where
  "bx_contact_group_sync_item env walk item w = do {
     (request, w1) \<leftarrow> we_request walk ''2.0/contact_group/$'' [Ptr item] w;
     (case request of
        NULL \<Rightarrow> Some (ErrorNet, w1)
      | Ptr r \<Rightarrow>
          (case rq_response r of
             NULL \<Rightarrow> Some (ErrorNet, w1)
           | Ptr response \<Rightarrow>
               if rd_http_code response = 404 then db_delete_object env (any_int item) w1
               else if rd_http_code response \<noteq> 200 then Some (ErrorNet, w1)
               else do {
                 grp \<leftarrow> decode_members env group_fields (json_or_null (rq_decoded r));
                 sync_group env grp w1
               }))
   }"

definition bx_contact_group_walk_items :: "('w, 'z) store_env_scheme \<Rightarrow> 'w walk_env \<Rightarrow> unit ptr \<Rightarrow> 'w handler" where
  "bx_contact_group_walk_items env walk conn =
     bx_named_list_walk env walk conn ''2.0/contact_group?limit=$&offset=$'' (Ptr ''contact_group'')"

text \<open>The parameter \<open>:gid\<close> is bound to a variable, so every execution sees the current group.\<close>

fun link_groups :: "('w, 'z) store_env_scheme \<Rightarrow> BXDatabaseQuery \<Rightarrow> u64 list \<Rightarrow> 'w handler" where
  "link_groups env query [] w = Some (NoError, w)"
| "link_groups env query (gid # gids) w =
     (if gid = 0 then link_groups env query gids w
      else (case bx_database_execute (st_api env) (bind_uint64 '':gid'' gid query) w of
              (False, query1, w1) \<Rightarrow> Some (query_failure query1, w1)
            | (True, query1, w1) \<Rightarrow> link_groups env query1 gids w1))"

definition bx_contact_group_link :: "('w, 'z) store_env_scheme \<Rightarrow> u64 \<Rightarrow> string ptr \<Rightarrow> 'w handler" where
  "bx_contact_group_link env contact_id group_ids w =
     with_query ''DELETE FROM cg2c WHERE contact = :cid'' w (\<lambda>del.
       case bx_database_execute (st_api env) (bind_uint64 '':cid'' contact_id del) w of
         (False, del1, w1) \<Rightarrow> Some (query_failure del1, w1)
       | (True, del1, w1) \<Rightarrow> do {
           ids \<leftarrow> bx_int_string_array_to_int_array (case group_ids of NULL \<Rightarrow> NULL | Ptr s \<Rightarrow> Ptr (cstr s));
           (case ids of
              NULL \<Rightarrow> Some (NoError, w1)
            | Ptr array \<Rightarrow>
                with_query (''INSERT IGNORE INTO cg2c (contact_group, contact) '' @ ''VALUES (:gid, :cid)'') w1 (\<lambda>ins. do {
                  n \<leftarrow> rd array 0;
                  gids \<leftarrow> (if nat n < length array then Some (take (nat n) (tl array)) else None);
                  link_groups env (bind_uint64 '':cid'' contact_id (bind_uint64 '':gid'' 0 ins)) (map word_of_int gids) w1
                }))
         })"

end
