(* ===== verification/Bx_Sector.thy ===== *)
theory Bx_Sector
  imports Bx_People
begin

text \<open>
  The sectors of contacts, which are fetched at once and compared with the table
  (\<open>src/src/bxobjects/contact_sector.c\<close>), and the list of country codes
  (\<open>src/src/bxobjects/country_code.c\<close>).
\<close>

section \<open>Sectors\<close>

definition sector_fields :: "BXJsonField list" where
  "sector_fields = [BX_FIELD ''id'' BX_F_UINT, BX_FIELD ''name'' BX_F_STR]"

record s_ItemMustBeDeleted =
  si_item :: int
  si_deleted :: bool

text \<open>The first known sector with the id is kept.\<close>

fun keep_item :: "u64 \<Rightarrow> s_ItemMustBeDeleted list \<Rightarrow> s_ItemMustBeDeleted list" where
  "keep_item i [] = []"
| "keep_item i (x # xs) = (if word_of_int (si_item x) = i then x\<lparr>si_deleted := False\<rparr> # xs else x # keep_item i xs)"

text \<open>\<open>add && ... && bx_database_execute (query)\<close>.\<close>

definition run_bound :: "('w, 'z) store_env_scheme \<Rightarrow> binding list \<Rightarrow> BXDatabaseQuery \<Rightarrow> 'w \<Rightarrow> bool \<times> BXDatabaseQuery \<times> 'w" where
  "run_bound env binds query w =
     (case all_bound binds query of
        (False, query1) \<Rightarrow> (False, query1, w)
      | (True, query1) \<Rightarrow> bx_database_execute (st_api env) query1 w)"

definition failure_or :: "BXillError \<Rightarrow> BXDatabaseQuery \<Rightarrow> BXillError" where
  "failure_or e query = (if dq_need_reconnect query then ErrorSQLReconnect else e)"

definition write_sector :: "('w, 'z) store_env_scheme \<Rightarrow> string \<Rightarrow> binding list \<Rightarrow> BXillError \<Rightarrow> 'w handler" where
  "write_sector env sql binds e w =
     with_query sql w (\<lambda>query.
       case run_bound env binds query w of
         (ok, query1, w1) \<Rightarrow> Some (if ok then NoError else failure_or e query1, w1))"

definition sync_sector :: "('w, 'z) store_env_scheme \<Rightarrow> bx_members \<times> u64 \<Rightarrow> 'w handler" where
  "sync_sector env sector w = do {
     query \<leftarrow> bx_database_new_query ''SELECT _checksum FROM contact_sector WHERE id = :id;'';
     let (now, w1) = st_time env w;
     let i = bu_value (uint_member (fst sector) ''id'');
     (case query of
        NULL \<Rightarrow> Some (ErrorSQLSelect, w1)
      | Ptr q \<Rightarrow>
          (case run_bound env [bx_database_add_param_int64 '':id'' (sint i)] q w1 of
             (False, q1, w2) \<Rightarrow> Some (failure_or ErrorSQLSelect q1, w2)
           | (True, q1, w2) \<Rightarrow>
               (case bx_database_results (st_api env) q1 w2 of
                  (False, q2, w3) \<Rightarrow> Some (failure_or ErrorSQLSelect q2, w3)
                | (True, q2, w3) \<Rightarrow>
                    (case first_value q2 of
                       None \<Rightarrow>
                         write_sector env (''INSERT INTO contact_sector (_checksum, id, name, _last_updated, _deleted)'' @
                                           ''VALUES (:_checksum, :id, :name, :_last_updated, :_deleted);'')
                           [char_bind (fst sector) ''name'', u64_param '':_checksum'' (snd sector), u64_param '':id'' i,
                            u64_param '':_last_updated'' now, u64_param '':_deleted'' 0] ErrorSQLSelect w3
                     | Some stored \<Rightarrow>
                         if stored = snd sector then Some (NoError, w3)
                         else
                           write_sector env (''UPDATE contact_sector SET _checksum = :_checksum, name = :name, '' @
                                             ''_last_updated = :_last_updated, _deleted = :_deleted '' @ ''WHERE id = :id;'')
                             [bxd_bind (fst sector) ''id'', char_bind (fst sector) ''name'',
                              u64_param '':_checksum'' (snd sector), u64_param '':_last_updated'' now,
                              u64_param '':_deleted'' 0] ErrorSQLUpdate w3))))
   }"

fun sync_sectors :: "('w, 'z) store_env_scheme \<Rightarrow> json list \<Rightarrow> s_ItemMustBeDeleted list \<Rightarrow> 'w
    \<Rightarrow> ((BXillError \<times> s_ItemMustBeDeleted list) \<times> 'w) option" where
  "sync_sectors env [] items w = Some ((NoError, items), w)"
| "sync_sectors env (object # objects) items w = do {
     sector \<leftarrow> decode_members env sector_fields object;
     let items1 = keep_item (bu_value (uint_member (fst sector) ''id'')) items;
     (e, w1) \<leftarrow> sync_sector env sector w;
     if e \<noteq> NoError then Some ((e, items1), w1) else sync_sectors env objects items1 w1
   }"

text \<open>The parameter \<open>:id\<close> is bound to a variable, so every execution sees the current item.\<close>

fun delete_sectors :: "('w, 'z) store_env_scheme \<Rightarrow> BXDatabaseQuery \<Rightarrow> s_ItemMustBeDeleted list \<Rightarrow> 'w handler" where
  "delete_sectors env query [] w = Some (NoError, w)"
| "delete_sectors env query (item # items) w =
     (if \<not> si_deleted item then delete_sectors env query items w
      else
        (case bx_database_execute (st_api env) (bind_each [bx_database_add_param_int64 '':id'' (si_item item)] query) w of
           (False, query1, w1) \<Rightarrow> Some (failure_or ErrorSQLUpdate query1, w1)
         | (True, query1, w1) \<Rightarrow> delete_sectors env query1 items w1))"

definition drop_sectors :: "('w, 'z) store_env_scheme \<Rightarrow> s_ItemMustBeDeleted list \<Rightarrow> 'w handler" where
  "drop_sectors env items w =
     (if items = [] then Some (NoError, w)
      else
        (let (now, w1) = st_time env w in
         with_query ''UPDATE contact_sector SET _deleted = :_deleted  WHERE id = :id;'' w1 (\<lambda>query.
           case all_bound [bx_database_add_param_int64 '':_deleted'' (sint now), bx_database_add_param_int64 '':id'' 0] query of
             (False, query1) \<Rightarrow> Some (failure_or ErrorSQLGeneric query1, w1)
           | (True, query1) \<Rightarrow> delete_sectors env query1 items w1)))"

definition known_sectors :: "BXDatabaseQuery \<Rightarrow> s_ItemMustBeDeleted list" where
  "known_sectors query = map (\<lambda>row. \<lparr>si_item = co_i_value (hd row), si_deleted = True\<rparr>) (dq_results query)"

definition bx_contact_sector_walk_items :: "('w, 'z) store_env_scheme \<Rightarrow> 'w walk_env \<Rightarrow> unit ptr \<Rightarrow> 'w handler" where
  "bx_contact_sector_walk_items env walk conn w = do {
     (request, w1) \<leftarrow> we_request walk ''2.0/contact_branch'' [] w;
     (case request of
        NULL \<Rightarrow> Some (ErrorGeneric, w1)
      | Ptr r \<Rightarrow>
          (case rq_response r of
             NULL \<Rightarrow> Some (ErrorGeneric, w1)
           | Ptr response \<Rightarrow>
               if rd_http_code response \<noteq> 200 then Some (ErrorGeneric, w1)
               else if conn = NULL then None
               else
                 with_query ''SELECT id FROM contact_sector WHERE _deleted = 0;'' w1 (\<lambda>query_ids.
                   case query_rows env query_ids w1 of
                     (False, query1, w2) \<Rightarrow> Some (bx_database_query_error (Ptr query1), w2)
                   | (True, query1, w2) \<Rightarrow> do {
                       ((e, items), w3) \<leftarrow> sync_sectors env (json_items (rq_decoded r)) (known_sectors query1) w2;
                       if e \<noteq> NoError then Some (e, w3) else drop_sectors env items w3
                     })))
   }"

section \<open>Country codes\<close>

text \<open>The table of codes; the element with the id -1 ends it.\<close>

type_synonym country_list = "(int \<times> string) list"

definition to_int32 :: "int \<Rightarrow> int" where
  "to_int32 v = sint (word_of_int v :: 32 word)"

text \<open>Two bytes of the code, or of \<open>??\<close>; a code with no characters is one byte long and the copy reads past it.\<close>

definition load_country :: "('w, 'z) store_env_scheme \<Rightarrow> json \<Rightarrow> (int \<times> string) option" where
  "load_country env country = do {
     let i = fst (bx_object_get_json_int country ''id'' NULL);
     (code, _) \<leftarrow> bx_object_get_json_string (st_libc env) BXHTMLEntities country ''iso_3166_alpha2'' NULL;
     bytes \<leftarrow> read_buf (case bs_value code of NULL \<Rightarrow> Ptr (''??'' @ [NUL]) | Ptr s \<Rightarrow> Ptr s) 2;
     Some (to_int32 (bi_value i), bytes)
   }"

fun load_countries :: "('w, 'z) store_env_scheme \<Rightarrow> json list \<Rightarrow> country_list option" where
  "load_countries env [] = Some [(- 1, [NUL, NUL])]"
| "load_countries env (country # countries) = do {
     c \<leftarrow> load_country env country;
     cs \<leftarrow> load_countries env countries;
     Some (c # cs)
   }"

definition bx_country_code_load :: "('w, 'z) store_env_scheme \<Rightarrow> 'w walk_env \<Rightarrow> country_list ptr \<Rightarrow> 'w
    \<Rightarrow> ((bool \<times> country_list ptr) \<times> 'w) option" where
  "bx_country_code_load env walk countries w = do {
     (request, w1) \<leftarrow> we_request walk ''2.0/country'' [] w;
     (case request of
        NULL \<Rightarrow> Some ((False, countries), w1)
      | Ptr r \<Rightarrow>
          (case rq_response r of
             NULL \<Rightarrow> Some ((False, countries), w1)
           | Ptr response \<Rightarrow>
               if rd_http_code response \<noteq> 200 then Some ((False, countries), w1)
               else map_option (\<lambda>cs. ((True, Ptr cs), w1)) (load_countries env (json_items (rq_decoded r)))))
   }"

fun find_country :: "country_list \<Rightarrow> int \<Rightarrow> string ptr option" where
  "find_country [] i = None"
| "find_country ((bx_id, code) # countries) i =
     (if bx_id = - 1 then Some NULL else if bx_id = i then Some (Ptr code) else find_country countries i)"

definition bx_country_list_get_code :: "country_list ptr \<Rightarrow> u64 \<Rightarrow> string ptr option" where
  "bx_country_list_get_code countries i =
     (case countries of NULL \<Rightarrow> None | Ptr cs \<Rightarrow> find_country cs (to_int32 (sint i)))"

text \<open>A lookup in a loaded list always ends.\<close>

lemma find_country_loaded:
  "load_countries env countries = Some cs \<Longrightarrow> \<exists>c. find_country cs i = Some c"
  by (induction countries arbitrary: cs) (auto split: bind_splits)

end
