(* ===== verification/Bx_Documents.thy ===== *)
theory Bx_Documents
  imports Bx_Sector Bx_Ids_Cache
begin

text \<open>
  Contacts (\<open>src/src/bxobjects/contact.c\<close>), projects (\<open>project.c\<close>) and invoices (\<open>invoice.c\<close>): one
  object is compared with the cache of its kind, written when it is new or has changed, and entered
  into the cache when the server stored it. The handlers of the walks of \<open>Bx_Chain\<close> are these.
\<close>

record 'w sync_env = "'w store_env" +
  se_alloc :: "nat \<Rightarrow> bool"
  se_walk :: "'w walk_env"
  se_countries :: "country_list ptr"

type_synonym 'w cached = "(BXillError \<times> Cache ptr \<times> 'w) option"

text \<open>A step that leaves the cache alone, and the continuation of a handler after it.\<close>

definition keep_cache :: "Cache ptr \<Rightarrow> (BXillError \<times> 'w) option \<Rightarrow> 'w cached" where
  "keep_cache c r = map_option (\<lambda>(e, w). (e, c, w)) r"

text \<open>Was the statement of the query stored, refused, or not even run?\<close>

datatype store_outcome = Stored | Not_Stored BXillError

definition store_query :: "('w, 'z) store_env_scheme \<Rightarrow> BXDatabaseQuery \<Rightarrow> 'w \<Rightarrow> store_outcome \<times> 'w" where
  "store_query env query w =
     (case query_rows env query w of
        (False, query1, w1) \<Rightarrow> (Not_Stored (query_failure query1), w1)
      | (True, query1, w1) \<Rightarrow> (if bx_database_persist_ok (Ptr query1) then Stored else Not_Stored NoError, w1))"

section \<open>Contacts\<close>

definition contact_update :: string where
  "contact_update =
     ''UPDATE contact SET '' @ ''contact_type_id    = :contact_type_id, '' @
     ''salutation_id      = :salutation_id, '' @ ''country            = :country, '' @
     ''user_id            = :user_id, '' @ ''owner_id           = :owner_id, '' @
     ''title_id           = :title_id,'' @ ''salutation_form    = :salutation_form, '' @
     ''postcode           = :postcode, '' @ ''nr                 = :nr,'' @ ''name_1             = :name_1, '' @
     ''name_2             = :name_2, '' @ ''birthday           = :birthday, '' @
     ''address            = :address, '' @ ''city               = :city, '' @ ''mail               = :mail, '' @
     ''mail_second        = :mail_second,'' @ ''phone_fixed        = :phone_fixed, '' @
     ''phone_fixed_second = :phone_fixed_second,'' @ ''phone_mobile       = :phone_mobile, '' @
     ''fax                = :fax, '' @ ''url                = :url, '' @
     ''skype_name         = :skype_name, '' @ ''remarks            = :remarks, '' @
     ''updated_at         = :updated_at, '' @ ''profile_image      = :profile_image, '' @
     ''language_id        = :language_id, '' @ ''_checksum          = :_checksum, '' @
     ''_last_updated      = :_last_updated, '' @ ''_archived          = :_archived '' @ ''WHERE id = :id;''"

definition contact_insert :: string where
  "contact_insert =
     ''INSERT IGNORE INTO contact ('' @ ''id, '' @ ''contact_type_id, '' @ ''salutation_id, '' @ ''country,'' @
     ''user_id, '' @ ''owner_id, '' @ ''title_id, '' @ ''salutation_form, '' @ ''postcode, '' @ ''nr, '' @
     ''name_1, '' @ ''name_2, '' @ ''birthday, '' @ ''address, '' @ ''city, '' @ ''mail, '' @
     ''mail_second, '' @ ''phone_fixed, '' @ ''phone_fixed_second,'' @ ''phone_mobile, '' @ ''fax, '' @
     ''url, '' @ ''skype_name, '' @ ''remarks, '' @ ''updated_at, '' @ ''profile_image, '' @ ''language_id, '' @
     ''_checksum, '' @ ''_last_updated, '' @ ''_archived) '' @ ''VALUES ('' @ '':id, '' @
     '':contact_type_id, '' @ '':salutation_id, '' @ '':country, '' @ '':user_id, '' @ '':owner_id,'' @
     '':title_id, '' @ '':salutation_form, '' @ '':postcode, '' @ '':nr, '' @ '':name_1, '' @ '':name_2, '' @
     '':birthday, '' @ '':address,'' @ '':city, '' @ '':mail, '' @ '':mail_second, '' @ '':phone_fixed, '' @
     '':phone_fixed_second, '' @ '':phone_mobile,'' @ '':fax, '' @ '':url, '' @ '':skype_name, '' @
     '':remarks, '' @ '':updated_at, '' @ '':profile_image, '' @ '':language_id, '' @ '':_checksum, '' @
     '':_last_updated, '' @ '':_archived '' @ '');''"

definition contact_fields :: "BXJsonField list" where
  "contact_fields =
     [BX_FIELD ''id'' BX_F_UINT, BX_FIELD ''user_id'' BX_F_UINT, BX_FIELD ''contact_type_id'' BX_F_UINT,
      BX_FIELD ''salutation_id'' BX_F_UINT, BX_FIELD ''country_id'' BX_F_UINT,
      BX_FIELD ''owner_id'' BX_F_UINT, BX_FIELD ''title_id'' BX_F_UINT,
      BX_FIELD ''salutation_form'' BX_F_UINT, BX_FIELD ''language_id'' BX_F_UINT,
      BX_FIELD ''postcode'' BX_F_STR, BX_FIELD ''nr'' BX_F_STR, BX_FIELD ''name_1'' BX_F_STR,
      BX_FIELD ''name_2'' BX_F_STR, BX_FIELD ''address'' BX_F_STR, BX_FIELD ''birthday'' BX_F_STR,
      BX_FIELD ''updated_at'' BX_F_STR, BX_FIELD ''city'' BX_F_STR, BX_FIELD ''mail'' BX_F_STR,
      BX_FIELD ''mail_second'' BX_F_STR, BX_FIELD ''phone_fixed'' BX_F_STR,
      BX_FIELD ''phone_fixed_second'' BX_F_STR, BX_FIELD ''phone_mobile'' BX_F_STR,
      BX_FIELD ''fax'' BX_F_STR, BX_FIELD ''url'' BX_F_STR, BX_FIELD ''skype_name'' BX_F_STR,
      BX_FIELD ''remarks'' BX_F_STR, BX_FIELD ''contact_group_ids'' BX_F_STR,
      BX_FIELD ''contact_branch_ids'' BX_F_STR, BX_FIELD ''profile_image'' BX_F_STR]"

definition bx_contact_is_in_database :: "('w, 'z) store_env_scheme \<Rightarrow> BXAny \<Rightarrow> 'w \<Rightarrow> ((BXillError \<times> bool) \<times> 'w) option" where
  "bx_contact_is_in_database env item = row_present env ''SELECT id FROM contact WHERE id = :id;'' item"

definition ensure_user_exists :: "('w, 'z) sync_env_scheme \<Rightarrow> unit ptr \<Rightarrow> BXUInteger \<Rightarrow> 'w handler" where
  "ensure_user_exists env conn i w =
     (if \<not> bu_isset i \<or> bu_value i = 0 then Some (NoError, w)
      else do {
        ((e, present), w1) \<leftarrow> bx_user_is_in_database env (AUInteger i) w;
        if e \<noteq> NoError \<or> present then Some (e, w1)
        else do {
          (e1, w2) \<leftarrow> bx_user_sync_item env (se_walk env) conn (AUInteger i) w1;
          if e1 = ErrorSQLReconnect then Some (e1, w2)
          else do {
            ((e2, present2), w3) \<leftarrow> bx_user_is_in_database env (AUInteger i) w2;
            Some (if e2 \<noteq> NoError then e2 else if present2 then NoError else ErrorGeneric, w3)
          }
        }
      })"

text \<open>The user, and the owner when it is another one.\<close>

definition ensure_users :: "('w, 'z) sync_env_scheme \<Rightarrow> unit ptr \<Rightarrow> bx_members \<Rightarrow> 'w handler" where
  "ensure_users env conn contact w = do {
     let user = uint_member contact ''user_id'';
     let owner = uint_member contact ''owner_id'';
     (e, w1) \<leftarrow> ensure_user_exists env conn user w;
     if e \<noteq> NoError then Some (e, w1)
     else if bu_isset owner \<and> bu_value owner \<noteq> bu_value user then ensure_user_exists env conn owner w1
     else Some (NoError, w1)
   }"

definition contact_binds :: "bx_members \<Rightarrow> BXBool \<Rightarrow> u64 \<Rightarrow> u64 \<Rightarrow> string ptr \<Rightarrow> binding list" where
  "contact_binds contact is_archived checksum now code =
     map (bxd_bind contact)
       [''id'', ''contact_type_id'', ''salutation_id'', ''user_id'', ''owner_id'', ''title_id'',
        ''salutation_form'', ''language_id'', ''postcode'', ''nr'', ''name_1'', ''name_2'', ''birthday'',
        ''address'', ''city'', ''mail'', ''mail_second'', ''phone_fixed_second'', ''phone_fixed'',
        ''phone_mobile'', ''fax'', ''url'', ''skype_name'', ''remarks'', ''updated_at'', ''profile_image''] @
     [\<lambda>query. bx_database_add_bxtype query '':_archived'' (ABool is_archived), u64_param '':_checksum'' checksum,
      u64_param '':_last_updated'' now, bx_database_add_param_char '':country'' (bytes_ptr code) 2]"

text \<open>What follows a contact that was stored: its groups and its other addresses.\<close>

definition contact_details :: "('w, 'z) sync_env_scheme \<Rightarrow> unit ptr \<Rightarrow> bx_members \<Rightarrow> 'w handler" where
  "contact_details env conn contact w = do {
     let i = bu_value (uint_member contact ''id'');
     (e, w1) \<leftarrow> bx_contact_group_link env i (bs_value (string_member contact ''contact_group_ids'')) w;
     if e = ErrorSQLReconnect then Some (e, w1)
     else do {
       (e1, w2) \<leftarrow> bx_contact_extra_sync env (se_walk env) conn i w1;
       Some (if e1 = ErrorSQLReconnect then e1 else NoError, w2)
     }
   }"

definition bx_contact_sync :: "('w, 'z) sync_env_scheme \<Rightarrow> unit ptr \<Rightarrow> json \<Rightarrow> BXBool \<Rightarrow> Cache ptr \<times> 'w \<Rightarrow> 'w cached" where
  "bx_contact_sync env conn item is_archived st = do {
     let (c, w) = st;
     (contact, checksum) \<leftarrow> decode_members env contact_fields item;
     let i = bu_value (uint_member contact ''id'');
     (state, c1) \<leftarrow> cache_check_item c i checksum;
     if state = CacheOk then Some (NoError, c1, w)
     else do {
       query \<leftarrow> bx_database_new_query (if state = CacheNotSet then contact_insert else contact_update);
       (case query of
          NULL \<Rightarrow> Some (ErrorGeneric, c1, w)
        | Ptr q \<Rightarrow> do {
            (e, w1) \<leftarrow> ensure_users env conn contact w;
            if e = ErrorSQLReconnect then Some (e, c1, w1)
            else if e \<noteq> NoError then Some (NoError, c1, w1)
            else do {
              let (now, w2) = st_time env w1;
              code \<leftarrow> bx_country_list_get_code (se_countries env) (bu_value (uint_member contact ''country_id''));
              (case store_query env (bind_each (contact_binds contact is_archived checksum now code) q) w2 of
                 (Not_Stored e1, w3) \<Rightarrow> Some (e1, c1, w3)
               | (Stored, w3) \<Rightarrow> do {
                   (_, c2) \<leftarrow> cache_set_item (se_alloc env) c1 i checksum;
                   keep_cache c2 (contact_details env conn contact w3)
                 })
            }
          })
     }
   }"

text \<open>An object fetched by its id: \<open>200\<close> is the only answer that is used.\<close>

definition fetched :: "BXNetRequest ptr \<Rightarrow> json ptr ptr" where
  "fetched request =
     (case request of
        NULL \<Rightarrow> NULL
      | Ptr r \<Rightarrow>
          (case rq_response r of
             NULL \<Rightarrow> NULL
           | Ptr response \<Rightarrow> if rd_http_code response \<noteq> 200 then NULL else Ptr (rq_decoded r)))"

definition bx_contact_sync_item :: "('w, 'z) sync_env_scheme \<Rightarrow> unit ptr \<Rightarrow> BXAny \<Rightarrow> BXBool \<Rightarrow> Cache ptr \<times> 'w \<Rightarrow> 'w cached" where
  "bx_contact_sync_item env conn item show_archived st = do {
     let (c, w) = st;
     (request, w1) \<leftarrow> we_request (se_walk env) ''2.0/contact/$?show_archived=$'' [Ptr item, Ptr (ABool show_archived)] w;
     (case fetched request of
        NULL \<Rightarrow> Some (ErrorNet, c, w1)
      | Ptr NULL \<Rightarrow> None
      | Ptr (Ptr object) \<Rightarrow> bx_contact_sync env conn object show_archived (c, w1))
   }"

section \<open>Projects\<close>

definition project_update :: string where
  "project_update =
     ''UPDATE pr_project SET uuid = :uuid, nr = :nr, name = :name,'' @
     ''start_date = :start_date, end_date = :end_date, comment = :comment,'' @
     ''pr_state_id = :pr_state_id, pr_project_type_id = :pr_project_type_id,'' @
     ''contact_id = :contact_id, contact_sub_id = :contact_sub_id,'' @
     ''pr_invoice_type_id = :pr_invoice_type_id, pr_invoice_type_amount = '' @ '':pr_invoice_type_amount, '' @
     ''pr_budget_type_id = :pr_budget_type_id, pr_budget_type_amount = '' @ '':pr_budget_type_amount, '' @
     ''_checksum = :_checksum, _last_updated = :_last_updated WHERE id = :id;''"

definition project_insert :: string where
  "project_insert =
     ''INSERT IGNORE INTO pr_project (id, uuid, nr, name, start_date,'' @
     ''end_date, comment, pr_state_id, pr_project_type_id, contact_id,'' @
     ''contact_sub_id, pr_invoice_type_id, pr_invoice_type_amount, '' @ ''pr_budget_type_id,'' @
     ''pr_budget_type_amount, _checksum, _last_updated'' @ '') VALUES ('' @
     '':id, :uuid, :nr, :name, :start_date,'' @
     '':end_date, :comment, :pr_state_id, :pr_project_type_id, :contact_id,'' @
     '':contact_sub_id, :pr_invoice_type_id, :pr_invoice_type_amount, '' @ '':pr_budget_type_id,'' @
     '':pr_budget_type_amount, :_checksum, :_last_updated'' @ '');''"

definition project_fields :: "BXJsonField list" where
  "project_fields =
     [BX_FIELD ''id'' BX_F_UINT, BX_FIELD ''pr_state_id'' BX_F_UINT,
      BX_FIELD ''pr_project_type_id'' BX_F_UINT, BX_FIELD ''contact_id'' BX_F_UINT,
      BX_FIELD ''contact_sub_id'' BX_F_UINT, BX_FIELD ''pr_invoice_type_id'' BX_F_UINT,
      BX_FIELD ''pr_budget_type_id'' BX_F_UINT, BX_FIELD ''uuid'' BX_F_UUID, BX_FIELD ''nr'' BX_F_STR,
      BX_FIELD ''name'' BX_F_STR, BX_FIELD ''start_date'' BX_F_STR, BX_FIELD ''end_date'' BX_F_STR,
      BX_FIELD ''comment'' BX_F_STR, BX_FIELD ''pr_invoice_type_amount'' BX_F_FLOAT,
      BX_FIELD ''pr_budget_type_amount'' BX_F_FLOAT]"

definition bx_project_is_in_database :: "('w, 'z) store_env_scheme \<Rightarrow> BXAny \<Rightarrow> 'w \<Rightarrow> ((BXillError \<times> bool) \<times> 'w) option" where
  "bx_project_is_in_database env item = row_present env ''SELECT id FROM pr_project WHERE id = :id;'' item"

definition bx_project_check_database :: "('w, 'z) store_env_scheme \<Rightarrow> bx_members \<times> u64 \<Rightarrow> 'w \<Rightarrow> (ObjectState \<times> 'w) option" where
  "bx_project_check_database env project w = do {
     query \<leftarrow> bx_database_new_query ''SELECT _checksum FROM pr_project WHERE id = :id'';
     (case query of
        NULL \<Rightarrow> Some (Error, w)
      | Ptr q \<Rightarrow>
          (case bxd_bind (fst project) ''id'' q of
             (False, q1) \<Rightarrow> Some (Error, w)
           | (True, q1) \<Rightarrow>
               (case query_rows env q1 w of
                  (False, q2, w1) \<Rightarrow> Some (Error, w1)
                | (True, q2, w1) \<Rightarrow>
                    Some (case first_value q2 of None \<Rightarrow> NeedCreate
                          | Some stored \<Rightarrow> if stored \<noteq> snd project then NeedUpdate else NeedNothing, w1))))
   }"

definition project_bind_params :: "bx_members \<Rightarrow> u64 \<Rightarrow> u64 \<Rightarrow> binding" where
  "project_bind_params project checksum now =
     all_bound (map (bxd_bind project)
       [''id'', ''uuid'', ''nr'', ''name'', ''start_date'', ''end_date'', ''comment'', ''pr_state_id'',
        ''pr_project_type_id'', ''contact_id'', ''contact_sub_id'', ''pr_invoice_type_id'',
        ''pr_invoice_type_amount'', ''pr_budget_type_id'', ''pr_budget_type_amount''] @
       [u64_param '':_checksum'' checksum, u64_param '':_last_updated'' now])"

text \<open>The time is a variable of \<open>bind_params\<close>, which has returned when the statement runs.\<close>

definition project_execute_request :: "('w, 'z) store_env_scheme \<Rightarrow> bx_members \<times> u64 \<Rightarrow> string \<Rightarrow> 'w handler" where
  "project_execute_request env project request w =
     with_query request w (\<lambda>query.
       let (now, w1) = st_time env w in
       case project_bind_params (fst project) (snd project) (st_dead env now) query of
         (False, query1) \<Rightarrow> Some (ErrorGeneric, w1)
       | (True, query1) \<Rightarrow>
           (case bx_database_execute (st_api env) query1 w1 of
              (False, query2, w2) \<Rightarrow> Some (query_failure query2, w2)
            | (True, query2, w2) \<Rightarrow>
                (case bx_database_results (st_api env) query2 w2 of
                   (fetched_all, query3, w3) \<Rightarrow>
                     Some (if \<not> fetched_all then ErrorGeneric
                           else if bx_database_persist_ok (Ptr query3) then NoError else ErrorSQLInsert, w3))))"

text \<open>A project is skipped when its contact is not in the database.\<close>

definition contact_missing :: "('w, 'z) store_env_scheme \<Rightarrow> BXUInteger \<Rightarrow> 'w \<Rightarrow> ((BXillError \<times> bool) \<times> 'w) option" where
  "contact_missing env i w =
     (if bu_isset i \<and> bu_value i \<noteq> 0
      then map_option (\<lambda>((e, present), w1). ((e, \<not> present), w1)) (bx_contact_is_in_database env (AUInteger i) w)
      else Some ((NoError, False), w))"

definition bx_project_sync :: "('w, 'z) sync_env_scheme \<Rightarrow> unit ptr \<Rightarrow> json \<Rightarrow> Cache ptr \<times> 'w \<Rightarrow> 'w cached" where
  "bx_project_sync env conn item st = do {
     let (c, w) = st;
     (project, checksum) \<leftarrow> decode_members env project_fields item;
     let i = bu_value (uint_member project ''id'');
     (state, c1) \<leftarrow> cache_check_item c i checksum;
     if state = CacheOk then Some (NoError, c1, w)
     else do {
       ((e, missing), w1) \<leftarrow> contact_missing env (uint_member project ''contact_id'') w;
       if e \<noteq> NoError then Some (e, c1, w1)
       else if missing then Some (NoError, c1, w1)
       else do {
         (e1, w2) \<leftarrow> project_execute_request env (project, checksum)
                        (if state = CacheNotSet then project_insert else project_update) w1;
         if e1 = ErrorSQLReconnect then Some (e1, c1, w2)
         else if e1 \<noteq> NoError then Some (NoError, c1, w2)
         else do {
           (_, c2) \<leftarrow> cache_set_item (se_alloc env) c1 i checksum;
           (e2, w3) \<leftarrow> bx_project_extra_sync env (se_walk env) conn i w2;
           Some (if e2 = ErrorSQLReconnect then e2 else NoError, c2, w3)
         }
       }
     }
   }"

definition bx_project_sync_item :: "('w, 'z) sync_env_scheme \<Rightarrow> unit ptr \<Rightarrow> BXAny \<Rightarrow> Cache ptr \<times> 'w \<Rightarrow> 'w cached" where
  "bx_project_sync_item env conn item st = do {
     let (c, w) = st;
     (request, w1) \<leftarrow> we_request (se_walk env) ''2.0/pr_project/$'' [Ptr item] w;
     (case fetched request of
        NULL \<Rightarrow> Some (ErrorNet, c, w1)
      | Ptr object \<Rightarrow> bx_project_sync env conn (json_or_null object) (c, w1))
   }"

section \<open>Invoices\<close>

definition invoice_update :: string where
  "invoice_update =
     ''UPDATE invoice SET document_nr = :document_nr, title = :title, '' @
     ''contact_id = :contact_id, contact_sub_id = :contact_sub_id, '' @
     ''user_id = :user_id, project_id = :project_id, language_id = :language_id, '' @
     ''bank_account_id = :bank_account_id, currency_id = :currency_id, '' @
     ''payment_type_id = :payment_type_id, header = :header, footer = :footer, '' @
     ''mwst_type = :mwst_type, mwst_is_net = :mwst_is_net, '' @
     ''show_position_taxes = :show_position_taxes, is_valid_from = '' @ '':is_valid_from,'' @
     ''is_valid_to = :is_valid_to, contact_address = :contact_address, '' @
     ''kb_item_status_id = :kb_item_status_id, reference = :reference, '' @
     ''api_reference = :api_reference, viewed_by_client_at = '' @ '':viewed_by_client_at,'' @
     ''updated_at = :updated_at, esr_id = :esr_id, qr_invoice_id = '' @ '':qr_invoice_id,'' @
     ''template_slug = :template_slug, network_link = :network_link, '' @
     ''_checksum = :_checksum, _last_updated = :_last_updated, total_gross = '' @
     '':total_gross, total_net = :total_net, total_taxes = :total_taxes, '' @
     ''total_received_payments = :total_received_payments, total_credit_vouchers '' @
     ''= :total_credit_vouchers, total_remaining_payments = '' @
     '':total_remaining_payments, total = :total, total_rounding_difference = '' @
     '':total_rounding_difference '' @ ''WHERE id = :id;''"

definition invoice_insert :: string where
  "invoice_insert =
     ''INSERT IGNORE INTO invoice (id, document_nr, title, contact_id, '' @ ''contact_sub_id, '' @
     ''user_id, project_id, language_id, bank_account_id, currency_id, '' @
     ''payment_type_id, header, footer, mwst_type, mwst_is_net, '' @
     ''show_position_taxes, is_valid_from, is_valid_to, contact_address, '' @
     ''kb_item_status_id, reference, api_reference, viewed_by_client_at, '' @
     ''updated_at, esr_id, qr_invoice_id, template_slug, network_link, '' @
     ''_checksum, _last_updated, total_gross, total_net, total_taxes, '' @
     ''total_received_payments, total_credit_vouchers, total_remaining_payments, '' @
     ''total, total_rounding_difference) '' @ ''VALUES (:id, :document_nr, :title, '' @
     '':contact_id, :contact_sub_id, :user_id, :project_id, :language_id, '' @
     '':bank_account_id, :currency_id, :payment_type_id, :header, :footer, '' @
     '':mwst_type, :mwst_is_net, :show_position_taxes, :is_valid_from, '' @
     '':is_valid_to, :contact_address, :kb_item_status_id, :reference, '' @
     '':api_reference, :viewed_by_client_at, :updated_at, :esr_id, '' @
     '':qr_invoice_id, :template_slug, :network_link, :_checksum, '' @
     '':_last_updated, :total_gross, :total_net, :total_taxes, '' @
     '':total_received_payments, :total_credit_vouchers, '' @
     '':total_remaining_payments, :total, :total_rounding_difference '' @ '');''"

definition invoice_fields :: "BXJsonField list" where
  "invoice_fields =
     [BX_FIELD ''id'' BX_F_UINT, BX_FIELD ''user_id'' BX_F_UINT, BX_FIELD ''contact_id'' BX_F_UINT,
      BX_FIELD ''contact_sub_id'' BX_F_UINT, BX_FIELD ''project_id'' BX_F_UINT,
      BX_FIELD ''bank_account_id'' BX_F_UINT, BX_FIELD ''currency_id'' BX_F_UINT,
      BX_FIELD ''payment_type_id'' BX_F_UINT, BX_FIELD ''kb_item_status_id'' BX_F_UINT,
      BX_FIELD ''esr_id'' BX_F_UINT, BX_FIELD ''qr_invoice_id'' BX_F_UINT,
      BX_FIELD ''language_id'' BX_F_UINT, BX_FIELD ''mwst_type'' BX_F_UINT,
      BX_FIELD ''show_position_taxes'' BX_F_UINT, BX_FIELD ''mwst_is_net'' BX_F_UINT,
      BX_FIELD ''total_gross'' BX_F_FLOAT, BX_FIELD ''total_net'' BX_F_FLOAT,
      BX_FIELD ''total_taxes'' BX_F_FLOAT, BX_FIELD ''total_received_payments'' BX_F_FLOAT,
      BX_FIELD ''total_credit_vouchers'' BX_F_FLOAT, BX_FIELD ''total_remaining_payments'' BX_F_FLOAT,
      BX_FIELD ''total'' BX_F_FLOAT, BX_FIELD ''total_rounding_difference'' BX_F_FLOAT,
      BX_FIELD ''document_nr'' BX_F_STR, BX_FIELD ''is_valid_from'' BX_F_STR,
      BX_FIELD ''is_valid_to'' BX_F_STR, BX_FIELD ''contact_address'' BX_F_STR,
      BX_FIELD ''template_slug'' BX_F_STR, BX_FIELD ''updated_at'' BX_F_STR,
      BX_FIELD ''reference'' BX_F_STR, BX_FIELD ''api_reference'' BX_F_STR,
      BX_FIELD ''viewed_by_client_at'' BX_F_STR, BX_FIELD ''header'' BX_F_STR,
      BX_FIELD ''footer'' BX_F_STR, BX_FIELD ''title'' BX_F_STR, BX_FIELD ''network_link'' BX_F_STR]"

definition invoice_binds :: "bx_members \<Rightarrow> u64 \<Rightarrow> u64 \<Rightarrow> binding list" where
  "invoice_binds invoice checksum now =
     map (bxd_bind invoice)
       [''id'', ''document_nr'', ''title'', ''contact_id'', ''contact_sub_id'', ''user_id'', ''project_id'',
        ''language_id'', ''bank_account_id'', ''currency_id'', ''payment_type_id'', ''header'', ''footer'',
        ''mwst_type'', ''mwst_is_net'', ''show_position_taxes'', ''is_valid_from'', ''is_valid_to'',
        ''contact_address'', ''kb_item_status_id'', ''reference'', ''api_reference'',
        ''viewed_by_client_at'', ''updated_at'', ''esr_id'', ''qr_invoice_id'', ''template_slug'',
        ''network_link'', ''total_gross'', ''total_net'', ''total_taxes'', ''total_received_payments'',
        ''total_credit_vouchers'', ''total_remaining_payments'', ''total'', ''total_rounding_difference''] @
     [u64_param '':_checksum'' checksum, u64_param '':_last_updated'' now]"

text \<open>
  The invoice of the list, or the whole invoice when the list has no positions: whatever JSON the
  second request answers replaces the first one, its HTTP code is not looked at.
\<close>

definition whole_invoice :: "('w, 'z) sync_env_scheme \<Rightarrow> bx_members \<times> u64 \<Rightarrow> json \<Rightarrow> 'w
    \<Rightarrow> (((bx_members \<times> u64) \<times> json ptr) \<times> 'w) option" where
  "whole_invoice env invoice item w =
     (case json_object_get item ''positions'' of
        Ptr positions \<Rightarrow> Some ((invoice, Ptr positions), w)
      | NULL \<Rightarrow> do {
          (request, w1) \<leftarrow> we_request (se_walk env) ''2.0/kb_invoice/$'' [Ptr (member (fst invoice) ''id'')] w;
          (case (case request of NULL \<Rightarrow> NULL | Ptr r \<Rightarrow> rq_decoded r) of
             NULL \<Rightarrow> Some ((invoice, NULL), w1)
           | Ptr whole \<Rightarrow> do {
               invoice1 \<leftarrow> decode_members env invoice_fields whole;
               Some ((invoice1, json_object_get whole ''positions''), w1)
             })
        })"

text \<open>Is the project of the invoice missing, and the invoice with its project number 0 cleared.\<close>

definition project_missing :: "('w, 'z) store_env_scheme \<Rightarrow> bx_members \<Rightarrow> 'w \<Rightarrow> ((BXillError \<times> bool \<times> bx_members) \<times> 'w) option" where
  "project_missing env invoice w =
     (let i = uint_member invoice ''project_id'' in
      if bu_isset i \<and> 0 < bu_value i
      then map_option (\<lambda>((e, present), w1). ((e, \<not> present, invoice), w1)) (bx_project_is_in_database env (AUInteger i) w)
      else Some ((NoError, False,
                  if bu_value i = 0 then set_member invoice ''project_id'' (AUInteger (i\<lparr>bu_isset := False\<rparr>)) else invoice), w))"

text \<open>
  The statement of the handler. A query that cannot be made ends the handler with the error it
  started with, which is none.
\<close>

definition store_invoice :: "('w, 'z) store_env_scheme \<Rightarrow> CacheState \<Rightarrow> bx_members \<times> u64 \<Rightarrow> 'w \<Rightarrow> (store_outcome \<times> 'w) option" where
  "store_invoice env state invoice w = do {
     query \<leftarrow> bx_database_new_query (if state = CacheNotSet then invoice_insert else invoice_update);
     (case query of
        NULL \<Rightarrow> Some (Not_Stored NoError, w)
      | Ptr q \<Rightarrow>
          (let (now, w1) = st_time env w
           in Some (store_query env (bind_each (invoice_binds (fst invoice) (snd invoice) now) q) w1)))
   }"

text \<open>What follows an invoice that was stored: its positions, the cache, and its details.\<close>

definition invoice_details :: "('w, 'z) sync_env_scheme \<Rightarrow> unit ptr \<Rightarrow> bx_members \<times> u64 \<Rightarrow> json ptr \<Rightarrow> Cache ptr \<times> 'w \<Rightarrow> 'w cached" where
  "invoice_details env conn invoice positions st = do {
     let (c, w) = st;
     let i = bu_value (uint_member (fst invoice) ''id'');
     (e, w1) \<leftarrow> bx_invoice_positions_store env i positions w;
     if e = NoError then do {
       (_, c1) \<leftarrow> cache_set_item (se_alloc env) c i (snd invoice);
       (e1, w2) \<leftarrow> bx_invoice_extra_sync env (se_walk env) conn i w1;
       Some (if e1 = ErrorSQLReconnect then e1 else NoError, c1, w2)
     }
     else Some (if e = ErrorSQLReconnect then e else NoError, c, w1)
   }"

definition bx_invoice_sync :: "('w, 'z) sync_env_scheme \<Rightarrow> unit ptr \<Rightarrow> json \<Rightarrow> Cache ptr \<times> 'w \<Rightarrow> 'w cached" where
  "bx_invoice_sync env conn item st = do {
     let (c, w) = st;
     listed \<leftarrow> decode_members env invoice_fields item;
     (state, c1) \<leftarrow> cache_check_item c (bu_value (uint_member (fst listed) ''id'')) (snd listed);
     if state = CacheOk then Some (NoError, c1, w)
     else do {
       ((whole, positions), w1) \<leftarrow> whole_invoice env listed item w;
       ((e, missing), w2) \<leftarrow> contact_missing env (uint_member (fst whole) ''contact_id'') w1;
       if e \<noteq> NoError \<or> missing then Some (e, c1, w2)
       else do {
         ((e1, missing1, invoice), w3) \<leftarrow> project_missing env (fst whole) w2;
         if e1 \<noteq> NoError \<or> missing1 then Some (e1, c1, w3)
         else do {
           (stored, w4) \<leftarrow> store_invoice env state (invoice, snd whole) w3;
           (case stored of
              Not_Stored e2 \<Rightarrow> Some (e2, c1, w4)
            | Stored \<Rightarrow> invoice_details env conn (invoice, snd whole) positions (c1, w4))
         }
       }
     }
   }"

definition bx_invoice_sync_item :: "('w, 'z) sync_env_scheme \<Rightarrow> unit ptr \<Rightarrow> BXAny \<Rightarrow> Cache ptr \<times> 'w \<Rightarrow> 'w cached" where
  "bx_invoice_sync_item env conn item st = do {
     let (c, w) = st;
     (request, w1) \<leftarrow> we_request (se_walk env) ''2.0/kb_invoice/$'' [Ptr item] w;
     (case fetched request of
        NULL \<Rightarrow> Some (ErrorNet, c, w1)
      | Ptr NULL \<Rightarrow> None
      | Ptr (Ptr object) \<Rightarrow> bx_invoice_sync env conn object (c, w1))
   }"

end
