(* ===== verification/Bx_File.thy ===== *)
theory Bx_File
  imports Bx_Documents Bx_Conf
begin

text \<open>
  The files of the company, \<open>src/src/bxobjects/file.c\<close>: their rows, and their contents below the
  cache directory. The calls of the operating system are the argument \<open>'w file_api\<close>: \<open>None\<close> of
  \<open>fa_size\<close> is a failing \<open>stat\<close>, and a failing \<open>fopen\<close> is a write of \<open>None\<close>.
\<close>

record 'w file_api =
  fa_size :: "string \<Rightarrow> 'w \<Rightarrow> nat option"
  fa_mkdir :: "string \<Rightarrow> 'w \<Rightarrow> bool \<times> 'w"
  fa_write :: "string \<Rightarrow> string \<Rightarrow> 'w \<Rightarrow> bool option \<times> 'w"
  fa_rename :: "string \<Rightarrow> string \<Rightarrow> 'w \<Rightarrow> bool \<times> 'w"
  fa_unlink :: "string \<Rightarrow> 'w \<Rightarrow> 'w"

section \<open>Paths\<close>

definition lower_hex :: "char \<Rightarrow> char" where
  "lower_hex c = (if 65 \<le> (of_char c :: nat) \<and> (of_char c :: nat) \<le> 70 then char_of ((of_char c :: nat) + 32) else c)"

fun hex_digits :: "string \<Rightarrow> nat \<Rightarrow> string \<Rightarrow> string option" where
  "hex_digits [] n hex = Some hex"
| "hex_digits (c # s) n hex =
     (if 32 \<le> n then Some hex
      else if c = CHR ''-'' then hex_digits s n hex
      else if \<not> is_hex_lower (lower_hex c) then None
      else hex_digits s (n + 1) (hex @ [lower_hex c]))"

definition uuid_to_hex :: "string \<Rightarrow> string option" where
  "uuid_to_hex uuid = (case hex_digits uuid 0 [] of None \<Rightarrow> None | Some hex \<Rightarrow> if length hex = 32 then Some hex else None)"

text \<open>Every directory on the way, and the last one; \<open>mkdir\<close> that finds it is a success.\<close>

fun make_dirs :: "'w file_api \<Rightarrow> string list \<Rightarrow> 'w \<Rightarrow> bool \<times> 'w" where
  "make_dirs api [] w = (True, w)"
| "make_dirs api (dir # dirs) w = (case fa_mkdir api dir w of (False, w1) \<Rightarrow> (False, w1) | (True, w1) \<Rightarrow> make_dirs api dirs w1)"

definition mkdir_p :: "'w file_api \<Rightarrow> string \<Rightarrow> 'w \<Rightarrow> bool \<times> 'w" where
  "mkdir_p api dir w =
     (if dir = [] \<or> 4096 \<le> length dir then (False, w)
      else
        (let tmp = (if last dir = CHR ''/'' then butlast dir else dir)
         in make_dirs api (map (\<lambda>i. take i tmp) (filter (\<lambda>i. tmp ! i = CHR ''/'') [1..<length tmp]) @ [tmp]) w))"

definition file_dir :: "string \<Rightarrow> string \<Rightarrow> string" where
  "file_dir cache_dir hex = cache_dir @ ''/'' @ take 2 hex @ ''/'' @ take 2 (drop 2 hex)"

definition file_dest_path :: "string \<Rightarrow> string \<Rightarrow> string option" where
  "file_dest_path cache_dir hex =
     (let path = file_dir cache_dir hex @ ''/'' @ hex @ ''.bin'' in if 4096 \<le> length path then None else Some path)"

definition local_size_matches :: "'w file_api \<Rightarrow> string \<Rightarrow> u64 \<Rightarrow> 'w \<Rightarrow> bool" where
  "local_size_matches api path n w = (case fa_size api path w of None \<Rightarrow> False | Some k \<Rightarrow> of_nat k = n)"

section \<open>Contents\<close>

text \<open>The answer is written beside the file and then moved over it.\<close>

definition save_file :: "'w file_api \<Rightarrow> string \<Rightarrow> string \<Rightarrow> 'w \<Rightarrow> BXillError \<times> 'w" where
  "save_file api dest body w =
     (let tmp = dest @ ''.part'' in
      if 4096 \<le> length tmp then (ErrorGeneric, w)
      else
        (case fa_write api tmp body w of
           (None, w1) \<Rightarrow> (ErrorGeneric, w1)
         | (Some False, w1) \<Rightarrow> (ErrorGeneric, fa_unlink api tmp w1)
         | (Some True, w1) \<Rightarrow>
             (case fa_rename api tmp dest w1 of
                (False, w2) \<Rightarrow> (ErrorGeneric, fa_unlink api tmp w2)
              | (True, w2) \<Rightarrow> (NoError, w2))))"

definition download_file :: "'w file_api \<Rightarrow> 'w walk_env \<Rightarrow> bx_members \<Rightarrow> string ptr \<Rightarrow> 'w handler" where
  "download_file api raw f cache_dir w =
     (case (cache_dir, bs_value (string_member f ''uuid'')) of
        (Ptr dir, Ptr uuid) \<Rightarrow>
          if \<not> bs_isset (string_member f ''uuid'') then Some (NoError, w)
          else
            (case uuid_to_hex (cstr uuid) of
               None \<Rightarrow> Some (NoError, w)
             | Some hex \<Rightarrow>
                 (case file_dest_path dir hex of
                    None \<Rightarrow> Some (ErrorGeneric, w)
                  | Some dest \<Rightarrow>
                      if bu_isset (uint_member f ''size_in_bytes'') \<and>
                         local_size_matches api dest (bu_value (uint_member f ''size_in_bytes'')) w
                      then Some (NoError, w)
                      else
                        (case mkdir_p api (file_dir dir hex) w of
                           (False, w1) \<Rightarrow> Some (ErrorGeneric, w1)
                         | (True, w1) \<Rightarrow> do {
                             (req, w2) \<leftarrow> we_request raw ''3.0/files/$/download'' [Ptr (member f ''id'')] w1;
                             (case (case req of NULL \<Rightarrow> NULL | Ptr r \<Rightarrow> rq_response r) of
                                NULL \<Rightarrow> Some (NoError, w2)
                              | Ptr response \<Rightarrow>
                                  (case rd_data response of
                                     NULL \<Rightarrow> Some (NoError, w2)
                                   | Ptr body \<Rightarrow>
                                       if rd_http_code response \<noteq> 200 then Some (NoError, w2)
                                       else do {
                                         bytes \<leftarrow> read_buf (Ptr body) (rd_data_len response);
                                         Some (save_file api dest bytes w2)
                                       }))
                           })))
      | _ \<Rightarrow> Some (NoError, w))"

section \<open>Rows\<close>

definition file_insert :: string where
  "file_insert =
     ''INSERT INTO bx_file (id, uuid, name, size_in_bytes, extension, mime_type, '' @
     ''uploader_email, user_id, is_archived, source_id, source_type, '' @
     ''is_referenced, created_at, _checksum, _last_updated, _deleted) VALUES '' @
     ''(:id, :uuid, :name, :size_in_bytes, :extension, :mime_type, '' @
     '':uploader_email, :user_id, :is_archived, :source_id, :source_type, '' @
     '':is_referenced, :created_at, :_checksum, :_last_updated, :_deleted)''"

definition file_update :: string where
  "file_update =
     ''UPDATE bx_file SET uuid = :uuid, name = :name, '' @
     ''size_in_bytes = :size_in_bytes, extension = :extension, '' @
     ''mime_type = :mime_type, uploader_email = :uploader_email, '' @
     ''user_id = :user_id, is_archived = :is_archived, source_id = :source_id, '' @
     ''source_type = :source_type, is_referenced = :is_referenced, '' @
     ''created_at = :created_at, _checksum = :_checksum, '' @
     ''_last_updated = :_last_updated, _deleted = :_deleted WHERE id = :id''"

definition file_fields :: "BXJsonField list" where
  "file_fields =
     [BX_FIELD ''id'' BX_F_UINT, BX_FIELD ''uuid'' BX_F_STR, BX_FIELD ''name'' BX_F_STR,
      BX_FIELD ''size_in_bytes'' BX_F_UINT, BX_FIELD ''extension'' BX_F_STR,
      BX_FIELD ''mime_type'' BX_F_STR, BX_FIELD ''uploader_email'' BX_F_STR,
      BX_FIELD ''user_id'' BX_F_UINT, BX_FIELD ''is_archived'' BX_F_BOOL, BX_FIELD ''source_id'' BX_F_UINT,
      BX_FIELD ''source_type'' BX_F_STR, BX_FIELD ''is_referenced'' BX_F_BOOL,
      BX_FIELD ''created_at'' BX_F_STR]"

definition persist_file :: "('w, 'z) store_env_scheme \<Rightarrow> bx_members \<times> u64 \<Rightarrow> 'w handler" where
  "persist_file env f =
     persist_members env ''SELECT _checksum FROM bx_file WHERE id = :id'' file_insert file_update (fst f)
       [''id'', ''uuid'', ''name'', ''size_in_bytes'', ''extension'', ''mime_type'', ''uploader_email'',
        ''user_id'', ''is_archived'', ''source_id'', ''source_type'', ''is_referenced'', ''created_at''] (snd f)"

text \<open>A file whose row or contents cannot be stored is logged, unless the connection is lost.\<close>

definition file_page_item :: "('w, 'z) sync_env_scheme \<Rightarrow> 'w file_api \<Rightarrow> 'w walk_env \<Rightarrow> string ptr \<Rightarrow> json \<Rightarrow> Cache ptr \<times> 'w \<Rightarrow> 'w cached" where
  "file_page_item env api raw cache_dir item st = do {
     let (c, w) = st;
     f \<leftarrow> decode_members env file_fields item;
     let i = uint_member (fst f) ''id'';
     if \<not> bu_isset i then Some (NoError, c, w)
     else do {
       (state, c1) \<leftarrow> cache_check_item c (bu_value i) (snd f);
       (e, c2, w1) \<leftarrow>
         (if state = CacheOk then Some (NoError, c1, w)
          else do {
            (e, w1) \<leftarrow> persist_file env f w;
            if e = NoError then map_option (\<lambda>(_, c2). (NoError, c2, w1)) (cache_set_item (se_alloc env) c1 (bu_value i) (snd f))
            else Some (e, c1, w1)
          });
       if e = ErrorSQLReconnect then Some (e, c2, w1)
       else do {
         (d, w2) \<leftarrow> download_file api raw (fst f) cache_dir w1;
         let e1 = (if e = NoError then d else e);
         Some (if e1 = ErrorSQLReconnect then e1 else NoError, c2, w2)
       }
     }
   }"

text \<open>The walk over a state that is the cache and the server.\<close>

definition paired :: "'w walk_env \<Rightarrow> (Cache ptr \<times> 'w) walk_env" where
  "paired walk =
     \<lparr>we_request = (\<lambda>path args (c, w). map_option (\<lambda>(r, w1). (r, c, w1)) (we_request walk path args w)),
      we_sleep = (\<lambda>(c, w). (c, we_sleep walk w))\<rparr>"

definition cache_directory :: "(string \<Rightarrow> u64) \<Rightarrow> BXConf \<Rightarrow> string ptr" where
  "cache_directory xxh conf =
     (case bx_conf_get_string xxh conf ''cache-directory'' of NULL \<Rightarrow> NULL | Ptr s \<Rightarrow> if cstr s = [] then NULL else Ptr (cstr s))"

definition bx_file_walk_items :: "(string \<Rightarrow> u64) \<Rightarrow> BXConf \<Rightarrow> ('w, 'z) sync_env_scheme \<Rightarrow> 'w file_api \<Rightarrow> 'w walk_env
    \<Rightarrow> (Cache ptr \<times> 'w) handler" where
  "bx_file_walk_items xxh conf env api raw =
     bx_walk_pages (paired (se_walk env)) ''3.0/files?limit=$&offset=$&archived_state=$''
       (Ptr (AString \<lparr>bs_isset = True, bs_value = Ptr (''all'' @ [NUL]), bs_len = 3\<rparr>)) False
       (file_page_item env api raw (cache_directory xxh conf))"

end
