(* ===== verification/Bx_Listing.thy ===== *)
theory Bx_Listing
  imports Bx_Documents Bx_Prune Bx_Chain_Properties
begin

text \<open>
  The walks with the handlers of the program: what they leave of the cache of their list. Every id
  of a row that was handled is seen at the current version, or is not in the cache, whatever
  became of the row. The pass that deletes unseen rows relies on it.
\<close>

section \<open>Ids that are not due\<close>

definition fresh_id :: "Cache \<Rightarrow> u64 \<Rightarrow> bool" where
  "fresh_id c i \<longleftrightarrow> (\<forall>ck seen. cache_map c i = Some (ck, seen) \<longrightarrow> seen = 0 \<or> seen = c_version c)"

definition marked :: "nat \<Rightarrow> Cache \<Rightarrow> Cache \<Rightarrow> u64 set \<Rightarrow> bool" where
  "marked n c c' ids \<longleftrightarrow> within n c' \<and> c_version c' = c_version c \<and> (\<forall>j. j \<in> ids \<or> fresh_id c j \<longrightarrow> fresh_id c' j)"

lemma marked_trans: "marked n c c1 A \<Longrightarrow> marked m c1 c2 B \<Longrightarrow> marked m c c2 (A \<union> B)"
  by (auto simp: marked_def)

lemma marked_within: "marked n c c' A \<Longrightarrow> within n c'"
  by (simp add: marked_def)

lemma within_Suc: "within n c \<Longrightarrow> within (Suc n) c"
  by (auto simp: within_def)

lemma marked_refl: "within n c \<Longrightarrow> marked n c c {}"
  by (simp add: marked_def)

lemma marked_Suc: "marked n c c' A \<Longrightarrow> marked (Suc n) c c' A"
  by (auto simp: marked_def within_Suc)

lemma check_marks:
  assumes "within n c" and "cache_check_item (Ptr c) i k = Some (st, p)"
  shows "\<exists>c'. p = Ptr c' \<and> marked n c c' {i}"
proof -
  obtain c' where c': "p = Ptr c'" "cache_wf c'" "c_version c' = c_version c" "c_size c' = c_size c"
      "cache_map c' = (case cache_map c i of None \<Rightarrow> cache_map c
         | Some (ck, seen) \<Rightarrow> if seen = 0 then cache_map c else (cache_map c)(i \<mapsto> (ck, c_version c)))"
    using cache_check_item_spec [of c i k] assms by (auto simp: within_def)
  have "dom (cache_map c') = dom (cache_map c)" using c'(5) by (auto split: option.splits if_splits)
  then show ?thesis
    using c' assms(1) by (auto simp: marked_def within_def fresh_id_def split: option.splits if_splits)
qed

lemma set_marks:
  assumes "within n c" and "n + 2000 < 2 ^ 32" and "cache_set_item alloc (Ptr c) i k = Some (b, p)"
  shows "\<exists>c'. p = Ptr c' \<and> marked (Suc n) c c' {i}"
proof -
  have wf: "cache_wf c" and room: "unat (c_size c) + 1000 < 2 ^ 32" using assms(1,2) by (auto simp: within_def)
  obtain ok c' where run: "cache_set_item alloc (Ptr c) i k = Some (ok, Ptr c')" and wf': "cache_wf c'"
      "c_version c' = c_version c" and upd: "if ok then cache_map c' = (cache_map c)(i \<mapsto> (k, c_version c))
        else c' = c \<and> cache_map c i = None \<and> \<not> alloc (unat (c_size c + 1000) * sizeof_item)"
    using cache_set_item_spec [OF wf room, of alloc i k] by blast
  have eq: "b = ok" "p = Ptr c'" using run assms(3) by simp_all
  have c': "p = Ptr c'" "cache_wf c'" "c_version c' = c_version c"
      "if b then cache_map c' = (cache_map c)(i \<mapsto> (k, c_version c)) else c' = c \<and> cache_map c i = None"
    using eq wf' upd by (simp_all split: if_splits)
  show ?thesis
  proof (cases b)
    case True
    then have m: "cache_map c' = (cache_map c)(i \<mapsto> (k, c_version c))" using c'(4) by simp
    then have "card (dom (cache_map c')) \<le> Suc n"
      using assms(1) finite_cache_dom [of c] by (auto simp: within_def card_insert_if)
    moreover have "unat (c_size c') \<le> Suc n + 1000"
      using set_item_size [OF wf, of alloc i k b c'] assms(1,3) c'(1) count_is_card [OF wf] room
      by (auto simp: within_def unat_word_ariths)
    ultimately show ?thesis using c' m by (auto simp: marked_def within_def fresh_id_def)
  next
    case False
    then show ?thesis using c' within_Suc [OF assms(1)] by (auto simp: marked_def fresh_id_def)
  qed
qed

text \<open>An id that is fresh is not deleted by the pass that follows.\<close>

lemma fresh_not_stale: "fresh_id c i \<Longrightarrow> 0 < d \<Longrightarrow> i \<notin> stale c d"
  by (fastforce simp: fresh_id_def stale_def word_less_nat_alt)

section \<open>Walks\<close>

text \<open>
  A walk and a cache: the handler of a row marks the id of its row, and the handler of a page
  leaves the cache alone.
\<close>

locale marking_walk =
  fixes sync :: "json \<Rightarrow> 's handler" and cache_of :: "'s \<Rightarrow> Cache ptr" and ident :: "json \<Rightarrow> u64"
  assumes sync_marks: "cache_of s = Ptr c \<Longrightarrow> within n c \<Longrightarrow> n + 2000 < 2 ^ 32 \<Longrightarrow> sync item s = Some (e, s')
    \<Longrightarrow> \<exists>c'. cache_of s' = Ptr c' \<and> marked (Suc n) c c' {ident item}"
begin

lemma rows_marked:
  assumes "sync_rows sync items s = Some (NoError, s')" and "cache_of s = Ptr c" and "within n c"
    and "n + length items + 2000 < 2 ^ 32"
  shows "\<exists>c'. cache_of s' = Ptr c' \<and> marked (n + length items) c c' (ident ` set items)"
  using assms
proof (induction items arbitrary: s c n)
  case Nil
  then show ?case by (auto simp: marked_def)
next
  case (Cons item items)
  obtain s1 where s1: "sync item s = Some (NoError, s1)" "sync_rows sync items s1 = Some (NoError, s')"
    using Cons.prems(1) by (auto split: bind_splits if_splits)
  obtain c1 where c1: "cache_of s1 = Ptr c1" "marked (Suc n) c c1 {ident item}"
    using sync_marks [OF Cons.prems(2,3) _ s1(1)] Cons.prems(4) by auto
  obtain c' where c': "cache_of s' = Ptr c'" "marked (Suc n + length items) c1 c' (ident ` set items)"
    using Cons.IH [OF s1(2) c1(1) marked_within [OF c1(2)]] Cons.prems(4) by auto
  show ?case using c' marked_trans [OF c1(2) c'(2)] by auto
qed

lemma walk_rows_marked:
  assumes "walk_rows sync (Ptr f) offset rows s = Some (NoError, s')" and "cache_of s = Ptr c" and "within n c"
    and "n + length rows + 2000 < 2 ^ 32" and "\<And>n s e s'. f n s = Some (e, s') \<Longrightarrow> cache_of s' = cache_of s"
  shows "\<exists>c'. cache_of s' = Ptr c' \<and> marked (n + length rows) c c' (ident ` set rows)"
  using assms(1-4)
proof (induction "length rows" arbitrary: offset rows s c n rule: less_induct)
  case less
  show ?case
  proof (cases "rows = []")
    case True
    then show ?thesis using less.prems by (auto simp: walk_rows.simps marked_def)
  next
    case False
    obtain s1 s2 where s: "sync_rows sync (take 500 rows) s = Some (NoError, s1)" "f (offset + 500) s1 = Some (NoError, s2)"
        "walk_rows sync (Ptr f) (offset + 500) (drop 500 rows) s2 = Some (NoError, s')"
      using less.prems(1) False by (subst (asm) walk_rows.simps) (auto split: bind_splits if_splits)
    have sum: "length (take 500 rows) + length (drop 500 rows) = length rows" by simp
    have room0: "n + length (take 500 rows) + 2000 < 2 ^ 32" using less.prems(4) sum by linarith
    obtain c1 where c1: "cache_of s1 = Ptr c1" "marked (n + length (take 500 rows)) c c1 (ident ` set (take 500 rows))"
      using rows_marked [OF s(1) less.prems(2,3)] room0 by blast
    have c2: "cache_of s2 = Ptr c1" using assms(5) [OF s(2)] c1(1) by simp
    have dec: "length (drop 500 rows) < length rows" using False by simp
    have room: "n + length (take 500 rows) + length (drop 500 rows) + 2000 < 2 ^ 32"
      using less.prems(4) sum by linarith
    obtain c' where c': "cache_of s' = Ptr c'"
        "marked (n + length (take 500 rows) + length (drop 500 rows)) c1 c' (ident ` set (drop 500 rows))"
      using less.hyps [OF dec s(3) c2 marked_within [OF c1(2)] room] by blast
    have "ident ` set rows = ident ` set (take 500 rows) \<union> ident ` set (drop 500 rows)"
      by (metis append_take_drop_id image_Un set_append)
    then show ?thesis using c' marked_trans [OF c1(2) c'(2)] sum by (metis add.assoc)
  qed
qed

lemma walk_marked:
  assumes "serves env path_fmt extra rows" and "by_offset path_fmt"
    and "bx_walk_pages_from env path_fmt extra False sync 0 (Ptr f) s = Some (NoError, s')"
    and "cache_of s = Ptr c" and "within n c" and "n + length rows + 2000 < 2 ^ 32"
    and "\<And>n s e s'. f n s = Some (e, s') \<Longrightarrow> cache_of s' = cache_of s"
  shows "\<exists>c'. cache_of s' = Ptr c' \<and> marked (n + length rows) c c' (ident ` set rows)"
proof -
  have "walk_rows sync (Ptr f) 0 rows s = Some (NoError, s')"
    using assms(3) walk_loop_served [OF assms(1,2), of sync "Ptr f" 0 s] assms(2)
    by (simp add: bx_walk_pages_from_def first_offset_def by_offset_def)
  from walk_rows_marked [OF this assms(4-7)] show ?thesis .
qed

end

section \<open>The handlers of the program\<close>

definition item_id :: "json \<Rightarrow> u64" where
  "item_id item = bu_value (fst (bx_object_get_json_uint item ''id'' (Ptr [])))"

lemma decode_id:
  assumes "decode_members env flds item = Some (obj, checksum)" and "flds = BX_FIELD ''id'' BX_F_UINT # rest"
  shows "bu_value (uint_member obj ''id'') = item_id item"
  using assms
  by (auto simp: decode_members_def BX_FIELD_def read_slot_def uint_member_def member_def fname_def item_id_def
      split: bind_splits prod.splits)

lemma marked_subset: "marked n c c' B \<Longrightarrow> A \<subseteq> B \<Longrightarrow> marked n c c' A"
  by (auto simp: marked_def)

text \<open>What every handler does with the cache: it checks the id, and may enter one.\<close>

lemma checked_marks:
  assumes "within n c" and "n + 2000 < 2 ^ 32" and "cache_check_item (Ptr c) i k = Some (st, p1)"
    and "p = p1 \<or> (\<exists>alloc j k b. cache_set_item alloc p1 j k = Some (b, p))"
  shows "\<exists>c'. p = Ptr c' \<and> marked (Suc n) c c' {i}"
proof -
  obtain c1 where c1: "p1 = Ptr c1" "marked n c c1 {i}" using check_marks [OF assms(1,3)] by blast
  from assms(4) show ?thesis
  proof
    assume "p = p1"
    then show ?thesis using c1 marked_Suc by blast
  next
    assume "\<exists>alloc j k b. cache_set_item alloc p1 j k = Some (b, p)"
    then obtain alloc j k b where "cache_set_item alloc (Ptr c1) j k = Some (b, p)" using c1(1) by blast
    from set_marks [OF marked_within [OF c1(2)] assms(2) this]
    obtain c' where "p = Ptr c'" "marked (Suc n) c1 c' {j}" by blast
    then show ?thesis using marked_subset [OF marked_trans [OF c1(2)]] by blast
  qed
qed

lemma project_sync_cache:
  assumes "bx_project_sync env conn item (p, w) = Some (e, p', w')"
  shows "\<exists>k st p1. cache_check_item p (item_id item) k = Some (st, p1) \<and>
    (p' = p1 \<or> (\<exists>alloc j k b. cache_set_item alloc p1 j k = Some (b, p')))"
proof -
  obtain obj k where d: "decode_members env project_fields item = Some (obj, k)"
    using assms by (auto simp: bx_project_sync_def split: bind_splits)
  have i: "bu_value (uint_member obj ''id'') = item_id item"
    by (rule decode_id [OF d project_fields_def])
  obtain st p1 where c: "cache_check_item p (item_id item) k = Some (st, p1)"
    using assms d i by (auto simp: bx_project_sync_def Let_def split: bind_splits)
  have "p' = p1 \<or> (\<exists>j k b. cache_set_item (se_alloc env) p1 j k = Some (b, p'))"
    using assms by (auto simp: bx_project_sync_def d i c Let_def split: bind_splits if_splits)
  with c show ?thesis by blast
qed

lemma contact_sync_cache:
  assumes "bx_contact_sync env conn item archived (p, w) = Some (e, p', w')"
  shows "\<exists>k st p1. cache_check_item p (item_id item) k = Some (st, p1) \<and>
    (p' = p1 \<or> (\<exists>alloc j k b. cache_set_item alloc p1 j k = Some (b, p')))"
proof -
  obtain obj k where d: "decode_members env contact_fields item = Some (obj, k)"
    using assms by (auto simp: bx_contact_sync_def split: bind_splits)
  have i: "bu_value (uint_member obj ''id'') = item_id item"
    by (rule decode_id [OF d contact_fields_def])
  obtain st p1 where c: "cache_check_item p (item_id item) k = Some (st, p1)"
    using assms d i by (auto simp: bx_contact_sync_def Let_def split: bind_splits)
  have "p' = p1 \<or> (\<exists>j k b. cache_set_item (se_alloc env) p1 j k = Some (b, p'))"
    using assms
    by (auto simp: bx_contact_sync_def d i c Let_def keep_cache_def
        split: bind_splits if_splits ptr.splits store_outcome.splits prod.splits)
  with c show ?thesis by blast
qed

lemma invoice_sync_cache:
  assumes "bx_invoice_sync env conn item (p, w) = Some (e, p', w')"
  shows "\<exists>k st p1. cache_check_item p (item_id item) k = Some (st, p1) \<and>
    (p' = p1 \<or> (\<exists>alloc j k b. cache_set_item alloc p1 j k = Some (b, p')))"
proof -
  obtain obj k where d: "decode_members env invoice_fields item = Some (obj, k)"
    using assms by (auto simp: bx_invoice_sync_def split: bind_splits)
  have i: "bu_value (uint_member obj ''id'') = item_id item"
    by (rule decode_id [OF d invoice_fields_def])
  obtain st p1 where c: "cache_check_item p (item_id item) k = Some (st, p1)"
    using assms d i by (auto simp: bx_invoice_sync_def Let_def split: bind_splits)
  have "p' = p1 \<or> (\<exists>j k b. cache_set_item (se_alloc env) p1 j k = Some (b, p'))"
    using assms
    by (auto simp: bx_invoice_sync_def d i c Let_def invoice_details_def
        split: bind_splits if_splits store_outcome.splits)
  with c show ?thesis by blast
qed

text \<open>The chain with these handlers.\<close>

definition program_env :: "(string \<Rightarrow> u64) \<Rightarrow> 'w mysql \<Rightarrow> ('w, 'z) sync_env_scheme \<Rightarrow> unit ptr \<Rightarrow> 'w chain_env" where
  "program_env xxh my env conn =
     \<lparr>ce_xxh = xxh, ce_mysql = my, ce_request = we_request (se_walk env),
      ce_contact_item = (\<lambda>archived item. bx_contact_sync env conn item archived),
      ce_project_item = bx_project_sync env conn,
      ce_invoice_item = bx_invoice_sync env conn\<rparr>"

interpretation project_list: marking_walk "project_page_item (program_env xxh my env conn)" ch_projects item_id
proof
  fix s :: "'a chain_state" and c n item e s'
  assume a: "ch_projects s = Ptr c" "within n c" "n + 2000 < (2 :: nat) ^ 32"
    and "project_page_item (program_env xxh my env conn) item s = Some (e, s')"
  then obtain w' where "bx_project_sync env conn item (Ptr c, ch_world s) = Some (e, ch_projects s', w')"
    by (auto simp: project_page_item_def program_env_def split: bind_splits)
  from project_sync_cache [OF this] obtain k st p1 where "cache_check_item (Ptr c) (item_id item) k = Some (st, p1)"
      "ch_projects s' = p1 \<or> (\<exists>alloc j k b. cache_set_item alloc p1 j k = Some (b, ch_projects s'))"
    by (elim exE conjE)
  from checked_marks [OF a(2,3) this] show "\<exists>c'. ch_projects s' = Ptr c' \<and> marked (Suc n) c c' {item_id item}" .
qed

interpretation contact_list: marking_walk "contact_page_item (program_env xxh my env conn) archived" ch_contacts item_id
proof
  fix s :: "'a chain_state" and c n item e s'
  assume a: "ch_contacts s = Ptr c" "within n c" "n + 2000 < (2 :: nat) ^ 32"
    and "contact_page_item (program_env xxh my env conn) archived item s = Some (e, s')"
  then obtain e1 w' where "bx_contact_sync env conn item archived (Ptr c, ch_world s) = Some (e1, ch_contacts s', w')"
    by (auto simp: contact_page_item_def program_env_def split: bind_splits)
  from contact_sync_cache [OF this] obtain k st p1 where "cache_check_item (Ptr c) (item_id item) k = Some (st, p1)"
      "ch_contacts s' = p1 \<or> (\<exists>alloc j k b. cache_set_item alloc p1 j k = Some (b, ch_contacts s'))"
    by (elim exE conjE)
  from checked_marks [OF a(2,3) this] show "\<exists>c'. ch_contacts s' = Ptr c' \<and> marked (Suc n) c c' {item_id item}" .
qed

interpretation invoice_list: marking_walk "invoice_page_item (program_env xxh my env conn)" ch_invoices item_id
proof
  fix s :: "'a chain_state" and c n item e s'
  assume a: "ch_invoices s = Ptr c" "within n c" "n + 2000 < (2 :: nat) ^ 32"
    and "invoice_page_item (program_env xxh my env conn) item s = Some (e, s')"
  then obtain w' where "bx_invoice_sync env conn item (Ptr c, ch_world s) = Some (e, ch_invoices s', w')"
    by (auto simp: invoice_page_item_def program_env_def split: bind_splits)
  from invoice_sync_cache [OF this] obtain k st p1 where "cache_check_item (Ptr c) (item_id item) k = Some (st, p1)"
      "ch_invoices s' = p1 \<or> (\<exists>alloc j k b. cache_set_item alloc p1 j k = Some (b, ch_invoices s'))"
    by (elim exE conjE)
  from checked_marks [OF a(2,3) this] show "\<exists>c'. ch_invoices s' = Ptr c' \<and> marked (Suc n) c c' {item_id item}" .
qed

section \<open>The steps of the chain and the caches\<close>

definition caches :: "'w chain_state \<Rightarrow> Cache ptr \<times> Cache ptr \<times> Cache ptr" where
  "caches st = (ch_contacts st, ch_projects st, ch_invoices st)"

lemma save_cursor_caches: "save_cursor env conn c st = (ok, st') \<Longrightarrow> caches st' = caches st"
  by (auto simp: save_cursor_def caches_def split: prod.splits)

lemma checkpoint_caches: "checkpoint env conn phase offset st = (e, st') \<Longrightarrow> caches st' = caches st"
  using save_cursor_caches [of env conn _ st]
  by (auto simp: checkpoint_def Let_def caches_def split: prod.splits bool.splits)

lemma page_caches: "on_validated_page env conn phase n st = Some (e, st') \<Longrightarrow> caches st' = caches st"
  using checkpoint_caches [of env conn phase n st] by (auto simp: on_validated_page_def split: if_splits)

lemma finish_caches: "finish_resource env conn next a b d st = (r, st') \<Longrightarrow> caches st' = caches st"
  using save_cursor_caches [of env conn]
  by (fastforce simp: finish_resource_def advance_phase_def Let_def caches_def split: prod.splits)

lemma project_phase:
  assumes "bx_chain_sync (program_env xxh my env conn) conn st = Some (r, st')" and "cr_prune_project r"
    and "serves (chain_walk (program_env xxh my env conn)) WALK_PROJECT_PATH NULL rows"
    and "ch_projects st = Ptr c" and "within n c" and "n + length rows + 2000 < 2 ^ 32"
  shows "\<exists>c'. ch_projects st' = Ptr c' \<and> marked (n + length rows) c c' (item_id ` set rows)"
proof -
  let ?env = "program_env xxh my env conn"
  have run: "chain_project ?env conn (cc_offset (ch_cursor st)) st = Some (r, st')"
    using assms(1,2)
    by (auto simp: bx_chain_sync_def Let_def fail_resource_def chain_contact_active_def chain_contact_archived_def
        chain_invoice_list_def chain_invoice_missed_def finish_resource_def
        split: bind_splits if_splits BXChainPhase.splits prod.splits)
  have pages: "ch_projects s' = ch_projects s" if "on_validated_page ?env conn BX_CHAIN_PROJECT n s = Some (e, s')" for n s e s'
    using page_caches [OF that] by (simp add: caches_def)
  obtain st1 where st1: "bx_project_walk_item_from ?env 0 (Ptr (on_validated_page ?env conn BX_CHAIN_PROJECT)) st = Some (NoError, st1)"
      "\<exists>r1. finish_resource ?env conn BX_CHAIN_INVOICE_LIST False True False st1 = (r1, st')"
    using run assms(2)
    by (auto simp: chain_project_def Let_def fail_resource_def finish_resource_def split: bind_splits if_splits prod.splits)
  have "ch_projects st' = ch_projects st1" using st1(2) finish_caches by (fastforce simp: caches_def)
  then show ?thesis
    using project_list.walk_marked [OF assms(3) paths_by_offset(2) st1(1) [unfolded bx_project_walk_item_from_def] assms(4-6) pages]
    by simp
qed

lemma contact_phase:
  assumes "bx_chain_sync (program_env xxh my env conn) conn st = Some (r, st')" and "cr_error r = NoError"
    and "cc_phase (ch_cursor st) = (if archived then BX_CHAIN_CONTACT_ARCHIVED else BX_CHAIN_CONTACT_ACTIVE)"
    and "cc_offset (ch_cursor st) = 0"
    and "serves (chain_walk (program_env xxh my env conn)) WALK_CONTACT_PATH (Ptr (ABool \<lparr>bb_isset = True, bb_value = archived\<rparr>)) rows"
    and "ch_contacts st = Ptr c" and "within n c" and "n + length rows + 2000 < 2 ^ 32"
  shows "\<exists>c'. ch_contacts st' = Ptr c' \<and> marked (n + length rows) c c' (item_id ` set rows)"
proof -
  let ?env = "program_env xxh my env conn"
  let ?phase = "if archived then BX_CHAIN_CONTACT_ARCHIVED else BX_CHAIN_CONTACT_ACTIVE"
  let ?page = "Ptr (on_validated_page ?env conn ?phase)"
  have pages: "ch_contacts s' = ch_contacts s" if "on_validated_page ?env conn ?phase n s = Some (e, s')" for n s e s'
    using page_caches [OF that] by (simp add: caches_def)
  have "\<exists>st0 st1. bx_contact_walk_pass ?env archived 0 ?page st0 = Some (NoError, st1) \<and>
      ch_contacts st0 = ch_contacts st \<and> ch_contacts st' = ch_contacts st1"
  proof (cases archived)
    case True
    then have "chain_contact_archived ?env conn 0 st = Some (r, st')"
      using assms(1-4) by (auto simp: bx_chain_sync_def Let_def fail_resource_def split: if_splits)
    then obtain st1 r1 st2 where s: "bx_contact_walk_pass ?env True 0 (Ptr (on_validated_page ?env conn BX_CHAIN_CONTACT_ARCHIVED)) st = Some (NoError, st1)"
        "finish_resource ?env conn BX_CHAIN_PROJECT True False False st1 = (r1, st2)" "ch_contacts st' = ch_contacts st2"
      using assms(2)
      by (auto simp: chain_contact_archived_def Let_def fail_resource_def split: bind_splits if_splits prod.splits)
    have "ch_contacts st2 = ch_contacts st1" using finish_caches [OF s(2)] by (simp add: caches_def)
    then show ?thesis using s(1,3) True by (intro exI [of _ st] exI [of _ st1]) simp
  next
    case False
    then have "chain_contact_active ?env conn 0 st = Some (r, st')"
      using assms(1-4) by (auto simp: bx_chain_sync_def Let_def fail_resource_def split: if_splits)
    then obtain st1 r1 st2 where s: "bx_contact_walk_pass ?env False 0 (Ptr (on_validated_page ?env conn BX_CHAIN_CONTACT_ACTIVE))
          (st\<lparr>ch_contact_from_zero := False\<rparr>) = Some (NoError, st1)"
        "finish_resource ?env conn BX_CHAIN_CONTACT_ARCHIVED False False False (st1\<lparr>ch_contact_from_zero := True\<rparr>) = (r1, st2)"
        "st' = st2"
      using assms(2)
      by (auto simp: chain_contact_active_def Let_def fail_resource_def split: bind_splits if_splits prod.splits)
    have "ch_contacts st2 = ch_contacts st1" using finish_caches [OF s(2)] by (simp add: caches_def)
    then show ?thesis using s(1,3) False
      by (intro exI [of _ "st\<lparr>ch_contact_from_zero := False\<rparr>"] exI [of _ st1]) simp
  qed
  then obtain st0 st1 where walk: "bx_contact_walk_pass ?env archived 0 ?page st0 = Some (NoError, st1)"
      "ch_contacts st0 = Ptr c" "ch_contacts st' = ch_contacts st1" using assms(6) by auto
  show ?thesis
    using contact_list.walk_marked [OF assms(5) paths_by_offset(1) walk(1) [unfolded bx_contact_walk_pass_def Let_def] walk(2) assms(7,8) pages]
      walk(3) by simp
qed

lemma contact_next_phase:
  assumes "bx_chain_sync env conn st = Some (r, st')" and "cr_error r = NoError"
    and "cc_phase (ch_cursor st) = BX_CHAIN_CONTACT_ACTIVE"
  shows "ch_cursor st' = \<lparr>cc_phase = BX_CHAIN_CONTACT_ARCHIVED, cc_offset = 0\<rparr>"
proof -
  have "chain_contact_active env conn (cc_offset (ch_cursor st)) st = Some (r, st')"
    using assms by (auto simp: bx_chain_sync_def Let_def fail_resource_def split: if_splits)
  then show ?thesis
    using assms(2)
    by (auto simp: chain_contact_active_def Let_def fail_resource_def finish_resource_def advance_phase_def
        save_cursor_def normalize_cursor_def phases_set split: bind_splits if_splits prod.splits)
qed

section \<open>The pass after the walk\<close>

lemma prune_keeps_fresh:
  assumes "deletes_by_id api t drows" and "id_query t q" and "cache_wf c" and "0 < prune_drift xxh conf"
    and "\<forall>i \<in> A. fresh_id c i"
  shows "\<exists>e c' q' w'. bx_prune_items xxh conf api (Ptr c) (Ptr q) w = Some (e, Ptr c', Ptr q', w') \<and> drows w \<inter> A \<subseteq> drows w'"
proof -
  obtain e c1 q1 w1 where run: "prune_items_loop api (prune_drift xxh conf) (Ptr c) (cache_iter_init (Ptr c)) q w = Some (e, Ptr c1, q1, w1)"
      "cache_wf c1" "drows w - stale c (prune_drift xxh conf) \<subseteq> drows w1"
    using prune_loop_all [OF assms(1-3), of "prune_drift xxh conf" w] by blast
  have "drows w \<inter> A \<subseteq> drows w1" using run(3) fresh_not_stale [OF _ assms(4)] assms(5) by blast
  then show ?thesis
    using run(1) cache_prune_spec [OF run(2)] by (cases e) (auto simp: bx_prune_items_def)
qed

lemma chain_serves:
  fixes env :: "('w, 'z) sync_env_scheme"
  assumes "serves (se_walk env) path_fmt extra rows"
  shows "serves (chain_walk (program_env xxh my env conn)) path_fmt extra rows"
  unfolding serves_def
proof (intro allI)
  fix s :: "'w chain_state" and k
  obtain r where r: "we_request (se_walk env) path_fmt (page_args extra (int k)) (ch_world s) = Some (Ptr r, ch_world s)"
      "as_array (rq_decoded r) = Ptr (take 500 (drop k rows))"
    using assms unfolding serves_def by blast
  then show "\<exists>r. we_request (chain_walk (program_env xxh my env conn)) path_fmt (page_args extra (int k)) s = Some (Ptr r, s) \<and>
      as_array (rq_decoded r) = Ptr (take 500 (drop k rows))"
    by (intro exI [of _ r]) (simp add: chain_walk_def program_env_def on_world_def)
qed

section \<open>Properties\<close>

text \<open>
  C4: a project that the API lists is never deleted by the pass that follows its walk, whatever
  became of it in the walk: when a call of the chain with the handlers of the program asks for the
  pruning of projects, the pass on the cache, the settings and the server it leaves keeps the row
  of every listed project.
\<close>

theorem listed_projects_kept:
  assumes "bx_chain_sync (program_env xxh my env conn) conn st = Some (r, st')" and "cr_prune_project r"
    and "serves (se_walk env) WALK_PROJECT_PATH NULL rows"
    and "ch_projects st = Ptr c" and "within n c" and "n + length rows + 2000 < 2 ^ 32"
    and "deletes_by_id (st_api env) t drows" and "id_query t q" and "0 < prune_drift xxh (ch_conf st')"
  shows "\<exists>e c' q' w'. bx_prune_items xxh (ch_conf st') (st_api env) (ch_projects st') (Ptr q) (ch_world st')
      = Some (e, Ptr c', Ptr q', w') \<and> drows (ch_world st') \<inter> item_id ` set rows \<subseteq> drows w'"
proof -
  obtain c' where c': "ch_projects st' = Ptr c'" "marked (n + length rows) c c' (item_id ` set rows)"
    using project_phase [OF assms(1,2) chain_serves [OF assms(3)] assms(4-6)] by blast
  have "cache_wf c'" "\<forall>i \<in> item_id ` set rows. fresh_id c' i" using c'(2) by (auto simp: marked_def within_def)
  from prune_keeps_fresh [OF assms(7,8) this(1) assms(9) this(2)] show ?thesis by (simp add: c'(1))
qed

text \<open>A list with the project 9, a cache with the projects 4 and 9, and the rows of both.\<close>

definition listed_rows :: "json list" where
  "listed_rows = [JObject [(''id'', JInt 9)]]"

definition listed_env :: "u64 set sync_env" where
  "listed_env = \<lparr>st_api = rows_server, st_digest = (\<lambda>bytes. 1), st_libc = \<lparr>lc_strtod = (\<lambda>s. 0), lc_fmt_e = (\<lambda>v. ''0'')\<rparr>,
     st_time = (\<lambda>w. (0, w)), st_dead = (\<lambda>v. v), se_alloc = (\<lambda>n. True), se_walk = list_env listed_rows, se_countries = NULL\<rparr>"

definition listed_mysql :: "u64 set mysql" where
  "listed_mysql = \<lparr>my_connect = (\<lambda>h u p d w. (True, w)), my_query = (\<lambda>q w. (True, w)), my_select = (\<lambda>q w. (NULL, w)),
     my_execute = (\<lambda>q vs w. (True, w))\<rparr>"

definition listed_cache :: Cache where
  "listed_cache = sample_cache\<lparr>c_version := 4\<rparr>"

definition listed_state :: "BXChainPhase \<Rightarrow> u64 set chain_state" where
  "listed_state phase = \<lparr>ch_cursor = \<lparr>cc_phase = phase, cc_offset = 0\<rparr>, ch_contact_from_zero = False, ch_invoice_from_zero = False,
     ch_conf = [conf_cell 11 (CInteger 1)], ch_contacts = Ptr listed_cache, ch_projects = Ptr listed_cache, ch_invoices = NULL,
     ch_world = {4, 9}\<rparr>"

abbreviation listed_chain :: "u64 set chain_env" where
  "listed_chain \<equiv> program_env (\<lambda>k. of_nat (length k)) listed_mysql listed_env (Ptr ())"

lemma listed_serves: "serves (se_walk listed_env) path_fmt extra listed_rows"
  by (simp add: listed_env_def list_env_serves)

lemma listed_cache_within: "within 2 listed_cache"
  by (simp add: within_def listed_cache_def sample_cache_def cache_wf_def cells_def ids_sorted_def cache_map_def items_map_def entry_def)

lemma listed_item_id: "item_id ` set listed_rows = {9}"
  by (simp add: listed_rows_def item_id_def bx_object_get_json_uint_def json_field_def)

lemmas listed_reads = BX_FIELD_def read_slot_def json_field_def bx_object_get_json_uint_def bx_object_get_json_string_def
  bx_object_get_json_double_def bx_object_get_json_uuid_def

lemma listed_project:
  "bx_project_sync listed_env (Ptr ()) (JObject [(''id'', JInt 9)]) (Ptr listed_cache, w) =
     Some (NoError, Ptr (listed_cache\<lparr>c_items := [\<lparr>ci_id = 4, ci_checksum = 8, ci_last_seen = 2\<rparr>,
       \<lparr>ci_id = 9, ci_checksum = 1, ci_last_seen = 4\<rparr>]\<rparr>), w)"
proof -
  have "\<exists>obj. decode_members listed_env project_fields (JObject [(''id'', JInt 9)]) = Some (obj, 1) \<and> bu_value (uint_member obj ''id'') = 9"
    by (simp add: decode_members_def project_fields_def listed_reads hash_digest_def listed_env_def uint_member_def member_def fname_def Let_def)
  moreover have "cache_check_item (Ptr listed_cache) 9 1 = Some (CacheOk, Ptr (listed_cache\<lparr>c_items := [\<lparr>ci_id = 4, ci_checksum = 8, ci_last_seen = 2\<rparr>,
       \<lparr>ci_id = 9, ci_checksum = 1, ci_last_seen = 4\<rparr>]\<rparr>))"
    by code_simp
  ultimately show ?thesis by (auto simp: bx_project_sync_def)
qed

lemma listed_save:
  "save_cursor listed_chain (Ptr ()) c st = (length (cursor_text c) < 64,
     if length (cursor_text c) < 64
     then st\<lparr>ch_conf := bx_conf_set (\<lambda>k. of_nat (length k)) (ch_conf st) BX_CHAIN_KEY (CString (cursor_text c))\<rparr> else st)"
  by (auto simp: save_cursor_def bx_chain_save_def bx_conf_put_database_conn_def program_env_def listed_mysql_def
      BX_CHAIN_KEY_def is_mysql_name_def is_prefix_def cursor_text_def Let_def)

lemma listed_item:
  "project_page_item listed_chain item st = do {
     (e, c, w) \<leftarrow> bx_project_sync listed_env (Ptr ()) item (ch_projects st, ch_world st);
     Some (e, st\<lparr>ch_projects := c, ch_world := w\<rparr>)
   }"
  by (simp add: project_page_item_def program_env_def)

lemma listed_walk:
  assumes "by_offset path_fmt"
  shows "bx_walk_pages_from (chain_walk listed_chain) path_fmt extra False sync 0 on_page st = walk_rows sync on_page 0 listed_rows st"
  using walk_loop_served [OF chain_serves [OF listed_serves] assms, of _ _ "Ptr ()" extra sync on_page 0 st] assms
  by (simp add: bx_walk_pages_from_def first_offset_def by_offset_def)

lemma dec_500: "dec_int 500 = ''500''" "dec_int 0 = ''0''"
  by code_simp+

theorem listed_projects_kept_witness:
  "\<exists>r st' e c' q' w'. bx_chain_sync listed_chain (Ptr ()) (listed_state BX_CHAIN_PROJECT) = Some (r, st') \<and>
     bx_prune_items (\<lambda>k. of_nat (length k)) (ch_conf st') (st_api listed_env) (ch_projects st') (Ptr sample_query) (ch_world st')
       = Some (e, Ptr c', Ptr q', w') \<and> 9 \<in> w'"
proof -
  have stored: "cursor_text \<lparr>cc_phase = BX_CHAIN_PROJECT, cc_offset = 500\<rparr> = ''project:500''"
      "cursor_text \<lparr>cc_phase = BX_CHAIN_INVOICE_LIST, cc_offset = 0\<rparr> = ''invoice-list:0''"
    by (simp_all add: cursor_text_def bx_chain_phase_name_def dec_500)
  have "\<exists>r st'. bx_chain_sync listed_chain (Ptr ()) (listed_state BX_CHAIN_PROJECT) = Some (r, st') \<and> cr_prune_project r \<and>
      ch_world st' = {4, 9} \<and> bx_conf_get_int (\<lambda>k. of_nat (length k)) (ch_conf st') ''prune-drift'' = 1"
    by (simp add: bx_chain_sync_def listed_state_def chain_project_def bx_project_walk_item_from_def listed_walk paths_by_offset
        walk_rows.simps listed_rows_def listed_item listed_project on_validated_page_def INT_MAX_def
        checkpoint_def normalize_cursor_def phases_set listed_save stored finish_resource_def
        advance_phase_def Let_def conf_read_simps BX_CHAIN_KEY_def)
  then obtain r st' where s: "bx_chain_sync listed_chain (Ptr ()) (listed_state BX_CHAIN_PROJECT) = Some (r, st')" "cr_prune_project r"
      "ch_world st' = {4, 9}" "0 < prune_drift (\<lambda>k. of_nat (length k)) (ch_conf st')" by (auto simp: prune_drift_def)
  have api: "deletes_by_id (st_api listed_env) ''D?'' (\<lambda>w. w)" by (simp add: listed_env_def rows_server_deletes)
  have c: "ch_projects (listed_state BX_CHAIN_PROJECT) = Ptr listed_cache" by (simp add: listed_state_def)
  have room: "2 + length listed_rows + 2000 < 2 ^ 32" by (simp add: listed_rows_def)
  from listed_projects_kept [OF s(1,2) listed_serves c listed_cache_within room api sample_query_id s(4)] show ?thesis
    using s(1,3) by (auto simp: listed_item_id)
qed

text \<open>
  C10: contacts are walked by two calls of the chain, the active and the archived ones. When both
  start at the first page and succeed, the pass the second one asks for keeps the row of every
  contact that either list has, whatever became of it in the walks, such as a contact that was
  skipped because its user is missing.
\<close>

theorem listed_contacts_kept:
  assumes "bx_chain_sync (program_env xxh my env conn) conn st = Some (r1, st1)"
    and "cr_error r1 = NoError" and "ch_cursor st = \<lparr>cc_phase = BX_CHAIN_CONTACT_ACTIVE, cc_offset = 0\<rparr>"
    and "bx_chain_sync (program_env xxh my env conn) conn st1 = Some (r2, st2)" and "cr_error r2 = NoError"
    and "serves (se_walk env) WALK_CONTACT_PATH (Ptr (ABool \<lparr>bb_isset = True, bb_value = False\<rparr>)) active"
    and "serves (se_walk env) WALK_CONTACT_PATH (Ptr (ABool \<lparr>bb_isset = True, bb_value = True\<rparr>)) archived"
    and "ch_contacts st = Ptr c" and "within n c" and "n + length active + length archived + 2000 < 2 ^ 32"
    and "deletes_by_id (st_api env) t drows" and "id_query t q" and "0 < prune_drift xxh (ch_conf st2)"
  shows "\<exists>e c' q' w'. bx_prune_items xxh (ch_conf st2) (st_api env) (ch_contacts st2) (Ptr q) (ch_world st2)
      = Some (e, Ptr c', Ptr q', w') \<and> drows (ch_world st2) \<inter> item_id ` (set active \<union> set archived) \<subseteq> drows w'"
proof -
  have active: "cc_phase (ch_cursor st) = (if False then BX_CHAIN_CONTACT_ARCHIVED else BX_CHAIN_CONTACT_ACTIVE)"
      "cc_offset (ch_cursor st) = 0" "n + length active + 2000 < 2 ^ 32" using assms(3,10) by simp_all
  obtain c1 where c1: "ch_contacts st1 = Ptr c1" "marked (n + length active) c c1 (item_id ` set active)"
    using contact_phase [OF assms(1,2) active(1,2) chain_serves [OF assms(6)] assms(8,9) active(3)] by blast
  have next_phase: "cc_phase (ch_cursor st1) = (if True then BX_CHAIN_CONTACT_ARCHIVED else BX_CHAIN_CONTACT_ACTIVE)"
      "cc_offset (ch_cursor st1) = 0"
    using contact_next_phase [OF assms(1,2)] assms(3) by simp_all
  obtain c2 where c2: "ch_contacts st2 = Ptr c2" "marked (n + length active + length archived) c1 c2 (item_id ` set archived)"
    using contact_phase [OF assms(4,5) next_phase chain_serves [OF assms(7)] c1(1) marked_within [OF c1(2)] assms(10)] by blast
  have "cache_wf c2" "\<forall>i \<in> item_id ` (set active \<union> set archived). fresh_id c2 i"
    using marked_trans [OF c1(2) c2(2)] by (auto simp: marked_def within_def image_Un)
  from prune_keeps_fresh [OF assms(11,12) this(1) assms(13) this(2)] show ?thesis by (simp add: c2(1))
qed

definition seen_cache :: Cache where
  "seen_cache = listed_cache\<lparr>c_items := [\<lparr>ci_id = 4, ci_checksum = 8, ci_last_seen = 2\<rparr>,
     \<lparr>ci_id = 9, ci_checksum = 1, ci_last_seen = 4\<rparr>]\<rparr>"

lemma listed_contact:
  assumes "c = listed_cache \<or> c = seen_cache"
  shows "bx_contact_sync listed_env (Ptr ()) (JObject [(''id'', JInt 9)]) archived (Ptr c, w) = Some (NoError, Ptr seen_cache, w)"
proof -
  have "\<exists>obj. decode_members listed_env contact_fields (JObject [(''id'', JInt 9)]) = Some (obj, 1) \<and> bu_value (uint_member obj ''id'') = 9"
    by (simp add: decode_members_def contact_fields_def listed_reads hash_digest_def listed_env_def uint_member_def member_def fname_def Let_def)
  moreover have "cache_check_item (Ptr listed_cache) 9 1 = Some (CacheOk, Ptr seen_cache)"
      "cache_check_item (Ptr seen_cache) 9 1 = Some (CacheOk, Ptr seen_cache)"
    by code_simp+
  ultimately show ?thesis using assms by (auto simp: bx_contact_sync_def)
qed

lemma listed_contact_item:
  "contact_page_item listed_chain archived item st = do {
     (e, c, w) \<leftarrow> bx_contact_sync listed_env (Ptr ()) item archived (ch_contacts st, ch_world st);
     Some (if e = ErrorSQLReconnect then e else NoError, st\<lparr>ch_contacts := c, ch_world := w\<rparr>)
   }"
  by (simp add: contact_page_item_def program_env_def)

lemma listed_contacts_run:
  "\<exists>r1 st1 r2 st2. bx_chain_sync listed_chain (Ptr ()) (listed_state BX_CHAIN_CONTACT_ACTIVE) = Some (r1, st1) \<and> cr_error r1 = NoError \<and>
     bx_chain_sync listed_chain (Ptr ()) st1 = Some (r2, st2) \<and> cr_error r2 = NoError \<and> ch_world st2 = {4, 9} \<and>
     bx_conf_get_int (\<lambda>k. of_nat (length k)) (ch_conf st2) ''prune-drift'' = 1"
proof -
  have stored: "cursor_text \<lparr>cc_phase = BX_CHAIN_CONTACT_ACTIVE, cc_offset = 500\<rparr> = ''contact-active:500''"
      "cursor_text \<lparr>cc_phase = BX_CHAIN_CONTACT_ARCHIVED, cc_offset = 500\<rparr> = ''contact-archived:500''"
      "cursor_text \<lparr>cc_phase = BX_CHAIN_CONTACT_ARCHIVED, cc_offset = 0\<rparr> = ''contact-archived:0''"
      "cursor_text \<lparr>cc_phase = BX_CHAIN_PROJECT, cc_offset = 0\<rparr> = ''project:0''"
    by (simp_all add: cursor_text_def bx_chain_phase_name_def dec_500)
  show ?thesis
    by (simp add: bx_chain_sync_def listed_state_def chain_contact_active_def chain_contact_archived_def bx_contact_walk_pass_def
        listed_walk paths_by_offset walk_rows.simps listed_rows_def listed_contact_item listed_contact on_validated_page_def INT_MAX_def
        checkpoint_def normalize_cursor_def phases_set listed_save stored finish_resource_def advance_phase_def Let_def
        conf_read_simps BX_CHAIN_KEY_def)
qed

theorem listed_contacts_kept_witness:
  "\<exists>r1 st1 r2 st2 e c' q' w'. bx_chain_sync listed_chain (Ptr ()) (listed_state BX_CHAIN_CONTACT_ACTIVE) = Some (r1, st1) \<and>
     bx_chain_sync listed_chain (Ptr ()) st1 = Some (r2, st2) \<and>
     bx_prune_items (\<lambda>k. of_nat (length k)) (ch_conf st2) (st_api listed_env) (ch_contacts st2) (Ptr sample_query) (ch_world st2)
       = Some (e, Ptr c', Ptr q', w') \<and> 9 \<in> w'"
proof -
  obtain r1 st1 r2 st2 where s: "bx_chain_sync listed_chain (Ptr ()) (listed_state BX_CHAIN_CONTACT_ACTIVE) = Some (r1, st1)"
      "cr_error r1 = NoError" "bx_chain_sync listed_chain (Ptr ()) st1 = Some (r2, st2)" "cr_error r2 = NoError" "ch_world st2 = {4, 9}"
      "0 < prune_drift (\<lambda>k. of_nat (length k)) (ch_conf st2)"
    using listed_contacts_run by (auto simp: prune_drift_def)
  have api: "deletes_by_id (st_api listed_env) ''D?'' (\<lambda>w. w)" by (simp add: listed_env_def rows_server_deletes)
  have start: "ch_cursor (listed_state BX_CHAIN_CONTACT_ACTIVE) = \<lparr>cc_phase = BX_CHAIN_CONTACT_ACTIVE, cc_offset = 0\<rparr>"
      "ch_contacts (listed_state BX_CHAIN_CONTACT_ACTIVE) = Ptr listed_cache" by (simp_all add: listed_state_def)
  have room: "2 + length listed_rows + length listed_rows + 2000 < 2 ^ 32" by (simp add: listed_rows_def)
  from listed_contacts_kept [OF s(1,2) start(1) s(3,4) listed_serves listed_serves start(2) listed_cache_within room api sample_query_id s(6)]
  show ?thesis using s(1,3,5) by (auto simp: listed_item_id)
qed

end
