(* ===== verification/Bx_Main.thy ===== *)
theory Bx_Main
  imports Bx_File Bx_Listing
begin

text \<open>
  The threads that keep the database in step with the API, \<open>src/src/main.c\<close>: connections and
  their loss, the first filling of the caches, one turn of each thread and the loop around it, and
  the lookups loaded at the start. The environment has the calls of the database library, the
  flags of the request queue and the sleeps. A connection is the address of its object; \<open>None\<close> is an
  access through a null pointer, or a wait that never ends. The turns of different threads share
  only the database, the settings and the request queue, and are modelled one thread at a time.
\<close>

record 'w main_env =
  mn_sync :: "'w sync_env"
  mn_file :: "'w file_api"
  mn_raw :: "'w walk_env"
  mn_mysql :: "'w mysql"
  mn_xxh :: "string \<Rightarrow> u64"
  mn_init :: "'w \<Rightarrow> nat ptr \<times> 'w"
  mn_connect :: "string ptr \<Rightarrow> string ptr \<Rightarrow> string ptr \<Rightarrow> string ptr \<Rightarrow> 'w \<Rightarrow> bool \<times> 'w"
  mn_close :: "nat \<Rightarrow> 'w \<Rightarrow> 'w"
  mn_ping :: "nat \<Rightarrow> 'w \<Rightarrow> (bool \<times> nat) \<times> 'w"
  mn_run :: "'w \<Rightarrow> bool \<times> 'w"
  mn_standby :: "'w \<Rightarrow> bool \<times> 'w"
  mn_sleep :: "'w \<Rightarrow> 'w"

definition BXILL_THREAD_EXIT_MAX_COUNT :: int where
  "BXILL_THREAD_EXIT_MAX_COUNT = 10"

definition handle_of :: "nat ptr \<Rightarrow> unit ptr" where
  "handle_of conn = (case conn of NULL \<Rightarrow> NULL | Ptr a \<Rightarrow> Ptr ())"

section \<open>Connections\<close>

definition thread_setup_mysql :: "'w main_env \<Rightarrow> BXConf \<Rightarrow> 'w \<Rightarrow> nat ptr \<times> 'w" where
  "thread_setup_mysql env conf w =
     (let setting = bx_conf_get_string (mn_xxh env) conf in
      case mn_init env w of
        (NULL, w1) \<Rightarrow> (NULL, w1)
      | (Ptr a, w1) \<Rightarrow>
          (case mn_connect env (setting ''mysql-host'') (setting ''mysql-user'') (setting ''mysql-password'')
                  (setting ''mysql-database'') w1 of
             (False, w2) \<Rightarrow> (NULL, mn_close env a w2)
           | (True, w2) \<Rightarrow> (Ptr a, w2)))"

definition thread_teardown_mysql :: "'w main_env \<Rightarrow> nat ptr \<Rightarrow> 'w \<Rightarrow> 'w" where
  "thread_teardown_mysql env conn w = (case conn of NULL \<Rightarrow> w | Ptr a \<Rightarrow> mn_close env a w)"

text \<open>The number of the previous connection is logged, so a null pointer is read through.\<close>

definition thread_reconnect :: "'w main_env \<Rightarrow> BXConf \<Rightarrow> nat ptr \<Rightarrow> 'w \<Rightarrow> (nat ptr \<times> 'w) option" where
  "thread_reconnect env conf conn w =
     (case conn of
        NULL \<Rightarrow> None
      | Ptr a \<Rightarrow> Some (thread_setup_mysql env conf (thread_teardown_mysql env conn w)))"

definition lookup_step :: "'w main_env \<Rightarrow> BXConf \<Rightarrow> nat ptr \<Rightarrow> BXillError \<Rightarrow> 'w \<Rightarrow> (nat ptr \<times> 'w) option" where
  "lookup_step env conf conn e w =
     (if e = NoError \<or> conn = NULL then Some (conn, w)
      else if e = ErrorSQLReconnect then thread_reconnect env conf conn w
      else Some (conn, w))"

definition ping_lost :: "'w main_env \<Rightarrow> nat ptr \<Rightarrow> 'w \<Rightarrow> bool \<times> 'w" where
  "ping_lost env conn w =
     (case conn of
        NULL \<Rightarrow> (False, w)
      | Ptr a \<Rightarrow> (case mn_ping env a w of ((ok, errno), w1) \<Rightarrow> (\<not> ok \<and> lost_connection errno, w1)))"

definition thread_handle_error :: "'w main_env \<Rightarrow> BXConf \<Rightarrow> BXillError \<Rightarrow> nat ptr \<Rightarrow> 'w \<Rightarrow> ((bool \<times> nat ptr) \<times> 'w) option" where
  "thread_handle_error env conf e conn w =
     (if e = NoError then Some ((True, conn), w)
      else
        (case ping_lost env conn w of
           (lost, w1) \<Rightarrow>
             if e = ErrorSQLReconnect \<or> lost then do {
               (conn1, w2) \<leftarrow> thread_reconnect env conf conn w1;
               Some ((conn1 \<noteq> NULL, conn1), w2)
             }
             else Some ((False, conn), mn_sleep env w1)))"

definition rebuild_prune_query :: "string \<Rightarrow> (bool \<times> BXDatabaseQuery ptr) option" where
  "rebuild_prune_query sql = do {
     query \<leftarrow> bx_database_new_query sql;
     Some (query \<noteq> NULL, query)
   }"

text \<open>A cache that cannot be filled stays empty; only a connection that cannot be made again is a failure.\<close>

definition hydrate_cache :: "'w main_env \<Rightarrow> BXConf \<Rightarrow> nat ptr \<Rightarrow> Cache ptr \<Rightarrow> string \<Rightarrow> 'w
    \<Rightarrow> ((bool \<times> nat ptr \<times> Cache ptr) \<times> 'w) option" where
  "hydrate_cache env conf conn cache sql w = do {
     query \<leftarrow> bx_database_new_query sql;
     (e, cache1, _, w1) \<leftarrow> bx_cache_hydrate (se_alloc (mn_sync env)) (st_api (mn_sync env)) cache query w;
     if e = ErrorSQLReconnect then do {
       (conn1, w2) \<leftarrow> thread_reconnect env conf conn w1;
       Some ((conn1 \<noteq> NULL, conn1, cache1), w2)
     }
     else Some ((True, conn, cache1), w1)
   }"

section \<open>The loop of a thread\<close>

partial_function (option) wait_standby :: "'w main_env \<Rightarrow> 'w \<Rightarrow> 'w option" where
  "wait_standby env w =
     (case mn_standby env w of (standby, w1) \<Rightarrow> if standby then wait_standby env (mn_sleep env w1) else Some w1)"

text \<open>One turn of a thread says whether the loop goes on; the thread ends with 0 when it is told to stop.\<close>

partial_function (option) thread_loop :: "('s \<Rightarrow> bool \<times> 's) \<Rightarrow> ('s \<Rightarrow> (bool \<times> 's) option) \<Rightarrow> 's \<Rightarrow> (nat \<times> 's) option" where
  "thread_loop running turn s =
     (case running s of
        (run, s1) \<Rightarrow>
          if \<not> run then Some (0, s1)
          else do {
            (go, s2) \<leftarrow> turn s1;
            if go then thread_loop running turn s2 else Some (1, s2)
          })"

text \<open>Does the thread go on, and its number of failed turns in a row.\<close>

definition count_error :: "bool \<Rightarrow> int \<Rightarrow> bool \<times> int" where
  "count_error handled n = (if handled then (True, 0) else (n \<le> BXILL_THREAD_EXIT_MAX_COUNT, n + 1))"

section \<open>Contacts, projects and invoices\<close>

record 'w chain_thread_state =
  ct_chain :: "'w chain_state"
  ct_conn :: "nat ptr"
  ct_contact_prune :: "BXDatabaseQuery ptr"
  ct_project_prune :: "BXDatabaseQuery ptr"
  ct_invoice_prune :: "BXDatabaseQuery ptr"
  ct_errors :: int

definition contact_delete :: string where
  "contact_delete = ''DELETE FROM contact WHERE id = :id''"

definition project_delete :: string where
  "project_delete = ''DELETE FROM pr_project WHERE id = :id''"

definition invoice_delete :: string where
  "invoice_delete = ''DELETE FROM invoice WHERE id = :id''"

definition prune_if :: "'w main_env \<Rightarrow> BXConf \<Rightarrow> bool \<Rightarrow> BXillError \<Rightarrow> Cache ptr \<Rightarrow> BXDatabaseQuery ptr \<Rightarrow> 'w
    \<Rightarrow> (BXillError \<times> Cache ptr \<times> BXDatabaseQuery ptr \<times> 'w) option" where
  "prune_if env conf asked e cache query w =
     (if e = NoError \<and> asked then bx_prune_items (mn_xxh env) conf (st_api (mn_sync env)) cache query w
      else Some (e, cache, query, w))"

definition prune_all :: "'w main_env \<Rightarrow> BXChainResult \<Rightarrow> 'w chain_thread_state \<Rightarrow> (BXillError \<times> 'w chain_thread_state) option" where
  "prune_all env cr st = do {
     let ch = ct_chain st;
     (e1, cc, cq, w1) \<leftarrow> prune_if env (ch_conf ch) (cr_prune_contact cr) (cr_error cr) (ch_contacts ch) (ct_contact_prune st) (ch_world ch);
     (e2, pc, pq, w2) \<leftarrow> prune_if env (ch_conf ch) (cr_prune_project cr) e1 (ch_projects ch) (ct_project_prune st) w1;
     (e3, ic, iq, w3) \<leftarrow> prune_if env (ch_conf ch) (cr_prune_invoice cr) e2 (ch_invoices ch) (ct_invoice_prune st) w2;
     Some (e3, st\<lparr>ct_chain := ch\<lparr>ch_contacts := cc, ch_projects := pc, ch_invoices := ic, ch_world := w3\<rparr>,
       ct_contact_prune := cq, ct_project_prune := pq, ct_invoice_prune := iq\<rparr>)
   }"

text \<open>The queries of a new connection, up to the first that cannot be made.\<close>

definition rebuild_queries :: "'w chain_thread_state \<Rightarrow> (bool \<times> 'w chain_thread_state) option" where
  "rebuild_queries st = do {
     (ok1, q1) \<leftarrow> rebuild_prune_query contact_delete;
     let st1 = st\<lparr>ct_contact_prune := q1\<rparr>;
     if \<not> ok1 then Some (False, st1)
     else do {
       (ok2, q2) \<leftarrow> rebuild_prune_query project_delete;
       let st2 = st1\<lparr>ct_project_prune := q2\<rparr>;
       if \<not> ok2 then Some (False, st2)
       else do {
         (ok3, q3) \<leftarrow> rebuild_prune_query invoice_delete;
         Some (ok3, st2\<lparr>ct_invoice_prune := q3\<rparr>)
       }
     }
   }"

definition bump_if :: "bool \<Rightarrow> Cache ptr \<Rightarrow> Cache ptr option" where
  "bump_if asked cache = (if asked then cache_next_version cache else Some cache)"

definition bump_caches :: "BXChainResult \<Rightarrow> 'w chain_thread_state \<Rightarrow> 'w chain_thread_state option" where
  "bump_caches cr st = do {
     let ch = ct_chain st;
     cc \<leftarrow> bump_if (cr_bump_contact cr) (ch_contacts ch);
     pc \<leftarrow> bump_if (cr_bump_project cr) (ch_projects ch);
     ic \<leftarrow> bump_if (cr_bump_invoice cr) (ch_invoices ch);
     Some (st\<lparr>ct_chain := ch\<lparr>ch_contacts := cc, ch_projects := pc, ch_invoices := ic\<rparr>\<rparr>)
   }"

text \<open>What follows the synchronisation of a turn: is the thread to go on?\<close>

definition after_sync :: "'w main_env \<Rightarrow> BXillError \<Rightarrow> 'w chain_thread_state \<Rightarrow> (bool \<times> 'w chain_thread_state) option" where
  "after_sync env e st = do {
     let ch = ct_chain st;
     ((handled, conn), w) \<leftarrow> thread_handle_error env (ch_conf ch) e (ct_conn st) (ch_world ch);
     let (go, n) = count_error handled (ct_errors st);
     let st1 = st\<lparr>ct_chain := ch\<lparr>ch_world := w\<rparr>, ct_conn := conn, ct_errors := n\<rparr>;
     if handled \<and> conn \<noteq> ct_conn st then rebuild_queries st1 else Some (go, st1)
   }"

definition chain_turn :: "'w main_env \<Rightarrow> 'w chain_thread_state \<Rightarrow> (bool \<times> 'w chain_thread_state) option" where
  "chain_turn env st = do {
     w \<leftarrow> wait_standby env (ch_world (ct_chain st));
     let conn = handle_of (ct_conn st);
     (cr, ch) \<leftarrow> bx_chain_sync (program_env (mn_xxh env) (mn_mysql env) (mn_sync env) conn) conn ((ct_chain st)\<lparr>ch_world := w\<rparr>);
     (e, st1) \<leftarrow> prune_all env cr (st\<lparr>ct_chain := ch\<rparr>);
     (go, st2) \<leftarrow> after_sync env e st1;
     if \<not> go then Some (False, st2)
     else do {
       st3 \<leftarrow> bump_caches cr st2;
       Some (True, if e = NoError \<and> cr_pause cr
                   then st3\<lparr>ct_chain := (ct_chain st3)\<lparr>ch_world := mn_sleep env (ch_world (ct_chain st3))\<rparr>\<rparr> else st3)
     }
   }"

definition chain_running :: "'w main_env \<Rightarrow> 'w chain_thread_state \<Rightarrow> bool \<times> 'w chain_thread_state" where
  "chain_running env st =
     (case mn_run env (ch_world (ct_chain st)) of
        (run, w) \<Rightarrow> (run, st\<lparr>ct_chain := (ct_chain st)\<lparr>ch_world := w\<rparr>\<rparr>))"

text \<open>
  The start: the connection, the caches, the languages and the queries of the pruning passes. A
  start that fails ends the thread.
\<close>

definition chain_thread_start :: "'w main_env \<Rightarrow> 'w chain_state \<Rightarrow> ('w chain_thread_state ptr \<times> 'w) option" where
  "chain_thread_start env ch = (
     let alloc = se_alloc (mn_sync env); conf = ch_conf ch in
     case thread_setup_mysql env conf (ch_world ch) of
       (NULL, w) \<Rightarrow> Some (NULL, w)
     | (Ptr a, w) \<Rightarrow>
         let cc = cache_create alloc; pc = cache_create alloc; ic = cache_create alloc in
         if cc = NULL \<or> pc = NULL \<or> ic = NULL then Some (NULL, thread_teardown_mysql env (Ptr a) w)
         else do {
           ((ok1, conn1, cc1), w1) \<leftarrow> hydrate_cache env conf (Ptr a) cc ''SELECT id, _checksum FROM contact'' w;
           if \<not> ok1 then Some (NULL, w1)
           else do {
             ((ok2, conn2, pc1), w2) \<leftarrow> hydrate_cache env conf conn1 pc ''SELECT id, _checksum FROM pr_project'' w1;
             if \<not> ok2 then Some (NULL, w2)
             else do {
               ((ok3, conn3, ic1), w3) \<leftarrow> hydrate_cache env conf conn2 ic ''SELECT id, _checksum FROM invoice'' w2;
               if \<not> ok3 then Some (NULL, w3)
               else do {
                 (e, w4) \<leftarrow> bx_language_load (mn_sync env) (se_walk (mn_sync env)) w3;
                 (conn4, w5) \<leftarrow> (if e = ErrorSQLReconnect then thread_reconnect env conf conn3 w4 else Some (conn3, w4));
                 if conn4 = NULL then Some (NULL, w5)
                 else do {
                   cq \<leftarrow> bx_database_new_query contact_delete;
                   pq \<leftarrow> bx_database_new_query project_delete;
                   iq \<leftarrow> bx_database_new_query invoice_delete;
                   Some (Ptr \<lparr>ct_chain = ch\<lparr>ch_contacts := cc1, ch_projects := pc1, ch_invoices := ic1, ch_world := w5\<rparr>,
                     ct_conn = conn4, ct_contact_prune = cq, ct_project_prune = pq, ct_invoice_prune = iq, ct_errors = 0\<rparr>, w5)
                 }
               }
             }
           }
         })"

definition chain_thread :: "'w main_env \<Rightarrow> 'w chain_state \<Rightarrow> (nat \<times> 'w) option" where
  "chain_thread env ch = do {
     (start, w) \<leftarrow> chain_thread_start env ch;
     (case start of
        NULL \<Rightarrow> Some (1, w)
      | Ptr st \<Rightarrow> do {
          (code, st1) \<leftarrow> thread_loop (chain_running env) (chain_turn env) st;
          Some (code, thread_teardown_mysql env (ct_conn st1) (ch_world (ct_chain st1)))
        })
   }"

section \<open>Files\<close>

text \<open>\<open>bx_walk_pages_from\<close> returns at once with \<open>e\<close> when there is no connection.\<close>

definition when_connected :: "BXillError \<Rightarrow> (unit ptr \<Rightarrow> 'w handler) \<Rightarrow> unit ptr \<Rightarrow> 'w handler" where
  "when_connected e f conn w = (if conn = NULL then Some (e, w) else f conn w)"

record 'w file_thread_state =
  ft_cache :: "Cache ptr"
  ft_conn :: "nat ptr"
  ft_prune :: "BXDatabaseQuery ptr"
  ft_errors :: int
  ft_world :: 'w

definition file_delete :: string where
  "file_delete = ''DELETE FROM bx_file WHERE id = :id''"

definition file_turn :: "'w main_env \<Rightarrow> BXConf \<Rightarrow> 'w file_thread_state \<Rightarrow> (bool \<times> 'w file_thread_state) option" where
  "file_turn env conf st = do {
     w \<leftarrow> wait_standby env (ft_world st);
     (e, cache1, w1) \<leftarrow> when_connected ErrorGeneric
       (\<lambda>conn. bx_file_walk_items (mn_xxh env) conf (mn_sync env) (mn_file env) (mn_raw env)) (handle_of (ft_conn st)) (ft_cache st, w);
     (e1, cache2, q1, w2) \<leftarrow> prune_if env conf True e cache1 (ft_prune st) w1;
     ((handled, conn), w3) \<leftarrow> thread_handle_error env conf e1 (ft_conn st) w2;
     let (go, n) = count_error handled (ft_errors st);
     (ok, q2) \<leftarrow> (if handled \<and> conn \<noteq> ft_conn st then rebuild_prune_query file_delete else Some (go, q1));
     let st1 = \<lparr>ft_cache = cache2, ft_conn = conn, ft_prune = q2, ft_errors = n, ft_world = w3\<rparr>;
     if \<not> ok then Some (False, st1)
     else do {
       cache3 \<leftarrow> cache_next_version cache2;
       Some (True, st1\<lparr>ft_cache := cache3, ft_world := mn_sleep env w3\<rparr>)
     }
   }"

definition file_thread :: "'w main_env \<Rightarrow> BXConf \<Rightarrow> 'w \<Rightarrow> (nat \<times> 'w) option" where
  "file_thread env conf w = (
     case thread_setup_mysql env conf w of
       (NULL, w1) \<Rightarrow> Some (1, w1)
     | (Ptr a, w1) \<Rightarrow>
         let cache = cache_create (se_alloc (mn_sync env)) in
         if cache = NULL then Some (1, thread_teardown_mysql env (Ptr a) w1)
         else do {
           ((ok, conn, cache1), w2) \<leftarrow> hydrate_cache env conf (Ptr a) cache ''SELECT id, _checksum FROM bx_file'' w1;
           if \<not> ok then Some (1, w2)
           else do {
             query \<leftarrow> bx_database_new_query file_delete;
             (code, st) \<leftarrow> thread_loop
                (\<lambda>st. case mn_run env (ft_world st) of (run, w) \<Rightarrow> (run, st\<lparr>ft_world := w\<rparr>)) (file_turn env conf)
                \<lparr>ft_cache = cache1, ft_conn = conn, ft_prune = query, ft_errors = 0, ft_world = w2\<rparr>;
             Some (code, thread_teardown_mysql env (ft_conn st) (ft_world st))
           }
         })"

section \<open>Taxes, records and sales documents; sectors\<close>

record 'w plain_thread_state =
  pt_conn :: "nat ptr"
  pt_errors :: int
  pt_world :: 'w

text \<open>A turn without a connection is left to the walks, see \<open>when_connected\<close>.\<close>

definition plain_turn :: "'w main_env \<Rightarrow> BXConf \<Rightarrow> (unit ptr \<Rightarrow> 'w handler) \<Rightarrow> 'w plain_thread_state
    \<Rightarrow> (bool \<times> 'w plain_thread_state) option" where
  "plain_turn env conf work st = do {
     w \<leftarrow> wait_standby env (pt_world st);
     (e, w1) \<leftarrow> work (handle_of (pt_conn st)) w;
     ((handled, conn), w2) \<leftarrow> thread_handle_error env conf e (pt_conn st) w1;
     let (go, n) = count_error handled (pt_errors st);
     Some (go, \<lparr>pt_conn = conn, pt_errors = n, pt_world = if go then mn_sleep env w2 else w2\<rparr>)
   }"

definition plain_thread :: "'w main_env \<Rightarrow> BXConf \<Rightarrow> (unit ptr \<Rightarrow> 'w handler) \<Rightarrow> 'w \<Rightarrow> (nat \<times> 'w) option" where
  "plain_thread env conf work w = (
     case thread_setup_mysql env conf w of
       (NULL, w1) \<Rightarrow> Some (1, w1)
     | (Ptr a, w1) \<Rightarrow> do {
         (code, st) \<leftarrow> thread_loop (\<lambda>st. case mn_run env (pt_world st) of (run, w) \<Rightarrow> (run, st\<lparr>pt_world := w\<rparr>))
            (plain_turn env conf work) \<lparr>pt_conn = Ptr a, pt_errors = 0, pt_world = w1\<rparr>;
         Some (code, thread_teardown_mysql env (pt_conn st) (pt_world st))
       })"

text \<open>A later error replaces an earlier one; a lost connection ends the turn.\<close>

definition and_then :: "(unit ptr \<Rightarrow> 'w handler) \<Rightarrow> (unit ptr \<Rightarrow> 'w handler) \<Rightarrow> unit ptr \<Rightarrow> 'w handler" where
  "and_then f g conn w = do {
     (e, w1) \<leftarrow> f conn w;
     if e = ErrorSQLReconnect then Some (e, w1)
     else do {
       (r, w2) \<leftarrow> g conn w1;
       Some (if r \<noteq> NoError then r else e, w2)
     }
   }"

text \<open>The walks of the taxes ask for nothing without a connection, and those of the others go on to their end.\<close>

definition random_items :: "'w main_env \<Rightarrow> unit ptr \<Rightarrow> 'w handler" where
  "random_items env =
     (let walk = se_walk (mn_sync env) in
      and_then (and_then (when_connected ErrorGeneric (\<lambda>conn. bx_taxes_walk_item (mn_sync env) walk))
          (when_connected NoError (bx_records_walk_more (mn_sync env) walk)))
        (when_connected NoError (bx_kb_sales_walk_items (mn_sync env) walk)))"

definition random_item_thread :: "'w main_env \<Rightarrow> BXConf \<Rightarrow> 'w \<Rightarrow> (nat \<times> 'w) option" where
  "random_item_thread env conf = plain_thread env conf (random_items env)"

definition contact_sector_thread :: "'w main_env \<Rightarrow> BXConf \<Rightarrow> 'w \<Rightarrow> (nat \<times> 'w) option" where
  "contact_sector_thread env conf =
     plain_thread env conf (bx_contact_sector_walk_items (mn_sync env) (se_walk (mn_sync env)))"

section \<open>The lookups\<close>

text \<open>They are loaded one after the other, while there is a connection.\<close>

fun load_lookups :: "'w main_env \<Rightarrow> BXConf \<Rightarrow> (unit ptr \<Rightarrow> 'w handler) list \<Rightarrow> nat ptr \<Rightarrow> 'w \<Rightarrow> (nat ptr \<times> 'w) option" where
  "load_lookups env conf [] conn w = Some (conn, w)"
| "load_lookups env conf (f # fs) conn w =
     (if conn = NULL then Some (conn, w)
      else do {
        (e, w1) \<leftarrow> f (handle_of conn) w;
        (conn1, w2) \<leftarrow> lookup_step env conf conn e w1;
        load_lookups env conf fs conn1 w2
      })"

definition lookups :: "'w main_env \<Rightarrow> (unit ptr \<Rightarrow> 'w handler) list" where
  "lookups env =
     (let s = mn_sync env; walk = se_walk s in
      [bx_unit_walk_items s walk, \<lambda>conn. bx_account_walk_items s walk, bx_salutation_walk_items s walk,
       bx_title_walk_items s walk, bx_payment_type_walk_items s walk, \<lambda>conn. bx_currency_walk_items s walk,
       bx_contact_group_walk_items s walk, \<lambda>conn. bx_language_load s walk, bx_lookups_walk_more s walk,
       bx_user_walk_items s walk])"

definition bootstrap :: "'w main_env \<Rightarrow> BXConf \<Rightarrow> 'w \<Rightarrow> 'w option" where
  "bootstrap env conf w = do {
     let (conn, w1) = thread_setup_mysql env conf w;
     (conn1, w2) \<leftarrow> load_lookups env conf (lookups env) conn w1;
     Some (thread_teardown_mysql env conn1 w2)
   }"

text \<open>\<open>None\<close> is the message on how to call the program.\<close>

definition parse_args :: "string list \<Rightarrow> (bool \<times> string) option" where
  "parse_args args =
     (case args of
        [] \<Rightarrow> None
      | a # rest \<Rightarrow> if a = ''--login'' then (case rest of [] \<Rightarrow> None | path # _ \<Rightarrow> Some (True, path)) else Some (False, a))"

section \<open>A lost connection\<close>

text \<open>A turn without a connection fails, sleeps, and leaves everything but the number of failures alone.\<close>

definition idle :: "'w main_env \<Rightarrow> bool" where
  "idle env \<longleftrightarrow> (\<forall>w. \<not> fst (mn_standby env w)) \<and> (\<forall>w. fst (mn_run env w))"

definition same_progress :: "'w chain_thread_state \<Rightarrow> 'w chain_thread_state \<Rightarrow> bool" where
  "same_progress st st' \<longleftrightarrow> (\<exists>w n. st' = st\<lparr>ct_chain := (ct_chain st)\<lparr>ch_world := w\<rparr>, ct_errors := n\<rparr>)"

lemma same_progress_trans: "same_progress st st1 \<Longrightarrow> same_progress st1 st2 \<Longrightarrow> same_progress st st2"
  unfolding same_progress_def by (elim exE, simp, rule exI, rule exI, rule refl)

lemma bump_nothing: "bump_caches (fail_resource e False False False) st = Some st"
  by (simp add: bump_caches_def bump_if_def fail_resource_def)

lemma lost_turn:
  assumes "idle env" and "ct_conn st = NULL"
  shows "\<exists>st'. chain_turn env st = Some (ct_errors st \<le> 10, st') \<and> same_progress st st' \<and> ct_errors st' = ct_errors st + 1"
proof -
  obtain w where "mn_standby env (ch_world (ct_chain st)) = (False, w)" using assms(1) by (metis idle_def prod.collapse)
  then have wait: "wait_standby env (ch_world (ct_chain st)) = Some w" by (simp add: wait_standby.simps)
  let ?ch = "(ct_chain st)\<lparr>ch_world := w\<rparr>" and ?cr = "fail_resource ErrorGeneric False False False"
  let ?w = "mn_sleep env w"
  have sync: "bx_chain_sync ce NULL ?ch = Some (?cr, ?ch)" for ce by (simp add: bx_chain_sync_def Let_def)
  have prune: "prune_all env ?cr (st\<lparr>ct_chain := ?ch\<rparr>) = Some (ErrorGeneric, st\<lparr>ct_chain := ?ch\<rparr>)"
    by (simp add: prune_all_def prune_if_def fail_resource_def Let_def)
  have after: "after_sync env ErrorGeneric (st\<lparr>ct_chain := ?ch\<rparr>) =
      Some (ct_errors st \<le> 10, st\<lparr>ct_chain := (ct_chain st)\<lparr>ch_world := ?w\<rparr>, ct_errors := ct_errors st + 1\<rparr>)"
    using assms(2)
    by (simp add: after_sync_def thread_handle_error_def ping_lost_def count_error_def BXILL_THREAD_EXIT_MAX_COUNT_def Let_def)
  show ?thesis
    by (simp add: chain_turn_def wait assms(2) handle_of_def sync prune after bump_nothing)
       (auto simp: same_progress_def)
qed

lemma lost_step:
  assumes "idle env" and "ct_conn st = NULL"
  shows "\<exists>s2. thread_loop (chain_running env) (chain_turn env) st =
      (if ct_errors st \<le> 10 then thread_loop (chain_running env) (chain_turn env) s2 else Some (1, s2)) \<and>
    same_progress st s2 \<and> ct_errors s2 = ct_errors st + 1"
proof -
  obtain w where "mn_run env (ch_world (ct_chain st)) = (True, w)" using assms(1) by (metis idle_def prod.collapse)
  then have run: "chain_running env st = (True, st\<lparr>ct_chain := (ct_chain st)\<lparr>ch_world := w\<rparr>\<rparr>)" by (simp add: chain_running_def)
  let ?s1 = "st\<lparr>ct_chain := (ct_chain st)\<lparr>ch_world := w\<rparr>\<rparr>"
  have "ct_conn ?s1 = NULL" using assms(2) by simp
  from lost_turn [OF assms(1) this] obtain s2 where s2: "chain_turn env ?s1 = Some (ct_errors st \<le> 10, s2)"
      "same_progress ?s1 s2" "ct_errors s2 = ct_errors st + 1" by auto
  have "same_progress st s2" using s2(2) by (auto simp: same_progress_def)
  then show ?thesis using s2 run by (auto simp: thread_loop.simps [of _ _ st])
qed

lemma lost_loop:
  assumes "idle env" and "ct_conn st = NULL" and "ct_errors st = 11 - int n"
  shows "\<exists>st'. thread_loop (chain_running env) (chain_turn env) st = Some (1, st') \<and> same_progress st st' \<and> ct_errors st' = 12"
  using assms(2,3)
proof (induction n arbitrary: st)
  case 0
  then show ?case using lost_step [OF assms(1) 0(1)] by auto
next
  case (Suc n)
  obtain s2 where s2: "thread_loop (chain_running env) (chain_turn env) st = thread_loop (chain_running env) (chain_turn env) s2"
      "same_progress st s2" "ct_errors s2 = 11 - int n"
    using lost_step [OF assms(1) Suc.prems(1)] Suc.prems(2) by auto
  have "ct_conn s2 = NULL" using s2(2) Suc.prems(1) by (auto simp: same_progress_def)
  from Suc.IH [OF this s2(3)] show ?case using s2(1,2) same_progress_trans by metis
qed

text \<open>The number of failures after a turn that leaves no connection.\<close>

lemma failures_after:
  assumes "after_sync env e st = Some (True, st1)" and "ct_conn st1 = NULL" and "0 \<le> ct_errors st" and "ct_errors st \<le> 11"
  shows "0 \<le> ct_errors st1 \<and> ct_errors st1 \<le> 11"
  using assms
  by (auto simp: after_sync_def thread_handle_error_def rebuild_queries_def count_error_def BXILL_THREAD_EXIT_MAX_COUNT_def Let_def
      split: bind_splits if_splits prod.splits)

section \<open>Properties\<close>

text \<open>
  C23: a connection that was lost and could not be made again is not made again: when a turn of the
  chain thread ends without a connection, every later turn only sleeps and counts a failure, and at
  its twelfth failure in a row, the turn that lost the connection and the failures before it counted,
  the thread ends with an error, the caches, the settings and the cursor as the turn left them.
\<close>

theorem lost_connection_final:
  assumes "idle env" and "after_sync env e st = Some (True, st1)" and "ct_conn st1 = NULL"
    and "0 \<le> ct_errors st" and "ct_errors st \<le> 11"
  shows "\<exists>st'. thread_loop (chain_running env) (chain_turn env) st1 = Some (1, st') \<and> ct_conn st' = NULL \<and> ct_errors st' = 12 \<and>
    caches (ct_chain st') = caches (ct_chain st1) \<and> ch_conf (ct_chain st') = ch_conf (ct_chain st1) \<and>
    ch_cursor (ct_chain st') = ch_cursor (ct_chain st1)"
proof -
  have "ct_errors st1 = 11 - int (nat (11 - ct_errors st1))" using failures_after [OF assms(2-5)] by simp
  from lost_loop [OF assms(1,3) this] show ?thesis
    using assms(3) by (auto simp: same_progress_def caches_def)
qed

text \<open>A thread whose first turn loses the connection, on a server that is gone.\<close>

definition gone_env :: "u64 set main_env" where
  "gone_env = \<lparr>mn_sync = listed_env, mn_file = \<lparr>fa_size = (\<lambda>p w. None), fa_mkdir = (\<lambda>p w. (True, w)),
       fa_write = (\<lambda>p d w. (None, w)), fa_rename = (\<lambda>p q w. (True, w)), fa_unlink = (\<lambda>p w. w)\<rparr>,
     mn_raw = list_env [], mn_mysql = listed_mysql, mn_xxh = (\<lambda>k. of_nat (length k)), mn_init = (\<lambda>w. (Ptr 2, w)),
     mn_connect = (\<lambda>h u p d w. (False, w)), mn_close = (\<lambda>a w. w), mn_ping = (\<lambda>a w. ((False, 2006), w)),
     mn_run = (\<lambda>w. (True, w)), mn_standby = (\<lambda>w. (False, w)), mn_sleep = (\<lambda>w. w)\<rparr>"

definition gone_state :: "u64 set chain_thread_state" where
  "gone_state = \<lparr>ct_chain = listed_state BX_CHAIN_PROJECT, ct_conn = Ptr 1, ct_contact_prune = NULL, ct_project_prune = NULL,
     ct_invoice_prune = NULL, ct_errors = 0\<rparr>"

theorem lost_connection_final_witness:
  "\<exists>st1 st'. after_sync gone_env ErrorSQLReconnect gone_state = Some (True, st1) \<and>
     thread_loop (chain_running gone_env) (chain_turn gone_env) st1 = Some (1, st') \<and> ct_errors st' = 12 \<and>
     ch_projects (ct_chain st') = Ptr listed_cache"
proof -
  have idle: "idle gone_env" by (simp add: idle_def gone_env_def)
  obtain st1 where st1: "after_sync gone_env ErrorSQLReconnect gone_state = Some (True, st1)" "ct_conn st1 = NULL"
      "ch_projects (ct_chain st1) = Ptr listed_cache"
    by (simp add: after_sync_def thread_handle_error_def ping_lost_def thread_reconnect_def thread_setup_mysql_def
        thread_teardown_mysql_def count_error_def BXILL_THREAD_EXIT_MAX_COUNT_def gone_env_def gone_state_def listed_state_def Let_def)
  have "0 \<le> ct_errors gone_state" "ct_errors gone_state \<le> 11" by (simp_all add: gone_state_def)
  from lost_connection_final [OF idle st1(1,2) this] show ?thesis using st1(1,3) by (auto simp: caches_def)
qed

end
