(* ===== verification/Bx_Program.thy ===== *)
theory Bx_Program
  imports Bx_Main Bx_Queue "HOL-Library.Sublist"
begin

text \<open>
  The program from its first line to its last, \<open>src/src/main.c\<close>: the command line, the settings, the
  login, going to the background, the pid file, giving up the rights, the threads, the signals and
  the stop. The system calls go through one argument, and every call is kept with its result in the
  order of the calls. A result is \<open>Inl code\<close> when the process ends with that code; \<open>None\<close> is an access
  through a null pointer, a failed assertion or a call that never returns. The threads run beside
  the main one; here they are only created and waited for.
\<close>

datatype program_thread = Log_Thread | Request_Thread | Data_Thread nat

datatype sys_call =
    Sys_Fork | Sys_Setsid | Sys_Chdir string | Sys_Umask int
  | Sys_Open string | Sys_Close int | Sys_Dup2 int int
  | Sys_Flock int | Sys_Getpid | Sys_Write int string | Sys_Fsync int
  | Sys_Setgid int | Sys_Setuid int | Sys_Sigaction int | Sys_Snowflake
  | Sys_Log_Open string | Sys_Log_Write string | Sys_Log_Close
  | Sys_Create program_thread | Sys_Join program_thread
  | Sys_Wake_Request | Sys_Wake_Data | Sys_Sleep nat | Sys_Pause

record 'w program_env =
  pe_main :: "'w main_env"
  pe_call :: "sys_call \<Rightarrow> 'w \<Rightarrow> (int \<times> 'w) option"
  pe_signals :: "'w \<Rightarrow> int list \<times> 'w"
  pe_config :: "string \<Rightarrow> 'w \<Rightarrow> json ptr \<times> 'w"
  pe_strtod :: "string \<Rightarrow> u64 option"
  pe_set_up :: "string \<Rightarrow> string \<Rightarrow> bool"
  pe_oauth :: "'w oauth_env"
  pe_url_decode :: "string \<Rightarrow> string ptr"
  pe_rand :: "string ptr \<times> string ptr"
  pe_challenge :: "string \<Rightarrow> string ptr"
  pe_url :: "(string \<times> string ptr) list \<Rightarrow> string ptr"
  pe_events :: "(int \<times> poll_event) list"

record 'w program =
  pg_calls :: "(sys_call \<times> int) list"
  pg_chain :: "'w chain_state"
  pg_log :: bool
  pg_log_path :: string
  pg_logthread :: bool
  pg_countries :: "country_list ptr"
  pg_queue :: "BXNet queue_config ptr"
  pg_kill :: bool
  pg_reload :: bool

abbreviation pg_world :: "'w program \<Rightarrow> 'w" where
  "pg_world p \<equiv> ch_world (pg_chain p)"

abbreviation pg_conf :: "'w program \<Rightarrow> BXConf" where
  "pg_conf p \<equiv> ch_conf (pg_chain p)"

definition with_world :: "'w \<Rightarrow> 'w program \<Rightarrow> 'w program" where
  "with_world w p = p\<lparr>pg_chain := (pg_chain p)\<lparr>ch_world := w\<rparr>\<rparr>"

definition with_conf :: "BXConf \<Rightarrow> 'w program \<Rightarrow> 'w program" where
  "with_conf conf p = p\<lparr>pg_chain := (pg_chain p)\<lparr>ch_conf := conf\<rparr>\<rparr>"

section \<open>Calls and the end of the process\<close>

type_synonym ('a, 'w) outcome = "((int + 'a) \<times> 'w program) option"

definition go_on :: "'a \<Rightarrow> 'w program \<Rightarrow> ('a, 'w) outcome" where
  "go_on a p = Some (Inr a, p)"

definition exit_with :: "int \<Rightarrow> 'w program \<Rightarrow> ('a, 'w) outcome" where
  "exit_with code p = Some (Inl code, p)"

definition next_do :: "('a, 'w) outcome \<Rightarrow> ('a \<Rightarrow> 'w program \<Rightarrow> ('b, 'w) outcome) \<Rightarrow> ('b, 'w) outcome" where
  "next_do r f = (case r of None \<Rightarrow> None | Some (Inl code, p) \<Rightarrow> Some (Inl code, p) | Some (Inr a, p) \<Rightarrow> f a p)"

definition call :: "'w program_env \<Rightarrow> sys_call \<Rightarrow> 'w program \<Rightarrow> (int, 'w) outcome" where
  "call env c p =
     (case pe_call env c (pg_world p) of
        None \<Rightarrow> None
      | Some (r, w) \<Rightarrow> go_on r (with_world w (p\<lparr>pg_calls := pg_calls p @ [(c, r)]\<rparr>)))"

definition EXIT_FAILURE :: int where
  "EXIT_FAILURE = 1"

definition EXIT_SUCCESS :: int where
  "EXIT_SUCCESS = 0"

section \<open>The log of the first steps\<close>

definition LOG_FILE :: string where
  "LOG_FILE = ''/var/log/bxsync.log''"

definition bx_log_init :: "'w program_env \<Rightarrow> string ptr \<Rightarrow> 'w program \<Rightarrow> (bool, 'w) outcome" where
  "bx_log_init env path p =
     (let file = (case path of NULL \<Rightarrow> LOG_FILE | Ptr f \<Rightarrow> f) in
      next_do (call env (Sys_Log_Open file) p)
        (\<lambda>r p1. go_on (r = 0) (p1\<lparr>pg_log := (r = 0), pg_log_path := file\<rparr>)))"

text \<open>The line goes to the file without a test that the file is open.\<close>

definition bx_log_write :: "'w program_env \<Rightarrow> string \<Rightarrow> 'w program \<Rightarrow> (int, 'w) outcome" where
  "bx_log_write env msg p = (if pg_log p then call env (Sys_Log_Write msg) p else None)"

definition bx_log_close :: "'w program_env \<Rightarrow> 'w program \<Rightarrow> (int, 'w) outcome" where
  "bx_log_close env p = (if pg_log p then call env Sys_Log_Close p else None)"

text \<open>A message of the first steps and the end of the process.\<close>

definition fail_with :: "'w program_env \<Rightarrow> string \<Rightarrow> 'w program \<Rightarrow> ('a, 'w) outcome" where
  "fail_with env msg p = next_do (bx_log_write env msg p) (\<lambda>_. exit_with EXIT_FAILURE)"

definition must :: "'w program_env \<Rightarrow> sys_call \<Rightarrow> (int \<Rightarrow> bool) \<Rightarrow> string \<Rightarrow> 'w program \<Rightarrow> (int, 'w) outcome" where
  "must env c ok msg p = next_do (call env c p) (\<lambda>r p1. if ok r then go_on r p1 else fail_with env msg p1)"

section \<open>Going to the background\<close>

text \<open>The process that forks ends, the new one goes on.\<close>

definition fork_off :: "'w program_env \<Rightarrow> string \<Rightarrow> 'w program \<Rightarrow> (unit, 'w) outcome" where
  "fork_off env msg p =
     next_do (must env Sys_Fork (\<lambda>pid. 0 \<le> pid) msg p)
       (\<lambda>pid p1. if 0 < pid then exit_with EXIT_SUCCESS p1 else go_on () p1)"

fun calls :: "'w program_env \<Rightarrow> sys_call list \<Rightarrow> 'w program \<Rightarrow> (unit, 'w) outcome" where
  "calls env [] p = go_on () p"
| "calls env (c # cs) p = next_do (call env c p) (\<lambda>_. calls env cs)"

definition deamon :: "'w program_env \<Rightarrow> int \<Rightarrow> 'w program \<Rightarrow> (int, 'w) outcome" where
  "deamon env fork_once p =
     next_do (fork_off env ''Cannot fork'' p) (\<lambda>_ p1.
     next_do (must env Sys_Setsid (\<lambda>r. 0 \<le> r) ''Cannot set session id'' p1) (\<lambda>_ p2.
     next_do (if fork_once = 0 then fork_off env ''Cannot fork again'' p2 else go_on () p2) (\<lambda>_ p3.
     next_do (call env (Sys_Chdir ''/'') p3) (\<lambda>r p4.
     next_do (if r < 0 then bx_log_write env ''Cannot change directory'' p4 else go_on 0 p4) (\<lambda>_ p5.
     next_do (calls env [Sys_Umask 0, Sys_Close 0, Sys_Close 1, Sys_Close 2] p5) (\<lambda>_ p6.
     next_do (must env (Sys_Open ''/dev/null'') (\<lambda>fd. 0 \<le> fd) ''Cannot open /dev/null'' p6) (\<lambda>fd p7.
     next_do (calls env ([Sys_Dup2 fd 0, Sys_Dup2 fd 2, Sys_Dup2 fd 1] @ (if 2 < fd then [Sys_Close fd] else [])) p7)
       (\<lambda>_. go_on 0))))))))"

section \<open>The pid file\<close>

definition PID_FILE :: string where
  "PID_FILE = ''/run/bxsync.pid''"

text \<open>\<open>%d\<close> of a number and its end of line.\<close>

definition pid_content :: "int \<Rightarrow> string" where
  "pid_content pid = dec_int pid @ [CHR 0x0A]"

text \<open>
  The number of bytes written is compared with the length as an unsigned number, so \<open>-1\<close> passes.
\<close>

definition write_short :: "int \<Rightarrow> string \<Rightarrow> bool" where
  "write_short written content \<longleftrightarrow> (word_of_int written :: u64) < of_nat (length content)"

definition write_pid :: "'w program_env \<Rightarrow> string ptr \<Rightarrow> 'w program \<Rightarrow> (int, 'w) outcome" where
  "write_pid env pid_file p =
     next_do (call env (Sys_Open (case pid_file of NULL \<Rightarrow> PID_FILE | Ptr f \<Rightarrow> f)) p) (\<lambda>fd p1.
     if fd < 0 then next_do (bx_log_write env ''Log file could not be opened'' p1) (\<lambda>_. go_on (-1))
     else next_do (call env (Sys_Flock fd) p1) (\<lambda>r p2.
       if r = -1 then next_do (bx_log_write env ''Log file could not be locked'' p2) (\<lambda>_ p3.
         next_do (call env (Sys_Close fd) p3) (\<lambda>_. go_on (-1)))
       else next_do (call env Sys_Getpid p2) (\<lambda>pid p3.
         next_do (call env (Sys_Write fd (pid_content pid)) p3) (\<lambda>n p4.
         if write_short n (pid_content pid) then next_do (bx_log_write env ''Log file could not be written'' p4) (\<lambda>_ p5.
           next_do (call env (Sys_Close fd) p5) (\<lambda>_. go_on (-1)))
         else next_do (call env (Sys_Fsync fd) p4) (\<lambda>_. go_on fd)))))"

text \<open>A start that fails after the log was opened: the message, the log closed, the end.\<close>

definition give_up :: "'w program_env \<Rightarrow> string \<Rightarrow> 'w program \<Rightarrow> ('a, 'w) outcome" where
  "give_up env msg p =
     next_do (bx_log_write env msg p) (\<lambda>_ p1. next_do (bx_log_close env p1) (\<lambda>_. exit_with EXIT_FAILURE))"

definition setting_int :: "'w program_env \<Rightarrow> 'w program \<Rightarrow> string \<Rightarrow> int" where
  "setting_int env p k = bx_conf_get_int (mn_xxh (pe_main env)) (pg_conf p) k"

definition setting_string :: "'w program_env \<Rightarrow> 'w program \<Rightarrow> string \<Rightarrow> string ptr" where
  "setting_string env p k = bx_conf_get_string (mn_xxh (pe_main env)) (pg_conf p) k"

definition background :: "'w program_env \<Rightarrow> 'w program \<Rightarrow> (int, 'w) outcome" where
  "background env p =
     (if setting_int env p ''no-deamon'' \<noteq> 0 then go_on (-1) p
      else
        next_do (deamon env (setting_int env p ''fork-single'') p) (\<lambda>r p1.
        if r \<noteq> 0 then give_up env ''Error going deamon'' p1
        else next_do (write_pid env (setting_string env p1 ''pid-file'') p1) (\<lambda>fd p2.
          if fd < 0 then give_up env ''Error writing pid'' p2
          else next_do (call env (Sys_Setgid (setting_int env p2 ''gid'')) p2) (\<lambda>r p3.
            if r \<noteq> 0 then give_up env ''setgid failed'' p3
            else next_do (call env (Sys_Setuid (setting_int env p3 ''uid'')) p3) (\<lambda>r p4.
              if r \<noteq> 0 then give_up env ''setuid failed'' p4 else go_on fd p4)))))"

section \<open>Signals\<close>

definition SIGHUP :: int where
  "SIGHUP = 1"

definition SIGINT :: int where
  "SIGINT = 2"

definition SIGTERM :: int where
  "SIGTERM = 15"

definition signal_hander :: "int \<Rightarrow> 'w program \<Rightarrow> 'w program" where
  "signal_hander sig p =
     (if sig = SIGINT \<or> sig = SIGTERM then p\<lparr>pg_kill := True\<rparr>
      else if sig = SIGHUP then p\<lparr>pg_reload := True\<rparr>
      else p)"

text \<open>The signals that have come since the last look.\<close>

definition deliver :: "'w program_env \<Rightarrow> 'w program \<Rightarrow> 'w program" where
  "deliver env p = (case pe_signals env (pg_world p) of (sigs, w) \<Rightarrow> fold signal_hander sigs (with_world w p))"

text \<open>
  \<open>sigaction\<close>, whose failure returns 1 from \<open>main\<close>, which ends the process as \<open>exit\<close> does; the
  returns at the end of a login and at the end of \<open>main\<close> are the only \<open>Inr\<close>.
\<close>

definition set_handler :: "'w program_env \<Rightarrow> int \<Rightarrow> 'w program \<Rightarrow> (unit, 'w) outcome" where
  "set_handler env sig p =
     next_do (call env (Sys_Sigaction sig) p) (\<lambda>r p1. if r = -1 then exit_with 1 p1 else go_on () p1)"

text \<open>A file that does not open again stops the thread of the log.\<close>

definition bx_log_reopen :: "'w program_env \<Rightarrow> 'w program \<Rightarrow> (unit, 'w) outcome" where
  "bx_log_reopen env p =
     next_do (if pg_log p then call env Sys_Log_Close p else go_on 0 p) (\<lambda>_ p1.
     next_do (call env (Sys_Log_Open (pg_log_path p1)) p1) (\<lambda>r p2.
     go_on () (p2\<lparr>pg_log := (r = 0), pg_logthread := (pg_logthread p2 \<and> r = 0)\<rparr>)))"

text \<open>A signal that comes between the test and the pause does not end the pause.\<close>

definition reload_if_asked :: "'w program_env \<Rightarrow> 'w program \<Rightarrow> (unit, 'w) outcome" where
  "reload_if_asked env p =
     (if pg_reload p then next_do (bx_log_reopen env p) (\<lambda>_ p1. go_on () (p1\<lparr>pg_reload := False\<rparr>)) else go_on () p)"

partial_function (option) wait_kill :: "'w program_env \<Rightarrow> 'w program \<Rightarrow> (unit, 'w) outcome" where
  "wait_kill env p =
     (if pg_kill (deliver env p) then go_on () (deliver env p)
      else
        (case next_do (reload_if_asked env (deliver env p)) (\<lambda>_ p1. call env Sys_Pause (deliver env p1)) of
           None \<Rightarrow> None
         | Some (Inl code, p1) \<Rightarrow> Some (Inl code, p1)
         | Some (Inr sig, p1) \<Rightarrow> wait_kill env (signal_hander sig p1)))"

section \<open>The threads\<close>

definition data_threads :: "program_thread list" where
  "data_threads = map Data_Thread [0..<4]"

text \<open>
  An identifier of the generator, which answers \<open>invalid\<close> when it has none; the generator is a
  submodule.
\<close>

definition bx_utils_gen_id :: "('w \<Rightarrow> u64 \<times> 'w) \<Rightarrow> u64 \<Rightarrow> 'w \<Rightarrow> (bool \<times> u64) \<times> 'w" where
  "bx_utils_gen_id snowflake_get invalid w = (case snowflake_get w of (i, w1) \<Rightarrow> ((i \<noteq> invalid, i), w1))"

definition start_log :: "'w program_env \<Rightarrow> 'w program \<Rightarrow> (unit, 'w) outcome" where
  "start_log env p =
     next_do (call env Sys_Snowflake p) (\<lambda>ok p1.
     if ok = 0 then exit_with 1 p1
     else next_do (call env (Sys_Create Log_Thread) (p1\<lparr>pg_logthread := True\<rparr>)) (\<lambda>_. go_on ()))"

text \<open>The network, its queue and the request thread.\<close>

definition start_net :: "'w program_env \<Rightarrow> 'w program \<Rightarrow> (unit, 'w) outcome" where
  "start_net env p =
     (case bx_net_init (mn_xxh (pe_main env)) (pe_set_up env) (pe_oauth env) (pg_conf p) (pg_world p) of
        None \<Rightarrow> None
      | Some (NULL, w) \<Rightarrow> next_do (call env (Sys_Sleep 100000) (with_world w p)) (\<lambda>_. exit_with EXIT_FAILURE)
      | Some (Ptr net, w) \<Rightarrow>
          next_do (call env (Sys_Create Request_Thread) ((with_world w p)\<lparr>pg_queue := Ptr (bx_net_loop net)\<rparr>)) (\<lambda>_. go_on ()))"

text \<open>The countries are loaded under an assertion, the lookups one after the other.\<close>

definition load_first :: "'w program_env \<Rightarrow> 'w program \<Rightarrow> (unit, 'w) outcome" where
  "load_first env p =
     (let sync = mn_sync (pe_main env) in
      case bx_country_code_load sync (se_walk sync) (pg_countries p) (pg_world p) of
        None \<Rightarrow> None
      | Some ((False, countries), w) \<Rightarrow> None
      | Some ((True, countries), w) \<Rightarrow>
          (case bootstrap (pe_main env) (pg_conf p) w of
             None \<Rightarrow> None
           | Some w1 \<Rightarrow> go_on () ((with_world w1 p)\<lparr>pg_countries := countries\<rparr>)))"

definition start_chain :: "'w program_env \<Rightarrow> 'w program \<Rightarrow> 'w program" where
  "start_chain env p =
     p\<lparr>pg_chain := bx_chain_init (program_env (mn_xxh (pe_main env)) (mn_mysql (pe_main env)) (mn_sync (pe_main env)) NULL)
        (pg_chain p)\<rparr>"

definition stop_queue :: "'w program \<Rightarrow> 'w program" where
  "stop_queue p =
     p\<lparr>pg_queue := (case pg_queue p of NULL \<Rightarrow> NULL | Ptr q \<Rightarrow> Ptr (q\<lparr>qc_list := (qc_list q)\<lparr>ql_run := False\<rparr>\<rparr>))\<rparr>"

text \<open>The stop: the flag, the request thread, the data threads, the countries and the queue, the log.\<close>

definition stop_all :: "'w program_env \<Rightarrow> int \<Rightarrow> 'w program \<Rightarrow> (int, 'w) outcome" where
  "stop_all env pid_file_fd p =
     next_do (calls env ([Sys_Sleep 5000000, Sys_Wake_Request, Sys_Join Request_Thread, Sys_Wake_Data] @ map Sys_Join data_threads)
       (stop_queue p)) (\<lambda>_ p1.
     next_do (call env (Sys_Join Log_Thread) (p1\<lparr>pg_countries := NULL, pg_queue := NULL, pg_logthread := False\<rparr>)) (\<lambda>_ p2.
     next_do (bx_log_close env p2) (\<lambda>_ p3.
     next_do (if pid_file_fd \<noteq> -1 then call env (Sys_Close pid_file_fd) p3 else go_on 0 p3) (\<lambda>_. go_on 0))))"

section \<open>The entry point\<close>

text \<open>What follows the start-up, with the descriptor of the pid file.\<close>

definition serve :: "'w program_env \<Rightarrow> int \<Rightarrow> 'w program \<Rightarrow> (int, 'w) outcome" where
  "serve env fd p =
     next_do (set_handler env SIGINT p) (\<lambda>_ p1.
     next_do (set_handler env SIGTERM p1) (\<lambda>_ p2.
     next_do (set_handler env SIGHUP p2) (\<lambda>_ p3.
     next_do (start_log env p3) (\<lambda>_ p4.
     next_do (start_net env p4) (\<lambda>_ p5.
     next_do (load_first env p5) (\<lambda>_ p6.
     next_do (calls env (map Sys_Create data_threads) (start_chain env p6)) (\<lambda>_ p7.
     next_do (wait_kill env p7) (\<lambda>_.
     stop_all env fd))))))))"

definition run_program :: "'w program_env \<Rightarrow> 'w program \<Rightarrow> (int, 'w) outcome" where
  "run_program env p =
     next_do (bx_log_init env (setting_string env p ''log-file'') p) (\<lambda>_ p1.
     next_do (background env p1) (serve env))"

definition run_login :: "'w program_env \<Rightarrow> 'w program \<Rightarrow> (int, 'w) outcome" where
  "run_login env p =
     next_do (bx_log_init env (setting_string env p ''log-file'') p) (\<lambda>_ p1.
     case bx_oauth_init (mn_xxh (pe_main env)) (pe_set_up env) (pg_conf p1) of
       NULL \<Rightarrow> go_on EXIT_FAILURE p1
     | Ptr oauth \<Rightarrow>
         (case bx_oauth_login (mn_xxh (pe_main env)) (pe_oauth env) (pe_url_decode env) (pe_rand env) (pe_challenge env)
                 (pe_url env) (pe_events env) oauth (pg_world p1) of
            None \<Rightarrow> None
          | Some (st, _, w) \<Rightarrow> go_on (if st = BX_OAUTH_OK then EXIT_SUCCESS else EXIT_FAILURE) (with_world w p1)))"

definition bx_conf_init :: BXConf where
  "bx_conf_init = []"

text \<open>A configuration that is not in the database keeps the values of the file.\<close>

definition main :: "'w program_env \<Rightarrow> string list \<Rightarrow> 'w program \<Rightarrow> (int, 'w) outcome" where
  "main env args p =
     (case parse_args args of
        None \<Rightarrow> exit_with EXIT_FAILURE p
      | Some (do_login, config_path) \<Rightarrow>
          (case pe_config env config_path (pg_world p) of
             (jroot, w) \<Rightarrow>
               (case bx_conf_loadfile (mn_xxh (pe_main env)) jroot bx_conf_init of
                  (False, conf) \<Rightarrow> exit_with EXIT_FAILURE (with_world w p)
                | (True, conf) \<Rightarrow>
                    (case bx_conf_load_database (mn_xxh (pe_main env)) (pe_strtod env) (mn_mysql (pe_main env)) conf w of
                       (_, conf1, w1) \<Rightarrow>
                         (if do_login then run_login else run_program) env (with_conf conf1 (with_world w1 p))))))"

section \<open>What the calls of a part are\<close>

text \<open>The calls a part adds are all of one kind, and it leaves the settings alone.\<close>

definition adds :: "(sys_call \<Rightarrow> bool) \<Rightarrow> ('a, 'w) outcome \<Rightarrow> 'w program \<Rightarrow> bool" where
  "adds P r p \<longleftrightarrow> (\<forall>res p'. r = Some (res, p') \<longrightarrow>
     pg_conf p' = pg_conf p \<and> (\<exists>cs. pg_calls p' = pg_calls p @ cs \<and> list_all (P \<circ> fst) cs))"

lemma addsE:
  assumes "adds P r p" and "r = Some (res, p')"
  obtains cs where "pg_calls p' = pg_calls p @ cs" and "list_all (P \<circ> fst) cs" and "pg_conf p' = pg_conf p"
  using assms unfolding adds_def by blast

lemma with_world_simps [simp]:
  "pg_calls (with_world w p) = pg_calls p" "ch_conf (pg_chain (with_world w p)) = pg_conf p"
  "ch_world (pg_chain (with_world w p)) = w" "pg_kill (with_world w p) = pg_kill p" "pg_log (with_world w p) = pg_log p"
  by (simp_all add: with_world_def)

lemma adds_same: "pg_calls p' = pg_calls p \<Longrightarrow> pg_conf p' = pg_conf p \<Longrightarrow> adds P r p' \<Longrightarrow> adds P r p"
  unfolding adds_def by simp

lemma adds_go_on [intro!]: "pg_calls p' = pg_calls p \<Longrightarrow> pg_conf p' = pg_conf p \<Longrightarrow> adds P (go_on a p') p"
  by (simp add: adds_def go_on_def)

lemma adds_exit [intro!]: "pg_calls p' = pg_calls p \<Longrightarrow> pg_conf p' = pg_conf p \<Longrightarrow> adds P (exit_with code p') p"
  by (simp add: adds_def exit_with_def)

lemma adds_none [intro!]: "adds P None p"
  by (simp add: adds_def)

lemma adds_call [intro!]:
  "P c \<Longrightarrow> pg_calls p' = pg_calls p \<Longrightarrow> pg_conf p' = pg_conf p \<Longrightarrow> adds P (call env c p') p"
  by (auto simp: adds_def call_def go_on_def split: option.splits)

lemma adds_next:
  assumes "adds P r p" and "\<And>a p1. r = Some (Inr a, p1) \<Longrightarrow> adds P (f a p1) p1"
  shows "adds P (next_do r f) p"
  unfolding adds_def
proof (intro allI impI)
  fix res p'
  assume run: "next_do r f = Some (res, p')"
  show "pg_conf p' = pg_conf p \<and> (\<exists>cs. pg_calls p' = pg_calls p @ cs \<and> list_all (P \<circ> fst) cs)"
  proof (cases r)
    case None
    then show ?thesis using run by (simp add: next_do_def)
  next
    case (Some z)
    obtain x p1 where z: "z = (x, p1)" by fastforce
    obtain cs where cs: "pg_calls p1 = pg_calls p @ cs" "list_all (P \<circ> fst) cs" "pg_conf p1 = pg_conf p"
      using addsE [OF assms(1)] Some z by metis
    show ?thesis
    proof (cases x)
      case (Inl code)
      then show ?thesis using run Some z cs by (auto simp: next_do_def)
    next
      case (Inr a)
      then have "f a p1 = Some (res, p')" and "r = Some (Inr a, p1)" using run Some z by (simp_all add: next_do_def)
      from addsE [OF assms(2) [OF this(2)] this(1)] obtain cs' where
        "pg_calls p' = pg_calls p1 @ cs'" "list_all (P \<circ> fst) cs'" "pg_conf p' = pg_conf p1" by blast
      then show ?thesis using cs by (auto intro: exI [of _ "cs @ cs'"])
    qed
  qed
qed

lemma adds_calls: "list_all P cs \<Longrightarrow> adds P (calls env cs p) p"
  by (induction cs arbitrary: p) (auto intro: adds_next)

lemma adds_mono:
  assumes "adds P r p" and "\<And>c. P c \<Longrightarrow> Q c"
  shows "adds Q r p"
  unfolding adds_def
proof (intro allI impI)
  fix res p'
  assume "r = Some (res, p')"
  from addsE [OF assms(1) this] obtain cs where
    cs: "pg_calls p' = pg_calls p @ cs" "list_all (P \<circ> fst) cs" "pg_conf p' = pg_conf p" by blast
  have "list_all (Q \<circ> fst) cs" using cs(2) assms(2) by (auto simp: list_all_iff)
  then show "pg_conf p' = pg_conf p \<and> (\<exists>cs. pg_calls p' = pg_calls p @ cs \<and> list_all (Q \<circ> fst) cs)" using cs by blast
qed

text \<open>The calls on threads, in their order.\<close>

fun on_threads :: "sys_call \<Rightarrow> bool" where
  "on_threads (Sys_Create t) = True"
| "on_threads (Sys_Join t) = True"
| "on_threads c = False"

definition thread_calls :: "'w program \<Rightarrow> sys_call list" where
  "thread_calls p = filter on_threads (map fst (pg_calls p))"

abbreviation quiet :: "('a, 'w) outcome \<Rightarrow> 'w program \<Rightarrow> bool" where
  "quiet \<equiv> adds (\<lambda>c. \<not> on_threads c)"

lemma quiet_thread_calls: "quiet r p \<Longrightarrow> r = Some (res, p') \<Longrightarrow> thread_calls p' = thread_calls p"
  by (erule addsE, assumption) (auto simp: thread_calls_def filter_empty_conv list_all_iff)

lemma quiet_log: "quiet (bx_log_init env path p) p" "quiet (bx_log_write env msg p) p" "quiet (bx_log_close env p) p"
  by (auto simp: bx_log_init_def bx_log_write_def bx_log_close_def Let_def intro!: adds_next)

text \<open>Every part but the start and the stop of the threads is quiet.\<close>

lemma quiet_fail: "quiet (fail_with env msg p) p" "quiet (give_up env msg p) p"
  by (auto simp: fail_with_def give_up_def intro!: adds_next quiet_log)

lemma quiet_must: "\<not> on_threads c \<Longrightarrow> quiet (must env c ok msg p) p"
  by (auto simp: must_def intro!: adds_next quiet_fail)

lemma quiet_fork: "quiet (fork_off env msg p) p"
  by (auto simp: fork_off_def intro!: adds_next quiet_must)

lemma quiet_deamon: "quiet (deamon env once p) p"
  by (auto simp: deamon_def intro!: adds_next quiet_must quiet_fork quiet_log adds_calls simp del: calls.simps)

lemma quiet_write_pid: "quiet (write_pid env f p) p"
  by (auto simp: write_pid_def intro!: adds_next quiet_log)

lemma quiet_background: "quiet (background env p) p"
  by (auto simp: background_def intro!: adds_next quiet_deamon quiet_write_pid quiet_fail)

lemma quiet_handler: "quiet (set_handler env sig p) p"
  by (auto simp: set_handler_def intro!: adds_next)

lemma quiet_load: "quiet (load_first env p) p"
  by (auto simp: load_first_def Let_def split: option.splits prod.splits bool.splits)

section \<open>Waiting for the end\<close>

lemma hander_simps [simp]:
  "pg_calls (signal_hander sig p) = pg_calls p" "pg_chain (signal_hander sig p) = pg_chain p"
  by (simp_all add: signal_hander_def)

lemma fold_hander_simps [simp]:
  "pg_calls (fold signal_hander sigs p) = pg_calls p" "pg_chain (fold signal_hander sigs p) = pg_chain p"
  by (induction sigs arbitrary: p) simp_all

lemma deliver_simps [simp]: "pg_calls (deliver env p) = pg_calls p" "ch_conf (pg_chain (deliver env p)) = pg_conf p"
  by (simp_all add: deliver_def split: prod.split)

lemma quiet_reload: "pg_calls p' = pg_calls p \<Longrightarrow> pg_conf p' = pg_conf p \<Longrightarrow> quiet (reload_if_asked env p') p"
  by (auto simp: reload_if_asked_def bx_log_reopen_def intro!: adds_next)

lemma quiet_pause: "quiet (next_do (reload_if_asked env (deliver env p)) (\<lambda>_ p1. call env Sys_Pause (deliver env p1))) p"
  by (rule adds_next [OF quiet_reload]) auto

text \<open>The wait ends only with the signal to stop, and cannot end the process.\<close>

lemma reload_goes_on: "reload_if_asked env p = Some (Inl code, p') \<Longrightarrow> False"
  by (auto simp: reload_if_asked_def bx_log_reopen_def next_do_def call_def go_on_def split: option.splits if_splits prod.splits)

lemma pause_goes_on: "next_do (reload_if_asked env p) (\<lambda>_ p1. call env Sys_Pause (deliver env p1)) = Some (Inl code, p') \<Longrightarrow> False"
  using reload_goes_on [of env p]
  by (auto simp: next_do_def call_def go_on_def split: option.splits if_splits prod.splits sum.splits)

definition waited :: "'w program \<Rightarrow> (int + unit) \<times> 'w program \<Rightarrow> bool" where
  "waited p y \<longleftrightarrow> fst y = Inr () \<and> pg_kill (snd y) \<and> thread_calls (snd y) = thread_calls p \<and>
     pg_conf (snd y) = pg_conf p \<and> prefix (pg_calls p) (pg_calls (snd y))"

lemma wait_kill_step:
  assumes "\<And>p1 y1. wait p1 = Some y1 \<Longrightarrow> waited p1 y1"
    and "(if pg_kill (deliver env p) then go_on () (deliver env p)
      else
        (case next_do (reload_if_asked env (deliver env p)) (\<lambda>_ p1. call env Sys_Pause (deliver env p1)) of
           None \<Rightarrow> None
         | Some (Inl code, p1) \<Rightarrow> Some (Inl code, p1)
         | Some (Inr sig, p1) \<Rightarrow> wait (signal_hander sig p1))) = Some y"
  shows "waited p y"
proof (cases "pg_kill (deliver env p)")
  case True
  then show ?thesis using assms(2) by (auto simp: go_on_def thread_calls_def waited_def)
next
  case False
  let ?r = "next_do (reload_if_asked env (deliver env p)) (\<lambda>_ p1. call env Sys_Pause (deliver env p1))"
  from False assms(2) obtain sig p1 where p1: "?r = Some (Inr sig, p1)" "wait (signal_hander sig p1) = Some y"
    by (auto split: option.splits sum.splits dest: pause_goes_on)
  have rec: "waited (signal_hander sig p1) y" by (rule assms(1) [OF p1(2)])
  obtain cs where "pg_calls p1 = pg_calls p @ cs" "pg_conf p1 = pg_conf p" using addsE [OF quiet_pause p1(1)] by blast
  moreover have "thread_calls p1 = thread_calls p" by (rule quiet_thread_calls [OF quiet_pause p1(1)])
  ultimately show ?thesis using rec by (auto simp: thread_calls_def waited_def dest: append_prefixD)
qed

lemma wait_kill_ends: "wait_kill env p = Some y \<Longrightarrow> waited p y"
  by (rule wait_kill.raw_induct [of "\<lambda>env p y. waited p y" env p y]) (rule wait_kill_step)

section \<open>The threads in their order\<close>

lemma next_do_goes:
  assumes "next_do r f = Some (Inr b, p')"
  obtains a p1 where "r = Some (Inr a, p1)" and "f a p1 = Some (Inr b, p')"
  using assms by (auto simp: next_do_def split: option.splits sum.splits)

lemma calls_thread_calls:
  "calls env cs p = Some (res, p') \<Longrightarrow> thread_calls p' = thread_calls p @ filter on_threads cs \<and> res = Inr ()"
proof (induction cs arbitrary: p)
  case Nil
  then show ?case by (simp add: go_on_def)
next
  case (Cons c cs)
  then obtain r p1 where "call env c p = Some (Inr r, p1)" and rest: "calls env cs p1 = Some (res, p')"
    by (auto simp: next_do_def call_def go_on_def split: option.splits)
  then have "pg_calls p1 = pg_calls p @ [(c, r)]" by (auto simp: call_def go_on_def split: option.splits)
  then show ?case using Cons.IH [OF rest] by (simp add: thread_calls_def)
qed

lemma start_log_calls: "start_log env p = Some (Inr u, p') \<Longrightarrow> thread_calls p' = thread_calls p @ [Sys_Create Log_Thread]"
  by (auto simp: start_log_def next_do_def call_def go_on_def exit_with_def thread_calls_def split: option.splits if_splits)

lemma start_net_calls: "start_net env p = Some (Inr u, p') \<Longrightarrow> thread_calls p' = thread_calls p @ [Sys_Create Request_Thread]"
  by (auto simp: start_net_def next_do_def call_def go_on_def exit_with_def thread_calls_def split: option.splits prod.splits ptr.splits)

lemma start_chain_simps [simp]: "pg_calls (start_chain env p) = pg_calls p" "pg_conf (start_chain env p) = pg_conf p"
  by (simp_all add: start_chain_def bx_chain_init_def)

lemma stop_queue_simps [simp]:
  "pg_calls (stop_queue p) = pg_calls p" "pg_chain (stop_queue p) = pg_chain p" "pg_kill (stop_queue p) = pg_kill p"
  by (simp_all add: stop_queue_def)

lemma thread_calls_cong: "pg_calls p' = pg_calls p \<Longrightarrow> thread_calls p' = thread_calls p"
  by (simp add: thread_calls_def)

lemma calls_kill: "calls env cs p = Some (res, p') \<Longrightarrow> pg_kill p' = pg_kill p"
proof (induction cs arbitrary: p)
  case Nil
  then show ?case by (simp add: go_on_def)
next
  case (Cons c cs)
  then obtain r p1 where "call env c p = Some (Inr r, p1)" and rest: "calls env cs p1 = Some (res, p')"
    by (auto simp: next_do_def call_def go_on_def split: option.splits)
  then show ?case using Cons.IH [OF rest] by (auto simp: call_def go_on_def split: option.splits)
qed

lemma call_adds: "call env c p = Some (res, p') \<Longrightarrow> pg_kill p' = pg_kill p \<and> thread_calls p' = thread_calls p @ filter on_threads [c]"
  by (auto simp: call_def go_on_def thread_calls_def split: option.splits)

lemma log_close_quiet: "bx_log_close env p = Some (res, p') \<Longrightarrow> pg_kill p' = pg_kill p \<and> thread_calls p' = thread_calls p"
  by (auto simp: bx_log_close_def split: if_splits dest: call_adds)

lemma stop_all_calls:
  assumes "stop_all env fd p = Some (Inr code, p')"
  shows "thread_calls p' = thread_calls p @ map Sys_Join (Request_Thread # data_threads @ [Log_Thread]) \<and> code = 0 \<and> pg_kill p' = pg_kill p"
proof -
  let ?cs = "[Sys_Sleep 5000000, Sys_Wake_Request, Sys_Join Request_Thread, Sys_Wake_Data] @ map Sys_Join data_threads"
  let ?last = "\<lambda>p3. next_do (if fd \<noteq> -1 then call env (Sys_Close fd) p3 else go_on 0 p3) (\<lambda>_. go_on 0)"
  obtain u p1 where p1: "calls env ?cs (stop_queue p) = Some (Inr u, p1)"
    and r1: "next_do (call env (Sys_Join Log_Thread) (p1\<lparr>pg_countries := NULL, pg_queue := NULL, pg_logthread := False\<rparr>)) (\<lambda>_ p2.
       next_do (bx_log_close env p2) (\<lambda>_. ?last)) = Some (Inr code, p')"
    using assms unfolding stop_all_def by (rule next_do_goes)
  obtain a2 p2 where p2: "call env (Sys_Join Log_Thread) (p1\<lparr>pg_countries := NULL, pg_queue := NULL, pg_logthread := False\<rparr>) = Some (Inr a2, p2)"
    and r2: "next_do (bx_log_close env p2) (\<lambda>_. ?last) = Some (Inr code, p')"
    using r1 by (rule next_do_goes)
  obtain a3 p3 where p3: "bx_log_close env p2 = Some (Inr a3, p3)" and r3: "?last p3 = Some (Inr code, p')"
    using r2 by (rule next_do_goes)
  obtain a4 p4 where p4: "(if fd \<noteq> -1 then call env (Sys_Close fd) p3 else go_on 0 p3) = Some (Inr a4, p4)"
    and r4: "go_on 0 p4 = Some (Inr code, p')"
    using r3 by (rule next_do_goes)
  have "thread_calls p1 = thread_calls p @ map Sys_Join (Request_Thread # data_threads)" "pg_kill p1 = pg_kill p"
    using calls_thread_calls [OF p1] calls_kill [OF p1] by (simp_all add: thread_calls_def data_threads_def filter_map comp_def)
  moreover have "thread_calls p2 = thread_calls p1 @ [Sys_Join Log_Thread]" "pg_kill p2 = pg_kill p1"
    using call_adds [OF p2] by (simp_all add: thread_calls_def)
  moreover have "thread_calls p4 = thread_calls p3" "pg_kill p4 = pg_kill p3"
    using p4 by (auto simp: go_on_def split: if_splits dest: call_adds)
  ultimately show ?thesis using log_close_quiet [OF p3] r4 by (simp add: go_on_def)
qed

definition thread_order :: "sys_call list" where
  "thread_order =
     map Sys_Create (Log_Thread # Request_Thread # data_threads) @ map Sys_Join (Request_Thread # data_threads @ [Log_Thread])"

lemma handlers_goes:
  assumes "next_do (set_handler env s p) f = Some (Inr b, p')"
  obtains p1 where "thread_calls p1 = thread_calls p" and "f () p1 = Some (Inr b, p')"
proof -
  obtain a p1 where "set_handler env s p = Some (Inr a, p1)" and "f () p1 = Some (Inr b, p')"
    using assms by (auto elim: next_do_goes)
  then show ?thesis using that quiet_thread_calls [OF quiet_handler] by metis
qed

lemma serve_calls:
  assumes "serve env fd p = Some (Inr code, p')"
  shows "thread_calls p' = thread_calls p @ thread_order \<and> code = 0 \<and> pg_kill p'"
proof -
  obtain p1 where "thread_calls p1 = thread_calls p" and r1:
    "next_do (set_handler env SIGTERM p1) (\<lambda>_ p2. next_do (set_handler env SIGHUP p2) (\<lambda>_ p3.
     next_do (start_log env p3) (\<lambda>_ p4. next_do (start_net env p4) (\<lambda>_ p5. next_do (load_first env p5) (\<lambda>_ p6.
     next_do (calls env (map Sys_Create data_threads) (start_chain env p6)) (\<lambda>_ p7.
     next_do (wait_kill env p7) (\<lambda>_. stop_all env fd))))))) = Some (Inr code, p')"
    using assms unfolding serve_def by (rule handlers_goes)
  moreover obtain p2 where "thread_calls p2 = thread_calls p1" and r2:
    "next_do (set_handler env SIGHUP p2) (\<lambda>_ p3.
     next_do (start_log env p3) (\<lambda>_ p4. next_do (start_net env p4) (\<lambda>_ p5. next_do (load_first env p5) (\<lambda>_ p6.
     next_do (calls env (map Sys_Create data_threads) (start_chain env p6)) (\<lambda>_ p7.
     next_do (wait_kill env p7) (\<lambda>_. stop_all env fd)))))) = Some (Inr code, p')"
    using r1 by (rule handlers_goes)
  moreover obtain p3 where "thread_calls p3 = thread_calls p2" and r3:
    "next_do (start_log env p3) (\<lambda>_ p4. next_do (start_net env p4) (\<lambda>_ p5. next_do (load_first env p5) (\<lambda>_ p6.
     next_do (calls env (map Sys_Create data_threads) (start_chain env p6)) (\<lambda>_ p7.
     next_do (wait_kill env p7) (\<lambda>_. stop_all env fd))))) = Some (Inr code, p')"
    using r2 by (rule handlers_goes)
  moreover obtain u4 p4 where p4: "start_log env p3 = Some (Inr u4, p4)" and r4:
    "next_do (start_net env p4) (\<lambda>_ p5. next_do (load_first env p5) (\<lambda>_ p6.
     next_do (calls env (map Sys_Create data_threads) (start_chain env p6)) (\<lambda>_ p7.
     next_do (wait_kill env p7) (\<lambda>_. stop_all env fd)))) = Some (Inr code, p')"
    using r3 by (rule next_do_goes)
  moreover obtain u5 p5 where p5: "start_net env p4 = Some (Inr u5, p5)" and r5:
    "next_do (load_first env p5) (\<lambda>_ p6.
     next_do (calls env (map Sys_Create data_threads) (start_chain env p6)) (\<lambda>_ p7.
     next_do (wait_kill env p7) (\<lambda>_. stop_all env fd))) = Some (Inr code, p')"
    using r4 by (rule next_do_goes)
  moreover obtain u6 p6 where p6: "load_first env p5 = Some (Inr u6, p6)" and r6:
    "next_do (calls env (map Sys_Create data_threads) (start_chain env p6)) (\<lambda>_ p7.
     next_do (wait_kill env p7) (\<lambda>_. stop_all env fd)) = Some (Inr code, p')"
    using r5 by (rule next_do_goes)
  moreover obtain u7 p7 where p7: "calls env (map Sys_Create data_threads) (start_chain env p6) = Some (Inr u7, p7)" and r7:
    "next_do (wait_kill env p7) (\<lambda>_. stop_all env fd) = Some (Inr code, p')"
    using r6 by (rule next_do_goes)
  moreover obtain u8 p8 where p8: "wait_kill env p7 = Some (Inr u8, p8)" and r8: "stop_all env fd p8 = Some (Inr code, p')"
    using r7 by (rule next_do_goes)
  ultimately show ?thesis
    using start_log_calls [OF p4] start_net_calls [OF p5] quiet_thread_calls [OF quiet_load p6] calls_thread_calls [OF p7]
      wait_kill_ends [OF p8] stop_all_calls [OF r8]
    by (simp add: thread_order_def waited_def thread_calls_cong [OF start_chain_simps(1)] data_threads_def)
qed

section \<open>The rights\<close>

text \<open>The pid file was locked, and then the group and the user were changed, in this order.\<close>

definition rights_dropped :: "'w program_env \<Rightarrow> 'w program \<Rightarrow> (sys_call \<times> int) list \<Rightarrow> bool" where
  "rights_dropped env p tr \<longleftrightarrow>
     (\<exists>a b c fd l. l \<noteq> -1 \<and> tr = a @ (Sys_Flock fd, l) # b @
        [(Sys_Setgid (setting_int env p ''gid''), 0), (Sys_Setuid (setting_int env p ''uid''), 0)] @ c)"

lemma rights_dropped_append: "rights_dropped env p tr \<Longrightarrow> rights_dropped env p (tr @ tr')"
  unfolding rights_dropped_def by (elim exE conjE) (simp, blast)

lemma write_pid_locked:
  assumes "write_pid env f p = Some (Inr fd, p')" and "0 \<le> fd"
  shows "list_ex (\<lambda>(c, l). c = Sys_Flock fd \<and> l \<noteq> -1) (pg_calls p')"
  using assms
  by (auto simp: write_pid_def next_do_def call_def go_on_def bx_log_write_def split: option.splits if_splits sum.splits)

lemma setting_int_cong: "pg_conf p' = pg_conf p \<Longrightarrow> setting_int env p' k = setting_int env p k"
  by (simp add: setting_int_def)

lemma no_give_up [simp]: "give_up env msg p = Some (Inr a, p') \<longleftrightarrow> False"
  by (auto simp: give_up_def exit_with_def elim!: next_do_goes)

lemma background_drops:
  assumes "background env p = Some (Inr fd, p')" and "setting_int env p ''no-deamon'' = 0"
  shows "rights_dropped env p (pg_calls p')"
proof -
  obtain r p1 where p1: "deamon env (setting_int env p ''fork-single'') p = Some (Inr r, p1)"
    and r1: "(if r \<noteq> 0 then give_up env ''Error going deamon'' p1
        else next_do (write_pid env (setting_string env p1 ''pid-file'') p1) (\<lambda>fd p2.
          if fd < 0 then give_up env ''Error writing pid'' p2
          else next_do (call env (Sys_Setgid (setting_int env p2 ''gid'')) p2) (\<lambda>r p3.
            if r \<noteq> 0 then give_up env ''setgid failed'' p3
            else next_do (call env (Sys_Setuid (setting_int env p3 ''uid'')) p3) (\<lambda>r p4.
              if r \<noteq> 0 then give_up env ''setuid failed'' p4 else go_on fd p4)))) = Some (Inr fd, p')"
    using assms by (auto simp: background_def elim: next_do_goes)
  then obtain fd2 p2 where p2: "write_pid env (setting_string env p1 ''pid-file'') p1 = Some (Inr fd2, p2)"
    and r2: "(if fd2 < 0 then give_up env ''Error writing pid'' p2
          else next_do (call env (Sys_Setgid (setting_int env p2 ''gid'')) p2) (\<lambda>r p3.
            if r \<noteq> 0 then give_up env ''setgid failed'' p3
            else next_do (call env (Sys_Setuid (setting_int env p3 ''uid'')) p3) (\<lambda>r p4.
              if r \<noteq> 0 then give_up env ''setuid failed'' p4 else go_on fd2 p4))) = Some (Inr fd, p')"
    by (auto split: if_splits elim: next_do_goes)
  have conf: "pg_conf p2 = pg_conf p" using addsE [OF quiet_deamon p1] addsE [OF quiet_write_pid p2] by metis
  from r2 have "0 \<le> fd2" by (auto split: if_splits)
  from write_pid_locked [OF p2 this] obtain a b l where "l \<noteq> -1" "pg_calls p2 = a @ (Sys_Flock fd2, l) # b"
    by (auto simp: list_ex_iff dest: split_list)
  moreover have "pg_calls p' = pg_calls p2 @ [(Sys_Setgid (setting_int env p2 ''gid''), 0), (Sys_Setuid (setting_int env p2 ''uid''), 0)]"
    using r2 by (auto simp: next_do_def call_def go_on_def setting_int_def split: if_splits option.splits)
  ultimately show ?thesis
    unfolding rights_dropped_def setting_int_cong [OF conf]
    by (intro exI [of _ a] exI [of _ b] exI [of _ "[]"] exI [of _ fd2] exI [of _ l]) simp
qed

lemma adds_any: "adds P r p \<Longrightarrow> adds (\<lambda>_. True) r p"
  by (erule adds_mono) simp

lemma adds_wait: "adds (\<lambda>_. True) (wait_kill env p) p"
  unfolding adds_def by (auto dest!: wait_kill_ends simp: waited_def prefix_def list_all_iff)

lemma adds_stop: "adds (\<lambda>_. True) (stop_all env fd p) p"
proof -
  have "adds (\<lambda>_. True) (calls env cs (stop_queue p)) p" for cs
    by (rule adds_same [OF stop_queue_simps(1) _ adds_calls]) (simp_all add: list_all_iff)
  then show ?thesis unfolding stop_all_def by (rule adds_next) (auto simp: bx_log_close_def intro!: adds_next)
qed

lemma adds_serve: "adds (\<lambda>_. True) (serve env fd p) p"
proof -
  have "adds (\<lambda>_. True) (start_log env p) p" for p
    by (auto simp: start_log_def intro!: adds_next)
  moreover have "adds (\<lambda>_. True) (start_net env p) p" for p
    by (auto simp: start_net_def intro!: adds_next split: option.splits prod.splits ptr.splits)
  moreover have "adds (\<lambda>_. True) (calls env cs (start_chain env p)) p" for cs p
    by (rule adds_same [OF start_chain_simps adds_calls]) (simp add: list_all_iff)
  ultimately show ?thesis unfolding serve_def
    by (intro adds_next adds_any [OF quiet_handler] adds_any [OF quiet_load] adds_wait adds_stop)
qed

text \<open>A thread is created only by the part of the program that follows the start-up.\<close>

definition guarded :: "'w program_env \<Rightarrow> 'w program \<Rightarrow> bool" where
  "guarded env p \<longleftrightarrow> (\<forall>pre t r post. pg_calls p = pre @ (Sys_Create t, r) # post \<longrightarrow> rights_dropped env p pre)"

lemma guarded_quiet: "list_all ((\<lambda>c. \<not> on_threads c) \<circ> fst) (pg_calls p) \<Longrightarrow> guarded env p"
  by (auto simp: guarded_def)

lemma guarded_after:
  assumes "list_all ((\<lambda>c. \<not> on_threads c) \<circ> fst) tr" and "rights_dropped env p tr" and "pg_calls p = tr @ cs"
  shows "guarded env p"
  unfolding guarded_def
proof (intro allI impI)
  fix pre t r post
  assume "pg_calls p = pre @ (Sys_Create t, r) # post"
  then have "tr @ cs = pre @ (Sys_Create t, r) # post" using assms(3) by simp
  moreover have "(Sys_Create t, r) \<notin> set tr" using assms(1) by (auto simp: list_all_iff)
  ultimately obtain us where "pre = tr @ us" by (auto simp: append_eq_append_conv2 append_eq_Cons_conv)
  then show "rights_dropped env p pre" using rights_dropped_append [OF assms(2)] by simp
qed

lemma run_program_guarded:
  assumes "run_program env p = Some (res, p')" and "pg_calls p = []" and "setting_int env p' ''no-deamon'' = 0"
  shows "guarded env p'"
proof -
  let ?log = "bx_log_init env (setting_string env p ''log-file'') p"
  obtain x1 p1 where p1: "?log = Some (x1, p1)" using assms(1) by (auto simp: run_program_def next_do_def split: option.splits)
  obtain c1 where c1: "pg_calls p1 = c1" "list_all ((\<lambda>c. \<not> on_threads c) \<circ> fst) c1" "pg_conf p1 = pg_conf p"
    using addsE [OF quiet_log(1) p1] assms(2) by auto
  show ?thesis
  proof (cases x1)
    case (Inl code)
    then show ?thesis using assms(1) p1 c1 by (auto simp: run_program_def next_do_def intro: guarded_quiet)
  next
    case (Inr u)
    have run: "next_do (background env p1) (serve env) = Some (res, p')"
      using assms(1) p1 Inr by (simp add: run_program_def next_do_def)
    then obtain x2 p2 where p2: "background env p1 = Some (x2, p2)" by (auto simp: next_do_def split: option.splits)
    obtain c2 where c2: "pg_calls p2 = c1 @ c2" "list_all ((\<lambda>c. \<not> on_threads c) \<circ> fst) (c1 @ c2)" "pg_conf p2 = pg_conf p1"
      using addsE [OF quiet_background p2] c1(1,2) by auto
    show ?thesis
    proof (cases x2)
      case (Inl code)
      then show ?thesis using run p2 c2 by (auto simp: next_do_def intro: guarded_quiet)
    next
      case (Inr fd)
      then have "serve env fd p2 = Some (res, p')" using run p2 by (simp add: next_do_def)
      from addsE [OF adds_serve this] obtain cs where cs: "pg_calls p' = (c1 @ c2) @ cs" "pg_conf p' = pg_conf p1"
        using c2 by auto
      have "rights_dropped env p1 (pg_calls p2)"
        by (rule background_drops [OF p2 [unfolded Inr]]) (use assms(3) setting_int_cong [OF cs(2)] in simp)
      then have "rights_dropped env p' (c1 @ c2)"
        unfolding rights_dropped_def setting_int_cong [OF cs(2)] by (simp add: c2(1))
      then show ?thesis using guarded_after c2(2) cs(1) by blast
    qed
  qed
qed

lemma quiet_login: "quiet (run_login env p) p"
  by (auto simp: run_login_def intro!: adds_next quiet_log split: ptr.splits option.splits prod.splits)

lemma main_guarded:
  assumes "main env args p = Some (res, p')" and "pg_calls p = []" and "setting_int env p' ''no-deamon'' = 0"
  shows "guarded env p'"
proof -
  have "guarded env p'" if "run_login env q = Some (res, p')" and "pg_calls q = []" for q
    using addsE [OF quiet_login that(1)] that(2) guarded_quiet by (metis append_Nil)
  then show ?thesis using assms run_program_guarded [OF _ _ assms(3)]
    by (auto simp: main_def exit_with_def with_conf_def with_world_def intro: guarded_quiet
        split: option.splits prod.splits bool.splits if_splits)
qed

lemma main_threads:
  assumes "main env args p = Some (Inr code, p')" and "parse_args args = Some (False, path)" and "pg_calls p = []"
  shows "thread_calls p' = thread_order \<and> code = 0 \<and> pg_kill p'"
proof -
  have "thread_calls p' = thread_order \<and> code = 0 \<and> pg_kill p'"
    if run: "run_program env q = Some (Inr code, p')" and empty: "pg_calls q = []" for q
  proof -
    obtain a1 p1 where p1: "bx_log_init env (setting_string env q ''log-file'') q = Some (Inr a1, p1)"
      and r1: "next_do (background env p1) (serve env) = Some (Inr code, p')"
      using run unfolding run_program_def by (rule next_do_goes)
    obtain fd p2 where p2: "background env p1 = Some (Inr fd, p2)" and r2: "serve env fd p2 = Some (Inr code, p')"
      using r1 by (rule next_do_goes)
    show ?thesis
      using serve_calls [OF r2] quiet_thread_calls [OF quiet_background p2] quiet_thread_calls [OF quiet_log(1) p1] empty
      by (simp add: thread_calls_def)
  qed
  then show ?thesis using assms
    by (auto simp: main_def exit_with_def with_conf_def with_world_def split: prod.splits bool.splits if_splits)
qed

text \<open>A start that ends early: the parts that can end the process come before the network, or are the network.\<close>

definition goes :: "('a, 'w) outcome \<Rightarrow> bool" where
  "goes r \<longleftrightarrow> (\<forall>code p'. r \<noteq> Some (Inl code, p'))"

lemma goes_next: "goes r \<Longrightarrow> (\<And>a p1. goes (f a p1)) \<Longrightarrow> goes (next_do r f)"
  unfolding goes_def next_do_def by (auto split: option.splits sum.splits)

lemma goes_parts:
  "goes (go_on a p)" "goes (call env c p)" "goes (calls env cs p)" "goes (bx_log_close env p)" "goes (load_first env p)" "goes (wait_kill env p)"
proof -
  show call: "goes (call env c p)" for c p by (auto simp: goes_def call_def go_on_def split: option.splits)
  show "goes (calls env cs p)" using calls_thread_calls [of env cs p] by (auto simp: goes_def)
  show "goes (bx_log_close env p)" using call by (simp add: bx_log_close_def) (simp add: goes_def)
  show "goes (load_first env p)" by (auto simp: goes_def load_first_def go_on_def Let_def split: option.splits prod.splits bool.splits)
  show "goes (wait_kill env p)" using wait_kill_ends [of env p] by (auto simp: goes_def waited_def)
qed (simp add: goes_def go_on_def)

lemma goes_stop: "goes (stop_all env fd p)"
proof -
  have "goes (if fd \<noteq> -1 then call env (Sys_Close fd) q else go_on 0 q)" for q by (simp add: goes_parts)
  then show ?thesis unfolding stop_all_def by (intro goes_next goes_parts)
qed

lemma next_stops:
  assumes "next_do r f = Some (Inl code, p')"
  obtains "r = Some (Inl code, p')" | a p1 where "r = Some (Inr a, p1)" and "f a p1 = Some (Inl code, p')"
  using assms by (auto simp: next_do_def split: option.splits sum.splits)

lemma quiet_stops:
  assumes "next_do r f = Some (Inl code, p')" and "quiet r p"
  obtains "thread_calls p' = thread_calls p"
    | a p1 where "thread_calls p1 = thread_calls p" and "f a p1 = Some (Inl code, p')"
  using next_stops [OF assms(1)] quiet_thread_calls [OF assms(2)] that by metis

lemma start_log_stops: "start_log env p = Some (Inl code, p') \<Longrightarrow> thread_calls p' = thread_calls p"
  by (auto simp: start_log_def next_do_def call_def go_on_def exit_with_def thread_calls_def split: option.splits if_splits)

lemma start_net_stops: "start_net env p = Some (Inl code, p') \<Longrightarrow> thread_calls p' = thread_calls p"
  by (auto simp: start_net_def next_do_def call_def go_on_def exit_with_def thread_calls_def split: option.splits prod.splits ptr.splits)

lemma serve_stops:
  assumes "serve env fd p = Some (Inl code, p')"
  shows "thread_calls p' = thread_calls p \<or> thread_calls p' = thread_calls p @ [Sys_Create Log_Thread]"
proof -
  let ?rest = "\<lambda>p5. next_do (load_first env p5) (\<lambda>_ p6. next_do (calls env (map Sys_Create data_threads) (start_chain env p6)) (\<lambda>_ p7.
     next_do (wait_kill env p7) (\<lambda>_. stop_all env fd)))"
  have "goes (?rest p5)" for p5 by (intro goes_next goes_parts goes_stop)
  then have rest: "?rest p5 \<noteq> Some (Inl code, p')" for p5 unfolding goes_def by blast
  have net: "thread_calls p' = thread_calls q" if run: "next_do (start_net env q) (\<lambda>_. ?rest) = Some (Inl code, p')" for q
    using next_stops [OF run] start_net_stops rest by metis
  let ?ends = "\<lambda>q. thread_calls p' = thread_calls q \<or> thread_calls p' = thread_calls q @ [Sys_Create Log_Thread]"
  let ?log = "\<lambda>p3. next_do (start_log env p3) (\<lambda>_ p4. next_do (start_net env p4) (\<lambda>_. ?rest))"
  have log: "?ends q" if "?log q = Some (Inl code, p')" for q
  proof (rule next_stops [OF that])
    assume "start_log env q = Some (Inl code, p')"
    then show ?thesis using start_log_stops by blast
  next
    fix u p4 assume p4: "start_log env q = Some (Inr u, p4)" "next_do (start_net env p4) (\<lambda>_. ?rest) = Some (Inl code, p')"
    then show ?thesis using net [OF p4(2)] start_log_calls [OF p4(1)] by simp
  qed
  have handler: "?ends q"
    if "next_do (set_handler env sig q) (\<lambda>_. f) = Some (Inl code, p')" and "\<And>r. f r = Some (Inl code, p') \<Longrightarrow> ?ends r" for sig q f
    by (rule quiet_stops [OF that(1) quiet_handler]) (auto dest: that(2))
  have "?ends r" if "next_do (set_handler env SIGHUP r) (\<lambda>_. ?log) = Some (Inl code, p')" for r
    using handler [OF that log] .
  then have "?ends r" if "next_do (set_handler env SIGTERM r) (\<lambda>_ r. next_do (set_handler env SIGHUP r) (\<lambda>_. ?log)) = Some (Inl code, p')" for r
    using handler [OF that] by blast
  then show ?thesis using handler [OF assms [unfolded serve_def]] by blast
qed

lemma main_stops:
  assumes "main env args p = Some (Inl code, p')" and "parse_args args = Some (False, path)" and "pg_calls p = []"
  shows "thread_calls p' = [] \<or> thread_calls p' = [Sys_Create Log_Thread]"
proof -
  have "thread_calls p' = [] \<or> thread_calls p' = [Sys_Create Log_Thread]"
    if run: "run_program env q = Some (Inl code, p')" and empty: "pg_calls q = []" for q
    using run unfolding run_program_def
  proof (elim quiet_stops [OF _ quiet_log(1)] quiet_stops [OF _ quiet_background])
    fix p1 fd p2
    assume "thread_calls p1 = thread_calls q" "thread_calls p2 = thread_calls p1" "serve env fd p2 = Some (Inl code, p')"
    then show ?thesis using serve_stops empty by (fastforce simp: thread_calls_def)
  qed (use empty in \<open>simp_all add: thread_calls_def\<close>)
  then show ?thesis using assms
    by (auto simp: main_def exit_with_def with_conf_def with_world_def thread_calls_def split: prod.splits bool.splits if_splits)
qed

section \<open>A run of the program\<close>

text \<open>
  A program in the background whose calls all succeed, with a usable token, no countries and no
  connection for the lookups, and a signal to stop once the threads have started.
\<close>

definition run_main :: "u64 set main_env" where
  "run_main = gone_env\<lparr>mn_sync := listed_env\<lparr>se_walk := \<lparr>we_request = (\<lambda>path args w.
     Some (Ptr ((bx_net_request_new path)\<lparr>rq_response := Ptr \<lparr>rd_data = Ptr ''[]'', rd_data_len = 2, rd_http_code = 200\<rparr>,
       rq_decoded := Ptr (JArray [])\<rparr>), w)), we_sleep = (\<lambda>w. w)\<rparr>\<rparr>\<rparr>"

definition run_config :: json where
  "run_config = JObject [(''bexio-endpoint'', JString ''http://x/''), (''oauth-client-id'', JString ''c''),
     (''oauth-client-secret'', JString ''r''), (''oauth-access-token'', JString ''a''), (''oauth-expires-at'', JInt 5000)]"

fun run_call :: "sys_call \<Rightarrow> int" where
  "run_call (Sys_Open f) = 3"
| "run_call (Sys_Write fd s) = int (length s)"
| "run_call Sys_Snowflake = 1"
| "run_call c = 0"

definition run_env :: "u64 set program_env" where
  "run_env = \<lparr>pe_main = run_main, pe_call = (\<lambda>c w. Some (run_call c, w)), pe_signals = (\<lambda>w. ([SIGTERM], w)),
     pe_config = (\<lambda>path w. (Ptr run_config, w)), pe_strtod = (\<lambda>s. None), pe_set_up = (\<lambda>c s. True),
     pe_oauth = \<lparr>oe_mysql = listed_mysql, oe_prepare = (\<lambda>q w. (True, w)), oe_close = (\<lambda>w. w), oe_time = (\<lambda>w. (1000, w)),
       oe_post = (\<lambda>form w. (NULL, w)), oe_decode = (\<lambda>t. NULL)\<rparr>,
     pe_url_decode = Ptr, pe_rand = (Ptr ''v'', Ptr ''s''), pe_challenge = Ptr, pe_url = (\<lambda>ps. Ptr ''u''), pe_events = []\<rparr>"

definition run_start :: "u64 set program" where
  "run_start = \<lparr>pg_calls = [], pg_chain = listed_state BX_CHAIN_PROJECT, pg_log = False, pg_log_path = [], pg_logthread = False,
     pg_countries = NULL, pg_queue = NULL, pg_kill = False, pg_reload = False\<rparr>"

text \<open>The settings, with the length of a name in the place of its hash.\<close>

abbreviation name_hash :: "string \<Rightarrow> u64" where
  "name_hash \<equiv> \<lambda>k. of_nat (length k)"

definition run_conf :: BXConf where
  "run_conf = snd (bx_conf_loadfile name_hash (Ptr run_config) bx_conf_init)"

lemma run_settings: "bx_conf_loadfile name_hash (Ptr run_config) [] = (True, run_conf)"
  by (simp add: run_conf_def bx_conf_loadfile_def run_config_def bx_conf_init_def)

lemma run_strings:
  "map (bx_conf_get_string name_hash run_conf)
     [''log-file'', ''pid-file'', ''mysql-host'', ''bexio-endpoint'', ''oauth-client-id'',
      ''oauth-client-secret'', ''oauth-redirect-uri'', ''oauth-scope'', ''oauth-access-token'', ''oauth-refresh-token''] =
     [NULL, NULL, NULL, Ptr ''http://x/'', Ptr ''c'', Ptr ''r'', Ptr ''a'', NULL, Ptr ''a'', Ptr ''r'']"
  by code_simp

lemma run_ints:
  "map (bx_conf_get_int name_hash run_conf) [''no-deamon'', ''fork-single'', ''gid'', ''uid'', ''oauth-expires-at''] =
     [0, 0, 0, 0, 5000]"
  by code_simp

lemma run_conf_values [simp]:
  "bx_conf_get_int name_hash run_conf ''no-deamon'' = 0"
  "bx_conf_get_int name_hash run_conf ''fork-single'' = 0"
  "bx_conf_get_int name_hash run_conf ''gid'' = 0"
  "bx_conf_get_int name_hash run_conf ''uid'' = 0"
  "bx_conf_get_string name_hash run_conf ''log-file'' = NULL"
  "bx_conf_get_string name_hash run_conf ''pid-file'' = NULL"
  "bx_conf_get_string name_hash run_conf ''mysql-host'' = NULL"
  using run_ints run_strings by simp_all

lemma run_tokens:
  "bx_conf_get_string name_hash run_conf ''bexio-endpoint'' = Ptr ''http://x/''"
  "bx_conf_get_string name_hash run_conf ''oauth-client-id'' = Ptr ''c''"
  "bx_conf_get_string name_hash run_conf ''oauth-client-secret'' = Ptr ''r''"
  "bx_conf_get_string name_hash run_conf ''oauth-redirect-uri'' = Ptr ''a''"
  "bx_conf_get_string name_hash run_conf ''oauth-scope'' = NULL"
  "bx_conf_get_string name_hash run_conf ''oauth-access-token'' = Ptr ''a''"
  "bx_conf_get_string name_hash run_conf ''oauth-refresh-token'' = Ptr ''r''"
  "bx_conf_get_int name_hash run_conf ''oauth-expires-at'' = 5000"
  using run_ints run_strings by simp_all

lemma run_net: "\<exists>net. bx_net_init name_hash (\<lambda>c s. True) (pe_oauth run_env) run_conf w = Some (Ptr net, w)"
  by (simp add: bx_net_init_def bx_oauth_init_def conf_string_def run_tokens bx_oauth_startup_def load_tokens_def
      bx_oauth_ensure_def access_usable_def token_present_def BX_OAUTH_SKEW_SEC_def run_env_def Let_def)

lemma run_load: "\<exists>p'. load_first run_env p = Some (Inr (), p') \<and> pg_conf p' = pg_conf p"
  by (simp add: load_first_def run_env_def run_main_def bx_country_code_load_def listed_env_def json_items_def as_array_def
      bootstrap_def lookups_def thread_setup_mysql_def gone_env_def thread_teardown_mysql_def go_on_def Let_def)

text \<open>A call of this run succeeds; what it leaves is a program with the same settings and an open log.\<close>

definition going :: "u64 set program \<Rightarrow> bool" where
  "going p \<longleftrightarrow> pg_conf p = run_conf \<and> pg_log p"

lemma going_call: "going p \<Longrightarrow> \<exists>p'. call run_env c p = Some (Inr (run_call c), p') \<and> going p'"
  by (simp add: call_def run_env_def go_on_def going_def)

lemma going_next:
  assumes "\<exists>p1. r = Some (Inr a, p1) \<and> going p1" and "\<And>p1. going p1 \<Longrightarrow> \<exists>p'. f a p1 = Some (Inr b, p') \<and> going p'"
  shows "\<exists>p'. next_do r f = Some (Inr b, p') \<and> going p'"
  using assms by (auto simp: next_do_def)

lemma going_calls: "going p \<Longrightarrow> \<exists>p'. calls run_env cs p = Some (Inr (), p') \<and> going p'"
proof (induction cs arbitrary: p)
  case Nil
  then show ?case by (simp add: go_on_def)
next
  case (Cons c cs)
  show ?case using going_next [OF going_call [OF Cons.prems] Cons.IH] by simp
qed

lemma going_must: "going p \<Longrightarrow> ok (run_call c) \<Longrightarrow> \<exists>p'. must run_env c ok msg p = Some (Inr (run_call c), p') \<and> going p'"
  unfolding must_def by (rule going_next [OF going_call]) (simp_all add: go_on_def)

lemma going_fork: "going p \<Longrightarrow> \<exists>p'. fork_off run_env msg p = Some (Inr (), p') \<and> going p'"
  unfolding fork_off_def by (rule going_next [OF going_must]) (simp_all add: go_on_def)

lemma going_settings [simp]:
  assumes "going p"
  shows "setting_int run_env p ''no-deamon'' = 0" "setting_int run_env p ''fork-single'' = 0"
    "setting_int run_env p ''gid'' = 0" "setting_int run_env p ''uid'' = 0" "setting_string run_env p ''pid-file'' = NULL"
  using assms by (simp_all add: setting_int_def setting_string_def going_def run_env_def run_main_def gone_env_def)

lemma going_no_message: "going p \<Longrightarrow> \<exists>p'. (if run_call (Sys_Chdir d) < 0 then f else go_on 0 p) = Some (Inr 0, p') \<and> going p'"
  by (simp add: go_on_def)

lemma going_second_fork:
  "going p \<Longrightarrow> \<exists>p'. (if (0::int) = 0 then fork_off run_env msg p else go_on () p) = Some (Inr (), p') \<and> going p'"
  by (simp add: going_fork)

lemma going_deamon: "going p \<Longrightarrow> \<exists>p'. deamon run_env 0 p = Some (Inr 0, p') \<and> going p'"
  unfolding deamon_def
  by (intro going_next [OF going_fork] going_next [OF going_must] going_next [OF going_calls] going_next [OF going_call]
        going_next [OF going_no_message] going_next [OF going_second_fork])
     (simp_all add: going_fork go_on_def del: calls.simps)

lemma going_write_pid: "going p \<Longrightarrow> \<exists>p'. write_pid run_env f p = Some (Inr 3, p') \<and> going p'"
  by (auto simp: write_pid_def call_def next_do_def run_env_def go_on_def going_def write_short_def)

lemma going_background: "going p \<Longrightarrow> \<exists>p'. background run_env p = Some (Inr 3, p') \<and> going p'"
  unfolding background_def
  by (simp, rule going_next [OF going_deamon], assumption, simp, rule going_next [OF going_write_pid], assumption, simp,
      rule going_next [OF going_call], assumption, simp, rule going_next [OF going_call], assumption, simp add: go_on_def)

lemma going_handler: "going p \<Longrightarrow> \<exists>p'. set_handler run_env sig p = Some (Inr (), p') \<and> going p'"
  unfolding set_handler_def by (rule going_next [OF going_call], assumption) (simp add: go_on_def)

lemma going_start_log: "going p \<Longrightarrow> \<exists>p'. start_log run_env p = Some (Inr (), p') \<and> going p'"
  unfolding start_log_def
  by (rule going_next [OF going_call], assumption, simp, rule going_next [OF going_call]) (simp_all add: go_on_def going_def)

lemma going_start_net: "going p \<Longrightarrow> \<exists>p'. start_net run_env p = Some (Inr (), p') \<and> going p'"
  using run_net [of "pg_world p"]
  by (auto simp: start_net_def going_def run_env_def run_main_def gone_env_def next_do_def call_def go_on_def)

lemma going_load: "going p \<Longrightarrow> \<exists>p'. load_first run_env p = Some (Inr (), p') \<and> going p'"
  using run_load [of p]
  by (auto simp: load_first_def go_on_def going_def Let_def split: option.splits prod.splits bool.splits)

lemma going_wait: "going p \<Longrightarrow> \<exists>p'. wait_kill run_env p = Some (Inr (), p') \<and> going p'"
  by (subst wait_kill.simps) (simp add: deliver_def run_env_def signal_hander_def SIGTERM_def SIGINT_def go_on_def going_def)

lemma going_close: "going p \<Longrightarrow> \<exists>p'. bx_log_close run_env p = Some (Inr 0, p') \<and> going p'"
  using going_call [of p Sys_Log_Close] by (simp add: bx_log_close_def going_def)

lemma going_close_pid: "going p \<Longrightarrow> \<exists>p'. (if (3::int) \<noteq> -1 then call run_env (Sys_Close 3) p else go_on 0 p) = Some (Inr 0, p') \<and> going p'"
  using going_call [of p "Sys_Close 3"] by simp

lemma going_stop: "going p \<Longrightarrow> \<exists>p'. stop_all run_env 3 p = Some (Inr 0, p') \<and> going p'"
  unfolding stop_all_def
  by (intro going_next [OF going_calls] going_next [OF going_call] going_next [OF going_close] going_next [OF going_close_pid])
     (simp_all add: going_def go_on_def stop_queue_def)

lemma going_serve: "going p \<Longrightarrow> \<exists>p'. serve run_env 3 p = Some (Inr 0, p') \<and> going p'"
  unfolding serve_def
  by (intro going_next [OF going_handler] going_next [OF going_start_log] going_next [OF going_start_net]
      going_next [OF going_load] going_next [OF going_calls] going_next [OF going_wait] going_stop)
     (simp_all add: going_def start_chain_def bx_chain_init_def)

lemma run_ends: "\<exists>p'. main run_env [''conf''] run_start = Some (Inr 0, p') \<and> going p'"
proof -
  let ?q = "with_conf run_conf (with_world {4, 9} run_start)"
  have "\<exists>p1. bx_log_init run_env (setting_string run_env ?q ''log-file'') ?q = Some (Inr True, p1) \<and> going p1"
    by (simp add: bx_log_init_def next_do_def call_def run_env_def go_on_def going_def with_conf_def with_world_def Let_def)
  then have "\<exists>p'. run_program run_env ?q = Some (Inr 0, p') \<and> going p'"
    unfolding run_program_def
    by (rule going_next) (rule going_next [OF going_background], assumption, rule going_serve)
  moreover have "main run_env [''conf''] run_start = run_program run_env ?q"
    by (simp add: main_def parse_args_def run_env_def run_main_def gone_env_def bx_conf_init_def run_settings
        bx_conf_load_database_def conf_connect_def run_start_def listed_state_def)
  ultimately show ?thesis by simp
qed

section \<open>Properties\<close>

text \<open>
  C22: a program in the background has given up its rights before it starts a thread: whenever a
  thread was created, the pid file had been locked, and then the group and the user of the
  settings had been taken, each with success and in this order.
\<close>

theorem rights_before_threads:
  assumes "main env args p = Some (res, p')" and "pg_calls p = []" and "setting_int env p' ''no-deamon'' = 0"
    and "pg_calls p' = pre @ (Sys_Create t, r) # post"
  shows "rights_dropped env p' pre"
  using main_guarded [OF assms(1-3)] assms(4) by (auto simp: guarded_def)

theorem rights_before_threads_witness:
  "\<exists>p' pre r post. main run_env [''conf''] run_start = Some (Inr 0, p') \<and>
     pg_calls p' = pre @ (Sys_Create Log_Thread, r) # post \<and> rights_dropped run_env p' pre"
proof -
  obtain p' where p': "main run_env [''conf''] run_start = Some (Inr 0, p')" "going p'" using run_ends by blast
  have empty: "pg_calls run_start = []" by (simp add: run_start_def)
  have "Sys_Create Log_Thread \<in> set (thread_calls p')"
    using main_threads [OF p'(1) _ empty, of "''conf''"] by (simp add: parse_args_def thread_order_def)
  then obtain r where "(Sys_Create Log_Thread, r) \<in> set (pg_calls p')" by (auto simp: thread_calls_def)
  then obtain pre post where split: "pg_calls p' = pre @ (Sys_Create Log_Thread, r) # post" by (blast dest: split_list)
  from rights_before_threads [OF p'(1) empty going_settings(1) [OF p'(2)] split] p'(1) split show ?thesis by blast
qed



text \<open>A failed write of the pid file passes as a complete one.\<close>

lemma failed_write_passes: "\<not> write_short (-1) content"
  by (simp add: write_short_def not_less)

end
