(* ===== verification/Bx_Position.thy ===== *)
theory Bx_Position
  imports Bx_Documents Bx_Upsert_Properties
begin

text \<open>
  The decoders of the six kinds of position, the first half of \<open>src/src/bxobjects/position.c\<close>, the
  types of objects of \<open>src/src/include/bx_object.h\<close>, and the table of the functions of a type,
  \<open>src/src/include/bx_object_functions.h\<close> with its lookup in \<open>src/src/bx_decode.c\<close>. The kind of a
  position is found by the XXH32 hash of its name; the hash and the generator of ids, a git
  submodule, are arguments.
\<close>

section \<open>Types of objects\<close>

datatype BXObjectType =
  BXTypeNone | BXTypeInvoice | BXTypeContact | BXTypeContactGroup | BXTypeContactSector | BXTypeInvoiceTax
| BXTypeInvoicePositionCE | BXTypeInvoicePositionAE | BXTypeInvoicePositionDE | BXTypeInvoicePositionSE
| BXTypeInvoicePositionPE | BXTypeInvoicePositionTE | BXTypeUser | BXTypeLanguage | BXTypeProject | BXTypeAccount
| BXTypeUnit | BXTypeSalutation | BXTypeTitle | BXTypePaymentType | BXTypeCurrency

text \<open>The functions of a type, by name; a type may have no function that prints it.\<close>

datatype object_module = Invoice_Functions | Contact_Functions | Tax_Functions | Position_Functions

record BXObjectFunctions =
  of_type :: BXObjectType
  of_decode :: "object_module ptr"
  of_free :: "object_module ptr"
  of_dump :: "object_module ptr"

definition FunctionHandlers :: "BXObjectFunctions list" where
  "FunctionHandlers =
     [\<lparr>of_type = BXTypeInvoice, of_decode = Ptr Invoice_Functions, of_free = Ptr Invoice_Functions, of_dump = Ptr Invoice_Functions\<rparr>,
      \<lparr>of_type = BXTypeContact, of_decode = Ptr Contact_Functions, of_free = Ptr Contact_Functions, of_dump = Ptr Contact_Functions\<rparr>,
      \<lparr>of_type = BXTypeInvoiceTax, of_decode = Ptr Tax_Functions, of_free = Ptr Tax_Functions, of_dump = NULL\<rparr>,
      \<lparr>of_type = BXTypeInvoicePositionCE, of_decode = Ptr Position_Functions, of_free = Ptr Position_Functions, of_dump = Ptr Position_Functions\<rparr>,
      \<lparr>of_type = BXTypeInvoicePositionAE, of_decode = Ptr Position_Functions, of_free = Ptr Position_Functions, of_dump = Ptr Position_Functions\<rparr>,
      \<lparr>of_type = BXTypeInvoicePositionTE, of_decode = Ptr Position_Functions, of_free = Ptr Position_Functions, of_dump = Ptr Position_Functions\<rparr>,
      \<lparr>of_type = BXTypeInvoicePositionSE, of_decode = Ptr Position_Functions, of_free = Ptr Position_Functions, of_dump = Ptr Position_Functions\<rparr>,
      \<lparr>of_type = BXTypeInvoicePositionPE, of_decode = Ptr Position_Functions, of_free = Ptr Position_Functions, of_dump = Ptr Position_Functions\<rparr>,
      \<lparr>of_type = BXTypeInvoicePositionDE, of_decode = Ptr Position_Functions, of_free = Ptr Position_Functions, of_dump = Ptr Position_Functions\<rparr>,
      \<lparr>of_type = BXTypeNone, of_decode = NULL, of_free = NULL, of_dump = NULL\<rparr>]"

text \<open>The loop stops at the entry without a type; \<open>None\<close> is the failed assertion, or the end of the array.\<close>

fun select_loop :: "BXObjectType \<Rightarrow> BXObjectFunctions list \<Rightarrow> BXObjectFunctions ptr option" where
  "select_loop decoder [] = None"
| "select_loop decoder (f # fs) =
     (if of_type f = BXTypeNone then Some NULL
      else if of_type f = decoder then Some (Ptr f)
      else select_loop decoder fs)"

definition bx_decode_select_decoder :: "BXObjectType \<Rightarrow> BXObjectFunctions ptr option" where
  "bx_decode_select_decoder decoder = (if decoder = BXTypeNone then None else select_loop decoder FunctionHandlers)"

section \<open>Positions\<close>

record BXObjectPosition =
  op_type :: BXObjectType
  op_id :: u64
  op_checksum :: u64
  op_members :: bx_members

definition custom_fields :: "BXJsonField list" where
  "custom_fields =
     [BX_FIELD ''id'' BX_F_UINT, BX_FIELD ''unit_id'' BX_F_UINT, BX_FIELD ''account_id'' BX_F_UINT, BX_FIELD ''tax_id'' BX_F_UINT,
      BX_FIELD ''internal_pos'' BX_F_UINT, BX_FIELD ''parent_id'' BX_F_UINT, BX_FIELD ''unit_name'' BX_F_STR,
      BX_FIELD ''text'' BX_F_STR, BX_FIELD ''pos'' BX_F_STR, BX_FIELD ''is_optional'' BX_F_BOOL, BX_FIELD ''amount'' BX_F_FLOAT,
      BX_FIELD ''tax_value'' BX_F_FLOAT, BX_FIELD ''unit_price'' BX_F_FLOAT, BX_FIELD ''discount_in_percent'' BX_F_FLOAT,
      BX_FIELD ''position_total'' BX_F_FLOAT]"

definition article_fields :: "BXJsonField list" where
  "article_fields =
     [BX_FIELD ''id'' BX_F_UINT, BX_FIELD ''unit_id'' BX_F_UINT, BX_FIELD ''account_id'' BX_F_UINT, BX_FIELD ''tax_id'' BX_F_UINT,
      BX_FIELD ''internal_pos'' BX_F_UINT, BX_FIELD ''parent_id'' BX_F_UINT, BX_FIELD ''article_id'' BX_F_UINT,
      BX_FIELD ''unit_name'' BX_F_STR, BX_FIELD ''text'' BX_F_STR, BX_FIELD ''pos'' BX_F_STR, BX_FIELD ''is_optional'' BX_F_BOOL,
      BX_FIELD ''amount'' BX_F_FLOAT, BX_FIELD ''tax_value'' BX_F_FLOAT, BX_FIELD ''unit_price'' BX_F_FLOAT,
      BX_FIELD ''discount_in_percent'' BX_F_FLOAT, BX_FIELD ''position_total'' BX_F_FLOAT]"

definition text_fields :: "BXJsonField list" where
  "text_fields =
     [BX_FIELD ''id'' BX_F_UINT, BX_FIELD ''internal_pos'' BX_F_UINT, BX_FIELD ''parent_id'' BX_F_UINT, BX_FIELD ''text'' BX_F_STR,
      BX_FIELD ''pos'' BX_F_STR, BX_FIELD ''is_optional'' BX_F_BOOL, BX_FIELD ''show_pos_nr'' BX_F_BOOL]"

definition subtotal_fields :: "BXJsonField list" where
  "subtotal_fields =
     [BX_FIELD ''id'' BX_F_UINT, BX_FIELD ''internal_pos'' BX_F_UINT, BX_FIELD ''parent_id'' BX_F_UINT, BX_FIELD ''text'' BX_F_STR,
      BX_FIELD ''is_optional'' BX_F_BOOL, BX_FIELD ''value'' BX_F_FLOAT]"

definition page_break_fields :: "BXJsonField list" where
  "page_break_fields =
     [BX_FIELD ''id'' BX_F_UINT, BX_FIELD ''internal_pos'' BX_F_UINT, BX_FIELD ''parent_id'' BX_F_UINT, BX_FIELD ''is_optional'' BX_F_BOOL]"

definition discount_fields :: "BXJsonField list" where
  "discount_fields =
     [BX_FIELD ''id'' BX_F_UINT, BX_FIELD ''text'' BX_F_STR, BX_FIELD ''is_percentual'' BX_F_BOOL, BX_FIELD ''value'' BX_F_FLOAT,
      BX_FIELD ''discount_total'' BX_F_FLOAT]"

text \<open>The kind of a hash, with its members.\<close>

definition position_kind :: "u32 \<Rightarrow> (BXObjectType \<times> BXJsonField list) ptr" where
  "position_kind hash =
     (if hash = 0x2cf90d36 then Ptr (BXTypeInvoicePositionCE, custom_fields)
      else if hash = 0xb40e589d then Ptr (BXTypeInvoicePositionAE, article_fields)
      else if hash = 0x54907120 then Ptr (BXTypeInvoicePositionTE, text_fields)
      else if hash = 0x6448960f then Ptr (BXTypeInvoicePositionSE, subtotal_fields)
      else if hash = 0x40e1fad6 then Ptr (BXTypeInvoicePositionPE, page_break_fields)
      else if hash = 0xd54e4502 then Ptr (BXTypeInvoicePositionDE, discount_fields)
      else NULL)"

definition bx_object_position_decode :: "('w, 'z) store_env_scheme \<Rightarrow> (string \<Rightarrow> u32) \<Rightarrow> ('w \<Rightarrow> u64 \<times> 'w) \<Rightarrow> json \<Rightarrow> 'w
    \<Rightarrow> (BXObjectPosition ptr \<times> 'w) option" where
  "bx_object_position_decode env xxh32 gen_id jroot w =
     (case json_field jroot ''type'' of
        Some (JString kind) \<Rightarrow>
          (case position_kind (xxh32 kind) of
             NULL \<Rightarrow> Some (NULL, w)
           | Ptr (ty, flds) \<Rightarrow>
               (let (i, w1) = gen_id w in
                map_option (\<lambda>(members, checksum). (Ptr \<lparr>op_type = ty, op_id = i, op_checksum = checksum, op_members = members\<rparr>, w1))
                  (decode_members env flds jroot)))
      | _ \<Rightarrow> Some (NULL, w))"

text \<open>
  A position that was decoded has the members of its kind, and its type is one whose functions are
  those of positions.
\<close>

lemma kind_handled:
  assumes "position_kind hash = Ptr (ty, flds)"
  shows "\<exists>f. bx_decode_select_decoder ty = Some (Ptr f) \<and> of_decode f = Ptr Position_Functions \<and> of_free f = Ptr Position_Functions"
  using assms by (auto simp: position_kind_def bx_decode_select_decoder_def FunctionHandlers_def split: if_splits)

lemma decode_names:
  assumes "decode_members env flds obj = Some (members, checksum)"
  shows "map fst members = map fname flds"
  using assms by (auto simp: decode_members_def dest!: read_slots_length)

lemma decoded_position:
  assumes "bx_object_position_decode env xxh32 gen_id jroot w = Some (Ptr p, w')"
  shows "\<exists>kind flds f. json_field jroot ''type'' = Some (JString kind) \<and> position_kind (xxh32 kind) = Ptr (op_type p, flds) \<and>
    map fst (op_members p) = map fname flds \<and> bx_decode_select_decoder (op_type p) = Some (Ptr f) \<and> of_decode f = Ptr Position_Functions"
  using assms kind_handled decode_names
  by (fastforce simp: bx_object_position_decode_def Let_def split: option.splits json.splits ptr.splits prod.splits)

end
