(* ===== verification/Bx_Foreign.thy ===== *)
theory Bx_Foreign
  imports Bx_Upsert_Properties Bx_Documents
begin

text \<open>
  Which rows a handler can change: a statement that does not begin as an insertion into a table, an
  update of it or a deletion from it leaves its rows alone, and so does every request to the API. What
  the handlers of contacts, projects and invoices do besides their own statement is of this kind.
\<close>

section \<open>Statements on other tables\<close>

definition writes_to :: "string \<Rightarrow> string \<Rightarrow> bool" where
  "writes_to table t \<longleftrightarrow>
     list_ex (\<lambda>v. is_prefix (v @ table @ '' '') t) [''INSERT INTO '', ''INSERT IGNORE INTO '', ''UPDATE '', ''DELETE FROM '']"

definition table_alone :: "('w, 'z) sync_env_scheme \<Rightarrow> string \<Rightarrow> ('w \<Rightarrow> 'r) \<Rightarrow> bool" where
  "table_alone env table rows \<longleftrightarrow>
     quiet_api (st_api env) rows \<and>
     (\<forall>t bs w. \<not> writes_to table t \<longrightarrow> rows (snd (sa_execute (st_api env) t bs w)) = rows w) \<and>
     (\<forall>w. rows (snd (st_time env w)) = rows w) \<and>
     (\<forall>path args w r w'. we_request (se_walk env) path args w = Some (r, w') \<longrightarrow> rows w' = rows w)"

definition keeps :: "('w \<Rightarrow> 'r) \<Rightarrow> ('w \<Rightarrow> ('a \<times> 'w) option) \<Rightarrow> bool" where
  "keeps rows h \<longleftrightarrow> (\<forall>w x w'. h w = Some (x, w') \<longrightarrow> rows w' = rows w)"

lemma keepsD: "keeps rows h \<Longrightarrow> h w = Some (x, w') \<Longrightarrow> rows w' = rows w"
  by (auto simp: keeps_def)

lemma quiet_rows:
  assumes "quiet_api api rows"
  shows "sa_prepare api t w = (e, w') \<Longrightarrow> rows w' = rows w" "sa_bind api bs w = (e, w') \<Longrightarrow> rows w' = rows w"
    "sa_show_warnings api w = (r, w') \<Longrightarrow> rows w' = rows w" "sa_fetch api w = (c, e, w') \<Longrightarrow> rows w' = rows w"
  using assms unfolding quiet_api_def by (metis snd_conv)+

lemma prepared_foreign:
  assumes "quiet_api api rows" and "\<And>bs w. rows (snd (sa_execute api (cstr (dq_query q)) bs w)) = rows w"
    and "execute_prepared api q w = (ok, q', w')"
  shows "rows w' = rows w \<and> dq_query q' = dq_query q"
proof -
  let ?bs = "map fst (map param_to_bind (dq_parameters q))"
  obtain e1 w1 where b: "sa_bind api ?bs w = (e1, w1)" by fastforce
  obtain e2 w2 where x: "sa_execute api (cstr (dq_query q)) ?bs w1 = (e2, w2)" by fastforce
  obtain r w3 where s: "sa_show_warnings api w2 = (r, w3)" by fastforce
  have rows: "rows w1 = rows w" "rows w2 = rows w1" "rows w3 = rows w2"
    using quiet_rows [OF assms(1)] b s assms(2) [of ?bs w1] x by simp_all
  note ex = assms(3) [unfolded execute_prepared_def Let_def b, simplified prod.case x]
  show ?thesis
    using ex rows s
    by (auto simp: bx_database_print_warnings_def mark_reconnect_def split: if_splits sum.splits prod.splits)
qed

lemma execute_foreign:
  assumes "quiet_api api rows" and "\<And>bs w. rows (snd (sa_execute api (cstr (dq_query q)) bs w)) = rows w"
    and "bx_database_execute api q w = (ok, q', w')"
  shows "rows w' = rows w \<and> dq_query q' = dq_query q"
proof (cases "dq_executed q")
  case True
  then show ?thesis
    using assms(3) prepared_foreign [OF assms(1), of "bx_database_free_result q" w ok q' w'] assms(2)
    by (simp add: bx_database_execute_def bx_database_free_result_def)
next
  case False
  obtain e w1 where p: "sa_prepare api (cstr (dq_query q)) w = (e, w1)" by fastforce
  show ?thesis
    using assms(3) False p quiet_rows(1) [OF assms(1) p] prepared_foreign [OF assms(1,2), of w1 ok q' w']
    by (auto simp: bx_database_execute_def mark_reconnect_def split: if_splits)
qed

lemma results_quiet:
  assumes "quiet_api api rows" and "bx_database_results api q w = (ok, q', w')"
  shows "rows w' = rows w"
  using assms(2) quiet_rows(4) [OF assms(1)]
  by (auto simp: bx_database_results_def Let_def split: if_splits ptr.splits prod.splits)

lemma query_rows_foreign:
  assumes "quiet_api (st_api env) rows" and "\<And>bs w. rows (snd (sa_execute (st_api env) (cstr (dq_query q)) bs w)) = rows w"
    and "query_rows env q w = (ok, q', w')"
  shows "rows w' = rows w"
  using assms(3) execute_foreign [OF assms(1,2)] results_quiet [OF assms(1)]
  by (fastforce simp: query_rows_def split: prod.splits bool.splits)

text \<open>A query whose text is known.\<close>

definition plain_sql :: "string \<Rightarrow> bool" where
  "plain_sql sql \<longleftrightarrow> sql \<noteq> [] \<and> list_all (\<lambda>n. length n \<le> 28) (snd (sql_params sql)) \<and> list_all (\<lambda>c. c \<noteq> NUL) sql"

lemma plain_query:
  assumes "plain_sql sql"
  shows "\<exists>q. bx_database_new_query sql = Some (Ptr q) \<and> cstr (dq_query q) = fst (sql_params sql) \<and> \<not> dq_executed q"
  using new_query_spec [of sql] assms by (auto simp: plain_sql_def)

lemma foreign_table:
  assumes "table_alone env table rows" and "\<not> writes_to table (fst (sql_params sql))" and "cstr (dq_query q) = fst (sql_params sql)"
  shows "quiet_api (st_api env) rows" "\<And>bs w. rows (snd (sa_execute (st_api env) (cstr (dq_query q)) bs w)) = rows w"
  using assms by (simp_all add: table_alone_def)

text \<open>Bindings leave the text of a query alone.\<close>

lemma with_param_query [simp]: "dq_query (snd (with_param q n f)) = dq_query q" "dq_executed (snd (with_param q n f)) = dq_executed q"
  by (simp_all add: with_param_def split: option.split)

lemma bind_query [simp]:
  "dq_query (bind_value n v q) = dq_query q" "dq_query (bind_uint64 n u q) = dq_query q"
  "dq_executed (bind_value n v q) = dq_executed q" "dq_executed (bind_uint64 n u q) = dq_executed q"
  by (simp_all add: bind_value_def bind_uint64_def add_bxtype_update bx_database_add_param_uint64_def bx_database_add_param_int_def)

lemma bind_slots_query [simp]: "dq_query (bind_slots fs vs q) = dq_query q"
  by (induction fs vs q rule: bind_slots.induct) simp_all

definition text_kept :: "binding \<Rightarrow> bool" where
  "text_kept f \<longleftrightarrow> (\<forall>q. dq_query (snd (f q)) = dq_query q)"

lemma text_kept_binds [simp]:
  "text_kept (bxd_bind obj k)" "text_kept (u64_param n v)" "text_kept (char_bind obj k)"
  "text_kept (bx_database_add_param_int64 n i)" "text_kept (bx_database_add_param_uint8 n b)" "text_kept (bx_database_add_param_char n b1 m)"
  "text_kept (\<lambda>q. bx_database_add_bxtype q n a)"
  by (simp_all add: text_kept_def bxd_bind_def u64_param_def char_bind_def bx_database_add_param_int64_def
      bx_database_add_param_uint8_def bx_database_add_param_char_def add_bxtype_update bx_database_add_param_uint64_def
      bx_database_add_param_int_def bx_database_add_param_str_def)

lemma bind_each_query: "list_all text_kept fs \<Longrightarrow> dq_query (bind_each fs q) = dq_query q"
  by (induction fs q rule: bind_each.induct) (simp_all add: text_kept_def)

lemma all_bound_query: "list_all text_kept fs \<Longrightarrow> all_bound fs q = (b, q') \<Longrightarrow> dq_query q' = dq_query q"
  by (induction fs q arbitrary: b q' rule: all_bound.induct)
     (auto simp: text_kept_def split: prod.splits bool.splits dest!: arg_cong [where f = snd])

lemma text_kept_map: "(\<And>x. text_kept (f x)) \<Longrightarrow> list_all text_kept (map f xs)"
  by (simp add: list_all_iff)

section \<open>The generic upsert\<close>

lemma prefix_same [simp]: "is_prefix (v @ p) (v @ t) = is_prefix p t"
  by (simp add: is_prefix_def)

lemma prefix_name:
  assumes "list_all is_variable_char a" and "list_all is_variable_char b" and "is_prefix (a @ '' '') (b @ CHR '' '' # r)"
  shows "a = b"
  using assms
proof (induction a arbitrary: b)
  case Nil
  then show ?case by (cases b) (auto simp: is_prefix_def is_variable_char_def)
next
  case (Cons c a)
  then show ?case by (cases b) (auto simp: is_prefix_def is_variable_char_def)
qed

lemma other_table:
  assumes "list_all is_variable_char table" and "list_all is_variable_char tbl" and "tbl \<noteq> table" and "tbl \<noteq> ''IGNORE''"
  shows "\<not> writes_to table (''INSERT INTO '' @ tbl @ '' '' @ r)" "\<not> writes_to table (''UPDATE '' @ tbl @ '' '' @ r)"
    "\<not> writes_to table (''SELECT '' @ s)"
proof -
  have "\<not> is_prefix (table @ '' '') (tbl @ CHR '' '' # r)" using prefix_name [OF assms(1,2)] assms(3) by auto
  then show "\<not> writes_to table (''INSERT INTO '' @ tbl @ '' '' @ r)" "\<not> writes_to table (''UPDATE '' @ tbl @ '' '' @ r)"
    by (simp_all add: writes_to_def is_prefix_def)
  show "\<not> writes_to table (''SELECT '' @ s)" by (simp add: writes_to_def is_prefix_def)
qed

lemma fits_plain:
  assumes "table_fits tbl flds parent_sql"
  shows "plain_sql (select_text tbl flds parent_sql)" "write_text ins tbl flds parent_sql = Some sql \<Longrightarrow> plain_sql sql"
proof -
  have ok: "list_all (\<lambda>n. length n \<le> 28) (map (Cons (CHR '':'')) ns)" if "list_all ident ns" for ns
    using that by (auto simp: list_all_iff ident_def)
  have names: "list_all ident (map fname flds)" "list_all ident (map fname (tl flds))"
    using assms by (auto simp: table_fits_def list_all_iff dest: list.set_sel(2))
  have "list_all ident (''id'' # parent_params parent_sql)"
    using parent_params_ident by (simp add: ident_def is_variable_char_def)
  from ok [OF this] show "plain_sql (select_text tbl flds parent_sql)"
    using select_names [OF assms] by (simp add: plain_sql_def)
  assume w: "write_text ins tbl flds parent_sql = Some sql"
  have "list_all ident (map fname flds @ parent_params parent_sql @ marks)"
      "list_all ident (map fname (tl flds) @ marks @ ''id'' # parent_params parent_sql)"
    using names parent_params_ident marks_ident by (simp_all add: ident_def is_variable_char_def)
  from ok [OF this(1)] ok [OF this(2)] show "plain_sql sql"
    using w insert_text [OF assms] update_text [OF assms] by (cases ins) (auto simp: plain_sql_def)
qed

lemma take_prefix: "length p \<le> n \<Longrightarrow> take n (p @ r) = p @ take (n - length p) r"
  by simp

lemma fits_foreign:
  assumes "table_fits tbl flds parent_sql" and "list_all is_variable_char table" and "tbl \<noteq> table"
  shows "\<not> writes_to table (fst (sql_params (select_text tbl flds parent_sql)))"
    "write_text ins tbl flds parent_sql = Some sql \<Longrightarrow> \<not> writes_to table (fst (sql_params sql))"
proof -
  have t: "list_all is_variable_char tbl" "length tbl \<le> 18" "tbl \<noteq> ''IGNORE''"
    using assms(1) table_name by (auto simp: table_fits_def table_allowed_def)
  note other = other_table [OF assms(2) t(1) assms(3) t(3)]
  have "\<exists>r. select_text tbl flds parent_sql = ''SELECT '' @ r" by (simp add: select_text_def)
  then show "\<not> writes_to table (fst (sql_params (select_text tbl flds parent_sql)))"
    using sql_plain [of "''SELECT ''"] other(3) by auto
  assume w: "write_text ins tbl flds parent_sql = Some sql"
  show "\<not> writes_to table (fst (sql_params sql))"
  proof (cases ins)
    case True
    let ?pre = "''INSERT INTO '' @ tbl @ '' ''"
    obtain r where "sql = take 2799 (?pre @ r)" using w True by (auto simp: write_text_def)
    moreover have "length ?pre \<le> 2799" using t(2) by simp
    ultimately have "sql = ?pre @ take (2799 - length ?pre) r" by (simp only: take_prefix)
    moreover have "list_all (\<lambda>c. c \<noteq> CHR '':'') ?pre" using ident_plain [OF t(1)] by simp
    ultimately have "fst (sql_params sql) = ?pre @ fst (sql_params (take (2799 - length ?pre) r))"
      using sql_plain [of ?pre] by simp
    then show ?thesis using other(1) by simp
  next
    case False
    let ?pre = "''UPDATE '' @ tbl @ '' ''"
    obtain r where "sql = take 2799 (?pre @ r)" using w False by (auto simp: write_text_def)
    moreover have "length ?pre \<le> 2799" using t(2) by simp
    ultimately have "sql = ?pre @ take (2799 - length ?pre) r" by (simp only: take_prefix)
    moreover have "list_all (\<lambda>c. c \<noteq> CHR '':'') ?pre" using ident_plain [OF t(1)] by simp
    ultimately have "fst (sql_params sql) = ?pre @ fst (sql_params (take (2799 - length ?pre) r))"
      using sql_plain [of ?pre] by simp
    then show ?thesis using other(2) by simp
  qed
qed

lemma run_foreign:
  assumes "table_alone env table rows" and "\<not> writes_to table (cstr (dq_query q))" and "query_rows env q w = (ok, q', w')"
  shows "rows w' = rows w"
  using assms by (intro query_rows_foreign [OF _ _ assms(3)]) (simp_all add: table_alone_def)

lemma keeps_write_row:
  assumes "table_alone env table rows" and "table_fits tbl flds parent_sql" and "list_all is_variable_char table" and "tbl \<noteq> table"
  shows "keeps rows (write_row env ins tbl flds slots checksum parent_sql parent_id)"
  unfolding keeps_def
proof (intro allI impI)
  fix w e w'
  assume run: "write_row env ins tbl flds slots checksum parent_sql parent_id w = Some (e, w')"
  obtain sql where sql: "write_text ins tbl flds parent_sql = Some sql" using run by (auto simp: write_row_def split: bind_splits)
  obtain q where q: "bx_database_new_query sql = Some (Ptr q)" "cstr (dq_query q) = fst (sql_params sql)"
    using plain_query [OF fits_plain(2) [OF assms(2) sql]] by blast
  obtain now w1 where t: "st_time env w = (now, w1)" by fastforce
  let ?q = "bind_marks checksum now (bind_parent parent_sql parent_id (bind_slots flds slots q))"
  obtain ok q2 w2 where r: "query_rows env ?q w1 = (ok, q2, w2)" by (metis prod_cases3)
  have "dq_query ?q = dq_query q" by (simp add: bind_marks_def bind_parent_def)
  then have "rows w2 = rows w1"
    using run_foreign [OF assms(1) _ r] fits_foreign(2) [OF assms(2-4) sql] q(2) by simp
  moreover have "rows w1 = rows w" using assms(1) t unfolding table_alone_def by (metis snd_conv)
  ultimately show "rows w' = rows w" using run sql q(1) t r by (simp add: write_row_def)
qed

lemma upsert_steps:
  assumes "bx_json_upsert env conn tbl obj flds parent_sql parent_id w = Some (e, w')" and "w' \<noteq> w"
  shows "\<exists>q v ok q1 w1. bx_database_new_query (select_text tbl flds parent_sql) = Some (Ptr q) \<and>
    query_rows env (bind_parent parent_sql parent_id (bind_value '':id'' v q)) w = (ok, q1, w1) \<and>
    (w' = w1 \<or> (\<exists>ins slots checksum. write_row env ins tbl flds slots checksum parent_sql parent_id w1 = Some (e, w')))"
  using assms by (auto simp: bx_json_upsert_def Let_def split: ptr.splits if_splits bind_splits prod.splits bool.splits option.splits) blast+

lemma keeps_upsert:
  assumes "table_alone env table rows" and "table_fits tbl flds parent_sql" and "list_all is_variable_char table" and "tbl \<noteq> table"
  shows "keeps rows (bx_json_upsert env conn tbl obj flds parent_sql parent_id)"
  unfolding keeps_def
proof (intro allI impI)
  fix w e w'
  assume run: "bx_json_upsert env conn tbl obj flds parent_sql parent_id w = Some (e, w')"
  show "rows w' = rows w"
  proof (cases "w' = w")
    case False
    obtain q v ok q1 w1 where s: "bx_database_new_query (select_text tbl flds parent_sql) = Some (Ptr q)"
        "query_rows env (bind_parent parent_sql parent_id (bind_value '':id'' v q)) w = (ok, q1, w1)"
        "w' = w1 \<or> (\<exists>ins slots checksum. write_row env ins tbl flds slots checksum parent_sql parent_id w1 = Some (e, w'))"
      using upsert_steps [OF run False] by blast
    have "cstr (dq_query q) = fst (sql_params (select_text tbl flds parent_sql))"
      using plain_query [OF fits_plain(1) [OF assms(2)]] s(1) by simp
    then have "cstr (dq_query (bind_parent parent_sql parent_id (bind_value '':id'' v q))) = fst (sql_params (select_text tbl flds parent_sql))"
      by (simp add: bind_parent_def)
    then have "rows w1 = rows w" using run_foreign [OF assms(1) _ s(2)] fits_foreign(1) [OF assms(2-4)] by simp
    then show ?thesis using s(3) keepsD [OF keeps_write_row [OF assms]] by metis
  qed simp
qed

end
