(* ===== verification/Bx_Sql.thy ===== *)
theory Bx_Sql
  imports Bx_Foreign Bx_File
begin

text \<open>
  The statements that are written out by hand, for accounts, currencies, taxes, languages, users,
  contacts, projects, invoices and files. A small reader of SQL turns their texts into the columns
  they set and the parameters they take them from, so that it can be checked that no column is
  written from the parameter of another one, and said what a server does with them.
\<close>

section \<open>Reading a statement\<close>

text \<open>The same test on the bits of a character.\<close>

lemma is_variable_char_bits [code]:
  "is_variable_char (Char b0 b1 b2 b3 b4 b5 b6 b7) =
     (\<not> b7 \<and> (if b6 then (b4 \<or> b3 \<or> b2 \<or> b1 \<or> b0) \<and> \<not> (b4 \<and> b3 \<and> (b2 \<or> b1 \<and> b0)) \<or> \<not> b5 \<and> b4 \<and> b3 \<and> b2 \<and> b1 \<and> b0
       else b5 \<and> b4 \<and> (\<not> b3 \<or> \<not> b2 \<and> \<not> b1)))"
  by (cases b0; cases b1; cases b2; cases b3; cases b4; cases b5; cases b6; cases b7; simp add: is_variable_char_def of_char_def)

text \<open>Names and parameters are tokens, spaces and back quotes separate them.\<close>

fun add_token :: "string \<Rightarrow> string list \<Rightarrow> string list" where
  "add_token cur ts = (if cur = [] then ts else rev cur # ts)"

fun tokens :: "string \<Rightarrow> string \<Rightarrow> string list" where
  "tokens cur [] = add_token cur []"
| "tokens cur (c # cs) =
     (if is_variable_char c \<or> c = CHR '':'' then tokens (c # cur) cs
      else add_token cur (if c = CHR '' '' \<or> c = CHR 0x60 then tokens [] cs else [c] # tokens [] cs))"

datatype sql_statement =
  Insert_Into bool string "string list" "string list"
| Update_Set string "(string \<times> string) list" string

text \<open>\<open>a, b, c)\<close> up to its parenthesis, and \<open>a = x, b = y WHERE\<close> up to its keyword.\<close>

fun name_list :: "string list \<Rightarrow> (string list \<times> string list) option" where
  "name_list (x # sep # r) =
     (if sep = '')'' then Some ([x], r)
      else if sep = '','' then map_option (\<lambda>(xs, r'). (x # xs, r')) (name_list r)
      else None)"
| "name_list _ = None"

fun set_list :: "string list \<Rightarrow> ((string \<times> string) list \<times> string list) option" where
  "set_list (x # eq # v # sep # r) =
     (if eq \<noteq> ''='' then None
      else if sep = ''WHERE'' then Some ([(x, v)], r)
      else if sep = '','' then map_option (\<lambda>(xs, r'). ((x, v) # xs, r')) (set_list r)
      else None)"
| "set_list _ = None"

definition read_insert :: "bool \<Rightarrow> string \<Rightarrow> string list \<Rightarrow> sql_statement option" where
  "read_insert ignore table ts = do {
     (columns, r) \<leftarrow> name_list ts;
     (case r of
        k # p # r1 \<Rightarrow>
          if k \<noteq> ''VALUES'' \<or> p \<noteq> ''('' then None
          else do {
            (params, r2) \<leftarrow> name_list r1;
            if r2 \<noteq> [] \<and> r2 \<noteq> ['';''] then None else Some (Insert_Into ignore table columns params)
          }
      | _ \<Rightarrow> None)
   }"

definition read_update :: "string \<Rightarrow> string list \<Rightarrow> sql_statement option" where
  "read_update table ts = do {
     (sets, r) \<leftarrow> set_list ts;
     (case r of
        k # eq # p # r1 \<Rightarrow> if k \<noteq> ''id'' \<or> eq \<noteq> ''='' \<or> (r1 \<noteq> [] \<and> r1 \<noteq> ['';'']) then None else Some (Update_Set table sets p)
      | _ \<Rightarrow> None)
   }"

definition read_tokens :: "string list \<Rightarrow> sql_statement option" where
  "read_tokens ts =
     (case ts of
        a # b # c # d # r \<Rightarrow>
          if a = ''UPDATE'' \<and> c = ''SET'' then read_update b (d # r)
          else if a = ''INSERT'' \<and> b = ''INTO'' \<and> d = ''('' then read_insert False c r
          else (case r of
                  e # r1 \<Rightarrow> if a = ''INSERT'' \<and> b = ''IGNORE'' \<and> c = ''INTO'' \<and> e = ''('' then read_insert True d r1 else None
                | [] \<Rightarrow> None)
      | _ \<Rightarrow> None)"

definition read_statement :: "string \<Rightarrow> sql_statement option" where
  "read_statement sql = read_tokens (tokens [] sql)"

text \<open>The parameters in the order of the question marks.\<close>

fun statement_params :: "sql_statement \<Rightarrow> string list" where
  "statement_params (Insert_Into ignore table columns params) = params"
| "statement_params (Update_Set table sets p) = map snd sets @ [p]"

text \<open>
  The tokens of a text without misplaced colons give its parameters: a colon stands only at the
  start of a token, and the names of parameters fit their field.
\<close>

definition good_token :: "string \<Rightarrow> bool" where
  "good_token t \<longleftrightarrow> t \<noteq> [NUL] \<and> length t \<le> 28 \<and> list_all (\<lambda>c. c \<noteq> CHR '':'') (tl t)"

definition is_param :: "string \<Rightarrow> bool" where
  "is_param t \<longleftrightarrow> tl t \<noteq> [] \<and> hd t = CHR '':''"

lemma tokens_run: "list_all is_variable_char v \<Longrightarrow> tokens cur (v @ r) = tokens (rev v @ cur) r"
  by (induction v arbitrary: cur) simp_all

lemma tokens_prefix: "cur \<noteq> [] \<Longrightarrow> \<exists>s ts. tokens cur q = (rev cur @ s) # ts"
proof (induction q arbitrary: cur)
  case (Cons c q)
  then show ?case using Cons.IH [of "c # cur"] by (auto simp del: add_token.simps) (simp_all)
qed simp

lemma late_colon:
  assumes "cur \<noteq> []" and "list_all good_token (tokens (CHR '':'' # cur) q)"
  shows False
proof -
  obtain s ts where "tokens (CHR '':'' # cur) q = (rev (CHR '':'' # cur) @ s) # ts" using tokens_prefix by blast
  then show False using assms by (cases "rev cur") (auto simp: good_token_def)
qed

lemma colon_no_name [simp]: "\<not> is_variable_char (CHR '':'')" "\<not> is_variable_char NUL" "NUL \<noteq> CHR '':''" "NUL \<noteq> CHR '' ''" "NUL \<noteq> CHR 0x60"
  by code_simp+

lemma tokens_params:
  assumes "list_all good_token (tokens cur sql)" and "list_all is_variable_char cur"
  shows "snd (sql_params sql) = filter is_param (tokens cur sql)"
  using assms
proof (induction sql arbitrary: cur rule: sql_params.induct)
  case 1
  then show ?case by (cases cur rule: rev_cases) (auto simp: is_param_def)
next
  case (2 c q)
  have old: "\<not> is_param (rev cur)" using "2.prems"(2) by (cases cur rule: rev_cases) (auto simp: is_param_def)
  show ?case
  proof (cases "c = CHR '':''")
    case True
    let ?v = "takeWhile is_variable_char q" and ?r = "dropWhile is_variable_char q"
    have cur: "cur = []" using late_colon [of cur q] 2 True by auto
    have v: "list_all is_variable_char ?v" by (auto simp: list_all_iff dest: set_takeWhileD)
    have run: "tokens [] (c # q) = tokens (rev ?v @ [c]) ?r"
      using tokens_run [OF v, of "[c]" ?r] True by simp
    show ?thesis
    proof (cases ?v)
      case Nil
      then have q: "?r = q" "q = [] \<or> \<not> is_variable_char (hd q)" by (cases q; auto split: if_splits)+
      have "tokens [] (c # q) = [c] # tokens [] q"
        using late_colon [of "[c]" "tl q"] "2.prems"(1) run cur q Nil by (cases q) auto
      then show ?thesis using "2.IH"(2) [of "[]"] "2.prems" cur True q by (auto simp: is_param_def)
    next
      case (Cons x v)
      then have q: "q \<noteq> []" "is_variable_char (hd q)" by (cases q; auto split: if_splits)+
      have "tokens (rev ?v @ [c]) r = (c # ?v) # tokens [] r" if "?r = r" for r
        using late_colon [of "rev ?v @ [c]" "tl r"] "2.prems"(1) run cur hd_dropWhile [of is_variable_char q] that
        by (cases r) auto
      then have "tokens [] (c # q) = (c # ?v) # tokens [] ?r" using run by simp
      then show ?thesis using "2.IH"(1) [of "[]"] "2.prems" cur True q Cons by (auto simp: is_param_def)
    qed
  next
    case False
    then show ?thesis
      using "2.IH"(2) [of "c # cur"] "2.IH"(2) [of "[]"] 2 old by (auto simp: is_param_def)
  qed
qed

lemma tokens_nonzero: "list_all good_token (tokens cur sql) \<Longrightarrow> list_all (\<lambda>c. c \<noteq> NUL) sql"
  by (induction cur sql rule: tokens.induct) (auto simp: good_token_def split: if_splits)

lemma good_tokens:
  assumes "list_all good_token (tokens [] sql)" and "sql \<noteq> []"
  shows "plain_sql sql" "snd (sql_params sql) = filter is_param (tokens [] sql)"
  using assms tokens_params [OF assms(1)] tokens_nonzero [OF assms(1)]
  by (auto simp: plain_sql_def list_all_iff good_token_def)

section \<open>The statements of the program\<close>

text \<open>
  A table, its two statements, the members of its object and the parameters that are no members.
  The type of a tax is the parameter \<open>:taxtype\<close>, the country of a contact is the text \<open>:country\<close>.
\<close>

definition marks_of :: "string list" where
  "marks_of = [''_checksum'', ''_last_updated'']"

definition names_of :: "BXJsonField list \<Rightarrow> string list" where
  "names_of flds = map fname flds"

definition tax_columns :: "string list" where
  "tax_columns = map (\<lambda>k. if k = ''taxtype'' then ''type'' else k) (names_of tax_fields)"

definition contact_columns :: "string list" where
  "contact_columns = [''country'', ''_archived''] @
     filter (\<lambda>k. k \<noteq> ''country_id'' \<and> k \<noteq> ''contact_group_ids'' \<and> k \<noteq> ''contact_branch_ids'') (names_of contact_fields)"

abbreviation account_statements :: "string \<times> string \<times> string \<times> string list" where
  "account_statements \<equiv> (''account'', account_insert, account_update, names_of account_fields @ ''_deleted'' # marks_of)"

abbreviation currency_statements :: "string \<times> string \<times> string \<times> string list" where
  "currency_statements \<equiv> (''currency'', currency_insert, currency_update, names_of currency_fields @ ''_deleted'' # marks_of)"

abbreviation tax_statements :: "string \<times> string \<times> string \<times> string list" where
  "tax_statements \<equiv> (''taxes'', tax_insert, tax_update, tax_columns @ marks_of)"

abbreviation language_statements :: "string \<times> string \<times> string \<times> string list" where
  "language_statements \<equiv> (''language'', language_insert, language_update, names_of language_fields @ marks_of)"

abbreviation user_statements :: "string \<times> string \<times> string \<times> string list" where
  "user_statements \<equiv> (''user'', user_insert, user_update, names_of user_fields @ ''_deleted'' # marks_of)"

abbreviation contact_statements :: "string \<times> string \<times> string \<times> string list" where
  "contact_statements \<equiv> (''contact'', contact_insert, contact_update, contact_columns @ marks_of)"

abbreviation project_statements :: "string \<times> string \<times> string \<times> string list" where
  "project_statements \<equiv> (''pr_project'', project_insert, project_update, names_of project_fields @ marks_of)"

abbreviation invoice_statements :: "string \<times> string \<times> string \<times> string list" where
  "invoice_statements \<equiv> (''invoice'', invoice_insert, invoice_update, names_of invoice_fields @ marks_of)"

abbreviation file_statements :: "string \<times> string \<times> string \<times> string list" where
  "file_statements \<equiv> (''bx_file'', file_insert, file_update, names_of file_fields @ ''_deleted'' # marks_of)"

definition written_statements :: "(string \<times> string \<times> string \<times> string list) list" where
  "written_statements =
     [account_statements, currency_statements, tax_statements, language_statements, user_statements,
      contact_statements, project_statements, invoice_statements, file_statements]"

definition column_param :: "string \<Rightarrow> string \<Rightarrow> string" where
  "column_param table c = (if table = ''taxes'' \<and> c = ''type'' then '':taxtype'' else CHR '':'' # c)"

definition inserts_columns :: "string \<Rightarrow> string list \<Rightarrow> sql_statement option \<Rightarrow> bool" where
  "inserts_columns table columns st =
     (case st of
        Some (Insert_Into ignore t cs ps) \<Rightarrow>
          t = table \<and> ps = map (column_param table) cs \<and> distinct cs \<and> list_all (\<lambda>c. c \<in> set cs) columns \<and> length cs = length columns
      | _ \<Rightarrow> False)"

definition updates_columns :: "string \<Rightarrow> string list \<Rightarrow> sql_statement option \<Rightarrow> bool" where
  "updates_columns table columns st =
     (case st of
        Some (Update_Set t sets p) \<Rightarrow>
          t = table \<and> p = '':id'' \<and> map snd sets = map (column_param table) (map fst sets) \<and> distinct (''id'' # map fst sets) \<and>
          list_all (\<lambda>c. c \<in> set (''id'' # map fst sets)) columns \<and> length sets + 1 = length columns
      | _ \<Rightarrow> False)"

definition reads_as :: "(sql_statement option \<Rightarrow> bool) \<Rightarrow> string \<Rightarrow> bool" where
  "reads_as ok sql \<longleftrightarrow>
     (let ts = tokens [] sql; st = read_tokens ts in
      ok st \<and> list_all good_token ts \<and> map_option statement_params st = Some (filter is_param ts))"

definition statements_agree :: "string \<times> string \<times> string \<times> string list \<Rightarrow> bool" where
  "statements_agree r =
     (case r of (table, ins, upd, columns) \<Rightarrow>
        reads_as (inserts_columns table columns) ins \<and> reads_as (updates_columns table columns) upd)"

lemma account_agree: "statements_agree account_statements"
  by code_simp

lemma currency_agree: "statements_agree currency_statements"
  by code_simp

lemma tax_agree: "statements_agree tax_statements"
  by code_simp

lemma language_agree: "statements_agree language_statements"
  by code_simp

lemma user_agree: "statements_agree user_statements"
  by code_simp

lemma contact_insert_columns: "reads_as (inserts_columns ''contact'' (contact_columns @ marks_of)) contact_insert"
  by code_simp

lemma contact_update_columns: "reads_as (updates_columns ''contact'' (contact_columns @ marks_of)) contact_update"
  by code_simp

lemma contact_agree: "statements_agree contact_statements"
  by (simp add: statements_agree_def contact_insert_columns contact_update_columns)

lemma project_agree: "statements_agree project_statements"
  by code_simp

lemma invoice_insert_columns: "reads_as (inserts_columns ''invoice'' (names_of invoice_fields @ marks_of)) invoice_insert"
  by code_simp

lemma invoice_update_columns: "reads_as (updates_columns ''invoice'' (names_of invoice_fields @ marks_of)) invoice_update"
  by code_simp

lemma invoice_agree: "statements_agree invoice_statements"
  by (simp add: statements_agree_def invoice_insert_columns invoice_update_columns)

lemma file_agree: "statements_agree file_statements"
  by code_simp

lemma statements_checked: "list_all statements_agree written_statements"
  by (simp add: written_statements_def account_agree currency_agree tax_agree language_agree user_agree contact_agree
      project_agree invoice_agree file_agree)

section \<open>Properties\<close>

text \<open>The names of the parameters of the query that is made of a text.\<close>

definition query_params :: "string \<Rightarrow> string list option" where
  "query_params sql =
     (case bx_database_new_query sql of Some (Ptr q) \<Rightarrow> Some (map (\<lambda>p. cstr (pa_name p)) (dq_parameters q)) | _ \<Rightarrow> None)"

lemma query_params_plain:
  assumes "plain_sql sql"
  shows "query_params sql = Some (snd (sql_params sql))"
proof -
  have ok: "sql \<noteq> []" "list_all (\<lambda>n. length n \<le> 28) (snd (sql_params sql))" "list_all (\<lambda>c. c \<noteq> NUL) sql"
    using assms by (simp_all add: plain_sql_def)
  obtain q where "bx_database_new_query sql = Some (Ptr q)" "dq_parameters q = map named (snd (sql_params sql))"
    using new_query_spec [OF ok] by blast
  moreover have "map (\<lambda>n. cstr (pa_name (named n))) (snd (sql_params sql)) = snd (sql_params sql)"
    using ok(2) sql_params_names_ok [OF ok(3)] by (auto intro!: map_idI cstr_named simp: list_all_iff)
  ultimately show ?thesis by (simp add: query_params_def comp_def)
qed

lemma reads_as_params:
  assumes "reads_as ok sql" and "\<And>st. ok st \<Longrightarrow> st \<noteq> None"
  shows "ok (read_statement sql) \<and> query_params sql = map_option statement_params (read_statement sql)"
proof -
  have r: "ok (read_statement sql)" "list_all good_token (tokens [] sql)"
      "map_option statement_params (read_statement sql) = Some (filter is_param (tokens [] sql))"
    using assms(1) by (simp_all add: reads_as_def read_statement_def Let_def)
  have "sql \<noteq> []" using r(3) by (auto simp: read_statement_def read_tokens_def)
  then have "query_params sql = Some (filter is_param (tokens [] sql))"
    using query_params_plain [OF good_tokens(1) [OF r(2)]] good_tokens(2) [OF r(2)] by simp
  then show ?thesis using r(1,3) by metis
qed

text \<open>
  C21: the hand-written insertions and updates of nine tables (account, currency, taxes, language,
  user, contact, pr_project, invoice, file) write the table of their object, set exactly the columns
  of the members of that object and of its marks, each of them from the parameter of its own name
  (\<open>taxes.type\<close> from \<open>:taxtype\<close>), and an update changes the row of the bound id; the query made of the
  text has these parameters, in the order of its question marks. The statements of contact groups and
  their links, of sectors and of positions are not among them: they mark rows or name their parameters otherwise.
\<close>

theorem statements_bind_columns:
  "list_all (\<lambda>(table, ins, upd, columns).
     inserts_columns table columns (read_statement ins) \<and> query_params ins = map_option statement_params (read_statement ins) \<and>
     updates_columns table columns (read_statement upd) \<and> query_params upd = map_option statement_params (read_statement upd))
   written_statements"
proof -
  have "inserts_columns table columns (read_statement ins) \<and> query_params ins = map_option statement_params (read_statement ins) \<and>
      updates_columns table columns (read_statement upd) \<and> query_params upd = map_option statement_params (read_statement upd)"
    if "statements_agree (table, ins, upd, columns)" for table ins upd columns
    using that reads_as_params [of "inserts_columns table columns" ins] reads_as_params [of "updates_columns table columns" upd]
    by (auto simp: statements_agree_def inserts_columns_def updates_columns_def split: option.splits)
  then show ?thesis using statements_checked by (auto simp: list_all_iff)
qed

end
