(* ===== verification/Bx_Stored.thy ===== *)
theory Bx_Stored
  imports Bx_Sql Bx_Listing
begin

text \<open>
  What the handler of a project leaves in the table and in the cache: a checksum enters the cache
  only with the row it belongs to, and no other row is touched.
\<close>

section \<open>A server that runs the statements\<close>

text \<open>
  The rows of a table give the value of every column, as it was bound. A statement that succeeds
  without a warning has its effect; whatever became of it, it changes no row but its own, and
  removes none.
\<close>

type_synonym stored_row = "string \<rightharpoonup> MYSQL_BIND"

fun statement_key :: "sql_statement \<Rightarrow> MYSQL_BIND list \<Rightarrow> u64" where
  "statement_key (Insert_Into ignore table columns params) bs = bind_u64 (the (map_of (zip columns bs) ''id''))"
| "statement_key (Update_Set table sets p) bs = bind_u64 (last bs)"

fun statement_effect :: "sql_statement \<Rightarrow> MYSQL_BIND list \<Rightarrow> (u64 \<rightharpoonup> stored_row) \<Rightarrow> u64 \<rightharpoonup> stored_row" where
  "statement_effect (Insert_Into ignore table columns params) bs m =
     m(statement_key (Insert_Into ignore table columns params) bs \<mapsto> map_of (zip columns bs))"
| "statement_effect (Update_Set table sets p) bs m =
     (case m (bind_u64 (last bs)) of
        None \<Rightarrow> m
      | Some row \<Rightarrow> m(bind_u64 (last bs) \<mapsto> row ++ map_of (zip (map fst sets) bs)))"

definition runs_statement :: "'w stmt_api \<Rightarrow> ('w \<Rightarrow> u64 \<rightharpoonup> stored_row) \<Rightarrow> string \<Rightarrow> bool" where
  "runs_statement api rows sql \<longleftrightarrow>
     (\<forall>st bs w e w1. read_statement sql = Some st \<longrightarrow> length bs = length (statement_params st) \<longrightarrow>
        sa_execute api (fst (sql_params sql)) bs w = (e, w1) \<longrightarrow>
        dom (rows w) \<subseteq> dom (rows w1) \<and> (\<forall>j. j \<noteq> statement_key st bs \<longrightarrow> rows w1 j = rows w j) \<and>
        (e = 0 \<and> sa_warning_count api w1 = 0 \<longrightarrow> rows w1 = statement_effect st bs (rows w)))"

section \<open>Running one of them\<close>

lemma execute_runs:
  assumes quiet: "quiet_api api rows" and run: "bx_database_execute api q w = (ok, q', w')" and q: "fresh t q"
    and bs: "map (fst \<circ> param_to_bind) (dq_parameters q) = bs"
  shows "rows w' = rows w \<or> (\<exists>w0 e w1. rows w0 = rows w \<and> sa_execute api t bs w0 = (e, w1) \<and> rows w' = rows w1)"
    and "ok \<Longrightarrow> dq_warning_rows q' = 0 \<Longrightarrow>
      \<exists>w0 w1. rows w0 = rows w \<and> sa_execute api t bs w0 = (0, w1) \<and> sa_warning_count api w1 = 0 \<and> rows w' = rows w1"
proof -
  obtain ep wp where p: "sa_prepare api t w = (ep, wp)" by fastforce
  have rp: "rows wp = rows w" using quiet_rows(1) [OF quiet p] .
  have t: "cstr (dq_query q) = t" "\<not> dq_executed q" using q by (auto simp: fresh_def)
  have run1: "(ep \<noteq> 0 \<and> w' = wp \<and> \<not> ok) \<or> execute_prepared api q wp = (ok, q', w')"
    using run t p by (auto simp: bx_database_execute_def split: if_splits)
  show "rows w' = rows w \<or> (\<exists>w0 e w1. rows w0 = rows w \<and> sa_execute api t bs w0 = (e, w1) \<and> rows w' = rows w1)"
    using run1 run_prepared [OF quiet _ t(1) bs, of wp ok q' w'] rp by metis
  assume ok: ok "dq_warning_rows q' = 0"
  then have ex: "execute_prepared api q wp = (ok, q', w')" using run1 by simp
  have fst_bound: "map fst (map param_to_bind (dq_parameters q)) = bs" using bs by simp
  obtain e1 w1 where b: "sa_bind api bs wp = (e1, w1)" by fastforce
  obtain e2 w2 where x: "sa_execute api t bs w1 = (e2, w2)" by fastforce
  note ex1 = ex [unfolded execute_prepared_def Let_def fst_bound t(1) b, simplified prod.case x]
  have "e2 = 0 \<and> sa_warning_count api w2 = 0 \<and> w' = w2"
    using ex1 x ok by (auto simp: bx_database_print_warnings_def mark_reconnect_def split: if_splits sum.splits prod.splits)
  then show "\<exists>w0 w1. rows w0 = rows w \<and> sa_execute api t bs w0 = (0, w1) \<and> sa_warning_count api w1 = 0 \<and> rows w' = rows w1"
    using x quiet_rows(2) [OF quiet b] rp by auto
qed

lemma results_warnings: "bx_database_results api q w = (ok, q', w') \<Longrightarrow> dq_warning_rows q' = dq_warning_rows q"
  by (auto simp: bx_database_results_def free_query_metadata_def mark_reconnect_def Let_def split: if_splits ptr.splits prod.splits)

text \<open>What the bindings of the members of an object bind.\<close>

lemma fresh_with_param: "fresh t q \<Longrightarrow> fresh t (snd (with_param q n f))"
  by (auto simp: fresh_def with_param_def split: option.split)

lemma bxd_bind_bound:
  assumes "bound ns g q" and "ident k"
  shows "bound ns (g(CHR '':'' # k \<mapsto> any_bind (member obj k))) (snd (bxd_bind obj k q))"
  unfolding bxd_bind_def add_bxtype_update
  by (rule with_param_bound [OF assms(1)]) (use assms(2) in \<open>simp_all add: ident_def param_update_name param_update_bind\<close>)

lemma members_bound:
  assumes "all_bound (map (bxd_bind obj) ks @ fs) q = (True, q')" and "bound ns g q" and "fresh t q" and "list_all ident ks"
  shows "\<exists>q1. all_bound fs q1 = (True, q') \<and> fresh t q1 \<and>
    bound ns (g(colons ks [\<mapsto>] map (\<lambda>k. any_bind (member obj k)) ks)) q1"
  using assms
proof (induction ks arbitrary: g q)
  case (Cons k ks)
  obtain b q1 where s: "bxd_bind obj k q = (b, q1)" by fastforce
  then have run: "all_bound (map (bxd_bind obj) ks @ fs) q1 = (True, q')" using Cons.prems(1) by (auto split: bool.splits)
  have q1: "bound ns (g(CHR '':'' # k \<mapsto> any_bind (member obj k))) q1" "fresh t q1"
    using bxd_bind_bound [OF Cons.prems(2), of k obj] fresh_with_param [OF Cons.prems(3)] Cons.prems(4) s
    by (auto simp: bxd_bind_def add_bxtype_update dest!: arg_cong [where f = snd])
  have "list_all ident ks" using Cons.prems(4) by simp
  from Cons.IH [OF run q1 this] show ?case by (simp only: colons_def list.map map_upds_Cons)
qed (auto simp: colons_def)

lemma u64_param_bound:
  assumes "bound ns g q" and "fresh t q" and "length n \<le> 30"
  shows "bound ns (g(n \<mapsto> id_bind v)) (snd (u64_param n v q))" "fresh t (snd (u64_param n v q))"
  using bind_uint64_bound [OF assms(1,3), of v] fresh_binds(2) [of t n v q] assms(2)
  by (simp_all add: u64_param_def bind_uint64_def)

section \<open>The effect of a statement that was read\<close>

lemma same_names:
  assumes "distinct cs" and "list_all (\<lambda>c. c \<in> set cs) columns" and "length cs = length columns" and "distinct columns"
  shows "set cs = set columns"
proof -
  have "set columns \<subseteq> set cs" using assms(2) by (auto simp: list_all_iff)
  moreover have "card (set columns) = card (set cs)" using assms(1,3,4) by (simp add: distinct_card)
  ultimately show ?thesis by (metis List.finite_set card_subset_eq)
qed

lemma pairs_again: "map snd xs = map f (map fst xs) \<Longrightarrow> xs = map (\<lambda>x. (x, f x)) (map fst xs)"
  by (induction xs) auto

lemma statement_names:
  assumes "statements_agree (table, ins, upd, columns)" and "table \<noteq> ''taxes''" and "sql = ins \<or> sql = upd"
    and "distinct columns" and "''id'' \<in> set columns"
  shows "\<exists>st ns. read_statement sql = Some st \<and> plain_sql sql \<and> snd (sql_params sql) = colons ns \<and> statement_params st = colons ns \<and>
    distinct ns \<and> set ns = set columns \<and>
    (sql = ins \<and> (\<exists>ig. st = Insert_Into ig table ns (colons ns)) \<or>
     sql = upd \<and> (\<exists>xs. ns = xs @ [''id''] \<and> st = Update_Set table (map (\<lambda>x. (x, CHR '':'' # x)) xs) '':id''))"
proof -
  have col: "column_param table = Cons (CHR '':'')" using assms(2) by (auto simp: column_param_def)
  have tokens: "tokens [] [] = []" by simp
  from assms(3) show ?thesis
  proof
    assume sql: "sql = ins"
    then have r: "reads_as (inserts_columns table columns) sql" using assms(1) by (simp add: statements_agree_def)
    then obtain ig t cs ps where st: "read_statement sql = Some (Insert_Into ig t cs ps)"
        "t = table" "ps = colons cs" "distinct cs" "list_all (\<lambda>c. c \<in> set cs) columns" "length cs = length columns"
      by (auto simp: reads_as_def Let_def read_statement_def inserts_columns_def col colons_def split: option.splits sql_statement.splits)
    have "sql \<noteq> []" using st(1) by (auto simp: read_statement_def read_tokens_def)
    note g = good_tokens [OF _ this]
    have "plain_sql sql" "snd (sql_params sql) = colons cs"
      using r st(1,3) g by (auto simp: reads_as_def Let_def read_statement_def)
    then show ?thesis using st sql same_names [OF st(4-6) assms(4)] by auto
  next
    assume sql: "sql = upd"
    then have r: "reads_as (updates_columns table columns) sql" using assms(1) by (simp add: statements_agree_def)
    then obtain t sets p where st: "read_statement sql = Some (Update_Set t sets p)"
        "t = table" "p = '':id''" "map snd sets = colons (map fst sets)" "distinct (''id'' # map fst sets)"
        "list_all (\<lambda>c. c \<in> set (''id'' # map fst sets)) columns" "length (''id'' # map fst sets) = length columns"
      by (auto simp: reads_as_def Let_def read_statement_def updates_columns_def col colons_def split: option.splits sql_statement.splits)
    have "sql \<noteq> []" using st(1) by (auto simp: read_statement_def read_tokens_def)
    note g = good_tokens [OF _ this]
    have sets: "sets = map (\<lambda>x. (x, CHR '':'' # x)) (map fst sets)"
      using pairs_again [OF st(4) [unfolded colons_def]] .
    have params: "statement_params (Update_Set t sets p) = colons (map fst sets @ [''id''])" using st(3,4) by (simp only: statement_params.simps) (simp add: colons_def)
    then have "plain_sql sql" "snd (sql_params sql) = colons (map fst sets @ [''id''])"
      using r st(1) g by (auto simp: reads_as_def Let_def read_statement_def simp del: statement_params.simps)
    moreover note params
    moreover have "set (map fst sets @ [''id'']) = set columns" "distinct (map fst sets @ [''id''])"
      using same_names [OF st(5-7) assms(4)] st(5) by auto
    ultimately show ?thesis using st(1-3) sql sets by (intro exI conjI) blast+
  qed
qed

text \<open>The row that is left, when the id is \<open>h '':id''\<close> and so on.\<close>

lemma effect_row:
  assumes "st = Insert_Into ig table ns (colons ns) \<or>
      ns = xs @ [''id''] \<and> st = Update_Set table (map (\<lambda>x. (x, CHR '':'' # x)) xs) '':id'' \<and> bind_u64 (h '':id'') \<in> dom m"
    and "distinct ns" and "''id'' \<in> set ns"
  shows "statement_key st (map h (colons ns)) = bind_u64 (h '':id'')"
    and "\<exists>row. statement_effect st (map h (colons ns)) m (bind_u64 (h '':id'')) = Some row \<and>
      (\<forall>c \<in> set ns - {''id''}. row c = Some (h (CHR '':'' # c)))"
proof -
  have zip: "map_of (zip ns (map h (colons ns))) = (\<lambda>c. if c \<in> set ns then Some (h (CHR '':'' # c)) else None)" for ns
  proof -
    have "map h (colons ns) = map (\<lambda>c. h (CHR '':'' # c)) ns" by (simp add: colons_def)
    then show ?thesis by (simp only: map_of_zip_map)
  qed
  have last: "last (map h (colons (xs @ [''id'']))) = h '':id''" by (simp add: colons_def)
  have cut: "zip (map fst (map (\<lambda>x. (x, CHR '':'' # x)) xs)) (map h (colons (xs @ [''id'']))) = zip xs (map h (colons xs))"
    by (simp add: colons_def zip_append2 comp_def)
  show "statement_key st (map h (colons ns)) = bind_u64 (h '':id'')"
    using assms(1,3) zip [of ns] last by auto
  show "\<exists>row. statement_effect st (map h (colons ns)) m (bind_u64 (h '':id'')) = Some row \<and>
      (\<forall>c \<in> set ns - {''id''}. row c = Some (h (CHR '':'' # c)))"
    using assms(1)
  proof
    assume "st = Insert_Into ig table ns (colons ns)"
    then show ?thesis using assms(3) zip [of ns] by auto
  next
    assume u: "ns = xs @ [''id''] \<and> st = Update_Set table (map (\<lambda>x. (x, CHR '':'' # x)) xs) '':id'' \<and> bind_u64 (h '':id'') \<in> dom m"
    then obtain row where row: "m (bind_u64 (h '':id'')) = Some row" by blast
    have "statement_effect st (map h (colons ns)) m (bind_u64 (h '':id'')) = Some (row ++ map_of (zip xs (map h (colons xs))))"
      using u row last cut by simp
    then show ?thesis using u by (auto simp: zip map_add_def)
  qed
qed

section \<open>Writing the members of an object\<close>

definition row_has :: "stored_row \<Rightarrow> bx_members \<Rightarrow> string list \<Rightarrow> u64 \<Rightarrow> bool" where
  "row_has row obj ks checksum \<longleftrightarrow>
     (\<forall>k \<in> set ks - {''id''}. row k = Some (any_bind (member obj k))) \<and> row ''_checksum'' = Some (id_bind checksum)"

lemma member_upds: "(g(colons ks [\<mapsto>] map f ks)) (CHR '':'' # k) = (if k \<in> set ks then Some (f k) else g (CHR '':'' # k))"
  by (induction ks arbitrary: g) (simp_all add: colons_def)

lemma statement_run:
  assumes agree: "statements_agree (table, ins, upd, ks @ marks_of)" "table \<noteq> ''taxes''" and sql: "sql = ins \<or> sql = upd"
    and ks: "distinct (ks @ marks_of)" "''id'' \<in> set ks" "list_all ident ks" "set ks' = set ks"
    and law: "runs_statement api rows sql" and quiet: "quiet_api api rows"
    and new: "bx_database_new_query sql = Some (Ptr q)"
    and binds: "all_bound (map (bxd_bind obj) ks' @ [u64_param '':_checksum'' checksum, u64_param '':_last_updated'' now]) q = (True, q1)"
    and run: "bx_database_execute api q1 w = (ok, q2, w')"
  shows "dom (rows w) \<subseteq> dom (rows w')" (is ?kept) and "j \<noteq> bind_u64 (any_bind (member obj ''id'')) \<Longrightarrow> rows w' j = rows w j"
    and "ok \<Longrightarrow> dq_warning_rows q2 = 0 \<Longrightarrow> (sql = upd \<Longrightarrow> bind_u64 (any_bind (member obj ''id'')) \<in> dom (rows w)) \<Longrightarrow>
      \<exists>row. rows w' (bind_u64 (any_bind (member obj ''id''))) = Some row \<and> row_has row obj ks checksum"
    and "ok \<Longrightarrow> dq_warning_rows q2 = 0 \<Longrightarrow> sql = upd \<Longrightarrow> sql \<noteq> ins \<Longrightarrow>
      bind_u64 (any_bind (member obj ''id'')) \<notin> dom (rows w) \<Longrightarrow> rows w' (bind_u64 (any_bind (member obj ''id''))) = None"
proof -
  let ?i = "bind_u64 (any_bind (member obj ''id''))"
  have columns: "''id'' \<in> set (ks @ marks_of)" using ks(2) by simp
  obtain st ns where st: "read_statement sql = Some st" "plain_sql sql" "snd (sql_params sql) = colons ns" "statement_params st = colons ns"
      "distinct ns" "set ns = set (ks @ marks_of)"
      "sql = ins \<and> (\<exists>ig. st = Insert_Into ig table ns (colons ns)) \<or>
       sql = upd \<and> (\<exists>xs. ns = xs @ [''id''] \<and> st = Update_Set table (map (\<lambda>x. (x, CHR '':'' # x)) xs) '':id'')"
    using statement_names [OF agree sql ks(1) columns] by blast
  have marks: "list_all ident marks_of" by (simp add: marks_of_def ident_def is_variable_char_bits)
  have idents: "list_all ident ns" using ks(3) marks st(6) by (auto simp: list_all_iff)
  have solid: "sql \<noteq> []" "list_all (\<lambda>c. c \<noteq> NUL) sql" using st(2) by (auto simp: plain_sql_def)
  obtain q' where q': "bx_database_new_query sql = Some (Ptr q')" "fresh (fst (sql_params sql)) q'" "bound (map (Cons (CHR '':'')) ns) Map.empty q'"
    using new_bound [OF solid _ idents st(5)] st(3) by (auto simp: colons_def)
  then have q: "fresh (fst (sql_params sql)) q" "bound (colons ns) Map.empty q" using new by (simp_all add: colons_def)
  let ?g1 = "Map.empty(colons ks' [\<mapsto>] map (\<lambda>k. any_bind (member obj k)) ks')"
  let ?g = "?g1('':_checksum'' \<mapsto> id_bind checksum, '':_last_updated'' \<mapsto> id_bind now)"
  have ids': "list_all ident ks'" using ks(3,4) by (simp add: list_all_iff)
  obtain qm where qm: "all_bound [u64_param '':_checksum'' checksum, u64_param '':_last_updated'' now] qm = (True, q1)"
      "fresh (fst (sql_params sql)) qm" "bound (colons ns) ?g1 qm"
    using members_bound [OF binds q(2,1) ids'] by blast
  let ?qc = "snd (u64_param '':_checksum'' checksum qm)"
  have "q1 = snd (u64_param '':_last_updated'' now ?qc)"
    using qm(1) by (auto split: prod.splits bool.splits)
  moreover have "length '':_checksum'' \<le> 30" "length '':_last_updated'' \<le> 30" by simp_all
  ultimately have last: "bound (colons ns) ?g q1" "fresh (fst (sql_params sql)) q1"
    using u64_param_bound [OF qm(3,2), of "'':_checksum''" checksum] u64_param_bound [of "colons ns" _ ?qc _ "'':_last_updated''" now]
    by simp_all
  obtain G where q1: "bound (colons ns) G q1" "fresh (fst (sql_params sql)) q1"
      and g: "\<And>k. G (CHR '':'' # k) = (if k = ''_last_updated'' then Some (id_bind now) else if k = ''_checksum'' then Some (id_bind checksum)
        else if k \<in> set ks then Some (any_bind (member obj k)) else None)"
  proof (rule that [OF last])
    show "?g (CHR '':'' # k) = (if k = ''_last_updated'' then Some (id_bind now) else if k = ''_checksum'' then Some (id_bind checksum)
      else if k \<in> set ks then Some (any_bind (member obj k)) else None)" for k
      unfolding fun_upd_apply member_upds ks(4) by (simp only: list.inject simp_thms)
  qed
  have known: "set (colons ns) \<subseteq> dom G"
  proof
    fix x assume "x \<in> set (colons ns)"
    then obtain k where k: "x = CHR '':'' # k" "k \<in> set ks \<or> k = ''_checksum'' \<or> k = ''_last_updated''"
      unfolding colons_def set_map st(6) by (auto simp: marks_of_def)
    then show "x \<in> dom G" using g [of k] by (metis domIff option.distinct(1))
  qed
  from bound_all [OF q1(1) known] have all: "map (fst \<circ> param_to_bind) (dq_parameters q1) = map (\<lambda>n. the (G n)) (colons ns)" .
  have own: "k \<noteq> ''_checksum'' \<and> k \<noteq> ''_last_updated''" if "k \<in> set ks" for k using that ks(1) by (auto simp: marks_of_def)
  obtain h where bs: "map (fst \<circ> param_to_bind) (dq_parameters q1) = map h (colons ns)"
      and h: "\<And>k. k \<in> set ks \<Longrightarrow> h (CHR '':'' # k) = any_bind (member obj k)" "h '':_checksum'' = id_bind checksum"
  proof (rule that)
    show "map (fst \<circ> param_to_bind) (dq_parameters q1) = map (\<lambda>n. the (G n)) (colons ns)" by (rule all)
    show "the (G (CHR '':'' # k)) = any_bind (member obj k)" if "k \<in> set ks" for k using g [of k] own [OF that] that by simp
    show "the (G '':_checksum'') = id_bind checksum" by (simp add: g)
  qed
  have i: "bind_u64 (h '':id'') = ?i" using h(1) [OF ks(2)] by simp
  have id: "''id'' \<in> set ns" using st(6) columns by simp
  obtain ig xs where kind: "sql = ins \<and> st = Insert_Into ig table ns (colons ns) \<or>
      sql = upd \<and> ns = xs @ [''id''] \<and> st = Update_Set table (map (\<lambda>x. (x, CHR '':'' # x)) xs) '':id''"
    using st(7) by blast
  have form: "st = Insert_Into ig table ns (colons ns) \<or>
      ns = xs @ [''id''] \<and> st = Update_Set table (map (\<lambda>x. (x, CHR '':'' # x)) xs) '':id'' \<and> bind_u64 (h '':id'') \<in> dom m"
    if "sql = upd \<Longrightarrow> ?i \<in> dom m" for m :: "u64 \<rightharpoonup> stored_row" using kind that i by metis
  have "?i \<in> dom (\<lambda>x. Some Map.empty)" by blast
  from form [OF this] have key: "statement_key st (map h (colons ns)) = ?i"
    using effect_row(1) [where h = h and m = "\<lambda>x. Some Map.empty", OF _ st(5) id] i by simp
  have len: "length (map h (colons ns)) = length (statement_params st)" using st(4) by simp
  have step: "dom (rows w0) \<subseteq> dom (rows w1) \<and> (\<forall>j. j \<noteq> ?i \<longrightarrow> rows w1 j = rows w0 j) \<and>
      (e = 0 \<and> sa_warning_count api w1 = 0 \<longrightarrow> rows w1 = statement_effect st (map h (colons ns)) (rows w0))"
    if "sa_execute api (fst (sql_params sql)) (map h (colons ns)) w0 = (e, w1)" for w0 e w1
    using law st(1) len that key unfolding runs_statement_def by metis
  note r = execute_runs [OF quiet run q1(2) bs]
  have others: "dom (rows w) \<subseteq> dom (rows w') \<and> (\<forall>j. j \<noteq> ?i \<longrightarrow> rows w' j = rows w j)" using r(1)
  proof
    assume "\<exists>w0 e w1. rows w0 = rows w \<and> sa_execute api (fst (sql_params sql)) (map h (colons ns)) w0 = (e, w1) \<and> rows w' = rows w1"
    then obtain w0 e w1 where x: "rows w0 = rows w" "sa_execute api (fst (sql_params sql)) (map h (colons ns)) w0 = (e, w1)" "rows w' = rows w1"
      by blast
    show ?thesis using step [OF x(2)] x(1,3) by simp
  qed simp
  then show ?kept by blast
  show "rows w' j = rows w j" if "j \<noteq> ?i" using others that by blast
  show "rows w' ?i = None" if ok: ok "dq_warning_rows q2 = 0" and absent: "sql = upd" "sql \<noteq> ins" "?i \<notin> dom (rows w)"
  proof -
    from r(2) [OF ok] obtain w0 w1 where x: "rows w0 = rows w" "sa_execute api (fst (sql_params sql)) (map h (colons ns)) w0 = (0, w1)"
        "sa_warning_count api w1 = 0" "rows w' = rows w1" by blast
    have after: "rows w' = statement_effect st (map h (colons ns)) (rows w)" using step [OF x(2)] x(1,3,4) by simp
    obtain sets p where "st = Update_Set table sets p" using kind absent(2) by blast
    then show ?thesis using after key absent(3) by (auto split: option.splits)
  qed
  assume ok: ok "dq_warning_rows q2 = 0" and present: "sql = upd \<Longrightarrow> ?i \<in> dom (rows w)"
  from r(2) [OF ok] obtain w0 w1 where x: "rows w0 = rows w" "sa_execute api (fst (sql_params sql)) (map h (colons ns)) w0 = (0, w1)"
      "sa_warning_count api w1 = 0" "rows w' = rows w1" by blast
  have after: "rows w' = statement_effect st (map h (colons ns)) (rows w)" using step [OF x(2)] x(1,3,4) by simp
  obtain row where row: "rows w' ?i = Some row" "\<forall>c \<in> set ns - {''id''}. row c = Some (h (CHR '':'' # c))"
    using effect_row(2) [where h = h and m = "rows w", OF form [OF present] st(5) id] after i by auto
  have "row_has row obj ks checksum" unfolding row_has_def
  proof (intro conjI ballI)
    fix k assume k: "k \<in> set ks - {''id''}"
    then show "row k = Some (any_bind (member obj k))" using row(2) st(6) h(1) [of k] by auto
  next
    show "row ''_checksum'' = Some (id_bind checksum)" using row(2) st(6) h(2) by (auto simp: marks_of_def)
  qed
  with row(1) show "\<exists>row. rows w' ?i = Some row \<and> row_has row obj ks checksum" by blast
qed

section \<open>What else a handler does\<close>

lemma keeps_each_row:
  assumes "\<And>item. keeps rows (f item)"
  shows "keeps rows (each_row f items)"
proof (induction items)
  case (Cons item items)
  show ?case
    unfolding keeps_def
  proof (intro allI impI)
    fix w x w'
    assume "each_row f (item # items) w = Some (x, w')"
    then obtain e w1 where s: "f item w = Some (e, w1)" "w' = w1 \<or> each_row f items w1 = Some (x, w')"
      by (auto split: bind_splits if_splits)
    then show "rows w' = rows w" using keepsD [OF assms s(1)] keepsD [OF Cons.IH, of w1 x w'] by auto
  qed
qed (simp add: keeps_def)

lemma keeps_in_turn: "list_all (keeps rows) steps \<Longrightarrow> keeps rows (in_turn steps)"
proof (induction steps)
  case (Cons step steps)
  show ?case
    unfolding keeps_def
  proof (intro allI impI)
    fix w x w'
    assume "in_turn (step # steps) w = Some (x, w')"
    then obtain e w1 where s: "step w = Some (e, w1)" "w' = w1 \<or> in_turn steps w1 = Some (x, w')"
      by (auto split: bind_splits if_splits)
    then show "rows w' = rows w" using keepsD [of rows step w e w1] keepsD [of rows "in_turn steps" w1 x w'] Cons by auto
  qed
qed (simp add: keeps_def)

lemma keeps_detail_rows:
  assumes "table_alone env table rows" and "\<And>item. keeps rows (f item)"
  shows "keeps rows (detail_rows (se_walk env) path i f)"
  using assms keepsD [OF keeps_each_row [OF assms(2)]]
  by (auto simp: keeps_def detail_rows_def table_alone_def split: bind_splits ptr.splits)

lemma keeps_row_present:
  assumes "table_alone env table rows" and "plain_sql sql" and "\<not> writes_to table (fst (sql_params sql))"
  shows "keeps rows (row_present env sql item)"
  unfolding keeps_def
proof (intro allI impI)
  fix w x w'
  assume run: "row_present env sql item w = Some (x, w')"
  obtain q where q: "bx_database_new_query sql = Some (Ptr q)" "cstr (dq_query q) = fst (sql_params sql)"
    using plain_query [OF assms(2)] by blast
  obtain ok q1 w1 where r: "query_rows env (bind_value '':id'' item q) w = (ok, q1, w1)" by (metis prod_cases3)
  have "rows w1 = rows w" using run_foreign [OF assms(1) _ r] assms(3) q(2) by simp
  then show "rows w' = rows w" using run q(1) r by (auto simp: row_present_def split: bool.splits)
qed

lemma project_details_fit:
  "table_fits ''project_milestone'' milestone_fields (Ptr ''_project_id'')" "table_fits ''project_package'' package_fields (Ptr ''_project_id'')"
  using detail_tables_fit by (simp_all add: detail_tables_def)

lemma keeps_project_details:
  assumes "table_alone env ''pr_project'' rows"
  shows "keeps rows (bx_project_extra_sync env (se_walk env) conn i)"
  unfolding bx_project_extra_sync_def
  by (rule keeps_in_turn)
     (simp add: keeps_detail_rows [OF assms] keeps_upsert [OF assms project_details_fit(1)] keeps_upsert [OF assms project_details_fit(2)]
       is_variable_char_bits)

lemma keeps_contact_missing:
  assumes "table_alone env ''pr_project'' rows"
  shows "keeps rows (contact_missing env i)"
proof -
  let ?sql = "''SELECT id FROM contact WHERE id = :id;''"
  have "plain_sql ?sql" "\<not> writes_to ''pr_project'' (fst (sql_params ?sql))" by code_simp+
  from keeps_row_present [OF assms this] show ?thesis
    by (auto simp: keeps_def contact_missing_def bx_contact_is_in_database_def split: if_splits)
qed

section \<open>Projects\<close>

lemma project_names:
  "distinct (names_of project_fields @ marks_of)" "''id'' \<in> set (names_of project_fields)" "list_all ident (names_of project_fields)"
  by (simp_all add: names_of_def project_fields_def BX_FIELD_def fname_def marks_of_def ident_def is_variable_char_bits)

lemma project_write:
  assumes alone: "table_alone env ''pr_project'' rows" and law: "runs_statement (st_api env) rows sql"
    and sql: "sql = project_insert \<or> sql = project_update"
    and run: "project_execute_request env (obj, checksum) sql w = Some (e, w')"
  defines "i \<equiv> bind_u64 (any_bind (member obj ''id''))"
  shows "dom (rows w) \<subseteq> dom (rows w')" and "j \<noteq> i \<Longrightarrow> rows w' j = rows w j"
    and "e = NoError \<Longrightarrow> (sql = project_update \<Longrightarrow> i \<in> dom (rows w)) \<Longrightarrow>
      \<exists>row. rows w' i = Some row \<and> row_has row obj (names_of project_fields) checksum"
    and "e = NoError \<Longrightarrow> sql = project_update \<Longrightarrow> i \<notin> dom (rows w) \<Longrightarrow> rows w' i = None"
proof -
  have quiet: "quiet_api (st_api env) rows" using alone by (simp add: table_alone_def)
  obtain q where q: "bx_database_new_query sql = Some (Ptr q)"
    using statement_names [OF project_agree _ sql project_names(1)] project_names(2) plain_query [of sql] by auto
  obtain now w1 where t: "st_time env w = (now, w1)" by fastforce
  have w1: "rows w1 = rows w" using alone t unfolding table_alone_def by (metis snd_conv)
  obtain b q1 where b: "project_bind_params obj checksum (st_dead env now) q = (b, q1)" by fastforce
  have agree: "statements_agree (''pr_project'', project_insert, project_update, names_of project_fields @ marks_of)" by (rule project_agree)
  have same: "set [''id'', ''uuid'', ''nr'', ''name'', ''start_date'', ''end_date'', ''comment'', ''pr_state_id'',
        ''pr_project_type_id'', ''contact_id'', ''contact_sub_id'', ''pr_invoice_type_id'',
        ''pr_invoice_type_amount'', ''pr_budget_type_id'', ''pr_budget_type_amount''] = set (names_of project_fields)"
    by (simp add: names_of_def project_fields_def BX_FIELD_def fname_def insert_commute)
  show "dom (rows w) \<subseteq> dom (rows w')" "j \<noteq> i \<Longrightarrow> rows w' j = rows w j"
    "e = NoError \<Longrightarrow> (sql = project_update \<Longrightarrow> i \<in> dom (rows w)) \<Longrightarrow>
      \<exists>row. rows w' i = Some row \<and> row_has row obj (names_of project_fields) checksum"
    "e = NoError \<Longrightarrow> sql = project_update \<Longrightarrow> i \<notin> dom (rows w) \<Longrightarrow> rows w' i = None"
  proof -
    consider "e = ErrorGeneric" "w' = w1"
      | ok q2 w2 where "b" "bx_database_execute (st_api env) q1 w1 = (ok, q2, w2)" "rows w' = rows w2" "e = NoError \<Longrightarrow> ok \<and> dq_warning_rows q2 = 0"
    proof (cases b)
      case False
      then show ?thesis using that(1) run q t b by (auto simp: project_execute_request_def with_query_def)
    next
      case True
      obtain ok q2 w2 where x: "bx_database_execute (st_api env) q1 w1 = (ok, q2, w2)" by (metis prod_cases3)
      obtain got q3 w3 where r: "bx_database_results (st_api env) q2 w2 = (got, q3, w3)" by (metis prod_cases3)
      have "rows w' = rows w2 \<and> (e = NoError \<longrightarrow> ok \<and> dq_warning_rows q2 = 0)"
        using run q t b True x r results_quiet [OF quiet r] results_warnings [OF r]
        by (auto simp: project_execute_request_def with_query_def query_failure_def bx_database_persist_ok_def split: bool.splits if_splits)
      then show ?thesis using that(2) [OF True x] by blast
    qed
    then consider "e \<noteq> NoError" "rows w' = rows w"
      | ok q2 w2 where "b" "bx_database_execute (st_api env) q1 w1 = (ok, q2, w2)" "rows w' = rows w2" "e = NoError \<Longrightarrow> ok \<and> dq_warning_rows q2 = 0"
      using w1 by cases auto
    note ways = this
    have effect: "dom (rows w) \<subseteq> dom (rows w2) \<and> (\<forall>j. j \<noteq> i \<longrightarrow> rows w2 j = rows w j) \<and>
        (ok \<and> dq_warning_rows q2 = 0 \<and> (sql = project_update \<longrightarrow> i \<in> dom (rows w)) \<longrightarrow>
          (\<exists>row. rows w2 i = Some row \<and> row_has row obj (names_of project_fields) checksum)) \<and>
        (ok \<and> dq_warning_rows q2 = 0 \<and> sql = project_update \<and> i \<notin> dom (rows w) \<longrightarrow> rows w2 i = None)"
      if b and x: "bx_database_execute (st_api env) q1 w1 = (ok, q2, w2)" for ok q2 w2
    proof -
      have binds: "all_bound (map (bxd_bind obj) [''id'', ''uuid'', ''nr'', ''name'', ''start_date'', ''end_date'', ''comment'', ''pr_state_id'',
          ''pr_project_type_id'', ''contact_id'', ''contact_sub_id'', ''pr_invoice_type_id'',
          ''pr_invoice_type_amount'', ''pr_budget_type_id'', ''pr_budget_type_amount''] @
          [u64_param '':_checksum'' checksum, u64_param '':_last_updated'' (st_dead env now)]) q = (True, q1)"
        using b \<open>b\<close> by (simp only: project_bind_params_def)
      have table: "''pr_project'' \<noteq> ''taxes''" by simp
      note r = statement_run [OF agree table sql project_names same law quiet q binds x]
      have "project_update \<noteq> project_insert" by (simp add: project_insert_def project_update_def)
      then show ?thesis using r(1) r(2) r(3) r(4) unfolding w1 i_def by blast
    qed
    show "dom (rows w) \<subseteq> dom (rows w')" by (rule ways) (use effect in auto)
    show "rows w' j = rows w j" if "j \<noteq> i" by (rule ways) (use effect that in auto)
    show "\<exists>row. rows w' i = Some row \<and> row_has row obj (names_of project_fields) checksum"
      if "e = NoError" "sql = project_update \<Longrightarrow> i \<in> dom (rows w)"
      using ways
    proof cases
      case (2 ok q2 w2)
      then show ?thesis using effect [OF 2(1,2)] that by simp
    qed (use that in simp)
    show "rows w' i = None" if "e = NoError" "sql = project_update" "i \<notin> dom (rows w)"
      using ways
    proof cases
      case (2 ok q2 w2)
      then show ?thesis using effect [OF 2(1,2)] that by simp
    qed (use that in simp)
  qed
qed

text \<open>The checksums a cache knows.\<close>

definition known :: "Cache \<Rightarrow> u64 \<rightharpoonup> u64" where
  "known c i = (case cache_map c i of None \<Rightarrow> None | Some (ck, seen) \<Rightarrow> if seen = 0 then None else Some ck)"

lemma check_known:
  assumes "cache_wf c" and "cache_check_item (Ptr c) i k = Some (st, p)"
  shows "\<exists>c'. p = Ptr c' \<and> cache_wf c' \<and> c_size c' = c_size c \<and> known c' = known c \<and>
    (st = CacheOk \<longleftrightarrow> known c i = Some k) \<and> (st \<noteq> CacheNotSet \<longleftrightarrow> i \<in> dom (known c))"
proof -
  have version: "c_version c \<noteq> 0" using assms(1) by (auto simp: cache_wf_def)
  then show ?thesis
    using cache_check_item_spec [OF assms(1), of i k] assms(2)
    by (auto simp: known_def fun_eq_iff dom_def split: option.splits if_splits)
qed

lemma set_known:
  assumes "cache_wf c" and "unat (c_size c) + 1000 < 2 ^ 32" and "cache_set_item alloc (Ptr c) i k = Some (b, p)"
  shows "\<exists>c'. p = Ptr c' \<and> cache_wf c' \<and> (known c' = known c \<and> known c i = None \<or> known c' = (known c)(i \<mapsto> k))"
proof -
  have version: "c_version c \<noteq> 0" using assms(1) by (auto simp: cache_wf_def)
  obtain ok c' where run: "cache_set_item alloc (Ptr c) i k = Some (ok, Ptr c')" "cache_wf c'"
      "if ok then cache_map c' = (cache_map c)(i \<mapsto> (k, c_version c)) else c' = c \<and> cache_map c i = None"
    using cache_set_item_spec [OF assms(1,2), of alloc i k] by (metis (full_types))
  then have "known c' = known c \<and> known c i = None \<or> known c' = (known c)(i \<mapsto> k)"
    using version by (auto simp: known_def fun_eq_iff split: if_splits)
  then show ?thesis using run(1,2) assms(3) by simp
qed

lemma member_id:
  assumes "decode_members env (BX_FIELD ''id'' BX_F_UINT # rest) item = Some (obj, checksum)"
  shows "bind_u64 (any_bind (member obj ''id'')) = item_id item"
proof -
  have m: "member obj ''id'' = AUInteger (fst (bx_object_get_json_uint item ''id'' (Ptr [])))"
    using assms by (auto simp: decode_members_def BX_FIELD_def read_slot_def member_def fname_def split: bind_splits prod.splits)
  have "bind_u64 (any_bind (AUInteger v)) = (if bu_isset v then bu_value v else 0)" for v
    using bind_u64_id [of "bu_value v"]
    by (auto simp: any_bind_def set_value_def set_null_def param_to_bind_def bind_u64_def id_bind_def Let_def)
  then show ?thesis unfolding m by (auto simp: item_id_def bx_object_get_json_uint_def Let_def split: option.splits)
qed

text \<open>The ways through the handler of a project: it ends before or after its statement, or stores the checksum.\<close>

lemma project_ways:
  assumes alone: "table_alone env ''pr_project'' rows" and decode: "decode_members env project_fields item = Some (obj, checksum)"
    and check: "cache_check_item q (item_id item) checksum = Some (st, p1)"
    and run: "bx_project_sync env conn item (q, w) = Some (e, p, w')"
  defines "sql \<equiv> if st = CacheNotSet then project_insert else project_update"
  shows "(\<exists>w1. p = p1 \<and> rows w' = rows w1 \<and> (rows w1 = rows w \<or>
        (\<exists>e1 w0. e1 \<noteq> NoError \<and> rows w0 = rows w \<and> project_execute_request env (obj, checksum) sql w0 = Some (e1, w1)))) \<or>
    (\<exists>w0 w1 b. rows w0 = rows w \<and> rows w' = rows w1 \<and> cache_set_item (se_alloc env) p1 (item_id item) checksum = Some (b, p) \<and>
        project_execute_request env (obj, checksum) sql w0 = Some (NoError, w1))"
proof -
  have i: "bu_value (uint_member obj ''id'') = item_id item" using decode_id [OF decode project_fields_def] .
  have missing: "rows w1 = rows w" if "contact_missing env a w = Some (x, w1)" for a x w1
    using keepsD [OF keeps_contact_missing [OF alone] that] .
  have details: "rows w1 = rows w0" if "bx_project_extra_sync env (se_walk env) conn a w0 = Some (x, w1)" for a x w0 w1
    using keepsD [OF keeps_project_details [OF alone] that] .
  show ?thesis
  proof (cases "st = CacheOk")
    case True
    then show ?thesis using run by (auto simp: bx_project_sync_def decode check i)
  next
    case False
    then obtain e0 m w0 where m: "contact_missing env (uint_member obj ''contact_id'') w = Some ((e0, m), w0)"
      using run by (auto simp: bx_project_sync_def decode check i Let_def split: bind_splits)
    note w0 = missing [OF m]
    show ?thesis
    proof (cases "e0 \<noteq> NoError \<or> m")
      case True
      then have "p = p1 \<and> w' = w0" using run False m by (auto simp: bx_project_sync_def decode check i Let_def split: if_splits)
      then show ?thesis using w0 by blast
    next
      case stmt: False
      then obtain e1 w2 where w2: "project_execute_request env (obj, checksum) sql w0 = Some (e1, w2)"
        using run False m by (auto simp: bx_project_sync_def decode check i sql_def Let_def split: bind_splits)
      show ?thesis
      proof (cases "e1 = NoError")
        case True
        then obtain b e2 w3 where "cache_set_item (se_alloc env) p1 (item_id item) checksum = Some (b, p)"
            "bx_project_extra_sync env (se_walk env) conn (item_id item) w2 = Some (e2, w3)" "w' = w3"
          using run False m stmt w2 by (auto simp: bx_project_sync_def decode check i sql_def Let_def split: bind_splits if_splits)
        then show ?thesis using w2 True w0 details by blast
      next
        case fail: False
        then have "p = p1 \<and> w' = w2"
          using run False m stmt w2 by (auto simp: bx_project_sync_def decode check i sql_def Let_def split: if_splits)
        then show ?thesis using w2 fail w0 by blast
      qed
    qed
  qed
qed

lemma project_effect:
  assumes "table_alone env ''pr_project'' rows"
    and "runs_statement (st_api env) rows project_insert" and "runs_statement (st_api env) rows project_update"
    and "cache_wf c" and "unat (c_size c) + 1000 < 2 ^ 32" and "dom (known c) \<subseteq> dom (rows w)"
    and "decode_members env project_fields item = Some (obj, checksum)"
    and "bx_project_sync env conn item (Ptr c, w) = Some (e, p, w')"
  shows "\<exists>c'. p = Ptr c' \<and> dom (known c') \<subseteq> dom (rows w') \<and>
    (\<forall>j. j \<noteq> item_id item \<longrightarrow> rows w' j = rows w j \<and> known c' j = known c j) \<and>
    (known c' (item_id item) \<noteq> known c (item_id item) \<longrightarrow>
       known c' (item_id item) = Some checksum \<and>
       (\<exists>row. rows w' (item_id item) = Some row \<and> row_has row obj (names_of project_fields) checksum))"
proof -
  let ?i = "item_id item"
  have i: "bind_u64 (any_bind (member obj ''id'')) = ?i" using member_id assms(7) by (simp add: project_fields_def)
  obtain st p1 where check: "cache_check_item (Ptr c) ?i checksum = Some (st, p1)"
    using assms(7,8) decode_id [OF assms(7) project_fields_def] by (auto simp: bx_project_sync_def Let_def split: bind_splits)
  obtain c1 where c1: "p1 = Ptr c1" "cache_wf c1" "c_size c1 = c_size c" "known c1 = known c" "st \<noteq> CacheNotSet \<longrightarrow> ?i \<in> dom (known c)"
    using check_known [OF assms(4) check] by blast
  define sql where "sql = (if st = CacheNotSet then project_insert else project_update)"
  have law: "runs_statement (st_api env) rows sql" and sql: "sql = project_insert \<or> sql = project_update"
    using assms(2,3) by (simp_all add: sql_def)
  have "project_insert \<noteq> project_update" by (simp add: project_insert_def project_update_def)
  then have upd: "sql = project_update \<longleftrightarrow> st \<noteq> CacheNotSet" by (simp add: sql_def)
  note effect = project_write [OF assms(1) law sql, where obj = obj and checksum = checksum, unfolded i upd]
  from project_ways [OF assms(1,7) check assms(8), folded sql_def] show ?thesis
  proof (elim disjE exE conjE)
    fix w1
    assume w1: "p = p1" "rows w' = rows w1" "rows w1 = rows w"
    then show ?thesis using c1 assms(6) by (intro exI [of _ c1]) auto
  next
    fix w1 e1 w0
    assume w1: "p = p1" "rows w' = rows w1" "rows w0 = rows w" "project_execute_request env (obj, checksum) sql w0 = Some (e1, w1)"
    show ?thesis using c1 assms(6) w1 effect(1,2) [OF w1(4)] by (intro exI [of _ c1]) auto
  next
    fix w0 w1 b
    assume w1: "rows w0 = rows w" "rows w' = rows w1" "cache_set_item (se_alloc env) p1 ?i checksum = Some (b, p)"
      "project_execute_request env (obj, checksum) sql w0 = Some (NoError, w1)"
    obtain c' where c': "p = Ptr c'" "known c' = known c \<or> known c' = (known c)(?i \<mapsto> checksum)"
      using set_known [OF c1(2), of "se_alloc env" ?i checksum b p] w1(3) c1 assms(5) by auto
    have row: "\<exists>row. rows w1 ?i = Some row \<and> row_has row obj (names_of project_fields) checksum"
      using effect(3) [OF w1(4)] c1(5) assms(6) w1(1) by auto
    have "dom (known c) \<subseteq> dom (rows w1)" using order_trans [OF assms(6) effect(1) [OF w1(4), unfolded w1(1)]] .
    moreover have "?i \<in> dom (rows w1)" using row by blast
    ultimately have sub: "dom (known c') \<subseteq> dom (rows w')" using c'(2) unfolding w1(2) by (elim disjE) simp_all
    show ?thesis
    proof (intro exI [of _ c'] conjI allI impI)
      fix j assume "j \<noteq> ?i"
      then show "rows w' j = rows w j" "known c' j = known c j" using effect(2) [OF w1(4)] w1(1,2) c'(2) by auto
    next
      assume "known c' ?i \<noteq> known c ?i"
      then show "known c' ?i = Some checksum" using c'(2) by auto
    qed (use c'(1) sub row w1(2) in simp_all)
  qed
qed

section \<open>Properties\<close>

text \<open>
  C6: a checksum enters the cache of projects only with its row. On a server that runs the two
  statements, the handler of a listed project touches no other row and no other entry, every id
  the cache knows still has a row, and when the checksum that the cache has for the project
  changes, the row of the project has every member of it and this checksum.
\<close>

theorem project_stored:
  assumes "table_alone env ''pr_project'' rows"
    and "runs_statement (st_api env) rows project_insert" and "runs_statement (st_api env) rows project_update"
    and "cache_wf c" and "unat (c_size c) + 1000 < 2 ^ 32" and "dom (known c) \<subseteq> dom (rows w)"
    and "decode_members env project_fields item = Some (obj, checksum)"
    and "bx_project_sync env conn item (Ptr c, w) = Some (e, p, w')"
  shows "\<exists>c'. p = Ptr c' \<and> dom (known c') \<subseteq> dom (rows w') \<and>
    (\<forall>j. j \<noteq> item_id item \<longrightarrow> rows w' j = rows w j \<and> known c' j = known c j) \<and>
    (known c' (item_id item) \<noteq> known c (item_id item) \<longrightarrow>
       known c' (item_id item) = Some checksum \<and>
       (\<exists>row. rows w' (item_id item) = Some row \<and> row_has row obj (names_of project_fields) checksum))"
  using assms by (rule project_effect)

section \<open>A server with the projects\<close>

definition project_execute :: "string \<Rightarrow> MYSQL_BIND list \<Rightarrow> (u64 \<rightharpoonup> stored_row) \<Rightarrow> nat \<times> (u64 \<rightharpoonup> stored_row)" where
  "project_execute t bs m =
     (if t = fst (sql_params project_insert) then (0, statement_effect (the (read_statement project_insert)) bs m)
      else if t = fst (sql_params project_update) then (0, statement_effect (the (read_statement project_update)) bs m)
      else (0, m))"

definition project_server :: "(u64 \<rightharpoonup> stored_row) stmt_api" where
  "project_server = \<lparr>sa_prepare = (\<lambda>t w. (0, w)), sa_bind = (\<lambda>bs w. (0, w)), sa_execute = project_execute, sa_affected_rows = (\<lambda>w. 1),
     sa_result_metadata = (\<lambda>w. NULL), sa_metadata_errno = (\<lambda>w. 0), sa_warning_count = (\<lambda>w. 0), sa_show_warnings = (\<lambda>w. (Inl [], w)),
     sa_fetch = (\<lambda>w. ([], 0, w))\<rparr>"

definition stored_env :: "(u64 \<rightharpoonup> stored_row) sync_env" where
  "stored_env = \<lparr>st_api = project_server, st_digest = (\<lambda>bytes. 1), st_libc = \<lparr>lc_strtod = (\<lambda>s. 0), lc_fmt_e = (\<lambda>v. ''0'')\<rparr>,
     st_time = (\<lambda>w. (0, w)), st_dead = (\<lambda>v. v), se_alloc = (\<lambda>n. True),
     se_walk = \<lparr>we_request = (\<lambda>path args w. Some (NULL, w)), we_sleep = (\<lambda>w. w)\<rparr>, se_countries = NULL\<rparr>"

lemma effect_local: "dom m \<subseteq> dom (statement_effect st bs m) \<and> (\<forall>j. j \<noteq> statement_key st bs \<longrightarrow> statement_effect st bs m j = m j)"
  by (cases st) (auto split: option.split)

lemma prefix_texts:
  assumes "sql = v @ r" and "list_all (\<lambda>c. c \<noteq> CHR '':'') v"
  shows "\<exists>r. fst (sql_params sql) = v @ r"
  using sql_plain [OF assms(2), of r] assms(1) by simp

lemma project_texts:
  "\<exists>r. fst (sql_params project_insert) = ''INSERT IGNORE INTO pr_project '' @ r" "\<exists>r. fst (sql_params project_update) = ''UPDATE pr_project '' @ r"
  by (rule prefix_texts, simp only: project_insert_def project_update_def, simp, simp)+

lemma project_texts_differ: "fst (sql_params project_insert) \<noteq> fst (sql_params project_update)"
  using project_texts by auto

lemma project_texts_write:
  "writes_to ''pr_project'' (fst (sql_params project_insert))" "writes_to ''pr_project'' (fst (sql_params project_update))"
  using project_texts by (auto simp: writes_to_def is_prefix_def)

lemma project_server_simps [simp]: "sa_execute (st_api stored_env) = project_execute" "quiet_api (st_api stored_env) (\<lambda>w. w)"
  by (simp_all add: stored_env_def project_server_def quiet_api_def)

lemma project_runs:
  assumes "\<And>bs m. project_execute (fst (sql_params sql)) bs m = (0, statement_effect (the (read_statement sql)) bs m)"
  shows "runs_statement (st_api stored_env) (\<lambda>w. w) sql"
  unfolding runs_statement_def project_server_simps
proof (intro allI impI)
  fix st bs w e w1
  assume "read_statement sql = Some st" and "project_execute (fst (sql_params sql)) bs w = (e, w1)"
  then have "w1 = statement_effect st bs w" using assms [of bs w] by simp
  then show "dom w \<subseteq> dom w1 \<and> (\<forall>j. j \<noteq> statement_key st bs \<longrightarrow> w1 j = w j) \<and>
      (e = 0 \<and> sa_warning_count (st_api stored_env) w1 = 0 \<longrightarrow> w1 = statement_effect st bs w)"
    using effect_local [of w st bs] by simp
qed

lemma project_server_runs:
  "runs_statement (st_api stored_env) (\<lambda>w. w) project_insert" "runs_statement (st_api stored_env) (\<lambda>w. w) project_update"
  using project_texts_differ by (auto intro!: project_runs simp: project_execute_def)

lemma project_server_alone: "table_alone stored_env ''pr_project'' (\<lambda>w. w)"
  unfolding table_alone_def project_server_simps
  using project_texts_write by (auto simp: project_execute_def) (auto simp: stored_env_def)

lemma project_write_returns:
  assumes "sql = project_insert \<or> sql = project_update"
  shows "\<exists>e w'. project_execute_request env p sql w = Some (e, w')"
proof -
  obtain q where q: "bx_database_new_query sql = Some (Ptr q)"
    using statement_names [OF project_agree _ assms project_names(1)] project_names(2) plain_query [of sql] by auto
  show ?thesis
    by (auto simp: project_execute_request_def with_query_def q split: prod.split bool.split)
qed

definition stored_rows :: "u64 \<rightharpoonup> stored_row" where
  "stored_rows = [4 \<mapsto> Map.empty, 9 \<mapsto> Map.empty]"

lemma stored_known: "dom (known listed_cache) \<subseteq> dom stored_rows"
  by (auto simp: known_def listed_cache_def sample_cache_def cells_def cache_map_def items_map_def entry_def stored_rows_def split: if_splits)

theorem project_stored_witness:
  "\<exists>e c' w'. bx_project_sync stored_env (Ptr ()) (JObject [(''id'', JInt 7)]) (Ptr listed_cache, stored_rows) = Some (e, Ptr c', w') \<and>
     dom (known c') \<subseteq> dom w' \<and> w' 4 = Some Map.empty \<and> (known c' 7 \<noteq> None \<longrightarrow> known c' 7 = Some 1 \<and> w' 7 \<noteq> None)"
proof -
  let ?item = "JObject [(''id'', JInt 7)]"
  have wf: "cache_wf listed_cache" and room: "unat (c_size listed_cache) + 1000 < 2 ^ 32"
    using listed_cache_within by (auto simp: within_def)
  obtain obj where obj: "decode_members stored_env project_fields ?item = Some (obj, 1)" "bu_value (uint_member obj ''id'') = 7"
      "\<not> bu_isset (uint_member obj ''contact_id'')"
    by (simp add: decode_members_def project_fields_def listed_reads hash_digest_def stored_env_def uint_member_def member_def fname_def Let_def)
  have check: "cache_check_item (Ptr listed_cache) 7 1 = Some (CacheNotSet, Ptr listed_cache)" by code_simp
  have none: "known listed_cache 7 = None"
    by (simp add: known_def listed_cache_def sample_cache_def cells_def cache_map_def items_map_def entry_def)
  obtain e1 w1 where w1: "project_execute_request stored_env (obj, 1) project_insert stored_rows = Some (e1, w1)"
    using project_write_returns [OF disjI1 [OF refl], of stored_env "(obj, 1)" stored_rows] that by (elim exE)
  obtain b c1 where c1: "cache_set_item (se_alloc stored_env) (Ptr listed_cache) 7 1 = Some (b, Ptr c1)"
    using cache_set_item_spec [OF wf room, of "se_alloc stored_env" 7 1] that by (elim exE conjE)
  obtain e2 w2 where w2: "bx_project_extra_sync stored_env (se_walk stored_env) (Ptr ()) 7 w1 = Some (e2, w2)"
    by (simp add: bx_project_extra_sync_def detail_rows_def stored_env_def answer_rows_def)
  have "\<exists>r. bx_project_sync stored_env (Ptr ()) ?item (Ptr listed_cache, stored_rows) = Some r"
    by (simp add: bx_project_sync_def obj check contact_missing_def w1 c1 w2 split: if_split)
  then obtain e p w' where run: "bx_project_sync stored_env (Ptr ()) ?item (Ptr listed_cache, stored_rows) = Some (e, p, w')"
    by (metis prod_cases3)
  have i: "item_id ?item = 7" by (simp add: item_id_def bx_object_get_json_uint_def json_field_def)
  from project_stored [OF project_server_alone project_server_runs wf room stored_known obj(1) run]
  show ?thesis using run i none by (auto simp: stored_rows_def)
qed

end
