(* ===== verification/Bx_Agreement.thy ===== *)
theory Bx_Agreement
  imports Bx_Stored
begin

text \<open>
  The cache of projects agrees with its table: every checksum it knows is the one of the row, unless
  the row was last changed by a statement that failed or warned. The agreement outlives a walk with
  failures of any kind.
\<close>

section \<open>Walks that keep an invariant\<close>

text \<open>The invariant is counted: \<open>n\<close> bounds the rows that were handled so far.\<close>

locale counted_walk =
  fixes sync :: "json \<Rightarrow> 's handler" and inv :: "nat \<Rightarrow> 's \<Rightarrow> bool" and limit :: nat
  assumes step: "inv n s \<Longrightarrow> n < limit \<Longrightarrow> sync item s = Some (e, s') \<Longrightarrow> inv (Suc n) s'"
    and more: "inv n s \<Longrightarrow> inv (Suc n) s"
begin

lemma more_rows: "inv n s \<Longrightarrow> n \<le> m \<Longrightarrow> inv m s"
  by (induction m) (auto simp: le_Suc_eq intro: more)

lemma rows_keep:
  assumes "sync_rows sync items s = Some (e, s')" and "inv n s" and "n + length items \<le> limit"
  shows "inv (n + length items) s'"
  using assms
proof (induction items arbitrary: s n)
  case (Cons item items)
  obtain e1 s1 where s1: "sync item s = Some (e1, s1)" "s' = s1 \<or> sync_rows sync items s1 = Some (e, s')"
    using Cons.prems(1) by (auto split: bind_splits if_splits)
  have "inv (Suc n) s1" using step [OF Cons.prems(2) _ s1(1)] Cons.prems(3) by simp
  then show ?case using s1(2) Cons.IH [of s1 "Suc n"] Cons.prems(3) more_rows [of "Suc n" s1] by auto
qed simp

lemma walk_rows_keep:
  assumes "walk_rows sync (Ptr f) offset rows s = Some (e, s')" and "inv n s" and "n + length rows \<le> limit"
    and "\<And>k m s e s'. f k s = Some (e, s') \<Longrightarrow> inv m s \<Longrightarrow> inv m s'"
  shows "inv (n + length rows) s'"
  using assms(1-3)
proof (induction "length rows" arbitrary: offset rows s n rule: less_induct)
  case less
  show ?case
  proof (cases "rows = []")
    case True
    then show ?thesis using less.prems by (auto simp: walk_rows.simps)
  next
    case False
    have sum: "length (take 500 rows) + length (drop 500 rows) = length rows" by simp
    obtain e1 s1 where s1: "sync_rows sync (take 500 rows) s = Some (e1, s1)"
        "s' = s1 \<or> (\<exists>e2 s2. f (offset + 500) s1 = Some (e2, s2) \<and>
          (s' = s2 \<or> walk_rows sync (Ptr f) (offset + 500) (drop 500 rows) s2 = Some (e, s')))"
      using less.prems(1) False by (subst (asm) walk_rows.simps) (auto split: bind_splits if_splits)
    have kept: "inv (n + length (take 500 rows)) s1" using rows_keep [OF s1(1) less.prems(2)] less.prems(3) by simp
    have le: "n + length (take 500 rows) \<le> n + length rows" by simp
    from s1(2) show ?thesis
    proof (elim disjE exE conjE)
      assume "s' = s1"
      then show ?thesis using more_rows [OF kept le] by simp
    next
      fix e2 s2 assume "f (offset + 500) s1 = Some (e2, s2)" "s' = s2"
      then show ?thesis using more_rows [OF assms(4) [OF _ kept] le] by blast
    next
      fix e2 s2 assume s2: "f (offset + 500) s1 = Some (e2, s2)" "walk_rows sync (Ptr f) (offset + 500) (drop 500 rows) s2 = Some (e, s')"
      have "length (drop 500 rows) < length rows" "n + length (take 500 rows) + length (drop 500 rows) \<le> limit"
        using False less.prems(3) sum by (simp, linarith)
      from less.hyps [OF this(1) s2(2) assms(4) [OF s2(1) kept] this(2)] show ?thesis using sum by (metis add.assoc)
    qed
  qed
qed

lemma walk_keep:
  assumes "serves env path_fmt extra rows" and "by_offset path_fmt"
    and "bx_walk_pages_from env path_fmt extra False sync start (Ptr f) s = Some (e, s')"
    and "inv n s" and "n + length rows \<le> limit" and "\<And>k m s e s'. f k s = Some (e, s') \<Longrightarrow> inv m s \<Longrightarrow> inv m s'"
  shows "inv (n + length rows) s'"
proof -
  have start: "first_offset path_fmt start = int (nat (max 0 start))" using assms(2) by (simp add: first_offset_def by_offset_def)
  have "walk_rows sync (Ptr f) (int (nat (max 0 start))) (drop (nat (max 0 start)) rows) s = Some (e, s')"
    using assms(3) walk_loop_served [OF assms(1,2), of sync "Ptr f" "nat (max 0 start)" s]
    by (simp add: bx_walk_pages_from_def start)
  from walk_rows_keep [OF this assms(4) _ assms(6)] have "inv (n + length (drop (nat (max 0 start)) rows)) s'" using assms(5) by simp
  from more_rows [OF this] show ?thesis by simp
qed

end

section \<open>The books of a table\<close>

text \<open>
  A statement that MySQL refuses, or carries out with a warning, may have changed a row all the
  same (a value that was cut, a write on a table without transactions), and the program then knows
  nothing of what is stored. The books of a table are its rows and an account of those writes: the
  ids whose row was last changed by a statement that did not run cleanly. The account is a history
  variable: it says nothing of the server, it is kept by looking at what the server did.
\<close>

type_synonym books = "(u64 \<rightharpoonup> stored_row) \<times> u64 set"

abbreviation stored :: "books \<Rightarrow> u64 \<rightharpoonup> stored_row" where
  "stored \<equiv> fst"

abbreviation doubted :: "books \<Rightarrow> u64 set" where
  "doubted \<equiv> snd"

text \<open>An execution is clean when it reports no error, no result set and no warning.\<close>

definition clean_run :: "'w stmt_api \<Rightarrow> nat \<Rightarrow> 'w \<Rightarrow> bool" where
  "clean_run api e w \<longleftrightarrow>
     e = 0 \<and> sa_result_metadata api w = NULL \<and> sa_metadata_errno api w = 0 \<and> sa_warning_count api w = 0"

definition rewritten :: "books \<Rightarrow> books \<Rightarrow> u64 set" where
  "rewritten b b1 = {i. stored b1 i \<noteq> stored b i}"

definition keeps_account :: "'w stmt_api \<Rightarrow> ('w \<Rightarrow> books) \<Rightarrow> bool" where
  "keeps_account api books \<longleftrightarrow>
     (\<forall>t bs w e w1. sa_execute api t bs w = (e, w1) \<longrightarrow>
        doubted (books w1) = (if clean_run api e w1 then doubted (books w) - rewritten (books w) (books w1)
                              else doubted (books w) \<union> rewritten (books w) (books w1)))"

text \<open>What one execution does to the books, when it was clean for the program to take it for done.\<close>

definition booked :: "books \<Rightarrow> books \<Rightarrow> bool \<Rightarrow> bool" where
  "booked b b1 good \<longleftrightarrow>
     doubted b1 = doubted b \<and> stored b1 = stored b \<or> doubted b1 = doubted b \<union> rewritten b b1 \<or>
     good \<and> doubted b1 = doubted b - rewritten b b1"

lemma booked_other: "booked b b1 good \<Longrightarrow> stored b1 j = stored b j \<Longrightarrow> j \<in> doubted b1 \<longleftrightarrow> j \<in> doubted b"
  by (auto simp: booked_def rewritten_def)

lemma booked_bad: "booked b b1 False \<Longrightarrow> j \<notin> doubted b1 \<Longrightarrow> j \<notin> doubted b \<and> stored b1 j = stored b j"
  by (auto simp: booked_def rewritten_def)

lemma booked_mono: "booked b b1 good \<Longrightarrow> (good \<Longrightarrow> good') \<Longrightarrow> booked b b1 good'"
  by (auto simp: booked_def)

lemma booked_same: "b1 = b \<Longrightarrow> booked b b1 good"
  by (simp add: booked_def)

lemma prepared_booked:
  assumes quiet: "quiet_api api books" and account: "keeps_account api books"
    and run: "execute_prepared api q w = (ok, q', w')"
  shows "booked (books w) (books w') (ok \<and> \<not> dq_has_dataset q' \<and> bx_database_persist_ok (Ptr q'))"
proof -
  let ?bs = "map fst (map param_to_bind (dq_parameters q))"
  obtain e1 w1 where b: "sa_bind api ?bs w = (e1, w1)" by fastforce
  obtain e2 w2 where x: "sa_execute api (cstr (dq_query q)) ?bs w1 = (e2, w2)" by fastforce
  obtain r w3 where s: "sa_show_warnings api w2 = (r, w3)" by fastforce
  have books: "books w1 = books w" "books w3 = books w2"
    using quiet_rows(2) [OF quiet b] quiet_rows(3) [OF quiet s] by simp_all
  have doubt: "doubted (books w2) = (if clean_run api e2 w2 then doubted (books w) - rewritten (books w) (books w2)
      else doubted (books w) \<union> rewritten (books w) (books w2))"
    using account x books(1) unfolding keeps_account_def by metis
  note ex = run [unfolded execute_prepared_def Let_def b, simplified prod.case x]
  have world: "w' = w1 \<or> w' = w2 \<or> w' = w3"
    using ex x s by (auto simp: bx_database_print_warnings_def split: if_splits sum.splits prod.splits)
  have ran: "ok \<and> \<not> dq_has_dataset q' \<and> bx_database_persist_ok (Ptr q')" if "e1 = 0" "clean_run api e2 w2"
    using ex x that by (auto simp: clean_run_def bx_database_persist_ok_def)
  have bound: "w' = w1" if "e1 \<noteq> 0" using ex that by simp
  show ?thesis
  proof (cases "books w' = books w")
    case False
    then have w': "books w' = books w2" and "e1 = 0" using world bound books by auto
    show ?thesis unfolding booked_def w' using doubt ran [OF \<open>e1 = 0\<close>] by (cases "clean_run api e2 w2") simp_all
  qed (rule booked_same)
qed

lemma execute_booked:
  assumes quiet: "quiet_api api books" and account: "keeps_account api books"
    and run: "bx_database_execute api q w = (ok, q', w')"
  shows "booked (books w) (books w') (ok \<and> \<not> dq_has_dataset q' \<and> bx_database_persist_ok (Ptr q'))"
proof (cases "dq_executed q")
  case True
  then show ?thesis using run prepared_booked [OF quiet account] by (auto simp: bx_database_execute_def)
next
  case False
  obtain e w1 where p: "sa_prepare api (cstr (dq_query q)) w = (e, w1)" by fastforce
  have "books w1 = books w" by (rule quiet_rows(1) [OF quiet p])
  then show ?thesis
    using run False p prepared_booked [OF quiet account, of q w1] booked_same [of "books w1" "books w"]
    by (auto simp: bx_database_execute_def split: if_splits)
qed

lemma project_booked:
  assumes alone: "table_alone env ''pr_project'' books" and account: "keeps_account (st_api env) books"
    and sql: "sql = project_insert \<or> sql = project_update"
    and run: "project_execute_request env (obj, checksum) sql w = Some (e, w')"
  shows "booked (books w) (books w') (e = NoError)"
proof -
  have quiet: "quiet_api (st_api env) books" using alone by (simp add: table_alone_def)
  obtain q where q: "bx_database_new_query sql = Some (Ptr q)"
    using statement_names [OF project_agree _ sql project_names(1)] project_names(2) plain_query [of sql] by auto
  obtain now w1 where t: "st_time env w = (now, w1)" by fastforce
  have w1: "books w1 = books w" using alone t unfolding table_alone_def by (metis snd_conv)
  obtain b q1 where b: "project_bind_params obj checksum (st_dead env now) q = (b, q1)" by fastforce
  obtain ok q2 w2 where x: "bx_database_execute (st_api env) q1 w1 = (ok, q2, w2)" by (metis prod_cases3)
  obtain got q3 w3 where r: "bx_database_results (st_api env) q2 w2 = (got, q3, w3)" by (metis prod_cases3)
  have got: "got \<and> q3 = q2" if "\<not> dq_has_dataset q2" "bx_database_persist_ok (Ptr q2)"
    using r that by (auto simp: bx_database_results_def bx_database_persist_ok_def)
  have "\<not> b \<and> w' = w1 \<or> books w' = books w2 \<and> (ok \<and> got \<and> bx_database_persist_ok (Ptr q3) \<longrightarrow> e = NoError)"
    using run q t b x r results_quiet [OF quiet r] by (auto simp: project_execute_request_def with_query_def split: bool.splits if_splits)
  then show ?thesis
  proof (elim disjE conjE)
    assume "w' = w1"
    then show ?thesis using w1 by (simp add: booked_same)
  next
    assume w': "books w' = books w2" and good: "ok \<and> got \<and> bx_database_persist_ok (Ptr q3) \<longrightarrow> e = NoError"
    have "booked (books w) (books w') (ok \<and> \<not> dq_has_dataset q2 \<and> bx_database_persist_ok (Ptr q2))"
      using execute_booked [OF quiet account x] w1 w' by simp
    then show ?thesis by (rule booked_mono) (use got good in auto)
  qed
qed

text \<open>
  What the cache knows is in the table, but for the rows in doubt.
\<close>

definition agrees :: "Cache \<Rightarrow> books \<Rightarrow> bool" where
  "agrees c b \<longleftrightarrow>
     (\<forall>i ck. known c i = Some ck \<longrightarrow> i \<notin> doubted b \<longrightarrow> (\<exists>row. stored b i = Some row \<and> row ''_checksum'' = Some (id_bind ck)))"

lemma agreesD: "agrees c b \<Longrightarrow> known c i = Some ck \<Longrightarrow> i \<notin> doubted b \<Longrightarrow> \<exists>row. stored b i = Some row \<and> row ''_checksum'' = Some (id_bind ck)"
  by (auto simp: agrees_def)

definition project_laws :: "('w, 'z) sync_env_scheme \<Rightarrow> ('w \<Rightarrow> books) \<Rightarrow> bool" where
  "project_laws env books \<longleftrightarrow> table_alone env ''pr_project'' books \<and> keeps_account (st_api env) books \<and>
     runs_statement (st_api env) (\<lambda>w. stored (books w)) project_insert \<and> runs_statement (st_api env) (\<lambda>w. stored (books w)) project_update"

lemma alone_stored: "table_alone env table books \<Longrightarrow> table_alone env table (\<lambda>w. stored (books w))"
  by (auto simp: table_alone_def quiet_api_def)

lemma project_agrees:
  assumes laws: "project_laws env books" and wf: "cache_wf c" and room: "unat (c_size c) + 1000 < 2 ^ 32"
    and agree: "agrees c (books w)" and run: "bx_project_sync env conn item (Ptr c, w) = Some (e, Ptr c', w')"
  shows "agrees c' (books w')"
proof -
  let ?i = "item_id item"
  have law: "table_alone env ''pr_project'' books" "keeps_account (st_api env) books"
      "runs_statement (st_api env) (\<lambda>w. stored (books w)) project_insert" "runs_statement (st_api env) (\<lambda>w. stored (books w)) project_update"
    using laws by (simp_all add: project_laws_def)
  obtain obj checksum where decode: "decode_members env project_fields item = Some (obj, checksum)"
    using run by (auto simp: bx_project_sync_def split: bind_splits)
  have i: "bind_u64 (any_bind (member obj ''id'')) = ?i" using member_id decode by (simp add: project_fields_def)
  obtain st p1 where check: "cache_check_item (Ptr c) ?i checksum = Some (st, p1)"
    using decode run decode_id [OF decode project_fields_def] by (auto simp: bx_project_sync_def Let_def split: bind_splits)
  obtain c1 where c1: "p1 = Ptr c1" "cache_wf c1" "c_size c1 = c_size c" "known c1 = known c" "st \<noteq> CacheNotSet \<longleftrightarrow> ?i \<in> dom (known c)"
    using check_known [OF wf check] by blast
  define sql where "sql = (if st = CacheNotSet then project_insert else project_update)"
  have sql: "sql = project_insert \<or> sql = project_update" and law_sql: "runs_statement (st_api env) (\<lambda>w. stored (books w)) sql"
    using law(3,4) by (simp_all add: sql_def)
  have "project_insert \<noteq> project_update" by (simp add: project_insert_def project_update_def)
  then have upd: "sql = project_update \<longleftrightarrow> ?i \<in> dom (known c)" using c1(5) by (auto simp: sql_def)
  note wrote = project_write [OF alone_stored [OF law(1)] law_sql sql, where obj = obj and checksum = checksum, unfolded i]
    and booked = project_booked [OF law(1,2) sql, where obj = obj and checksum = checksum]
  from project_ways [OF law(1) decode check run, folded sql_def] show ?thesis
  proof (elim disjE exE conjE)
    fix w1 assume "Ptr c' = p1" "books w' = books w1" "books w1 = books w"
    then show ?thesis using agree c1(1,4) by (simp add: agrees_def)
  next
    fix w1 e1 w0
    assume w1: "Ptr c' = p1" "books w' = books w1" "e1 \<noteq> NoError" "books w0 = books w"
      "project_execute_request env (obj, checksum) sql w0 = Some (e1, w1)"
    have "booked (books w) (books w') False" using booked [OF w1(5)] w1(2-4) by simp
    from booked_bad [OF this] show ?thesis using agree w1(1) c1(1,4) unfolding agrees_def by (metis ptr.inject)
  next
    fix w0 w1 b
    assume w1: "books w0 = books w" "books w' = books w1" "cache_set_item (se_alloc env) p1 ?i checksum = Some (b, Ptr c')"
      "project_execute_request env (obj, checksum) sql w0 = Some (NoError, w1)"
    have cs: "known c' = known c \<and> known c ?i = None \<or> known c' = (known c)(?i \<mapsto> checksum)"
      using set_known [OF c1(2), of "se_alloc env" ?i checksum b "Ptr c'"] w1(3) c1(1,3,4) room by auto
    have book: "booked (books w) (books w') True" using booked [OF w1(4)] w1(1,2) by simp
    have others: "stored (books w') j = stored (books w) j" if "j \<noteq> ?i" for j using wrote(2) [OF w1(4) that] w1(1,2) by simp
    have own: "\<exists>row. stored (books w') ?i = Some row \<and> row ''_checksum'' = Some (id_bind checksum)" if sure: "?i \<notin> doubted (books w')"
    proof (cases "sql = project_update \<longrightarrow> ?i \<in> dom (stored (books w))")
      case True
      then show ?thesis using wrote(3) [OF w1(4) refl] w1(1,2) by (auto simp: row_has_def)
    next
      case False
      then have gone: "stored (books w') ?i = stored (books w) ?i" using wrote(4) [OF w1(4) refl] w1(1,2) by (simp add: domIff)
      obtain ck where "known c ?i = Some ck" using False upd by blast
      then have "?i \<in> doubted (books w)" using agreesD [OF agree, of ?i ck] False by auto
      then show ?thesis using booked_other [OF book gone] sure by simp
    qed
    show ?thesis unfolding agrees_def
    proof (intro allI impI)
      fix j ck assume j: "known c' j = Some ck" "j \<notin> doubted (books w')"
      show "\<exists>row. stored (books w') j = Some row \<and> row ''_checksum'' = Some (id_bind ck)"
      proof (cases "j = ?i")
        case True
        then show ?thesis using own j cs by auto
      next
        case False
        then have "known c j = Some ck" "j \<notin> doubted (books w)" using j cs booked_other [OF book others] by auto
        then show ?thesis using agreesD [OF agree] others [OF False] by simp
      qed
    qed
  qed
qed

section \<open>The walk of the projects\<close>

definition agreement :: "('w, 'z) sync_env_scheme \<Rightarrow> ('w \<Rightarrow> books) \<Rightarrow> nat \<Rightarrow> nat \<Rightarrow> 'w chain_state \<Rightarrow> bool" where
  "agreement env books v n s \<longleftrightarrow>
     (project_laws env books \<longrightarrow> (\<exists>c. ch_projects s = Ptr c \<and> within n c \<and> unat (c_version c) \<le> v \<and> agrees c (books (ch_world s))))"

lemma within_room: "within n c \<Longrightarrow> n + 2000 < 2 ^ 32 \<Longrightarrow> cache_wf c \<and> unat (c_size c) + 1000 < 2 ^ 32"
  by (auto simp: within_def)

interpretation agreeing_projects: counted_walk "project_page_item (program_env xxh my env conn)" "agreement env books v" "2 ^ 32 - 2000"
proof
  fix n item e and s s' :: "'a chain_state"
  assume inv: "agreement env books v n s" and n: "n < 2 ^ 32 - 2000"
    and run: "project_page_item (program_env xxh my env conn) item s = Some (e, s')"
  show "agreement env books v (Suc n) s'" unfolding agreement_def
  proof
    assume laws: "project_laws env books"
    then obtain c where c: "ch_projects s = Ptr c" "within n c" "agrees c (books (ch_world s))" "unat (c_version c) \<le> v"
      using inv by (auto simp: agreement_def)
    have room: "n + 2000 < 2 ^ 32" using n by simp
    obtain c' where c': "ch_projects s' = Ptr c'" "marked (Suc n) c c' {item_id item}"
      using project_list.sync_marks [OF c(1,2) room run] by blast
    have "bx_project_sync env conn item (Ptr c, ch_world s) = Some (e, Ptr c', ch_world s')"
      using run c(1) c'(1) by (auto simp: project_page_item_def program_env_def split: bind_splits)
    from project_agrees [OF laws _ _ c(3) this] within_room [OF c(2) room]
    show "\<exists>c. ch_projects s' = Ptr c \<and> within (Suc n) c \<and> unat (c_version c) \<le> v \<and> agrees c (books (ch_world s'))"
      using c'(1) marked_within [OF c'(2)] c(4) c'(2) by (auto simp: marked_def)
  qed
next
  fix n and s :: "'a chain_state"
  assume "agreement env books v n s"
  then show "agreement env books v (Suc n) s" using within_Suc by (auto simp: agreement_def)
qed

text \<open>The settings are in a table of their own.\<close>

definition settings_apart :: "'w mysql \<Rightarrow> ('w \<Rightarrow> 'r) \<Rightarrow> bool" where
  "settings_apart my rows \<longleftrightarrow> (\<forall>q vs w. rows (snd (my_execute my q vs w)) = rows w)"

lemma save_cursor_rows:
  assumes "settings_apart my rows" and "save_cursor (program_env xxh my env conn) conn c st = (ok, st')"
  shows "rows (ch_world st') = rows (ch_world st)"
proof -
  have "rows w' = rows w" if "bx_conf_put_database_conn xxh my conf name arg w = (ok, conf', w')" for conf name arg w ok conf' w'
    using that assms(1) unfolding bx_conf_put_database_conn_def settings_apart_def
    by (auto split: if_splits option.splits prod.splits bool.splits) (metis snd_conv)+
  then show ?thesis using assms(2)
    by (fastforce simp: save_cursor_def bx_chain_save_def program_env_def Let_def split: if_splits prod.splits)
qed

lemma agreement_same:
  "ch_projects s' = ch_projects s \<Longrightarrow> books (ch_world s') = books (ch_world s) \<Longrightarrow> agreement env books v n s \<Longrightarrow> agreement env books v n s'"
  by (simp add: agreement_def)

lemma save_cursor_agreement:
  assumes "settings_apart my books" and "save_cursor (program_env xxh my env conn) conn c st = (ok, st')" and "agreement env books v n st"
  shows "agreement env books v n st'"
  using agreement_same [OF _ save_cursor_rows [OF assms(1,2)] assms(3)] save_cursor_caches [OF assms(2)] by (simp add: caches_def)

lemma agreement_cursor: "agreement env books v n (st\<lparr>ch_cursor := c\<rparr>) = agreement env books v n st"
  by (simp add: agreement_def)

lemma page_agreement:
  assumes "settings_apart my books" and "on_validated_page (program_env xxh my env conn) conn phase k st = Some (e, st')"
    and "agreement env books v n st"
  shows "agreement env books v n st'"
  using assms(2,3) save_cursor_agreement [OF assms(1), of xxh env conn]
  by (auto simp: on_validated_page_def checkpoint_def Let_def agreement_cursor split: if_splits prod.splits bool.splits)

lemma finish_agreement:
  assumes "settings_apart my books" and "finish_resource (program_env xxh my env conn) conn next a b d st = (r, st')"
    and "agreement env books v n st"
  shows "agreement env books v n st'"
  using assms(2,3) save_cursor_agreement [OF assms(1), of xxh env conn] agreement_cursor
  by (fastforce simp: finish_resource_def advance_phase_def Let_def split: prod.splits)

lemma chain_agreement:
  assumes apart: "settings_apart my books" and phase: "cc_phase (ch_cursor st) = BX_CHAIN_PROJECT"
    and served: "serves (se_walk env) WALK_PROJECT_PATH NULL items" and inv: "agreement env books v n st"
    and room: "n + length items + 2000 \<le> 2 ^ 32"
    and run: "bx_chain_sync (program_env xxh my env conn) conn st = Some (r, st')"
  shows "agreement env books v (n + length items) st'"
proof (cases "conn = NULL")
  case True
  have "agreement env books v (n + length items) st" by (rule agreeing_projects.more_rows [OF inv]) simp
  then show ?thesis using run True by (simp add: bx_chain_sync_def Let_def)
next
  case False
  let ?env = "program_env xxh my env conn" and ?page = "Ptr (on_validated_page (program_env xxh my env conn) conn BX_CHAIN_PROJECT)"
  obtain e st1 where st1: "bx_project_walk_item_from ?env (cc_offset (ch_cursor st)) ?page st = Some (e, st1)"
      "st' = st1 \<or> (\<exists>r1. finish_resource ?env conn BX_CHAIN_INVOICE_LIST False True False st1 = (r1, st'))"
    using run False phase by (auto simp: bx_chain_sync_def chain_project_def Let_def split: bind_splits if_splits prod.splits)
  have "n + length items \<le> 2 ^ 32 - 2000" using room by simp
  from agreeing_projects.walk_keep [OF chain_serves [OF served] paths_by_offset(2) st1(1) [unfolded bx_project_walk_item_from_def] inv this
      page_agreement [OF apart]]
  have "agreement env books v (n + length items) st1" .
  then show ?thesis using st1(2) finish_agreement [OF apart] by blast
qed

section \<open>Properties\<close>


text \<open>The list with the project 9, and a table with the rows of both projects of the cache.\<close>

definition agree_env :: "(u64 \<rightharpoonup> stored_row) sync_env" where
  "agree_env = stored_env\<lparr>se_walk := list_env listed_rows\<rparr>"

definition agree_mysql :: "(u64 \<rightharpoonup> stored_row) mysql" where
  "agree_mysql = \<lparr>my_connect = (\<lambda>h u p d w. (True, w)), my_query = (\<lambda>q w. (True, w)), my_select = (\<lambda>q w. (NULL, w)),
     my_execute = (\<lambda>q vs w. (True, w))\<rparr>"

definition agree_rows :: "u64 \<rightharpoonup> stored_row" where
  "agree_rows = [4 \<mapsto> [''_checksum'' \<mapsto> id_bind 8], 9 \<mapsto> [''_checksum'' \<mapsto> id_bind 1]]"

definition agree_state :: "(u64 \<rightharpoonup> stored_row) chain_state" where
  "agree_state = \<lparr>ch_cursor = \<lparr>cc_phase = BX_CHAIN_PROJECT, cc_offset = 0\<rparr>, ch_contact_from_zero = False, ch_invoice_from_zero = False,
     ch_conf = [], ch_contacts = NULL, ch_projects = Ptr listed_cache, ch_invoices = NULL, ch_world = agree_rows\<rparr>"

text \<open>Its statements are all clean, so no row is ever in doubt.\<close>

definition sure :: "(u64 \<rightharpoonup> stored_row) \<Rightarrow> books" where
  "sure w = (w, {})"

lemma alone_sure: "table_alone env table (\<lambda>w. w) \<Longrightarrow> table_alone env table sure"
  by (auto simp: table_alone_def quiet_api_def sure_def)

lemma agree_laws: "project_laws agree_env sure"
proof -
  have api: "st_api agree_env = st_api stored_env" by (simp add: agree_env_def)
  have "table_alone agree_env ''pr_project'' (\<lambda>w. w)"
    using project_server_alone unfolding table_alone_def api
    by (auto simp: agree_env_def stored_env_def list_env_def split: list.splits ptr.splits BXAny.splits)
  moreover have "keeps_account (st_api agree_env) sure"
    by (auto simp: keeps_account_def clean_run_def api sure_def stored_env_def project_server_def project_execute_def split: if_splits)
  ultimately show ?thesis
    using project_server_runs alone_sure unfolding project_laws_def api by (simp add: sure_def)
qed

lemma agree_known: "agrees listed_cache (sure agree_rows)"
  by (auto simp: agrees_def sure_def known_def listed_cache_def sample_cache_def cells_def cache_map_def items_map_def entry_def agree_rows_def split: if_splits)

lemma agree_project:
  "bx_project_sync agree_env (Ptr ()) (JObject [(''id'', JInt 9)]) (Ptr listed_cache, w) = Some (NoError, Ptr seen_cache, w)"
proof -
  have "\<exists>obj. decode_members agree_env project_fields (JObject [(''id'', JInt 9)]) = Some (obj, 1) \<and> bu_value (uint_member obj ''id'') = 9"
    by (simp add: decode_members_def project_fields_def listed_reads hash_digest_def agree_env_def stored_env_def uint_member_def member_def fname_def Let_def)
  moreover have "cache_check_item (Ptr listed_cache) 9 1 = Some (CacheOk, Ptr seen_cache)" by code_simp
  ultimately show ?thesis by (auto simp: bx_project_sync_def)
qed

abbreviation agree_chain :: "(u64 \<rightharpoonup> stored_row) chain_env" where
  "agree_chain \<equiv> program_env (\<lambda>k. of_nat (length k)) agree_mysql agree_env (Ptr ())"

lemma agree_serves: "serves (se_walk agree_env) path_fmt extra listed_rows"
  by (simp add: agree_env_def list_env_serves)

lemma agree_walk:
  assumes "by_offset path_fmt"
  shows "bx_walk_pages_from (chain_walk agree_chain) path_fmt extra False sync 0 on_page st = walk_rows sync on_page 0 listed_rows st"
  using walk_loop_served [OF chain_serves [OF agree_serves] assms, of _ _ "Ptr ()" extra sync on_page 0 st] assms
  by (simp add: bx_walk_pages_from_def first_offset_def by_offset_def)

lemma agree_item:
  "project_page_item agree_chain item st = do {
     (e, c, w) \<leftarrow> bx_project_sync agree_env (Ptr ()) item (ch_projects st, ch_world st);
     Some (e, st\<lparr>ch_projects := c, ch_world := w\<rparr>)
   }"
  by (simp add: project_page_item_def program_env_def)


end
