(* ===== verification/Bx_Frames.thy ===== *)
theory Bx_Frames
  imports Bx_Agreement Bx_Main
begin

text \<open>
  What leaves the table of projects alone: the handlers of contacts and of invoices, with the objects
  they fetch on the way, and every phase of the chain but the walk of the projects. Their
  statements are foreign to the table, which is read off their texts.
\<close>

section \<open>Handlers that leave the projects alone\<close>

definition foreign :: "string \<Rightarrow> bool" where
  "foreign sql \<longleftrightarrow> plain_sql sql \<and> \<not> writes_to ''pr_project'' (fst (sql_params sql))"

abbreviation projects_alone :: "('w, 'z) sync_env_scheme \<Rightarrow> ('w \<Rightarrow> 'r) \<Rightarrow> bool" where
  "projects_alone env rows \<equiv> table_alone env ''pr_project'' rows"

lemma foreign_query:
  assumes "foreign sql" and "bx_database_new_query sql = Some (Ptr q)"
  shows "\<not> writes_to ''pr_project'' (cstr (dq_query q))"
  using assms plain_query [of sql] by (auto simp: foreign_def)

lemma foreign_rows:
  assumes "projects_alone env rows" and "foreign sql" and "bx_database_new_query sql = Some (Ptr q)"
    and "query_rows env q1 w = (ok, q2, w')" and "dq_query q1 = dq_query q"
  shows "rows w' = rows w"
  using run_foreign [OF assms(1) _ assms(4)] foreign_query [OF assms(2,3)] assms(5) by simp

lemma keeps_with_query:
  assumes "foreign sql" and "with_query sql w h = Some (x, w')"
    and "\<And>q. bx_database_new_query sql = Some (Ptr q) \<Longrightarrow> h q = Some (x, w') \<Longrightarrow> rows w' = rows w"
  shows "rows w' = rows w"
  using assms by (auto simp: with_query_def split: bind_splits ptr.splits)

lemma alone_time: "projects_alone env rows \<Longrightarrow> st_time env w = (now, w') \<Longrightarrow> rows w' = rows w"
  unfolding table_alone_def by (metis snd_conv)

lemma alone_request: "projects_alone env rows \<Longrightarrow> we_request (se_walk env) path args w = Some (r, w') \<Longrightarrow> rows w' = rows w"
  by (simp add: table_alone_def)

text \<open>Rules for the steps of a handler.\<close>

lemma keeps_some: "keeps rows (\<lambda>w. Some (x, w))"
  by (simp add: keeps_def)

lemma keeps_bind: "keeps rows f \<Longrightarrow> (\<And>x. keeps rows (g x)) \<Longrightarrow> keeps rows (\<lambda>w. f w \<bind> (\<lambda>(x, w1). g x w1))"
  unfolding keeps_def by (auto split: bind_splits)

lemma keeps_if: "(c \<Longrightarrow> keeps rows f) \<Longrightarrow> (\<not> c \<Longrightarrow> keeps rows g) \<Longrightarrow> keeps rows (\<lambda>w. if c then f w else g w)"
  by (cases c) simp_all

lemma keeps_pair: "(\<And>a b. keeps rows (h a b)) \<Longrightarrow> keeps rows (case_prod h x)"
  by (cases x) simp

lemmas keeps_rules = keeps_bind keeps_if keeps_pair keeps_some

text \<open>Users.\<close>

lemma user_sql: "foreign ''SELECT id FROM user  WHERE id = :id;''" "foreign ''SELECT _checksum FROM user WHERE id = :id;''"
  "foreign user_insert" "foreign user_update"
  by code_simp+

lemma keeps_write_user:
  assumes "projects_alone env rows" and "foreign sql"
  shows "keeps rows (write_user env sql user checksum now)"
  unfolding keeps_def write_user_def
proof (intro allI impI)
  fix w e w'
  let ?binds = "map (bxd_bind user) [''id'', ''firstname'', ''lastname'', ''email'', ''salutation_type''] @
     [bx_database_add_param_uint8 '':is_superadmin'' (if bb_value (bool_member user ''is_superadmin'') then 1 else 0),
      bx_database_add_param_uint8 '':is_accountant'' (if bb_value (bool_member user ''is_accountant'') then 1 else 0),
      u64_param '':_checksum'' checksum, u64_param '':_last_updated'' now, u64_param '':_deleted'' 0]"
  assume run: "with_query sql w (\<lambda>query.
       case query_rows env (bind_each ?binds query) w of
         (False, query1, w1) \<Rightarrow> Some (bx_database_query_error (Ptr query1), w1)
       | (True, query1, w1) \<Rightarrow> Some (if bx_database_persist_ok (Ptr query1) then NoError else ErrorGeneric, w1)) = Some (e, w')"
  show "rows w' = rows w"
  proof (rule keeps_with_query [OF assms(2) run])
    fix q
    assume q: "bx_database_new_query sql = Some (Ptr q)"
      and r: "(case query_rows env (bind_each ?binds q) w of
         (False, query1, w1) \<Rightarrow> Some (bx_database_query_error (Ptr query1), w1)
       | (True, query1, w1) \<Rightarrow> Some (if bx_database_persist_ok (Ptr query1) then NoError else ErrorGeneric, w1)) = Some (e, w')"
    obtain ok q1 w1 where x: "query_rows env (bind_each ?binds q) w = (ok, q1, w1)" by (metis prod_cases3)
    have "dq_query (bind_each ?binds q) = dq_query q" by (rule bind_each_query) simp
    from foreign_rows [OF assms q x this] show "rows w' = rows w" using r x by (auto split: bool.splits)
  qed
qed

lemma keeps_persist_user:
  assumes "projects_alone env rows"
  shows "keeps rows (persist_user env conn user)"
  unfolding keeps_def
proof (intro allI impI)
  fix w e w'
  assume run: "persist_user env conn user w = Some (e, w')"
  obtain now w1 where t: "st_time env w = (now, w1)" by fastforce
  have w1: "rows w1 = rows w" by (rule alone_time [OF assms t])
  let ?sql = "''SELECT _checksum FROM user WHERE id = :id;''"
  have "rows w' = rows w1" if run: "with_query ?sql w1 (\<lambda>query.
       case query_rows env (bind_value '':id'' i query) w1 of
         (False, query1, w2) \<Rightarrow> Some (bx_database_query_error (Ptr query1), w2)
       | (True, query1, w2) \<Rightarrow>
           if first_value query1 = Some (snd user) then Some (NoError, w2)
           else write_user env (if first_value query1 = None then user_insert else user_update) obj (snd user) now w2) = Some (e, w')"
    for i obj
  proof (rule keeps_with_query [OF user_sql(2) run])
    fix q
    assume q: "bx_database_new_query ?sql = Some (Ptr q)"
      and r: "(case query_rows env (bind_value '':id'' i q) w1 of
         (False, query1, w2) \<Rightarrow> Some (bx_database_query_error (Ptr query1), w2)
       | (True, query1, w2) \<Rightarrow>
           if first_value query1 = Some (snd user) then Some (NoError, w2)
           else write_user env (if first_value query1 = None then user_insert else user_update) obj (snd user) now w2) = Some (e, w')"
    obtain ok q1 w2 where x: "query_rows env (bind_value '':id'' i q) w1 = (ok, q1, w2)" by (metis prod_cases3)
    have w2: "rows w2 = rows w1" by (rule foreign_rows [OF assms user_sql(2) q x]) simp
    show "rows w' = rows w1"
      using r x w2 keepsD [OF keeps_write_user [OF assms user_sql(3)]] keepsD [OF keeps_write_user [OF assms user_sql(4)]]
      by (auto split: bool.splits if_splits)
  qed
  then show "rows w' = rows w" using run t w1 by (auto simp: persist_user_def Let_def split: if_splits)
qed

lemma keeps_user_paths:
  assumes "projects_alone env rows"
  shows "user_paths env (se_walk env) conn item paths err w = Some (e, w') \<Longrightarrow> rows w' = rows w"
proof (induction paths arbitrary: err w)
  case (Cons path paths)
  then obtain request w1 where r: "we_request (se_walk env) path [Ptr item] w = Some (request, w1)" by (auto split: bind_splits)
  have w1: "rows w1 = rows w" by (rule alone_request [OF assms r])
  have persist: "persist_user env conn u w1 = Some (e2, w2) \<Longrightarrow> rows w2 = rows w" for u e2 w2
    using keepsD [OF keeps_persist_user [OF assms]] w1 by metis
  show ?case
    using Cons.prems r w1 persist Cons.IH
    by (auto split: bind_splits ptr.splits if_splits)
qed simp

lemma keeps_user_sync:
  assumes "projects_alone env rows"
  shows "keeps rows (bx_user_sync_item env (se_walk env) conn item)"
  unfolding keeps_def bx_user_sync_item_def using keeps_user_paths [OF assms] by blast

lemma keeps_user_present:
  assumes "projects_alone env rows"
  shows "keeps rows (bx_user_is_in_database env item)"
  unfolding bx_user_is_in_database_def
  by (rule keeps_row_present [OF assms user_sql(1) [unfolded foreign_def, THEN conjunct1] user_sql(1) [unfolded foreign_def, THEN conjunct2]])

lemma keeps_ensure_user:
  assumes "projects_alone env rows"
  shows "keeps rows (ensure_user_exists env conn i)"
  unfolding ensure_user_exists_def by (intro keeps_rules keeps_user_present [OF assms] keeps_user_sync [OF assms])

lemma keeps_ensure_users:
  assumes "projects_alone env rows"
  shows "keeps rows (ensure_users env conn contact)"
  unfolding ensure_users_def Let_def by (intro keeps_rules keeps_ensure_user [OF assms])

text \<open>Groups.\<close>

lemma group_sql: "foreign ''DELETE FROM cg2c WHERE contact = :cid''"
  "foreign (''INSERT IGNORE INTO cg2c (contact_group, contact) '' @ ''VALUES (:gid, :cid)'')"
  by code_simp+

lemma execute_alone:
  assumes "projects_alone env rows" and "\<not> writes_to ''pr_project'' (cstr (dq_query q))"
    and "bx_database_execute (st_api env) q w = (ok, q', w')"
  shows "rows w' = rows w \<and> dq_query q' = dq_query q"
  using assms by (intro execute_foreign [OF _ _ assms(3)]) (simp_all add: table_alone_def)

lemma keeps_link_groups:
  assumes "projects_alone env rows" and "\<not> writes_to ''pr_project'' (cstr (dq_query q))"
    and "link_groups env q gids w = Some (e, w')"
  shows "rows w' = rows w"
  using assms(2,3)
proof (induction gids arbitrary: q w)
  case (Cons gid gids)
  obtain ok q1 w1 where x: "bx_database_execute (st_api env) (bind_uint64 '':gid'' gid q) w = (ok, q1, w1)" by (metis prod_cases3)
  have step: "rows w1 = rows w" "dq_query q1 = dq_query q" using execute_alone [OF assms(1) _ x] Cons.prems(1) by simp_all
  show ?case
    using Cons.prems x step Cons.IH [of q w] Cons.IH [of q1 w1] by (auto split: if_splits bool.splits)
qed simp

lemma keeps_group_link:
  assumes "projects_alone env rows"
  shows "keeps rows (bx_contact_group_link env i ids)"
  unfolding keeps_def bx_contact_group_link_def
proof (intro allI impI)
  let ?link = "\<lambda>w1 ins ids'. do {
         n \<leftarrow> rd ids' 0;
         gids \<leftarrow> (if nat n < length ids' then Some (take (nat n) (tl ids')) else None);
         link_groups env (bind_uint64 '':cid'' i (bind_uint64 '':gid'' 0 ins)) (map word_of_int gids) w1
       }"
  let ?del = "\<lambda>w del. case bx_database_execute (st_api env) (bind_uint64 '':cid'' i del) w of
         (False, del1, w1) \<Rightarrow> Some (query_failure del1, w1)
       | (True, del1, w1) \<Rightarrow> do {
           ids \<leftarrow> bx_int_string_array_to_int_array (case ids of NULL \<Rightarrow> NULL | Ptr s \<Rightarrow> Ptr (cstr s));
           (case ids of
              NULL \<Rightarrow> Some (NoError, w1)
            | Ptr array \<Rightarrow>
                with_query (''INSERT IGNORE INTO cg2c (contact_group, contact) '' @ ''VALUES (:gid, :cid)'') w1 (\<lambda>ins. ?link w1 ins array))
         }"
  fix w e w'
  assume run: "with_query ''DELETE FROM cg2c WHERE contact = :cid'' w (?del w) = Some (e, w')"
  show "rows w' = rows w"
  proof (rule keeps_with_query [OF group_sql(1) run])
    fix q assume q: "bx_database_new_query ''DELETE FROM cg2c WHERE contact = :cid'' = Some (Ptr q)" and r: "?del w q = Some (e, w')"
    obtain ok q1 w1 where x: "bx_database_execute (st_api env) (bind_uint64 '':cid'' i q) w = (ok, q1, w1)" by (metis prod_cases3)
    have w1: "rows w1 = rows w" using execute_alone [OF assms _ x] foreign_query [OF group_sql(1) q] by simp
    have "rows w' = rows w1" if l: "with_query (''INSERT IGNORE INTO cg2c (contact_group, contact) '' @ ''VALUES (:gid, :cid)'') w1 (\<lambda>ins. ?link w1 ins a) = Some (e, w')" for a
    proof (rule keeps_with_query [OF group_sql(2) l])
      fix q2 assume q2: "bx_database_new_query (''INSERT IGNORE INTO cg2c (contact_group, contact) '' @ ''VALUES (:gid, :cid)'') = Some (Ptr q2)"
        and l2: "?link w1 q2 a = Some (e, w')"
      from l2 obtain gids where "link_groups env (bind_uint64 '':cid'' i (bind_uint64 '':gid'' 0 q2)) gids w1 = Some (e, w')"
        by (auto split: bind_splits if_splits)
      from keeps_link_groups [OF assms _ this] foreign_query [OF group_sql(2) q2] show "rows w' = rows w1" by simp
    qed
    then show "rows w' = rows w" using r x w1 by (auto split: bool.splits bind_splits ptr.splits simp del: append.simps append_Cons)
  qed
qed

text \<open>Contacts.\<close>

lemma keeps_sync_rows:
  assumes "\<And>item. keeps rows (f item)" and "sync_rows f items w = Some (e, w')"
  shows "rows w' = rows w"
  using assms(2)
proof (induction items arbitrary: w)
  case (Cons item items)
  obtain e1 w1 where s: "f item w = Some (e1, w1)" "w' = w1 \<or> sync_rows f items w1 = Some (e, w')"
    using Cons.prems by (auto split: bind_splits if_splits)
  then show ?case using keepsD [OF assms(1) s(1)] Cons.IH [of w1] by auto
qed simp

lemma detail_fits:
  "table_fits ''additional_address'' address_fields (Ptr ''_contact_id'')" "table_fits ''invoice_payment'' payment_fields (Ptr ''_invoice_id'')"
  "table_fits ''invoice_reminder'' reminder_fields (Ptr ''_invoice_id'')" "table_fits ''kb_comment'' invoice_comment_fields (Ptr ''_document_id'')"
  using detail_tables_fit by (simp_all add: detail_tables_def)

lemma keeps_detail_upsert:
  assumes "projects_alone env rows" and "table_fits tbl flds parent" and "tbl \<noteq> ''pr_project''"
  shows "keeps rows (bx_json_upsert env conn tbl obj flds parent i)"
  by (rule keeps_upsert [OF assms(1,2) _ assms(3)]) (simp add: is_variable_char_bits)

lemma keeps_contact_extra:
  assumes "projects_alone env rows"
  shows "keeps rows (bx_contact_extra_sync env (se_walk env) conn i)"
  unfolding keeps_def bx_contact_extra_sync_def
  using keeps_sync_rows [OF keeps_detail_upsert [OF assms detail_fits(1)]]
  by (auto split: bind_splits if_splits ptr.splits dest!: alone_request [OF assms])

lemma keeps_contact_details:
  assumes "projects_alone env rows"
  shows "keeps rows (contact_details env conn contact)"
  unfolding contact_details_def Let_def by (intro keeps_rules keeps_group_link [OF assms] keeps_contact_extra [OF assms])

lemma foreign_prefix:
  assumes "plain_sql sql" and "sql = v @ r" and "list_all (\<lambda>c. c \<noteq> CHR '':'') v" and "\<And>r. \<not> writes_to ''pr_project'' (v @ r)"
  shows "foreign sql"
  using prefix_texts [OF assms(2,3)] assms(1,4) by (auto simp: foreign_def)

lemma other_verbs:
  "\<not> writes_to ''pr_project'' (''INSERT IGNORE INTO contact '' @ r)" "\<not> writes_to ''pr_project'' (''UPDATE contact '' @ r)"
  "\<not> writes_to ''pr_project'' (''INSERT IGNORE INTO invoice '' @ r)" "\<not> writes_to ''pr_project'' (''UPDATE invoice '' @ r)"
  by (simp_all add: writes_to_def is_prefix_def)

lemma contact_plain: "sql = contact_insert \<or> sql = contact_update \<Longrightarrow> plain_sql sql"
proof -
  have "distinct (contact_columns @ marks_of)" "''id'' \<in> set (contact_columns @ marks_of)"
    by (simp_all add: contact_columns_def marks_of_def names_of_def contact_fields_def BX_FIELD_def fname_def)
  then show "sql = contact_insert \<or> sql = contact_update \<Longrightarrow> plain_sql sql"
    using statement_names [OF contact_agree, of sql] by auto
qed

lemma contact_sql: "foreign contact_insert" "foreign contact_update"
proof -
  obtain r where r: "contact_insert = ''INSERT IGNORE INTO contact '' @ r" by (simp add: contact_insert_def)
  show "foreign contact_insert" by (rule foreign_prefix [OF contact_plain r _ other_verbs(1)]) simp_all
  obtain r where r: "contact_update = ''UPDATE contact '' @ r" by (simp add: contact_update_def)
  show "foreign contact_update" by (rule foreign_prefix [OF contact_plain r _ other_verbs(2)]) simp_all
qed

lemma keeps_store_query:
  assumes "projects_alone env rows" and "foreign sql" and "bx_database_new_query sql = Some (Ptr q)"
    and "store_query env q1 w = (r, w')" and "dq_query q1 = dq_query q"
  shows "rows w' = rows w"
proof -
  obtain ok q2 w2 where x: "query_rows env q1 w = (ok, q2, w2)" by (metis prod_cases3)
  show ?thesis using foreign_rows [OF assms(1-3) x assms(5)] x assms(4) by (auto simp: store_query_def split: bool.splits)
qed

lemma text_kept_with: "text_kept (\<lambda>q. with_param q n f)"
  by (simp add: text_kept_def)

lemma contact_binds_kept: "list_all text_kept (contact_binds contact archived checksum now code)"
  by (auto simp: contact_binds_def text_kept_with)

lemma contact_sync_keeps:
  assumes "projects_alone env rows" and "bx_contact_sync env conn item archived (c, w) = Some (e, c', w')"
  shows "rows w' = rows w"
proof -
  obtain contact checksum where d: "decode_members env contact_fields item = Some (contact, checksum)"
    using assms(2) by (auto simp: bx_contact_sync_def split: bind_splits)
  let ?i = "bu_value (uint_member contact ''id'')"
  obtain state c1 where k: "cache_check_item c ?i checksum = Some (state, c1)"
    using assms(2) d by (auto simp: bx_contact_sync_def Let_def split: bind_splits)
  let ?sql = "if state = CacheNotSet then contact_insert else contact_update"
  have sql: "foreign ?sql" using contact_sql by simp
  show ?thesis
  proof (cases "state = CacheOk")
    case True
    then show ?thesis using assms(2) d k by (simp add: bx_contact_sync_def)
  next
    case False
    from plain_query [of ?sql] sql obtain q where q: "bx_database_new_query ?sql = Some (Ptr q)" by (auto simp: foreign_def)
    obtain e1 w1 where u: "ensure_users env conn contact w = Some (e1, w1)"
      using assms(2) d k False q by (auto simp: bx_contact_sync_def Let_def split: bind_splits)
    have w1: "rows w1 = rows w" by (rule keepsD [OF keeps_ensure_users [OF assms(1)] u])
    obtain now w2 where t: "st_time env w1 = (now, w2)" by fastforce
    have w2: "rows w2 = rows w1" by (rule alone_time [OF assms(1) t])
    have stored: "rows w3 = rows w2" if "store_query env (bind_each (contact_binds contact archived checksum now code) q) w2 = (r, w3)" for code r w3
      by (rule keeps_store_query [OF assms(1) sql q that]) (rule bind_each_query [OF contact_binds_kept])
    show ?thesis
      using assms(2) d k False q u t w1 w2 stored
      by (auto simp: bx_contact_sync_def keep_cache_def Let_def split: bind_splits if_splits prod.splits store_outcome.splits
          dest!: keepsD [OF keeps_contact_details [OF assms(1)]])
  qed
qed

text \<open>Invoices.\<close>

lemma invoice_plain: "sql = invoice_insert \<or> sql = invoice_update \<Longrightarrow> plain_sql sql"
proof -
  have "distinct (names_of invoice_fields @ marks_of)" "''id'' \<in> set (names_of invoice_fields @ marks_of)"
    by (simp_all add: marks_of_def names_of_def invoice_fields_def BX_FIELD_def fname_def)
  then show "sql = invoice_insert \<or> sql = invoice_update \<Longrightarrow> plain_sql sql"
    using statement_names [OF invoice_agree, of sql] by auto
qed

lemma invoice_sql: "foreign invoice_insert" "foreign invoice_update"
proof -
  obtain r where r: "invoice_insert = ''INSERT IGNORE INTO invoice '' @ r" by (simp add: invoice_insert_def)
  show "foreign invoice_insert" by (rule foreign_prefix [OF invoice_plain r _ other_verbs(3)]) simp_all
  obtain r where r: "invoice_update = ''UPDATE invoice '' @ r" by (simp add: invoice_update_def)
  show "foreign invoice_update" by (rule foreign_prefix [OF invoice_plain r _ other_verbs(4)]) simp_all
qed

lemma position_sql:
  "foreign (take 191 (''SELECT _checksum FROM '' @ ''invoice_position'' @ '' WHERE id = :id AND '' @ ''_invoice_id'' @ '' = :_parent''))"
  "foreign (position_insert ''invoice_position'' ''_invoice_id'')" "foreign (position_update ''invoice_position'' ''_invoice_id'')"
  by code_simp+

lemma keeps_one_position:
  assumes "projects_alone env rows"
    and select: "foreign (take 191 (''SELECT _checksum FROM '' @ table @ '' WHERE id = :id AND '' @ parent @ '' = :_parent''))"
    and "foreign (position_insert table parent)" and "foreign (position_update table parent)"
  shows "keeps rows (persist_one_position env table parent doc item)"
  unfolding keeps_def
proof (intro allI impI)
  fix w e w'
  assume run: "persist_one_position env table parent doc item w = Some (e, w')"
  define sql where "sql = take 191 (''SELECT _checksum FROM '' @ table @ '' WHERE id = :id AND '' @ parent @ '' = :_parent'')"
  note run1 = run [unfolded persist_one_position_def sql_def [symmetric]]
  obtain read hash where d: "read_slots env item position_fields (Ptr []) = Some (read, hash)"
    using run1 by (auto split: bind_splits)
  let ?slots = "clear_zero_ids position_fields read"
  have sql: "foreign sql" using select by (simp only: sql_def)
  then obtain q where q: "bx_database_new_query sql = Some (Ptr q)" using plain_query [of sql] by (auto simp: foreign_def)
  obtain ok q1 w1 where x: "query_rows env (bind_uint64 '':_parent'' doc (bind_value '':id'' (hd ?slots) q)) w = (ok, q1, w1)" by (metis prod_cases3)
  have w1: "rows w1 = rows w" by (rule foreign_rows [OF assms(1) sql q x]) simp
  define stmt where "stmt = (if first_value q1 = None then position_insert table parent else position_update table parent)"
  have f: "foreign stmt" using assms(3,4) by (simp add: stmt_def)
  then obtain q2 where q2: "bx_database_new_query stmt = Some (Ptr q2)" using plain_query [of stmt] by (auto simp: foreign_def)
  obtain now w2 where t: "st_time env w1 = (now, w2)" by fastforce
  have w2: "rows w2 = rows w1" by (rule alone_time [OF assms(1) t])
  obtain ok2 q3 w3 where y: "query_rows env (bind_uint64 '':_last_updated'' now (bind_uint64 '':_checksum'' (hash_digest env hash)
       (bind_uint64 '':_parent'' doc (bind_slots position_fields ?slots q2)))) w2 = (ok2, q3, w3)" by (metis prod_cases3)
  have w3: "rows w3 = rows w2" by (rule foreign_rows [OF assms(1) f q2 y]) simp
  show "rows w' = rows w"
    using run1 d q x t y w1 w2 w3 q2 [unfolded stmt_def]
    by (auto simp: Let_def split: bool.splits if_splits)
qed

lemma keeps_positions:
  assumes "projects_alone env rows"
  shows "keeps rows (bx_invoice_positions_store env doc positions)"
  unfolding keeps_def bx_invoice_positions_store_def bx_kb_positions_store_def
  using keeps_sync_rows [OF keeps_one_position [OF assms position_sql]]
  by (auto split: ptr.splits json.splits if_splits)

lemma keeps_invoice_extra:
  assumes "projects_alone env rows"
  shows "keeps rows (bx_invoice_extra_sync env (se_walk env) conn i)"
  unfolding bx_invoice_extra_sync_def
  by (rule keeps_in_turn)
     (simp add: keeps_detail_rows [OF assms] keeps_detail_upsert [OF assms detail_fits(2)] keeps_detail_upsert [OF assms detail_fits(3)]
       keeps_detail_upsert [OF assms detail_fits(4)])

lemma keeps_whole_invoice:
  assumes "projects_alone env rows"
  shows "keeps rows (whole_invoice env invoice item)"
  unfolding keeps_def whole_invoice_def
  by (auto split: ptr.splits bind_splits dest!: alone_request [OF assms])

lemma keeps_project_missing:
  assumes "projects_alone env rows"
  shows "keeps rows (project_missing env invoice)"
proof -
  let ?sql = "''SELECT id FROM pr_project WHERE id = :id;''"
  have "plain_sql ?sql" "\<not> writes_to ''pr_project'' (fst (sql_params ?sql))" by code_simp+
  from keeps_row_present [OF assms this] show ?thesis
    by (auto simp: keeps_def project_missing_def bx_project_is_in_database_def Let_def split: if_splits)
qed

lemma invoice_binds_kept: "list_all text_kept (invoice_binds invoice checksum now)"
  by (simp add: invoice_binds_def)

lemma keeps_store_invoice:
  assumes "projects_alone env rows"
  shows "keeps rows (store_invoice env state invoice)"
  unfolding keeps_def
proof (intro allI impI)
  fix w r w'
  assume run: "store_invoice env state invoice w = Some (r, w')"
  let ?sql = "if state = CacheNotSet then invoice_insert else invoice_update"
  have f: "foreign ?sql" using invoice_sql by simp
  from plain_query [of ?sql] f obtain q where q: "bx_database_new_query ?sql = Some (Ptr q)" by (auto simp: foreign_def)
  obtain now w1 where t: "st_time env w = (now, w1)" by fastforce
  have "store_query env (bind_each (invoice_binds (fst invoice) (snd invoice) now) q) w1 = (r, w')"
    using run q t by (simp add: store_invoice_def)
  from keeps_store_query [OF assms f q this bind_each_query [OF invoice_binds_kept]] alone_time [OF assms t]
  show "rows w' = rows w" by simp
qed

lemma invoice_sync_keeps:
  assumes "projects_alone env rows" and "bx_invoice_sync env conn item (c, w) = Some (e, c', w')"
  shows "rows w' = rows w"
  using assms(2)
  by (auto simp: bx_invoice_sync_def invoice_details_def Let_def split: bind_splits if_splits store_outcome.splits
      dest!: keepsD [OF keeps_whole_invoice [OF assms(1)]] keepsD [OF keeps_contact_missing [OF assms(1)]]
        keepsD [OF keeps_project_missing [OF assms(1)]] keepsD [OF keeps_store_invoice [OF assms(1)]]
        keepsD [OF keeps_positions [OF assms(1)]] keepsD [OF keeps_invoice_extra [OF assms(1)]])

section \<open>The other phases of the chain\<close>

text \<open>What the agreement is about: the cache of projects and the rows of its table.\<close>

definition view :: "('w \<Rightarrow> 'r) \<Rightarrow> 'w chain_state \<Rightarrow> Cache ptr \<times> 'r" where
  "view rows s = (ch_projects s, rows (ch_world s))"

lemma keeps_walk:
  assumes request: "\<And>path args. keeps v (we_request env path args)" and sleep: "\<And>s. v (we_sleep env s) = v s"
    and sync: "\<And>item. keeps v (sync item)" and page: "\<And>f k. on_page = Ptr f \<Longrightarrow> keeps v (f k)"
  shows "keeps v (bx_walk_pages_from env path_fmt extra page_sleep sync start on_page)"
proof -
  have turn: "v s2 = v s1" if run: "walk_page env path_fmt extra page_sleep sync on_page n s1 = Some (x, s2)" for n s1 x s2
  proof (cases on_page)
    case NULL
    then show ?thesis
      using run sleep
      by (auto simp: walk_page_def Let_def split: bind_splits if_splits ptr.splits dest!: keepsD [OF request] keeps_sync_rows [OF sync])
  next
    case (Ptr f)
    have shown: "keeps v (f k)" for k by (rule page [OF Ptr])
    show ?thesis
      using run sleep Ptr
      by (auto simp: walk_page_def Let_def split: bind_splits if_splits ptr.splits dest!: keepsD [OF request] keeps_sync_rows [OF sync] keepsD [OF shown])
  qed
  show ?thesis
    unfolding keeps_def bx_walk_pages_from_def
  proof (intro allI impI)
    fix s e s'
    assume "walk_loop env path_fmt extra page_sleep sync on_page (first_offset path_fmt start) s = Some (e, s')"
    then show "v s' = v s"
      by (rule walk_loop_rule [where I = "\<lambda>n s1. v s1 = v s" and Q = "\<lambda>e s1. v s1 = v s"]) (auto dest: turn)
  qed
qed

lemma keeps_chain_request:
  assumes "projects_alone env rows"
  shows "keeps (view rows) (on_world (ce_request (program_env xxh my env conn) path args))"
  unfolding keeps_def on_world_def program_env_def
  by (auto simp: view_def split: bind_splits dest: alone_request [OF assms])

lemma keeps_contact_page:
  assumes "projects_alone env rows"
  shows "keeps (view rows) (contact_page_item (program_env xxh my env conn) archived item)"
  unfolding keeps_def contact_page_item_def program_env_def
  by (auto simp: view_def split: bind_splits dest: contact_sync_keeps [OF assms])

lemma keeps_invoice_page:
  assumes "projects_alone env rows"
  shows "keeps (view rows) (invoice_page_item (program_env xxh my env conn) item)"
  unfolding keeps_def invoice_page_item_def program_env_def
  by (auto simp: view_def split: bind_splits dest: invoice_sync_keeps [OF assms])

lemma save_cursor_view:
  assumes "settings_apart my rows" and "save_cursor (program_env xxh my env conn) conn c st = (ok, st')"
  shows "view rows st' = view rows st"
  using save_cursor_rows [OF assms] save_cursor_caches [OF assms(2)] by (simp add: view_def caches_def)

lemma view_cursor [simp]: "view rows (st\<lparr>ch_cursor := c\<rparr>) = view rows st"
  "view rows (st\<lparr>ch_contact_from_zero := b\<rparr>) = view rows st" "view rows (st\<lparr>ch_invoice_from_zero := b\<rparr>) = view rows st"
  by (simp_all add: view_def)

lemma keeps_validated_page:
  assumes "settings_apart my rows"
  shows "keeps (view rows) (on_validated_page (program_env xxh my env conn) conn phase k)"
  unfolding keeps_def on_validated_page_def checkpoint_def
  by (auto simp: Let_def split: if_splits prod.splits bool.splits dest: save_cursor_view [OF assms])

lemma finish_view:
  assumes "settings_apart my rows" and "finish_resource (program_env xxh my env conn) conn next a b d st = (r, st')"
  shows "view rows st' = view rows st"
  using assms(2)
  by (auto simp: finish_resource_def advance_phase_def Let_def split: prod.splits if_splits bool.splits dest!: save_cursor_view [OF assms(1)])

lemma keeps_chain_walk:
  assumes "projects_alone env rows" and "settings_apart my rows" and "\<And>item. keeps (view rows) (sync item)"
  shows "keeps (view rows) (bx_walk_pages_from (chain_walk (program_env xxh my env conn)) path extra False sync start
      (Ptr (on_validated_page (program_env xxh my env conn) conn phase)))"
  by (rule keeps_walk) (auto simp: chain_walk_def keeps_chain_request [OF assms(1)] assms(3) keeps_validated_page [OF assms(2)])

lemma keeps_fetch_missed:
  assumes "projects_alone env rows"
  shows "fetch_missed_loop (program_env xxh my env conn) iter st = Some (e, st') \<Longrightarrow> view rows st' = view rows st"
proof -
  let ?env = "program_env xxh my env conn"
  assume "fetch_missed_loop ?env iter st = Some (e, st')"
  then have "?env = ?env \<longrightarrow> view rows (snd (e, st')) = view rows st"
  proof (rule fetch_missed_loop.raw_induct [rotated, where P = "\<lambda>env' iter st r. env' = ?env \<longrightarrow> view rows (snd r) = view rows st"])
    fix loop env' iter st r
    assume IH: "\<And>env' iter st r. loop env' iter st = Some r \<Longrightarrow> env' = ?env \<longrightarrow> view rows (snd r) = view rows st"
      and body: "cache_iter_next_prunable_id (ch_invoices st) iter 1 \<bind>
        (\<lambda>(next, iter'). case next of None \<Rightarrow> Some (NoError, st)
          | Some i \<Rightarrow> on_world (ce_request env' GET_INVOICE_PATH [Ptr (AUInteger \<lparr>bu_isset = True, bu_value = i\<rparr>)]) st \<bind>
             (\<lambda>(request, st1). case request of NULL \<Rightarrow> Some (ErrorNet, st1)
               | Ptr r \<Rightarrow> (case rq_response r of NULL \<Rightarrow> Some (ErrorNet, st1)
                   | Ptr resp \<Rightarrow> if rd_http_code resp = 404 then loop env' iter' st1
                       else if rd_http_code resp \<noteq> 200 then Some (ErrorNet, st1)
                       else (case rq_decoded r of NULL \<Rightarrow> Some (ErrorNet, st1)
                          | Ptr item \<Rightarrow> invoice_page_item env' item st1 \<bind>
                              (\<lambda>(e, st2). if e \<noteq> NoError then Some (e, st2) else loop env' iter' st2))))) = Some r"
    show "env' = ?env \<longrightarrow> view rows (snd r) = view rows st"
    proof
      assume e: "env' = ?env"
      have IH': "view rows (snd r) = view rows st" if "loop ?env iter st = Some r" for iter st r
        using IH [OF that] by simp
      show "view rows (snd r) = view rows st"
        using body unfolding e
        by (auto dest!: keepsD [OF keeps_chain_request [OF assms]] keepsD [OF keeps_invoice_page [OF assms]] IH'
            split: bind_splits option.splits ptr.splits if_splits)
    qed
  qed
  then show ?thesis by simp
qed

lemma other_phase_view:
  assumes alone: "projects_alone env rows" and apart: "settings_apart my rows"
    and run: "bx_chain_sync (program_env xxh my env conn) conn st = Some (r, st')" and phase: "cc_phase (ch_cursor st) \<noteq> BX_CHAIN_PROJECT"
  shows "view rows st' = view rows st"
proof -
  note contact = keepsD [OF keeps_chain_walk [OF alone apart keeps_contact_page [OF alone]]]
    and invoice = keepsD [OF keeps_chain_walk [OF alone apart keeps_invoice_page [OF alone]]]
  show ?thesis
    using run phase
    by (cases "cc_phase (ch_cursor st)")
       (auto simp: bx_chain_sync_def chain_contact_active_def chain_contact_archived_def chain_invoice_list_def chain_invoice_missed_def
          bx_contact_walk_pass_def bx_invoice_walk_list_def bx_invoice_fetch_missed_def Let_def
          split: if_splits bind_splits prod.splits
          dest!: contact invoice keeps_fetch_missed [OF alone] finish_view [OF apart])
qed

end
