(* ===== verification/Bx_Turns.thy ===== *)
theory Bx_Turns
  imports Bx_Frames Bx_Main
begin

text \<open>
  One turn of the thread of contacts, projects and invoices: the pruning of projects, the new
  connections and the new version of the caches keep what the cache of projects knows in its table,
  and so does the whole turn.
\<close>

section \<open>Pruning the projects\<close>

text \<open>
  A deletion by id changes no row but the one of the bound id, whatever becomes of it. What a
  deletion that fails or warns leaves of that row is in doubt.
\<close>

definition deletes_own :: "'w stmt_api \<Rightarrow> ('w \<Rightarrow> books) \<Rightarrow> string \<Rightarrow> bool" where
  "deletes_own api books t \<longleftrightarrow>
     (\<forall>i w e w1 j. sa_execute api t [id_bind i] w = (e, w1) \<longrightarrow> j \<noteq> i \<longrightarrow> stored (books w1) j = stored (books w) j)"

lemma prepared_delete:
  assumes quiet: "quiet_api api books" and law: "deletes_own api books t" and q: "cstr (dq_query q) = t"
    and bound: "map (fst \<circ> param_to_bind) (dq_parameters q) = [id_bind i]" and run: "execute_prepared api q w = (ok, q', w')"
    and j: "j \<noteq> i"
  shows "stored (books w') j = stored (books w) j"
proof -
  obtain w0 e w1 where "books w0 = books w" "sa_execute api t [id_bind i] w0 = (e, w1)" "books w' = books w \<or> books w' = books w1"
    using run_prepared [OF quiet run q bound] by blast
  then show ?thesis using law j unfolding deletes_own_def by metis
qed

lemma execute_delete:
  assumes quiet: "quiet_api api books" and law: "deletes_own api books t" and q: "cstr (dq_query q) = t"
    and bound: "map (fst \<circ> param_to_bind) (dq_parameters q) = [id_bind i]" and run: "bx_database_execute api q w = (ok, q', w')"
    and j: "j \<noteq> i"
  shows "stored (books w') j = stored (books w) j"
proof (cases "dq_executed q")
  case True
  then have "execute_prepared api (bx_database_free_result q) w = (ok, q', w')" using run by (simp add: bx_database_execute_def)
  then show ?thesis
    using q bound j by (intro prepared_delete [OF quiet law]) (simp_all add: bx_database_free_result_def)
next
  case False
  obtain e w1 where p: "sa_prepare api t w = (e, w1)" by fastforce
  have "books w1 = books w" by (rule quiet_rows(1) [OF quiet p])
  then show ?thesis
    using run False q p prepared_delete [OF quiet law q bound, of w1] j by (auto simp: bx_database_execute_def split: if_splits)
qed

text \<open>The query of a pass keeps its text and its one parameter.\<close>

lemma execute_keeps_query:
  assumes "id_query t q" and "map (fst \<circ> param_to_bind) (dq_parameters q) = [id_bind i]" and "bx_database_execute api q w = (ok, q', w')"
  shows "id_query t q'"
proof -
  have "deletes_by_id api t (\<lambda>_. {})" by (simp add: deletes_by_id_def)
  from execute_id [OF this assms] show ?thesis by simp
qed

section \<open>A pass keeps the agreement\<close>

definition holds :: "('w \<Rightarrow> books) \<Rightarrow> nat \<Rightarrow> nat \<Rightarrow> Cache ptr \<Rightarrow> 'w \<Rightarrow> bool" where
  "holds books v n p w \<longleftrightarrow> (\<exists>c. p = Ptr c \<and> within n c \<and> unat (c_version c) \<le> v \<and> agrees c (books w))"

lemma tombstone_holds:
  assumes "holds books v n p w" and "cache_tombstone p i = Some p'"
    and book: "booked (books w) (books w') good" and others: "\<And>j. j \<noteq> i \<Longrightarrow> stored (books w') j = stored (books w) j"
  shows "holds books v n p' w'"
proof -
  obtain c where c: "p = Ptr c" "within n c" "unat (c_version c) \<le> v" "agrees c (books w)"
    using assms(1) by (auto simp: holds_def)
  have wf: "cache_wf c" using c(2) by (simp add: within_def)
  obtain c' where c': "p' = Ptr c'" "cache_wf c'" "c_version c' = c_version c" "c_size c' = c_size c"
      "cache_map c' = (case cache_map c i of None \<Rightarrow> cache_map c | Some (ck, _) \<Rightarrow> (cache_map c)(i \<mapsto> (ck, 0)))"
    using cache_tombstone_spec [OF wf, of i] assms(2) c(1) by auto
  have "dom (cache_map c') = dom (cache_map c)" using c'(5) by (auto split: option.splits)
  then have "within n c'" using c(2) c'(2,4) by (simp add: within_def)
  moreover have known: "known c' = (known c)(i := None)"
    using c'(5) by (auto simp: known_def fun_eq_iff split: option.splits)
  have "agrees c' (books w')" unfolding agrees_def
  proof (intro allI impI)
    fix j ck assume j: "known c' j = Some ck" "j \<notin> doubted (books w')"
    then have "j \<noteq> i" "known c j = Some ck" using known by (auto split: if_splits)
    moreover from this have "j \<notin> doubted (books w)" using j(2) booked_other [OF book others] by simp
    ultimately show "\<exists>row. stored (books w') j = Some row \<and> row ''_checksum'' = Some (id_bind ck)"
      using agreesD [OF c(4)] others by simp
  qed
  ultimately show ?thesis using c(3) c'(1,3) by (auto simp: holds_def)
qed

lemma failed_holds:
  assumes "holds books v n p w" and "booked (books w) (books w') False"
  shows "holds books v n p w'"
  using assms(1) booked_bad [OF assms(2)] unfolding holds_def agrees_def by metis

lemma prune_holds:
  assumes "holds books v n p w" and "cache_prune p = Some p'"
  shows "holds books v n p' w"
proof -
  obtain c where c: "p = Ptr c" "within n c" "unat (c_version c) \<le> v" "agrees c (books w)"
    using assms(1) by (auto simp: holds_def)
  have wf: "cache_wf c" using c(2) by (simp add: within_def)
  obtain c' where c': "p' = Ptr c'" "cache_wf c'" "c_version c' = c_version c" "c_size c' = c_size c"
      "cache_map c' = (\<lambda>i. case cache_map c i of None \<Rightarrow> None | Some (ck, seen) \<Rightarrow> if seen = 0 then None else Some (ck, seen))"
    using cache_prune_spec [OF wf] assms(2) c(1) by auto
  have "dom (cache_map c') \<subseteq> dom (cache_map c)" using c'(5) by (auto split: option.splits)
  then have "card (dom (cache_map c')) \<le> card (dom (cache_map c))" by (intro card_mono) simp_all
  then have "within n c'" using c(2) c'(2,4) by (simp add: within_def)
  moreover have "known c' = known c"
    using c'(5) by (auto simp: known_def fun_eq_iff split: option.splits)
  ultimately show ?thesis using c(3,4) c'(1,3) by (auto simp: holds_def agrees_def)
qed

lemma next_version_holds:
  assumes "holds books v n p w" and "cache_next_version p = Some p'" and "Suc v < 2 ^ 64 - 1"
  shows "holds books (Suc v) n p' w"
proof -
  obtain c where c: "p = Ptr c" "within n c" "unat (c_version c) \<le> v" "agrees c (books w)"
    using assms(1) by (auto simp: holds_def)
  have wf: "cache_wf c" using c(2) by (simp add: within_def)
  have "unat (c_version c + 1) = Suc (unat (c_version c))"
    using wf by (intro unat_Suc_below) (auto simp: cache_wf_def)
  then have v: "unat (c_version c + 1) \<le> Suc v" using c(3) by simp
  have "c_version c + 1 \<noteq> - 1"
  proof
    assume "c_version c + 1 = - 1"
    then have "unat (c_version c + 1) = unat (- 1 :: u64)" by (rule arg_cong)
    also have "\<dots> = 2 ^ 64 - 1" by (simp add: unsigned_minus_1_eq_mask mask_eq_exp_minus_1)
    finally have "unat (c_version c + 1) = 2 ^ 64 - 1" .
    then show False using v assms(3) by simp
  qed
  then obtain c' where c': "p' = Ptr c'" "cache_wf c'" "c_size c' = c_size c" "c_version c' = c_version c + 1" "cache_map c' = cache_map c"
    using cache_next_version_spec [OF wf] assms(2) c(1) by auto
  have "known c' = known c" using c'(5) by (simp add: known_def fun_eq_iff)
  then show ?thesis using c(2,4) c' v by (auto simp: holds_def agrees_def within_def)
qed

text \<open>What a deletion and the mark that follows it keep, a pass keeps.\<close>

lemma prune_loop_rule:
  assumes "prune_items_loop api d p iter q w = Some (e, p', q', w')" and "id_query t q" and "I p w"
    and step: "\<And>p w i q ok q' w'. I p w \<Longrightarrow> id_query t q \<Longrightarrow> map (fst \<circ> param_to_bind) (dq_parameters q) = [id_bind i] \<Longrightarrow>
      bx_database_execute api q w = (ok, q', w') \<Longrightarrow> if ok then \<forall>p1. cache_tombstone p i = Some p1 \<longrightarrow> I p1 w' else I p w'"
  shows "I p' w' \<and> id_query t q'"
  using assms(1-3) step
proof (induction api d p iter q w rule: prune_items_loop.induct)
  case (1 api d p iter q w)
  note q = "1.prems"(2)
  obtain x iter1 where it: "cache_iter_next_prunable_id p iter d = Some (x, iter1)"
    using "1.prems"(1) by (auto simp: prune_items_loop.simps [of api d p] split: option.splits)
  show ?case
  proof (cases x)
    case None
    then show ?thesis using "1.prems"(1-3) it by (subst (asm) prune_items_loop.simps) simp
  next
    case (Some i)
    obtain q1 where q1: "bx_database_add_param_uint64 q '':id'' i = (True, q1)" "id_query t q1"
        "map (fst \<circ> param_to_bind) (dq_parameters q1) = [id_bind i]"
      using add_id [OF q, of i] by (elim exE conjE) (rule that)
    obtain ok q2 w1 where ex: "bx_database_execute api q1 w = (ok, q2, w1)" by (rule prod_cases3)
    have q2: "id_query t q2" by (rule execute_keeps_query [OF q1(2,3) ex])
    note inv = "1.prems"(4) [OF "1.prems"(3) q1(2,3) ex]
    show ?thesis
    proof (cases ok)
      case False
      then have "p' = p" "w' = w1" "q' = bx_database_free_result q2"
        using "1.prems"(1) it Some q1(1) ex by (subst (asm) prune_items_loop.simps; simp)+
      then show ?thesis using inv False q2 by simp
    next
      case True
      obtain p1 where p1: "cache_tombstone p i = Some p1"
        using "1.prems"(1) it Some q1(1) ex True by (subst (asm) prune_items_loop.simps) (simp split: option.splits)
      have step: "(ok, q2, w1) = (if True then bx_database_execute api q1 w else (False, q1, w))" using ex by simp
      have "prune_items_loop api d p1 iter1 q2 w1 = Some (e, p', q', w')"
        using "1.prems"(1) it Some q1(1) ex True p1 by (subst (asm) prune_items_loop.simps) simp
      moreover have "I p1 w1" using inv True p1 by simp
      ultimately show ?thesis
        using "1.IH" [OF it refl Some q1(1) [symmetric] step refl _ p1 _ q2 _ "1.prems"(4)] True by simp
    qed
  qed
qed

definition pass_query :: "string \<Rightarrow> BXDatabaseQuery ptr \<Rightarrow> bool" where
  "pass_query sql p \<longleftrightarrow> (\<forall>q. p = Ptr q \<longrightarrow> id_query (fst (sql_params sql)) q)"

lemma pass_rule:
  assumes run: "bx_prune_items xxh conf api p query w = Some (e, p', query', w')" and q: "pass_query sql query" and inv: "I p w"
    and step: "\<And>p w i q ok q' w'. I p w \<Longrightarrow> id_query (fst (sql_params sql)) q \<Longrightarrow>
      map (fst \<circ> param_to_bind) (dq_parameters q) = [id_bind i] \<Longrightarrow>
      bx_database_execute api q w = (ok, q', w') \<Longrightarrow> if ok then \<forall>p1. cache_tombstone p i = Some p1 \<longrightarrow> I p1 w' else I p w'"
    and prune: "\<And>p w p1. I p w \<Longrightarrow> cache_prune p = Some p1 \<Longrightarrow> I p1 w"
  shows "I p' w' \<and> pass_query sql query'"
proof (cases query)
  case NULL
  then show ?thesis using run inv q by (simp add: bx_prune_items_def)
next
  case (Ptr q0)
  have q0: "id_query (fst (sql_params sql)) q0" using q Ptr by (simp add: pass_query_def)
  obtain x c1 q1 w1 where loop: "prune_items_loop api (prune_drift xxh conf) p (cache_iter_init p) q0 w = Some (x, c1, q1, w1)"
    using run Ptr by (auto simp: bx_prune_items_def split: option.splits)
  from prune_loop_rule [OF loop q0, of I, OF inv step] have "I c1 w1 \<and> id_query (fst (sql_params sql)) q1" .
  then show ?thesis
    using run Ptr loop prune by (cases x) (auto simp: bx_prune_items_def pass_query_def)
qed

lemma project_pass:
  assumes quiet: "quiet_api api books" and account: "keeps_account api books"
    and law: "deletes_own api books (fst (sql_params project_delete))"
    and run: "bx_prune_items xxh conf api p query w = Some (e, p', query', w')" and q: "pass_query project_delete query"
    and inv: "holds books v n p w"
  shows "holds books v n p' w' \<and> pass_query project_delete query'"
proof (rule pass_rule [OF run q, where I = "holds books v n", OF inv])
  fix p w i q ok q' w'
  assume inv: "holds books v n p w" and q: "id_query (fst (sql_params project_delete)) q"
    and bound: "map (fst \<circ> param_to_bind) (dq_parameters q) = [id_bind i]" and ex: "bx_database_execute api q w = (ok, q', w')"
  have "cstr (dq_query q) = fst (sql_params project_delete)" using q by (simp add: id_query_def)
  note others = execute_delete [OF quiet law this bound ex]
  have book: "booked (books w) (books w') ok" by (rule booked_mono [OF execute_booked [OF quiet account ex]]) simp
  show "if ok then \<forall>p1. cache_tombstone p i = Some p1 \<longrightarrow> holds books v n p1 w' else holds books v n p w'"
    using tombstone_holds [OF inv _ book others] failed_holds [OF inv, of w'] book by (cases ok) simp_all
qed (rule prune_holds)

lemma foreign_pass:
  assumes alone: "projects_alone env books" and "foreign sql"
    and run: "bx_prune_items xxh conf (st_api env) p query w = Some (e, p', query', w')" and q: "pass_query sql query"
  shows "books w' = books w \<and> pass_query sql query'"
proof (rule pass_rule [OF run q, where I = "\<lambda>_ w1. books w1 = books w"])
  fix p w1 i q ok q' w'
  assume inv: "books w1 = books w" and q: "id_query (fst (sql_params sql)) q" and ex: "bx_database_execute (st_api env) q w1 = (ok, q', w')"
  have "\<not> writes_to ''pr_project'' (cstr (dq_query q))" using q assms(2) by (simp add: id_query_def foreign_def)
  then have "books w' = books w1"
    using alone execute_foreign [OF _ _ ex, of books] by (simp add: table_alone_def)
  then show "if ok then \<forall>p1. cache_tombstone p i = Some p1 \<longrightarrow> books w' = books w else books w' = books w" using inv by simp
qed simp_all

lemma delete_sql: "foreign contact_delete" "foreign invoice_delete"
  by code_simp+

lemma delete_queries:
  assumes "sql \<in> {contact_delete, project_delete, invoice_delete}"
  shows "\<exists>q. bx_database_new_query sql = Some (Ptr q) \<and> id_query (fst (sql_params sql)) q"
proof -
  have "snd (sql_params sql) = ['':id''] \<and> list_all (\<lambda>c. c \<noteq> NUL) sql"
    using assms by (elim insertE emptyE) (simp_all only:, code_simp+)
  then show ?thesis using new_id_query [of sql "fst (sql_params sql)"] by (metis prod.collapse)
qed

lemma new_pass_query:
  assumes "bx_database_new_query sql = Some query" and "sql \<in> {contact_delete, project_delete, invoice_delete}"
  shows "pass_query sql query"
  using delete_queries [OF assms(2)] assms(1) by (auto simp: pass_query_def)

lemma rebuilt_query:
  assumes "rebuild_prune_query sql = Some (ok, query)" and "sql \<in> {contact_delete, project_delete, invoice_delete}"
  shows "pass_query sql query"
  using assms(1) new_pass_query [OF _ assms(2)] by (auto simp: rebuild_prune_query_def split: bind_splits)

section \<open>One turn of the thread\<close>

text \<open>
  What the turns need of the server and of the calls around the statements: connections, pings and
  sleeps leave the table of projects alone, and nobody else writes it.
\<close>

definition chain_laws :: "'w main_env \<Rightarrow> ('w \<Rightarrow> books) \<Rightarrow> bool" where
  "chain_laws env books \<longleftrightarrow>
     project_laws (mn_sync env) books \<and> deletes_own (st_api (mn_sync env)) books (fst (sql_params project_delete)) \<and>
     settings_apart (mn_mysql env) books \<and>
     (\<forall>w. books (snd (mn_init env w)) = books w) \<and> (\<forall>h u p d w. books (snd (mn_connect env h u p d w)) = books w) \<and>
     (\<forall>a w. books (mn_close env a w) = books w) \<and> (\<forall>a w. books (snd (mn_ping env a w)) = books w) \<and>
     (\<forall>w. books (snd (mn_run env w)) = books w) \<and> (\<forall>w. books (snd (mn_standby env w)) = books w) \<and>
     (\<forall>w. books (mn_sleep env w) = books w)"

lemma chain_laws_projects:
  assumes "chain_laws env books"
  shows "project_laws (mn_sync env) books" "projects_alone (mn_sync env) books" "quiet_api (st_api (mn_sync env)) books"
    "keeps_account (st_api (mn_sync env)) books" "deletes_own (st_api (mn_sync env)) books (fst (sql_params project_delete))" "settings_apart (mn_mysql env) books"
  using assms by (simp_all add: chain_laws_def project_laws_def table_alone_def)

lemma chain_laws_calls:
  assumes "chain_laws env books"
  shows "mn_init env w = (a, w') \<Longrightarrow> books w' = books w" "mn_connect env h u p d w = (ok, w') \<Longrightarrow> books w' = books w"
    "books (mn_close env b w) = books w" "mn_ping env b w = (x, w') \<Longrightarrow> books w' = books w"
    "mn_run env w = (go, w') \<Longrightarrow> books w' = books w" "mn_standby env w = (go, w') \<Longrightarrow> books w' = books w"
    "books (mn_sleep env w) = books w"
  using assms unfolding chain_laws_def by (metis snd_conv)+

lemma standby_rows:
  assumes "chain_laws env books" and "wait_standby env w = Some w'"
  shows "books w' = books w"
proof -
  have "env = env \<longrightarrow> books w' = books w" using assms(2)
  proof (rule wait_standby.raw_induct [rotated, where P = "\<lambda>e w w'. e = env \<longrightarrow> books w' = books w"])
    fix wait e w w'
    assume IH: "\<And>e w w'. wait e w = Some w' \<Longrightarrow> e = env \<longrightarrow> books w' = books w"
      and body: "(case mn_standby e w of (standby, w1) \<Rightarrow> if standby then wait e (mn_sleep e w1) else Some w1) = Some w'"
    show "e = env \<longrightarrow> books w' = books w"
    proof
      assume e: "e = env"
      obtain standby w1 where s: "mn_standby env w = (standby, w1)" by fastforce
      show "books w' = books w"
        using body IH [of env "mn_sleep env w1" w'] s chain_laws_calls(6) [OF assms(1) s] chain_laws_calls(7) [OF assms(1)]
        by (auto simp: e split: if_splits)
    qed
  qed
  then show ?thesis by simp
qed

lemma setup_rows:
  assumes "chain_laws env books" and "thread_setup_mysql env conf w = (conn, w')"
  shows "books w' = books w"
  using assms(2) chain_laws_calls [OF assms(1)]
  by (auto simp: thread_setup_mysql_def Let_def split: prod.splits ptr.splits bool.splits)

lemma reconnect_rows:
  assumes "chain_laws env books" and "thread_reconnect env conf conn w = Some (conn', w')"
  shows "books w' = books w"
  using assms(2) setup_rows [OF assms(1)] chain_laws_calls(3) [OF assms(1)]
  by (auto simp: thread_reconnect_def thread_teardown_mysql_def split: ptr.splits)

lemma handle_error_rows:
  assumes "chain_laws env books" and "thread_handle_error env conf e conn w = Some (r, w')"
  shows "books w' = books w"
  using assms(2) reconnect_rows [OF assms(1)] chain_laws_calls(4,7) [OF assms(1)]
  by (fastforce simp: thread_handle_error_def ping_lost_def split: if_splits bind_splits prod.splits ptr.splits)

text \<open>The state of the thread between two turns, after at most \<open>v\<close> walks and \<open>n\<close> books of the list.\<close>

definition chain_holds :: "('w \<Rightarrow> books) \<Rightarrow> nat \<Rightarrow> nat \<Rightarrow> 'w chain_thread_state \<Rightarrow> bool" where
  "chain_holds books v n st \<longleftrightarrow> holds books v n (ch_projects (ct_chain st)) (ch_world (ct_chain st)) \<and>
     pass_query contact_delete (ct_contact_prune st) \<and> pass_query project_delete (ct_project_prune st) \<and>
     pass_query invoice_delete (ct_invoice_prune st)"

lemma holds_rows: "books w' = books w \<Longrightarrow> holds books v n p w' = holds books v n p w"
  by (simp add: holds_def)

lemma prune_all_holds:
  assumes laws: "chain_laws env books" and run: "prune_all env cr st = Some (e, st')" and inv: "chain_holds books v n st"
  shows "chain_holds books v n st'"
proof -
  note project = project_pass [OF chain_laws_projects(3,4,5) [OF laws]]
    and contact = foreign_pass [OF chain_laws_projects(2) [OF laws] delete_sql(1)]
    and invoice = foreign_pass [OF chain_laws_projects(2) [OF laws] delete_sql(2)]
  let ?ch = "ct_chain st" and ?conf = "ch_conf (ct_chain st)"
  obtain e1 cc cq w1 where c: "prune_if env ?conf (cr_prune_contact cr) (cr_error cr) (ch_contacts ?ch) (ct_contact_prune st) (ch_world ?ch) = Some (e1, cc, cq, w1)"
    using run by (auto simp: prune_all_def Let_def split: bind_splits)
  obtain e2 pc pq w2 where p: "prune_if env ?conf (cr_prune_project cr) e1 (ch_projects ?ch) (ct_project_prune st) w1 = Some (e2, pc, pq, w2)"
    using run c by (auto simp: prune_all_def Let_def split: bind_splits)
  obtain e3 ic iq w3 where i: "prune_if env ?conf (cr_prune_invoice cr) e2 (ch_invoices ?ch) (ct_invoice_prune st) w2 = Some (e3, ic, iq, w3)"
    using run c p by (auto simp: prune_all_def Let_def split: bind_splits)
  have "books w1 = books (ch_world ?ch) \<and> pass_query contact_delete cq"
    using c contact inv by (fastforce simp: prune_if_def chain_holds_def split: if_splits)
  moreover from this have "holds books v n (ch_projects ?ch) w1" using inv by (simp add: chain_holds_def holds_def)
  then have "holds books v n pc w2 \<and> pass_query project_delete pq"
    using p project inv by (fastforce simp: prune_if_def chain_holds_def split: if_splits)
  moreover have "books w3 = books w2 \<and> pass_query invoice_delete iq"
    using i invoice inv by (fastforce simp: prune_if_def chain_holds_def split: if_splits)
  ultimately show ?thesis
    using run c p i by (auto simp: prune_all_def chain_holds_def holds_def Let_def)
qed

lemma rebuild_holds:
  assumes "rebuild_queries st = Some (ok, st')" and "chain_holds books v n st"
  shows "chain_holds books v n st'"
  using assms by (auto simp: rebuild_queries_def chain_holds_def Let_def split: bind_splits if_splits dest!: rebuilt_query)

lemma after_sync_holds:
  assumes laws: "chain_laws env books" and "after_sync env e st = Some (go, st')" and "chain_holds books v n st"
  shows "chain_holds books v n st'"
proof -
  obtain handled conn w where h: "thread_handle_error env (ch_conf (ct_chain st)) e (ct_conn st) (ch_world (ct_chain st)) = Some ((handled, conn), w)"
    using assms(2) by (auto simp: after_sync_def Let_def split: bind_splits)
  let ?st = "\<lambda>k. st\<lparr>ct_chain := (ct_chain st)\<lparr>ch_world := w\<rparr>, ct_conn := conn, ct_errors := k\<rparr>"
  have kept: "chain_holds books v n (?st k)" for k
    using assms(3) handle_error_rows [OF laws h] by (simp add: chain_holds_def holds_def)
  obtain k where "st' = ?st k \<or> rebuild_queries (?st k) = Some (go, st')"
    using assms(2) h by (auto simp: after_sync_def Let_def split: if_splits prod.splits)
  then show ?thesis using kept rebuild_holds [OF _ kept] by blast
qed

lemma more_walks: "holds books v n p w \<Longrightarrow> holds books (Suc v) n p w"
  by (auto simp: holds_def)

lemma bump_holds:
  assumes "bump_caches cr st = Some st'" and "chain_holds books v n st" and "Suc v < 2 ^ 64 - 1"
  shows "chain_holds books (Suc v) n st'"
proof -
  let ?ch = "ct_chain st"
  obtain pc where "bump_if (cr_bump_project cr) (ch_projects ?ch) = Some pc"
      and st': "ch_projects (ct_chain st') = pc" "ch_world (ct_chain st') = ch_world ?ch"
        "ct_contact_prune st' = ct_contact_prune st" "ct_project_prune st' = ct_project_prune st" "ct_invoice_prune st' = ct_invoice_prune st"
    using assms(1) by (auto simp: bump_caches_def Let_def split: bind_splits)
  moreover have base: "holds books v n (ch_projects ?ch) (ch_world ?ch)" using assms(2) by (simp add: chain_holds_def)
  ultimately have "holds books (Suc v) n pc (ch_world ?ch)"
    using next_version_holds [OF base _ assms(3), of pc] more_walks [OF base] by (cases "cr_bump_project cr") (simp_all add: bump_if_def)
  then show ?thesis using assms(2) st' by (simp add: chain_holds_def)
qed

lemma more_list: "holds books v n p w \<Longrightarrow> holds books v (n + k) p w"
  by (auto simp: holds_def within_def)

lemma sync_holds:
  assumes laws: "chain_laws env books" and served: "serves (se_walk (mn_sync env)) WALK_PROJECT_PATH NULL items"
    and room: "n + length items + 2000 \<le> 2 ^ 32" and inv: "holds books v n (ch_projects ch) (ch_world ch)"
    and run: "bx_chain_sync (program_env xxh (mn_mysql env) (mn_sync env) conn) conn ch = Some (r, ch')"
  shows "holds books v (n + length items) (ch_projects ch') (ch_world ch')"
proof (cases "cc_phase (ch_cursor ch) = BX_CHAIN_PROJECT")
  case True
  have "agreement (mn_sync env) books v n ch" using inv by (simp add: agreement_def holds_def)
  from chain_agreement [OF chain_laws_projects(6) [OF laws] True served this room run] chain_laws_projects(1) [OF laws] show ?thesis
    by (simp add: agreement_def holds_def)
next
  case False
  from other_phase_view [OF chain_laws_projects(2,6) [OF laws] run False] have "view books ch' = view books ch" .
  then have "holds books v n (ch_projects ch') (ch_world ch')" using inv by (simp add: view_def holds_def)
  then show ?thesis by (rule more_list)
qed

lemma turn_holds:
  assumes laws: "chain_laws env books" and served: "serves (se_walk (mn_sync env)) WALK_PROJECT_PATH NULL items"
    and room: "n + length items + 2000 \<le> 2 ^ 32" "Suc v < 2 ^ 64 - 1" and inv: "chain_holds books v n st"
    and run: "chain_turn env st = Some (go, st')"
  shows "chain_holds books (Suc v) (n + length items) st'"
proof -
  obtain w where wait: "wait_standby env (ch_world (ct_chain st)) = Some w" using run by (auto simp: chain_turn_def split: bind_splits)
  let ?conn = "handle_of (ct_conn st)"
  obtain cr ch where sync: "bx_chain_sync (program_env (mn_xxh env) (mn_mysql env) (mn_sync env) ?conn) ?conn ((ct_chain st)\<lparr>ch_world := w\<rparr>) = Some (cr, ch)"
    using run wait by (auto simp: chain_turn_def Let_def split: bind_splits)
  obtain e st1 where prune: "prune_all env cr (st\<lparr>ct_chain := ch\<rparr>) = Some (e, st1)"
    using run wait sync by (auto simp: chain_turn_def Let_def split: bind_splits)
  obtain go2 st2 where after: "after_sync env e st1 = Some (go2, st2)"
    using run wait sync prune by (auto simp: chain_turn_def Let_def split: bind_splits)
  have "holds books v n (ch_projects ((ct_chain st)\<lparr>ch_world := w\<rparr>)) (ch_world ((ct_chain st)\<lparr>ch_world := w\<rparr>))"
    using inv standby_rows [OF laws wait] by (simp add: chain_holds_def holds_def)
  from sync_holds [OF laws served room(1) this sync] have "chain_holds books v (n + length items) (st\<lparr>ct_chain := ch\<rparr>)"
    using inv by (simp add: chain_holds_def)
  then have "chain_holds books v (n + length items) st1" by (rule prune_all_holds [OF laws prune])
  then have h2: "chain_holds books v (n + length items) st2" by (rule after_sync_holds [OF laws after])
  show ?thesis
  proof (cases go2)
    case False
    then have "st' = st2" using run wait sync prune after by (simp add: chain_turn_def Let_def)
    then show ?thesis using h2 by (auto simp: chain_holds_def intro: more_walks)
  next
    case True
    obtain st3 where bump: "bump_caches cr st2 = Some st3"
      using run wait sync prune after True by (auto simp: chain_turn_def Let_def split: bind_splits)
    have h3: "chain_holds books (Suc v) (n + length items) st3" by (rule bump_holds [OF bump h2 room(2)])
    have "st' = st3 \<or> st' = st3\<lparr>ct_chain := (ct_chain st3)\<lparr>ch_world := mn_sleep env (ch_world (ct_chain st3))\<rparr>\<rparr>"
      using run wait sync prune after True bump by (auto simp: chain_turn_def Let_def split: if_splits)
    then show ?thesis using h3 chain_laws_calls(7) [OF laws] by (auto simp: chain_holds_def holds_def)
  qed
qed

end
