(* ===== verification/Bx_Lifetime.thy ===== *)
theory Bx_Lifetime
  imports Bx_Turns
begin

text \<open>
  The life of the thread of contacts, projects and invoices, from its start over any number of turns:
  the first filling of the caches, the languages, the turns of the loop, and the end of the thread.
\<close>

section \<open>The start\<close>

text \<open>Languages.\<close>

lemma language_plain: "list_all plain_sql [''SELECT _checksum FROM language WHERE id = :id'', language_insert, language_update]"
  by code_simp

lemma language_verbs:
  "\<not> writes_to ''pr_project'' (''SELECT _checksum FROM language '' @ r)"
  "\<not> writes_to ''pr_project'' (''INSERT IGNORE INTO language '' @ r)" "\<not> writes_to ''pr_project'' (''UPDATE language '' @ r)"
  by (simp_all add: writes_to_def is_prefix_def)

lemma language_sql: "foreign ''SELECT _checksum FROM language WHERE id = :id''" "foreign language_insert" "foreign language_update"
proof -
  have plain: "plain_sql ''SELECT _checksum FROM language WHERE id = :id''" "plain_sql language_insert" "plain_sql language_update"
    using language_plain by simp_all
  obtain r where r: "''SELECT _checksum FROM language WHERE id = :id'' = ''SELECT _checksum FROM language '' @ r" by simp
  show "foreign ''SELECT _checksum FROM language WHERE id = :id''" by (rule foreign_prefix [OF plain(1) r _ language_verbs(1)]) simp_all
  obtain r where r: "language_insert = ''INSERT IGNORE INTO language '' @ r" by (simp add: language_insert_def)
  show "foreign language_insert" by (rule foreign_prefix [OF plain(2) r _ language_verbs(2)]) simp_all
  obtain r where r: "language_update = ''UPDATE language '' @ r" by (simp add: language_update_def)
  show "foreign language_update" by (rule foreign_prefix [OF plain(3) r _ language_verbs(3)]) simp_all
qed

lemma keeps_language_check:
  assumes "projects_alone env rows"
  shows "keeps rows (bx_language_check_database env language)"
  unfolding keeps_def
proof (intro allI impI)
  fix w x w'
  let ?sql = "''SELECT _checksum FROM language WHERE id = :id''" and ?i = "bu_value (uint_member (fst language) ''id'')"
  assume run: "bx_language_check_database env language w = Some (x, w')"
  show "rows w' = rows w"
  proof (cases "bx_database_new_query ?sql = Some NULL")
    case True
    then show ?thesis using run by (simp add: bx_language_check_database_def)
  next
    case False
    then obtain q where q: "bx_database_new_query ?sql = Some (Ptr q)"
      using run by (auto simp: bx_language_check_database_def split: bind_splits ptr.splits)
    obtain ok q1 w1 where x: "query_rows env (bind_uint64 '':id'' ?i q) w = (ok, q1, w1)" by (metis prod_cases3)
    have "rows w1 = rows w" by (rule foreign_rows [OF assms language_sql(1) q x]) simp
    then show ?thesis using run q x by (auto simp: bx_language_check_database_def split: bool.splits)
  qed
qed

lemma language_params_kept: "language_bind_params language checksum now q = (b, q1) \<Longrightarrow> dq_query q1 = dq_query q"
  unfolding language_bind_params_def by (erule all_bound_query [rotated]) (simp add: char_bind_def)

lemma keeps_language_request:
  assumes "projects_alone env rows" and "foreign sql"
  shows "keeps rows (language_execute_request env language sql)"
  unfolding keeps_def language_execute_request_def
proof (intro allI impI)
  fix w e w'
  assume run: "with_query sql w (\<lambda>query. let (now, w1) = st_time env w in
       case language_bind_params (fst language) (snd language) (st_dead env now) query of
         (False, query1) \<Rightarrow> Some (bx_database_query_error (Ptr query1), w1)
       | (True, query1) \<Rightarrow>
           (case query_rows env query1 w1 of
              (ok, query2, w2) \<Rightarrow> Some (if ok then NoError else bx_database_query_error (Ptr query2), w2))) = Some (e, w')"
  show "rows w' = rows w"
  proof (rule keeps_with_query [OF assms(2) run])
    fix q
    assume q: "bx_database_new_query sql = Some (Ptr q)"
      and r: "(let (now, w1) = st_time env w in
       case language_bind_params (fst language) (snd language) (st_dead env now) q of
         (False, query1) \<Rightarrow> Some (bx_database_query_error (Ptr query1), w1)
       | (True, query1) \<Rightarrow>
           (case query_rows env query1 w1 of
              (ok, query2, w2) \<Rightarrow> Some (if ok then NoError else bx_database_query_error (Ptr query2), w2))) = Some (e, w')"
    obtain now w1 where t: "st_time env w = (now, w1)" by fastforce
    obtain b q1 where b: "language_bind_params (fst language) (snd language) (st_dead env now) q = (b, q1)" by fastforce
    obtain ok q2 w2 where x: "query_rows env q1 w1 = (ok, q2, w2)" by (metis prod_cases3)
    have "rows w2 = rows w1" by (rule foreign_rows [OF assms q x language_params_kept [OF b]])
    then show "rows w' = rows w" using r t b x alone_time [OF assms(1) t] by (auto split: bool.splits)
  qed
qed

lemma keeps_language_item:
  assumes "projects_alone env rows"
  shows "keeps rows (language_item env item)"
  unfolding keeps_def language_item_def
  by (auto split: bind_splits if_splits ObjectState.splits dest!: keepsD [OF keeps_language_check [OF assms]]
      keepsD [OF keeps_language_request [OF assms language_sql(2)]] keepsD [OF keeps_language_request [OF assms language_sql(3)]])

lemma keeps_languages:
  assumes "projects_alone env rows"
  shows "keeps rows (bx_language_load env (se_walk env))"
  unfolding keeps_def bx_language_load_def
  by (auto split: bind_splits if_splits ptr.splits dest!: alone_request [OF assms] keeps_sync_rows [OF keeps_language_item [OF assms]])

text \<open>The caches of contacts and of invoices.\<close>

abbreviation contact_select :: string where
  "contact_select \<equiv> ''SELECT id, _checksum FROM contact''"

abbreviation project_select :: string where
  "project_select \<equiv> ''SELECT id, _checksum FROM pr_project''"

abbreviation invoice_select :: string where
  "invoice_select \<equiv> ''SELECT id, _checksum FROM invoice''"

lemma select_sql: "foreign contact_select" "foreign project_select" "foreign invoice_select"
  by code_simp+

lemma project_select_names: "sql_params project_select = (project_select, [])" "list_all (\<lambda>c. c \<noteq> NUL) project_select"
  by code_simp+

lemma hydrate_rows_kept:
  assumes alone: "projects_alone env rows" and "foreign sql" and "bx_database_new_query sql = Some query"
    and run: "bx_cache_hydrate alloc (st_api env) p query w = Some (e, p', query', w')"
  shows "rows w' = rows w"
proof (cases query)
  case (Ptr q)
  obtain ok q1 w1 where x: "bx_database_execute (st_api env) q w = (ok, q1, w1)" by (metis prod_cases3)
  obtain got q2 w2 where r: "bx_database_results (st_api env) q1 w1 = (got, q2, w2)" by (metis prod_cases3)
  have "rows w1 = rows w"
    using execute_alone [OF alone _ x] foreign_query [OF assms(2), of q] assms(3) Ptr by simp
  moreover have "quiet_api (st_api env) rows" using alone by (simp add: table_alone_def)
  then have "rows w2 = rows w1" by (rule results_quiet [OF _ r])
  ultimately show ?thesis using run Ptr x r by (auto simp: bx_cache_hydrate_def split: if_splits)
qed (use run in \<open>simp add: bx_cache_hydrate_def\<close>)

text \<open>
  The cache of projects: the statement gives ids and checksums of the table, at most \<open>m\<close> of them,
  whether or not it warned.
\<close>

definition reads_checksums :: "'w stmt_api \<Rightarrow> ('w \<Rightarrow> books) \<Rightarrow> nat \<Rightarrow> bool" where
  "reads_checksums api books m \<longleftrightarrow>
     (\<forall>w w1 w2. sa_execute api project_select [] w = (0, w1) \<longrightarrow> w2 = w1 \<or> w2 = snd (sa_show_warnings api w1) \<longrightarrow>
        (\<exists>n1 n2 rs e w3. sa_result_metadata api w1 = Ptr [(n1, MYSQL_TYPE_LONGLONG), (n2, MYSQL_TYPE_LONGLONG)] \<and>
           sa_fetch api w2 = (map id_row rs, e, w3) \<and> length rs \<le> m \<and>
           list_all (\<lambda>(i, ck). \<exists>row. stored (books w2) i = Some row \<and> row ''_checksum'' = Some (id_bind ck)) rs))"

lemma select_gives:
  assumes law: "reads_checksums api books m" and quiet: "quiet_api api books" and q: "fresh_query project_select q"
    and x: "bx_database_execute api q w = (True, q1, w1)" and r: "bx_database_results api q1 w1 = (True, q2, w2)"
  shows "\<exists>n1 n2 rs. dq_results q2 = map (fetch_row [(n1, MYSQL_TYPE_LONGLONG), (n2, MYSQL_TYPE_LONGLONG)] \<circ> id_row) rs \<and>
    length rs \<le> m \<and> list_all (\<lambda>(i, ck). \<exists>row. stored (books w2) i = Some row \<and> row ''_checksum'' = Some (id_bind ck)) rs"
proof -
  note fq = q [unfolded fresh_query_def]
  obtain e0 w0 where p: "sa_prepare api project_select w = (e0, w0)" by fastforce
  have ex: "execute_prepared api q w0 = (True, q1, w1)"
    using x p fq by (auto simp: bx_database_execute_def split: if_splits)
  have "cstr (dq_query q) = project_select" "map (fst \<circ> param_to_bind) (dq_parameters q) = []" using fq by simp_all
  from run_prepared [OF quiet ex this] obtain wb wx where e: "sa_execute api project_select [] wb = (0, wx)"
      "w1 = wx \<or> w1 = snd (sa_show_warnings api wx)" "dq_results q1 = dq_results q" "\<not> dq_has_failed q1"
      "dq_result_metadata q1 = sa_result_metadata api wx" "dq_has_dataset q1 = (sa_result_metadata api wx \<noteq> NULL)"
    by auto
  from law [unfolded reads_checksums_def, rule_format, OF e(1,2)]
  obtain n1 n2 rs ef wf where m: "sa_result_metadata api wx = Ptr [(n1, MYSQL_TYPE_LONGLONG), (n2, MYSQL_TYPE_LONGLONG)]"
      "sa_fetch api w1 = (map id_row rs, ef, wf)" "length rs \<le> m"
      "list_all (\<lambda>(i, ck). \<exists>row. stored (books w1) i = Some row \<and> row ''_checksum'' = Some (id_bind ck)) rs"
    by (elim exE conjE) (rule that)
  have "w2 = wf" and res: "dq_results q2 = map (fetch_row [(n1, MYSQL_TYPE_LONGLONG), (n2, MYSQL_TYPE_LONGLONG)] \<circ> id_row) rs"
    using r m e fq by (auto simp: bx_database_results_def Let_def free_query_metadata_def split: if_splits)
  then have "books w2 = books w1" using quiet_rows(4) [OF quiet m(2)] by simp
  then show ?thesis using res m(3,4) by auto
qed

lemma set_holds:
  assumes inv: "holds books v n p w" and room: "n + 2000 < 2 ^ 32" and run: "cache_set_item alloc p i ck = Some (ok, p')"
    and row: "stored (books w) i = Some row" "row ''_checksum'' = Some (id_bind ck)"
  shows "holds books v (Suc n) p' w"
proof -
  obtain c where c: "p = Ptr c" "within n c" "unat (c_version c) \<le> v" "agrees c (books w)"
    using inv by (auto simp: holds_def)
  note wf = within_room [OF c(2) room]
  obtain c1 where mark: "p' = Ptr c1" "marked (Suc n) c c1 {i}"
    using set_marks [OF c(2) room, of alloc i ck ok p'] run c(1) by blast
  then have c1: "p' = Ptr c1" "c_version c1 = c_version c" "within (Suc n) c1" by (simp_all add: marked_def)
  obtain c' where c': "p' = Ptr c'" "known c' = known c \<or> known c' = (known c)(i \<mapsto> ck)"
    using set_known [OF conjunct1 [OF wf] conjunct2 [OF wf], of alloc i ck ok p'] run c(1) by auto
  have "agrees c' (books w)" using c'(2) c(4) row by (auto simp: agrees_def split: if_splits)
  then show ?thesis using c1 c(3) c'(1) by (auto simp: holds_def)
qed

lemma fill_holds:
  assumes "hydrate_loop alloc p (map (fetch_row [(n1, MYSQL_TYPE_LONGLONG), (n2, MYSQL_TYPE_LONGLONG)] \<circ> id_row) rs) = Some p'"
    and "holds books v n p w" and "n + length rs + 2000 < 2 ^ 32"
    and "list_all (\<lambda>(i, ck). \<exists>row. stored (books w) i = Some row \<and> row ''_checksum'' = Some (id_bind ck)) rs"
  shows "holds books v (n + length rs) p' w"
  using assms
proof (induction rs arbitrary: p n)
  case (Cons r rs)
  obtain i ck where r: "r = (i, ck)" by fastforce
  obtain ok p1 where set: "cache_set_item alloc p i ck = Some (ok, p1)"
      and rest: "hydrate_loop alloc p1 (map (fetch_row [(n1, MYSQL_TYPE_LONGLONG), (n2, MYSQL_TYPE_LONGLONG)] \<circ> id_row) rs) = Some p'"
    using Cons.prems(1) r by (auto simp: hydrate_id_row comp_def simp del: hydrate_loop.simps split: bind_splits)
  obtain row where row: "stored (books w) i = Some row" "row ''_checksum'' = Some (id_bind ck)" using Cons.prems(4) r by auto
  have "holds books v (Suc n) p1 w" by (rule set_holds [OF Cons.prems(2) _ set row]) (use Cons.prems(3) in simp)
  from Cons.IH [OF rest this] show ?case using Cons.prems(3,4) by simp
qed simp

lemma new_cache_holds: "cache_create alloc \<noteq> NULL \<Longrightarrow> holds books 1 0 (cache_create alloc) w"
  using cache_create_wf [of alloc]
  by (auto simp: cache_create_def holds_def within_def agrees_def known_def split: if_splits)

lemma hydrate_holds:
  assumes laws: "chain_laws env books" and reads: "reads_checksums (st_api (mn_sync env)) books m" and room: "m + 2000 < 2 ^ 32"
    and run: "hydrate_cache env conf conn p project_select w = Some ((ok, conn', p'), w')" and inv: "holds books v 0 p w"
  shows "holds books v m p' w'"
proof -
  obtain q where q: "bx_database_new_query project_select = Some (Ptr q)" "fresh_query project_select q"
    using new_fresh_query [OF project_select_names] by blast
  let ?api = "st_api (mn_sync env)"
  obtain e q' w1 where h: "bx_cache_hydrate (se_alloc (mn_sync env)) ?api p (Ptr q) w = Some (e, p', q', w1)" and w': "books w' = books w1"
    using run q(1) reconnect_rows [OF laws] by (auto simp: hydrate_cache_def split: bind_splits if_splits)
  have kept: "books w1 = books w" by (rule hydrate_rows_kept [OF chain_laws_projects(2) [OF laws] select_sql(2) q(1) h])
  have weak: "holds books v m p w1" using inv kept more_list [of books v 0 p w1 m] by (simp add: holds_def)
  obtain ok1 q1 w2 where x: "bx_database_execute ?api q w = (ok1, q1, w2)" by (metis prod_cases3)
  obtain got q2 w3 where r: "bx_database_results ?api q1 w2 = (got, q2, w3)" by (metis prod_cases3)
  have "holds books v m p' w1"
  proof (cases "ok1 \<and> got")
    case False
    then have "p' = p" using h x r by (auto simp: bx_cache_hydrate_def split: if_splits)
    then show ?thesis using weak by simp
  next
    case True
    have ran: "bx_database_execute ?api q w = (True, q1, w2)" "bx_database_results ?api q1 w2 = (True, q2, w3)"
      using x r True by simp_all
    from select_gives [OF reads chain_laws_projects(3) [OF laws] q(2) ran]
    obtain n1 n2 rs where rs: "dq_results q2 = map (fetch_row [(n1, MYSQL_TYPE_LONGLONG), (n2, MYSQL_TYPE_LONGLONG)] \<circ> id_row) rs"
        "length rs \<le> m" "list_all (\<lambda>(i, ck). \<exists>row. stored (books w3) i = Some row \<and> row ''_checksum'' = Some (id_bind ck)) rs"
      by (elim exE conjE) (rule that)
    have fill: "hydrate_loop (se_alloc (mn_sync env)) p (dq_results q2) = Some p'" "w1 = w3"
      using h x r True by (auto simp: bx_cache_hydrate_def split: if_splits)
    have "holds books v 0 p w3" using inv kept fill(2) by (simp add: holds_def)
    from fill_holds [OF fill(1) [unfolded rs(1)] this _ rs(3)] have "holds books v (length rs) p' w1"
      using fill(2) room rs(2) by simp
    then show ?thesis using more_list [of books v "length rs" p' w1 "m - length rs"] rs(2) by simp
  qed
  then show ?thesis using w' by (simp add: holds_def)
qed

lemma other_hydrate:
  assumes laws: "chain_laws env books" and "foreign sql" and run: "hydrate_cache env conf conn p sql w = Some (r, w')"
  shows "books w' = books w"
proof -
  obtain query e p1 q1 w1 where h: "bx_database_new_query sql = Some query"
      "bx_cache_hydrate (se_alloc (mn_sync env)) (st_api (mn_sync env)) p query w = Some (e, p1, q1, w1)"
      and w': "books w' = books w1"
    using run reconnect_rows [OF laws] by (auto simp: hydrate_cache_def split: bind_splits if_splits)
  then show ?thesis using hydrate_rows_kept [OF chain_laws_projects(2) [OF laws] assms(2) h] by simp
qed

lemma start_holds:
  assumes laws: "chain_laws env books" and reads: "reads_checksums (st_api (mn_sync env)) books m" and room: "m + 2000 < 2 ^ 32"
    and run: "chain_thread_start env ch = Some (Ptr st, w)"
  shows "chain_holds books 1 m st"
proof -
  let ?sync = "mn_sync env" and ?conf = "ch_conf ch" and ?new = "cache_create (se_alloc (mn_sync env))"
  obtain a w0 conn1 cc w1 conn2 pc w2 conn3 ic w3 e w4 conn4 w5 cq pq iq where
      begun: "thread_setup_mysql env ?conf (ch_world ch) = (Ptr a, w0)" and new: "?new \<noteq> NULL"
      and cc: "hydrate_cache env ?conf (Ptr a) ?new contact_select w0 = Some ((True, conn1, cc), w1)"
      and pc: "hydrate_cache env ?conf conn1 ?new project_select w1 = Some ((True, conn2, pc), w2)"
      and ic: "hydrate_cache env ?conf conn2 ?new invoice_select w2 = Some ((True, conn3, ic), w3)"
      and lang: "bx_language_load ?sync (se_walk ?sync) w3 = Some (e, w4)"
      and conn: "(if e = ErrorSQLReconnect then thread_reconnect env ?conf conn3 w4 else Some (conn3, w4)) = Some (conn4, w5)"
      and queries: "bx_database_new_query contact_delete = Some cq" "bx_database_new_query project_delete = Some pq"
        "bx_database_new_query invoice_delete = Some iq"
      and st: "st = \<lparr>ct_chain = ch\<lparr>ch_contacts := cc, ch_projects := pc, ch_invoices := ic, ch_world := w5\<rparr>,
         ct_conn = conn4, ct_contact_prune = cq, ct_project_prune = pq, ct_invoice_prune = iq, ct_errors = 0\<rparr>"
    using run unfolding chain_thread_start_def Let_def
    by (auto split: bind_splits if_splits prod.splits ptr.splits)
  have "books w3 = books w2" by (rule other_hydrate [OF laws select_sql(3) ic])
  moreover have "books w4 = books w3" by (rule keepsD [OF keeps_languages [OF chain_laws_projects(2) [OF laws]] lang])
  moreover have "books w5 = books w4" using conn reconnect_rows [OF laws] by (auto split: if_splits)
  moreover have "holds books 1 m pc w2" by (rule hydrate_holds [OF laws reads room pc new_cache_holds [OF new]])
  ultimately have "holds books 1 m pc w5" by (simp add: holds_def)
  then show ?thesis
    using new_pass_query [OF queries(1)] new_pass_query [OF queries(2)] new_pass_query [OF queries(3)]
    by (simp add: st chain_holds_def)
qed

section \<open>Any number of turns\<close>

text \<open>The states of the thread at the head of its loop, after the given number of turns.\<close>

inductive turns_to :: "'w main_env \<Rightarrow> nat \<Rightarrow> 'w chain_thread_state \<Rightarrow> 'w chain_thread_state \<Rightarrow> bool" for env where
  none: "turns_to env 0 st st"
| turn: "chain_running env st = (True, st1) \<Longrightarrow> chain_turn env st1 = Some (True, st2) \<Longrightarrow> turns_to env k st2 st' \<Longrightarrow>
    turns_to env (Suc k) st st'"

inductive_cases turns_to_Suc: "turns_to env (Suc k) st st'"
inductive_cases turns_to_0: "turns_to env 0 st st'"

lemma running_holds:
  assumes "chain_laws env books" and "chain_running env st = (go, st')" and "chain_holds books v n st"
  shows "chain_holds books v n st'"
proof -
  obtain go1 w where r: "mn_run env (ch_world (ct_chain st)) = (go1, w)" by fastforce
  show ?thesis using assms(2,3) r chain_laws_calls(5) [OF assms(1) r] by (auto simp: chain_running_def chain_holds_def holds_def)
qed

lemma turns_hold:
  assumes laws: "chain_laws env books" and served: "serves (se_walk (mn_sync env)) WALK_PROJECT_PATH NULL items"
  shows "turns_to env k st st' \<Longrightarrow> chain_holds books v n st \<Longrightarrow> n + k * length items + 2000 \<le> 2 ^ 32 \<Longrightarrow> v + k < 2 ^ 64 - 1 \<Longrightarrow>
    chain_holds books (v + k) (n + k * length items) st'"
proof (induction arbitrary: v n rule: turns_to.induct)
  case (turn st st1 st2 k st')
  have "chain_holds books v n st1" by (rule running_holds [OF laws turn.hyps(1) turn.prems(1)])
  from turn_holds [OF laws served _ _ this turn.hyps(2)] have "chain_holds books (Suc v) (n + length items) st2"
    using turn.prems(2,3) by simp
  from turn.IH [OF this] show ?case using turn.prems(2,3) by (simp add: algebra_simps)
qed simp

text \<open>The loop of the thread ends after a number of such turns, by a stop or by a turn that fails.\<close>

lemma loop_turns:
  assumes "thread_loop (chain_running env) (chain_turn env) st = Some (code, st')"
  shows "\<exists>k st1 st2 go. turns_to env k st st1 \<and> chain_running env st1 = (go, st2) \<and>
    (if go then code = 1 \<and> chain_turn env st2 = Some (False, st') else code = 0 \<and> st' = st2)"
proof -
  let ?ends = "\<lambda>st (code, st'). \<exists>k st1 st2 go. turns_to env k st st1 \<and> chain_running env st1 = (go, st2) \<and>
    (if go then code = 1 \<and> chain_turn env st2 = Some (False, st') else code = (0::nat) \<and> st' = st2)"
  have "chain_running env = chain_running env \<and> chain_turn env = chain_turn env \<longrightarrow> ?ends st (code, st')"
    using assms
  proof (rule thread_loop.raw_induct [rotated, where P = "\<lambda>running turn st r. running = chain_running env \<and> turn = chain_turn env \<longrightarrow> ?ends st r"])
    fix loop running turn and st :: "'a chain_thread_state" and r
    assume IH: "\<And>running turn st r. loop running turn st = Some r \<Longrightarrow>
        running = chain_running env \<and> turn = chain_turn env \<longrightarrow> ?ends st r"
      and body: "(case running st of (run, s1) \<Rightarrow> if \<not> run then Some (0, s1)
          else turn s1 \<bind> (\<lambda>(go, s2). if go then loop running turn s2 else Some (1, s2))) = Some r"
    show "running = chain_running env \<and> turn = chain_turn env \<longrightarrow> ?ends st r"
    proof
      assume same: "running = chain_running env \<and> turn = chain_turn env"
      obtain run s1 where s1: "chain_running env st = (run, s1)" by fastforce
      show "?ends st r"
      proof (cases run)
        case False
        then show ?thesis using body s1 same none [of env st] by fastforce
      next
        case True
        obtain go s2 where s2: "chain_turn env s1 = Some (go, s2)" using body s1 same True by (auto split: bind_splits)
        show ?thesis
        proof (cases go)
          case False
          then show ?thesis using body s1 s2 same True none [of env st] by fastforce
        next
          case True
          then have "loop running turn s2 = Some r" using body s1 s2 same \<open>run\<close> by simp
          from IH [OF this] same have "?ends s2 r" by simp
          moreover obtain code st' where r: "r = (code, st')" by fastforce
          ultimately obtain k x y g where ends: "turns_to env k s2 x" "chain_running env x = (g, y)"
              "if g then code = 1 \<and> chain_turn env y = Some (False, st') else code = 0 \<and> st' = y"
            unfolding r prod.case by (elim exE conjE) (rule that)
          have "turns_to env (Suc k) st x" using turn [of env st s1 s2 k x] s1 s2 True \<open>run\<close> ends(1) by simp
          then show ?thesis unfolding r prod.case using ends(2,3) by blast
        qed
      qed
    qed
  qed
  then show ?thesis by simp
qed

section \<open>Properties\<close>


text \<open>A server with two projects, that runs the statements on them, and an API that lists the first.\<close>

definition life_execute :: "string \<Rightarrow> MYSQL_BIND list \<Rightarrow> (u64 \<rightharpoonup> stored_row) \<times> bool \<Rightarrow> nat \<times> (u64 \<rightharpoonup> stored_row) \<times> bool" where
  "life_execute t bs w =
     (if t = project_select then (0, fst w, True)
      else if t = ''DELETE FROM pr_project WHERE id = ?'' then (0, (fst w)(bind_u64 (hd bs) := None), False)
      else case project_execute t bs (fst w) of (e, m) \<Rightarrow> (e, m, False))"

definition life_listing :: "(u64 \<rightharpoonup> stored_row) \<Rightarrow> (u64 \<times> u64) list" where
  "life_listing m = filter (\<lambda>(i, ck). case m i of None \<Rightarrow> False | Some row \<Rightarrow> row ''_checksum'' = Some (id_bind ck)) [(4, 8), (6, 3)]"

definition life_server :: "((u64 \<rightharpoonup> stored_row) \<times> bool) stmt_api" where
  "life_server = \<lparr>sa_prepare = (\<lambda>t w. (0, w)), sa_bind = (\<lambda>bs w. (0, w)), sa_execute = life_execute, sa_affected_rows = (\<lambda>w. 1),
     sa_result_metadata = (\<lambda>w. if snd w then Ptr [(''id'', MYSQL_TYPE_LONGLONG), (''_checksum'', MYSQL_TYPE_LONGLONG)] else NULL),
     sa_metadata_errno = (\<lambda>w. 0), sa_warning_count = (\<lambda>w. 0), sa_show_warnings = (\<lambda>w. (Inl [], w)),
     sa_fetch = (\<lambda>w. (map id_row (life_listing (fst w)), 0, w))\<rparr>"

definition life_sync :: "((u64 \<rightharpoonup> stored_row) \<times> bool) sync_env" where
  "life_sync = \<lparr>st_api = life_server, st_digest = (\<lambda>bytes. 8), st_libc = \<lparr>lc_strtod = (\<lambda>s. 0), lc_fmt_e = (\<lambda>v. ''0'')\<rparr>,
     st_time = (\<lambda>w. (0, w)), st_dead = (\<lambda>v. v), se_alloc = (\<lambda>n. True), se_walk = list_env [JObject [(''id'', JInt 4)]], se_countries = NULL\<rparr>"

definition life_env :: "((u64 \<rightharpoonup> stored_row) \<times> bool) main_env" where
  "life_env = \<lparr>mn_sync = life_sync,
     mn_file = \<lparr>fa_size = (\<lambda>p w. None), fa_mkdir = (\<lambda>p w. (True, w)),
       fa_write = (\<lambda>p d w. (None, w)), fa_rename = (\<lambda>p q w. (True, w)), fa_unlink = (\<lambda>p w. w)\<rparr>,
     mn_raw = list_env [],
     mn_mysql = \<lparr>my_connect = (\<lambda>h u p d w. (True, w)), my_query = (\<lambda>q w. (True, w)), my_select = (\<lambda>q w. (NULL, w)),
       my_execute = (\<lambda>q vs w. (True, w))\<rparr>,
     mn_xxh = (\<lambda>k. of_nat (length k)), mn_init = (\<lambda>w. (Ptr 2, w)),
     mn_connect = (\<lambda>h u p d w. (True, w)), mn_close = (\<lambda>a w. w), mn_ping = (\<lambda>a w. ((True, 0), w)),
     mn_run = (\<lambda>w. (True, w)), mn_standby = (\<lambda>w. (False, w)), mn_sleep = (\<lambda>w. w)\<rparr>"

definition life_rows :: "u64 \<rightharpoonup> stored_row" where
  "life_rows = [4 \<mapsto> [''_checksum'' \<mapsto> id_bind 8], 6 \<mapsto> [''_checksum'' \<mapsto> id_bind 3]]"

definition life_chain :: "((u64 \<rightharpoonup> stored_row) \<times> bool) chain_state" where
  "life_chain = \<lparr>ch_cursor = \<lparr>cc_phase = BX_CHAIN_PROJECT, cc_offset = 0\<rparr>, ch_contact_from_zero = False, ch_invoice_from_zero = False,
     ch_conf = [], ch_contacts = NULL, ch_projects = NULL, ch_invoices = NULL, ch_world = (life_rows, False)\<rparr>"

lemma life_texts:
  "fst (sql_params project_delete) = ''DELETE FROM pr_project WHERE id = ?''" "writes_to ''pr_project'' ''DELETE FROM pr_project WHERE id = ?''"
  by code_simp+

lemma life_runs:
  assumes "runs_statement (st_api stored_env) (\<lambda>w. w) sql" and "fst (sql_params sql) \<noteq> project_select"
    and "fst (sql_params sql) \<noteq> ''DELETE FROM pr_project WHERE id = ?''"
  shows "runs_statement life_server fst sql"
  unfolding runs_statement_def
proof (intro allI impI)
  fix st bs w e w1
  assume st: "read_statement sql = Some st" "length bs = length (statement_params st)"
    and run: "sa_execute life_server (fst (sql_params sql)) bs w = (e, w1)"
  have x: "project_execute (fst (sql_params sql)) bs (fst w) = (e, fst w1)"
    using run assms(2,3) by (auto simp: life_server_def life_execute_def split: prod.splits)
  have "sa_warning_count (st_api stored_env) (fst w1) = 0" by (simp add: stored_env_def project_server_def)
  with assms(1) [unfolded runs_statement_def project_server_simps, rule_format, OF st x]
  show "dom (fst w) \<subseteq> dom (fst w1) \<and> (\<forall>j. j \<noteq> statement_key st bs \<longrightarrow> fst w1 j = fst w j) \<and>
      (e = 0 \<and> sa_warning_count life_server w1 = 0 \<longrightarrow> fst w1 = statement_effect st bs (fst w))" by simp
qed

lemma life_quiet: "quiet_api life_server fst"
  by (simp add: quiet_api_def life_server_def)

lemma life_alone: "table_alone life_sync ''pr_project'' fst"
proof -
  have "fst (snd (life_execute t bs w)) = fst w" if "\<not> writes_to ''pr_project'' t" for t bs w
    using that life_texts(2) project_texts_write by (auto simp: life_execute_def project_execute_def)
  then show ?thesis
    using life_quiet by (auto simp: table_alone_def life_sync_def life_server_def list_env_def split: list.splits ptr.splits BXAny.splits)
qed

lemma life_texts_differ:
  assumes "sql = project_insert \<or> sql = project_update"
  shows "fst (sql_params sql) \<noteq> project_select" "fst (sql_params sql) \<noteq> ''DELETE FROM pr_project WHERE id = ?''"
  using assms project_texts by auto

text \<open>Its writes are all clean, so no row is ever in doubt.\<close>

definition life_books :: "(u64 \<rightharpoonup> stored_row) \<times> bool \<Rightarrow> books" where
  "life_books w = (fst w, {})"

lemma life_account: "keeps_account life_server life_books"
proof -
  have "clean_run life_server e w1 \<or> fst w1 = fst w" if "sa_execute life_server t bs w = (e, w1)" for t bs w e w1
    using that by (auto simp: clean_run_def life_server_def life_execute_def project_execute_def split: if_splits prod.splits)
  then show ?thesis
    unfolding keeps_account_def by (auto simp: life_books_def rewritten_def) metis+
qed

lemma life_laws: "chain_laws life_env life_books"
proof -
  have "table_alone life_sync ''pr_project'' life_books"
    using life_alone by (auto simp: table_alone_def quiet_api_def life_books_def)
  then have "project_laws life_sync life_books"
    using life_runs [OF project_server_runs(1) life_texts_differ] life_runs [OF project_server_runs(2) life_texts_differ] life_account
    by (simp add: project_laws_def life_sync_def life_books_def)
  moreover have "deletes_own life_server life_books ''DELETE FROM pr_project WHERE id = ?''"
    by (auto simp: deletes_own_def life_server_def life_execute_def life_books_def)
  moreover have "st_api life_sync = life_server" by (simp add: life_sync_def)
  moreover have "keeps_account life_server life_books" by (rule life_account)
  ultimately show ?thesis
    unfolding chain_laws_def life_texts(1) by (simp add: life_env_def settings_apart_def life_books_def)
qed

lemma life_listed:
  "length (life_listing m) \<le> 2" "list_all (\<lambda>(i, ck). \<exists>row. m i = Some row \<and> row ''_checksum'' = Some (id_bind ck)) (life_listing m)"
  by (simp_all add: life_listing_def list_all_iff split: option.split)

lemma life_reads: "reads_checksums (st_api (mn_sync life_env)) life_books 2"
  using life_listed
  by (auto simp: reads_checksums_def life_books_def life_env_def life_sync_def life_server_def life_execute_def intro!: exI [of _ "life_listing _"])

lemma life_serves: "serves (se_walk (mn_sync life_env)) path extra [JObject [(''id'', JInt 4)]]"
  by (simp add: life_env_def life_sync_def list_env_serves)

text \<open>Its start fills the cache with the two projects.\<close>

lemma life_api: "mn_sync life_env = life_sync" "st_api life_sync = life_server" "se_alloc life_sync = (\<lambda>n. True)"
  by (simp_all add: life_env_def life_sync_def)

lemma life_projects:
  "\<exists>c. hydrate_cache life_env [] (Ptr 2) (cache_create (\<lambda>n. True)) project_select (life_rows, d) = Some ((True, Ptr 2, Ptr c), life_rows, True) \<and>
     within 2 c \<and> c_version c = 1 \<and> known c 4 = Some 8"
proof -
  obtain q where q: "bx_database_new_query project_select = Some (Ptr q)" "fresh_query project_select q"
    using new_fresh_query [OF project_select_names] by blast
  note fq = q(2) [unfolded fresh_query_def]
  let ?cols = "[(''id'', MYSQL_TYPE_LONGLONG), (''_checksum'', MYSQL_TYPE_LONGLONG)]"
  obtain q1 where x: "bx_database_execute life_server q (life_rows, d) = (True, q1, life_rows, True)"
      "dq_has_dataset q1" "\<not> dq_has_failed q1" "dq_results q1 = []" "dq_fields q1 = NULL" "dq_result_metadata q1 = Ptr ?cols"
    using fq by (simp add: bx_database_execute_def execute_prepared_def life_server_def life_execute_def Let_def)
  have "life_listing life_rows = [(4, 8), (6, 3)]" by (simp add: life_listing_def life_rows_def)
  then obtain q2 where r: "bx_database_results life_server q1 (life_rows, True) = (True, q2, life_rows, True)"
      "dq_results q2 = map (fetch_row ?cols \<circ> id_row) [(4, 8), (6, 3)]"
    using x by (simp add: bx_database_results_def life_server_def free_query_metadata_def Let_def)
  obtain c0 where new: "cache_create (\<lambda>n. True) = Ptr c0" "c_size c0 = 0" by (simp add: cache_create_def)
  then have c0: "cache_create (\<lambda>n. True) = Ptr c0" "within 0 c0" "c_version c0 = 1"
    using cache_create_wf [OF new(1)] by (simp_all add: within_def)
  obtain c where c: "hydrate_loop (\<lambda>_. True) (Ptr c0) (map (fetch_row ?cols \<circ> id_row) [(4, 8), (6, 3)]) = Some (Ptr c)"
      "within (0 + length [(4 :: u64, 8 :: u64), (6, 3)]) c" "c_version c = c_version c0"
      "cache_map c = cache_map c0 ++ map_of (map (\<lambda>(i, ck). (i, (ck, c_version c0))) (rev [(4, 8), (6, 3)]))"
    using hydrate_rows [OF c0(2), of "[(4, 8), (6, 3)]"] by auto
  have "known c 4 = Some 8" using c(4) c0(3) by (simp add: known_def)
  moreover have "hydrate_cache life_env [] (Ptr 2) (cache_create (\<lambda>n. True)) project_select (life_rows, d) = Some ((True, Ptr 2, Ptr c), life_rows, True)"
    using q(1) x(1) r c(1) by (simp add: hydrate_cache_def bx_cache_hydrate_def life_api c0(1))
  ultimately show ?thesis using c(2,3) c0(3) by (auto simp: numeral_2_eq_2)
qed

lemma life_other:
  assumes "t \<in> {contact_select, invoice_select}"
  shows "life_execute t bs w = (0, fst w, False)" "sql_params t = (t, [])" "list_all (\<lambda>c. c \<noteq> NUL) t"
proof -
  show "life_execute t bs w = (0, fst w, False)" using assms project_texts by (auto simp: life_execute_def project_execute_def)
  show "sql_params t = (t, [])" "list_all (\<lambda>c. c \<noteq> NUL) t" using assms by (elim insertE emptyE; simp only:; code_simp)+
qed

lemma life_empty:
  assumes "sql \<in> {contact_select, invoice_select}"
  shows "hydrate_cache life_env [] (Ptr 2) p sql w = Some ((True, Ptr 2, p), fst w, False)"
proof -
  have "sql \<noteq> []" using assms by auto
  then obtain q where q: "bx_database_new_query sql = Some (Ptr q)" "fresh_query sql q"
    using new_fresh_query [OF life_other(2,3) [OF assms]] by blast
  note fq = q(2) [unfolded fresh_query_def]
  obtain q1 where x: "bx_database_execute life_server q w = (True, q1, fst w, False)"
      "\<not> dq_has_dataset q1" "\<not> dq_has_failed q1" "dq_results q1 = []"
    using fq life_other(1) [OF assms] by (simp add: bx_database_execute_def execute_prepared_def life_server_def Let_def)
  then have "bx_database_results life_server q1 (fst w, False) = (True, q1, fst w, False)" by (simp add: bx_database_results_def)
  then show ?thesis using q(1) x by (simp add: hydrate_cache_def bx_cache_hydrate_def life_api)
qed

lemma life_start:
  "\<exists>c st. chain_thread_start life_env life_chain = Some (Ptr st, life_rows, False) \<and> ct_conn st = Ptr 2 \<and> ct_errors st = 0 \<and>
     ch_cursor (ct_chain st) = ch_cursor life_chain \<and> ch_conf (ct_chain st) = [] \<and> ch_world (ct_chain st) = (life_rows, False) \<and>
     ch_projects (ct_chain st) = Ptr c \<and> within 2 c \<and> c_version c = 1 \<and> known c 4 = Some 8 \<and>
     (\<exists>q. ct_project_prune st = Ptr q \<and> id_query (fst (sql_params project_delete)) q)"
proof -
  let ?new = "cache_create (\<lambda>n. True)"
  obtain c where c: "hydrate_cache life_env [] (Ptr 2) ?new project_select (life_rows, False) = Some ((True, Ptr 2, Ptr c), life_rows, True)"
      "within 2 c" "c_version c = 1" "known c 4 = Some 8"
    using life_projects by blast
  obtain cq pq iq where q: "bx_database_new_query contact_delete = Some (Ptr cq)" "bx_database_new_query project_delete = Some (Ptr pq)"
      "bx_database_new_query invoice_delete = Some (Ptr iq)" "id_query (fst (sql_params project_delete)) pq"
    using delete_queries by (meson insertCI)
  have conf: "thread_setup_mysql life_env [] w = (Ptr 2, w)" for w by (simp add: thread_setup_mysql_def life_env_def Let_def)
  have new: "?new \<noteq> NULL" by (simp add: cache_create_def)
  have lang: "bx_language_load life_sync (se_walk life_sync) w = Some (ErrorNet, w)" for w
    by (simp add: bx_language_load_def life_sync_def list_env_def)
  have chain: "ch_conf life_chain = []" "ch_world life_chain = (life_rows, False)" by (simp_all add: life_chain_def)
  show ?thesis
    using c q life_empty [of contact_select "?new" "(life_rows, False)"] life_empty [of invoice_select "?new" "(life_rows, True)"]
    by (simp add: chain_thread_start_def life_api chain conf new lang Let_def)
qed

text \<open>A turn of it sees the first project again.\<close>

lemma life_project:
  assumes "cache_wf c" and "known c 4 = Some 8"
  shows "\<exists>c'. bx_project_sync life_sync (Ptr ()) (JObject [(''id'', JInt 4)]) (Ptr c, w) = Some (NoError, Ptr c', w) \<and> cache_wf c'"
proof -
  have "\<exists>obj. decode_members life_sync project_fields (JObject [(''id'', JInt 4)]) = Some (obj, 8) \<and> bu_value (uint_member obj ''id'') = 4"
    by (simp add: decode_members_def project_fields_def listed_reads hash_digest_def life_sync_def uint_member_def member_def fname_def Let_def)
  moreover obtain st p where check: "cache_check_item (Ptr c) 4 8 = Some (st, p)"
    using cache_check_item_spec [OF assms(1), of 4 8] by auto
  moreover from check_known [OF assms(1) check] assms(2) obtain c' where "p = Ptr c'" "cache_wf c'" "st = CacheOk" by auto
  ultimately show ?thesis by (auto simp: bx_project_sync_def)
qed

abbreviation life_program :: "((u64 \<rightharpoonup> stored_row) \<times> bool) chain_env" where
  "life_program \<equiv> program_env (mn_xxh life_env) (mn_mysql life_env) life_sync (Ptr ())"

lemma life_walk:
  assumes "by_offset path_fmt"
  shows "bx_walk_pages_from (chain_walk life_program) path_fmt extra False sync 0 on_page st =
    walk_rows sync on_page 0 [JObject [(''id'', JInt 4)]] st"
  using walk_loop_served [OF chain_serves [OF life_serves [unfolded life_api(1)]] assms, of _ _ "Ptr ()" extra sync on_page 0 st] assms
  by (simp add: bx_walk_pages_from_def first_offset_def by_offset_def)

definition life_result :: "BXChainResult \<Rightarrow> bool" where
  "life_result cr \<longleftrightarrow> \<not> cr_prune_contact cr \<and> \<not> cr_prune_invoice cr \<and> \<not> cr_bump_contact cr \<and> \<not> cr_bump_invoice cr"

lemma life_chain_sync:
  assumes "ch_cursor st = ch_cursor life_chain" and "ch_projects st = Ptr c" and "cache_wf c" and "known c 4 = Some 8"
  shows "\<exists>cr st' c'. bx_chain_sync life_program (Ptr ()) st = Some (cr, st') \<and> life_result cr \<and> ch_projects st' = Ptr c' \<and> cache_wf c'"
proof -
  have apart: "settings_apart (mn_mysql life_env) fst" by (simp add: settings_apart_def life_env_def)
  let ?page = "on_validated_page life_program (Ptr ()) BX_CHAIN_PROJECT"
  obtain c' where c': "bx_project_sync life_sync (Ptr ()) (JObject [(''id'', JInt 4)]) (Ptr c, ch_world st) = Some (NoError, Ptr c', ch_world st)"
      "cache_wf c'"
    using life_project [OF assms(3,4)] by blast
  let ?st = "st\<lparr>ch_projects := Ptr c'\<rparr>"
  have item: "project_page_item life_program (JObject [(''id'', JInt 4)]) st = Some (NoError, ?st)"
    using c'(1) assms(2) by (simp add: project_page_item_def program_env_def)
  obtain x where "?page 500 ?st = Some x" by (simp add: on_validated_page_def)
  then obtain pe st1 where page: "?page 500 ?st = Some (pe, st1)" by (cases x) simp
  have view: "view fst st1 = view fst ?st" by (rule keepsD [OF keeps_validated_page [OF apart] page])
  have walk: "bx_project_walk_item_from life_program 0 (Ptr ?page) st = Some (pe, st1)"
    using item page by (simp add: bx_project_walk_item_from_def life_walk paths_by_offset walk_rows.simps split: if_splits)
  obtain r st2 where fin: "finish_resource life_program (Ptr ()) BX_CHAIN_INVOICE_LIST False True False st1 = (r, st2)" by fastforce
  have "view fst st2 = view fst st1" by (rule finish_view [OF apart fin])
  moreover have "life_result r" using fin by (auto simp: finish_resource_def life_result_def split: prod.splits)
  moreover have "cc_phase (ch_cursor st) = BX_CHAIN_PROJECT" "cc_offset (ch_cursor st) = 0" using assms(1) by (simp_all add: life_chain_def)
  ultimately show ?thesis
    using walk fin view c'(2)
    by (auto simp: bx_chain_sync_def chain_project_def fail_resource_def life_result_def view_def Let_def)
qed

lemma life_pass:
  assumes "cache_wf c" and "id_query t q"
  shows "\<exists>e c' q' w'. bx_prune_items xxh conf api (Ptr c) (Ptr q) w = Some (e, Ptr c', Ptr q', w') \<and> cache_wf c'"
proof -
  have "deletes_by_id api t (\<lambda>_. {})" by (simp add: deletes_by_id_def)
  from prune_loop_all [OF this assms(2,1), of "prune_drift xxh conf" w]
  obtain e c1 q1 w1 where loop: "prune_items_loop api (prune_drift xxh conf) (Ptr c) (cache_iter_init (Ptr c)) q w = Some (e, Ptr c1, q1, w1)"
      "cache_wf c1" by blast
  obtain c2 where "cache_prune (Ptr c1) = Some (Ptr c2)" "cache_wf c2" using cache_prune_spec [OF loop(2)] by blast
  then show ?thesis using loop by (cases e) (auto simp: bx_prune_items_def)
qed

lemma life_after:
  assumes "ct_conn st = Ptr 2" and "ct_errors st = 0"
  shows "\<exists>conn n. after_sync life_env e st = Some (True, st\<lparr>ct_conn := conn, ct_errors := n\<rparr>)"
  using assms
  by (cases e)
     (auto simp: after_sync_def thread_handle_error_def ping_lost_def thread_reconnect_def thread_setup_mysql_def thread_teardown_mysql_def
      count_error_def BXILL_THREAD_EXIT_MAX_COUNT_def life_env_def lost_connection_def Let_def
)

lemma life_turn:
  assumes st: "ct_conn st = Ptr 2" "ct_errors st = 0" "ch_cursor (ct_chain st) = ch_cursor life_chain" "ch_projects (ct_chain st) = Ptr c"
      "cache_wf c" "known c 4 = Some 8" and q: "ct_project_prune st = Ptr q" "id_query t q"
  shows "\<exists>st'. turns_to life_env 1 st st'"
proof -
  have calls: "mn_run life_env w = (True, w)" "mn_standby life_env w = (False, w)" for w by (simp_all add: life_env_def)
  have run: "chain_running life_env st = (True, st)" by (simp add: chain_running_def calls)
  have wait: "wait_standby life_env w = Some w" for w by (simp add: wait_standby.simps calls)
  obtain cr ch c1 where sync: "bx_chain_sync life_program (Ptr ()) (ct_chain st) = Some (cr, ch)" "life_result cr"
      "ch_projects ch = Ptr c1" "cache_wf c1"
    using life_chain_sync [OF st(3-6)] by blast
  have "\<exists>e c2 pq w. prune_if life_env (ch_conf ch) (cr_prune_project cr) (cr_error cr) (ch_projects ch) (ct_project_prune st) (ch_world ch)
        = Some (e, Ptr c2, pq, w) \<and> cache_wf c2"
  proof (cases "cr_error cr = NoError \<and> cr_prune_project cr")
    case True
    then show ?thesis
      using life_pass [OF sync(4) q(2), of "mn_xxh life_env" "ch_conf ch" "st_api (mn_sync life_env)" "ch_world ch"] sync(3) q(1)
      by (auto simp: prune_if_def)
  qed (use sync(3,4) in \<open>auto simp: prune_if_def\<close>)
  then obtain e c2 pq w where pass: "prune_if life_env (ch_conf ch) (cr_prune_project cr) (cr_error cr) (ch_projects ch) (ct_project_prune st) (ch_world ch)
        = Some (e, Ptr c2, pq, w)" "cache_wf c2" by blast
  let ?st1 = "st\<lparr>ct_chain := ch\<lparr>ch_projects := Ptr c2, ch_world := w\<rparr>, ct_project_prune := pq\<rparr>"
  have prune: "prune_all life_env cr (st\<lparr>ct_chain := ch\<rparr>) = Some (e, ?st1)"
    using pass sync(2) by (simp add: prune_all_def life_result_def prune_if_def Let_def)
  obtain conn n where after: "after_sync life_env e ?st1 = Some (True, ?st1\<lparr>ct_conn := conn, ct_errors := n\<rparr>)"
    using life_after [of ?st1 e] st(1,2) by auto
  obtain c3 where "cache_next_version (Ptr c2) = Some (Ptr c3)" using cache_next_version_spec [OF pass(2)] by blast
  then obtain st3 where bump: "bump_caches cr (?st1\<lparr>ct_conn := conn, ct_errors := n\<rparr>) = Some st3"
    using sync(2) by (cases "cr_bump_project cr") (auto simp: bump_caches_def bump_if_def life_result_def Let_def)
  obtain st4 where "chain_turn life_env st = Some (True, st4)"
    using wait sync(1) prune after bump st(1) by (simp add: chain_turn_def handle_of_def life_api Let_def)
  then show ?thesis using turns_to.turn [OF run _ turns_to.none] by auto
qed


end
